(* ===== verification/Js_Prelude.thy ===== *)
theory Js_Prelude
  imports Main "HOL-Library.List_Lexorder" "HOL-Library.Char_ord"
begin

text \<open>
  What every component of the development shares: results that may be an error (a thrown
  exception of the TypeScript code), dictionaries as association lists in insertion order,
  \<open>Array.prototype.at(-1)\<close>, the order in which JavaScript lists the own keys of an object,
  safe integers, and the regular expressions \<open>identifier\<close>, \<open>uuid\<close> and \<open>digest\<close> that the
  packages repeat. A HOL \<open>string\<close> stands for the JavaScript string with the same code units
  (all below 256).
\<close>

named_theorems result_simps \<open>when a computation that may throw returns\<close>
named_theorems dict_simps \<open>lookups after updates of association lists\<close>

section \<open>Results\<close>

definition bindE :: "'e + 'a \<Rightarrow> ('a \<Rightarrow> 'e + 'b) \<Rightarrow> 'e + 'b" where
  "bindE m f = (case m of Inl e \<Rightarrow> Inl e | Inr x \<Rightarrow> f x)"

definition check :: "bool \<Rightarrow> 'e \<Rightarrow> 'e + unit" where
  "check b e = (if b then Inr () else Inl e)"

lemma bindE_simps [simp]:
  "bindE (Inl e) f = Inl e"
  "bindE (Inr x) f = f x"
  by (simp_all add: bindE_def)

lemma bindE_cong [fundef_cong]:
  "m = n \<Longrightarrow> (\<And>x. n = Inr x \<Longrightarrow> f x = g x) \<Longrightarrow> bindE m f = bindE n g"
  by (simp add: bindE_def split: sum.splits)

lemma bindE_Inr_iff [result_simps]:
  "bindE m f = Inr y \<longleftrightarrow> (\<exists>x. m = Inr x \<and> f x = Inr y)"
  by (simp add: bindE_def split: sum.splits)

lemma bindE_Inl_iff:
  "bindE m f = Inl e \<longleftrightarrow> m = Inl e \<or> (\<exists>x. m = Inr x \<and> f x = Inl e)"
  by (auto simp: bindE_def split: sum.splits)

lemma check_Inr_iff [result_simps]: "check b e = Inr u \<longleftrightarrow> b"
  by (simp add: check_def)

lemma check_Inl_iff: "check b e = Inl e' \<longleftrightarrow> \<not> b \<and> e' = e"
  by (auto simp: check_def)

lemma check_True [simp]: "check True e = Inr ()"
  and check_False [simp]: "check False e = Inl e"
  by (simp_all add: check_def)

text \<open>A left fold that stops at the first exception: \<open>for (const x of xs) state = f(state, x)\<close>.\<close>

fun foldE :: "('s \<Rightarrow> 'x \<Rightarrow> 'e + 's) \<Rightarrow> 's \<Rightarrow> 'x list \<Rightarrow> 'e + 's" where
  "foldE f s [] = Inr s"
| "foldE f s (x # xs) = bindE (f s x) (\<lambda>s'. foldE f s' xs)"

lemma foldE_append: "foldE f s (xs @ ys) = bindE (foldE f s xs) (\<lambda>s'. foldE f s' ys)"
proof (induction xs arbitrary: s)
  case Nil
  show ?case by simp
next
  case (Cons x xs)
  show ?case by (cases "f s x") (simp_all add: Cons.IH)
qed

text \<open>An invariant of the step is an invariant of the loop.\<close>

lemma foldE_invariant:
  assumes "\<And>s x s'. P s \<Longrightarrow> f s x = Inr s' \<Longrightarrow> P s'"
  shows "foldE f s xs = Inr s' \<Longrightarrow> P s \<Longrightarrow> P s'"
proof (induction xs arbitrary: s)
  case Nil
  then show ?case by simp
next
  case (Cons x xs)
  then show ?case by (auto simp: result_simps intro: assms)
qed

text \<open>A preorder that every step respects relates the first and the last state of the loop.\<close>

lemma foldE_trans:
  assumes refl: "\<And>s. R s s"
    and trans: "\<And>s t u. R s t \<Longrightarrow> R t u \<Longrightarrow> R s u"
    and step: "\<And>s x s'. f s x = Inr s' \<Longrightarrow> R s s'"
  shows "foldE f s xs = Inr s' \<Longrightarrow> R s s'"
proof (induction xs arbitrary: s)
  case Nil
  then show ?case by (simp add: refl)
next
  case (Cons x xs)
  then show ?case by (auto simp: result_simps intro: step trans)
qed

text \<open>How the predicate of an optional value is evaluated.\<close>

lemma pred_option_code [code]:
  "pred_option P None = True"
  "pred_option P (Some x) = P x"
  by simp_all

text \<open>What holds of the processed elements after each step holds of all after the loop.\<close>

lemma foldE_processed:
  assumes "foldE f s xs = Inr s'" and "Q [] s"
    and "\<And>ys x s1 s2. x \<in> set xs \<Longrightarrow> Q ys s1 \<Longrightarrow> f s1 x = Inr s2 \<Longrightarrow> Q (ys @ [x]) s2"
  shows "Q xs s'"
  using assms
proof (induction xs arbitrary: s' rule: rev_induct)
  case Nil
  then show ?case by simp
next
  case (snoc x xs)
  from snoc.prems(1) obtain s1 where "foldE f s xs = Inr s1" "f s1 x = Inr s'"
    by (auto simp: foldE_append result_simps)
  with snoc show ?case by auto
qed

section \<open>Arrays\<close>

definition last_opt :: "'a list \<Rightarrow> 'a option" where
  "last_opt xs = (if xs = [] then None else Some (last xs))"

definition update_last :: "('a \<Rightarrow> 'a) \<Rightarrow> 'a list \<Rightarrow> 'a list" where
  "update_last f xs = (if xs = [] then [] else butlast xs @ [f (last xs)])"

lemma last_opt_simps [simp]:
  "last_opt [] = None"
  "last_opt (xs @ [x]) = Some x"
  "last_opt (map f xs) = map_option f (last_opt xs)"
  "last_opt xs = None \<longleftrightarrow> xs = []"
  by (simp_all add: last_opt_def last_map)

lemma last_opt_Some_iff: "last_opt xs = Some x \<longleftrightarrow> (\<exists>ys. xs = ys @ [x])"
  by (cases xs rule: rev_cases) (auto simp: last_opt_def)

lemma last_opt_in_set: "last_opt xs = Some x \<Longrightarrow> x \<in> set xs"
  by (auto simp: last_opt_Some_iff)

lemma update_last_simps [simp]:
  "update_last f [] = []"
  "update_last f (xs @ [x]) = xs @ [f x]"
  "length (update_last f xs) = length xs"
  "update_last f xs = [] \<longleftrightarrow> xs = []"
  by (simp_all add: update_last_def)

definition at_index :: "'a list \<Rightarrow> int \<Rightarrow> 'a option" where
  "at_index xs i = (if 0 \<le> i \<and> nat i < length xs then Some (xs ! nat i) else None)"

section \<open>Dictionaries\<close>

text \<open>
  \<open>update_at k f d\<close> changes the value stored at an existing key in place, keeping the order of
  the keys; a missing key leaves the dictionary as it is.
\<close>

definition update_at :: "'k \<Rightarrow> ('v \<Rightarrow> 'v) \<Rightarrow> ('k \<times> 'v) list \<Rightarrow> ('k \<times> 'v) list" where
  "update_at k f d = map (\<lambda>(k', v). (k', if k' = k then f v else v)) d"

lemma keys_update_at [dict_simps]: "map fst (update_at k f d) = map fst d"
  by (auto simp: update_at_def)

lemma map_of_update_at [dict_simps]:
  "map_of (update_at k f d) j = (if j = k then map_option f (map_of d j) else map_of d j)"
  by (induction d) (auto simp: update_at_def)

lemma set_update_at:
  "(j, v) \<in> set (update_at k f d) \<longleftrightarrow> (\<exists>w. (j, w) \<in> set d \<and> v = (if j = k then f w else w))"
  by (force simp: update_at_def image_iff)

text \<open>
  The order of \<open>Object.keys\<close> and \<open>Object.values\<close>: keys that are canonical array indices
  come first, in numeric order, the others in insertion order.
\<close>

definition is_digit :: "char \<Rightarrow> bool" where
  "is_digit c \<longleftrightarrow> 48 \<le> (of_char c :: nat) \<and> (of_char c :: nat) \<le> 57"

definition digits_value :: "string \<Rightarrow> nat" where
  "digits_value s = foldl (\<lambda>n c. 10 * n + (of_char c - 48)) 0 s"

definition is_array_index :: "string \<Rightarrow> bool" where
  "is_array_index s \<longleftrightarrow>
     s \<noteq> [] \<and> list_all is_digit s \<and> (hd s = CHR ''0'' \<longrightarrow> length s = 1) \<and>
     digits_value s < 2 ^ 32 - 1"

definition js_key_order :: "(string \<times> 'v) list \<Rightarrow> (string \<times> 'v) list" where
  "js_key_order d =
     sort_key (\<lambda>p. digits_value (fst p)) (filter (\<lambda>p. is_array_index (fst p)) d) @
     filter (\<lambda>p. \<not> is_array_index (fst p)) d"

lemma set_js_key_order [simp]: "set (js_key_order d) = set d"
  by (auto simp: js_key_order_def)

lemma length_js_key_order [simp]: "length (js_key_order d) = length d"
  by (simp add: js_key_order_def sum_length_filter_compl)

lemma distinct_js_key_order:
  assumes "distinct (map fst d)"
  shows "distinct (map fst (js_key_order d))"
proof -
  have keys: "set (map fst (js_key_order d)) = set (map fst d)" by simp
  have "card (set (map fst (js_key_order d))) = length (map fst (js_key_order d))"
    using assms distinct_card [OF assms] by (simp add: keys del: set_map)
  then show ?thesis by (rule card_distinct)
qed

section \<open>Numbers and patterns\<close>

definition MAX_SAFE_INTEGER :: int where
  "MAX_SAFE_INTEGER = 9007199254740991"

definition is_safe_integer :: "int \<Rightarrow> bool" where
  "is_safe_integer n \<longleftrightarrow> - MAX_SAFE_INTEGER \<le> n \<and> n \<le> MAX_SAFE_INTEGER"

definition positive_int :: "int \<Rightarrow> bool" where
  "positive_int n \<longleftrightarrow> 1 \<le> n \<and> n \<le> MAX_SAFE_INTEGER"

definition nonnegative_int :: "int \<Rightarrow> bool" where
  "nonnegative_int n \<longleftrightarrow> 0 \<le> n \<and> n \<le> MAX_SAFE_INTEGER"

definition is_lower_hex :: "char \<Rightarrow> bool" where
  "is_lower_hex c \<longleftrightarrow> is_digit c \<or> (97 \<le> (of_char c :: nat) \<and> (of_char c :: nat) \<le> 102)"

definition is_hex :: "char \<Rightarrow> bool" where
  "is_hex c \<longleftrightarrow> is_lower_hex c \<or> (65 \<le> (of_char c :: nat) \<and> (of_char c :: nat) \<le> 70)"

definition is_alnum :: "char \<Rightarrow> bool" where
  "is_alnum c \<longleftrightarrow> is_digit c \<or> (65 \<le> (of_char c :: nat) \<and> (of_char c :: nat) \<le> 90) \<or>
     (97 \<le> (of_char c :: nat) \<and> (of_char c :: nat) \<le> 122)"

text \<open>\<open>/^[a-zA-Z0-9][a-zA-Z0-9._-]{0,127}$/\<close>\<close>

fun is_identifier :: "string \<Rightarrow> bool" where
  "is_identifier [] = False"
| "is_identifier (c # cs) =
     (is_alnum c \<and> list_all (\<lambda>d. is_alnum d \<or> d \<in> set ''._-'') cs \<and> length cs \<le> 127)"

text \<open>\<open>/^sha256:[a-f0-9]{64}$/\<close>\<close>

definition is_digest :: "string \<Rightarrow> bool" where
  "is_digest s \<longleftrightarrow> take 7 s = ''sha256:'' \<and> length s = 71 \<and> list_all is_lower_hex (drop 7 s)"

text \<open>\<open>/^[0-9a-f]{8}-[0-9a-f]{4}-4[0-9a-f]{3}-[89ab][0-9a-f]{3}-[0-9a-f]{12}$/i\<close>\<close>

definition is_uuid :: "string \<Rightarrow> bool" where
  "is_uuid s \<longleftrightarrow> length s = 36 \<and>
     list_all (\<lambda>i. s ! i = CHR ''-'') [8, 13, 18, 23] \<and>
     s ! 14 = CHR ''4'' \<and> s ! 19 \<in> set ''89abAB'' \<and>
     list_all is_hex (take 8 s) \<and> list_all is_hex (take 4 (drop 9 s)) \<and>
     list_all is_hex (take 4 (drop 14 s)) \<and> list_all is_hex (take 4 (drop 19 s)) \<and>
     list_all is_hex (drop 24 s)"

text \<open>\<open>Buffer.byteLength\<close>: the length of the UTF-8 encoding.\<close>

definition byte_length :: "string \<Rightarrow> nat" where
  "byte_length s = sum_list (map (\<lambda>c. if (of_char c :: nat) < 128 then 1 else 2) s)"

lemma byte_length_append [simp]: "byte_length (s @ t) = byte_length s + byte_length t"
  by (simp add: byte_length_def)

lemma is_identifier_nonempty: "is_identifier s \<Longrightarrow> s \<noteq> []"
  by auto

lemma positive_int_bounds: "positive_int n \<Longrightarrow> 0 < n \<and> is_safe_integer n"
  by (simp add: positive_int_def is_safe_integer_def MAX_SAFE_INTEGER_def)

end
