(* ===== verification/Json_Canonical.thy ===== *)
theory Json_Canonical
  imports Js_Prelude
begin

text \<open>
  JSON values (\<open>JsonValue\<close> of \<open>core/src/types.ts\<close>, extended with what a value of type
  \<open>unknown\<close> may also be) and the canonical serialization of \<open>core/src/canonical.ts\<close>, with
  the digests built on it. Objects are lists of fields in insertion order. Numbers are
  integers or not finite; the fractional ones are outside the model. \<open>JForeign\<close> stands for
  everything that is not JSON: undefined, functions, sparse array holes, class instances.
\<close>

section \<open>Values\<close>

datatype js =
    JNull
  | JBool bool
  | JInt int
  | JNonFinite
  | JStr string
  | JArr "js list"
  | JObj "(string \<times> js) list"
  | JForeign

section \<open>Primitive serialization: the JSON.stringify of strings and integers\<close>

definition digit_char :: "nat \<Rightarrow> char" where
  "digit_char d = char_of (48 + d)"

fun nat_digits :: "nat \<Rightarrow> string" where
  "nat_digits n = (if n < 10 then [digit_char n] else nat_digits (n div 10) @ [digit_char (n mod 10)])"

declare nat_digits.simps [simp del]

definition int_string :: "int \<Rightarrow> string" where
  "int_string n = (if n < 0 then CHR ''-'' # nat_digits (nat (- n)) else nat_digits (nat n))"

definition hex_char :: "nat \<Rightarrow> char" where
  "hex_char d = (if d < 10 then char_of (48 + d) else char_of (87 + d))"

definition escape_char :: "char \<Rightarrow> string" where
  "escape_char c =
     (if c = CHR 0x22 then [CHR 0x5C, CHR 0x22]
      else if c = CHR 0x5C then [CHR 0x5C, CHR 0x5C]
      else if c = CHR 0x08 then [CHR 0x5C, CHR ''b'']
      else if c = CHR 0x09 then [CHR 0x5C, CHR ''t'']
      else if c = CHR 0x0A then [CHR 0x5C, CHR ''n'']
      else if c = CHR 0x0C then [CHR 0x5C, CHR ''f'']
      else if c = CHR 0x0D then [CHR 0x5C, CHR ''r'']
      else if (of_char c :: nat) < 32 then
        [CHR 0x5C, CHR ''u'', CHR ''0'', CHR ''0'', hex_char (of_char c div 16), hex_char (of_char c mod 16)]
      else [c])"

definition quote_json :: "string \<Rightarrow> string" where
  "quote_json s = CHR 0x22 # concat (map escape_char s) @ [CHR 0x22]"

fun join_comma :: "string list \<Rightarrow> string" where
  "join_comma [] = []"
| "join_comma [s] = s"
| "join_comma (s # ss) = s @ CHR '','' # join_comma ss"

section \<open>Canonical JSON\<close>

text \<open>
  \<open>canonicalJson\<close>: \<open>None\<close> is its one exception. The fields are serialized and then put in
  the order of their keys; the code sorts the keys first, which gives the same text, and the
  same exception when any field throws.
\<close>

fun canonicalJson :: "js \<Rightarrow> string option" where
  "canonicalJson JNull = Some ''null''"
| "canonicalJson (JBool b) = Some (if b then ''true'' else ''false'')"
| "canonicalJson (JStr s) = Some (quote_json s)"
| "canonicalJson (JInt n) = Some (int_string n)"
| "canonicalJson JNonFinite = None"
| "canonicalJson (JArr vs) =
     map_option (\<lambda>ss. CHR ''['' # join_comma ss @ '']'') (those (map canonicalJson vs))"
| "canonicalJson (JObj kvs) =
     map_option
       (\<lambda>fs. CHR ''{'' # join_comma (map (\<lambda>(k, s). quote_json k @ CHR '':'' # s) (sort_key fst fs)) @ ''}'')
       (those (map (\<lambda>(k, v). map_option (Pair k) (canonicalJson v)) kvs))"
| "canonicalJson JForeign = None"

text \<open>
  \<open>digestBytes\<close> prefixes the hex digest of Node's \<open>createHash("sha256")\<close>, here the parameter
  \<open>sha256\<close>; \<open>digestJson\<close> digests the canonical text.
\<close>

definition digestBytes :: "(string \<Rightarrow> string) \<Rightarrow> string \<Rightarrow> string" where
  "digestBytes sha256 bytes = ''sha256:'' @ sha256 bytes"

definition digestJson :: "(string \<Rightarrow> string) \<Rightarrow> js \<Rightarrow> string option" where
  "digestJson sha256 v = map_option (digestBytes sha256) (canonicalJson v)"

section \<open>Serializable values\<close>

fun is_json :: "js \<Rightarrow> bool" where
  "is_json JNonFinite = False"
| "is_json JForeign = False"
| "is_json (JArr vs) = list_all is_json vs"
| "is_json (JObj kvs) = list_all (\<lambda>(k, v). is_json v) kvs"
| "is_json _ = True"

lemma those_map_None [simp]: "those (map f xs) = None \<longleftrightarrow> (\<exists>x \<in> set xs. f x = None)"
  by (induction xs) (auto split: option.splits)

lemma those_Some_iff: "those xs = Some ys \<longleftrightarrow> xs = map Some ys"
  by (induction xs arbitrary: ys) (auto split: option.splits)

lemma canonicalJson_defined_iff: "canonicalJson v = None \<longleftrightarrow> \<not> is_json v"
proof (induction v rule: canonicalJson.induct)
  case (6 vs)
  then show ?case by (auto simp: list_all_iff)
next
  case (7 kvs)
  have IH: "canonicalJson v = None \<longleftrightarrow> \<not> is_json v" if "(k, v) \<in> set kvs" for k v
    using 7 [OF that refl] .
  have "canonicalJson (JObj kvs) = None \<longleftrightarrow> (\<exists>p \<in> set kvs. canonicalJson (snd p) = None)"
    by (simp add: case_prod_unfold)
  also have "\<dots> \<longleftrightarrow> (\<exists>p \<in> set kvs. \<not> is_json (snd p))"
    using IH by (metis prod.collapse)
  also have "\<dots> \<longleftrightarrow> \<not> is_json (JObj kvs)"
    by (simp add: list_all_iff case_prod_unfold)
  finally show ?case .
qed simp_all

section \<open>Decimal numerals\<close>

lemma of_char_digit [simp]: "d < 10 \<Longrightarrow> of_char (digit_char d) = (48 + d :: nat)"
  by (simp add: digit_char_def)

lemma is_digit_digit_char [simp]: "d < 10 \<Longrightarrow> is_digit (digit_char d)"
  by (simp add: is_digit_def)

lemma digits_value_snoc: "digits_value (s @ [c]) = 10 * digits_value s + (of_char c - 48)"
  by (simp add: digits_value_def)

lemma nat_digits_digits: "list_all is_digit (nat_digits n) \<and> nat_digits n \<noteq> []"
proof (induction n rule: nat_digits.induct)
  case (1 n)
  then show ?case by (subst (1 2) nat_digits.simps) simp
qed

lemma digits_value_nat_digits [simp]: "digits_value (nat_digits n) = n"
proof (induction n rule: nat_digits.induct)
  case (1 n)
  show ?case
  proof (cases "n < 10")
    case True
    then show ?thesis by (subst nat_digits.simps) (simp add: digits_value_def)
  next
    case False
    then have "nat_digits n = nat_digits (n div 10) @ [digit_char (n mod 10)]"
      by (subst nat_digits.simps) simp
    with 1 [OF False] show ?thesis by (simp add: digits_value_snoc)
  qed
qed

text \<open>A positive numeral does not start with a zero.\<close>

definition is_nonzero_digit :: "char \<Rightarrow> bool" where
  "is_nonzero_digit c \<longleftrightarrow> is_digit c \<and> c \<noteq> CHR ''0''"

lemma digit_char_nonzero: "0 < d \<Longrightarrow> d < 10 \<Longrightarrow> digit_char d \<noteq> CHR ''0''"
proof
  assume "0 < d" "d < 10" "digit_char d = CHR ''0''"
  then have "(of_char (digit_char d) :: nat) = of_char (CHR ''0'')" by simp
  with \<open>0 < d\<close> \<open>d < 10\<close> show False by simp
qed

lemma nat_digits_hd: "0 < n \<Longrightarrow> is_nonzero_digit (hd (nat_digits n))"
proof (induction n rule: nat_digits.induct)
  case (1 n)
  show ?case
  proof (cases "n < 10")
    case True
    with 1 show ?thesis
      by (subst nat_digits.simps) (simp add: is_nonzero_digit_def digit_char_nonzero)
  next
    case False
    then have "nat_digits n = nat_digits (n div 10) @ [digit_char (n mod 10)]"
      by (subst nat_digits.simps) simp
    with "1.IH" [OF False] False nat_digits_digits [of "n div 10"] show ?thesis by simp
  qed
qed

lemma digits_value_mono: "digits_value s \<le> digits_value (s @ t)"
proof (induction t rule: rev_induct)
  case Nil
  then show ?case by simp
next
  case (snoc c t)
  then show ?case
    using digits_value_snoc [of "s @ t" c] by simp
qed

lemma digits_value_pos:
  assumes "is_nonzero_digit c"
  shows "0 < digits_value (c # s)"
proof -
  from assms have "(of_char c :: nat) \<noteq> 48"
    by (auto simp: is_nonzero_digit_def dest: of_char_eq_iff [THEN iffD1, of c "CHR ''0''", simplified])
  with assms have "0 < digits_value [c]"
    by (simp add: digits_value_def is_nonzero_digit_def is_digit_def)
  with digits_value_mono [of "[c]" s] show ?thesis by simp
qed

section \<open>Canonical order\<close>

text \<open>A value with the fields of every object in canonical order: what \<open>JSON.parse\<close> makes of its text.\<close>

fun canonical_order :: "js \<Rightarrow> js" where
  "canonical_order (JArr vs) = JArr (map canonical_order vs)"
| "canonical_order (JObj kvs) =
     JObj (js_key_order (sort_key fst (map (\<lambda>(k, v). (k, canonical_order v)) kvs)))"
| "canonical_order v = v"

definition canonical_dict :: "(string \<times> 'v) list \<Rightarrow> (string \<times> 'v) list" where
  "canonical_dict d = js_key_order (sort_key fst d)"

definition canonical_fields :: "(string \<times> js) list \<Rightarrow> (string \<times> js) list" where
  "canonical_fields d = canonical_dict (map (\<lambda>(k, v). (k, canonical_order v)) d)"

lemma canonical_order_obj: "canonical_order (JObj kvs) = JObj (canonical_fields kvs)"
  by (simp add: canonical_fields_def canonical_dict_def)

end
