(* ===== verification/Contract_Types.thy ===== *)
theory Contract_Types
  imports Json_Canonical
begin

text \<open>
  The data that crosses the runtime boundary (\<open>runtime-contract/src/index.ts\<close>), the verifier
  report (\<open>engine/src/command.ts\<close>) and the execution references
  (\<open>engine/src/execution-host.ts\<close>). Optional properties are options; literal version
  strings are kept as strings, because the validators compare them.
\<close>

section \<open>Capabilities, workspaces and artifacts\<close>

datatype workspace_mode = MemoryMode | ReadonlyMode | IsolatedMode

datatype structured_output = NativeOutput | PromptedOutput | NoOutput

datatype usage_reporting = TokensUsage | CostUsage | PartialUsage | NoUsage

record runtime_capabilities =
  cap_streaming :: bool
  cap_cancellation :: bool
  cap_resumableSession :: bool
  cap_nativeSubagents :: bool
  cap_mcp :: bool
  cap_lsp :: bool
  cap_debugger :: bool
  cap_browser :: bool
  cap_structuredOutput :: structured_output
  cap_usageReporting :: usage_reporting
  cap_sandboxing :: "string list"
  cap_workspaceModes :: "workspace_mode list option"

datatype workspace_ref =
    MemoryWorkspace (ws_id: string)
  | ReadonlyWorkspace (ws_id: string) (ws_repoRoot: string) (ws_path: string) (ws_baseCommit: string)
  | IsolatedWorkspace (ws_id: string) (ws_repoRoot: string) (ws_path: string) (ws_baseCommit: string)
      (ws_branch: string)

fun ws_mode :: "workspace_ref \<Rightarrow> workspace_mode" where
  "ws_mode (MemoryWorkspace _) = MemoryMode"
| "ws_mode (ReadonlyWorkspace _ _ _ _) = ReadonlyMode"
| "ws_mode (IsolatedWorkspace _ _ _ _ _) = IsolatedMode"

record artifact_producer =
  pr_runId :: string
  pr_nodeId :: string
  pr_attempt :: int

record artifact_ref =
  ar_id :: string
  ar_type :: string
  ar_mediaType :: string
  ar_uri :: string
  ar_digest :: string
  ar_producer :: artifact_producer

record workspace_ownership =
  ow_repositoryRoot :: string
  ow_repositoryCommonDirectory :: string
  ow_workspacePath :: string
  ow_workspaceGitDirectory :: string
  ow_branch :: string
  ow_manifestDigest :: string
  ow_registrationDigest :: string

record workspace_checkpoint =
  wc_version :: string
  wc_workspaceId :: string
  wc_baseCommit :: string
  wc_headCommit :: string
  wc_diffDigest :: string
  wc_changedFiles :: "string list"
  wc_ignoredDigest :: string
  wc_ignoredEntryCount :: int
  wc_ignoredByteCount :: int
  wc_ownership :: workspace_ownership
  wc_diffArtifactId :: "string option"

datatype workspace_difference =
    DiffVersion | DiffWorkspaceId | DiffBaseCommit | DiffHeadCommit | DiffDigest
  | DiffChangedFiles | DiffIgnoredContent | DiffRepository | DiffWorkspacePath | DiffBranch
  | DiffOwnershipManifest | DiffWorktreeRegistration

section \<open>Results and observations\<close>

datatype failure_category =
    RuntimeUnavailable | ModelProvider | ToolFailure | SchemaViolation | VerificationFailure
  | BudgetExhausted | PolicyViolation | WorkspaceConflict | HumanRejection | UnknownInternal

record execution_failure =
  f_category :: failure_category
  f_message :: string

datatype result_status = ResSucceeded | ResFailed | ResBlocked | ResCancelled

datatype execution_result =
    SucceededResult (res_output: js)
  | FailedResult (res_failure: execution_failure)
  | BlockedResult (res_reason: string)
  | CancelledResult (res_reason: string)

fun result_status_of :: "execution_result \<Rightarrow> result_status" where
  "result_status_of (SucceededResult _) = ResSucceeded"
| "result_status_of (FailedResult _) = ResFailed"
| "result_status_of (BlockedResult _) = ResBlocked"
| "result_status_of (CancelledResult _) = ResCancelled"

datatype metadata_source = ConfiguredSource | ReportedSource

record runtime_metadata =
  md_provider :: string
  md_model :: string
  md_source :: "metadata_source option"
  md_runtimeVersion :: "string option"

datatype usage_coverage = CompleteCoverage | PartialCoverage

record runtime_usage =
  us_coverage :: usage_coverage
  us_inputTokens :: "int option"
  us_outputTokens :: "int option"
  us_cacheReadTokens :: "int option"
  us_cacheWriteTokens :: "int option"
  us_reasoningTokens :: "int option"
  us_totalTokens :: "int option"

datatype runtime_event =
    StartedEvent
  | LogEvent string "int option"
  | MetadataEvent runtime_metadata
  | UsageEvent runtime_usage
  | CompletedEvent result_status

section \<open>Runtime selection\<close>

record runtime_negotiation =
  ng_version :: string
  ng_runtimeId :: string
  ng_workspaceMode :: workspace_mode
  ng_cancellation :: bool
  ng_structuredOutput :: string
  ng_capabilities :: runtime_capabilities

record runtime_descriptor =
  rd_version :: string
  rd_runtimeId :: string
  rd_configurationVersion :: string
  rd_configuration :: "(string \<times> js) list"

section \<open>Verifier reports and execution references\<close>

record command_report =
  cr_passed :: bool
  cr_exitCode :: "int option"
  cr_signal :: "string option"
  cr_durationMs :: int
  cr_stdoutBytes :: int
  cr_stderrBytes :: int
  cr_stdoutTruncated :: bool
  cr_stderrTruncated :: bool

datatype execution_kind = RuntimeKind | CommandKind

record execution_plan_ref =
  ex_version :: string
  ex_runId :: string
  ex_executionId :: string
  ex_kind :: execution_kind
  ex_generation :: int
  ex_planDigest :: string

record persisted_execution_ref = execution_plan_ref +
  ex_manifestDigest :: string

text \<open>The plan a persisted reference extends.\<close>

definition persisted_plan :: "persisted_execution_ref \<Rightarrow> execution_plan_ref" where
  "persisted_plan x = execution_plan_ref.truncate x"

datatype execution_observation_reason =
    InvalidRecord | IdentityMismatch | BootMismatch | SupervisorUnreachable | SupervisorLost
  | CleanupUnconfirmed

end
