(* ===== verification/Run_State.thy ===== *)
theory Run_State
  imports Contract_Types
begin

text \<open>
  The state and the events of \<open>engine/src/events.ts\<close>: the materialized view of a run, its
  nodes and their attempts, and the typed payloads of the append-only history. The nodes of a
  run are a dictionary in the order of the JavaScript object. The two shapes that the code
  gives \<open>NodePaused\<close>, \<open>RunPaused\<close>, \<open>RunResumed\<close> and \<open>RunCancelled\<close> are an optional argument.
\<close>

section \<open>Statuses and evidence\<close>

datatype run_status =
    RunRunning | RunIsBlocked | RunSucceeded | RunFailed | RunIsPaused | RunIsCancelled
  | RunRecoveryBlockedStatus

datatype node_status =
    NodePendingStatus | NodeReadyStatus | NodeRunningStatus | NodeBlockedStatus
  | NodeSucceededStatus | NodeFailedStatus | NodePausedStatus | NodeCancelledStatus

datatype attempt_status =
    Scheduled | Prepared | Running | Orphaned | Blocked | Succeeded | Failed | Cancelled

datatype recovery_block_reason =
    ExecutionUnknown (rb_executionId: string) execution_observation_reason
  | CleanupUnknown (rb_executionId: string)

datatype pause_reason =
    OperatorPause string
  | WorkspaceConflictPause "workspace_difference list"
  | BudgetExhaustedPause string int
  | RuntimeUnavailablePause string
  | PolicyViolationPause string

datatype cancellation_outcome = CancelSucceeded | CancelFailed | CancelUnavailable

datatype cleanup_cause = PauseCause | CancelCause | TimeoutCause | RecoveryCause

datatype cleanup_outcome = ConfirmedCleanup | UnknownCleanup

datatype orphan_reason = CoordinatorLost | LaunchInterrupted

record attempt_timeout =
  to_cancellation :: "cancellation_outcome option"
  to_lateStatus :: "result_status option"

record cleanup_evidence =
  cl_executionId :: string
  cl_cause :: cleanup_cause
  cl_outcome :: cleanup_outcome

record orphan_evidence =
  or_executionId :: string
  or_lostGeneration :: int
  or_reason :: orphan_reason
  or_workspaceObservation :: workspace_checkpoint
  or_workspaceDifferences :: "workspace_difference list"
  or_terminalArtifactId :: "string option"

section \<open>Run state\<close>

record attempt_state =
  a_number :: int
  a_runtimeId :: string
  a_status :: attempt_status
  a_failure :: "execution_failure option"
  a_identity :: "runtime_metadata list option"
  a_usage :: "runtime_usage option"
  a_timeout :: "attempt_timeout option"
  a_executionPlan :: "execution_plan_ref option"
  a_execution :: "persisted_execution_ref option"
  a_workspaceCheckpoint :: "workspace_checkpoint option"
  a_cleanup :: "cleanup_evidence list option"
  a_orphan :: "orphan_evidence option"

record node_run_state =
  n_id :: string
  n_status :: node_status
  n_attempts :: "attempt_state list"
  n_output :: "js option"
  n_failure :: "execution_failure option"
  n_blockedReason :: "string option"
  n_command :: "command_report option"
  n_pauseReason :: "pause_reason option"

record workspace_observation =
  wo_headCommit :: string
  wo_changedFiles :: "string list"
  wo_diffArtifactId :: string

record recovery_block =
  rb_operationId :: string
  rb_reason :: recovery_block_reason

record run_state =
  rs_runId :: string
  rs_workflowInstanceId :: string
  rs_workflowId :: string
  rs_workflowVersion :: string
  rs_status :: run_status
  rs_sequence :: int
  rs_inputs :: "(string \<times> js) list"
  rs_nodes :: "(string \<times> node_run_state) list"
  rs_workspace :: "workspace_ref option"
  rs_runtimeNegotiation :: "runtime_negotiation option"
  rs_runtimeDescriptor :: "runtime_descriptor option"
  rs_pauseReason :: "pause_reason option"
  rs_recoveryBlock :: "recovery_block option"
  rs_artifacts :: "artifact_ref list option"
  rs_workspaceObservation :: "workspace_observation option"

section \<open>Events\<close>

datatype ready_reason = DependenciesSatisfied | RetryReason | ResumedReason | RecoveredReason

datatype control_action = PauseAction | CancelAction

datatype run_outcome = OutcomeSucceeded | OutcomeFailed

datatype run_event_payload =
    RuntimeNegotiated runtime_negotiation
  | RuntimeConfigured runtime_descriptor
  | WorkspaceAssigned workspace_ref
  | ArtifactProduced string int artifact_ref
  | WorkspaceObserved string int string "string list" string
  | CommandCompleted string int command_report
  | AttemptTimeoutRequested string int
  | AttemptCancellationCompleted string int cancellation_outcome
  | LateResultObserved string int result_status
  | RunCreated string string string "string list" "(string \<times> js) list"
  | NodeReady string ready_reason
  | AttemptScheduled string int string
  | AttemptPrepared string int execution_plan_ref workspace_checkpoint
  | AttemptStartAuthorized string int persisted_execution_ref
  | AttemptStarted string int
  | RuntimeEventObserved string int runtime_event
  | AttemptSucceeded string int js
  | AttemptFailed string int execution_failure
  | AttemptBlocked string int string
  | AttemptCancelled string int string
  | AttemptOrphaned string int orphan_evidence
  | ControlRequestObserved string control_action int
  | ExecutionCleanupObserved string int string cleanup_cause cleanup_outcome
  | NodeSucceeded string
  | NodeFailed string execution_failure
  | NodeBlocked string string
  | NodePaused string "pause_reason option"
  | NodeCancelled string string
  | RunPaused "pause_reason option"
  | RunResumed "string option"
  | RunRecoveryBlocked string recovery_block_reason
  | RunBlocked string
  | RunCancelled "string option" string
  | RunCompleted run_outcome

record run_event =
  ev_runId :: string
  ev_sequence :: int
  ev_payload :: run_event_payload

section \<open>Lookups\<close>

definition find_node :: "run_state \<Rightarrow> string \<Rightarrow> node_run_state option" where
  "find_node s nid = map_of (rs_nodes s) nid"

definition node_values :: "run_state \<Rightarrow> node_run_state list" where
  "node_values s = map snd (rs_nodes s)"

definition last_attempt :: "node_run_state \<Rightarrow> attempt_state option" where
  "last_attempt nd = last_opt (n_attempts nd)"

definition artifact_list :: "run_state \<Rightarrow> artifact_ref list" where
  "artifact_list s = (case rs_artifacts s of None \<Rightarrow> [] | Some xs \<Rightarrow> xs)"

definition cleanup_list :: "attempt_state \<Rightarrow> cleanup_evidence list" where
  "cleanup_list a = (case a_cleanup a of None \<Rightarrow> [] | Some xs \<Rightarrow> xs)"

end
