(* ===== verification/Event_Validation.thy ===== *)
theory Event_Validation
  imports Run_State
begin

text \<open>
  \<open>assertRunEvent\<close> (\<open>engine/src/event-validation.ts\<close>) and the contract validators it rests on
  (\<open>runtime-contract/src/validation.ts\<close>): the constraints a schema puts on the values of an
  event. The required properties, the absence of others and the enumerations are the shape of
  the datatypes; what remains are patterns, bounds, constant versions and unique items.
\<close>

section \<open>Schema fragments\<close>

definition valid_producer :: "artifact_producer \<Rightarrow> bool" where
  "valid_producer p \<longleftrightarrow> positive_int (pr_attempt p)"

definition valid_artifact_schema :: "artifact_ref \<Rightarrow> bool" where
  "valid_artifact_schema a \<longleftrightarrow> is_digest (ar_digest a) \<and> valid_producer (ar_producer a)"

definition valid_command_output :: "command_report \<Rightarrow> bool" where
  "valid_command_output c \<longleftrightarrow>
     0 \<le> cr_durationMs c \<and> nonnegative_int (cr_stdoutBytes c) \<and> nonnegative_int (cr_stderrBytes c)"

definition valid_workspace_differences :: "workspace_difference list \<Rightarrow> bool" where
  "valid_workspace_differences ds \<longleftrightarrow> distinct ds"

definition valid_workspace_checkpoint :: "workspace_checkpoint \<Rightarrow> bool" where
  "valid_workspace_checkpoint c \<longleftrightarrow>
     wc_version c = ''anastom.dev/workspace-checkpoint/v1alpha1'' \<and>
     is_identifier (wc_workspaceId c) \<and>
     is_digest (wc_diffDigest c) \<and>
     distinct (wc_changedFiles c) \<and>
     is_digest (wc_ignoredDigest c) \<and>
     nonnegative_int (wc_ignoredEntryCount c) \<and>
     nonnegative_int (wc_ignoredByteCount c) \<and>
     is_digest (ow_manifestDigest (wc_ownership c)) \<and>
     is_digest (ow_registrationDigest (wc_ownership c)) \<and>
     pred_option is_identifier (wc_diffArtifactId c)"

definition valid_execution_plan :: "'a execution_plan_ref_scheme \<Rightarrow> bool" where
  "valid_execution_plan x \<longleftrightarrow>
     ex_version x = ''anastom.dev/owned-execution/v1alpha1'' \<and>
     is_identifier (ex_runId x) \<and> is_identifier (ex_executionId x) \<and>
     positive_int (ex_generation x) \<and> is_digest (ex_planDigest x)"

definition valid_persisted_execution :: "persisted_execution_ref \<Rightarrow> bool" where
  "valid_persisted_execution x \<longleftrightarrow> valid_execution_plan x \<and> is_digest (ex_manifestDigest x)"

fun valid_pause_reason :: "pause_reason \<Rightarrow> bool" where
  "valid_pause_reason (OperatorPause opId) = is_identifier opId"
| "valid_pause_reason (WorkspaceConflictPause ds) = valid_workspace_differences ds"
| "valid_pause_reason (BudgetExhaustedPause nid n) = (is_identifier nid \<and> positive_int n)"
| "valid_pause_reason (RuntimeUnavailablePause rt) = is_identifier rt"
| "valid_pause_reason (PolicyViolationPause rt) = is_identifier rt"

fun valid_recovery_block_reason :: "recovery_block_reason \<Rightarrow> bool" where
  "valid_recovery_block_reason (ExecutionUnknown eid _) = is_identifier eid"
| "valid_recovery_block_reason (CleanupUnknown eid) = is_identifier eid"

section \<open>The contract schemas: capabilities, observations, descriptors\<close>

definition valid_capabilities :: "runtime_capabilities \<Rightarrow> bool" where
  "valid_capabilities c \<longleftrightarrow>
     distinct (cap_sandboxing c) \<and> length (cap_sandboxing c) \<le> 32 \<and>
     list_all (\<lambda>s. 1 \<le> length s \<and> length s \<le> 128) (cap_sandboxing c) \<and>
     pred_option (\<lambda>ms. distinct ms \<and> length ms \<le> 3) (cap_workspaceModes c)"

definition valid_usage :: "runtime_usage \<Rightarrow> bool" where
  "valid_usage u \<longleftrightarrow>
     list_all (pred_option nonnegative_int)
       [us_inputTokens u, us_outputTokens u, us_cacheReadTokens u, us_cacheWriteTokens u,
        us_reasoningTokens u, us_totalTokens u]"

fun valid_observation :: "runtime_event \<Rightarrow> bool" where
  "valid_observation (LogEvent _ dropped) = pred_option positive_int dropped"
| "valid_observation (UsageEvent u) = valid_usage u"
| "valid_observation _ = True"

definition valid_negotiation :: "runtime_negotiation \<Rightarrow> bool" where
  "valid_negotiation n \<longleftrightarrow>
     ng_version n = ''anastom.dev/runtime-negotiation/v1alpha1'' \<and>
     ng_workspaceMode n \<in> {ReadonlyMode, IsolatedMode} \<and>
     ng_cancellation n \<and> ng_structuredOutput n = ''validated'' \<and>
     valid_capabilities (ng_capabilities n)"

definition MAX_RUNTIME_DESCRIPTOR_BYTES :: nat where
  "MAX_RUNTIME_DESCRIPTOR_BYTES = 16 * 1024"

definition descriptor_js :: "runtime_descriptor \<Rightarrow> js" where
  "descriptor_js d = JObj
     [(''version'', JStr (rd_version d)), (''runtimeId'', JStr (rd_runtimeId d)),
      (''configurationVersion'', JStr (rd_configurationVersion d)),
      (''configuration'', JObj (rd_configuration d))]"

text \<open>\<open>assertRuntimeDescriptor\<close>: the schema, then the bound on the canonical bytes.\<close>

definition assertRuntimeDescriptor :: "runtime_descriptor \<Rightarrow> bool" where
  "assertRuntimeDescriptor d \<longleftrightarrow>
     rd_version d = ''anastom.dev/runtime-descriptor/v1alpha1'' \<and>
     is_identifier (rd_runtimeId d) \<and>
     1 \<le> length (rd_configurationVersion d) \<and> length (rd_configurationVersion d) \<le> 256 \<and>
     (case canonicalJson (descriptor_js d) of
        None \<Rightarrow> False
      | Some bytes \<Rightarrow> byte_length bytes \<le> MAX_RUNTIME_DESCRIPTOR_BYTES)"

section \<open>Events\<close>

text \<open>The \<open>fields\<close> table: one schema per event type.\<close>

fun valid_payload :: "run_event_payload \<Rightarrow> bool" where
  "valid_payload (RuntimeNegotiated n) = valid_negotiation n"
| "valid_payload (RuntimeConfigured d) = assertRuntimeDescriptor d"
| "valid_payload (WorkspaceAssigned _) = True"
| "valid_payload (ArtifactProduced _ n a) = (positive_int n \<and> valid_artifact_schema a)"
| "valid_payload (WorkspaceObserved _ n _ _ _) = positive_int n"
| "valid_payload (CommandCompleted _ n out) = (positive_int n \<and> valid_command_output out)"
| "valid_payload (AttemptTimeoutRequested _ n) = positive_int n"
| "valid_payload (AttemptCancellationCompleted _ n _) = positive_int n"
| "valid_payload (LateResultObserved _ n _) = positive_int n"
| "valid_payload (RunCreated _ _ _ nodeIds _) = (1 \<le> length nodeIds \<and> distinct nodeIds)"
| "valid_payload (NodeReady _ _) = True"
| "valid_payload (AttemptScheduled _ n _) = positive_int n"
| "valid_payload (AttemptPrepared _ n plan cp) =
     (positive_int n \<and> valid_execution_plan plan \<and> valid_workspace_checkpoint cp)"
| "valid_payload (AttemptStartAuthorized _ n x) = (positive_int n \<and> valid_persisted_execution x)"
| "valid_payload (AttemptStarted _ n) = positive_int n"
| "valid_payload (RuntimeEventObserved _ n e) = (positive_int n \<and> valid_observation e)"
| "valid_payload (AttemptSucceeded _ n _) = positive_int n"
| "valid_payload (AttemptFailed _ n _) = positive_int n"
| "valid_payload (AttemptBlocked _ n _) = positive_int n"
| "valid_payload (AttemptCancelled _ n _) = positive_int n"
| "valid_payload (AttemptOrphaned _ n e) =
     (positive_int n \<and> is_identifier (or_executionId e) \<and> positive_int (or_lostGeneration e) \<and>
      valid_workspace_checkpoint (or_workspaceObservation e) \<and>
      valid_workspace_differences (or_workspaceDifferences e) \<and>
      pred_option is_identifier (or_terminalArtifactId e))"
| "valid_payload (ControlRequestObserved opId _ recordedAtMs) =
     (is_identifier opId \<and> positive_int recordedAtMs)"
| "valid_payload (ExecutionCleanupObserved _ n eid _ _) = (positive_int n \<and> is_identifier eid)"
| "valid_payload (NodeSucceeded _) = True"
| "valid_payload (NodeFailed _ _) = True"
| "valid_payload (NodeBlocked _ _) = True"
| "valid_payload (NodePaused _ reason) = pred_option valid_pause_reason reason"
| "valid_payload (NodeCancelled _ _) = True"
| "valid_payload (RunPaused reason) = pred_option valid_pause_reason reason"
| "valid_payload (RunResumed opId) = pred_option is_identifier opId"
| "valid_payload (RunRecoveryBlocked opId reason) =
     (is_identifier opId \<and> valid_recovery_block_reason reason)"
| "valid_payload (RunBlocked _) = True"
| "valid_payload (RunCancelled opId _) = pred_option is_identifier opId"
| "valid_payload (RunCompleted _) = True"

definition assertRunEvent :: "run_event \<Rightarrow> bool" where
  "assertRunEvent e \<longleftrightarrow> positive_int (ev_sequence e) \<and> valid_payload (ev_payload e)"

lemma assertRunEvent_sequence: "assertRunEvent e \<Longrightarrow> 0 < ev_sequence e"
  by (simp add: assertRunEvent_def positive_int_def)

lemma assertRunEvent_payload: "assertRunEvent e \<Longrightarrow> valid_payload (ev_payload e)"
  by (simp add: assertRunEvent_def)

section \<open>Runtime negotiation\<close>

text \<open>
  \<open>assertRuntimeNegotiation\<close> raises \<open>RuntimePreflightError\<close> with one of two categories;
  \<open>probeRuntime\<close> takes the outcome of the adapter's own probe (a capability snapshot, a
  preflight error it throws, or any other failure).
\<close>

datatype preflight_error = PreflightPolicyViolation | PreflightRuntimeUnavailable

datatype probe_outcome =
    ProbedCapabilities runtime_capabilities
  | ProbePreflightError preflight_error
  | ProbeOtherError

definition assertRuntimeNegotiation ::
    "runtime_negotiation \<Rightarrow> string \<Rightarrow> workspace_mode \<Rightarrow> preflight_error + unit" where
  "assertRuntimeNegotiation n runtimeId mode =
     bindE (check (valid_capabilities (ng_capabilities n)) PreflightRuntimeUnavailable) (\<lambda>_.
     bindE (check (ng_version n = ''anastom.dev/runtime-negotiation/v1alpha1'' \<and>
                   ng_runtimeId n = runtimeId \<and> ng_workspaceMode n = mode \<and>
                   ng_cancellation n \<and> ng_structuredOutput n = ''validated'')
              PreflightPolicyViolation) (\<lambda>_.
     bindE (check (case cap_workspaceModes (ng_capabilities n) of
                     None \<Rightarrow> False | Some ms \<Rightarrow> mode \<in> set ms) PreflightPolicyViolation) (\<lambda>_.
     check (cap_cancellation (ng_capabilities n) \<and>
            cap_structuredOutput (ng_capabilities n) \<noteq> NoOutput) PreflightPolicyViolation)))"

definition probeRuntime ::
    "string \<Rightarrow> probe_outcome \<Rightarrow> workspace_mode \<Rightarrow> preflight_error + runtime_negotiation" where
  "probeRuntime runtimeId outcome mode =
     (case outcome of
        ProbePreflightError e \<Rightarrow> Inl e
      | ProbeOtherError \<Rightarrow> Inl PreflightRuntimeUnavailable
      | ProbedCapabilities caps \<Rightarrow>
          bindE (check (valid_capabilities caps) PreflightRuntimeUnavailable) (\<lambda>_.
          let decision = \<lparr>ng_version = ''anastom.dev/runtime-negotiation/v1alpha1'',
                ng_runtimeId = runtimeId, ng_workspaceMode = mode, ng_cancellation = True,
                ng_structuredOutput = ''validated'', ng_capabilities = caps\<rparr>
          in bindE (assertRuntimeNegotiation decision runtimeId mode) (\<lambda>_. Inr decision)))"

end
