(* ===== verification/Run_Reducer.thy ===== *)
theory Run_Reducer
  imports Event_Validation
begin

text \<open>
  The reducer of \<open>engine/src/events.ts\<close>: \<open>applyRunEvent\<close> and the handlers it dispatches to,
  \<open>replayRun\<close> and \<open>materializeEvents\<close>. Every throw of the code is an error value; a handler
  that changes the cloned state returns the new state. The code looks a node or an attempt up
  and then writes its fields in place; here the changed node is stored back under its key.
\<close>

section \<open>Errors\<close>

datatype reducer_error =
    CorruptRunEvent
  | FirstEventMustBeRunCreated
  | RunIdMismatch
  | SequenceMismatch int int
  | RunCreatedOnlyFirst
  | TerminalRun
  | ConfigurationAfterAttempts
  | ConfigurationMismatch
  | NegotiationAfterAttempts
  | NegotiationMismatch
  | UnknownNode string
  | NodeStatusInvalid string node_status
  | NotCurrentAttempt int string attempt_status
  | CleanupNotOwned
  | CleanupAlreadyRecorded
  | WorkspaceAlreadyAssigned
  | PreStartArtifactMismatch
  | ArtifactProducerMismatch
  | WorkspaceDiffMissing
  | TimeoutAlreadyRequested
  | CancellationWithoutTimeout
  | LateResultWithoutCancellation
  | UnexpectedAttemptNumber int
  | ScheduledRuntimeMismatch
  | PreparedStartRequired
  | UsageAlreadyObserved
  | TimedOutCannotSucceed
  | TimedOutNeedsBudgetFailure
  | TimedOutCannotBlock
  | TimedOutCannotCancel
  | PreparedEvidenceMismatch
  | PreparedRuntimeMismatch
  | PreparedDiffMissing
  | AuthorizedPlanMismatch
  | OrphanNotOwned
  | OrphanTerminalArtifactMissing
  | OrphanDiffMissing
  | RetryWithoutFailure
  | RecoverWithoutOrphan
  | PauseRunningNode
  | CancelRunningNode
  | RunStatusInvalid run_status
  | CancellationIncomplete
  | SuccessIncomplete
  | FailureWithoutFailedNode
  | PauseWithActiveNode
  | ResumeUnresolvedRecovery
  | RecoveryBlockNotOwned
  | RecoveryBlockWithoutUnknownCleanup
  | EmptyHistory
  | EmptyTransition

section \<open>Lookups that may throw, and writes\<close>

definition requireNode :: "run_state \<Rightarrow> string \<Rightarrow> reducer_error + node_run_state" where
  "requireNode s nid =
     (case find_node s nid of None \<Rightarrow> Inl (UnknownNode nid) | Some nd \<Rightarrow> Inr nd)"

definition requireNodeStatus :: "node_run_state \<Rightarrow> node_status list \<Rightarrow> reducer_error + unit" where
  "requireNodeStatus nd allowed =
     check (n_status nd \<in> set allowed) (NodeStatusInvalid (n_id nd) (n_status nd))"

definition requireCurrentAttempt ::
    "node_run_state \<Rightarrow> int \<Rightarrow> attempt_status \<Rightarrow> reducer_error + attempt_state" where
  "requireCurrentAttempt nd n st =
     (case last_attempt nd of
        None \<Rightarrow> Inl (NotCurrentAttempt n (n_id nd) st)
      | Some a \<Rightarrow>
          if a_number a \<noteq> n \<or> a_status a \<noteq> st then Inl (NotCurrentAttempt n (n_id nd) st)
          else Inr a)"

definition set_node :: "run_state \<Rightarrow> string \<Rightarrow> node_run_state \<Rightarrow> run_state" where
  "set_node s nid nd = s\<lparr>rs_nodes := update_at nid (\<lambda>_. nd) (rs_nodes s)\<rparr>"

definition set_attempt :: "node_run_state \<Rightarrow> attempt_state \<Rightarrow> node_run_state" where
  "set_attempt nd a = nd\<lparr>n_attempts := update_last (\<lambda>_. a) (n_attempts nd)\<rparr>"

definition new_attempt :: "int \<Rightarrow> string \<Rightarrow> attempt_state" where
  "new_attempt n runtimeId =
     \<lparr>a_number = n, a_runtimeId = runtimeId, a_status = Scheduled, a_failure = None,
      a_identity = None, a_usage = None, a_timeout = None, a_executionPlan = None,
      a_execution = None, a_workspaceCheckpoint = None, a_cleanup = None, a_orphan = None\<rparr>"

definition new_node :: "string \<Rightarrow> node_run_state" where
  "new_node nid =
     \<lparr>n_id = nid, n_status = NodePendingStatus, n_attempts = [], n_output = None,
      n_failure = None, n_blockedReason = None, n_command = None, n_pauseReason = None\<rparr>"

definition any_attempts :: "run_state \<Rightarrow> bool" where
  "any_attempts s \<longleftrightarrow> list_ex (\<lambda>nd. n_attempts nd \<noteq> []) (node_values s)"

definition has_artifact :: "run_state \<Rightarrow> string \<Rightarrow> bool" where
  "has_artifact s aid \<longleftrightarrow> list_ex (\<lambda>r. ar_id r = aid) (artifact_list s)"

definition has_own_artifact :: "run_state \<Rightarrow> string \<Rightarrow> int \<Rightarrow> string \<Rightarrow> bool" where
  "has_own_artifact s nid n aid \<longleftrightarrow>
     list_ex (\<lambda>r. ar_id r = aid \<and> pr_runId (ar_producer r) = rs_runId s \<and>
                  pr_nodeId (ar_producer r) = nid \<and> pr_attempt (ar_producer r) = n)
       (artifact_list s)"

text \<open>An optional string is truthy when it is present and not empty.\<close>

definition truthy :: "string option \<Rightarrow> bool" where
  "truthy x = (case x of None \<Rightarrow> False | Some s \<Rightarrow> s \<noteq> [])"

section \<open>Runtime selection\<close>

definition applyRuntimeConfigured ::
    "run_state \<Rightarrow> runtime_descriptor \<Rightarrow> reducer_error + run_state" where
  "applyRuntimeConfigured s d =
     bindE (check (rs_runtimeDescriptor s = None \<and> \<not> any_attempts s) ConfigurationAfterAttempts) (\<lambda>_.
     bindE (check (case rs_runtimeNegotiation s of
                     None \<Rightarrow> True | Some n \<Rightarrow> ng_runtimeId n = rd_runtimeId d)
              ConfigurationMismatch) (\<lambda>_.
     Inr (s\<lparr>rs_runtimeDescriptor := Some d\<rparr>)))"

definition applyRuntimeNegotiated ::
    "run_state \<Rightarrow> runtime_negotiation \<Rightarrow> reducer_error + run_state" where
  "applyRuntimeNegotiated s n =
     bindE (check (rs_runtimeNegotiation s = None \<and> \<not> any_attempts s) NegotiationAfterAttempts) (\<lambda>_.
     bindE (check (case rs_runtimeDescriptor s of
                     None \<Rightarrow> True | Some d \<Rightarrow> rd_runtimeId d = ng_runtimeId n)
              NegotiationMismatch) (\<lambda>_.
     Inr (s\<lparr>rs_runtimeNegotiation := Some n\<rparr>)))"

section \<open>Operational evidence\<close>

definition applyExecutionCleanup ::
    "run_state \<Rightarrow> string \<Rightarrow> int \<Rightarrow> string \<Rightarrow> cleanup_cause \<Rightarrow> cleanup_outcome \<Rightarrow>
     reducer_error + run_state" where
  "applyExecutionCleanup s nid n eid cause outcome =
     bindE (requireNode s nid) (\<lambda>nd.
     case last_attempt nd of
       None \<Rightarrow> Inl CleanupNotOwned
     | Some a \<Rightarrow>
         bindE (check (a_number a = n \<and> a_status a \<in> {Prepared, Running, Orphaned} \<and>
                       map_option ex_executionId (a_executionPlan a) = Some eid)
                  CleanupNotOwned) (\<lambda>_.
         bindE (check (\<not> list_ex (\<lambda>c. cl_executionId c = eid \<and> cl_cause c = cause) (cleanup_list a))
                  CleanupAlreadyRecorded) (\<lambda>_.
         Inr (set_node s nid (set_attempt nd
               (a\<lparr>a_cleanup := Some (cleanup_list a @
                    [\<lparr>cl_executionId = eid, cl_cause = cause, cl_outcome = outcome\<rparr>])\<rparr>))))))"

section \<open>Observations\<close>

definition applyWorkspaceAssigned ::
    "run_state \<Rightarrow> workspace_ref \<Rightarrow> reducer_error + run_state" where
  "applyWorkspaceAssigned s w =
     bindE (check (rs_status s = RunRunning \<and> rs_workspace s = None) WorkspaceAlreadyAssigned) (\<lambda>_.
     Inr (s\<lparr>rs_workspace := Some w\<rparr>))"

definition applyArtifactProduced ::
    "run_state \<Rightarrow> string \<Rightarrow> int \<Rightarrow> artifact_ref \<Rightarrow> reducer_error + run_state" where
  "applyArtifactProduced s nid n r =
     bindE (requireNode s nid) (\<lambda>nd.
     bindE (requireNodeStatus nd [NodeReadyStatus, NodeRunningStatus]) (\<lambda>_.
     bindE (if n_status nd = NodeRunningStatus
            then bindE (requireCurrentAttempt nd n Running) (\<lambda>_. Inr ())
            else check (case last_attempt nd of
                          None \<Rightarrow> False
                        | Some a \<Rightarrow> a_number a = n \<and> a_status a \<in> {Scheduled, Prepared})
                   PreStartArtifactMismatch) (\<lambda>_.
     bindE (check (pr_runId (ar_producer r) = rs_runId s \<and> pr_nodeId (ar_producer r) = nid \<and>
                   pr_attempt (ar_producer r) = n) ArtifactProducerMismatch) (\<lambda>_.
     Inr (s\<lparr>rs_artifacts := Some (artifact_list s @ [r])\<rparr>)))))"

definition applyWorkspaceObserved ::
    "run_state \<Rightarrow> string \<Rightarrow> int \<Rightarrow> string \<Rightarrow> string list \<Rightarrow> string \<Rightarrow> reducer_error + run_state" where
  "applyWorkspaceObserved s nid n headCommit changedFiles diffArtifactId =
     bindE (requireNode s nid) (\<lambda>nd.
     bindE (requireCurrentAttempt nd n Running) (\<lambda>_.
     bindE (check (has_artifact s diffArtifactId) WorkspaceDiffMissing) (\<lambda>_.
     Inr (s\<lparr>rs_workspaceObservation := Some \<lparr>wo_headCommit = headCommit,
              wo_changedFiles = changedFiles, wo_diffArtifactId = diffArtifactId\<rparr>\<rparr>))))"

definition applyCommandCompleted ::
    "run_state \<Rightarrow> string \<Rightarrow> int \<Rightarrow> command_report \<Rightarrow> reducer_error + run_state" where
  "applyCommandCompleted s nid n out =
     bindE (requireNode s nid) (\<lambda>nd.
     bindE (requireCurrentAttempt nd n Running) (\<lambda>_.
     Inr (set_node s nid (nd\<lparr>n_command := Some out\<rparr>))))"

section \<open>Timeouts\<close>

definition applyTimeoutRequested :: "run_state \<Rightarrow> string \<Rightarrow> int \<Rightarrow> reducer_error + run_state" where
  "applyTimeoutRequested s nid n =
     bindE (requireNode s nid) (\<lambda>nd.
     bindE (requireNodeStatus nd [NodeRunningStatus]) (\<lambda>_.
     bindE (requireCurrentAttempt nd n Running) (\<lambda>a.
     bindE (check (a_timeout a = None) TimeoutAlreadyRequested) (\<lambda>_.
     Inr (set_node s nid (set_attempt nd
           (a\<lparr>a_timeout := Some \<lparr>to_cancellation = None, to_lateStatus = None\<rparr>\<rparr>)))))))"

definition applyCancellationCompleted ::
    "run_state \<Rightarrow> string \<Rightarrow> int \<Rightarrow> cancellation_outcome \<Rightarrow> reducer_error + run_state" where
  "applyCancellationCompleted s nid n outcome =
     bindE (requireNode s nid) (\<lambda>nd.
     bindE (requireCurrentAttempt nd n Running) (\<lambda>a.
     case a_timeout a of
       None \<Rightarrow> Inl CancellationWithoutTimeout
     | Some t \<Rightarrow>
         bindE (check (to_cancellation t = None) CancellationWithoutTimeout) (\<lambda>_.
         Inr (set_node s nid (set_attempt nd
               (a\<lparr>a_timeout := Some (t\<lparr>to_cancellation := Some outcome\<rparr>)\<rparr>))))))"

definition applyLateResult ::
    "run_state \<Rightarrow> string \<Rightarrow> int \<Rightarrow> result_status \<Rightarrow> reducer_error + run_state" where
  "applyLateResult s nid n st =
     bindE (requireNode s nid) (\<lambda>nd.
     bindE (requireCurrentAttempt nd n Running) (\<lambda>a.
     case a_timeout a of
       None \<Rightarrow> Inl LateResultWithoutCancellation
     | Some t \<Rightarrow>
         bindE (check (to_cancellation t \<noteq> None \<and> to_lateStatus t = None)
                  LateResultWithoutCancellation) (\<lambda>_.
         Inr (set_node s nid (set_attempt nd
               (a\<lparr>a_timeout := Some (t\<lparr>to_lateStatus := Some st\<rparr>)\<rparr>))))))"

section \<open>Attempts\<close>

definition applyAttemptScheduled ::
    "run_state \<Rightarrow> string \<Rightarrow> int \<Rightarrow> string \<Rightarrow> reducer_error + run_state" where
  "applyAttemptScheduled s nid n runtimeId =
     bindE (requireNode s nid) (\<lambda>nd.
     bindE (requireNodeStatus nd [NodeReadyStatus]) (\<lambda>_.
     bindE (check (n = int (length (n_attempts nd)) + 1)
              (UnexpectedAttemptNumber (int (length (n_attempts nd)) + 1))) (\<lambda>_.
     bindE (check (runtimeId = ''command'' \<or>
                   (case rs_runtimeDescriptor s of
                      None \<Rightarrow> True | Some d \<Rightarrow> rd_runtimeId d = runtimeId))
              ScheduledRuntimeMismatch) (\<lambda>_.
     Inr (set_node s nid (nd\<lparr>n_attempts := n_attempts nd @ [new_attempt n runtimeId]\<rparr>))))))"

definition applyAttemptStarted :: "run_state \<Rightarrow> string \<Rightarrow> int \<Rightarrow> reducer_error + run_state" where
  "applyAttemptStarted s nid n =
     bindE (requireNode s nid) (\<lambda>nd.
     bindE (requireNodeStatus nd [NodeReadyStatus]) (\<lambda>_.
     bindE (check (rs_runtimeDescriptor s = None) PreparedStartRequired) (\<lambda>_.
     bindE (requireCurrentAttempt nd n Scheduled) (\<lambda>a.
     Inr (set_node s nid (set_attempt nd (a\<lparr>a_status := Running\<rparr>)
            \<lparr>n_status := NodeRunningStatus\<rparr>))))))"

definition observe_runtime_event :: "attempt_state \<Rightarrow> runtime_event \<Rightarrow> reducer_error + attempt_state" where
  "observe_runtime_event a e =
     (case e of
        UsageEvent u \<Rightarrow>
          bindE (check (a_usage a = None) UsageAlreadyObserved) (\<lambda>_. Inr (a\<lparr>a_usage := Some u\<rparr>))
      | MetadataEvent m \<Rightarrow>
          Inr (a\<lparr>a_identity := Some (case_option [] id (a_identity a) @ [m])\<rparr>)
      | _ \<Rightarrow> Inr a)"

definition applyRuntimeEventObserved ::
    "run_state \<Rightarrow> string \<Rightarrow> int \<Rightarrow> runtime_event \<Rightarrow> reducer_error + run_state" where
  "applyRuntimeEventObserved s nid n e =
     bindE (requireNode s nid) (\<lambda>nd.
     bindE (requireNodeStatus nd [NodeRunningStatus]) (\<lambda>_.
     bindE (requireCurrentAttempt nd n Running) (\<lambda>a.
     bindE (observe_runtime_event a e) (\<lambda>a'.
     Inr (set_node s nid (set_attempt nd a'))))))"

definition applyAttemptSucceeded ::
    "run_state \<Rightarrow> string \<Rightarrow> int \<Rightarrow> js \<Rightarrow> reducer_error + run_state" where
  "applyAttemptSucceeded s nid n out =
     bindE (requireNode s nid) (\<lambda>nd.
     bindE (requireNodeStatus nd [NodeRunningStatus]) (\<lambda>_.
     bindE (requireCurrentAttempt nd n Running) (\<lambda>a.
     bindE (check (a_timeout a = None) TimedOutCannotSucceed) (\<lambda>_.
     Inr (set_node s nid (set_attempt nd (a\<lparr>a_status := Succeeded\<rparr>)
            \<lparr>n_output := Some out, n_failure := None\<rparr>))))))"

definition applyAttemptFailed ::
    "run_state \<Rightarrow> string \<Rightarrow> int \<Rightarrow> execution_failure \<Rightarrow> reducer_error + run_state" where
  "applyAttemptFailed s nid n f =
     bindE (requireNode s nid) (\<lambda>nd.
     bindE (requireNodeStatus nd [NodeRunningStatus]) (\<lambda>_.
     bindE (requireCurrentAttempt nd n Running) (\<lambda>a.
     bindE (check (case a_timeout a of
                     None \<Rightarrow> True
                   | Some t \<Rightarrow> f_category f = BudgetExhausted \<and> to_cancellation t \<noteq> None)
              TimedOutNeedsBudgetFailure) (\<lambda>_.
     Inr (set_node s nid (set_attempt nd (a\<lparr>a_status := Failed, a_failure := Some f\<rparr>)
            \<lparr>n_failure := Some f\<rparr>))))))"

definition applyAttemptBlocked :: "run_state \<Rightarrow> string \<Rightarrow> int \<Rightarrow> reducer_error + run_state" where
  "applyAttemptBlocked s nid n =
     bindE (requireNode s nid) (\<lambda>nd.
     bindE (requireNodeStatus nd [NodeRunningStatus]) (\<lambda>_.
     bindE (requireCurrentAttempt nd n Running) (\<lambda>a.
     bindE (check (a_timeout a = None) TimedOutCannotBlock) (\<lambda>_.
     Inr (set_node s nid (set_attempt nd (a\<lparr>a_status := Blocked\<rparr>)))))))"

definition applyAttemptCancelled :: "run_state \<Rightarrow> string \<Rightarrow> int \<Rightarrow> reducer_error + run_state" where
  "applyAttemptCancelled s nid n =
     bindE (requireNode s nid) (\<lambda>nd.
     bindE (requireNodeStatus nd [NodeRunningStatus]) (\<lambda>_.
     bindE (requireCurrentAttempt nd n Running) (\<lambda>a.
     bindE (check (a_timeout a = None) TimedOutCannotCancel) (\<lambda>_.
     Inr (set_node s nid (set_attempt nd (a\<lparr>a_status := Cancelled\<rparr>)))))))"

section \<open>Owned executions: prepare, authorize, orphan\<close>

definition applyAttemptPrepared ::
    "run_state \<Rightarrow> string \<Rightarrow> int \<Rightarrow> execution_plan_ref \<Rightarrow> workspace_checkpoint \<Rightarrow>
     reducer_error + run_state" where
  "applyAttemptPrepared s nid n plan cp =
     bindE (requireNode s nid) (\<lambda>nd.
     bindE (requireNodeStatus nd [NodeReadyStatus]) (\<lambda>_.
     bindE (requireCurrentAttempt nd n Scheduled) (\<lambda>a.
     let expectedKind = (if a_runtimeId a = ''command'' then CommandKind else RuntimeKind) in
     bindE (check (ex_runId plan = rs_runId s \<and> 1 \<le> ex_generation plan \<and>
                   (case rs_workspace s of None \<Rightarrow> True | Some w \<Rightarrow> wc_workspaceId cp = ws_id w) \<and>
                   ex_kind plan = expectedKind) PreparedEvidenceMismatch) (\<lambda>_.
     bindE (check (expectedKind = RuntimeKind \<longrightarrow>
                   map_option rd_runtimeId (rs_runtimeDescriptor s) = Some (a_runtimeId a))
              PreparedRuntimeMismatch) (\<lambda>_.
     bindE (check (truthy (wc_diffArtifactId cp) \<longrightarrow>
                   has_own_artifact s nid n (the (wc_diffArtifactId cp))) PreparedDiffMissing) (\<lambda>_.
     Inr (set_node s nid (set_attempt nd (a\<lparr>a_status := Prepared, a_executionPlan := Some plan,
            a_workspaceCheckpoint := Some cp\<rparr>)))))))))"

definition plan_matches :: "execution_plan_ref \<Rightarrow> persisted_execution_ref \<Rightarrow> bool" where
  "plan_matches plan x \<longleftrightarrow>
     ex_version plan = ex_version x \<and> ex_runId plan = ex_runId x \<and>
     ex_executionId plan = ex_executionId x \<and> ex_kind plan = ex_kind x \<and>
     ex_generation plan = ex_generation x \<and> ex_planDigest plan = ex_planDigest x"

definition applyAttemptStartAuthorized ::
    "run_state \<Rightarrow> string \<Rightarrow> int \<Rightarrow> persisted_execution_ref \<Rightarrow> reducer_error + run_state" where
  "applyAttemptStartAuthorized s nid n x =
     bindE (requireNode s nid) (\<lambda>nd.
     bindE (requireNodeStatus nd [NodeReadyStatus]) (\<lambda>_.
     bindE (requireCurrentAttempt nd n Prepared) (\<lambda>a.
     bindE (check (case a_executionPlan a of None \<Rightarrow> False | Some plan \<Rightarrow> plan_matches plan x)
              AuthorizedPlanMismatch) (\<lambda>_.
     Inr (set_node s nid (set_attempt nd (a\<lparr>a_status := Running, a_execution := Some x\<rparr>)
            \<lparr>n_status := NodeRunningStatus\<rparr>))))))"

definition applyAttemptOrphaned ::
    "run_state \<Rightarrow> string \<Rightarrow> int \<Rightarrow> orphan_evidence \<Rightarrow> reducer_error + run_state" where
  "applyAttemptOrphaned s nid n e =
     bindE (requireNode s nid) (\<lambda>nd.
     bindE (requireNodeStatus nd [NodeReadyStatus, NodeRunningStatus]) (\<lambda>_.
     case last_attempt nd of
       None \<Rightarrow> Inl OrphanNotOwned
     | Some a \<Rightarrow>
         bindE (check (a_number a = n \<and> a_status a \<in> {Prepared, Running} \<and>
                       (case a_executionPlan a of
                          None \<Rightarrow> False
                        | Some plan \<Rightarrow> ex_executionId plan = or_executionId e \<and>
                                       ex_generation plan = or_lostGeneration e))
                  OrphanNotOwned) (\<lambda>_.
         bindE (check (truthy (or_terminalArtifactId e) \<longrightarrow>
                       has_artifact s (the (or_terminalArtifactId e)))
                  OrphanTerminalArtifactMissing) (\<lambda>_.
         bindE (check (truthy (wc_diffArtifactId (or_workspaceObservation e)) \<longrightarrow>
                       has_own_artifact s nid n (the (wc_diffArtifactId (or_workspaceObservation e))))
                  OrphanDiffMissing) (\<lambda>_.
         Inr (set_node s nid (set_attempt nd
               (a\<lparr>a_status := Orphaned,
                  a_orphan := Some (if truthy (or_terminalArtifactId e) then e
                                    else e\<lparr>or_terminalArtifactId := None\<rparr>)\<rparr>)
               \<lparr>n_status := NodeRunningStatus\<rparr>)))))))"

section \<open>Nodes\<close>

definition ready_sources :: "ready_reason \<Rightarrow> node_status list" where
  "ready_sources r =
     (case r of RetryReason \<Rightarrow> [NodeRunningStatus]
      | ResumedReason \<Rightarrow> [NodePausedStatus]
      | RecoveredReason \<Rightarrow> [NodeRunningStatus]
      | DependenciesSatisfied \<Rightarrow> [NodePendingStatus])"

definition last_status :: "node_run_state \<Rightarrow> attempt_status option" where
  "last_status nd = map_option a_status (last_attempt nd)"

definition applyNodeReady :: "run_state \<Rightarrow> string \<Rightarrow> ready_reason \<Rightarrow> reducer_error + run_state" where
  "applyNodeReady s nid r =
     bindE (requireNode s nid) (\<lambda>nd.
     bindE (requireNodeStatus nd (ready_sources r)) (\<lambda>_.
     bindE (check (r = RetryReason \<longrightarrow> last_status nd = Some Failed) RetryWithoutFailure) (\<lambda>_.
     bindE (check (r = RecoveredReason \<longrightarrow> last_status nd = Some Orphaned) RecoverWithoutOrphan) (\<lambda>_.
     Inr (set_node s nid (nd\<lparr>n_status := NodeReadyStatus, n_pauseReason := None\<rparr>))))))"

definition applyNodeSucceeded :: "run_state \<Rightarrow> string \<Rightarrow> reducer_error + run_state" where
  "applyNodeSucceeded s nid =
     bindE (requireNode s nid) (\<lambda>nd.
     bindE (requireNodeStatus nd [NodeRunningStatus]) (\<lambda>_.
     bindE (requireCurrentAttempt nd (int (length (n_attempts nd))) Succeeded) (\<lambda>_.
     Inr (set_node s nid (nd\<lparr>n_status := NodeSucceededStatus\<rparr>)))))"

definition applyNodeFailed :: "run_state \<Rightarrow> string \<Rightarrow> execution_failure \<Rightarrow> reducer_error + run_state" where
  "applyNodeFailed s nid f =
     bindE (requireNode s nid) (\<lambda>nd.
     bindE (requireNodeStatus nd [NodeRunningStatus]) (\<lambda>_.
     bindE (requireCurrentAttempt nd (int (length (n_attempts nd))) Failed) (\<lambda>_.
     Inr (set_node s nid (nd\<lparr>n_status := NodeFailedStatus, n_failure := Some f\<rparr>)))))"

definition applyNodeBlocked :: "run_state \<Rightarrow> string \<Rightarrow> string \<Rightarrow> reducer_error + run_state" where
  "applyNodeBlocked s nid reason =
     bindE (requireNode s nid) (\<lambda>nd.
     bindE (requireNodeStatus nd [NodePendingStatus, NodeReadyStatus, NodeRunningStatus]) (\<lambda>_.
     bindE (if n_status nd = NodeRunningStatus
            then bindE (requireCurrentAttempt nd (int (length (n_attempts nd))) Blocked) (\<lambda>_. Inr ())
            else Inr ()) (\<lambda>_.
     Inr (set_node s nid (nd\<lparr>n_status := NodeBlockedStatus, n_blockedReason := Some reason\<rparr>)))))"

text \<open>A running node may stop only after its attempt was cancelled or orphaned.\<close>

definition stopped_attempt :: "node_run_state \<Rightarrow> bool" where
  "stopped_attempt nd \<longleftrightarrow> case_option Scheduled id (last_status nd) \<in> {Cancelled, Orphaned}"

definition applyNodePaused ::
    "run_state \<Rightarrow> string \<Rightarrow> pause_reason option \<Rightarrow> reducer_error + run_state" where
  "applyNodePaused s nid reason =
     bindE (requireNode s nid) (\<lambda>nd.
     case reason of
       Some r \<Rightarrow>
         bindE (requireNodeStatus nd [NodePendingStatus, NodeReadyStatus, NodeRunningStatus]) (\<lambda>_.
         bindE (check (n_status nd = NodeRunningStatus \<longrightarrow> stopped_attempt nd) PauseRunningNode) (\<lambda>_.
         Inr (set_node s nid (nd\<lparr>n_status := NodePausedStatus, n_pauseReason := Some r\<rparr>))))
     | None \<Rightarrow>
         bindE (requireNodeStatus nd [NodePendingStatus, NodeReadyStatus]) (\<lambda>_.
         Inr (set_node s nid (nd\<lparr>n_status := NodePausedStatus\<rparr>))))"

definition applyNodeCancelled :: "run_state \<Rightarrow> string \<Rightarrow> string \<Rightarrow> reducer_error + run_state" where
  "applyNodeCancelled s nid reason =
     bindE (requireNode s nid) (\<lambda>nd.
     bindE (requireNodeStatus nd [NodePendingStatus, NodeReadyStatus, NodeRunningStatus,
              NodeBlockedStatus, NodePausedStatus]) (\<lambda>_.
     bindE (check (n_status nd = NodeRunningStatus \<longrightarrow> stopped_attempt nd) CancelRunningNode) (\<lambda>_.
     Inr (set_node s nid (nd\<lparr>n_status := NodeCancelledStatus, n_blockedReason := Some reason\<rparr>)))))"

section \<open>The run's lifecycle\<close>

definition applyRunPaused :: "run_state \<Rightarrow> pause_reason option \<Rightarrow> reducer_error + run_state" where
  "applyRunPaused s reason =
     bindE (check (rs_status s = RunRunning \<or>
                   (reason \<noteq> None \<and> rs_status s = RunRecoveryBlockedStatus))
              (RunStatusInvalid (rs_status s))) (\<lambda>_.
     bindE (check (reason \<noteq> None \<longrightarrow>
                   \<not> list_ex (\<lambda>nd. n_status nd = NodeRunningStatus) (node_values s))
              PauseWithActiveNode) (\<lambda>_.
     Inr (s\<lparr>rs_status := RunIsPaused,
            rs_pauseReason := (case reason of None \<Rightarrow> rs_pauseReason s | Some r \<Rightarrow> Some r)\<rparr>)))"

definition unresolved_recovery :: "node_run_state \<Rightarrow> bool" where
  "unresolved_recovery nd \<longleftrightarrow>
     last_status nd = Some Prepared \<or> last_status nd = Some Running \<or>
     (last_status nd = Some Orphaned \<and> n_status nd \<noteq> NodeReadyStatus \<and>
      n_status nd \<noteq> NodePausedStatus)"

definition applyRunResumed :: "run_state \<Rightarrow> string option \<Rightarrow> reducer_error + run_state" where
  "applyRunResumed s opId =
     bindE (check (rs_status s = RunIsPaused \<or>
                   (opId \<noteq> None \<and> rs_status s = RunRecoveryBlockedStatus))
              (RunStatusInvalid (rs_status s))) (\<lambda>_.
     bindE (check (rs_status s = RunRecoveryBlockedStatus \<longrightarrow>
                   \<not> list_ex unresolved_recovery (node_values s)) ResumeUnresolvedRecovery) (\<lambda>_.
     Inr (s\<lparr>rs_status := RunRunning, rs_pauseReason := None, rs_recoveryBlock := None\<rparr>)))"

definition applyRunBlocked :: "run_state \<Rightarrow> reducer_error + run_state" where
  "applyRunBlocked s =
     bindE (check (rs_status s = RunRunning) (RunStatusInvalid (rs_status s))) (\<lambda>_.
     Inr (s\<lparr>rs_status := RunIsBlocked\<rparr>))"

definition applyRunCancelled :: "run_state \<Rightarrow> string option \<Rightarrow> reducer_error + run_state" where
  "applyRunCancelled s opId =
     bindE (check (rs_status s \<in> {RunRunning, RunIsBlocked, RunIsPaused, RunRecoveryBlockedStatus})
              (RunStatusInvalid (rs_status s))) (\<lambda>_.
     bindE (check (opId \<noteq> None \<longrightarrow>
                   \<not> list_ex (\<lambda>nd. n_status nd \<notin> {NodeSucceededStatus, NodeFailedStatus,
                        NodeCancelledStatus}) (node_values s)) CancellationIncomplete) (\<lambda>_.
     Inr (s\<lparr>rs_status := RunIsCancelled\<rparr>)))"

definition applyRunRecoveryBlocked ::
    "run_state \<Rightarrow> string \<Rightarrow> recovery_block_reason \<Rightarrow> reducer_error + run_state" where
  "applyRunRecoveryBlocked s opId reason =
     bindE (check (rs_status s \<in> {RunRunning, RunIsPaused, RunRecoveryBlockedStatus})
              (RunStatusInvalid (rs_status s))) (\<lambda>_.
     case List.find (\<lambda>a. map_option ex_executionId (a_executionPlan a) = Some (rb_executionId reason))
            (List.map_filter last_attempt (node_values s)) of
       None \<Rightarrow> Inl RecoveryBlockNotOwned
     | Some a \<Rightarrow>
         bindE (check (case reason of
                         ExecutionUnknown _ _ \<Rightarrow> True
                       | CleanupUnknown eid \<Rightarrow>
                           list_ex (\<lambda>c. cl_executionId c = eid \<and> cl_outcome c = UnknownCleanup)
                             (cleanup_list a)) RecoveryBlockWithoutUnknownCleanup) (\<lambda>_.
         Inr (s\<lparr>rs_status := RunRecoveryBlockedStatus,
                rs_recoveryBlock := Some \<lparr>rb_operationId = opId, rb_reason = reason\<rparr>\<rparr>)))"

definition applyRunCompleted :: "run_state \<Rightarrow> run_outcome \<Rightarrow> reducer_error + run_state" where
  "applyRunCompleted s outcome =
     bindE (check (rs_status s = RunRunning) (RunStatusInvalid (rs_status s))) (\<lambda>_.
     bindE (check (outcome = OutcomeSucceeded \<longrightarrow>
                   \<not> list_ex (\<lambda>nd. n_status nd \<noteq> NodeSucceededStatus) (node_values s))
              SuccessIncomplete) (\<lambda>_.
     bindE (check (outcome = OutcomeFailed \<longrightarrow>
                   \<not> list_all (\<lambda>nd. n_status nd \<noteq> NodeFailedStatus) (node_values s))
              FailureWithoutFailedNode) (\<lambda>_.
     Inr (s\<lparr>rs_status := (case outcome of OutcomeSucceeded \<Rightarrow> RunSucceeded
                          | OutcomeFailed \<Rightarrow> RunFailed)\<rparr>))))"

end
