(* ===== verification/Reducer_Rules.thy ===== *)
theory Reducer_Rules
  imports Run_Reducer
begin

text \<open>
  When each handler of the reducer accepts an event, and the state it then returns: one
  equivalence per handler, the collection \<open>handler_iffs\<close>. All later proofs about the reducer
  reason from these instead of the definitions.
\<close>

named_theorems handler_iffs \<open>acceptance condition and result of each handler\<close>

section \<open>Writes\<close>

lemma set_node_frame [simp]:
  "rs_runId (set_node s nid nd) = rs_runId s"
  "rs_sequence (set_node s nid nd) = rs_sequence s"
  "rs_status (set_node s nid nd) = rs_status s"
  "rs_workflowId (set_node s nid nd) = rs_workflowId s"
  "rs_workflowVersion (set_node s nid nd) = rs_workflowVersion s"
  "rs_workflowInstanceId (set_node s nid nd) = rs_workflowInstanceId s"
  "rs_inputs (set_node s nid nd) = rs_inputs s"
  "rs_runtimeDescriptor (set_node s nid nd) = rs_runtimeDescriptor s"
  "rs_artifacts (set_node s nid nd) = rs_artifacts s"
  "artifact_list (set_node s nid nd) = artifact_list s"
  "map fst (rs_nodes (set_node s nid nd)) = map fst (rs_nodes s)"
  by (simp_all add: set_node_def artifact_list_def dict_simps)

lemma find_node_set_node [simp]:
  "find_node (set_node s nid nd) j = (if j = nid then map_option (\<lambda>_. nd) (find_node s nid) else find_node s j)"
  by (simp add: find_node_def set_node_def dict_simps)

lemma set_attempt_frame [simp]:
  "n_id (set_attempt nd a) = n_id nd"
  "n_status (set_attempt nd a) = n_status nd"
  "n_output (set_attempt nd a) = n_output nd"
  "n_failure (set_attempt nd a) = n_failure nd"
  "n_pauseReason (set_attempt nd a) = n_pauseReason nd"
  "n_attempts (set_attempt nd a) = update_last (\<lambda>_. a) (n_attempts nd)"
  by (simp_all add: set_attempt_def)

lemma last_attempt_SomeD: "last_attempt nd = Some a \<Longrightarrow> \<exists>as. n_attempts nd = as @ [a]"
  by (simp add: last_attempt_def last_opt_Some_iff)

section \<open>Lookups\<close>

lemma requireNode_Inr_iff [result_simps]: "requireNode s nid = Inr nd \<longleftrightarrow> find_node s nid = Some nd"
  by (simp add: requireNode_def split: option.split)

lemma requireNodeStatus_Inr_iff [result_simps]:
  "requireNodeStatus nd allowed = Inr u \<longleftrightarrow> n_status nd \<in> set allowed"
  by (simp add: requireNodeStatus_def result_simps)

lemma requireCurrentAttempt_Inr_iff [result_simps]:
  "requireCurrentAttempt nd n st = Inr a \<longleftrightarrow>
     last_attempt nd = Some a \<and> a_number a = n \<and> a_status a = st"
  by (auto simp: requireCurrentAttempt_def split: option.split)

lemma case_option_Inl_iff [result_simps]:
  "(case x of None \<Rightarrow> Inl e | Some y \<Rightarrow> f y) = Inr z \<longleftrightarrow> (\<exists>y. x = Some y \<and> f y = Inr z)"
  by (simp split: option.split)

lemma if_Inl_iff [result_simps]: "(if b then Inl e else m) = Inr z \<longleftrightarrow> \<not> b \<and> m = Inr z"
  by simp

lemma case_option_bool [result_simps]:
  "(case x of None \<Rightarrow> True | Some y \<Rightarrow> P y) \<longleftrightarrow> pred_option P x"
  "(case x of None \<Rightarrow> False | Some y \<Rightarrow> P y) \<longleftrightarrow> (\<exists>y. x = Some y \<and> P y)"
  by (auto split: option.split)

section \<open>Runtime selection and evidence\<close>

lemma applyRuntimeConfigured_iff [handler_iffs]:
  "applyRuntimeConfigured s d = Inr s' \<longleftrightarrow>
     rs_runtimeDescriptor s = None \<and> \<not> any_attempts s \<and>
     pred_option (\<lambda>n. ng_runtimeId n = rd_runtimeId d) (rs_runtimeNegotiation s) \<and>
     s' = s\<lparr>rs_runtimeDescriptor := Some d\<rparr>"
  by (auto simp: applyRuntimeConfigured_def result_simps)

lemma applyRuntimeNegotiated_iff [handler_iffs]:
  "applyRuntimeNegotiated s n = Inr s' \<longleftrightarrow>
     rs_runtimeNegotiation s = None \<and> \<not> any_attempts s \<and>
     pred_option (\<lambda>d. rd_runtimeId d = ng_runtimeId n) (rs_runtimeDescriptor s) \<and>
     s' = s\<lparr>rs_runtimeNegotiation := Some n\<rparr>"
  by (auto simp: applyRuntimeNegotiated_def result_simps)

lemma applyExecutionCleanup_iff [handler_iffs]:
  "applyExecutionCleanup s nid n eid cause outcome = Inr s' \<longleftrightarrow>
     (\<exists>nd a. find_node s nid = Some nd \<and> last_attempt nd = Some a \<and> a_number a = n \<and>
        a_status a \<in> {Prepared, Running, Orphaned} \<and>
        map_option ex_executionId (a_executionPlan a) = Some eid \<and>
        \<not> list_ex (\<lambda>c. cl_executionId c = eid \<and> cl_cause c = cause) (cleanup_list a) \<and>
        s' = set_node s nid (set_attempt nd
               (a\<lparr>a_cleanup := Some (cleanup_list a @
                    [\<lparr>cl_executionId = eid, cl_cause = cause, cl_outcome = outcome\<rparr>])\<rparr>)))"
  by (auto simp: applyExecutionCleanup_def result_simps)

lemma applyWorkspaceAssigned_iff [handler_iffs]:
  "applyWorkspaceAssigned s w = Inr s' \<longleftrightarrow>
     rs_status s = RunRunning \<and> rs_workspace s = None \<and> s' = s\<lparr>rs_workspace := Some w\<rparr>"
  by (auto simp: applyWorkspaceAssigned_def result_simps)

definition may_produce_artifact :: "node_run_state \<Rightarrow> int \<Rightarrow> bool" where
  "may_produce_artifact nd n \<longleftrightarrow>
     (\<exists>a. last_attempt nd = Some a \<and> a_number a = n \<and>
        (n_status nd = NodeRunningStatus \<and> a_status a = Running \<or>
         n_status nd = NodeReadyStatus \<and> a_status a \<in> {Scheduled, Prepared}))"

lemma applyArtifactProduced_iff [handler_iffs]:
  "applyArtifactProduced s nid n r = Inr s' \<longleftrightarrow>
     (\<exists>nd. find_node s nid = Some nd \<and> may_produce_artifact nd n \<and>
        pr_runId (ar_producer r) = rs_runId s \<and> pr_nodeId (ar_producer r) = nid \<and>
        pr_attempt (ar_producer r) = n \<and>
        s' = s\<lparr>rs_artifacts := Some (artifact_list s @ [r])\<rparr>)"
  by (auto simp: applyArtifactProduced_def result_simps may_produce_artifact_def split: if_splits)

lemma applyWorkspaceObserved_iff [handler_iffs]:
  "applyWorkspaceObserved s nid n hc fs aid = Inr s' \<longleftrightarrow>
     (\<exists>nd a. find_node s nid = Some nd \<and> last_attempt nd = Some a \<and> a_number a = n \<and>
        a_status a = Running \<and> has_artifact s aid \<and>
        s' = s\<lparr>rs_workspaceObservation := Some \<lparr>wo_headCommit = hc, wo_changedFiles = fs,
                 wo_diffArtifactId = aid\<rparr>\<rparr>)"
  by (auto simp: applyWorkspaceObserved_def result_simps)

lemma applyCommandCompleted_iff [handler_iffs]:
  "applyCommandCompleted s nid n out = Inr s' \<longleftrightarrow>
     (\<exists>nd a. find_node s nid = Some nd \<and> last_attempt nd = Some a \<and> a_number a = n \<and>
        a_status a = Running \<and> s' = set_node s nid (nd\<lparr>n_command := Some out\<rparr>))"
  by (auto simp: applyCommandCompleted_def result_simps)

section \<open>Timeouts\<close>

lemma applyTimeoutRequested_iff [handler_iffs]:
  "applyTimeoutRequested s nid n = Inr s' \<longleftrightarrow>
     (\<exists>nd a. find_node s nid = Some nd \<and> n_status nd = NodeRunningStatus \<and>
        last_attempt nd = Some a \<and> a_number a = n \<and> a_status a = Running \<and> a_timeout a = None \<and>
        s' = set_node s nid (set_attempt nd
               (a\<lparr>a_timeout := Some \<lparr>to_cancellation = None, to_lateStatus = None\<rparr>\<rparr>)))"
  by (auto simp: applyTimeoutRequested_def result_simps)

lemma applyCancellationCompleted_iff [handler_iffs]:
  "applyCancellationCompleted s nid n outcome = Inr s' \<longleftrightarrow>
     (\<exists>nd a t. find_node s nid = Some nd \<and> last_attempt nd = Some a \<and> a_number a = n \<and>
        a_status a = Running \<and> a_timeout a = Some t \<and> to_cancellation t = None \<and>
        s' = set_node s nid (set_attempt nd
               (a\<lparr>a_timeout := Some (t\<lparr>to_cancellation := Some outcome\<rparr>)\<rparr>)))"
  by (auto simp: applyCancellationCompleted_def result_simps)

lemma applyLateResult_iff [handler_iffs]:
  "applyLateResult s nid n st = Inr s' \<longleftrightarrow>
     (\<exists>nd a t. find_node s nid = Some nd \<and> last_attempt nd = Some a \<and> a_number a = n \<and>
        a_status a = Running \<and> a_timeout a = Some t \<and> to_cancellation t \<noteq> None \<and>
        to_lateStatus t = None \<and>
        s' = set_node s nid (set_attempt nd
               (a\<lparr>a_timeout := Some (t\<lparr>to_lateStatus := Some st\<rparr>)\<rparr>)))"
  by (auto simp: applyLateResult_def result_simps)

section \<open>Attempts\<close>

lemma applyAttemptScheduled_iff [handler_iffs]:
  "applyAttemptScheduled s nid n rt = Inr s' \<longleftrightarrow>
     (\<exists>nd. find_node s nid = Some nd \<and> n_status nd = NodeReadyStatus \<and>
        n = int (length (n_attempts nd)) + 1 \<and>
        (rt = ''command'' \<or> pred_option (\<lambda>d. rd_runtimeId d = rt) (rs_runtimeDescriptor s)) \<and>
        s' = set_node s nid (nd\<lparr>n_attempts := n_attempts nd @ [new_attempt n rt]\<rparr>))"
  by (auto simp: applyAttemptScheduled_def result_simps)

lemma applyAttemptStarted_iff [handler_iffs]:
  "applyAttemptStarted s nid n = Inr s' \<longleftrightarrow>
     (\<exists>nd a. find_node s nid = Some nd \<and> n_status nd = NodeReadyStatus \<and>
        rs_runtimeDescriptor s = None \<and>
        last_attempt nd = Some a \<and> a_number a = n \<and> a_status a = Scheduled \<and>
        s' = set_node s nid (set_attempt nd (a\<lparr>a_status := Running\<rparr>)\<lparr>n_status := NodeRunningStatus\<rparr>))"
  by (auto simp: applyAttemptStarted_def result_simps)

lemma observe_runtime_event_iff:
  "observe_runtime_event a e = Inr a' \<longleftrightarrow>
     (case e of
        UsageEvent u \<Rightarrow> a_usage a = None \<and> a' = a\<lparr>a_usage := Some u\<rparr>
      | MetadataEvent m \<Rightarrow> a' = a\<lparr>a_identity := Some (case_option [] id (a_identity a) @ [m])\<rparr>
      | _ \<Rightarrow> a' = a)"
  by (auto simp: observe_runtime_event_def result_simps split: runtime_event.splits)

lemma applyRuntimeEventObserved_iff [handler_iffs]:
  "applyRuntimeEventObserved s nid n e = Inr s' \<longleftrightarrow>
     (\<exists>nd a a'. find_node s nid = Some nd \<and> n_status nd = NodeRunningStatus \<and>
        last_attempt nd = Some a \<and> a_number a = n \<and> a_status a = Running \<and>
        observe_runtime_event a e = Inr a' \<and> s' = set_node s nid (set_attempt nd a'))"
  by (auto simp: applyRuntimeEventObserved_def result_simps)

lemma applyAttemptSucceeded_iff [handler_iffs]:
  "applyAttemptSucceeded s nid n out = Inr s' \<longleftrightarrow>
     (\<exists>nd a. find_node s nid = Some nd \<and> n_status nd = NodeRunningStatus \<and>
        last_attempt nd = Some a \<and> a_number a = n \<and> a_status a = Running \<and> a_timeout a = None \<and>
        s' = set_node s nid (set_attempt nd (a\<lparr>a_status := Succeeded\<rparr>)
               \<lparr>n_output := Some out, n_failure := None\<rparr>))"
  by (auto simp: applyAttemptSucceeded_def result_simps)

lemma applyAttemptFailed_iff [handler_iffs]:
  "applyAttemptFailed s nid n f = Inr s' \<longleftrightarrow>
     (\<exists>nd a. find_node s nid = Some nd \<and> n_status nd = NodeRunningStatus \<and>
        last_attempt nd = Some a \<and> a_number a = n \<and> a_status a = Running \<and>
        pred_option (\<lambda>t. f_category f = BudgetExhausted \<and> to_cancellation t \<noteq> None) (a_timeout a) \<and>
        s' = set_node s nid (set_attempt nd (a\<lparr>a_status := Failed, a_failure := Some f\<rparr>)
               \<lparr>n_failure := Some f\<rparr>))"
  by (auto simp: applyAttemptFailed_def result_simps)

lemma applyAttemptBlocked_iff [handler_iffs]:
  "applyAttemptBlocked s nid n = Inr s' \<longleftrightarrow>
     (\<exists>nd a. find_node s nid = Some nd \<and> n_status nd = NodeRunningStatus \<and>
        last_attempt nd = Some a \<and> a_number a = n \<and> a_status a = Running \<and> a_timeout a = None \<and>
        s' = set_node s nid (set_attempt nd (a\<lparr>a_status := Blocked\<rparr>)))"
  by (auto simp: applyAttemptBlocked_def result_simps)

lemma applyAttemptCancelled_iff [handler_iffs]:
  "applyAttemptCancelled s nid n = Inr s' \<longleftrightarrow>
     (\<exists>nd a. find_node s nid = Some nd \<and> n_status nd = NodeRunningStatus \<and>
        last_attempt nd = Some a \<and> a_number a = n \<and> a_status a = Running \<and> a_timeout a = None \<and>
        s' = set_node s nid (set_attempt nd (a\<lparr>a_status := Cancelled\<rparr>)))"
  by (auto simp: applyAttemptCancelled_def result_simps)

section \<open>Owned executions\<close>

definition prepared_evidence :: "run_state \<Rightarrow> string \<Rightarrow> int \<Rightarrow> attempt_state \<Rightarrow> execution_plan_ref \<Rightarrow>
    workspace_checkpoint \<Rightarrow> bool" where
  "prepared_evidence s nid n a plan cp \<longleftrightarrow>
     ex_runId plan = rs_runId s \<and> 1 \<le> ex_generation plan \<and>
     pred_option (\<lambda>w. wc_workspaceId cp = ws_id w) (rs_workspace s) \<and>
     (if a_runtimeId a = ''command'' then ex_kind plan = CommandKind
      else ex_kind plan = RuntimeKind \<and>
           map_option rd_runtimeId (rs_runtimeDescriptor s) = Some (a_runtimeId a)) \<and>
     (truthy (wc_diffArtifactId cp) \<longrightarrow> has_own_artifact s nid n (the (wc_diffArtifactId cp)))"

lemma applyAttemptPrepared_iff [handler_iffs]:
  "applyAttemptPrepared s nid n plan cp = Inr s' \<longleftrightarrow>
     (\<exists>nd a. find_node s nid = Some nd \<and> n_status nd = NodeReadyStatus \<and>
        last_attempt nd = Some a \<and> a_number a = n \<and> a_status a = Scheduled \<and>
        prepared_evidence s nid n a plan cp \<and>
        s' = set_node s nid (set_attempt nd (a\<lparr>a_status := Prepared, a_executionPlan := Some plan,
               a_workspaceCheckpoint := Some cp\<rparr>)))"
  by (auto simp: applyAttemptPrepared_def result_simps prepared_evidence_def Let_def)

lemma applyAttemptStartAuthorized_iff [handler_iffs]:
  "applyAttemptStartAuthorized s nid n x = Inr s' \<longleftrightarrow>
     (\<exists>nd a plan. find_node s nid = Some nd \<and> n_status nd = NodeReadyStatus \<and>
        last_attempt nd = Some a \<and> a_number a = n \<and> a_status a = Prepared \<and>
        a_executionPlan a = Some plan \<and> plan_matches plan x \<and>
        s' = set_node s nid (set_attempt nd (a\<lparr>a_status := Running, a_execution := Some x\<rparr>)
               \<lparr>n_status := NodeRunningStatus\<rparr>))"
  by (auto simp: applyAttemptStartAuthorized_def result_simps)

definition orphan_record :: "orphan_evidence \<Rightarrow> orphan_evidence" where
  "orphan_record e = (if truthy (or_terminalArtifactId e) then e else e\<lparr>or_terminalArtifactId := None\<rparr>)"

lemma applyAttemptOrphaned_iff [handler_iffs]:
  "applyAttemptOrphaned s nid n e = Inr s' \<longleftrightarrow>
     (\<exists>nd a plan. find_node s nid = Some nd \<and> n_status nd \<in> {NodeReadyStatus, NodeRunningStatus} \<and>
        last_attempt nd = Some a \<and> a_number a = n \<and> a_status a \<in> {Prepared, Running} \<and>
        a_executionPlan a = Some plan \<and> ex_executionId plan = or_executionId e \<and>
        ex_generation plan = or_lostGeneration e \<and>
        (truthy (or_terminalArtifactId e) \<longrightarrow> has_artifact s (the (or_terminalArtifactId e))) \<and>
        (truthy (wc_diffArtifactId (or_workspaceObservation e)) \<longrightarrow>
           has_own_artifact s nid n (the (wc_diffArtifactId (or_workspaceObservation e)))) \<and>
        s' = set_node s nid (set_attempt nd (a\<lparr>a_status := Orphaned, a_orphan := Some (orphan_record e)\<rparr>)
               \<lparr>n_status := NodeRunningStatus\<rparr>))"
  by (auto simp: applyAttemptOrphaned_def result_simps orphan_record_def)

section \<open>Nodes\<close>

lemma applyNodeReady_iff [handler_iffs]:
  "applyNodeReady s nid r = Inr s' \<longleftrightarrow>
     (\<exists>nd. find_node s nid = Some nd \<and> n_status nd \<in> set (ready_sources r) \<and>
        (r = RetryReason \<longrightarrow> last_status nd = Some Failed) \<and>
        (r = RecoveredReason \<longrightarrow> last_status nd = Some Orphaned) \<and>
        s' = set_node s nid (nd\<lparr>n_status := NodeReadyStatus, n_pauseReason := None\<rparr>))"
  by (auto simp: applyNodeReady_def result_simps)

lemma applyNodeSucceeded_iff [handler_iffs]:
  "applyNodeSucceeded s nid = Inr s' \<longleftrightarrow>
     (\<exists>nd a. find_node s nid = Some nd \<and> n_status nd = NodeRunningStatus \<and>
        last_attempt nd = Some a \<and> a_number a = int (length (n_attempts nd)) \<and>
        a_status a = Succeeded \<and> s' = set_node s nid (nd\<lparr>n_status := NodeSucceededStatus\<rparr>))"
  by (auto simp: applyNodeSucceeded_def result_simps)

lemma applyNodeFailed_iff [handler_iffs]:
  "applyNodeFailed s nid f = Inr s' \<longleftrightarrow>
     (\<exists>nd a. find_node s nid = Some nd \<and> n_status nd = NodeRunningStatus \<and>
        last_attempt nd = Some a \<and> a_number a = int (length (n_attempts nd)) \<and>
        a_status a = Failed \<and>
        s' = set_node s nid (nd\<lparr>n_status := NodeFailedStatus, n_failure := Some f\<rparr>))"
  by (auto simp: applyNodeFailed_def result_simps)

lemma applyNodeBlocked_iff [handler_iffs]:
  "applyNodeBlocked s nid reason = Inr s' \<longleftrightarrow>
     (\<exists>nd. find_node s nid = Some nd \<and>
        (n_status nd \<in> {NodePendingStatus, NodeReadyStatus} \<or>
         n_status nd = NodeRunningStatus \<and>
           (\<exists>a. last_attempt nd = Some a \<and> a_number a = int (length (n_attempts nd)) \<and>
                a_status a = Blocked)) \<and>
        s' = set_node s nid (nd\<lparr>n_status := NodeBlockedStatus, n_blockedReason := Some reason\<rparr>))"
  by (auto simp: applyNodeBlocked_def result_simps split: if_splits)

lemma stopped_attempt_iff:
  "stopped_attempt nd \<longleftrightarrow> last_status nd = Some Cancelled \<or> last_status nd = Some Orphaned"
  by (auto simp: stopped_attempt_def split: option.splits)

lemma applyNodePaused_iff [handler_iffs]:
  "applyNodePaused s nid reason = Inr s' \<longleftrightarrow>
     (\<exists>nd. find_node s nid = Some nd \<and>
        (n_status nd \<in> {NodePendingStatus, NodeReadyStatus} \<or>
         reason \<noteq> None \<and> n_status nd = NodeRunningStatus \<and> stopped_attempt nd) \<and>
        s' = set_node s nid (nd\<lparr>n_status := NodePausedStatus,
               n_pauseReason := (case reason of None \<Rightarrow> n_pauseReason nd | Some r \<Rightarrow> Some r)\<rparr>))"
  by (auto simp: applyNodePaused_def result_simps split: option.splits)

lemma applyNodeCancelled_iff [handler_iffs]:
  "applyNodeCancelled s nid reason = Inr s' \<longleftrightarrow>
     (\<exists>nd. find_node s nid = Some nd \<and>
        (n_status nd \<in> {NodePendingStatus, NodeReadyStatus, NodeBlockedStatus, NodePausedStatus} \<or>
         n_status nd = NodeRunningStatus \<and> stopped_attempt nd) \<and>
        s' = set_node s nid (nd\<lparr>n_status := NodeCancelledStatus, n_blockedReason := Some reason\<rparr>))"
  by (auto simp: applyNodeCancelled_def result_simps)

section \<open>The run's lifecycle\<close>

lemma applyRunPaused_iff [handler_iffs]:
  "applyRunPaused s reason = Inr s' \<longleftrightarrow>
     (rs_status s = RunRunning \<or> reason \<noteq> None \<and> rs_status s = RunRecoveryBlockedStatus) \<and>
     (reason \<noteq> None \<longrightarrow> list_all (\<lambda>nd. n_status nd \<noteq> NodeRunningStatus) (node_values s)) \<and>
     s' = s\<lparr>rs_status := RunIsPaused,
            rs_pauseReason := (case reason of None \<Rightarrow> rs_pauseReason s | Some r \<Rightarrow> Some r)\<rparr>"
  by (auto simp: applyRunPaused_def result_simps list_ex_iff list_all_iff)

lemma applyRunResumed_iff [handler_iffs]:
  "applyRunResumed s opId = Inr s' \<longleftrightarrow>
     (rs_status s = RunIsPaused \<or>
      opId \<noteq> None \<and> rs_status s = RunRecoveryBlockedStatus \<and>
        list_all (\<lambda>nd. \<not> unresolved_recovery nd) (node_values s)) \<and>
     s' = s\<lparr>rs_status := RunRunning, rs_pauseReason := None, rs_recoveryBlock := None\<rparr>"
  by (auto simp: applyRunResumed_def result_simps list_ex_iff list_all_iff)

lemma applyRunBlocked_iff [handler_iffs]:
  "applyRunBlocked s = Inr s' \<longleftrightarrow> rs_status s = RunRunning \<and> s' = s\<lparr>rs_status := RunIsBlocked\<rparr>"
  by (auto simp: applyRunBlocked_def result_simps)

lemma applyRunCancelled_iff [handler_iffs]:
  "applyRunCancelled s opId = Inr s' \<longleftrightarrow>
     rs_status s \<in> {RunRunning, RunIsBlocked, RunIsPaused, RunRecoveryBlockedStatus} \<and>
     (opId \<noteq> None \<longrightarrow> list_all (\<lambda>nd. n_status nd \<in> {NodeSucceededStatus, NodeFailedStatus,
        NodeCancelledStatus}) (node_values s)) \<and>
     s' = s\<lparr>rs_status := RunIsCancelled\<rparr>"
  by (auto simp: applyRunCancelled_def result_simps list_ex_iff list_all_iff)

lemma applyRunCompleted_iff [handler_iffs]:
  "applyRunCompleted s outcome = Inr s' \<longleftrightarrow>
     rs_status s = RunRunning \<and>
     (case outcome of
        OutcomeSucceeded \<Rightarrow>
          list_all (\<lambda>nd. n_status nd = NodeSucceededStatus) (node_values s) \<and>
          s' = s\<lparr>rs_status := RunSucceeded\<rparr>
      | OutcomeFailed \<Rightarrow>
          list_ex (\<lambda>nd. n_status nd = NodeFailedStatus) (node_values s) \<and>
          s' = s\<lparr>rs_status := RunFailed\<rparr>)"
  by (cases outcome) (auto simp: applyRunCompleted_def result_simps list_ex_iff list_all_iff)

text \<open>The last attempts of all nodes, in the order of the object, and the owner of an execution.\<close>

definition owned_attempt :: "run_state \<Rightarrow> string \<Rightarrow> attempt_state option" where
  "owned_attempt s eid =
     List.find (\<lambda>a. map_option ex_executionId (a_executionPlan a) = Some eid)
       (List.map_filter last_attempt (node_values s))"

lemma applyRunRecoveryBlocked_iff [handler_iffs]:
  "applyRunRecoveryBlocked s opId reason = Inr s' \<longleftrightarrow>
     rs_status s \<in> {RunRunning, RunIsPaused, RunRecoveryBlockedStatus} \<and>
     (\<exists>a. owned_attempt s (rb_executionId reason) = Some a \<and>
        (\<forall>eid. reason = CleanupUnknown eid \<longrightarrow>
           list_ex (\<lambda>c. cl_executionId c = eid \<and> cl_outcome c = UnknownCleanup) (cleanup_list a))) \<and>
     s' = s\<lparr>rs_status := RunRecoveryBlockedStatus,
            rs_recoveryBlock := Some \<lparr>rb_operationId = opId, rb_reason = reason\<rparr>\<rparr>"
  by (cases reason) (auto simp: applyRunRecoveryBlocked_def result_simps owned_attempt_def)

end
