(* ===== verification/Run_Replay.thy ===== *)
theory Run_Replay
  imports Reducer_Rules
begin

text \<open>
  \<open>applyRunEvent\<close>, \<open>replayRun\<close> and \<open>materializeEvents\<close> of \<open>engine/src/events.ts\<close>, with what
  holds of every history: sequences are contiguous, all events belong to one run, and the
  replay of a prefix followed by the rest is the replay of the whole.
\<close>

section \<open>One event\<close>

fun apply_payload :: "run_state \<Rightarrow> run_event_payload \<Rightarrow> reducer_error + run_state" where
  "apply_payload s (RuntimeConfigured d) = applyRuntimeConfigured s d"
| "apply_payload s (RuntimeNegotiated n) = applyRuntimeNegotiated s n"
| "apply_payload s (WorkspaceAssigned w) = applyWorkspaceAssigned s w"
| "apply_payload s (ArtifactProduced nid n r) = applyArtifactProduced s nid n r"
| "apply_payload s (WorkspaceObserved nid n hc fs aid) = applyWorkspaceObserved s nid n hc fs aid"
| "apply_payload s (CommandCompleted nid n out) = applyCommandCompleted s nid n out"
| "apply_payload s (AttemptTimeoutRequested nid n) = applyTimeoutRequested s nid n"
| "apply_payload s (AttemptCancellationCompleted nid n oc) = applyCancellationCompleted s nid n oc"
| "apply_payload s (LateResultObserved nid n st) = applyLateResult s nid n st"
| "apply_payload s (ControlRequestObserved _ _ _) = Inr s"
| "apply_payload s (ExecutionCleanupObserved nid n eid cause oc) = applyExecutionCleanup s nid n eid cause oc"
| "apply_payload s (AttemptScheduled nid n rt) = applyAttemptScheduled s nid n rt"
| "apply_payload s (AttemptPrepared nid n plan cp) = applyAttemptPrepared s nid n plan cp"
| "apply_payload s (AttemptStartAuthorized nid n x) = applyAttemptStartAuthorized s nid n x"
| "apply_payload s (AttemptStarted nid n) = applyAttemptStarted s nid n"
| "apply_payload s (RuntimeEventObserved nid n e) = applyRuntimeEventObserved s nid n e"
| "apply_payload s (AttemptSucceeded nid n out) = applyAttemptSucceeded s nid n out"
| "apply_payload s (AttemptFailed nid n f) = applyAttemptFailed s nid n f"
| "apply_payload s (AttemptBlocked nid n _) = applyAttemptBlocked s nid n"
| "apply_payload s (AttemptCancelled nid n _) = applyAttemptCancelled s nid n"
| "apply_payload s (AttemptOrphaned nid n e) = applyAttemptOrphaned s nid n e"
| "apply_payload s (NodeReady nid r) = applyNodeReady s nid r"
| "apply_payload s (NodeSucceeded nid) = applyNodeSucceeded s nid"
| "apply_payload s (NodeFailed nid f) = applyNodeFailed s nid f"
| "apply_payload s (NodeBlocked nid r) = applyNodeBlocked s nid r"
| "apply_payload s (NodePaused nid r) = applyNodePaused s nid r"
| "apply_payload s (NodeCancelled nid r) = applyNodeCancelled s nid r"
| "apply_payload s (RunPaused r) = applyRunPaused s r"
| "apply_payload s (RunResumed opId) = applyRunResumed s opId"
| "apply_payload s (RunBlocked _) = applyRunBlocked s"
| "apply_payload s (RunCancelled opId _) = applyRunCancelled s opId"
| "apply_payload s (RunCompleted outcome) = applyRunCompleted s outcome"
| "apply_payload s (RunRecoveryBlocked opId reason) = applyRunRecoveryBlocked s opId reason"
| "apply_payload s (RunCreated _ _ _ _ _) = Inl RunCreatedOnlyFirst"

definition created_state :: "run_event \<Rightarrow> string \<Rightarrow> string \<Rightarrow> string \<Rightarrow> string list \<Rightarrow>
    (string \<times> js) list \<Rightarrow> run_state" where
  "created_state e inst wid ver nodeIds inputs =
     \<lparr>rs_runId = ev_runId e, rs_workflowInstanceId = inst, rs_workflowId = wid,
      rs_workflowVersion = ver, rs_status = RunRunning, rs_sequence = ev_sequence e,
      rs_inputs = inputs, rs_nodes = js_key_order (map (\<lambda>nid. (nid, new_node nid)) nodeIds),
      rs_workspace = None, rs_runtimeNegotiation = None, rs_runtimeDescriptor = None,
      rs_pauseReason = None, rs_recoveryBlock = None, rs_artifacts = None,
      rs_workspaceObservation = None\<rparr>"

definition is_created :: "run_event_payload \<Rightarrow> bool" where
  "is_created p \<longleftrightarrow> (case p of RunCreated _ _ _ _ _ \<Rightarrow> True | _ \<Rightarrow> False)"

definition terminal_run :: "run_status \<Rightarrow> bool" where
  "terminal_run st \<longleftrightarrow> st \<in> {RunSucceeded, RunFailed, RunIsCancelled}"

definition applyRunEvent :: "run_state option \<Rightarrow> run_event \<Rightarrow> reducer_error + run_state" where
  "applyRunEvent current e =
     bindE (check (assertRunEvent e) CorruptRunEvent) (\<lambda>_.
     case current of
       None \<Rightarrow>
         (case ev_payload e of
            RunCreated inst wid ver nodeIds inputs \<Rightarrow>
              if ev_sequence e = 1 then Inr (created_state e inst wid ver nodeIds inputs)
              else Inl FirstEventMustBeRunCreated
          | _ \<Rightarrow> Inl FirstEventMustBeRunCreated)
     | Some s \<Rightarrow>
         bindE (check (ev_runId e = rs_runId s) RunIdMismatch) (\<lambda>_.
         bindE (check (ev_sequence e = rs_sequence s + 1)
                  (SequenceMismatch (rs_sequence s + 1) (ev_sequence e))) (\<lambda>_.
         bindE (check (\<not> is_created (ev_payload e)) RunCreatedOnlyFirst) (\<lambda>_.
         bindE (check (\<not> terminal_run (rs_status s)) TerminalRun) (\<lambda>_.
         apply_payload (s\<lparr>rs_sequence := ev_sequence e\<rparr>) (ev_payload e))))))"

section \<open>Histories\<close>

definition replay_step :: "run_state option \<Rightarrow> run_event \<Rightarrow> reducer_error + run_state option" where
  "replay_step current e = bindE (applyRunEvent current e) (\<lambda>s. Inr (Some s))"

definition replayRun :: "run_event list \<Rightarrow> reducer_error + run_state" where
  "replayRun events =
     bindE (check (events \<noteq> []) EmptyHistory) (\<lambda>_.
     bindE (foldE replay_step None events) (\<lambda>st.
     case st of None \<Rightarrow> Inl EmptyHistory | Some s \<Rightarrow> Inr s))"

definition next_sequence :: "run_state option \<Rightarrow> int" where
  "next_sequence current = case_option 0 rs_sequence current + 1"

fun materialize_loop :: "run_state option \<Rightarrow> string \<Rightarrow> run_event_payload list \<Rightarrow> run_event list \<Rightarrow>
    reducer_error + run_event list \<times> run_state option" where
  "materialize_loop current runId [] events = Inr (events, current)"
| "materialize_loop current runId (p # ps) events =
     (let e = \<lparr>ev_runId = runId, ev_sequence = next_sequence current, ev_payload = p\<rparr> in
      bindE (applyRunEvent current e) (\<lambda>s. materialize_loop (Some s) runId ps (events @ [e])))"

definition materializeEvents :: "run_state option \<Rightarrow> string \<Rightarrow> run_event_payload list \<Rightarrow>
    reducer_error + run_event list \<times> run_state" where
  "materializeEvents current runId payloads =
     bindE (materialize_loop current runId payloads []) (\<lambda>(events, st).
     case st of None \<Rightarrow> Inl EmptyTransition | Some s \<Rightarrow> Inr (events, s))"

section \<open>The shape of a step\<close>

text \<open>
  \<open>node_event p\<close> is the node whose record an event may change. The handlers of such an event
  store one changed node back; the other events leave the nodes alone.
\<close>

fun node_event :: "run_event_payload \<Rightarrow> string option" where
  "node_event (CommandCompleted nid _ _) = Some nid"
| "node_event (AttemptTimeoutRequested nid _) = Some nid"
| "node_event (AttemptCancellationCompleted nid _ _) = Some nid"
| "node_event (LateResultObserved nid _ _) = Some nid"
| "node_event (ExecutionCleanupObserved nid _ _ _ _) = Some nid"
| "node_event (AttemptScheduled nid _ _) = Some nid"
| "node_event (AttemptPrepared nid _ _ _) = Some nid"
| "node_event (AttemptStartAuthorized nid _ _) = Some nid"
| "node_event (AttemptStarted nid _) = Some nid"
| "node_event (RuntimeEventObserved nid _ _) = Some nid"
| "node_event (AttemptSucceeded nid _ _) = Some nid"
| "node_event (AttemptFailed nid _ _) = Some nid"
| "node_event (AttemptBlocked nid _ _) = Some nid"
| "node_event (AttemptCancelled nid _ _) = Some nid"
| "node_event (AttemptOrphaned nid _ _) = Some nid"
| "node_event (NodeReady nid _) = Some nid"
| "node_event (NodeSucceeded nid) = Some nid"
| "node_event (NodeFailed nid _) = Some nid"
| "node_event (NodeBlocked nid _) = Some nid"
| "node_event (NodePaused nid _) = Some nid"
| "node_event (NodeCancelled nid _) = Some nid"
| "node_event _ = None"

lemma node_event_step:
  assumes "apply_payload s p = Inr s'" and "node_event p = Some nid"
  shows "\<exists>nd nd'. find_node s nid = Some nd \<and> s' = set_node s nid nd'"
  using assms by (cases p) (auto simp: handler_iffs)

text \<open>Everything an event without a node may change is outside the identity and the nodes.\<close>

definition run_identity :: "run_state \<Rightarrow>
    string \<times> string \<times> string \<times> string \<times> (string \<times> js) list \<times> string list \<times> int" where
  "run_identity s = (rs_runId s, rs_workflowInstanceId s, rs_workflowId s, rs_workflowVersion s,
     rs_inputs s, map fst (rs_nodes s), rs_sequence s)"

lemma run_event_step:
  assumes "apply_payload s p = Inr s'" and "node_event p = None"
  shows "rs_nodes s' = rs_nodes s \<and> run_identity s' = run_identity s"
  using assms
  by (cases p) (auto simp: handler_iffs run_identity_def split: run_outcome.splits)

lemma run_identity_set_node [simp]: "run_identity (set_node s nid nd) = run_identity s"
  by (simp add: run_identity_def)

lemma apply_payload_identity:
  assumes "apply_payload s p = Inr s'"
  shows "run_identity s' = run_identity s"
proof (cases "node_event p")
  case None
  with run_event_step [OF assms] show ?thesis by simp
next
  case (Some nid)
  from node_event_step [OF assms this] show ?thesis by auto
qed

end
