(* ===== verification/Run_History.thy ===== *)
theory Run_History
  imports Run_Replay
begin

text \<open>
  What holds of every history the reducer accepts: the events are numbered from one without a
  gap and belong to one run, a replay can be cut at any point, a terminal run accepts nothing,
  and \<open>materializeEvents\<close> numbers payloads so that the replay of the result is its state.
\<close>

section \<open>One event, inverted\<close>

lemma applyRunEvent_Some_iff:
  "applyRunEvent (Some s) e = Inr s' \<longleftrightarrow>
     assertRunEvent e \<and> ev_runId e = rs_runId s \<and> ev_sequence e = rs_sequence s + 1 \<and>
     \<not> is_created (ev_payload e) \<and> \<not> terminal_run (rs_status s) \<and>
     apply_payload (s\<lparr>rs_sequence := ev_sequence e\<rparr>) (ev_payload e) = Inr s'"
  by (auto simp: applyRunEvent_def result_simps)

lemma applyRunEvent_None_iff:
  "applyRunEvent None e = Inr s' \<longleftrightarrow>
     assertRunEvent e \<and> ev_sequence e = 1 \<and>
     (\<exists>inst wid ver nodeIds inputs. ev_payload e = RunCreated inst wid ver nodeIds inputs \<and>
        s' = created_state e inst wid ver nodeIds inputs)"
  by (cases "ev_payload e") (auto simp: applyRunEvent_def result_simps)

lemma created_state_simps [simp]:
  "rs_runId (created_state e inst wid ver nodeIds inputs) = ev_runId e"
  "rs_sequence (created_state e inst wid ver nodeIds inputs) = ev_sequence e"
  "rs_status (created_state e inst wid ver nodeIds inputs) = RunRunning"
  "rs_workflowId (created_state e inst wid ver nodeIds inputs) = wid"
  "rs_workflowVersion (created_state e inst wid ver nodeIds inputs) = ver"
  "rs_runtimeDescriptor (created_state e inst wid ver nodeIds inputs) = None"
  "rs_nodes (created_state e inst wid ver nodeIds inputs) =
     js_key_order (map (\<lambda>nid. (nid, new_node nid)) nodeIds)"
  "artifact_list (created_state e inst wid ver nodeIds inputs) = []"
  by (simp_all add: created_state_def artifact_list_def)

lemma applyRunEvent_runId_sequence:
  assumes "applyRunEvent current e = Inr s'"
  shows "rs_runId s' = ev_runId e \<and> rs_sequence s' = ev_sequence e \<and>
     ev_sequence e = next_sequence current"
proof (cases current)
  case None
  with assms show ?thesis by (auto simp: applyRunEvent_None_iff next_sequence_def)
next
  case (Some s)
  with assms have step: "apply_payload (s\<lparr>rs_sequence := ev_sequence e\<rparr>) (ev_payload e) = Inr s'"
    and e: "ev_runId e = rs_runId s" "ev_sequence e = rs_sequence s + 1"
    by (auto simp: applyRunEvent_Some_iff)
  from apply_payload_identity [OF step] have "rs_runId s' = rs_runId s \<and> rs_sequence s' = ev_sequence e"
    by (simp add: run_identity_def)
  with e Some show ?thesis by (simp add: next_sequence_def)
qed

text \<open>What an event may not change: identity of the run, its inputs, its set of nodes.\<close>

definition run_frame :: "run_state \<Rightarrow>
    string \<times> string \<times> string \<times> string \<times> (string \<times> js) list \<times> string list" where
  "run_frame s = (rs_runId s, rs_workflowInstanceId s, rs_workflowId s, rs_workflowVersion s,
     rs_inputs s, map fst (rs_nodes s))"

lemma applyRunEvent_frame:
  assumes "applyRunEvent (Some s) e = Inr s'"
  shows "run_frame s' = run_frame s"
proof -
  from assms have "apply_payload (s\<lparr>rs_sequence := ev_sequence e\<rparr>) (ev_payload e) = Inr s'"
    unfolding applyRunEvent_Some_iff by blast
  from apply_payload_identity [OF this] show ?thesis
    by (simp add: run_identity_def run_frame_def)
qed

section \<open>Folding over a live state\<close>

text \<open>The loop of \<open>replayRun\<close> once a state exists.\<close>

definition apply_events :: "run_state \<Rightarrow> run_event list \<Rightarrow> reducer_error + run_state" where
  "apply_events s events = foldE (\<lambda>s e. applyRunEvent (Some s) e) s events"

lemma apply_events_simps [simp]:
  "apply_events s [] = Inr s"
  "apply_events s (e # es) = bindE (applyRunEvent (Some s) e) (\<lambda>s'. apply_events s' es)"
  by (simp_all add: apply_events_def)

lemma apply_events_append:
  "apply_events s (es @ fs) = bindE (apply_events s es) (\<lambda>s'. apply_events s' fs)"
  by (simp add: apply_events_def foldE_append)

lemma replay_step_results:
  "applyRunEvent c e = Inr s \<Longrightarrow> replay_step c e = Inr (Some s)"
  "applyRunEvent c e = Inl err \<Longrightarrow> replay_step c e = Inl err"
  by (simp_all add: replay_step_def)

lemma foldE_replay_step_Some:
  "foldE replay_step (Some s) events = bindE (apply_events s events) (\<lambda>s'. Inr (Some s'))"
proof (induction events arbitrary: s)
  case Nil
  show ?case by simp
next
  case (Cons e es)
  show ?case
    by (cases "applyRunEvent (Some s) e") (simp_all add: replay_step_results Cons.IH)
qed

lemma replayRun_Cons:
  "replayRun (e # es) = bindE (applyRunEvent None e) (\<lambda>s. apply_events s es)"
proof (cases "applyRunEvent None e")
  case (Inl err)
  then show ?thesis by (simp add: replayRun_def replay_step_results)
next
  case (Inr s)
  then show ?thesis
    by (cases "apply_events s es")
      (simp_all add: replayRun_def replay_step_results foldE_replay_step_Some)
qed

lemma replayRun_Nil [simp]: "replayRun [] = Inl EmptyHistory"
  by (simp add: replayRun_def)

lemma replayRun_append:
  assumes "es \<noteq> []"
  shows "replayRun (es @ fs) = bindE (replayRun es) (\<lambda>s. apply_events s fs)"
proof -
  from assms obtain e es' where es: "es = e # es'" by (cases es) auto
  show ?thesis
    by (cases "applyRunEvent None e") (simp_all add: es replayRun_Cons apply_events_append)
qed

text \<open>An invariant of the reducer that new runs have holds of every replay.\<close>

lemma replayRun_invariant:
  assumes created: "\<And>e s. applyRunEvent None e = Inr s \<Longrightarrow> P s"
    and step: "\<And>s e s'. P s \<Longrightarrow> applyRunEvent (Some s) e = Inr s' \<Longrightarrow> P s'"
    and replay: "replayRun events = Inr s"
  shows "P s"
proof (cases events)
  case Nil
  with replay show ?thesis by simp
next
  case (Cons e es)
  with replay obtain s0 where s0: "applyRunEvent None e = Inr s0" and es: "apply_events s0 es = Inr s"
    by (auto simp: replayRun_Cons result_simps)
  from es [unfolded apply_events_def] created [OF s0] show ?thesis
    by (rule foldE_invariant [rotated]) (rule step)
qed

section \<open>Sequence numbers\<close>

definition contiguous_from :: "string \<Rightarrow> int \<Rightarrow> run_event list \<Rightarrow> bool" where
  "contiguous_from runId n events \<longleftrightarrow>
     (\<forall>i < length events. ev_runId (events ! i) = runId \<and> ev_sequence (events ! i) = n + int i + 1)"

lemma contiguous_from_Nil [simp]: "contiguous_from runId n []"
  by (simp add: contiguous_from_def)

lemma contiguous_from_Cons [simp]:
  "contiguous_from runId n (e # es) \<longleftrightarrow>
     ev_runId e = runId \<and> ev_sequence e = n + 1 \<and> contiguous_from runId (n + 1) es"
  by (auto simp: contiguous_from_def nth_Cons less_Suc_eq_0_disj split: nat.splits)

lemma contiguous_from_append [simp]:
  "contiguous_from runId n (es @ fs) \<longleftrightarrow>
     contiguous_from runId n es \<and> contiguous_from runId (n + int (length es)) fs"
  by (induction es arbitrary: n) (auto simp: add_ac)

lemma apply_events_contiguous:
  "apply_events s events = Inr s' \<Longrightarrow>
     contiguous_from (rs_runId s) (rs_sequence s) events \<and>
     rs_sequence s' = rs_sequence s + int (length events) \<and> rs_runId s' = rs_runId s"
proof (induction events arbitrary: s)
  case Nil
  then show ?case by simp
next
  case (Cons e es)
  then obtain s1 where s1: "applyRunEvent (Some s) e = Inr s1" and es: "apply_events s1 es = Inr s'"
    by (auto simp: result_simps)
  from applyRunEvent_runId_sequence [OF s1] s1
  have "rs_runId s1 = rs_runId s" "rs_sequence s1 = rs_sequence s + 1"
    "ev_runId e = rs_runId s" "ev_sequence e = rs_sequence s + 1"
    by (auto simp: next_sequence_def applyRunEvent_Some_iff)
  with Cons.IH [OF es] show ?case by simp
qed

lemma replayRun_contiguous:
  assumes "replayRun events = Inr s"
  shows "events \<noteq> [] \<and> contiguous_from (rs_runId s) 0 events \<and> rs_sequence s = int (length events)"
proof (cases events)
  case Nil
  with assms show ?thesis by simp
next
  case (Cons e es)
  with assms obtain s0 where s0: "applyRunEvent None e = Inr s0" and es: "apply_events s0 es = Inr s"
    by (auto simp: replayRun_Cons result_simps)
  from applyRunEvent_runId_sequence [OF s0] have "rs_sequence s0 = 1" "ev_sequence e = 1"
    "rs_runId s0 = ev_runId e"
    by (simp_all add: next_sequence_def)
  with apply_events_contiguous [OF es] Cons show ?thesis by simp
qed

lemma replayRun_last_sequence:
  assumes "replayRun events = Inr s"
  shows "ev_sequence (last events) = rs_sequence s"
proof -
  from replayRun_contiguous [OF assms] obtain es e where "events = es @ [e]"
    by (cases events rule: rev_cases) auto
  with replayRun_contiguous [OF assms] show ?thesis by simp
qed

section \<open>Terminal runs\<close>

lemma terminal_run_rejects:
  assumes "terminal_run (rs_status s)"
  shows "\<exists>err. applyRunEvent (Some s) e = Inl err"
  using assms by (cases "applyRunEvent (Some s) e") (auto simp: applyRunEvent_Some_iff)

section \<open>materializeEvents\<close>

lemma materialize_loop_Some:
  "materialize_loop (Some s) runId ps acc = Inr (events, st) \<Longrightarrow>
     \<exists>new s'. events = acc @ new \<and> st = Some s' \<and> apply_events s new = Inr s' \<and>
        map ev_payload new = ps \<and> contiguous_from runId (rs_sequence s) new"
proof (induction ps arbitrary: s acc)
  case Nil
  then show ?case by auto
next
  case (Cons p ps)
  let ?e = "\<lparr>ev_runId = runId, ev_sequence = next_sequence (Some s), ev_payload = p\<rparr>"
  from Cons.prems obtain s1 where s1: "applyRunEvent (Some s) ?e = Inr s1"
    and rest: "materialize_loop (Some s1) runId ps (acc @ [?e]) = Inr (events, st)"
    by (auto simp: Let_def result_simps)
  from Cons.IH [OF rest] obtain new s' where new: "events = (acc @ [?e]) @ new" "st = Some s'"
    "apply_events s1 new = Inr s'" "map ev_payload new = ps" "contiguous_from runId (rs_sequence s1) new"
    by blast
  moreover from applyRunEvent_runId_sequence [OF s1] have "rs_sequence s1 = rs_sequence s + 1"
    by (simp add: next_sequence_def)
  ultimately show ?case
    using s1 by (intro exI [of _ "?e # new"] exI [of _ s']) (simp add: next_sequence_def)
qed

lemma materializeEvents_Some:
  assumes "materializeEvents (Some s) runId ps = Inr (events, s')"
  shows "apply_events s events = Inr s' \<and> map ev_payload events = ps \<and>
     contiguous_from runId (rs_sequence s) events"
  using assms materialize_loop_Some [of s runId ps "[]"]
  by (fastforce simp: materializeEvents_def result_simps split: prod.splits)

lemma materializeEvents_None:
  assumes "materializeEvents None runId ps = Inr (events, s')"
  shows "replayRun events = Inr s' \<and> map ev_payload events = ps \<and> contiguous_from runId 0 events"
proof (cases ps)
  case Nil
  with assms show ?thesis by (simp add: materializeEvents_def)
next
  case (Cons p ps')
  let ?e = "\<lparr>ev_runId = runId, ev_sequence = 1, ev_payload = p\<rparr>"
  from assms Cons obtain s1 where s1: "applyRunEvent None ?e = Inr s1"
    and rest: "materialize_loop (Some s1) runId ps' [?e] = Inr (events, Some s')"
    by (fastforce simp: materializeEvents_def Let_def next_sequence_def result_simps
        split: prod.splits option.splits)
  from materialize_loop_Some [OF rest] obtain new where new: "events = ?e # new"
    "apply_events s1 new = Inr s'" "map ev_payload new = ps'"
    "contiguous_from runId (rs_sequence s1) new"
    by auto
  from applyRunEvent_runId_sequence [OF s1] have "rs_sequence s1 = 1"
    by (simp add: next_sequence_def)
  with new s1 Cons show ?thesis by (simp add: replayRun_Cons)
qed

end
