(* ===== verification/Node_Lifecycle.thy ===== *)
theory Node_Lifecycle
  imports Run_History
begin

text \<open>
  The abstract specification of a node: its status and the statuses of its attempts, with one
  rule per transition. The reducer refines it, every handler is a step of the machine or leaves
  the view of the node alone, so what holds of the machine holds of every accepted history.
  The locale \<open>node_invariant\<close> lifts a property of single nodes from the handlers to replays.
\<close>

section \<open>The machine\<close>

type_synonym node_view = "node_status \<times> attempt_status list"

inductive node_step :: "node_view \<Rightarrow> node_view \<Rightarrow> bool" where
  schedule: "node_step (NodeReadyStatus, as) (NodeReadyStatus, as @ [Scheduled])"
| prepare: "node_step (NodeReadyStatus, as @ [Scheduled]) (NodeReadyStatus, as @ [Prepared])"
| start: "node_step (NodeReadyStatus, as @ [Scheduled]) (NodeRunningStatus, as @ [Running])"
| authorize: "node_step (NodeReadyStatus, as @ [Prepared]) (NodeRunningStatus, as @ [Running])"
| orphan: "st \<in> {NodeReadyStatus, NodeRunningStatus} \<Longrightarrow> x \<in> {Prepared, Running} \<Longrightarrow>
    node_step (st, as @ [x]) (NodeRunningStatus, as @ [Orphaned])"
| finish: "x \<in> {Succeeded, Failed, Blocked, Cancelled} \<Longrightarrow>
    node_step (NodeRunningStatus, as @ [Running]) (NodeRunningStatus, as @ [x])"
| retry: "node_step (NodeRunningStatus, as @ [Failed]) (NodeReadyStatus, as @ [Failed])"
| recover: "node_step (NodeRunningStatus, as @ [Orphaned]) (NodeReadyStatus, as @ [Orphaned])"
| satisfied: "node_step (NodePendingStatus, as) (NodeReadyStatus, as)"
| resume: "node_step (NodePausedStatus, as) (NodeReadyStatus, as)"
| succeed: "node_step (NodeRunningStatus, as @ [Succeeded]) (NodeSucceededStatus, as @ [Succeeded])"
| fail: "node_step (NodeRunningStatus, as @ [Failed]) (NodeFailedStatus, as @ [Failed])"
| block_idle: "st \<in> {NodePendingStatus, NodeReadyStatus} \<Longrightarrow> node_step (st, as) (NodeBlockedStatus, as)"
| block: "node_step (NodeRunningStatus, as @ [Blocked]) (NodeBlockedStatus, as @ [Blocked])"
| pause_idle: "st \<in> {NodePendingStatus, NodeReadyStatus} \<Longrightarrow> node_step (st, as) (NodePausedStatus, as)"
| pause_stopped: "x \<in> {Cancelled, Orphaned} \<Longrightarrow>
    node_step (NodeRunningStatus, as @ [x]) (NodePausedStatus, as @ [x])"
| cancel_idle: "st \<in> {NodePendingStatus, NodeReadyStatus, NodeBlockedStatus, NodePausedStatus} \<Longrightarrow>
    node_step (st, as) (NodeCancelledStatus, as)"
| cancel_stopped: "x \<in> {Cancelled, Orphaned} \<Longrightarrow>
    node_step (NodeRunningStatus, as @ [x]) (NodeCancelledStatus, as @ [x])"

inductive node_reachable :: "node_view \<Rightarrow> bool" where
  fresh: "node_reachable (NodePendingStatus, [])"
| step: "node_reachable v \<Longrightarrow> node_step v w \<Longrightarrow> node_reachable w"

inductive_cases node_stepE: "node_step v w"

inductive_simps node_step_from_terminal:
  "node_step (NodeSucceededStatus, as) w"
  "node_step (NodeFailedStatus, as) w"
  "node_step (NodeCancelledStatus, as) w"

definition terminal_node :: "node_status \<Rightarrow> bool" where
  "terminal_node st \<longleftrightarrow> st \<in> {NodeSucceededStatus, NodeFailedStatus, NodeCancelledStatus}"

lemma terminal_node_stuck: "terminal_node (fst v) \<Longrightarrow> \<not> node_step v w"
  by (cases v) (auto simp: terminal_node_def node_step_from_terminal)

text \<open>
  What the machine keeps true: only the last attempt can run or have succeeded, it runs only
  while its node does, and the status of a node says how its last attempt ended.
\<close>

fun lifecycle_inv :: "node_view \<Rightarrow> bool" where
  "lifecycle_inv (st, as) =
     (Running \<notin> set (butlast as) \<and> Succeeded \<notin> set (butlast as) \<and>
      (st \<noteq> NodeRunningStatus \<longrightarrow> Running \<notin> set as) \<and>
      (st \<noteq> NodeRunningStatus \<and> st \<noteq> NodeSucceededStatus \<longrightarrow> Succeeded \<notin> set as) \<and>
      (st = NodePendingStatus \<longrightarrow> as = []) \<and>
      (st = NodeRunningStatus \<longrightarrow> as \<noteq> [] \<and> last as \<noteq> Scheduled \<and> last as \<noteq> Prepared) \<and>
      (st = NodeSucceededStatus \<longrightarrow> as \<noteq> [] \<and> last as = Succeeded) \<and>
      (st = NodeFailedStatus \<longrightarrow> as \<noteq> [] \<and> last as = Failed))"

lemma lifecycle_inv_step: "node_step v w \<Longrightarrow> lifecycle_inv v \<Longrightarrow> lifecycle_inv w"
  by (induction rule: node_step.induct) (auto simp: butlast_append)

lemma node_reachable_inv: "node_reachable v \<Longrightarrow> lifecycle_inv v"
proof (induction rule: node_reachable.induct)
  case fresh
  show ?case by simp
next
  case (step v w)
  then show ?case by (blast intro: lifecycle_inv_step)
qed

section \<open>Node-wise invariants of the reducer\<close>

lemma find_node_update [simp]:
  "find_node (s\<lparr>rs_sequence := k\<rparr>) = find_node s"
  "find_node (s\<lparr>rs_status := st\<rparr>) = find_node s"
  "find_node (s\<lparr>rs_workspace := w\<rparr>) = find_node s"
  "find_node (s\<lparr>rs_runtimeNegotiation := rn\<rparr>) = find_node s"
  "find_node (s\<lparr>rs_runtimeDescriptor := rd\<rparr>) = find_node s"
  "find_node (s\<lparr>rs_pauseReason := pr\<rparr>) = find_node s"
  "find_node (s\<lparr>rs_recoveryBlock := rb\<rparr>) = find_node s"
  "find_node (s\<lparr>rs_artifacts := ar\<rparr>) = find_node s"
  "find_node (s\<lparr>rs_workspaceObservation := wo\<rparr>) = find_node s"
  by (simp_all add: find_node_def fun_eq_iff)

lemma find_node_in_values: "find_node s nid = Some nd \<Longrightarrow> nd \<in> set (node_values s)"
  by (force simp: find_node_def node_values_def dest: map_of_SomeD)

lemma find_node_created:
  assumes "find_node (created_state e inst wid ver nodeIds inputs) nid = Some nd"
  shows "nd = new_node nid"
  using map_of_SomeD [OF assms [unfolded find_node_def]] by auto

locale node_invariant =
  fixes P :: "run_state \<Rightarrow> node_run_state \<Rightarrow> bool"
  assumes P_fresh: "P s (new_node nid)"
    and P_sequence: "P (s\<lparr>rs_sequence := k\<rparr>) nd = P s nd"
    and P_step: "apply_payload s p = Inr s' \<Longrightarrow>
      (\<And>j nd. find_node s j = Some nd \<Longrightarrow> P s nd) \<Longrightarrow> find_node s' nid = Some nd' \<Longrightarrow> P s' nd'"
begin

lemma P_event:
  assumes "applyRunEvent (Some s) e = Inr s'"
    and "\<And>j nd. find_node s j = Some nd \<Longrightarrow> P s nd"
    and "find_node s' nid = Some nd'"
  shows "P s' nd'"
proof (rule P_step)
  show "apply_payload (s\<lparr>rs_sequence := ev_sequence e\<rparr>) (ev_payload e) = Inr s'"
    using assms(1) unfolding applyRunEvent_Some_iff by blast
  show "P (s\<lparr>rs_sequence := ev_sequence e\<rparr>) nd"
    if "find_node (s\<lparr>rs_sequence := ev_sequence e\<rparr>) j = Some nd" for j nd
    using that assms(2) by (simp add: P_sequence)
  show "find_node s' nid = Some nd'" by (rule assms(3))
qed

lemma P_replay:
  assumes "replayRun events = Inr s"
  shows "\<forall>nid nd. find_node s nid = Some nd \<longrightarrow> P s nd"
  using _ _ assms
proof (rule replayRun_invariant)
  show "\<forall>nid nd. find_node s nid = Some nd \<longrightarrow> P s nd" if "applyRunEvent None e = Inr s" for e s
    using that by (auto simp: applyRunEvent_None_iff P_fresh dest: find_node_created)
  show "\<forall>nid nd. find_node s' nid = Some nd \<longrightarrow> P s' nd"
    if "\<forall>nid nd. find_node s nid = Some nd \<longrightarrow> P s nd" "applyRunEvent (Some s) e = Inr s'" for s e s'
    using that P_event by blast
qed

lemma P_replay_node: "replayRun events = Inr s \<Longrightarrow> find_node s nid = Some nd \<Longrightarrow> P s nd"
  using P_replay by blast

end

section \<open>The reducer refines the machine\<close>

definition node_view :: "node_run_state \<Rightarrow> node_view" where
  "node_view nd = (n_status nd, map a_status (n_attempts nd))"

text \<open>A step of the machine or none.\<close>

definition node_move :: "node_run_state \<Rightarrow> node_run_state \<Rightarrow> bool" where
  "node_move nd nd' \<longleftrightarrow> node_view nd' = node_view nd \<or> node_step (node_view nd) (node_view nd')"

lemma node_move_refl [simp]: "node_move nd nd"
  by (simp add: node_move_def)

lemma last_status_SomeD:
  "last_status nd = Some st \<Longrightarrow> \<exists>as a. n_attempts nd = as @ [a] \<and> a_status a = st"
  by (auto simp: last_status_def dest: last_attempt_SomeD)

lemma observe_runtime_event_frame:
  assumes "observe_runtime_event a e = Inr a'"
  shows "a_number a' = a_number a \<and> a_status a' = a_status a \<and> a_runtimeId a' = a_runtimeId a \<and>
     a_timeout a' = a_timeout a \<and> a_failure a' = a_failure a \<and>
     a_executionPlan a' = a_executionPlan a \<and> a_execution a' = a_execution a \<and>
     a_workspaceCheckpoint a' = a_workspaceCheckpoint a"
  using assms by (auto simp: observe_runtime_event_iff split: runtime_event.splits)

lemma apply_payload_node_move:
  assumes "apply_payload s p = Inr s'"
    and "find_node s nid = Some nd" and "find_node s' nid = Some nd'"
  shows "node_move nd nd'"
proof (cases "node_event p = Some nid")
  case False
  have "find_node s' nid = find_node s nid"
  proof (cases "node_event p")
    case None
    with run_event_step [OF assms(1)] show ?thesis by (simp add: find_node_def)
  next
    case (Some j)
    with False node_event_step [OF assms(1) Some] show ?thesis by auto
  qed
  with assms(2,3) show ?thesis by simp
next
  case True
  then show ?thesis
    using assms
    by (cases p)
      (auto simp: handler_iffs node_move_def node_view_def stopped_attempt_iff new_attempt_def
        ready_sources_def node_step.intros
        dest!: last_attempt_SomeD last_status_SomeD observe_runtime_event_frame
        split: ready_reason.splits)
qed

end
