(* ===== verification/Reducer_Invariants.thy ===== *)
theory Reducer_Invariants
  imports Node_Lifecycle
begin

text \<open>
  The invariants of accepted histories, each an interpretation of \<open>node_invariant\<close>: nodes
  follow the lifecycle machine, attempts are numbered from one, timeouts are honoured, and a
  run with a configured durable runtime only ever starts attempts that were prepared and
  authorized. Then what a step never loses: the evidence recorded for an attempt.
\<close>

lemma find_node_back:
  assumes "apply_payload s p = Inr s'" and "find_node s' nid = Some nd'"
  shows "\<exists>nd. find_node s nid = Some nd"
proof -
  from apply_payload_identity [OF assms(1)] have "map fst (rs_nodes s') = map fst (rs_nodes s)"
    by (simp add: run_identity_def)
  then have "dom (map_of (rs_nodes s')) = dom (map_of (rs_nodes s))"
    by (metis dom_map_of_conv_image_fst list.set_map)
  with assms(2) show ?thesis by (auto simp: find_node_def dom_def)
qed

section \<open>The lifecycle machine\<close>

interpretation lifecycle: node_invariant "\<lambda>s nd. node_reachable (node_view nd)"
proof unfold_locales
  show "node_reachable (node_view (new_node nid))" for nid
    by (simp add: node_view_def new_node_def node_reachable.fresh)
  show "node_reachable (node_view nd')"
    if "apply_payload s p = Inr s'"
      and IH: "\<And>j nd. find_node s j = Some nd \<Longrightarrow> node_reachable (node_view nd)"
      and "find_node s' nid = Some nd'" for s p s' nid nd'
  proof -
    from find_node_back [OF that(1,3)] obtain nd where nd: "find_node s nid = Some nd" ..
    from apply_payload_node_move [OF that(1) nd that(3)] IH [OF nd] show ?thesis
      by (auto simp: node_move_def intro: node_reachable.step)
  qed
qed simp

section \<open>What handlers do to attempts\<close>

text \<open>
  An event leaves the attempts of a node alone, appends a scheduled attempt or replaces the
  last attempt: the cases of every proof about attempts.
\<close>

definition attempts_update ::
    "(attempt_state \<Rightarrow> attempt_state \<Rightarrow> bool) \<Rightarrow> (int \<Rightarrow> string \<Rightarrow> bool) \<Rightarrow>
     node_run_state \<Rightarrow> node_run_state \<Rightarrow> bool" where
  "attempts_update R new nd nd' \<longleftrightarrow>
     n_attempts nd' = n_attempts nd \<or>
     (\<exists>rt. new (int (length (n_attempts nd)) + 1) rt \<and>
        n_attempts nd' = n_attempts nd @ [new_attempt (int (length (n_attempts nd)) + 1) rt]) \<or>
     (\<exists>as a a'. n_attempts nd = as @ [a] \<and> n_attempts nd' = as @ [a'] \<and> R a a')"

lemma attempts_update_frame [simp]:
  "attempts_update R new nd (nd'\<lparr>n_status := st\<rparr>) = attempts_update R new nd nd'"
  "attempts_update R new nd (nd'\<lparr>n_output := out\<rparr>) = attempts_update R new nd nd'"
  "attempts_update R new nd (nd'\<lparr>n_failure := f\<rparr>) = attempts_update R new nd nd'"
  "attempts_update R new nd (nd'\<lparr>n_blockedReason := br\<rparr>) = attempts_update R new nd nd'"
  "attempts_update R new nd (nd'\<lparr>n_command := c\<rparr>) = attempts_update R new nd nd'"
  "attempts_update R new nd (nd'\<lparr>n_pauseReason := pr\<rparr>) = attempts_update R new nd nd'"
  by (simp_all add: attempts_update_def)

lemma attempts_update_same [simp]: "attempts_update R new nd nd"
  by (simp add: attempts_update_def)

lemma attempts_update_set:
  "last_attempt nd = Some a \<Longrightarrow> R a a' \<Longrightarrow> attempts_update R new nd (set_attempt nd a')"
  by (auto simp: attempts_update_def dest!: last_attempt_SomeD)

lemma attempts_update_new:
  "new (int (length (n_attempts nd)) + 1) rt \<Longrightarrow>
     attempts_update R new nd
       (nd\<lparr>n_attempts := n_attempts nd @ [new_attempt (int (length (n_attempts nd)) + 1) rt]\<rparr>)"
  by (auto simp: attempts_update_def)

lemma attempts_update_all:
  assumes "attempts_update R new nd nd'"
    and "\<forall>a \<in> set (n_attempts nd). Q a"
    and "\<And>a a'. R a a' \<Longrightarrow> Q a \<Longrightarrow> Q a'" and "\<And>n rt. new n rt \<Longrightarrow> Q (new_attempt n rt)"
  shows "\<forall>a \<in> set (n_attempts nd'). Q a"
  using assms by (auto simp: attempts_update_def)

text \<open>How the last attempt changes, with the facts of the run that justify it.\<close>

inductive attempt_change :: "run_state \<Rightarrow> string \<Rightarrow> attempt_state \<Rightarrow> attempt_state \<Rightarrow> bool"
  for s nid where
  request_timeout: "a_status a = Running \<Longrightarrow> a_timeout a = None \<Longrightarrow>
    attempt_change s nid a (a\<lparr>a_timeout := Some \<lparr>to_cancellation = None, to_lateStatus = None\<rparr>\<rparr>)"
| complete_cancellation: "a_status a = Running \<Longrightarrow> a_timeout a = Some t \<Longrightarrow> to_cancellation t = None \<Longrightarrow>
    attempt_change s nid a (a\<lparr>a_timeout := Some (t\<lparr>to_cancellation := Some oc\<rparr>)\<rparr>)"
| late_result: "a_status a = Running \<Longrightarrow> a_timeout a = Some t \<Longrightarrow> to_cancellation t \<noteq> None \<Longrightarrow>
    to_lateStatus t = None \<Longrightarrow>
    attempt_change s nid a (a\<lparr>a_timeout := Some (t\<lparr>to_lateStatus := Some rst\<rparr>)\<rparr>)"
| cleanup: "a_status a \<in> {Prepared, Running, Orphaned} \<Longrightarrow>
    attempt_change s nid a (a\<lparr>a_cleanup := Some (cleanup_list a @ [c])\<rparr>)"
| observe: "a_status a = Running \<Longrightarrow> observe_runtime_event a e = Inr a' \<Longrightarrow> attempt_change s nid a a'"
| start: "a_status a = Scheduled \<Longrightarrow> rs_runtimeDescriptor s = None \<Longrightarrow>
    attempt_change s nid a (a\<lparr>a_status := Running\<rparr>)"
| prepare: "a_status a = Scheduled \<Longrightarrow> prepared_evidence s nid (a_number a) a plan cp \<Longrightarrow>
    attempt_change s nid a
      (a\<lparr>a_status := Prepared, a_executionPlan := Some plan, a_workspaceCheckpoint := Some cp\<rparr>)"
| authorize: "a_status a = Prepared \<Longrightarrow> a_executionPlan a = Some plan \<Longrightarrow> plan_matches plan x \<Longrightarrow>
    attempt_change s nid a (a\<lparr>a_status := Running, a_execution := Some x\<rparr>)"
| orphan: "a_status a \<in> {Prepared, Running} \<Longrightarrow> a_executionPlan a = Some plan \<Longrightarrow>
    ex_executionId plan = or_executionId e \<Longrightarrow> ex_generation plan = or_lostGeneration e \<Longrightarrow>
    attempt_change s nid a (a\<lparr>a_status := Orphaned, a_orphan := Some (orphan_record e)\<rparr>)"
| succeed: "a_status a = Running \<Longrightarrow> a_timeout a = None \<Longrightarrow>
    attempt_change s nid a (a\<lparr>a_status := Succeeded\<rparr>)"
| fail: "a_status a = Running \<Longrightarrow>
    pred_option (\<lambda>t. f_category f = BudgetExhausted \<and> to_cancellation t \<noteq> None) (a_timeout a) \<Longrightarrow>
    attempt_change s nid a (a\<lparr>a_status := Failed, a_failure := Some f\<rparr>)"
| block: "a_status a = Running \<Longrightarrow> a_timeout a = None \<Longrightarrow>
    attempt_change s nid a (a\<lparr>a_status := Blocked\<rparr>)"
| cancel: "a_status a = Running \<Longrightarrow> a_timeout a = None \<Longrightarrow>
    attempt_change s nid a (a\<lparr>a_status := Cancelled\<rparr>)"

definition schedulable :: "run_state \<Rightarrow> string \<Rightarrow> bool" where
  "schedulable s rt \<longleftrightarrow>
     rt = ''command'' \<or> pred_option (\<lambda>d. rd_runtimeId d = rt) (rs_runtimeDescriptor s)"

lemma apply_payload_attempts:
  assumes "apply_payload s p = Inr s'"
    and "find_node s nid = Some nd" and "find_node s' nid = Some nd'"
  shows "attempts_update (attempt_change s nid) (\<lambda>_. schedulable s) nd nd'"
proof (cases "node_event p = Some nid")
  case False
  have "find_node s' nid = find_node s nid"
  proof (cases "node_event p")
    case None
    with run_event_step [OF assms(1)] show ?thesis by (simp add: find_node_def)
  next
    case (Some j)
    with False node_event_step [OF assms(1) Some] show ?thesis by auto
  qed
  with assms(2,3) show ?thesis by (simp add: attempts_update_def)
next
  case True
  then show ?thesis
    using assms
    by (cases p)
      (auto simp: handler_iffs schedulable_def intro!: attempts_update_new;
        rule attempts_update_set, assumption, auto intro: attempt_change.intros)+
qed

text \<open>Once an attempt exists, the durable runtime of the run is fixed.\<close>

lemma descriptor_stable:
  assumes "apply_payload s p = Inr s'" and "any_attempts s"
  shows "rs_runtimeDescriptor s' = rs_runtimeDescriptor s"
  using assms by (cases p) (auto simp: handler_iffs split: run_outcome.splits)

lemma any_attempts_find: "find_node s nid = Some nd \<Longrightarrow> n_attempts nd \<noteq> [] \<Longrightarrow> any_attempts s"
  by (auto simp: any_attempts_def list_ex_iff dest: find_node_in_values)

section \<open>Attempt-wise invariants\<close>

locale attempt_invariant =
  fixes Q :: "run_state \<Rightarrow> attempt_state \<Rightarrow> bool"
  assumes Q_new: "Q s (new_attempt n rt)"
    and Q_run: "rs_runtimeDescriptor s' = rs_runtimeDescriptor s \<Longrightarrow> rs_runId s' = rs_runId s \<Longrightarrow>
      Q s' a = Q s a"
    and Q_change: "attempt_change s nid a a' \<Longrightarrow> Q s a \<Longrightarrow> Q s a'"
begin

lemma Q_attempts_step:
  assumes step: "apply_payload s p = Inr s'"
    and IH: "\<And>j nd. find_node s j = Some nd \<Longrightarrow> \<forall>a \<in> set (n_attempts nd). Q s a"
    and nd': "find_node s' nid = Some nd'"
  shows "\<forall>a \<in> set (n_attempts nd'). Q s' a"
proof -
  from find_node_back [OF step nd'] obtain nd where nd: "find_node s nid = Some nd" ..
  have upd: "attempts_update (attempt_change s nid) (\<lambda>_. schedulable s) nd nd'"
    by (rule apply_payload_attempts [OF step nd nd'])
  then have all: "\<forall>a \<in> set (n_attempts nd'). Q s a"
    using IH [OF nd] by (rule attempts_update_all) (auto intro: Q_change Q_new)
  show ?thesis
  proof (cases "n_attempts nd = []")
    case True
    with upd show ?thesis by (auto simp: attempts_update_def Q_new)
  next
    case False
    from descriptor_stable [OF step any_attempts_find [OF nd False]] apply_payload_identity [OF step]
    have "Q s' a = Q s a" for a
      by (intro Q_run) (simp_all add: run_identity_def)
    with all show ?thesis by simp
  qed
qed

end

sublocale attempt_invariant \<subseteq> node_invariant "\<lambda>s nd. \<forall>a \<in> set (n_attempts nd). Q s a"
proof unfold_locales
  show "\<forall>a \<in> set (n_attempts (new_node nid)). Q s a" for s nid
    by (simp add: new_node_def)
  show "(\<forall>a \<in> set (n_attempts nd). Q (s\<lparr>rs_sequence := k\<rparr>) a) = (\<forall>a \<in> set (n_attempts nd). Q s a)"
    for s k nd
    using Q_run [of "s\<lparr>rs_sequence := k\<rparr>" s] by simp
  show "\<forall>a \<in> set (n_attempts nd'). Q s' a"
    if "apply_payload s p = Inr s'"
      and "\<And>j nd. find_node s j = Some nd \<Longrightarrow> \<forall>a \<in> set (n_attempts nd). Q s a"
      and "find_node s' nid = Some nd'" for s p s' nid nd'
    using that by (rule Q_attempts_step)
qed

subsection \<open>Timeouts\<close>

text \<open>
  A timed-out attempt never succeeds, blocks or is cancelled; it fails only as an exhausted
  budget after its cancellation was completed; a late result follows the cancellation.
\<close>

definition timeout_ok :: "attempt_state \<Rightarrow> bool" where
  "timeout_ok a \<longleftrightarrow>
     (case a_timeout a of
        None \<Rightarrow> True
      | Some t \<Rightarrow>
          a_status a \<in> {Running, Failed, Orphaned} \<and>
          (to_lateStatus t \<noteq> None \<longrightarrow> to_cancellation t \<noteq> None) \<and>
          (a_status a = Failed \<longrightarrow>
             to_cancellation t \<noteq> None \<and> map_option f_category (a_failure a) = Some BudgetExhausted))"

lemma timeout_ok_change: "attempt_change s nid a a' \<Longrightarrow> timeout_ok a \<Longrightarrow> timeout_ok a'"
  by (induction rule: attempt_change.induct)
    (auto simp: timeout_ok_def dest!: observe_runtime_event_frame split: option.splits)

interpretation timeouts: attempt_invariant "\<lambda>s. timeout_ok"
proof unfold_locales
  show "timeout_ok (new_attempt n rt)" for n rt
    by (simp add: timeout_ok_def new_attempt_def)
qed (auto intro: timeout_ok_change)

subsection \<open>Prepared and authorized starts\<close>

text \<open>
  With a durable runtime configured, an attempt is past its start only with the execution
  reference that was authorized, which agrees with the plan it was prepared with, and a
  prepared attempt has its plan and the workspace checkpoint taken before.
\<close>

definition prepared_ok :: "run_state \<Rightarrow> attempt_state \<Rightarrow> bool" where
  "prepared_ok s a \<longleftrightarrow>
     (\<exists>plan. a_executionPlan a = Some plan \<and> ex_runId plan = rs_runId s \<and> 1 \<le> ex_generation plan \<and>
        a_workspaceCheckpoint a \<noteq> None)"

definition start_ok :: "run_state \<Rightarrow> attempt_state \<Rightarrow> bool" where
  "start_ok s a \<longleftrightarrow>
     (a_status a \<in> {Prepared, Orphaned} \<longrightarrow> prepared_ok s a) \<and>
     (rs_runtimeDescriptor s \<noteq> None \<and> a_status a \<in> {Running, Succeeded, Failed, Blocked, Cancelled} \<longrightarrow>
        prepared_ok s a \<and>
        (\<exists>plan x. a_executionPlan a = Some plan \<and> a_execution a = Some x \<and> plan_matches plan x)) \<and>
     (a_executionPlan a \<noteq> None \<longrightarrow> prepared_ok s a)"

lemma start_ok_change: "attempt_change s nid a a' \<Longrightarrow> start_ok s a \<Longrightarrow> start_ok s a'"
  by (induction rule: attempt_change.induct)
    (auto simp: start_ok_def prepared_ok_def prepared_evidence_def
      dest!: observe_runtime_event_frame)

interpretation starts: attempt_invariant start_ok
proof unfold_locales
  show "start_ok s (new_attempt n rt)" for s n rt
    by (simp add: start_ok_def new_attempt_def)
  show "start_ok s' a = start_ok s a"
    if "rs_runtimeDescriptor s' = rs_runtimeDescriptor s" "rs_runId s' = rs_runId s" for s s' a
    using that by (simp add: start_ok_def prepared_ok_def)
qed (rule start_ok_change)

subsection \<open>Numbering\<close>

definition numbered :: "node_run_state \<Rightarrow> bool" where
  "numbered nd \<longleftrightarrow> (\<forall>i < length (n_attempts nd). a_number (n_attempts nd ! i) = int i + 1)"

lemma attempt_change_frame:
  "attempt_change s nid a a' \<Longrightarrow> a_number a' = a_number a \<and> a_runtimeId a' = a_runtimeId a"
  by (induction rule: attempt_change.induct) (auto dest: observe_runtime_event_frame)

lemma numbered_update:
  assumes "attempts_update (attempt_change s nid) new nd nd'" and "numbered nd"
  shows "numbered nd'"
  using assms attempt_change_frame
  by (fastforce simp: attempts_update_def numbered_def nth_append new_attempt_def less_Suc_eq)

interpretation numbering: node_invariant "\<lambda>s. numbered"
proof unfold_locales
  show "numbered (new_node nid)" for nid
    by (simp add: numbered_def new_node_def)
  show "numbered nd'"
    if "apply_payload s p = Inr s'" "\<And>j nd. find_node s j = Some nd \<Longrightarrow> numbered nd"
      "find_node s' nid = Some nd'" for s p s' nid nd'
    using find_node_back [OF that(1,3)] numbered_update [OF apply_payload_attempts [OF that(1) _ that(3)]]
      that(2) by blast
qed simp

subsection \<open>Evidence is kept\<close>

text \<open>
  The fields of an attempt that its status leaves open. A field that is set stays as it is: the
  handlers overwrite none, because the status they require says it is still unset.
\<close>

definition evidence_ok :: "attempt_state \<Rightarrow> bool" where
  "evidence_ok a \<longleftrightarrow>
     (a_status a = Scheduled \<longrightarrow> a_executionPlan a = None \<and> a_workspaceCheckpoint a = None) \<and>
     (a_status a \<in> {Scheduled, Prepared} \<longrightarrow> a_execution a = None) \<and>
     (a_status a \<noteq> Failed \<longrightarrow> a_failure a = None) \<and>
     (a_status a \<noteq> Orphaned \<longrightarrow> a_orphan a = None)"

interpretation evidence: attempt_invariant "\<lambda>s. evidence_ok"
proof unfold_locales
  show "evidence_ok (new_attempt n rt)" for n rt
    by (simp add: evidence_ok_def new_attempt_def)
  show "evidence_ok a'" if "attempt_change s nid a a'" "evidence_ok a" for s nid a a'
    using that by (induction rule: attempt_change.induct)
      (auto simp: evidence_ok_def observe_runtime_event_iff split: runtime_event.splits)
qed simp

definition kept :: "'a option \<Rightarrow> 'a option \<Rightarrow> bool" where
  "kept x y \<longleftrightarrow> x = None \<or> y = x"

definition settled_attempt :: "attempt_state \<Rightarrow> bool" where
  "settled_attempt a \<longleftrightarrow> a_status a \<in> {Succeeded, Failed, Blocked, Cancelled}"

definition attempt_extends :: "attempt_state \<Rightarrow> attempt_state \<Rightarrow> bool" where
  "attempt_extends a a' \<longleftrightarrow>
     a_number a' = a_number a \<and> a_runtimeId a' = a_runtimeId a \<and>
     kept (a_failure a) (a_failure a') \<and> kept (a_usage a) (a_usage a') \<and>
     kept (a_executionPlan a) (a_executionPlan a') \<and> kept (a_execution a) (a_execution a') \<and>
     kept (a_workspaceCheckpoint a) (a_workspaceCheckpoint a') \<and> kept (a_orphan a) (a_orphan a') \<and>
     (\<exists>ms. case_option [] id (a_identity a') = case_option [] id (a_identity a) @ ms) \<and>
     (\<exists>cs. cleanup_list a' = cleanup_list a @ cs) \<and>
     (a_timeout a \<noteq> None \<longrightarrow> a_timeout a' \<noteq> None) \<and>
     (settled_attempt a \<longrightarrow> a' = a)"

lemma kept_simps [simp]: "kept x x" "kept None x" "kept (Some v) x \<longleftrightarrow> x = Some v"
  by (auto simp: kept_def)

lemma kept_trans: "kept x y \<Longrightarrow> kept y z \<Longrightarrow> kept x z"
  by (auto simp: kept_def)

lemma attempt_extends_refl [simp]: "attempt_extends a a"
  by (simp add: attempt_extends_def)

lemma attempt_extends_trans:
  assumes "attempt_extends a b" and "attempt_extends b c"
  shows "attempt_extends a c"
proof (cases "settled_attempt a")
  case True
  with assms show ?thesis by (simp add: attempt_extends_def)
next
  case False
  note facts = assms [unfolded attempt_extends_def]
  show ?thesis
    unfolding attempt_extends_def
  proof (intro conjI impI)
    show "\<exists>ms. case_option [] id (a_identity c) = case_option [] id (a_identity a) @ ms"
      using facts by (elim conjE exE) simp
    show "\<exists>cs. cleanup_list c = cleanup_list a @ cs"
      using facts by (elim conjE exE) simp
    show "kept (a_failure a) (a_failure c)" "kept (a_usage a) (a_usage c)"
      "kept (a_executionPlan a) (a_executionPlan c)" "kept (a_execution a) (a_execution c)"
      "kept (a_workspaceCheckpoint a) (a_workspaceCheckpoint c)" "kept (a_orphan a) (a_orphan c)"
      using facts kept_trans by blast+
    show "c = a" if "settled_attempt a"
      using that False by contradiction
  qed (use facts in simp_all)
qed

lemma observe_runtime_event_extends:
  assumes "observe_runtime_event a e = Inr a'" and "a_status a = Running"
  shows "attempt_extends a a'"
  using assms
  by (cases e) (simp_all add: observe_runtime_event_iff attempt_extends_def settled_attempt_def
      cleanup_list_def)

lemma attempt_change_extends:
  "attempt_change s nid a a' \<Longrightarrow> evidence_ok a \<Longrightarrow> attempt_extends a a'"
proof (induction rule: attempt_change.induct)
  case (observe a e a')
  then show ?case by (intro observe_runtime_event_extends)
next
  case (cleanup a c)
  from cleanup(1) have "\<not> settled_attempt a" by (auto simp: settled_attempt_def)
  then show ?case by (simp add: attempt_extends_def cleanup_list_def)
next
  case (orphan a plan e)
  from orphan(1) have "\<not> settled_attempt a" "a_status a \<noteq> Orphaned"
    by (auto simp: settled_attempt_def)
  with orphan(5) show ?case
    by (simp add: attempt_extends_def cleanup_list_def evidence_ok_def)
qed (simp_all add: attempt_extends_def evidence_ok_def settled_attempt_def cleanup_list_def)

text \<open>The same for the attempts of a node, in order.\<close>

definition attempts_extend :: "node_run_state \<Rightarrow> node_run_state \<Rightarrow> bool" where
  "attempts_extend nd nd' \<longleftrightarrow>
     length (n_attempts nd) \<le> length (n_attempts nd') \<and>
     (\<forall>i < length (n_attempts nd). attempt_extends (n_attempts nd ! i) (n_attempts nd' ! i))"

lemma attempts_extend_refl [simp]: "attempts_extend nd nd"
  by (simp add: attempts_extend_def)

lemma attempts_extend_trans:
  assumes "attempts_extend x y" and "attempts_extend y z"
  shows "attempts_extend x z"
  unfolding attempts_extend_def
proof (intro conjI allI impI)
  show "length (n_attempts x) \<le> length (n_attempts z)"
    using assms by (auto simp: attempts_extend_def)
  fix i assume "i < length (n_attempts x)"
  with assms show "attempt_extends (n_attempts x ! i) (n_attempts z ! i)"
    by (auto simp: attempts_extend_def intro: attempt_extends_trans)
qed

lemma attempts_update_extend:
  assumes "attempts_update (attempt_change s nid) new nd nd'"
    and "\<forall>a \<in> set (n_attempts nd). evidence_ok a"
  shows "attempts_extend nd nd'"
  using assms attempt_change_extends
  by (fastforce simp: attempts_update_def attempts_extend_def nth_append less_Suc_eq)

end
