(* ===== verification/Run_Evolution.thy ===== *)
theory Run_Evolution
  imports Reducer_Invariants
begin

text \<open>
  What a suffix of a history may change: nodes are never lost, a terminal node keeps its
  status and its attempts, attempts only gain evidence; and what the terminal status of a run
  says about its nodes.
\<close>

section \<open>One event\<close>

lemma applyRunEvent_payload:
  assumes "applyRunEvent (Some s) e = Inr s'"
  shows "apply_payload (s\<lparr>rs_sequence := ev_sequence e\<rparr>) (ev_payload e) = Inr s'"
  using assms unfolding applyRunEvent_Some_iff by blast

lemma apply_payload_frame:
  assumes "apply_payload s p = Inr s'" and "node_event p \<noteq> Some nid"
  shows "find_node s' nid = find_node s nid"
proof (cases "node_event p")
  case None
  with run_event_step [OF assms(1)] show ?thesis by (simp add: find_node_def)
next
  case (Some j)
  with assms(2) node_event_step [OF assms(1) Some] show ?thesis by auto
qed

lemma apply_payload_find_node:
  assumes "apply_payload s p = Inr s'" and "find_node s nid = Some nd"
  shows "\<exists>nd'. find_node s' nid = Some nd'"
proof (cases "node_event p = Some nid")
  case True
  from node_event_step [OF assms(1) True] show ?thesis by auto
next
  case False
  with apply_payload_frame [OF assms(1)] assms(2) show ?thesis by simp
qed

lemma applyRunEvent_find_node:
  assumes "applyRunEvent (Some s) e = Inr s'" and "find_node s nid = Some nd"
  obtains nd' where "find_node s' nid = Some nd'"
  using apply_payload_find_node [OF applyRunEvent_payload [OF assms(1)], of nid nd] assms(2) by auto

lemma applyRunEvent_node_move:
  assumes "applyRunEvent (Some s) e = Inr s'"
    and "find_node s nid = Some nd" and "find_node s' nid = Some nd'"
  shows "node_move nd nd'"
  using apply_payload_node_move [OF applyRunEvent_payload [OF assms(1)], of nid nd nd'] assms(2,3)
  by simp

lemma applyRunEvent_extend:
  assumes step: "applyRunEvent (Some s) e = Inr s'"
    and nd: "find_node s nid = Some nd" and nd': "find_node s' nid = Some nd'"
    and ok: "\<forall>a \<in> set (n_attempts nd). evidence_ok a"
  shows "attempts_extend nd nd'"
  using apply_payload_attempts [OF applyRunEvent_payload [OF step], of nid nd nd'] nd nd' ok
  by (auto intro: attempts_update_extend)

section \<open>Suffixes of histories\<close>

text \<open>What holds of one event between the nodes of two states holds of every suffix.\<close>

lemma apply_events_nodes:
  assumes refl: "\<And>nd. R nd nd"
    and trans: "\<And>x y z. R x y \<Longrightarrow> R y z \<Longrightarrow> R x z"
    and keep: "\<And>s e s'. I s \<Longrightarrow> applyRunEvent (Some s) e = Inr s' \<Longrightarrow> I s'"
    and step: "\<And>s e s' nid nd nd'. I s \<Longrightarrow> applyRunEvent (Some s) e = Inr s' \<Longrightarrow>
      find_node s nid = Some nd \<Longrightarrow> find_node s' nid = Some nd' \<Longrightarrow> R nd nd'"
  shows "apply_events s events = Inr s' \<Longrightarrow> I s \<Longrightarrow> find_node s nid = Some nd \<Longrightarrow>
    \<exists>nd'. find_node s' nid = Some nd' \<and> R nd nd'"
proof (induction events arbitrary: s nd)
  case Nil
  then show ?case by (auto intro: refl)
next
  case (Cons e es)
  from Cons.prems(1) obtain t where t: "applyRunEvent (Some s) e = Inr t"
    and rest: "apply_events t es = Inr s'"
    by (auto simp: result_simps)
  from applyRunEvent_find_node [OF t Cons.prems(3)] obtain nt where nt: "find_node t nid = Some nt" .
  from Cons.IH [OF rest keep [OF Cons.prems(2) t] nt] obtain nd'
    where "find_node s' nid = Some nd'" "R nt nd'" by blast
  moreover have "R nd nt" by (rule step [OF Cons.prems(2) t Cons.prems(3) nt])
  ultimately show ?case by (blast intro: trans)
qed

text \<open>A terminal node is frozen.\<close>

definition frozen :: "node_run_state \<Rightarrow> node_run_state \<Rightarrow> bool" where
  "frozen nd nd' \<longleftrightarrow> (terminal_node (n_status nd) \<longrightarrow> node_view nd' = node_view nd)"

lemma node_move_frozen: "node_move nd nd' \<Longrightarrow> frozen nd nd'"
  using terminal_node_stuck [of "node_view nd" "node_view nd'"]
  by (auto simp: node_move_def frozen_def node_view_def)

lemma apply_events_frozen:
  assumes "apply_events s events = Inr s'" and "find_node s nid = Some nd"
  shows "\<exists>nd'. find_node s' nid = Some nd' \<and> frozen nd nd'"
proof (rule apply_events_nodes [where I = "\<lambda>_. True" and R = frozen])
  show "frozen nd nd" for nd by (simp add: frozen_def)
  show "frozen x z" if "frozen x y" "frozen y z" for x y z
    using that by (auto simp: frozen_def node_view_def)
  show "frozen nd nd'" if "applyRunEvent (Some s) e = Inr s'" "find_node s nid = Some nd"
    "find_node s' nid = Some nd'" for s e s' nid nd nd'
    using applyRunEvent_node_move [OF that] by (rule node_move_frozen)
qed (use assms in simp_all)

lemma apply_events_extend:
  assumes "apply_events s events = Inr s'" and "find_node s nid = Some nd"
    and "\<forall>nid nd. find_node s nid = Some nd \<longrightarrow> (\<forall>a \<in> set (n_attempts nd). evidence_ok a)"
  shows "\<exists>nd'. find_node s' nid = Some nd' \<and> attempts_extend nd nd'"
proof (rule apply_events_nodes [where
      I = "\<lambda>s. \<forall>nid nd. find_node s nid = Some nd \<longrightarrow> (\<forall>a \<in> set (n_attempts nd). evidence_ok a)"
      and R = attempts_extend])
  show "\<forall>nid nd. find_node s' nid = Some nd \<longrightarrow> (\<forall>a \<in> set (n_attempts nd). evidence_ok a)"
    if "\<forall>nid nd. find_node s nid = Some nd \<longrightarrow> (\<forall>a \<in> set (n_attempts nd). evidence_ok a)"
      "applyRunEvent (Some s) e = Inr s'" for s e s'
    using that evidence.P_event [of s e s'] by blast
  show "attempts_extend nd nd'"
    if "\<forall>nid nd. find_node s nid = Some nd \<longrightarrow> (\<forall>a \<in> set (n_attempts nd). evidence_ok a)"
      "applyRunEvent (Some s) e = Inr s'" "find_node s nid = Some nd" "find_node s' nid = Some nd'"
    for s e s' nid nd nd'
    using applyRunEvent_extend [OF that(2,3,4)] that(1,3) by blast
qed (use assms in \<open>auto intro: attempts_extend_trans\<close>)

section \<open>The status of a finished run\<close>

definition outcome_ok :: "run_state \<Rightarrow> bool" where
  "outcome_ok s \<longleftrightarrow>
     (rs_status s = RunSucceeded \<longrightarrow> list_all (\<lambda>nd. n_status nd = NodeSucceededStatus) (node_values s)) \<and>
     (rs_status s = RunFailed \<longrightarrow> list_ex (\<lambda>nd. n_status nd = NodeFailedStatus) (node_values s))"

lemma outcome_ok_node:
  assumes "apply_payload s p = Inr s'" and "\<not> terminal_run (rs_status s)"
  shows "outcome_ok s'"
proof (cases "node_event p")
  case (Some nid)
  from node_event_step [OF assms(1) Some] assms(2) show ?thesis
    by (auto simp: outcome_ok_def terminal_run_def set_node_def)
next
  case None
  with assms show ?thesis
    by (cases p)
      (auto simp: handler_iffs outcome_ok_def terminal_run_def node_values_def split: run_outcome.splits)
qed

lemma replayRun_outcome_ok:
  assumes "replayRun events = Inr s"
  shows "outcome_ok s"
  using _ _ assms
proof (rule replayRun_invariant)
  show "outcome_ok s" if "applyRunEvent None e = Inr s" for e s
    using that by (auto simp: applyRunEvent_None_iff outcome_ok_def)
  show "outcome_ok s'" if "applyRunEvent (Some s) e = Inr s'" for s e s'
    using that outcome_ok_node [OF applyRunEvent_payload [OF that]]
    unfolding applyRunEvent_Some_iff by simp
qed

end
