(* ===== verification/Run_Samples.thy ===== *)
theory Run_Samples
  imports Run_Evolution
begin

text \<open>
  Two concrete histories on which the properties of the reducer are evaluated: a run without a
  durable runtime that succeeds, and a run with one whose first attempt is prepared, authorized,
  timed out and retried.
\<close>

definition number_payloads :: "string \<Rightarrow> run_event_payload list \<Rightarrow> run_event list" where
  "number_payloads runId ps =
     map (\<lambda>(i, p). \<lparr>ev_runId = runId, ev_sequence = int i + 1, ev_payload = p\<rparr>) (enumerate 0 ps)"

definition small_payloads :: "run_event_payload list" where
  "small_payloads =
     [RunCreated ''wi'' ''wf'' ''1'' [''build''] [],
      NodeReady ''build'' DependenciesSatisfied,
      AttemptScheduled ''build'' 1 ''command'',
      AttemptStarted ''build'' 1,
      AttemptSucceeded ''build'' 1 JNull,
      NodeSucceeded ''build'',
      RunCompleted OutcomeSucceeded]"

definition sample_digest :: string where
  "sample_digest = ''sha256:'' @ replicate 64 CHR ''a''"

definition sample_plan :: execution_plan_ref where
  "sample_plan =
     \<lparr>ex_version = ''anastom.dev/owned-execution/v1alpha1'', ex_runId = ''run-1'',
      ex_executionId = ''x-1'', ex_kind = RuntimeKind, ex_generation = 1,
      ex_planDigest = sample_digest\<rparr>"

definition sample_execution :: persisted_execution_ref where
  "sample_execution = execution_plan_ref.extend sample_plan \<lparr>ex_manifestDigest = sample_digest\<rparr>"

definition sample_checkpoint :: workspace_checkpoint where
  "sample_checkpoint =
     \<lparr>wc_version = ''anastom.dev/workspace-checkpoint/v1alpha1'', wc_workspaceId = ''ws'',
      wc_baseCommit = ''c0'', wc_headCommit = ''c1'', wc_diffDigest = sample_digest,
      wc_changedFiles = [], wc_ignoredDigest = sample_digest, wc_ignoredEntryCount = 0,
      wc_ignoredByteCount = 0,
      wc_ownership = \<lparr>ow_repositoryRoot = ''/r'', ow_repositoryCommonDirectory = ''/r/g'',
        ow_workspacePath = ''/w'', ow_workspaceGitDirectory = ''/w/g'', ow_branch = ''b'',
        ow_manifestDigest = sample_digest, ow_registrationDigest = sample_digest\<rparr>,
      wc_diffArtifactId = None\<rparr>"

definition durable_payloads :: "run_event_payload list" where
  "durable_payloads =
     [RunCreated ''wi'' ''wf'' ''1'' [''build'', ''test''] [],
      RuntimeConfigured \<lparr>rd_version = ''anastom.dev/runtime-descriptor/v1alpha1'',
        rd_runtimeId = ''pi'', rd_configurationVersion = ''1'', rd_configuration = []\<rparr>,
      NodeCancelled ''test'' ''skipped'',
      NodeReady ''build'' DependenciesSatisfied,
      AttemptScheduled ''build'' 1 ''pi'',
      AttemptPrepared ''build'' 1 sample_plan sample_checkpoint,
      AttemptStartAuthorized ''build'' 1 sample_execution,
      AttemptTimeoutRequested ''build'' 1,
      AttemptCancellationCompleted ''build'' 1 CancelSucceeded,
      AttemptFailed ''build'' 1 \<lparr>f_category = BudgetExhausted, f_message = ''timeout''\<rparr>]"

definition retry_payloads :: "run_event_payload list" where
  "retry_payloads = [NodeReady ''build'' RetryReason, AttemptScheduled ''build'' 2 ''pi'']"

definition small_history :: "run_event list" where
  "small_history = number_payloads ''run-1'' small_payloads"

definition durable_history :: "run_event list" where
  "durable_history = number_payloads ''run-1'' (durable_payloads @ retry_payloads)"

definition small_state :: run_state where
  "small_state = projr (replayRun small_history)"

definition durable_prefix :: run_state where
  "durable_prefix = projr (replayRun (take 10 durable_history))"

definition durable_state :: run_state where
  "durable_state = projr (replayRun durable_history)"

text \<open>Each replay is evaluated once, together with what the properties ask of its state.\<close>

definition small_view :: "run_state \<Rightarrow> bool" where
  "small_view s \<longleftrightarrow> rs_status s = RunSucceeded \<and>
     map (\<lambda>(k, nd). (k, n_status nd, map a_status (n_attempts nd))) (rs_nodes s) =
       [(''build'', NodeSucceededStatus, [Succeeded])]"

definition durable_view :: "attempt_status list \<Rightarrow> run_state \<Rightarrow> bool" where
  "durable_view as s \<longleftrightarrow> rs_runtimeDescriptor s \<noteq> None \<and> rs_status s = RunRunning \<and>
     map (\<lambda>(k, nd). (k, map a_status (n_attempts nd))) (rs_nodes s) = [(''build'', as), (''test'', [])] \<and>
     list_all (\<lambda>(k, nd). k = ''test'' \<longrightarrow> n_status nd = NodeCancelledStatus) (rs_nodes s) \<and>
     map (\<lambda>a. a_timeout a = None) (concat (map n_attempts (node_values s))) =
       map (\<lambda>st. st = Scheduled) as"

lemma small_eval: "case replayRun small_history of Inl _ \<Rightarrow> False | Inr s \<Rightarrow> small_view s"
  by code_simp

lemma durable_prefix_eval:
  "case replayRun (take 10 durable_history) of Inl _ \<Rightarrow> False | Inr s \<Rightarrow> durable_view [Failed] s"
  by code_simp

lemma durable_eval:
  "case replayRun durable_history of Inl _ \<Rightarrow> False | Inr s \<Rightarrow> durable_view [Failed, Scheduled] s"
  by code_simp

lemma replay_projr:
  "case r of Inl _ \<Rightarrow> False | Inr s \<Rightarrow> P s \<Longrightarrow> r = Inr (projr r) \<and> P (projr r)"
  by (cases r) simp_all

lemma small_replay: "replayRun small_history = Inr small_state"
  and small_facts: "small_view small_state"
  using replay_projr [OF small_eval] by (simp_all add: small_state_def)

lemma durable_prefix_replay: "replayRun (take 10 durable_history) = Inr durable_prefix"
  and durable_prefix_facts: "durable_view [Failed] durable_prefix"
  using replay_projr [OF durable_prefix_eval] by (simp_all add: durable_prefix_def)

lemma durable_replay: "replayRun durable_history = Inr durable_state"
  and durable_facts: "durable_view [Failed, Scheduled] durable_state"
  using replay_projr [OF durable_eval] by (simp_all add: durable_state_def)

lemma small_build:
  obtains nd where "find_node small_state ''build'' = Some nd"
    and "n_status nd = NodeSucceededStatus" and "map a_status (n_attempts nd) = [Succeeded]"
  using small_facts by (auto simp: small_view_def find_node_def)

lemma durable_prefix_build:
  obtains nd a where "find_node durable_prefix ''build'' = Some nd"
    and "n_attempts nd = [a]" and "a_status a = Failed" and "a_timeout a \<noteq> None"
  using durable_prefix_facts by (auto simp: durable_view_def find_node_def node_values_def)

lemma durable_build:
  obtains nd a b where "find_node durable_state ''build'' = Some nd"
    and "n_attempts nd = [a, b]" and "a_status a = Failed" and "a_status b = Scheduled"
  using durable_facts by (auto simp: durable_view_def find_node_def)

lemma durable_test:
  obtains nd where "find_node durable_prefix ''test'' = Some nd" and "n_status nd = NodeCancelledStatus"
  using durable_prefix_facts by (auto simp: durable_view_def find_node_def)

lemma durable_split: "durable_history = take 10 durable_history @ drop 10 durable_history"
  by simp

end
