(* ===== verification/Run_Properties.thy ===== *)
theory Run_Properties
  imports Run_Samples
begin

text \<open>
  The properties of the run reducer (\<open>engine/src/events.ts\<close>), each followed by its evaluation
  on the sample histories.
\<close>

section \<open>Histories\<close>

text \<open>
  C1: an accepted history is not empty, all its events carry the run id of the resulting state,
  and they are numbered 1, 2, ... without a gap up to the sequence of the state.
\<close>

theorem replay_contiguous:
  assumes "replayRun events = Inr s"
  shows "events \<noteq> [] \<and> rs_sequence s = int (length events) \<and>
    (\<forall>i < length events. ev_runId (events ! i) = rs_runId s \<and> ev_sequence (events ! i) = int i + 1)"
  using replayRun_contiguous [OF assms] by (auto simp: contiguous_from_def)

theorem replay_contiguous_witness:
  "rs_sequence durable_state = int (length durable_history) \<and> ev_sequence (durable_history ! 3) = 4"
  using replay_contiguous [OF durable_replay]
  by (auto simp: durable_history_def number_payloads_def durable_payloads_def retry_payloads_def)



text \<open>
  C3: \<open>materializeEvents\<close> agrees with \<open>replayRun\<close>: the events it makes of the payloads extend
  the history of the current state (none for a new run) to a history whose replay is the state
  it returns, and their payloads are the given ones in order.
\<close>

theorem materialize_replay:
  assumes "current = None \<and> history = [] \<or> (\<exists>s0. current = Some s0 \<and> replayRun history = Inr s0)"
    and "materializeEvents current runId payloads = Inr (events, s)"
  shows "replayRun (history @ events) = Inr s \<and> map ev_payload events = payloads \<and>
    (\<forall>e \<in> set events. ev_runId e = runId)"
proof (cases current)
  case None
  with assms have "history = []" by simp
  with materializeEvents_None [of runId payloads events s] assms(2) None show ?thesis
    by (auto simp: contiguous_from_def in_set_conv_nth)
next
  case (Some s0)
  with assms have h: "replayRun history = Inr s0" by simp
  then have "history \<noteq> []" by auto
  with h materializeEvents_Some [of s0 runId payloads events s] assms(2) Some show ?thesis
    by (auto simp: replayRun_append contiguous_from_def in_set_conv_nth)
qed

lemma small_materialize:
  "materializeEvents None ''run-1'' (take 3 small_payloads) =
     Inr (take 3 small_history, projr (replayRun (take 3 small_history)))"
  by (simp add: small_payloads_def small_history_def number_payloads_def materializeEvents_def
      next_sequence_def applyRunEvent_def assertRunEvent_def positive_int_def MAX_SAFE_INTEGER_def
      replayRun_def replay_step_def created_state_def is_created_def terminal_run_def
      applyNodeReady_def requireNode_def requireNodeStatus_def find_node_def set_node_def
      update_at_def new_node_def js_key_order_def is_array_index_def is_digit_def
      ready_sources_def applyAttemptScheduled_def digits_value_def)

theorem materialize_replay_witness:
  "replayRun (take 3 small_history) = Inr (projr (replayRun (take 3 small_history)))"
  using materialize_replay [of None "[]" "''run-1''" "take 3 small_payloads", OF _ small_materialize]
  by simp

text \<open>
  C4: a run that succeeded, failed or was cancelled is over: no event extends its history.
\<close>

theorem terminal_run_final:
  assumes "replayRun history = Inr s" and "terminal_run (rs_status s)" and "events \<noteq> []"
  shows "\<exists>err. replayRun (history @ events) = Inl err"
proof -
  from assms(3) obtain e es where es: "events = e # es" by (cases events) auto
  from terminal_run_rejects [OF assms(2), of e] obtain err where "applyRunEvent (Some s) e = Inl err" ..
  moreover from assms(1) have "history \<noteq> []" by auto
  ultimately show ?thesis by (simp add: replayRun_append assms(1) es)
qed

theorem terminal_run_final_witness: "\<exists>err. replayRun (small_history @ small_history) = Inl err"
proof (rule terminal_run_final [OF small_replay])
  show "terminal_run (rs_status small_state)"
    using small_facts by (simp add: small_view_def terminal_run_def)
  show "small_history \<noteq> []"
    by (simp add: small_history_def number_payloads_def small_payloads_def)
qed

text \<open>
  C5: the terminal status of a run is true of its nodes: a run that succeeded has only
  succeeded nodes, each with a last attempt that succeeded without a timeout; a run that failed
  has a failed node.
\<close>

theorem run_outcome_sound:
  assumes "replayRun history = Inr s"
  shows "(rs_status s = RunSucceeded \<longrightarrow>
      (\<forall>nid nd. find_node s nid = Some nd \<longrightarrow> n_status nd = NodeSucceededStatus \<and>
         (\<exists>a. last_attempt nd = Some a \<and> a_status a = Succeeded \<and> a_timeout a = None))) \<and>
    (rs_status s = RunFailed \<longrightarrow> (\<exists>nd \<in> set (node_values s). n_status nd = NodeFailedStatus))"
proof (intro conjI impI allI)
  fix nid nd assume run: "rs_status s = RunSucceeded" and nd: "find_node s nid = Some nd"
  from replayRun_outcome_ok [OF assms] run find_node_in_values [OF nd]
  show st: "n_status nd = NodeSucceededStatus" by (auto simp: outcome_ok_def list_all_iff)
  from node_reachable_inv [OF lifecycle.P_replay_node [OF assms nd]] st
  obtain as a where as: "n_attempts nd = as @ [a]" "a_status a = Succeeded"
    by (cases "n_attempts nd" rule: rev_cases) (auto simp: node_view_def)
  moreover from timeouts.P_replay_node [OF assms nd] as have "a_timeout a = None"
    by (auto simp: timeout_ok_def split: option.splits)
  ultimately show "\<exists>a. last_attempt nd = Some a \<and> a_status a = Succeeded \<and> a_timeout a = None"
    by (simp add: last_attempt_def)
next
  assume "rs_status s = RunFailed"
  with replayRun_outcome_ok [OF assms] show "\<exists>nd \<in> set (node_values s). n_status nd = NodeFailedStatus"
    by (auto simp: outcome_ok_def list_ex_iff)
qed

theorem run_outcome_sound_witness:
  "\<exists>nd a. find_node small_state ''build'' = Some nd \<and> last_attempt nd = Some a \<and> a_status a = Succeeded"
proof -
  obtain nd where "find_node small_state ''build'' = Some nd" by (rule small_build)
  with run_outcome_sound [OF small_replay] small_facts show ?thesis
    by (auto simp: small_view_def)
qed

section \<open>Nodes\<close>

text \<open>
  C6: the reducer refines the lifecycle machine: an accepted event keeps every node, and moves
  its status and the statuses of its attempts along one transition of the machine or not at all;
  an event that names another node, or no node, leaves the node exactly as it is.
\<close>

theorem reducer_refines_lifecycle:
  assumes "applyRunEvent (Some s) e = Inr s'" and "find_node s nid = Some nd"
  shows "\<exists>nd'. find_node s' nid = Some nd' \<and>
    (node_view nd' = node_view nd \<or> node_step (node_view nd) (node_view nd')) \<and>
    (node_event (ev_payload e) \<noteq> Some nid \<longrightarrow> nd' = nd)"
proof -
  obtain nd' where nd': "find_node s' nid = Some nd'"
    by (rule applyRunEvent_find_node [OF assms])
  moreover from applyRunEvent_node_move [OF assms nd']
  have "node_view nd' = node_view nd \<or> node_step (node_view nd) (node_view nd')"
    by (simp add: node_move_def)
  moreover from apply_payload_frame [OF applyRunEvent_payload [OF assms(1)], of nid] assms(2) nd'
  have "node_event (ev_payload e) \<noteq> Some nid \<longrightarrow> nd' = nd" by auto
  ultimately show ?thesis by blast
qed

lemma durable_next_step:
  "\<exists>s'. applyRunEvent (Some durable_prefix) (durable_history ! 10) = Inr s'"
proof -
  have "drop 10 durable_history = durable_history ! 10 # drop 11 durable_history"
    by (simp add: durable_history_def number_payloads_def durable_payloads_def retry_payloads_def)
  moreover have "replayRun (take 10 durable_history @ drop 10 durable_history) = Inr durable_state"
    by (simp add: durable_replay)
  moreover have "take 10 durable_history \<noteq> []"
    by (simp add: durable_history_def number_payloads_def durable_payloads_def)
  ultimately show ?thesis
    by (auto simp: replayRun_append durable_prefix_replay result_simps)
qed

theorem reducer_refines_lifecycle_witness:
  "\<exists>s' nd nd'. applyRunEvent (Some durable_prefix) (durable_history ! 10) = Inr s' \<and>
     find_node durable_prefix ''build'' = Some nd \<and> find_node s' ''build'' = Some nd' \<and>
     (node_view nd' = node_view nd \<or> node_step (node_view nd) (node_view nd'))"
proof -
  obtain s' where s': "applyRunEvent (Some durable_prefix) (durable_history ! 10) = Inr s'"
    using durable_next_step by blast
  obtain nd a where nd: "find_node durable_prefix ''build'' = Some nd" "n_attempts nd = [a]"
    by (rule durable_prefix_build)
  from reducer_refines_lifecycle [OF s' nd(1)] s' nd(1) show ?thesis by blast
qed

text \<open>
  C7: in every accepted history at most the last attempt of a node is running or has succeeded,
  it runs only while the node runs, and a node that succeeded or failed did so with an attempt
  that did.
\<close>

theorem single_active_attempt:
  assumes "replayRun history = Inr s" and "find_node s nid = Some nd"
  shows "(\<forall>i < length (n_attempts nd). a_status (n_attempts nd ! i) \<in> {Running, Succeeded} \<longrightarrow>
      Suc i = length (n_attempts nd)) \<and>
    (\<forall>a \<in> set (n_attempts nd). a_status a = Running \<longrightarrow> n_status nd = NodeRunningStatus) \<and>
    (n_status nd = NodeSucceededStatus \<longrightarrow> last_status nd = Some Succeeded) \<and>
    (n_status nd = NodeFailedStatus \<longrightarrow> last_status nd = Some Failed)"
proof -
  from node_reachable_inv [OF lifecycle.P_replay_node [OF assms]]
  have inv: "lifecycle_inv (node_view nd)" .
  show ?thesis
  proof (cases "n_attempts nd" rule: rev_cases)
    case Nil
    with inv show ?thesis by (auto simp: node_view_def)
  next
    case (snoc as a)
    show ?thesis
    proof (intro conjI allI impI)
      fix i assume i: "i < length (n_attempts nd)"
        and st: "a_status (n_attempts nd ! i) \<in> {Running, Succeeded}"
      from inv snoc have no: "Running \<notin> set (map a_status as)" "Succeeded \<notin> set (map a_status as)"
        by (simp_all add: node_view_def)
      have "\<not> i < length as"
      proof
        assume "i < length as"
        then have "a_status (as ! i) \<in> set (map a_status as)" and "n_attempts nd ! i = as ! i"
          by (simp_all add: snoc nth_append)
        with st no show False by auto
      qed
      with i snoc show "Suc i = length (n_attempts nd)" by simp
    next
      show "\<forall>a \<in> set (n_attempts nd). a_status a = Running \<longrightarrow> n_status nd = NodeRunningStatus"
        using inv by (force simp: node_view_def)
    qed (use inv snoc in \<open>simp_all add: node_view_def last_status_def last_attempt_def\<close>)
  qed
qed

theorem single_active_attempt_witness:
  "\<exists>nd. find_node small_state ''build'' = Some nd \<and> last_status nd = Some Succeeded"
proof -
  obtain nd where "find_node small_state ''build'' = Some nd" "n_status nd = NodeSucceededStatus"
    by (rule small_build)
  with single_active_attempt [OF small_replay] show ?thesis by blast
qed

text \<open>
  A node that succeeded, failed or was cancelled keeps its status and the statuses of its
  attempts under every extension of the history.
\<close>

lemma terminal_node_final:
  assumes "replayRun history = Inr s" and "replayRun (history @ events) = Inr s'"
    and "find_node s nid = Some nd" and "terminal_node (n_status nd)"
  shows "\<exists>nd'. find_node s' nid = Some nd' \<and> n_status nd' = n_status nd \<and>
    map a_status (n_attempts nd') = map a_status (n_attempts nd)"
proof -
  from assms(1) have "history \<noteq> []" by auto
  with assms(1,2) have "apply_events s events = Inr s'" by (simp add: replayRun_append)
  from apply_events_frozen [OF this assms(3)] assms(4) show ?thesis
    by (auto simp: frozen_def node_view_def)
qed

section \<open>Attempts\<close>

text \<open>
  C8: attempts are numbered 1, 2, ... in the order in which they were scheduled.
\<close>

theorem attempts_numbered:
  assumes "replayRun history = Inr s" and "find_node s nid = Some nd" and "i < length (n_attempts nd)"
  shows "a_number (n_attempts nd ! i) = int i + 1"
  using numbering.P_replay_node [OF assms(1,2)] assms(3) by (simp add: numbered_def)

theorem attempts_numbered_witness:
  "\<exists>nd a b. find_node durable_state ''build'' = Some nd \<and> n_attempts nd = [a, b] \<and> a_number b = 2"
proof -
  obtain nd a b where nd: "find_node durable_state ''build'' = Some nd" "n_attempts nd = [a, b]"
    by (rule durable_build)
  with attempts_numbered [OF durable_replay nd(1), of 1] show ?thesis by auto
qed

text \<open>
  C9: history is kept: extending a history never drops an attempt, never overwrites a field of
  an attempt that is set (its failure, usage, plan, execution, checkpoint and orphan evidence),
  only appends to its identity and cleanup records, and leaves an attempt that succeeded, failed,
  was blocked or was cancelled unchanged.
\<close>

theorem attempt_evidence_kept:
  assumes "replayRun history = Inr s" and "replayRun (history @ events) = Inr s'"
    and "find_node s nid = Some nd" and "i < length (n_attempts nd)"
  shows "\<exists>nd'. find_node s' nid = Some nd' \<and> i < length (n_attempts nd') \<and>
    attempt_extends (n_attempts nd ! i) (n_attempts nd' ! i)"
proof -
  from assms(1) have "history \<noteq> []" by auto
  with assms(1,2) have "apply_events s events = Inr s'" by (simp add: replayRun_append)
  from apply_events_extend [OF this assms(3) evidence.P_replay [OF assms(1)]] assms(4) show ?thesis
    by (auto simp: attempts_extend_def)
qed

theorem attempt_evidence_kept_witness:
  "\<exists>nd nd' a. find_node durable_prefix ''build'' = Some nd \<and> n_attempts nd = [a] \<and>
     find_node durable_state ''build'' = Some nd' \<and> n_attempts nd' ! 0 = a"
proof -
  obtain nd a where nd: "find_node durable_prefix ''build'' = Some nd" "n_attempts nd = [a]"
    "a_status a = Failed" by (rule durable_prefix_build)
  have "replayRun (take 10 durable_history @ drop 10 durable_history) = Inr durable_state"
    by (simp add: durable_replay)
  from attempt_evidence_kept [OF durable_prefix_replay this nd(1), of 0] nd show ?thesis
    by (auto simp: attempt_extends_def settled_attempt_def)
qed

text \<open>
  C10: a timeout is honoured: an attempt whose timeout was requested never succeeds, blocks or is
  cancelled; it fails only as an exhausted budget and only after its cancellation was completed,
  and a late result is recorded only after that completion.
\<close>

theorem timeout_honoured:
  assumes "replayRun history = Inr s" and "find_node s nid = Some nd"
    and "a \<in> set (n_attempts nd)" and "a_timeout a = Some t"
  shows "a_status a \<in> {Running, Failed, Orphaned} \<and>
    (a_status a = Failed \<longrightarrow> to_cancellation t \<noteq> None \<and>
       map_option f_category (a_failure a) = Some BudgetExhausted) \<and>
    (to_lateStatus t \<noteq> None \<longrightarrow> to_cancellation t \<noteq> None)"
  using timeouts.P_replay_node [OF assms(1,2)] assms(3,4) by (fastforce simp: timeout_ok_def)

theorem timeout_honoured_witness:
  "\<exists>nd a t. find_node durable_prefix ''build'' = Some nd \<and> n_attempts nd = [a] \<and>
     a_timeout a = Some t \<and> to_cancellation t \<noteq> None"
proof -
  obtain nd a where nd: "find_node durable_prefix ''build'' = Some nd" "n_attempts nd = [a]"
    "a_status a = Failed" "a_timeout a \<noteq> None" by (rule durable_prefix_build)
  then obtain t where "a_timeout a = Some t" by auto
  with timeout_honoured [OF durable_prefix_replay nd(1), of a t] nd show ?thesis by auto
qed

text \<open>
  C11: with a durable runtime configured, an attempt that ran has the plan it was prepared with,
  made for this run with a positive fencing generation, the workspace checkpoint taken before the
  start, and the authorized execution reference that agrees with the plan in every shared field.
\<close>

theorem started_attempts_authorized:
  assumes "replayRun history = Inr s" and "find_node s nid = Some nd" and "a \<in> set (n_attempts nd)"
    and "rs_runtimeDescriptor s \<noteq> None"
    and "a_status a \<in> {Running, Succeeded, Failed, Blocked, Cancelled}"
  shows "\<exists>plan x. a_executionPlan a = Some plan \<and> a_execution a = Some x \<and> plan_matches plan x \<and>
    ex_runId plan = rs_runId s \<and> 1 \<le> ex_generation plan \<and> a_workspaceCheckpoint a \<noteq> None"
proof -
  from starts.P_replay_node [OF assms(1,2)] assms(3) have "start_ok s a" by blast
  with assms(4,5) show ?thesis by (auto simp: start_ok_def prepared_ok_def)
qed

theorem started_attempts_authorized_witness:
  "\<exists>nd a. find_node durable_prefix ''build'' = Some nd \<and> n_attempts nd = [a] \<and> a_execution a \<noteq> None"
proof -
  obtain nd a where nd: "find_node durable_prefix ''build'' = Some nd" "n_attempts nd = [a]"
    "a_status a = Failed" by (rule durable_prefix_build)
  moreover have "rs_runtimeDescriptor durable_prefix \<noteq> None"
    using durable_prefix_facts by (simp add: durable_view_def)
  ultimately show ?thesis
    using started_attempts_authorized [OF durable_prefix_replay nd(1), of a] by auto
qed

end
