(* ===== verification/Workflow_Types.thy ===== *)
theory Workflow_Types
  imports Json_Canonical
begin

text \<open>
  The authored and the normalized workflow (\<open>core/src/types.ts\<close>). A JavaScript object used as a
  dictionary is the list of its entries in the order of its own keys; optional properties are
  options.
\<close>

datatype node_kind = AgentNode | CommandNode | GateNode | VerifierNode

datatype node_mutation = ReadonlyMutation | IsolatedMutation

record attempt_policy_document =
  ap_maxAttempts :: "int option"
  ap_maxDuration :: "string option"

record command_document =
  cd_argv :: "string list"
  cd_cwd :: "string option"
  cd_maxDuration :: string
  cd_maxOutputBytes :: "int option"

record command_definition =
  cm_argv :: "string list"
  cm_cwd :: string
  cm_maxDurationMs :: int
  cm_maxOutputBytes :: int

record workflow_node_document =
  wn_kind :: node_kind
  wn_needs :: "string list option"
  wn_role :: "string option"
  wn_output :: string
  wn_attemptPolicy :: "attempt_policy_document option"
  wn_mutation :: "node_mutation option"
  wn_command :: "command_document option"

record workflow_metadata =
  wm_id :: string
  wm_version :: string

record workflow_document =
  wd_apiVersion :: string
  wd_kind :: string
  wd_metadata :: workflow_metadata
  wd_inputs :: "(string \<times> string) list"
  wd_defaultAttemptBudget :: "attempt_policy_document option"
  wd_nodes :: "(string \<times> workflow_node_document) list"

record attempt_budget =
  ab_maxAttempts :: int
  ab_maxDurationMs :: "int option"

record resolved_schema =
  sc_ref :: string
  sc_schema :: js

record workflow_input = resolved_schema +
  in_id :: string

record workflow_node =
  nd_id :: string
  nd_kind :: node_kind
  nd_needs :: "string list"
  nd_role :: "string option"
  nd_output :: resolved_schema
  nd_attemptBudget :: attempt_budget
  nd_mutation :: "node_mutation option"
  nd_command :: "command_definition option"

record workflow_task =
  tk_objective :: string
  tk_acceptanceCriteria :: "string list"

record workflow_definition =
  wf_apiVersion :: string
  wf_kind :: string
  wf_metadata :: workflow_metadata
  wf_sourcePath :: string
  wf_inputs :: "(string \<times> workflow_input) list"
  wf_defaultAttemptBudget :: attempt_budget
  wf_nodeOrder :: "string list"
  wf_nodes :: "(string \<times> workflow_node) list"
  wf_task :: "workflow_task option"

end
