(* ===== verification/Workflow_Graph.thy ===== *)
theory Workflow_Graph
  imports Workflow_Types
begin

text \<open>
  \<open>assertSemanticValidity\<close> of \<open>core/src/workflow.ts\<close>: the rules on the fields of each node, and
  the depth-first search for dependency cycles. The sets \<open>visiting\<close> and \<open>visited\<close> are lists in
  insertion order; the recursion is bounded by fuel, and a bound above the number of nodes is
  shown to be enough.
\<close>

section \<open>Rules on the fields of a node\<close>

datatype semantic_issue =
    RoleRequired string
  | RoleOnlyForAgents string
  | MutationOnlyForAgents string
  | CommandOnlyForCommands string
  | CwdOutsideWorkspace string
  | UnknownDependency string string
  | SelfDependency string
  | DependencyCycle "string list"

text \<open>\<open>isAbsolute\<close> on POSIX, and \<open>split(/[\\/]/)\<close>.\<close>

definition isAbsolute :: "string \<Rightarrow> bool" where
  "isAbsolute p \<longleftrightarrow> p \<noteq> [] \<and> hd p = CHR ''/''"

fun split_on :: "(char \<Rightarrow> bool) \<Rightarrow> string \<Rightarrow> string list" where
  "split_on P [] = [[]]"
| "split_on P (c # cs) =
     (if P c then [] # split_on P cs
      else (case split_on P cs of [] \<Rightarrow> [[c]] | s # ss \<Rightarrow> (c # s) # ss))"

definition is_separator :: "char \<Rightarrow> bool" where
  "is_separator c \<longleftrightarrow> c = CHR ''/'' \<or> c = CHR 0x5C"

definition cwd_escapes :: "string \<Rightarrow> bool" where
  "cwd_escapes cwd \<longleftrightarrow> isAbsolute cwd \<or> ''..'' \<in> set (split_on is_separator cwd)"

definition needs_of :: "workflow_node_document \<Rightarrow> string list" where
  "needs_of nd = case_option [] id (wn_needs nd)"

definition has_node :: "workflow_document \<Rightarrow> string \<Rightarrow> bool" where
  "has_node doc nid \<longleftrightarrow> map_of (wd_nodes doc) nid \<noteq> None"

definition dependency_issues :: "workflow_document \<Rightarrow> string \<Rightarrow> string \<Rightarrow> semantic_issue list" where
  "dependency_issues doc nid dep =
     (if has_node doc dep then [] else [UnknownDependency nid dep]) @
     (if dep = nid then [SelfDependency nid] else [])"

definition node_issues :: "workflow_document \<Rightarrow> string \<Rightarrow> workflow_node_document \<Rightarrow> semantic_issue list" where
  "node_issues doc nid nd =
     (if wn_kind nd = AgentNode \<and> wn_role nd = None then [RoleRequired nid] else []) @
     (if wn_kind nd \<noteq> AgentNode \<and> wn_role nd \<noteq> None then [RoleOnlyForAgents nid] else []) @
     (if wn_mutation nd \<noteq> None \<and> wn_kind nd \<noteq> AgentNode then [MutationOnlyForAgents nid] else []) @
     (if wn_command nd \<noteq> None \<and> wn_kind nd \<noteq> CommandNode then [CommandOnlyForCommands nid] else []) @
     (case wn_command nd of
        None \<Rightarrow> []
      | Some c \<Rightarrow> (case cd_cwd c of
                    None \<Rightarrow> []
                  | Some cwd \<Rightarrow> if cwd_escapes cwd then [CwdOutsideWorkspace nid] else [])) @
     concat (map (dependency_issues doc nid) (needs_of nd))"

section \<open>The search\<close>

record dfs_state =
  df_visiting :: "string list"
  df_visited :: "string list"
  df_issues :: "semantic_issue list"

definition set_add :: "'a \<Rightarrow> 'a list \<Rightarrow> 'a list" where
  "set_add x xs = (if x \<in> set xs then xs else xs @ [x])"

definition set_delete :: "'a \<Rightarrow> 'a list \<Rightarrow> 'a list" where
  "set_delete x xs = filter (\<lambda>y. y \<noteq> x) xs"

definition slice_from :: "'a \<Rightarrow> 'a list \<Rightarrow> 'a list" where
  "slice_from x path = dropWhile (\<lambda>y. y \<noteq> x) path"

definition node_needs :: "workflow_document \<Rightarrow> string \<Rightarrow> string list" where
  "node_needs doc nid = case_option [] needs_of (map_of (wd_nodes doc) nid)"

text \<open>\<open>visit\<close>: the left result is an exhausted fuel.\<close>

fun visit :: "workflow_document \<Rightarrow> nat \<Rightarrow> string \<Rightarrow> string list \<Rightarrow> dfs_state \<Rightarrow> unit + dfs_state" where
  "visit doc 0 nid path st = Inl ()"
| "visit doc (Suc n) nid path st =
     (if nid \<in> set (df_visiting st) then
        Inr (st\<lparr>df_issues := df_issues st @ [DependencyCycle (slice_from nid path @ [nid])]\<rparr>)
      else if nid \<in> set (df_visited st) then Inr st
      else
        bindE
          (foldE
             (\<lambda>st dep. if has_node doc dep then visit doc n dep (path @ [nid]) st else Inr st)
             (st\<lparr>df_visiting := set_add nid (df_visiting st)\<rparr>)
             (node_needs doc nid))
          (\<lambda>st'. Inr (st'\<lparr>df_visiting := set_delete nid (df_visiting st'),
                           df_visited := set_add nid (df_visited st')\<rparr>)))"

definition visit_all :: "workflow_document \<Rightarrow> nat \<Rightarrow> dfs_state \<Rightarrow> unit + dfs_state" where
  "visit_all doc n st = foldE (\<lambda>st nid. visit doc n nid [] st) st (map fst (wd_nodes doc))"

definition dfs_fuel :: "workflow_document \<Rightarrow> nat" where
  "dfs_fuel doc = Suc (length (wd_nodes doc))"

text \<open>\<open>[...new Set(issues)]\<close> keeps the first occurrence of each.\<close>

definition unique_first :: "'a list \<Rightarrow> 'a list" where
  "unique_first xs = foldl (\<lambda>ys x. set_add x ys) [] xs"

definition semantic_issues :: "workflow_document \<Rightarrow> unit + semantic_issue list" where
  "semantic_issues doc =
     bindE
       (visit_all doc (dfs_fuel doc)
          \<lparr>df_visiting = [], df_visited = [],
           df_issues = concat (map (\<lambda>(nid, nd). node_issues doc nid nd) (wd_nodes doc))\<rparr>)
       (\<lambda>st. Inr (df_issues st))"

datatype workflow_error =
    WorkflowIssues "semantic_issue list"
  | SearchExhausted
  | InvalidDocument
  | InvalidDuration string
  | DurationOverflow
  | RemoteSchema string
  | SchemaNotLoaded string
  | InvalidSchema string
  | CorruptDefinition

definition assertSemanticValidity :: "workflow_document \<Rightarrow> workflow_error + unit" where
  "assertSemanticValidity doc =
     (case semantic_issues doc of
        Inl _ \<Rightarrow> Inl SearchExhausted
      | Inr issues \<Rightarrow> check (issues = []) (WorkflowIssues (unique_first issues)))"

section \<open>The fuel is enough\<close>

lemma set_add_set [simp]: "set (set_add x xs) = insert x (set xs)"
  by (auto simp: set_add_def)

lemma set_delete_add [simp]: "x \<notin> set xs \<Longrightarrow> set_delete x (set_add x xs) = xs"
  by (auto simp: set_delete_def set_add_def filter_id_conv)

lemma has_node_iff: "has_node doc nid \<longleftrightarrow> nid \<in> fst ` set (wd_nodes doc)"
  by (simp add: has_node_def map_of_eq_None_iff)

text \<open>What one call and the loop over dependencies have in common.\<close>

lemma foldE_keeps:
  assumes "\<And>s x. P s \<Longrightarrow> x \<in> set xs \<Longrightarrow> \<exists>s'. f s x = Inr s' \<and> P s'"
  shows "P s \<Longrightarrow> \<exists>s'. foldE f s xs = Inr s' \<and> P s'"
  using assms
proof (induction xs arbitrary: s)
  case Nil
  then show ?case by simp
next
  case (Cons x xs)
  then obtain s1 where "f s x = Inr s1" "P s1" by fastforce
  with Cons show ?case by simp
qed

lemma visit_total:
  assumes "has_node doc nid" and "distinct (df_visiting st)"
    and "set (df_visiting st) \<subseteq> fst ` set (wd_nodes doc)"
    and "length (wd_nodes doc) < n + length (df_visiting st)"
  shows "\<exists>st'. visit doc n nid path st = Inr st' \<and> df_visiting st' = df_visiting st"
  using assms
proof (induction n arbitrary: nid path st)
  case 0
  have "length (df_visiting st) = card (set (df_visiting st))"
    using 0 by (simp add: distinct_card)
  also have "\<dots> \<le> card (fst ` set (wd_nodes doc))"
    using 0 by (intro card_mono) auto
  also have "\<dots> \<le> length (wd_nodes doc)"
    using card_length [of "map fst (wd_nodes doc)"] by simp
  finally show ?case using 0 by simp
next
  case (Suc n)
  show ?case
  proof (cases "nid \<in> set (df_visiting st) \<or> nid \<in> set (df_visited st)")
    case True
    then show ?thesis by auto
  next
    case False
    let ?v = "set_add nid (df_visiting st)"
    have v: "distinct ?v" "set ?v \<subseteq> fst ` set (wd_nodes doc)"
      "length (wd_nodes doc) < n + length ?v"
      using Suc.prems False by (auto simp: set_add_def has_node_iff)
    have "\<exists>st'. foldE (\<lambda>st dep. if has_node doc dep then visit doc n dep (path @ [nid]) st else Inr st)
        (st\<lparr>df_visiting := ?v\<rparr>) (node_needs doc nid) = Inr st' \<and> df_visiting st' = ?v"
    proof (rule foldE_keeps)
      fix s :: dfs_state and dep assume "df_visiting s = ?v"
      then show "\<exists>s'. (if has_node doc dep then visit doc n dep (path @ [nid]) s else Inr s) = Inr s' \<and>
          df_visiting s' = ?v"
        using Suc.IH [of dep s "path @ [nid]"] v by auto
    qed simp
    with False show ?thesis by auto
  qed
qed

lemma visit_all_total:
  "\<exists>st'. visit_all doc (dfs_fuel doc) \<lparr>df_visiting = [], df_visited = vs, df_issues = is\<rparr> = Inr st'"
proof -
  have "\<exists>st'. visit_all doc (dfs_fuel doc) \<lparr>df_visiting = [], df_visited = vs, df_issues = is\<rparr> = Inr st' \<and>
      df_visiting st' = []"
    unfolding visit_all_def
  proof (rule foldE_keeps)
    fix st :: dfs_state and nid assume "df_visiting st = []" "nid \<in> set (map fst (wd_nodes doc))"
    then show "\<exists>s'. visit doc (dfs_fuel doc) nid [] st = Inr s' \<and> df_visiting s' = []"
      using visit_total [of doc nid st "dfs_fuel doc" "[]"] by (auto simp: has_node_iff dfs_fuel_def)
  qed simp
  then show ?thesis by blast
qed

end
