(* ===== verification/Workflow_Search.thy ===== *)
theory Workflow_Search
  imports Workflow_Graph
begin

text \<open>
  The depth-first search is sound and complete: every reported cycle is a cycle of the
  dependency graph, and when it reports none the order in which it finished the nodes is a
  topological order, so the graph is acyclic.
\<close>

section \<open>The graph\<close>

definition dependency_edges :: "workflow_document \<Rightarrow> (string \<times> string) set" where
  "dependency_edges doc = {(x, y). y \<in> set (node_needs doc x) \<and> has_node doc y}"

definition is_cycle :: "workflow_document \<Rightarrow> string list \<Rightarrow> bool" where
  "is_cycle doc c \<longleftrightarrow> 2 \<le> length c \<and> hd c = last c \<and>
     successively (\<lambda>x y. (x, y) \<in> dependency_edges doc) c"

text \<open>Every element comes after what it depends on.\<close>

definition topological :: "workflow_document \<Rightarrow> string list \<Rightarrow> bool" where
  "topological doc xs \<longleftrightarrow>
     (\<forall>i < length xs. \<forall>y. (xs ! i, y) \<in> dependency_edges doc \<longrightarrow> y \<in> set (take i xs))"

lemma topological_Nil [simp]: "topological doc []"
  by (simp add: topological_def)

lemma topological_set_add:
  assumes "topological doc xs" and "\<And>y. (x, y) \<in> dependency_edges doc \<Longrightarrow> y \<in> set xs"
  shows "topological doc (set_add x xs)"
  using assms by (auto simp: topological_def set_add_def nth_append less_Suc_eq)

lemma successively_trancl:
  "successively (\<lambda>x y. (x, y) \<in> r) c \<Longrightarrow> 2 \<le> length c \<Longrightarrow> (hd c, last c) \<in> r\<^sup>+"
proof (induction c rule: induct_list012)
  case (3 x y zs)
  then show ?case by (cases zs) (auto intro: trancl_into_trancl2)
qed auto

lemma is_cycle_trancl: "is_cycle doc c \<Longrightarrow> (hd c, hd c) \<in> (dependency_edges doc)\<^sup>+"
  using successively_trancl [of "dependency_edges doc" c] by (auto simp: is_cycle_def)

lemma slice_from_cycle:
  assumes "successively (\<lambda>x y. (x, y) \<in> dependency_edges doc) (path @ [nid])" and "nid \<in> set path"
  shows "is_cycle doc (slice_from nid path @ [nid])"
proof -
  from assms(2) obtain ys zs where path: "path = ys @ nid # zs" and "nid \<notin> set ys"
    by (meson split_list_first)
  then have slice: "slice_from nid path = nid # zs"
    by (induction ys arbitrary: path) (auto simp: slice_from_def)
  from assms(1) have "successively (\<lambda>x y. (x, y) \<in> dependency_edges doc) (ys @ (nid # zs @ [nid]))"
    by (simp add: path)
  then have "successively (\<lambda>x y. (x, y) \<in> dependency_edges doc) (nid # zs @ [nid])"
    by (rule successively_append_iff [THEN iffD1, THEN conjunct2, THEN conjunct1])
  then show ?thesis by (simp add: slice is_cycle_def)
qed

section \<open>One call\<close>

definition cycle_issue :: "workflow_document \<Rightarrow> semantic_issue \<Rightarrow> bool" where
  "cycle_issue doc i \<longleftrightarrow> (\<exists>c. i = DependencyCycle c \<and> is_cycle doc c)"

text \<open>
  \<open>search_step doc ds st st'\<close>: from \<open>st\<close> to \<open>st'\<close> the search went through the nodes \<open>ds\<close>. It
  reported only cycles, and if it reported none it finished all of them in topological order.
\<close>

definition search_step :: "workflow_document \<Rightarrow> string set \<Rightarrow> dfs_state \<Rightarrow> dfs_state \<Rightarrow> bool" where
  "search_step doc ds st st' \<longleftrightarrow>
     df_visiting st' = df_visiting st \<and> set (df_visited st) \<subseteq> set (df_visited st') \<and>
     (\<exists>more. df_issues st' = df_issues st @ more \<and> (\<forall>i \<in> set more. cycle_issue doc i) \<and>
        (more = [] \<longrightarrow> topological doc (df_visited st) \<longrightarrow>
           topological doc (df_visited st') \<and> ds \<subseteq> set (df_visited st')))"

lemma search_step_refl [simp]: "search_step doc {} st st"
  by (simp add: search_step_def)

lemma search_step_skip: "nid \<in> set (df_visited st) \<Longrightarrow> search_step doc {nid} st st"
  by (simp add: search_step_def)

lemma search_step_trans:
  assumes "search_step doc D s t" and "search_step doc E t u"
  shows "search_step doc (D \<union> E) s u"
proof -
  from assms obtain m1 m2 where
    m1: "df_issues t = df_issues s @ m1" "\<forall>i \<in> set m1. cycle_issue doc i"
      "m1 = [] \<longrightarrow> topological doc (df_visited s) \<longrightarrow>
        topological doc (df_visited t) \<and> D \<subseteq> set (df_visited t)"
    and m2: "df_issues u = df_issues t @ m2" "\<forall>i \<in> set m2. cycle_issue doc i"
      "m2 = [] \<longrightarrow> topological doc (df_visited t) \<longrightarrow>
        topological doc (df_visited u) \<and> E \<subseteq> set (df_visited u)"
    and sub: "set (df_visited s) \<subseteq> set (df_visited t)" "set (df_visited t) \<subseteq> set (df_visited u)"
      "df_visiting u = df_visiting s"
    unfolding search_step_def by auto
  have "df_issues u = df_issues s @ (m1 @ m2)" "\<forall>i \<in> set (m1 @ m2). cycle_issue doc i"
    using m1 m2 by auto
  moreover have "m1 @ m2 = [] \<longrightarrow> topological doc (df_visited s) \<longrightarrow>
      topological doc (df_visited u) \<and> D \<union> E \<subseteq> set (df_visited u)"
    using m1(3) m2(3) sub by auto
  ultimately show ?thesis
    using sub unfolding search_step_def by blast
qed

lemma search_step_finish:
  assumes "search_step doc {y. (nid, y) \<in> dependency_edges doc}
      (st\<lparr>df_visiting := set_add nid (df_visiting st)\<rparr>) st'"
    and "nid \<notin> set (df_visiting st)"
  shows "search_step doc {nid} st
    (st'\<lparr>df_visiting := set_delete nid (df_visiting st'), df_visited := set_add nid (df_visited st')\<rparr>)"
  using assms topological_set_add [of doc "df_visited st'" nid]
  by (auto simp: search_step_def)

lemma visit_search_step:
  assumes "visit doc n nid path st = Inr st'"
    and "set (df_visiting st) = set path"
    and "successively (\<lambda>x y. (x, y) \<in> dependency_edges doc) (path @ [nid])"
  shows "search_step doc {nid} st st'"
  using assms
proof (induction n arbitrary: nid path st st')
  case 0
  then show ?case by simp
next
  case (Suc n)
  show ?case
  proof (cases "nid \<in> set (df_visiting st) \<or> nid \<in> set (df_visited st)")
    case True
    with Suc.prems slice_from_cycle [of doc path nid] show ?thesis
      by (auto simp: search_step_def cycle_issue_def split: if_splits)
  next
    case False
    let ?st = "st\<lparr>df_visiting := set_add nid (df_visiting st)\<rparr>"
    let ?f = "\<lambda>st dep. if has_node doc dep then visit doc n dep (path @ [nid]) st else Inr st"
    from Suc.prems(1) False obtain t where t: "foldE ?f ?st (node_needs doc nid) = Inr t"
      and st': "st' = t\<lparr>df_visiting := set_delete nid (df_visiting t), df_visited := set_add nid (df_visited t)\<rparr>"
      by (auto simp: result_simps)
    have "search_step doc {y \<in> set (node_needs doc nid). has_node doc y} ?st t"
    proof (rule foldE_processed [OF t])
      fix ys x s1 s2
      assume x: "x \<in> set (node_needs doc nid)"
        and s1: "search_step doc {y \<in> set ys. has_node doc y} ?st s1"
        and s2: "?f s1 x = Inr s2"
      show "search_step doc {y \<in> set (ys @ [x]). has_node doc y} ?st s2"
      proof (cases "has_node doc x")
        case known: True
        have "search_step doc {x} s1 s2"
        proof (rule Suc.IH)
          show "visit doc n x (path @ [nid]) s1 = Inr s2" using s2 known by simp
          show "set (df_visiting s1) = set (path @ [nid])"
            using s1 Suc.prems(2) by (auto simp: search_step_def)
          show "successively (\<lambda>x y. (x, y) \<in> dependency_edges doc) ((path @ [nid]) @ [x])"
            using Suc.prems(3) x known
            by (subst successively_append_iff) (simp add: dependency_edges_def)
        qed
        moreover have "{y \<in> set (ys @ [x]). has_node doc y} = {y \<in> set ys. has_node doc y} \<union> {x}"
          using known by auto
        ultimately show ?thesis using search_step_trans [OF s1] by metis
      next
        case False
        then have "{y \<in> set (ys @ [x]). has_node doc y} = {y \<in> set ys. has_node doc y}" by auto
        with s1 s2 False show ?thesis by simp
      qed
    qed simp
    moreover have "{y \<in> set (node_needs doc nid). has_node doc y} = {y. (nid, y) \<in> dependency_edges doc}"
      by (simp add: dependency_edges_def)
    ultimately show ?thesis
      using False by (simp add: st' search_step_finish)
  qed
qed

lemma visit_all_search_step:
  assumes "visit_all doc n st = Inr st'" and "df_visiting st = []"
  shows "search_step doc (fst ` set (wd_nodes doc)) st st'"
proof -
  have "search_step doc (set (map fst (wd_nodes doc))) st st'"
  proof (rule foldE_processed [OF assms(1) [unfolded visit_all_def]])
    fix ys x s1 s2
    assume s1: "search_step doc (set ys) st s1" and s2: "visit doc n x [] s1 = Inr s2"
    from s1 assms(2) have "search_step doc {x} s1 s2"
      by (intro visit_search_step [OF s2]) (auto simp: search_step_def)
    from search_step_trans [OF s1 this] show "search_step doc (set (ys @ [x])) st s2" by simp
  qed simp
  then show ?thesis by simp
qed

section \<open>The verdict\<close>

lemma node_needs_in: "y \<in> set (node_needs doc x) \<Longrightarrow> x \<in> fst ` set (wd_nodes doc)"
  by (cases "map_of (wd_nodes doc) x")
    (force simp: node_needs_def dest: map_of_SomeD)+

lemma topological_acyclic:
  assumes "topological doc xs" and "fst ` set (wd_nodes doc) \<subseteq> set xs"
  shows "acyclic (dependency_edges doc)"
proof -
  define idx where "idx x = (LEAST i. i < length xs \<and> xs ! i = x)" for x
  have "idx y < idx x" if e: "(x, y) \<in> dependency_edges doc" for x y
  proof -
    from e have "y \<in> set (node_needs doc x)" by (simp add: dependency_edges_def)
    then have "x \<in> fst ` set (wd_nodes doc)" by (rule node_needs_in)
    with assms(2) have "x \<in> set xs" by blast
    then obtain i where "i < length xs \<and> xs ! i = x" unfolding in_set_conv_nth by blast
    then have x: "idx x < length xs \<and> xs ! idx x = x" unfolding idx_def by (rule LeastI)
    with assms(1) e obtain j where j: "j < idx x" "xs ! j = y"
      by (fastforce simp: topological_def in_set_conv_nth)
    with x have "idx y \<le> j" unfolding idx_def by (intro Least_le) auto
    with j show ?thesis by simp
  qed
  then have "(dependency_edges doc)\<inverse> \<subseteq> measure idx" by auto
  from wf_acyclic [OF wf_subset [OF wf_measure this]] show ?thesis by simp
qed

lemma semantic_issues_cases:
  obtains more where "semantic_issues doc =
      Inr (concat (map (\<lambda>(nid, nd). node_issues doc nid nd) (wd_nodes doc)) @ more)"
    and "\<forall>i \<in> set more. cycle_issue doc i"
    and "more = [] \<longleftrightarrow> acyclic (dependency_edges doc)"
proof -
  let ?is = "concat (map (\<lambda>(nid, nd). node_issues doc nid nd) (wd_nodes doc))"
  let ?st = "\<lparr>df_visiting = [], df_visited = [], df_issues = ?is\<rparr>"
  obtain st' where st': "visit_all doc (dfs_fuel doc) ?st = Inr st'"
    using visit_all_total by blast
  from visit_all_search_step [OF this] obtain more where
    more: "df_issues st' = ?is @ more" "\<forall>i \<in> set more. cycle_issue doc i"
    and ok: "more = [] \<longrightarrow> topological doc (df_visited st') \<and>
      fst ` set (wd_nodes doc) \<subseteq> set (df_visited st')"
    by (auto simp: search_step_def)
  from ok have "more = [] \<Longrightarrow> acyclic (dependency_edges doc)"
    using topological_acyclic by blast
  moreover have "more = []" if "acyclic (dependency_edges doc)"
  proof (rule ccontr)
    assume "more \<noteq> []"
    with more(2) obtain c where "is_cycle doc c"
      by (cases more) (auto simp: cycle_issue_def)
    from is_cycle_trancl [OF this] that show False by (auto simp: acyclic_def)
  qed
  ultimately have verdict: "more = [] \<longleftrightarrow> acyclic (dependency_edges doc)" by blast
  have "semantic_issues doc = Inr (?is @ more)"
    unfolding semantic_issues_def st' using more(1) by simp
  from this more(2) verdict show thesis by (rule that)
qed

lemma assertSemanticValidity_iff:
  "assertSemanticValidity doc = Inr () \<longleftrightarrow>
     (\<forall>(nid, nd) \<in> set (wd_nodes doc). node_issues doc nid nd = []) \<and> acyclic (dependency_edges doc)"
proof -
  let ?is = "concat (map (\<lambda>(nid, nd). node_issues doc nid nd) (wd_nodes doc))"
  obtain more where issues: "semantic_issues doc = Inr (?is @ more)"
    and more: "more = [] \<longleftrightarrow> acyclic (dependency_edges doc)"
    by (rule semantic_issues_cases)
  have "assertSemanticValidity doc = Inr () \<longleftrightarrow> ?is @ more = []"
    unfolding assertSemanticValidity_def issues sum.case by (rule check_Inr_iff)
  also have "\<dots> \<longleftrightarrow> ?is = [] \<and> acyclic (dependency_edges doc)"
    using more by simp
  also have "?is = [] \<longleftrightarrow> (\<forall>(nid, nd) \<in> set (wd_nodes doc). node_issues doc nid nd = [])"
    by (simp add: case_prod_unfold)
  finally show ?thesis .
qed

end
