(* ===== verification/Workflow_Duration.thy ===== *)
theory Workflow_Duration
  imports Workflow_Graph
begin

text \<open>
  Durations and attempt budgets of \<open>core/src/workflow.ts\<close>. The number of a duration is read as
  an integer: the code reads a double, which differs only beyond the range it accepts.
\<close>

definition duration_multiplier :: "string \<Rightarrow> int option" where
  "duration_multiplier u = map_of [(''ms'', 1), (''s'', 1000), (''m'', 60000), (''h'', 3600000)] u"

definition MAX_TIMER :: int where
  "MAX_TIMER = 2147483647"

text \<open>\<open>durationToMilliseconds\<close> on a present duration: the pattern \<open>/^(\d+)(ms|s|m|h)$/\<close>.\<close>

definition duration_ms :: "string \<Rightarrow> workflow_error + int" where
  "duration_ms d =
     (let digits = takeWhile is_digit d; unit = dropWhile is_digit d in
      case duration_multiplier unit of
        None \<Rightarrow> Inl (InvalidDuration d)
      | Some m \<Rightarrow>
          if digits = [] then Inl (InvalidDuration d)
          else
            let ms = int (digits_value digits) * m in
            if \<not> is_safe_integer ms \<or> MAX_TIMER < ms then Inl DurationOverflow else Inr ms)"

definition durationToMilliseconds :: "string option \<Rightarrow> workflow_error + int option" where
  "durationToMilliseconds d =
     (case d of None \<Rightarrow> Inr None | Some s \<Rightarrow> bindE (duration_ms s) (\<lambda>ms. Inr (Some ms)))"

definition normalizeBudget ::
    "attempt_policy_document option \<Rightarrow> attempt_budget option \<Rightarrow> workflow_error + attempt_budget" where
  "normalizeBudget policy fallback =
     (let attempts =
        (case Option.bind policy ap_maxAttempts of
           Some n \<Rightarrow> n
         | None \<Rightarrow> (case fallback of Some b \<Rightarrow> ab_maxAttempts b | None \<Rightarrow> 1))
      in bindE
        (case Option.bind policy ap_maxDuration of
           None \<Rightarrow> Inr (Option.bind fallback ab_maxDurationMs)
         | Some d \<Rightarrow> durationToMilliseconds (Some d))
        (\<lambda>ms. Inr \<lparr>ab_maxAttempts = attempts, ab_maxDurationMs = ms\<rparr>))"

section \<open>Durations\<close>

lemma duration_ms_iff:
  "duration_ms d = Inr ms \<longleftrightarrow>
     (\<exists>m. duration_multiplier (dropWhile is_digit d) = Some m \<and> takeWhile is_digit d \<noteq> [] \<and>
        ms = int (digits_value (takeWhile is_digit d)) * m \<and> ms \<le> MAX_TIMER)"
  by (auto simp: duration_ms_def Let_def is_safe_integer_def MAX_SAFE_INTEGER_def MAX_TIMER_def
      duration_multiplier_def split: option.splits if_splits)

lemma duration_ms_milliseconds:
  assumes "0 \<le> n" and "n \<le> MAX_TIMER"
  shows "duration_ms (int_string n @ ''ms'') = Inr n"
proof -
  have digits: "list_all is_digit (nat_digits (nat n))" "nat_digits (nat n) \<noteq> []"
    using nat_digits_digits by auto
  have "takeWhile is_digit (nat_digits (nat n) @ ''ms'') = nat_digits (nat n)"
    "dropWhile is_digit (nat_digits (nat n) @ ''ms'') = ''ms''"
    using digits by (simp_all add: list_all_iff takeWhile_append dropWhile_append is_digit_def)
  with assms digits show ?thesis
    by (simp add: int_string_def duration_ms_iff duration_multiplier_def)
qed

lemma duration_ms_bounds: "duration_ms d = Inr ms \<Longrightarrow> 0 \<le> ms \<and> ms \<le> MAX_TIMER"
  by (auto simp: duration_ms_iff duration_multiplier_def split: if_splits)

end
