(* ===== verification/Workflow_Normalize.thy ===== *)
theory Workflow_Normalize
  imports Workflow_Search Workflow_Duration
begin

text \<open>
  \<open>normalizeWorkflow\<close> (\<open>core/src/workflow.ts\<close>) and \<open>assertWorkflowDefinition\<close>
  (\<open>core/src/definition.ts\<close>). Parameters: the working directory, the schema loader, whether AJV
  compiles a schema, and the YAML parser. The loads run in the order of the entries; their
  cache and their concurrency are not visible for a loader that is a function.
\<close>

section \<open>Paths\<close>

definition path_segments :: "string \<Rightarrow> string list" where
  "path_segments p = filter (\<lambda>s. s \<noteq> []) (split_on (\<lambda>c. c = CHR ''/'') p)"

definition normal_segments :: "string list \<Rightarrow> string list" where
  "normal_segments ss =
     foldl (\<lambda>acc s. if s = ''.'' then acc else if s = ''..'' then butlast acc else acc @ [s]) [] ss"

definition render_path :: "string list \<Rightarrow> string" where
  "render_path ss = (if ss = [] then ''/'' else concat (map (\<lambda>s. CHR ''/'' # s) ss))"

text \<open>\<open>resolve(base, p)\<close> for an absolute base, and \<open>dirname\<close> of a resolved path.\<close>

definition resolve_path :: "string \<Rightarrow> string \<Rightarrow> string" where
  "resolve_path base p =
     render_path (normal_segments
       (path_segments (if isAbsolute p then p else base @ CHR ''/'' # p)))"

definition dirname_path :: "string \<Rightarrow> string" where
  "dirname_path p = render_path (butlast (path_segments p))"

definition is_alpha :: "char \<Rightarrow> bool" where
  "is_alpha c \<longleftrightarrow> is_alnum c \<and> \<not> is_digit c"

text \<open>\<open>/^[a-zA-Z][a-zA-Z+.-]*:/\<close>\<close>

definition is_remote_reference :: "string \<Rightarrow> bool" where
  "is_remote_reference ref \<longleftrightarrow>
     ref \<noteq> [] \<and> is_alpha (hd ref) \<and>
     (case dropWhile (\<lambda>c. is_alpha c \<or> c \<in> set ''+.-'') ref of [] \<Rightarrow> False | c # _ \<Rightarrow> c = CHR '':'')"

definition resolveSchemaPath :: "string \<Rightarrow> string \<Rightarrow> workflow_error + string" where
  "resolveSchemaPath sourcePath ref =
     (if is_remote_reference ref then Inl (RemoteSchema ref)
      else Inr (if isAbsolute ref then ref else resolve_path (dirname_path sourcePath) ref))"

section \<open>Documents\<close>

definition valid_document_id :: "string \<Rightarrow> bool" where
  "valid_document_id s \<longleftrightarrow> s \<noteq> [] \<and>
     list_all (\<lambda>c. is_digit c \<or> (97 \<le> (of_char c :: nat) \<and> (of_char c :: nat) \<le> 122) \<or> c \<in> set ''/._-'') s \<and>
     hd s \<notin> set ''/._-''"

text \<open>\<open>/^[0-9]+\.[0-9]+\.[0-9]+(?:[-+][0-9A-Za-z.-]+)?$/\<close>\<close>

definition valid_version :: "string \<Rightarrow> bool" where
  "valid_version s \<longleftrightarrow>
     (let core = takeWhile (\<lambda>c. is_digit c \<or> c = CHR ''.'') s; suffix = drop (length core) s;
          parts = split_on (\<lambda>c. c = CHR ''.'') core
      in length parts = 3 \<and> list_all (\<lambda>p. p \<noteq> []) parts \<and>
         (suffix = [] \<or>
          hd suffix \<in> set ''-+'' \<and> tl suffix \<noteq> [] \<and>
          list_all (\<lambda>c. is_alnum c \<or> c \<in> set ''.-'') (tl suffix)))"

definition valid_node_name :: "string \<Rightarrow> bool" where
  "valid_node_name s \<longleftrightarrow> s \<noteq> [] \<and> is_alnum (hd s) \<and> list_all (\<lambda>c. is_alnum c \<or> c \<in> set ''._-'') s"

text \<open>\<open>/^[1-9][0-9]*(?:ms|s|m|h)$/\<close>\<close>

definition valid_duration :: "string \<Rightarrow> bool" where
  "valid_duration d \<longleftrightarrow> d \<noteq> [] \<and> is_nonzero_digit (hd d) \<and>
     duration_multiplier (dropWhile is_digit d) \<noteq> None"

definition valid_policy_document :: "attempt_policy_document \<Rightarrow> bool" where
  "valid_policy_document p \<longleftrightarrow>
     pred_option (\<lambda>n. 1 \<le> n) (ap_maxAttempts p) \<and> pred_option valid_duration (ap_maxDuration p)"

definition valid_command_document :: "command_document \<Rightarrow> bool" where
  "valid_command_document c \<longleftrightarrow>
     cd_argv c \<noteq> [] \<and> list_all (\<lambda>a. a \<noteq> []) (cd_argv c) \<and> valid_duration (cd_maxDuration c) \<and>
     pred_option (\<lambda>n. 1 \<le> n \<and> n \<le> 16777216) (cd_maxOutputBytes c)"

definition valid_node_document :: "workflow_node_document \<Rightarrow> bool" where
  "valid_node_document nd \<longleftrightarrow>
     pred_option (\<lambda>ns. distinct ns \<and> list_all (\<lambda>n. n \<noteq> []) ns) (wn_needs nd) \<and>
     pred_option (\<lambda>r. r \<noteq> []) (wn_role nd) \<and> wn_output nd \<noteq> [] \<and>
     pred_option valid_policy_document (wn_attemptPolicy nd) \<and>
     pred_option valid_command_document (wn_command nd)"

text \<open>\<open>workflow-document.v1alpha1.json\<close> on a document of the right shape.\<close>

definition valid_workflow_document :: "workflow_document \<Rightarrow> bool" where
  "valid_workflow_document doc \<longleftrightarrow>
     wd_apiVersion doc = ''anastom.dev/v1alpha1'' \<and> wd_kind doc = ''Workflow'' \<and>
     valid_document_id (wm_id (wd_metadata doc)) \<and> valid_version (wm_version (wd_metadata doc)) \<and>
     list_all (\<lambda>(k, ref). ref \<noteq> []) (wd_inputs doc) \<and>
     pred_option valid_policy_document (wd_defaultAttemptBudget doc) \<and>
     wd_nodes doc \<noteq> [] \<and>
     list_all (\<lambda>(k, nd). valid_node_name k \<and> valid_node_document nd) (wd_nodes doc)"

definition check_workflow_document :: "workflow_document \<Rightarrow> workflow_error + workflow_document" where
  "check_workflow_document doc =
     bindE (check (valid_workflow_document doc) InvalidDocument) (\<lambda>_.
     bindE (assertSemanticValidity doc) (\<lambda>_. Inr doc))"

definition parseWorkflowYaml ::
    "(string \<Rightarrow> workflow_document option) \<Rightarrow> string \<Rightarrow> workflow_error + workflow_document" where
  "parseWorkflowYaml parse source =
     (case parse source of None \<Rightarrow> Inl InvalidDocument | Some doc \<Rightarrow> check_workflow_document doc)"

section \<open>Normalization\<close>

fun mapE :: "('a \<Rightarrow> 'e + 'b) \<Rightarrow> 'a list \<Rightarrow> 'e + 'b list" where
  "mapE f [] = Inr []"
| "mapE f (x # xs) = bindE (f x) (\<lambda>y. bindE (mapE f xs) (\<lambda>ys. Inr (y # ys)))"

type_synonym schema_loader = "string \<Rightarrow> workflow_error + js"

definition load_schema ::
    "schema_loader \<Rightarrow> (js \<Rightarrow> bool) \<Rightarrow> string \<Rightarrow> string \<Rightarrow> workflow_error + resolved_schema" where
  "load_schema loadSchema compiles sourcePath ref =
     bindE (resolveSchemaPath sourcePath ref) (\<lambda>path.
     bindE (loadSchema path) (\<lambda>schema.
     bindE (check (compiles schema) (InvalidSchema path)) (\<lambda>_.
     Inr \<lparr>sc_ref = ref, sc_schema = schema\<rparr>)))"

definition normalize_command :: "command_document \<Rightarrow> workflow_error + command_definition" where
  "normalize_command c =
     bindE (duration_ms (cd_maxDuration c)) (\<lambda>ms.
     Inr \<lparr>cm_argv = cd_argv c, cm_cwd = case_option ''.'' id (cd_cwd c), cm_maxDurationMs = ms,
          cm_maxOutputBytes = case_option 1048576 id (cd_maxOutputBytes c)\<rparr>)"

definition normalize_node ::
    "(string \<Rightarrow> workflow_error + resolved_schema) \<Rightarrow> attempt_budget \<Rightarrow> string \<times> workflow_node_document \<Rightarrow>
     workflow_error + string \<times> workflow_node" where
  "normalize_node load defaultBudget = (\<lambda>(nid, nd).
     bindE (load (wn_output nd)) (\<lambda>output.
     bindE (normalizeBudget (wn_attemptPolicy nd) (Some defaultBudget)) (\<lambda>budget.
     bindE (case wn_command nd of
              None \<Rightarrow> Inr None
            | Some c \<Rightarrow> bindE (normalize_command c) (\<lambda>cm. Inr (Some cm))) (\<lambda>command.
     Inr (nid, \<lparr>nd_id = nid, nd_kind = wn_kind nd, nd_needs = needs_of nd, nd_role = wn_role nd,
                nd_output = output, nd_attemptBudget = budget, nd_mutation = wn_mutation nd,
                nd_command = command\<rparr>)))))"

definition normalize_input ::
    "(string \<Rightarrow> workflow_error + resolved_schema) \<Rightarrow> string \<times> string \<Rightarrow>
     workflow_error + string \<times> workflow_input" where
  "normalize_input load = (\<lambda>(k, ref).
     bindE (load ref) (\<lambda>s. Inr (k, resolved_schema.extend s \<lparr>in_id = k\<rparr>)))"

definition normalizeWorkflow ::
    "string \<Rightarrow> schema_loader \<Rightarrow> (js \<Rightarrow> bool) \<Rightarrow> workflow_document \<Rightarrow> string \<Rightarrow>
     workflow_error + workflow_definition" where
  "normalizeWorkflow cwd loadSchema compiles doc path =
     (let sourcePath = resolve_path cwd path; load = load_schema loadSchema compiles sourcePath in
      bindE (normalizeBudget (wd_defaultAttemptBudget doc) None) (\<lambda>defaultBudget.
      bindE (mapE (normalize_input load) (wd_inputs doc)) (\<lambda>inputs.
      bindE (mapE (normalize_node load defaultBudget) (wd_nodes doc)) (\<lambda>nodes.
      Inr \<lparr>wf_apiVersion = wd_apiVersion doc, wf_kind = wd_kind doc, wf_metadata = wd_metadata doc,
           wf_sourcePath = sourcePath, wf_inputs = inputs, wf_defaultAttemptBudget = defaultBudget,
           wf_nodeOrder = map fst (wd_nodes doc), wf_nodes = nodes, wf_task = None\<rparr>))))"

section \<open>Persisted definitions\<close>

definition valid_budget :: "attempt_budget \<Rightarrow> bool" where
  "valid_budget b \<longleftrightarrow>
     1 \<le> ab_maxAttempts b \<and> pred_option (\<lambda>ms. 1 \<le> ms \<and> ms \<le> MAX_TIMER) (ab_maxDurationMs b)"

definition is_object :: "js \<Rightarrow> bool" where
  "is_object v \<longleftrightarrow> (case v of JObj _ \<Rightarrow> True | _ \<Rightarrow> False)"

definition valid_resolved_schema :: "'a resolved_schema_scheme \<Rightarrow> bool" where
  "valid_resolved_schema s \<longleftrightarrow> sc_ref s \<noteq> [] \<and> is_object (sc_schema s)"

definition valid_command_definition :: "command_definition \<Rightarrow> bool" where
  "valid_command_definition c \<longleftrightarrow>
     cm_argv c \<noteq> [] \<and> list_all (\<lambda>a. a \<noteq> []) (cm_argv c) \<and>
     1 \<le> cm_maxDurationMs c \<and> cm_maxDurationMs c \<le> MAX_TIMER \<and>
     1 \<le> cm_maxOutputBytes c \<and> cm_maxOutputBytes c \<le> 16777216"

definition valid_node_definition :: "workflow_node \<Rightarrow> bool" where
  "valid_node_definition nd \<longleftrightarrow>
     distinct (nd_needs nd) \<and> pred_option (\<lambda>r. r \<noteq> []) (nd_role nd) \<and>
     valid_resolved_schema (nd_output nd) \<and> valid_budget (nd_attemptBudget nd) \<and>
     pred_option valid_command_definition (nd_command nd)"

definition valid_task :: "workflow_task \<Rightarrow> bool" where
  "valid_task t \<longleftrightarrow> tk_objective t \<noteq> [] \<and> tk_acceptanceCriteria t \<noteq> [] \<and>
     list_all (\<lambda>c. c \<noteq> []) (tk_acceptanceCriteria t)"

text \<open>\<open>workflow-definition.v1alpha1.json\<close> on a definition of the right shape.\<close>

definition valid_workflow_definition :: "workflow_definition \<Rightarrow> bool" where
  "valid_workflow_definition d \<longleftrightarrow>
     wf_apiVersion d = ''anastom.dev/v1alpha1'' \<and> wf_kind d = ''Workflow'' \<and> wf_sourcePath d \<noteq> [] \<and>
     list_all (\<lambda>(k, i). valid_resolved_schema i) (wf_inputs d) \<and>
     valid_budget (wf_defaultAttemptBudget d) \<and>
     wf_nodeOrder d \<noteq> [] \<and> distinct (wf_nodeOrder d) \<and>
     wf_nodes d \<noteq> [] \<and> list_all (\<lambda>(k, nd). valid_node_definition nd) (wf_nodes d) \<and>
     pred_option valid_task (wf_task d)"

text \<open>The document that \<open>assertWorkflowDefinition\<close> serializes and parses again.\<close>

definition command_document_of :: "command_definition \<Rightarrow> command_document" where
  "command_document_of c =
     \<lparr>cd_argv = cm_argv c, cd_cwd = Some (cm_cwd c),
      cd_maxDuration = int_string (cm_maxDurationMs c) @ ''ms'',
      cd_maxOutputBytes = Some (cm_maxOutputBytes c)\<rparr>"

definition node_document_of :: "workflow_node \<Rightarrow> workflow_node_document" where
  "node_document_of nd =
     \<lparr>wn_kind = nd_kind nd, wn_needs = Some (nd_needs nd), wn_role = nd_role nd,
      wn_output = sc_ref (nd_output nd), wn_attemptPolicy = None, wn_mutation = nd_mutation nd,
      wn_command = map_option command_document_of (nd_command nd)\<rparr>"

definition definition_document :: "workflow_definition \<Rightarrow> workflow_document" where
  "definition_document d =
     \<lparr>wd_apiVersion = wf_apiVersion d, wd_kind = wf_kind d, wd_metadata = wf_metadata d,
      wd_inputs = map (\<lambda>(k, i). (k, sc_ref i)) (wf_inputs d), wd_defaultAttemptBudget = None,
      wd_nodes = map (\<lambda>(k, nd). (k, node_document_of nd)) (wf_nodes d)\<rparr>"

definition assertWorkflowDefinition :: "(js \<Rightarrow> bool) \<Rightarrow> workflow_definition \<Rightarrow> workflow_error + unit" where
  "assertWorkflowDefinition compiles d =
     bindE (check (valid_workflow_definition d) CorruptDefinition) (\<lambda>_.
     bindE (check (isAbsolute (wf_sourcePath d)) CorruptDefinition) (\<lambda>_.
     bindE (check (length (wf_nodeOrder d) = length (wf_nodes d) \<and>
                   list_all (\<lambda>k. map_of (wf_nodes d) k \<noteq> None) (wf_nodeOrder d))
              CorruptDefinition) (\<lambda>_.
     bindE (foldE (\<lambda>_ (k, i). bindE (check (k = in_id i) CorruptDefinition) (\<lambda>_.
                check (compiles (sc_schema i)) (InvalidSchema (sc_ref i)))) () (wf_inputs d)) (\<lambda>_.
     bindE (foldE (\<lambda>_ (k, nd). bindE (check (k = nd_id nd) CorruptDefinition) (\<lambda>_.
                check (compiles (sc_schema (nd_output nd))) (InvalidSchema (sc_ref (nd_output nd)))))
              () (wf_nodes d)) (\<lambda>_.
     bindE (check_workflow_document (definition_document d)) (\<lambda>_. Inr ()))))))"

end
