(* ===== verification/Workflow_Roundtrip.thy ===== *)
theory Workflow_Roundtrip
  imports Workflow_Normalize
begin

text \<open>
  What normalization produces, \<open>assertWorkflowDefinition\<close> accepts: the definition of a checked
  document meets the definition schema, and the document made of it again is checked.
\<close>

section \<open>Loops\<close>

lemma mapE_list_all2: "mapE f xs = Inr ys \<Longrightarrow> list_all2 (\<lambda>x y. f x = Inr y) xs ys"
  by (induction xs arbitrary: ys) (auto simp: result_simps)

lemma mapE_keys:
  assumes "mapE f xs = Inr ys" and "\<And>x y. f x = Inr y \<Longrightarrow> fst y = fst x"
  shows "map fst ys = map fst xs"
  using mapE_list_all2 [OF assms(1)] by (induction rule: list_all2_induct) (auto dest: assms(2))

lemma mapE_in:
  assumes "mapE f xs = Inr ys" and "y \<in> set ys"
  obtains x where "x \<in> set xs" and "f x = Inr y"
proof -
  from assms(2) obtain i where "i < length ys" "y = ys ! i" by (auto simp: in_set_conv_nth)
  with mapE_list_all2 [OF assms(1)] show thesis
    by (intro that [of "xs ! i"]) (auto simp: list_all2_conv_all_nth)
qed

lemma foldE_unit: "(\<And>x. x \<in> set xs \<Longrightarrow> f () x = Inr ()) \<Longrightarrow> foldE f () xs = Inr ()"
  by (induction xs) simp_all

section \<open>Budgets and commands\<close>

lemma valid_duration_pos:
  assumes "valid_duration d" and "duration_ms d = Inr ms"
  shows "1 \<le> ms"
proof -
  from assms(1) obtain c cs where d: "d = c # cs" "is_nonzero_digit c"
    by (cases d) (auto simp: valid_duration_def)
  then have "takeWhile is_digit d = c # takeWhile is_digit cs" by (simp add: is_nonzero_digit_def)
  with digits_value_pos [OF d(2), of "takeWhile is_digit cs"] assms(2) show ?thesis
    by (fastforce simp: duration_ms_iff duration_multiplier_def split: if_splits)
qed

lemma normalizeBudget_valid:
  assumes "normalizeBudget policy fallback = Inr b"
    and "pred_option valid_policy_document policy" and "pred_option valid_budget fallback"
  shows "valid_budget b"
  using assms
  by (cases policy; cases fallback)
    (auto simp: normalizeBudget_def valid_budget_def valid_policy_document_def durationToMilliseconds_def
      result_simps split: option.splits dest: valid_duration_pos duration_ms_bounds)

lemma normalize_command_valid:
  assumes "normalize_command c = Inr cm" and "valid_command_document c"
  shows "valid_command_definition cm"
  using assms
  by (auto simp: normalize_command_def result_simps valid_command_document_def
      valid_command_definition_def split: option.splits dest: valid_duration_pos duration_ms_bounds)

lemma valid_duration_milliseconds:
  assumes "1 \<le> n"
  shows "valid_duration (int_string n @ ''ms'')"
proof -
  have digits: "list_all is_digit (nat_digits (nat n))" "nat_digits (nat n) \<noteq> []"
    using nat_digits_digits by auto
  have "is_nonzero_digit (hd (nat_digits (nat n)))"
    using assms by (intro nat_digits_hd) simp
  moreover have "dropWhile is_digit (nat_digits (nat n) @ ''ms'') = ''ms''"
    using digits by (simp add: list_all_iff dropWhile_append is_digit_def)
  ultimately show ?thesis
    using assms digits by (simp add: valid_duration_def int_string_def duration_multiplier_def)
qed

lemma valid_command_document_of:
  "valid_command_definition c \<Longrightarrow> valid_command_document (command_document_of c)"
  by (simp add: valid_command_definition_def valid_command_document_def command_document_of_def
      valid_duration_milliseconds)

section \<open>Nodes\<close>

lemma normalize_node_key: "normalize_node load b x = Inr y \<Longrightarrow> fst y = fst x"
  by (auto simp: normalize_node_def result_simps split: prod.splits)

lemma normalize_input_key: "normalize_input load x = Inr y \<Longrightarrow> fst y = fst x"
  by (auto simp: normalize_input_def result_simps split: prod.splits)

lemma load_schema_facts:
  assumes "load_schema loadSchema compiles src ref = Inr s"
    and "\<And>p v. loadSchema p = Inr v \<Longrightarrow> is_object v"
  shows "sc_ref s = ref \<and> is_object (sc_schema s) \<and> compiles (sc_schema s)"
  using assms by (auto simp: load_schema_def result_simps)

lemma normalize_node_facts:
  assumes "normalize_node load b (nid, nd) = Inr (k, nd')"
  shows "k = nid \<and> nd_id nd' = nid \<and> nd_kind nd' = wn_kind nd \<and> nd_needs nd' = needs_of nd \<and>
    nd_role nd' = wn_role nd \<and> nd_mutation nd' = wn_mutation nd \<and>
    load (wn_output nd) = Inr (nd_output nd') \<and>
    normalizeBudget (wn_attemptPolicy nd) (Some b) = Inr (nd_attemptBudget nd') \<and>
    (case wn_command nd of
       None \<Rightarrow> nd_command nd' = None
     | Some c \<Rightarrow> \<exists>cm. nd_command nd' = Some cm \<and> normalize_command c = Inr cm)"
  using assms by (auto simp: normalize_node_def result_simps split: option.splits)

lemma node_document_needs [simp]: "needs_of (node_document_of nd) = nd_needs nd"
  by (simp add: needs_of_def node_document_of_def)

text \<open>The document of a normalized node reports no issue that the authored node does not.\<close>

lemma dot_stays: "\<not> cwd_escapes ''.''"
  by (simp add: cwd_escapes_def isAbsolute_def is_separator_def)

lemma node_issues_normalized:
  assumes "normalize_node load b (nid, nd) = Inr (k, nd')"
    and "node_issues doc nid nd = []" and "\<And>x. has_node doc' x = has_node doc x"
  shows "node_issues doc' nid (node_document_of nd') = []"
proof -
  note f = normalize_node_facts [OF assms(1)]
  have "cd_cwd (command_document_of cm) = Some (case_option ''.'' id (cd_cwd c))"
    if "normalize_command c = Inr cm" for c cm
    using that by (auto simp: normalize_command_def result_simps command_document_of_def)
  with f assms(2,3) dot_stays show ?thesis
    by (cases "wn_command nd"; cases "map_option cd_cwd (wn_command nd)")
      (auto simp: node_issues_def node_document_of_def dependency_issues_def needs_of_def
        split: if_splits option.splits)
qed

lemma normalized_node_valid:
  assumes "normalize_node load b (nid, nd) = Inr (k, nd')"
    and "valid_node_document nd" and "valid_budget b"
    and "\<And>s. load (wn_output nd) = Inr s \<Longrightarrow> sc_ref s = wn_output nd \<and> is_object (sc_schema s)"
  shows "valid_node_definition nd' \<and> valid_node_document (node_document_of nd')"
proof -
  note f = normalize_node_facts [OF assms(1)]
  have out: "valid_resolved_schema (nd_output nd')" "sc_ref (nd_output nd') \<noteq> []"
    using f assms(2,4) by (auto simp: valid_resolved_schema_def valid_node_document_def)
  have budget: "valid_budget (nd_attemptBudget nd')"
    using f assms(2,3) by (intro normalizeBudget_valid [of "wn_attemptPolicy nd" "Some b"])
      (auto simp: valid_node_document_def)
  have cmd: "pred_option valid_command_definition (nd_command nd')"
    using f assms(2) by (auto simp: valid_node_document_def split: option.splits
        dest: normalize_command_valid)
  have needs: "distinct (nd_needs nd')" "list_all (\<lambda>n. n \<noteq> []) (nd_needs nd')"
    using f assms(2) by (auto simp: valid_node_document_def needs_of_def split: option.splits)
  have role: "pred_option (\<lambda>r. r \<noteq> []) (nd_role nd')"
    using f assms(2) by (simp add: valid_node_document_def)
  have "pred_option valid_command_document (map_option command_document_of (nd_command nd'))"
    using cmd by (cases "nd_command nd'") (simp_all add: valid_command_document_of)
  with out budget cmd needs role show ?thesis
    by (simp add: valid_node_definition_def valid_node_document_def node_document_of_def)
qed

section \<open>Definitions\<close>

lemma isAbsolute_resolve [simp]: "isAbsolute (resolve_path base p)"
  by (cases "normal_segments (path_segments (if isAbsolute p then p else base @ CHR ''/'' # p))")
    (simp_all add: resolve_path_def render_path_def isAbsolute_def)

lemma node_needs_document:
  assumes "list_all2 (\<lambda>(k, nd) (k', nd'). k' = k \<and> nd_needs nd' = needs_of nd) xs ys"
  shows "case_option [] needs_of (map_of (map (\<lambda>(k, nd). (k, node_document_of nd)) ys) x) =
    case_option [] needs_of (map_of xs x)"
  using assms by (induction rule: list_all2_induct) (auto split: prod.splits)

text \<open>The facts about a normalized document that the checks of its definition rest on.\<close>

lemma normalized_document:
  assumes norm: "normalizeWorkflow cwd L compiles doc path = Inr d"
    and objects: "\<forall>p v. L p = Inr v \<longrightarrow> is_object v"
    and doc: "valid_workflow_document doc"
  shows "map fst (wf_nodes d) = map fst (wd_nodes doc) \<and> wf_nodeOrder d = map fst (wd_nodes doc) \<and>
    wf_apiVersion d = wd_apiVersion doc \<and> wf_kind d = wd_kind doc \<and> wf_metadata d = wd_metadata doc \<and>
    isAbsolute (wf_sourcePath d) \<and> wf_task d = None \<and> valid_budget (wf_defaultAttemptBudget d) \<and>
    (\<forall>(k, i) \<in> set (wf_inputs d). k = in_id i \<and> valid_resolved_schema i \<and> compiles (sc_schema i)) \<and>
    (\<forall>(k, nd') \<in> set (wf_nodes d). k = nd_id nd' \<and> compiles (sc_schema (nd_output nd')) \<and>
       valid_node_name k \<and> valid_node_definition nd' \<and> valid_node_document (node_document_of nd')) \<and>
    (\<forall>x. node_needs (definition_document d) x = node_needs doc x) \<and>
    (\<forall>x. has_node (definition_document d) x = has_node doc x) \<and>
    (\<forall>(k, nd') \<in> set (wf_nodes d). \<exists>nd load b. (k, nd) \<in> set (wd_nodes doc) \<and>
       normalize_node load b (k, nd) = Inr (k, nd'))"
proof -
  let ?load = "load_schema L compiles (resolve_path cwd path)"
  from norm obtain b where b: "normalizeBudget (wd_defaultAttemptBudget doc) None = Inr b"
    and inputs: "mapE (normalize_input ?load) (wd_inputs doc) = Inr (wf_inputs d)"
    and nodes: "mapE (normalize_node ?load b) (wd_nodes doc) = Inr (wf_nodes d)"
    and d: "wf_nodeOrder d = map fst (wd_nodes doc)" "wf_apiVersion d = wd_apiVersion doc"
      "wf_kind d = wd_kind doc" "wf_metadata d = wd_metadata doc"
      "wf_sourcePath d = resolve_path cwd path" "wf_task d = None" "wf_defaultAttemptBudget d = b"
    by (auto simp: normalizeWorkflow_def Let_def result_simps)
  have load: "sc_ref s = ref \<and> is_object (sc_schema s) \<and> compiles (sc_schema s)"
    if "?load ref = Inr s" for ref s
    by (rule load_schema_facts [OF that]) (use objects in blast)
  have vb: "valid_budget b"
    using doc by (intro normalizeBudget_valid [OF b]) (simp_all add: valid_workflow_document_def)
  have keys: "map fst (wf_nodes d) = map fst (wd_nodes doc)"
    by (rule mapE_keys [OF nodes normalize_node_key])
  have origin: "\<exists>nd. (k, nd) \<in> set (wd_nodes doc) \<and> normalize_node ?load b (k, nd) = Inr (k, nd')"
    if "(k, nd') \<in> set (wf_nodes d)" for k nd'
    using mapE_in [OF nodes that] normalize_node_key by (metis prod.collapse fst_conv)
  have ins: "k = in_id i \<and> valid_resolved_schema i \<and> compiles (sc_schema i)"
    if "(k, i) \<in> set (wf_inputs d)" for k i
  proof -
    from mapE_in [OF inputs that] obtain ref where ref: "(k, ref) \<in> set (wd_inputs doc)"
      "normalize_input ?load (k, ref) = Inr (k, i)"
      using normalize_input_key by (metis prod.collapse fst_conv)
    then obtain s where "?load ref = Inr s" "i = resolved_schema.extend s \<lparr>in_id = k\<rparr>"
      by (auto simp: normalize_input_def result_simps)
    moreover have "ref \<noteq> []"
      using doc ref(1) by (auto simp: valid_workflow_document_def list_all_iff)
    ultimately show ?thesis
      using load [of ref s] by (simp add: valid_resolved_schema_def resolved_schema.defs)
  qed
  have nds: "k = nd_id nd' \<and> compiles (sc_schema (nd_output nd')) \<and> valid_node_name k \<and>
      valid_node_definition nd' \<and> valid_node_document (node_document_of nd')"
    if nd': "(k, nd') \<in> set (wf_nodes d)" for k nd'
  proof -
    from origin [OF nd'] obtain nd where nd: "(k, nd) \<in> set (wd_nodes doc)"
      "normalize_node ?load b (k, nd) = Inr (k, nd')" by blast
    with doc have ok: "valid_node_name k" "valid_node_document nd"
      by (auto simp: valid_workflow_document_def list_all_iff)
    have "valid_node_definition nd' \<and> valid_node_document (node_document_of nd')"
      by (rule normalized_node_valid [OF nd(2) ok(2) vb]) (use load in blast)
    with normalize_node_facts [OF nd(2)] ok load [of "wn_output nd"] show ?thesis by blast
  qed
  have "list_all2 (\<lambda>(k, nd) (k', nd'). k' = k \<and> nd_needs nd' = needs_of nd) (wd_nodes doc) (wf_nodes d)"
    using mapE_list_all2 [OF nodes]
    by (rule list_all2_mono) (auto dest: normalize_node_facts)
  from node_needs_document [OF this] have needs: "node_needs (definition_document d) x = node_needs doc x" for x
    by (simp add: node_needs_def definition_document_def)
  have "fst ` set (wd_nodes (definition_document d)) = fst ` set (wd_nodes doc)"
    using arg_cong [OF keys, of set] by (simp add: definition_document_def image_image case_prod_unfold)
  then have has: "has_node (definition_document d) x = has_node doc x" for x
    by (simp add: has_node_iff)
  show ?thesis
    using d keys vb ins nds needs has origin by (intro conjI) (simp, simp, simp, simp, simp, simp, simp, simp, blast+)
qed

lemma normalizeWorkflow_order:
  "normalizeWorkflow cwd L compiles doc path = Inr d \<Longrightarrow> wf_nodeOrder d = map fst (wd_nodes doc)"
  by (auto simp: normalizeWorkflow_def Let_def result_simps)

lemma normalized_document_checked:
  assumes norm: "normalizeWorkflow cwd L compiles doc path = Inr d"
    and objects: "\<forall>p v. L p = Inr v \<longrightarrow> is_object v"
    and doc: "check_workflow_document doc = Inr doc'"
  shows "check_workflow_document (definition_document d) = Inr (definition_document d)"
proof -
  from doc have valid: "valid_workflow_document doc" and sem: "assertSemanticValidity doc = Inr ()"
    by (auto simp: check_workflow_document_def result_simps)
  note facts = normalized_document [OF norm objects valid]
  have "dependency_edges (definition_document d) = dependency_edges doc"
    using facts by (simp add: dependency_edges_def)
  moreover have "node_issues (definition_document d) k (node_document_of nd') = []"
    if "(k, nd') \<in> set (wf_nodes d)" for k nd'
  proof -
    from facts that obtain nd load b where "(k, nd) \<in> set (wd_nodes doc)"
      and n: "normalize_node load b (k, nd) = Inr (k, nd')" by blast
    with sem have "node_issues doc k nd = []" by (auto simp: assertSemanticValidity_iff)
    from node_issues_normalized [OF n this] facts show ?thesis by blast
  qed
  ultimately have "assertSemanticValidity (definition_document d) = Inr ()"
    using sem by (auto simp: assertSemanticValidity_iff definition_document_def)
  moreover have "valid_workflow_document (definition_document d)"
  proof -
    have "wf_nodes d \<noteq> []" using facts valid by (auto simp: valid_workflow_document_def)
    moreover have "\<forall>(k, nd) \<in> set (wf_nodes d). valid_node_name k \<and> valid_node_document (node_document_of nd)"
      "\<forall>(k, i) \<in> set (wf_inputs d). sc_ref i \<noteq> []"
      using facts unfolding valid_resolved_schema_def by blast+
    ultimately show ?thesis
      using valid facts
      by (simp add: valid_workflow_document_def definition_document_def list_all_iff case_prod_unfold)
  qed
  ultimately show ?thesis by (simp add: check_workflow_document_def)
qed

lemma normalized_definition_accepted:
  assumes norm: "normalizeWorkflow cwd L compiles doc path = Inr d"
    and objects: "\<forall>p v. L p = Inr v \<longrightarrow> is_object v"
    and doc: "check_workflow_document doc = Inr doc'"
    and keys: "distinct (map fst (wd_nodes doc))"
  shows "assertWorkflowDefinition compiles d = Inr ()"
proof -
  from doc have valid: "valid_workflow_document doc"
    by (auto simp: check_workflow_document_def result_simps)
  note facts = normalized_document [OF norm objects valid]
  have "wf_sourcePath d \<noteq> []" using facts by (auto simp: isAbsolute_def)
  moreover have "wf_nodes d \<noteq> []" using facts valid by (auto simp: valid_workflow_document_def)
  moreover have "list_all (\<lambda>(k, i). valid_resolved_schema i) (wf_inputs d)"
    "list_all (\<lambda>(k, nd). valid_node_definition nd) (wf_nodes d)"
    using facts unfolding list_all_iff by blast+
  ultimately have "valid_workflow_definition d"
    using facts valid keys
    by (simp add: valid_workflow_definition_def valid_workflow_document_def)
  moreover have "length (wf_nodeOrder d) = length (wf_nodes d)"
    using facts by (metis length_map)
  moreover have "list_all (\<lambda>k. map_of (wf_nodes d) k \<noteq> None) (wf_nodeOrder d)"
  proof -
    have "set (wf_nodeOrder d) = fst ` set (wf_nodes d)" using facts by (metis list.set_map)
    then show ?thesis by (simp add: list_all_iff map_of_eq_None_iff)
  qed
  moreover have "foldE (\<lambda>_ (k, i). bindE (check (k = in_id i) CorruptDefinition) (\<lambda>_.
      check (compiles (sc_schema i)) (InvalidSchema (sc_ref i)))) () (wf_inputs d) = Inr ()"
    using facts by (intro foldE_unit) auto
  moreover have "foldE (\<lambda>_ (k, nd). bindE (check (k = nd_id nd) CorruptDefinition) (\<lambda>_.
      check (compiles (sc_schema (nd_output nd))) (InvalidSchema (sc_ref (nd_output nd))))) ()
      (wf_nodes d) = Inr ()"
    using facts by (intro foldE_unit) auto
  ultimately show ?thesis
    using facts normalized_document_checked [OF norm objects doc]
    by (simp add: assertWorkflowDefinition_def)
qed

end
