(* ===== verification/Scheduler.thy ===== *)
theory Scheduler
  imports Run_Evolution Workflow_Roundtrip
begin

text \<open>
  \<open>engine/src/scheduler.ts\<close>: which nodes may become ready and which are ready, in authored
  order. On an accepted definition the scheduler never starves: while nodes are pending and
  nothing else is going on, one of them is executable.
\<close>

definition dependency_done :: "run_state \<Rightarrow> string \<Rightarrow> bool" where
  "dependency_done s dep \<longleftrightarrow> map_option n_status (find_node s dep) = Some NodeSucceededStatus"

definition findExecutableNodes :: "workflow_definition \<Rightarrow> run_state \<Rightarrow> string list" where
  "findExecutableNodes w s =
     filter (\<lambda>nid.
         map_option n_status (find_node s nid) = Some NodePendingStatus \<and>
         (case map_of (wf_nodes w) nid of
            None \<Rightarrow> False
          | Some nd \<Rightarrow> list_all (dependency_done s) (nd_needs nd)))
       (wf_nodeOrder w)"

definition findReadyNodes :: "workflow_definition \<Rightarrow> run_state \<Rightarrow> string list" where
  "findReadyNodes w s =
     filter (\<lambda>nid. map_option n_status (find_node s nid) = Some NodeReadyStatus) (wf_nodeOrder w)"

section \<open>Accepted definitions\<close>

lemma accepted_definition:
  assumes "assertWorkflowDefinition compiles w = Inr ()"
  shows "acyclic (dependency_edges (definition_document w)) \<and> distinct (wf_nodeOrder w) \<and>
    set (wf_nodeOrder w) = fst ` set (wf_nodes w) \<and>
    (\<forall>(k, nd) \<in> set (wf_nodes w). \<forall>dep \<in> set (nd_needs nd). dep \<in> fst ` set (wf_nodes w))"
proof -
  from assms have valid: "valid_workflow_definition w"
    and len: "length (wf_nodeOrder w) = length (wf_nodes w)"
    and known: "list_all (\<lambda>k. map_of (wf_nodes w) k \<noteq> None) (wf_nodeOrder w)"
    and sem: "assertSemanticValidity (definition_document w) = Inr ()"
    by (auto simp: assertWorkflowDefinition_def result_simps check_workflow_document_def)
  have dist: "distinct (wf_nodeOrder w)" using valid by (simp add: valid_workflow_definition_def)
  have sub: "set (wf_nodeOrder w) \<subseteq> fst ` set (wf_nodes w)"
    using known by (auto simp: list_all_iff map_of_eq_None_iff)
  have "card (fst ` set (wf_nodes w)) \<le> card (set (wf_nodeOrder w))"
    using len dist card_length [of "map fst (wf_nodes w)"] by (simp add: distinct_card)
  with sub have eq: "set (wf_nodeOrder w) = fst ` set (wf_nodes w)"
    by (intro card_seteq) auto
  have issues: "node_issues (definition_document w) k (node_document_of nd) = []"
    if "(k, nd) \<in> set (wf_nodes w)" for k nd
    using sem that by (auto simp: assertSemanticValidity_iff definition_document_def)
  have "dep \<in> fst ` set (wf_nodes w)"
    if "(k, nd) \<in> set (wf_nodes w)" "dep \<in> set (nd_needs nd)" for k nd dep
  proof -
    from issues [OF that(1)] that(2) have "has_node (definition_document w) dep"
      by (auto simp: node_issues_def dependency_issues_def split: if_splits)
    then show ?thesis
      by (auto simp: has_node_iff definition_document_def image_image case_prod_unfold)
  qed
  with sem dist eq show ?thesis by (auto simp: assertSemanticValidity_iff)
qed

text \<open>The graph of a definition, by lookup.\<close>

lemma definition_edges:
  "(x, y) \<in> dependency_edges (definition_document w) \<longleftrightarrow>
     (\<exists>nd. map_of (wf_nodes w) x = Some nd \<and> y \<in> set (nd_needs nd)) \<and> y \<in> fst ` set (wf_nodes w)"
proof -
  have "map_of (wd_nodes (definition_document w)) x = map_option node_document_of (map_of (wf_nodes w) x)"
    by (simp add: definition_document_def map_of_map)
  moreover have "has_node (definition_document w) y \<longleftrightarrow> y \<in> fst ` set (wf_nodes w)"
    by (simp add: has_node_iff definition_document_def image_image case_prod_unfold)
  ultimately show ?thesis
    by (cases "map_of (wf_nodes w) x") (simp_all add: dependency_edges_def node_needs_def)
qed

section \<open>Progress\<close>

lemma scheduler_no_starvation:
  assumes accepted: "assertWorkflowDefinition compiles w = Inr ()"
    and nodes: "\<And>nid. nid \<in> set (wf_nodeOrder w) \<Longrightarrow>
      map_option n_status (find_node s nid) \<in> {Some NodePendingStatus, Some NodeSucceededStatus}"
    and pending: "nid \<in> set (wf_nodeOrder w)"
      "map_option n_status (find_node s nid) = Some NodePendingStatus"
  shows "findExecutableNodes w s \<noteq> []"
proof -
  let ?E = "dependency_edges (definition_document w)"
  note facts = accepted_definition [OF accepted]
  have "?E \<subseteq> fst ` set (wf_nodes w) \<times> fst ` set (wf_nodes w)"
    by (auto simp: definition_edges) (metis fst_conv image_eqI map_of_SomeD)
  then have "finite ?E" by (rule finite_subset) simp
  then have wf: "wf (?E\<inverse>)"
    using facts by (intro finite_acyclic_wf_converse) simp_all
  let ?P = "{x \<in> set (wf_nodeOrder w). map_option n_status (find_node s x) = Some NodePendingStatus}"
  have "nid \<in> ?P" using pending by simp
  with wf obtain x where x: "x \<in> ?P" and least: "\<And>y. (y, x) \<in> ?E\<inverse> \<Longrightarrow> y \<notin> ?P"
    by (rule wfE_min) blast
  from x facts obtain nd where nd: "map_of (wf_nodes w) x = Some nd"
    by (metis (no_types, lifting) image_iff map_of_eq_None_iff mem_Collect_eq not_None_eq)
  have "dependency_done s dep" if "dep \<in> set (nd_needs nd)" for dep
  proof -
    from facts map_of_SomeD [OF nd] that have dep: "dep \<in> fst ` set (wf_nodes w)" by blast
    with that nd least have "dep \<notin> ?P" by (simp add: definition_edges)
    with dep facts nodes [of dep] show ?thesis by (auto simp: dependency_done_def)
  qed
  with x nd have "x \<in> set (findExecutableNodes w s)"
    by (auto simp: findExecutableNodes_def list_all_iff)
  then show ?thesis by auto
qed

text \<open>A node the scheduler finds can indeed become ready, and a ready one can be scheduled.\<close>

lemma executable_becomes_ready:
  assumes "nid \<in> set (findExecutableNodes w s)"
  shows "\<exists>s'. applyNodeReady s nid DependenciesSatisfied = Inr s' \<and>
    nid \<in> set (findReadyNodes w s')"
proof -
  from assms obtain nd where "find_node s nid = Some nd" "n_status nd = NodePendingStatus"
    and "nid \<in> set (wf_nodeOrder w)"
    by (auto simp: findExecutableNodes_def)
  then show ?thesis
    by (intro exI [of _ "set_node s nid (nd\<lparr>n_status := NodeReadyStatus, n_pauseReason := None\<rparr>)"])
      (auto simp: applyNodeReady_iff ready_sources_def findReadyNodes_def find_node_set_node)
qed

end
