(* ===== verification/Workflow_Properties.thy ===== *)
theory Workflow_Properties
  imports Scheduler
begin

text \<open>
  The properties of workflow validation, normalization and scheduling (\<open>core/src/workflow.ts\<close>,
  \<open>core/src/definition.ts\<close>, \<open>engine/src/scheduler.ts\<close>), evaluated on a workflow with an agent
  and a verifier command that needs it.
\<close>

definition sample_workflow :: workflow_document where
  "sample_workflow =
     \<lparr>wd_apiVersion = ''anastom.dev/v1alpha1'', wd_kind = ''Workflow'',
      wd_metadata = \<lparr>wm_id = ''w'', wm_version = ''1.0.0''\<rparr>, wd_inputs = [(''task'', ''t.json'')],
      wd_defaultAttemptBudget = None,
      wd_nodes =
        [(''a'', \<lparr>wn_kind = AgentNode, wn_needs = None, wn_role = Some ''r'', wn_output = ''o.json'',
                wn_attemptPolicy = Some \<lparr>ap_maxAttempts = Some 2, ap_maxDuration = Some ''5m''\<rparr>,
                wn_mutation = None, wn_command = None\<rparr>),
         (''b'', \<lparr>wn_kind = CommandNode, wn_needs = Some [''a''], wn_role = None, wn_output = ''o.json'',
                wn_attemptPolicy = None, wn_mutation = None,
                wn_command = Some \<lparr>cd_argv = [''t''], cd_cwd = None, cd_maxDuration = ''9s'',
                                   cd_maxOutputBytes = None\<rparr>\<rparr>)]\<rparr>"

definition cyclic_workflow :: workflow_document where
  "cyclic_workflow = sample_workflow\<lparr>wd_nodes :=
     map (\<lambda>(k, nd). (k, if k = ''a'' then nd\<lparr>wn_needs := Some [''b'']\<rparr> else nd)) (wd_nodes sample_workflow)\<rparr>"

lemma sample_checked: "check_workflow_document sample_workflow = Inr sample_workflow"
proof -
  have "valid_workflow_document sample_workflow" by code_simp
  moreover have "assertSemanticValidity sample_workflow = Inr ()" by code_simp
  ultimately show ?thesis by (simp add: check_workflow_document_def)
qed

definition sample_loader :: schema_loader where
  "sample_loader p = Inr (JObj [])"

definition sample_definition :: workflow_definition where
  "sample_definition = projr (normalizeWorkflow ''/w'' sample_loader (\<lambda>_. True) sample_workflow ''f'')"

lemma sample_normalized:
  "normalizeWorkflow ''/w'' sample_loader (\<lambda>_. True) sample_workflow ''f'' = Inr sample_definition"
proof -
  have "\<not> isl (normalizeWorkflow ''/w'' sample_loader (\<lambda>_. True) sample_workflow ''f'')"
    by code_simp
  then show ?thesis
    unfolding sample_definition_def
    by (cases "normalizeWorkflow ''/w'' sample_loader (\<lambda>_. True) sample_workflow ''f''") simp_all
qed

lemma sample_loader_objects: "\<forall>p v. sample_loader p = Inr v \<longrightarrow> is_object v"
  by (auto simp: sample_loader_def is_object_def)

lemma sample_definition_facts:
  "assertWorkflowDefinition (\<lambda>_. True) sample_definition = Inr () \<and>
   wf_nodeOrder sample_definition = [''a'', ''b'']"
proof -
  have "distinct (map fst (wd_nodes sample_workflow))" by (simp add: sample_workflow_def)
  from normalized_definition_accepted [OF sample_normalized sample_loader_objects sample_checked this]
  have "assertWorkflowDefinition (\<lambda>_. True) sample_definition = Inr ()" .
  moreover have "wf_nodeOrder sample_definition = map fst (wd_nodes sample_workflow)"
    by (rule normalizeWorkflow_order [OF sample_normalized])
  ultimately show ?thesis by (simp add: sample_workflow_def)
qed

text \<open>
  C12: semantic validation accepts a workflow exactly when the dependency graph is acyclic, every
  dependency is a node, and the fields fit the kinds: agents and only agents have a role, only
  agents have a mutation mode, only command nodes have a command, and no working directory is
  absolute or climbs out with \<open>..\<close>.
\<close>

theorem semantic_validity_exact:
  assumes "distinct (map fst (wd_nodes doc))"
  shows "assertSemanticValidity doc = Inr () \<longleftrightarrow>
    acyclic {(x, y). \<exists>nd. map_of (wd_nodes doc) x = Some nd \<and> y \<in> set (needs_of nd)} \<and>
    (\<forall>(nid, nd) \<in> set (wd_nodes doc).
       set (needs_of nd) \<subseteq> fst ` set (wd_nodes doc) \<and>
       (wn_kind nd = AgentNode \<longleftrightarrow> wn_role nd \<noteq> None) \<and>
       (wn_mutation nd \<noteq> None \<longrightarrow> wn_kind nd = AgentNode) \<and>
       (wn_command nd \<noteq> None \<longrightarrow> wn_kind nd = CommandNode) \<and>
       (\<forall>c cwd. wn_command nd = Some c \<longrightarrow> cd_cwd c = Some cwd \<longrightarrow> \<not> cwd_escapes cwd))"
    (is "_ \<longleftrightarrow> acyclic ?G \<and> (\<forall>(nid, nd) \<in> _. ?known nd \<and> ?fields nd)")
proof -
  have nodes: "node_issues doc nid nd = [] \<longleftrightarrow> ?known nd \<and> ?fields nd \<and> nid \<notin> set (needs_of nd)" for nid nd
    by (auto simp: node_issues_def dependency_issues_def has_node_iff concat_eq_Nil_conv
        split: option.splits if_splits)
  have self: "nid \<notin> set (needs_of nd)" if "acyclic ?G" "(nid, nd) \<in> set (wd_nodes doc)" for nid nd
    using that map_of_is_SomeI [OF assms that(2)] by (auto simp: acyclic_def)
  have edges: "dependency_edges doc = ?G" if "\<forall>(nid, nd) \<in> set (wd_nodes doc). ?known nd"
  proof -
    have "(x, y) \<in> dependency_edges doc \<longleftrightarrow> (x, y) \<in> ?G" for x y
    proof (cases "map_of (wd_nodes doc) x")
      case None
      then show ?thesis by (simp add: dependency_edges_def node_needs_def)
    next
      case (Some nd)
      from map_of_SomeD [OF Some] that have "?known nd" by blast
      with Some show ?thesis by (auto simp: dependency_edges_def node_needs_def has_node_iff)
    qed
    then show ?thesis by auto
  qed
  show ?thesis
  proof
    assume ok: "assertSemanticValidity doc = Inr ()"
    then have "\<forall>(nid, nd) \<in> set (wd_nodes doc). ?known nd \<and> ?fields nd"
      by (auto simp: assertSemanticValidity_iff nodes)
    moreover from this have "dependency_edges doc = ?G" by (intro edges) blast
    ultimately show "acyclic ?G \<and> (\<forall>(nid, nd) \<in> set (wd_nodes doc). ?known nd \<and> ?fields nd)"
      using ok by (simp add: assertSemanticValidity_iff)
  next
    assume ok: "acyclic ?G \<and> (\<forall>(nid, nd) \<in> set (wd_nodes doc). ?known nd \<and> ?fields nd)"
    then have "dependency_edges doc = ?G" by (intro edges) blast
    with ok self show "assertSemanticValidity doc = Inr ()"
      unfolding assertSemanticValidity_iff by (auto simp: nodes)
  qed
qed

theorem semantic_validity_exact_witness:
  "acyclic {(x, y). \<exists>nd. map_of (wd_nodes sample_workflow) x = Some nd \<and> y \<in> set (needs_of nd)}"
proof -
  have "distinct (map fst (wd_nodes sample_workflow))" by (simp add: sample_workflow_def)
  from semantic_validity_exact [OF this] sample_checked show ?thesis
    by (auto simp: check_workflow_document_def result_simps)
qed

text \<open>
  The search always ends within its bound, and every dependency cycle it reports is one: a
  closed walk along declared dependencies between nodes of the workflow.
\<close>

theorem reported_cycles_real:
  "\<exists>issues. semantic_issues doc = Inr issues \<and>
     (\<forall>c. DependencyCycle c \<in> set issues \<longrightarrow>
        2 \<le> length c \<and> hd c = last c \<and>
        (\<forall>i. Suc i < length c \<longrightarrow>
           c ! Suc i \<in> set (node_needs doc (c ! i)) \<and> has_node doc (c ! Suc i)))"
proof -
  obtain more where issues: "semantic_issues doc =
      Inr (concat (map (\<lambda>(nid, nd). node_issues doc nid nd) (wd_nodes doc)) @ more)"
    and more: "\<forall>i \<in> set more. cycle_issue doc i"
    by (rule semantic_issues_cases)
  have "is_cycle doc c" if "DependencyCycle c \<in> set (concat (map (\<lambda>(nid, nd). node_issues doc nid nd)
      (wd_nodes doc)) @ more)" for c
    using that more
    by (auto simp: node_issues_def dependency_issues_def cycle_issue_def split: if_splits option.splits)
  then show ?thesis
    unfolding issues
    by (auto simp: is_cycle_def dependency_edges_def successively_conv_nth)
qed

theorem reported_cycles_real_witness:
  "\<exists>issues. semantic_issues cyclic_workflow = Inr issues \<and> DependencyCycle [''a'', ''b'', ''a''] \<in> set issues \<and>
     ''b'' \<in> set (node_needs cyclic_workflow ''a'')"
proof -
  have "semantic_issues cyclic_workflow = Inr [DependencyCycle [''a'', ''b'', ''a'']]" by code_simp
  with reported_cycles_real [of cyclic_workflow] show ?thesis
    by (auto dest: spec [of _ "[''a'', ''b'', ''a'']"])
qed

text \<open>
  a duration is accepted exactly when it is a numeral and one of the units ms, s, m, h, and its
  value in milliseconds fits the timer; the result is that value, so the milliseconds an accepted
  command is persisted with read back as the same number.
\<close>

theorem duration_exact:
  "(duration_ms d = Inr ms \<longleftrightarrow>
      (\<exists>digits unit m. d = digits @ unit \<and> digits \<noteq> [] \<and> list_all is_digit digits \<and>
         (unit, m) \<in> {(''ms'', 1), (''s'', 1000), (''m'', 60000), (''h'', 3600000)} \<and>
         ms = int (digits_value digits) * m \<and> ms \<le> 2147483647)) \<and>
   (0 \<le> n \<and> n \<le> 2147483647 \<longrightarrow> duration_ms (int_string n @ ''ms'') = Inr n)"
proof (intro conjI impI)
  show "duration_ms d = Inr ms \<longleftrightarrow>
      (\<exists>digits unit m. d = digits @ unit \<and> digits \<noteq> [] \<and> list_all is_digit digits \<and>
         (unit, m) \<in> {(''ms'', 1), (''s'', 1000), (''m'', 60000), (''h'', 3600000)} \<and>
         ms = int (digits_value digits) * m \<and> ms \<le> 2147483647)" (is "?l \<longleftrightarrow> ?r")
  proof
    assume ?l
    then obtain m where "duration_multiplier (dropWhile is_digit d) = Some m"
      "takeWhile is_digit d \<noteq> []" "ms = int (digits_value (takeWhile is_digit d)) * m" "ms \<le> MAX_TIMER"
      by (auto simp: duration_ms_iff)
    then show ?r
      by (intro exI [of _ "takeWhile is_digit d"] exI [of _ "dropWhile is_digit d"] exI [of _ m])
        (auto simp: duration_multiplier_def MAX_TIMER_def list_all_iff dest: set_takeWhileD
          split: if_splits)
  next
    assume ?r
    then obtain digits unit m where d: "d = digits @ unit" "digits \<noteq> []" "list_all is_digit digits"
      "(unit, m) \<in> {(''ms'', 1), (''s'', 1000), (''m'', 60000), (''h'', 3600000)}"
      "ms = int (digits_value digits) * m" "ms \<le> 2147483647" by blast
    have "\<not> is_digit (hd unit)" "unit \<noteq> []" using d(4) by (auto simp: is_digit_def)
    then have "takeWhile is_digit d = digits" "dropWhile is_digit d = unit"
      using d(1,3) by (simp_all add: list_all_iff takeWhile_append dropWhile_append takeWhile_eq_Nil_iff
          dropWhile_eq_self_iff)
    with d show ?l by (auto simp: duration_ms_iff duration_multiplier_def MAX_TIMER_def)
  qed
  show "duration_ms (int_string n @ ''ms'') = Inr n" if "0 \<le> n \<and> n \<le> 2147483647"
    using that by (intro duration_ms_milliseconds) (simp_all add: MAX_TIMER_def)
qed

theorem duration_exact_witness: "duration_ms (int_string 300000 @ ''ms'') = Inr 300000"
  using duration_exact [of _ _ 300000] by simp



text \<open>
  C26: the scheduler never starves an accepted workflow: while some node is pending and every
  other one is pending or has succeeded, a node is executable; every node it returns is pending
  with all dependencies succeeded, and \<open>NodeReady\<close> is accepted for it.
\<close>

theorem scheduler_progress:
  assumes "assertWorkflowDefinition compiles w = Inr ()"
    and "\<forall>nid \<in> set (wf_nodeOrder w). map_option n_status (find_node s nid) \<in>
      {Some NodePendingStatus, Some NodeSucceededStatus}"
    and "\<exists>nid \<in> set (wf_nodeOrder w). map_option n_status (find_node s nid) = Some NodePendingStatus"
  shows "findExecutableNodes w s \<noteq> [] \<and>
    (\<forall>nid \<in> set (findExecutableNodes w s).
       (\<forall>nd. map_of (wf_nodes w) nid = Some nd \<longrightarrow> (\<forall>dep \<in> set (nd_needs nd). dependency_done s dep)) \<and>
       (\<exists>s'. applyNodeReady s nid DependenciesSatisfied = Inr s' \<and> nid \<in> set (findReadyNodes w s')))"
proof -
  from assms(3) obtain nid where "nid \<in> set (wf_nodeOrder w)"
    "map_option n_status (find_node s nid) = Some NodePendingStatus" by blast
  then have "findExecutableNodes w s \<noteq> []"
    by (intro scheduler_no_starvation [OF assms(1)]) (use assms(2) in blast)
  then show ?thesis
    using executable_becomes_ready [of _ w s]
    by (auto simp: findExecutableNodes_def list_all_iff)
qed

theorem scheduler_progress_witness:
  "\<exists>s. findExecutableNodes sample_definition s \<noteq> []"
proof -
  let ?s = "created_state \<lparr>ev_runId = ''r'', ev_sequence = 1, ev_payload = RunBlocked []\<rparr> ''i'' ''w'' ''1''
    [''a'', ''b''] []"
  note w = sample_definition_facts [THEN conjunct1] and order = sample_definition_facts [THEN conjunct2]
  have "map_option n_status (find_node ?s x) = Some NodePendingStatus" if "x \<in> {''a'', ''b''}" for x
    using that by (auto simp: created_state_def find_node_def js_key_order_def is_array_index_def
        is_digit_def new_node_def)
  with order scheduler_progress [OF w, of ?s] show ?thesis by auto
qed

end
