(* ===== verification/Event_Json.thy ===== *)
theory Event_Json
  imports Run_Replay Workflow_Types
begin

text \<open>
  The JSON values of the typed data: what \<open>canonicalJson\<close> is applied to when an event, a run state
  or a workflow is stored or digested (\<open>engine/src/durable-store.ts\<close>). An absent optional
  property is an absent field. \<open>canonical_order\<close> is the value that \<open>JSON.parse\<close> gives back for
  canonical text: the same value with the keys of every object in order.
\<close>

section \<open>Fields\<close>

definition opt_field :: "string \<Rightarrow> ('a \<Rightarrow> js) \<Rightarrow> 'a option \<Rightarrow> (string \<times> js) list" where
  "opt_field k f x = (case x of None \<Rightarrow> [] | Some v \<Rightarrow> [(k, f v)])"

definition str_array :: "string list \<Rightarrow> js" where
  "str_array xs = JArr (map JStr xs)"

section \<open>Names of the enumerations\<close>

fun workspace_mode_name :: "workspace_mode \<Rightarrow> string" where
  "workspace_mode_name MemoryMode = ''memory''"
| "workspace_mode_name ReadonlyMode = ''readonly''"
| "workspace_mode_name IsolatedMode = ''isolated''"

fun structured_output_name :: "structured_output \<Rightarrow> string" where
  "structured_output_name NativeOutput = ''native''"
| "structured_output_name PromptedOutput = ''prompted''"
| "structured_output_name NoOutput = ''none''"

fun usage_reporting_name :: "usage_reporting \<Rightarrow> string" where
  "usage_reporting_name TokensUsage = ''tokens''"
| "usage_reporting_name CostUsage = ''cost''"
| "usage_reporting_name PartialUsage = ''partial''"
| "usage_reporting_name NoUsage = ''none''"

fun difference_name :: "workspace_difference \<Rightarrow> string" where
  "difference_name DiffVersion = ''version''"
| "difference_name DiffWorkspaceId = ''workspace-id''"
| "difference_name DiffBaseCommit = ''base-commit''"
| "difference_name DiffHeadCommit = ''head-commit''"
| "difference_name DiffDigest = ''diff-digest''"
| "difference_name DiffChangedFiles = ''changed-files''"
| "difference_name DiffIgnoredContent = ''ignored-content''"
| "difference_name DiffRepository = ''repository''"
| "difference_name DiffWorkspacePath = ''workspace-path''"
| "difference_name DiffBranch = ''branch''"
| "difference_name DiffOwnershipManifest = ''ownership-manifest''"
| "difference_name DiffWorktreeRegistration = ''worktree-registration''"

fun failure_category_name :: "failure_category \<Rightarrow> string" where
  "failure_category_name RuntimeUnavailable = ''runtime-unavailable''"
| "failure_category_name ModelProvider = ''model-provider''"
| "failure_category_name ToolFailure = ''tool''"
| "failure_category_name SchemaViolation = ''schema-violation''"
| "failure_category_name VerificationFailure = ''verification''"
| "failure_category_name BudgetExhausted = ''budget-exhausted''"
| "failure_category_name PolicyViolation = ''policy-violation''"
| "failure_category_name WorkspaceConflict = ''workspace-conflict''"
| "failure_category_name HumanRejection = ''human-rejection''"
| "failure_category_name UnknownInternal = ''unknown-internal''"

fun result_status_name :: "result_status \<Rightarrow> string" where
  "result_status_name ResSucceeded = ''succeeded''"
| "result_status_name ResFailed = ''failed''"
| "result_status_name ResBlocked = ''blocked''"
| "result_status_name ResCancelled = ''cancelled''"

fun observation_reason_name :: "execution_observation_reason \<Rightarrow> string" where
  "observation_reason_name InvalidRecord = ''invalid-record''"
| "observation_reason_name IdentityMismatch = ''identity-mismatch''"
| "observation_reason_name BootMismatch = ''boot-mismatch''"
| "observation_reason_name SupervisorUnreachable = ''supervisor-unreachable''"
| "observation_reason_name SupervisorLost = ''supervisor-lost''"
| "observation_reason_name CleanupUnconfirmed = ''cleanup-unconfirmed''"

fun run_status_name :: "run_status \<Rightarrow> string" where
  "run_status_name RunRunning = ''running''"
| "run_status_name RunIsBlocked = ''blocked''"
| "run_status_name RunSucceeded = ''succeeded''"
| "run_status_name RunFailed = ''failed''"
| "run_status_name RunIsPaused = ''paused''"
| "run_status_name RunIsCancelled = ''cancelled''"
| "run_status_name RunRecoveryBlockedStatus = ''recovery-blocked''"

fun node_status_name :: "node_status \<Rightarrow> string" where
  "node_status_name NodePendingStatus = ''pending''"
| "node_status_name NodeReadyStatus = ''ready''"
| "node_status_name NodeRunningStatus = ''running''"
| "node_status_name NodeBlockedStatus = ''blocked''"
| "node_status_name NodeSucceededStatus = ''succeeded''"
| "node_status_name NodeFailedStatus = ''failed''"
| "node_status_name NodePausedStatus = ''paused''"
| "node_status_name NodeCancelledStatus = ''cancelled''"

fun attempt_status_name :: "attempt_status \<Rightarrow> string" where
  "attempt_status_name Scheduled = ''scheduled''"
| "attempt_status_name Prepared = ''prepared''"
| "attempt_status_name Running = ''running''"
| "attempt_status_name Orphaned = ''orphaned''"
| "attempt_status_name Blocked = ''blocked''"
| "attempt_status_name Succeeded = ''succeeded''"
| "attempt_status_name Failed = ''failed''"
| "attempt_status_name Cancelled = ''cancelled''"

fun cancellation_name :: "cancellation_outcome \<Rightarrow> string" where
  "cancellation_name CancelSucceeded = ''succeeded''"
| "cancellation_name CancelFailed = ''failed''"
| "cancellation_name CancelUnavailable = ''unavailable''"

fun cause_name :: "cleanup_cause \<Rightarrow> string" where
  "cause_name PauseCause = ''pause''"
| "cause_name CancelCause = ''cancel''"
| "cause_name TimeoutCause = ''timeout''"
| "cause_name RecoveryCause = ''recovery''"

fun cleanup_name :: "cleanup_outcome \<Rightarrow> string" where
  "cleanup_name ConfirmedCleanup = ''confirmed''"
| "cleanup_name UnknownCleanup = ''unknown''"

fun orphan_name :: "orphan_reason \<Rightarrow> string" where
  "orphan_name CoordinatorLost = ''coordinator-lost''"
| "orphan_name LaunchInterrupted = ''launch-interrupted''"

fun ready_name :: "ready_reason \<Rightarrow> string" where
  "ready_name DependenciesSatisfied = ''dependencies-satisfied''"
| "ready_name RetryReason = ''retry''"
| "ready_name ResumedReason = ''resumed''"
| "ready_name RecoveredReason = ''recovered''"

fun action_name :: "control_action \<Rightarrow> string" where
  "action_name PauseAction = ''pause''"
| "action_name CancelAction = ''cancel''"

fun kind_name :: "execution_kind \<Rightarrow> string" where
  "kind_name RuntimeKind = ''runtime''"
| "kind_name CommandKind = ''command''"

section \<open>Contract values\<close>

definition capabilities_js :: "runtime_capabilities \<Rightarrow> js" where
  "capabilities_js c = JObj
     ([(''streaming'', JBool (cap_streaming c)), (''cancellation'', JBool (cap_cancellation c)),
       (''resumableSession'', JBool (cap_resumableSession c)),
       (''nativeSubagents'', JBool (cap_nativeSubagents c)), (''mcp'', JBool (cap_mcp c)),
       (''lsp'', JBool (cap_lsp c)), (''debugger'', JBool (cap_debugger c)),
       (''browser'', JBool (cap_browser c)),
       (''structuredOutput'', JStr (structured_output_name (cap_structuredOutput c))),
       (''usageReporting'', JStr (usage_reporting_name (cap_usageReporting c))),
       (''sandboxing'', str_array (cap_sandboxing c))] @
      opt_field ''workspaceModes'' (\<lambda>ms. str_array (map workspace_mode_name ms)) (cap_workspaceModes c))"

definition negotiation_js :: "runtime_negotiation \<Rightarrow> js" where
  "negotiation_js n = JObj
     [(''version'', JStr (ng_version n)), (''runtimeId'', JStr (ng_runtimeId n)),
      (''requirements'', JObj
         [(''workspaceMode'', JStr (workspace_mode_name (ng_workspaceMode n))),
          (''cancellation'', JBool (ng_cancellation n)),
          (''structuredOutput'', JStr (ng_structuredOutput n))]),
      (''capabilities'', capabilities_js (ng_capabilities n))]"

fun workspace_js :: "workspace_ref \<Rightarrow> js" where
  "workspace_js (MemoryWorkspace i) = JObj [(''id'', JStr i), (''mode'', JStr ''memory'')]"
| "workspace_js (ReadonlyWorkspace i root path base) = JObj
     [(''id'', JStr i), (''mode'', JStr ''readonly''), (''repoRoot'', JStr root), (''path'', JStr path),
      (''baseCommit'', JStr base)]"
| "workspace_js (IsolatedWorkspace i root path base branch) = JObj
     [(''id'', JStr i), (''mode'', JStr ''isolated''), (''repoRoot'', JStr root), (''path'', JStr path),
      (''baseCommit'', JStr base), (''branch'', JStr branch)]"

definition artifact_js :: "artifact_ref \<Rightarrow> js" where
  "artifact_js a = JObj
     [(''id'', JStr (ar_id a)), (''type'', JStr (ar_type a)), (''mediaType'', JStr (ar_mediaType a)),
      (''uri'', JStr (ar_uri a)), (''digest'', JStr (ar_digest a)),
      (''producer'', JObj
         [(''runId'', JStr (pr_runId (ar_producer a))), (''nodeId'', JStr (pr_nodeId (ar_producer a))),
          (''attempt'', JInt (pr_attempt (ar_producer a)))])]"

definition checkpoint_js :: "workspace_checkpoint \<Rightarrow> js" where
  "checkpoint_js c = JObj
     ([(''version'', JStr (wc_version c)), (''workspaceId'', JStr (wc_workspaceId c)),
       (''baseCommit'', JStr (wc_baseCommit c)), (''headCommit'', JStr (wc_headCommit c)),
       (''diffDigest'', JStr (wc_diffDigest c)), (''changedFiles'', str_array (wc_changedFiles c)),
       (''ignoredDigest'', JStr (wc_ignoredDigest c)),
       (''ignoredEntryCount'', JInt (wc_ignoredEntryCount c)),
       (''ignoredByteCount'', JInt (wc_ignoredByteCount c)),
       (''ownership'', (let w = wc_ownership c in JObj
          [(''repositoryRoot'', JStr (ow_repositoryRoot w)),
           (''repositoryCommonDirectory'', JStr (ow_repositoryCommonDirectory w)),
           (''workspacePath'', JStr (ow_workspacePath w)),
           (''workspaceGitDirectory'', JStr (ow_workspaceGitDirectory w)),
           (''branch'', JStr (ow_branch w)), (''manifestDigest'', JStr (ow_manifestDigest w)),
           (''registrationDigest'', JStr (ow_registrationDigest w))]))] @
      opt_field ''diffArtifactId'' JStr (wc_diffArtifactId c))"

definition failure_js :: "execution_failure \<Rightarrow> js" where
  "failure_js f = JObj
     [(''category'', JStr (failure_category_name (f_category f))), (''message'', JStr (f_message f))]"

definition metadata_js :: "runtime_metadata \<Rightarrow> js" where
  "metadata_js m = JObj
     ([(''type'', JStr ''metadata''), (''provider'', JStr (md_provider m)), (''model'', JStr (md_model m))] @
      opt_field ''source'' (\<lambda>s. JStr (case s of ConfiguredSource \<Rightarrow> ''configured''
         | ReportedSource \<Rightarrow> ''reported'')) (md_source m) @
      opt_field ''runtimeVersion'' JStr (md_runtimeVersion m))"

definition usage_js :: "runtime_usage \<Rightarrow> js" where
  "usage_js u = JObj
     ([(''type'', JStr ''usage''), (''scope'', JStr ''attempt''),
       (''coverage'', JStr (case us_coverage u of CompleteCoverage \<Rightarrow> ''complete''
          | PartialCoverage \<Rightarrow> ''partial''))] @
      opt_field ''inputTokens'' JInt (us_inputTokens u) @
      opt_field ''outputTokens'' JInt (us_outputTokens u) @
      opt_field ''cacheReadTokens'' JInt (us_cacheReadTokens u) @
      opt_field ''cacheWriteTokens'' JInt (us_cacheWriteTokens u) @
      opt_field ''reasoningTokens'' JInt (us_reasoningTokens u) @
      opt_field ''totalTokens'' JInt (us_totalTokens u))"

fun observation_js :: "runtime_event \<Rightarrow> js" where
  "observation_js StartedEvent = JObj [(''type'', JStr ''started'')]"
| "observation_js (LogEvent msg dropped) =
     JObj ([(''type'', JStr ''log''), (''message'', JStr msg)] @ opt_field ''droppedLogs'' JInt dropped)"
| "observation_js (MetadataEvent m) = metadata_js m"
| "observation_js (UsageEvent u) = usage_js u"
| "observation_js (CompletedEvent st) =
     JObj [(''type'', JStr ''completed''), (''status'', JStr (result_status_name st))]"

definition command_report_js :: "command_report \<Rightarrow> js" where
  "command_report_js c = JObj
     [(''passed'', JBool (cr_passed c)), (''exitCode'', case_option JNull JInt (cr_exitCode c)),
      (''signal'', case_option JNull JStr (cr_signal c)), (''durationMs'', JInt (cr_durationMs c)),
      (''stdoutBytes'', JInt (cr_stdoutBytes c)), (''stderrBytes'', JInt (cr_stderrBytes c)),
      (''stdoutTruncated'', JBool (cr_stdoutTruncated c)),
      (''stderrTruncated'', JBool (cr_stderrTruncated c))]"

definition plan_fields :: "'a execution_plan_ref_scheme \<Rightarrow> (string \<times> js) list" where
  "plan_fields x =
     [(''version'', JStr (ex_version x)), (''runId'', JStr (ex_runId x)),
      (''executionId'', JStr (ex_executionId x)), (''kind'', JStr (kind_name (ex_kind x))),
      (''generation'', JInt (ex_generation x)), (''planDigest'', JStr (ex_planDigest x))]"

definition plan_js :: "execution_plan_ref \<Rightarrow> js" where
  "plan_js x = JObj (plan_fields x)"

definition execution_js :: "persisted_execution_ref \<Rightarrow> js" where
  "execution_js x = JObj (plan_fields x @ [(''manifestDigest'', JStr (ex_manifestDigest x))])"

fun pause_reason_js :: "pause_reason \<Rightarrow> js" where
  "pause_reason_js (OperatorPause opId) = JObj [(''kind'', JStr ''operator''), (''operationId'', JStr opId)]"
| "pause_reason_js (WorkspaceConflictPause ds) =
     JObj [(''kind'', JStr ''workspace-conflict''), (''differences'', str_array (map difference_name ds))]"
| "pause_reason_js (BudgetExhaustedPause nid n) =
     JObj [(''kind'', JStr ''attempt-budget-exhausted''), (''nodeId'', JStr nid), (''attempts'', JInt n)]"
| "pause_reason_js (RuntimeUnavailablePause rt) =
     JObj [(''kind'', JStr ''runtime-unavailable''), (''runtimeId'', JStr rt)]"
| "pause_reason_js (PolicyViolationPause rt) =
     JObj [(''kind'', JStr ''policy-violation''), (''runtimeId'', JStr rt)]"

fun recovery_reason_js :: "recovery_block_reason \<Rightarrow> js" where
  "recovery_reason_js (ExecutionUnknown eid detail) = JObj
     [(''kind'', JStr ''execution-unknown''), (''executionId'', JStr eid),
      (''detail'', JStr (observation_reason_name detail))]"
| "recovery_reason_js (CleanupUnknown eid) =
     JObj [(''kind'', JStr ''cleanup-unknown''), (''executionId'', JStr eid)]"

definition orphan_fields :: "orphan_evidence \<Rightarrow> (string \<times> js) list" where
  "orphan_fields e =
     [(''executionId'', JStr (or_executionId e)), (''lostGeneration'', JInt (or_lostGeneration e)),
      (''reason'', JStr (orphan_name (or_reason e))),
      (''workspaceObservation'', checkpoint_js (or_workspaceObservation e)),
      (''workspaceDifferences'', str_array (map difference_name (or_workspaceDifferences e)))] @
     opt_field ''terminalArtifactId'' JStr (or_terminalArtifactId e)"

section \<open>Events\<close>

fun event_type :: "run_event_payload \<Rightarrow> string" where
  "event_type (RuntimeNegotiated _) = ''RuntimeNegotiated''"
| "event_type (RuntimeConfigured _) = ''RuntimeConfigured''"
| "event_type (WorkspaceAssigned _) = ''WorkspaceAssigned''"
| "event_type (ArtifactProduced _ _ _) = ''ArtifactProduced''"
| "event_type (WorkspaceObserved _ _ _ _ _) = ''WorkspaceObserved''"
| "event_type (CommandCompleted _ _ _) = ''CommandCompleted''"
| "event_type (AttemptTimeoutRequested _ _) = ''AttemptTimeoutRequested''"
| "event_type (AttemptCancellationCompleted _ _ _) = ''AttemptCancellationCompleted''"
| "event_type (LateResultObserved _ _ _) = ''LateResultObserved''"
| "event_type (RunCreated _ _ _ _ _) = ''RunCreated''"
| "event_type (NodeReady _ _) = ''NodeReady''"
| "event_type (AttemptScheduled _ _ _) = ''AttemptScheduled''"
| "event_type (AttemptPrepared _ _ _ _) = ''AttemptPrepared''"
| "event_type (AttemptStartAuthorized _ _ _) = ''AttemptStartAuthorized''"
| "event_type (AttemptStarted _ _) = ''AttemptStarted''"
| "event_type (RuntimeEventObserved _ _ _) = ''RuntimeEventObserved''"
| "event_type (AttemptSucceeded _ _ _) = ''AttemptSucceeded''"
| "event_type (AttemptFailed _ _ _) = ''AttemptFailed''"
| "event_type (AttemptBlocked _ _ _) = ''AttemptBlocked''"
| "event_type (AttemptCancelled _ _ _) = ''AttemptCancelled''"
| "event_type (AttemptOrphaned _ _ _) = ''AttemptOrphaned''"
| "event_type (ControlRequestObserved _ _ _) = ''ControlRequestObserved''"
| "event_type (ExecutionCleanupObserved _ _ _ _ _) = ''ExecutionCleanupObserved''"
| "event_type (NodeSucceeded _) = ''NodeSucceeded''"
| "event_type (NodeFailed _ _) = ''NodeFailed''"
| "event_type (NodeBlocked _ _) = ''NodeBlocked''"
| "event_type (NodePaused _ _) = ''NodePaused''"
| "event_type (NodeCancelled _ _) = ''NodeCancelled''"
| "event_type (RunPaused _) = ''RunPaused''"
| "event_type (RunResumed _) = ''RunResumed''"
| "event_type (RunRecoveryBlocked _ _) = ''RunRecoveryBlocked''"
| "event_type (RunBlocked _) = ''RunBlocked''"
| "event_type (RunCancelled _ _) = ''RunCancelled''"
| "event_type (RunCompleted _) = ''RunCompleted''"

definition node_field :: "string \<Rightarrow> string \<times> js" where
  "node_field nid = (''nodeId'', JStr nid)"

definition attempt_fields :: "string \<Rightarrow> int \<Rightarrow> (string \<times> js) list" where
  "attempt_fields nid n = [node_field nid, (''attempt'', JInt n)]"

fun payload_fields :: "run_event_payload \<Rightarrow> (string \<times> js) list" where
  "payload_fields (RuntimeNegotiated n) = [(''negotiation'', negotiation_js n)]"
| "payload_fields (RuntimeConfigured d) = [(''descriptor'', descriptor_js d)]"
| "payload_fields (WorkspaceAssigned w) = [(''workspace'', workspace_js w)]"
| "payload_fields (ArtifactProduced nid n a) = attempt_fields nid n @ [(''artifact'', artifact_js a)]"
| "payload_fields (WorkspaceObserved nid n hc fs aid) = attempt_fields nid n @
     [(''headCommit'', JStr hc), (''changedFiles'', str_array fs), (''diffArtifactId'', JStr aid)]"
| "payload_fields (CommandCompleted nid n out) = attempt_fields nid n @ [(''output'', command_report_js out)]"
| "payload_fields (AttemptTimeoutRequested nid n) = attempt_fields nid n"
| "payload_fields (AttemptCancellationCompleted nid n oc) =
     attempt_fields nid n @ [(''outcome'', JStr (cancellation_name oc))]"
| "payload_fields (LateResultObserved nid n st) =
     attempt_fields nid n @ [(''status'', JStr (result_status_name st))]"
| "payload_fields (RunCreated inst wid ver nodeIds inputs) =
     [(''workflowInstanceId'', JStr inst), (''workflowId'', JStr wid), (''workflowVersion'', JStr ver),
      (''nodeIds'', str_array nodeIds), (''inputs'', JObj inputs)]"
| "payload_fields (NodeReady nid r) = [node_field nid, (''reason'', JStr (ready_name r))]"
| "payload_fields (AttemptScheduled nid n rt) = attempt_fields nid n @ [(''runtimeId'', JStr rt)]"
| "payload_fields (AttemptPrepared nid n plan cp) =
     attempt_fields nid n @ [(''execution'', plan_js plan), (''workspaceCheckpoint'', checkpoint_js cp)]"
| "payload_fields (AttemptStartAuthorized nid n x) = attempt_fields nid n @ [(''execution'', execution_js x)]"
| "payload_fields (AttemptStarted nid n) = attempt_fields nid n"
| "payload_fields (RuntimeEventObserved nid n e) = attempt_fields nid n @ [(''event'', observation_js e)]"
| "payload_fields (AttemptSucceeded nid n out) = attempt_fields nid n @ [(''output'', out)]"
| "payload_fields (AttemptFailed nid n f) = attempt_fields nid n @ [(''failure'', failure_js f)]"
| "payload_fields (AttemptBlocked nid n r) = attempt_fields nid n @ [(''reason'', JStr r)]"
| "payload_fields (AttemptCancelled nid n r) = attempt_fields nid n @ [(''reason'', JStr r)]"
| "payload_fields (AttemptOrphaned nid n e) = attempt_fields nid n @ orphan_fields e"
| "payload_fields (ControlRequestObserved opId action t) =
     [(''operationId'', JStr opId), (''action'', JStr (action_name action)), (''recordedAtMs'', JInt t)]"
| "payload_fields (ExecutionCleanupObserved nid n eid cause oc) = attempt_fields nid n @
     [(''executionId'', JStr eid), (''cause'', JStr (cause_name cause)), (''outcome'', JStr (cleanup_name oc))]"
| "payload_fields (NodeSucceeded nid) = [node_field nid]"
| "payload_fields (NodeFailed nid f) = [node_field nid, (''failure'', failure_js f)]"
| "payload_fields (NodeBlocked nid r) = [node_field nid, (''reason'', JStr r)]"
| "payload_fields (NodePaused nid r) = node_field nid # opt_field ''reason'' pause_reason_js r"
| "payload_fields (NodeCancelled nid r) = [node_field nid, (''reason'', JStr r)]"
| "payload_fields (RunPaused r) = opt_field ''reason'' pause_reason_js r"
| "payload_fields (RunResumed opId) = opt_field ''operationId'' JStr opId"
| "payload_fields (RunRecoveryBlocked opId r) =
     [(''operationId'', JStr opId), (''reason'', recovery_reason_js r)]"
| "payload_fields (RunBlocked r) = [(''reason'', JStr r)]"
| "payload_fields (RunCancelled opId r) = opt_field ''operationId'' JStr opId @ [(''reason'', JStr r)]"
| "payload_fields (RunCompleted out) =
     [(''outcome'', JStr (case out of OutcomeSucceeded \<Rightarrow> ''succeeded'' | OutcomeFailed \<Rightarrow> ''failed''))]"

definition event_js :: "run_event \<Rightarrow> js" where
  "event_js e = JObj
     ((''type'', JStr (event_type (ev_payload e))) # payload_fields (ev_payload e) @
      [(''runId'', JStr (ev_runId e)), (''sequence'', JInt (ev_sequence e))])"

section \<open>Run states\<close>

definition attempt_js :: "attempt_state \<Rightarrow> js" where
  "attempt_js a = JObj
     ([(''number'', JInt (a_number a)), (''runtimeId'', JStr (a_runtimeId a)),
       (''status'', JStr (attempt_status_name (a_status a)))] @
      opt_field ''failure'' failure_js (a_failure a) @
      opt_field ''identity'' (\<lambda>ms. JArr (map metadata_js ms)) (a_identity a) @
      opt_field ''usage'' usage_js (a_usage a) @
      opt_field ''timeout'' (\<lambda>t. JObj
        (opt_field ''cancellation'' (\<lambda>c. JStr (cancellation_name c)) (to_cancellation t) @
         opt_field ''lateStatus'' (\<lambda>st. JStr (result_status_name st)) (to_lateStatus t))) (a_timeout a) @
      opt_field ''executionPlan'' plan_js (a_executionPlan a) @
      opt_field ''execution'' execution_js (a_execution a) @
      opt_field ''workspaceCheckpoint'' checkpoint_js (a_workspaceCheckpoint a) @
      opt_field ''cleanup'' (\<lambda>cs. JArr (map (\<lambda>c. JObj
        [(''executionId'', JStr (cl_executionId c)), (''cause'', JStr (cause_name (cl_cause c))),
         (''outcome'', JStr (cleanup_name (cl_outcome c)))]) cs)) (a_cleanup a) @
      opt_field ''orphan'' (\<lambda>e. JObj (orphan_fields e)) (a_orphan a))"

definition node_js :: "node_run_state \<Rightarrow> js" where
  "node_js nd = JObj
     ([(''id'', JStr (n_id nd)), (''status'', JStr (node_status_name (n_status nd))),
       (''attempts'', JArr (map attempt_js (n_attempts nd)))] @
      opt_field ''output'' id (n_output nd) @
      opt_field ''failure'' failure_js (n_failure nd) @
      opt_field ''blockedReason'' JStr (n_blockedReason nd) @
      opt_field ''command'' command_report_js (n_command nd) @
      opt_field ''pauseReason'' pause_reason_js (n_pauseReason nd))"

definition state_js :: "run_state \<Rightarrow> js" where
  "state_js s = JObj
     ([(''runId'', JStr (rs_runId s)), (''workflowInstanceId'', JStr (rs_workflowInstanceId s)),
       (''workflowId'', JStr (rs_workflowId s)), (''workflowVersion'', JStr (rs_workflowVersion s)),
       (''status'', JStr (run_status_name (rs_status s))), (''sequence'', JInt (rs_sequence s)),
       (''inputs'', JObj (rs_inputs s)), (''nodes'', JObj (map (\<lambda>(k, nd). (k, node_js nd)) (rs_nodes s)))] @
      opt_field ''workspace'' workspace_js (rs_workspace s) @
      opt_field ''runtimeNegotiation'' negotiation_js (rs_runtimeNegotiation s) @
      opt_field ''runtimeDescriptor'' descriptor_js (rs_runtimeDescriptor s) @
      opt_field ''pauseReason'' pause_reason_js (rs_pauseReason s) @
      opt_field ''recoveryBlock'' (\<lambda>b. JObj
        [(''operationId'', JStr (rb_operationId b)), (''reason'', recovery_reason_js (rb_reason b))])
        (rs_recoveryBlock s) @
      opt_field ''artifacts'' (\<lambda>xs. JArr (map artifact_js xs)) (rs_artifacts s) @
      opt_field ''workspaceObservation'' (\<lambda>w. JObj
        [(''headCommit'', JStr (wo_headCommit w)), (''changedFiles'', str_array (wo_changedFiles w)),
         (''diffArtifactId'', JStr (wo_diffArtifactId w))]) (rs_workspaceObservation s))"

section \<open>Workflow definitions\<close>

definition budget_js :: "attempt_budget \<Rightarrow> js" where
  "budget_js b = JObj ((''maxAttempts'', JInt (ab_maxAttempts b)) #
     opt_field ''maxDurationMs'' JInt (ab_maxDurationMs b))"

definition schema_fields :: "'a resolved_schema_scheme \<Rightarrow> (string \<times> js) list" where
  "schema_fields r = [(''ref'', JStr (sc_ref r)), (''schema'', sc_schema r)]"

definition workflow_node_js :: "workflow_node \<Rightarrow> js" where
  "workflow_node_js nd = JObj
     ([(''id'', JStr (nd_id nd)),
       (''kind'', JStr (case nd_kind nd of AgentNode \<Rightarrow> ''agent'' | CommandNode \<Rightarrow> ''command''
          | GateNode \<Rightarrow> ''gate'' | VerifierNode \<Rightarrow> ''verifier'')),
       (''needs'', str_array (nd_needs nd))] @
      opt_field ''role'' JStr (nd_role nd) @
      [(''output'', JObj (schema_fields (nd_output nd))), (''attemptBudget'', budget_js (nd_attemptBudget nd))] @
      opt_field ''mutation'' (\<lambda>m. JStr (case m of ReadonlyMutation \<Rightarrow> ''readonly''
         | IsolatedMutation \<Rightarrow> ''isolated'')) (nd_mutation nd) @
      opt_field ''command'' (\<lambda>c. JObj
        [(''argv'', str_array (cm_argv c)), (''cwd'', JStr (cm_cwd c)),
         (''maxDurationMs'', JInt (cm_maxDurationMs c)), (''maxOutputBytes'', JInt (cm_maxOutputBytes c))])
        (nd_command nd))"

definition workflow_js :: "workflow_definition \<Rightarrow> js" where
  "workflow_js d = JObj
     ([(''apiVersion'', JStr (wf_apiVersion d)), (''kind'', JStr (wf_kind d)),
       (''metadata'', JObj [(''id'', JStr (wm_id (wf_metadata d))), (''version'', JStr (wm_version (wf_metadata d)))]),
       (''sourcePath'', JStr (wf_sourcePath d)),
       (''inputs'', JObj (map (\<lambda>(k, i). (k, JObj ((''id'', JStr (in_id i)) # schema_fields i))) (wf_inputs d))),
       (''policies'', JObj [(''defaultAttemptBudget'', budget_js (wf_defaultAttemptBudget d))]),
       (''nodeOrder'', str_array (wf_nodeOrder d)),
       (''nodes'', JObj (map (\<lambda>(k, nd). (k, workflow_node_js nd)) (wf_nodes d)))] @
      opt_field ''task'' (\<lambda>t. JObj
        [(''objective'', JStr (tk_objective t)), (''acceptanceCriteria'', str_array (tk_acceptanceCriteria t))])
        (wf_task d))"

end
