(* ===== verification/Store_Types.thy ===== *)
theory Store_Types
  imports Event_Json Workflow_Normalize
begin

text \<open>
  The durable storage boundary of \<open>engine/src/durable-store.ts\<close>: leases and fences, snapshots,
  mutations and controls, with their validation. The environment holds what the store gets from
  Node: SHA-256, the JSON Schema compiler and the collation key behind \<open>localeCompare\<close>.
\<close>

section \<open>Records\<close>

record store_env =
  en_sha256 :: "string \<Rightarrow> string"
  en_compiles :: "js \<Rightarrow> bool"
  en_collate :: "string \<Rightarrow> string"

record local_process_identity =
  lp_version :: string
  lp_hostIdentityDigest :: string
  lp_bootIdentityDigest :: string
  lp_pid :: int
  lp_startToken :: string

record run_lease =
  le_runId :: string
  le_ownerId :: string
  le_owner :: local_process_identity
  le_generation :: int
  le_acquiredAtMs :: int
  le_renewedAtMs :: int
  le_expiresAtMs :: int
  le_released :: bool

record run_lease_token =
  lt_runId :: string
  lt_ownerId :: string
  lt_generation :: int

record run_snapshot =
  sn_version :: string
  sn_reducerVersion :: string
  sn_runId :: string
  sn_definitionDigest :: string
  sn_sequence :: int
  sn_stateJson :: string
  sn_stateDigest :: string
  sn_eventPrefixDigest :: string

record create_owned_run =
  co_runId :: string
  co_workflow :: workflow_definition
  co_initialEvents :: "run_event list"
  co_ownerId :: string
  co_owner :: local_process_identity
  co_operationId :: string
  co_snapshot :: run_snapshot

record acquire_released_run =
  aq_runId :: string
  aq_ownerId :: string
  aq_owner :: local_process_identity

record takeover_expired_run = acquire_released_run +
  aq_observedLease :: run_lease
  aq_absenceObservedAtMs :: int

record fenced_run_mutation =
  mu_lease :: run_lease_token
  mu_operationId :: string
  mu_expectedSequence :: int
  mu_events :: "run_event list"
  mu_snapshot :: "run_snapshot option"
  mu_handlesControl :: "string option"

record mutation_receipt =
  mr_runId :: string
  mr_operationId :: string
  mr_firstSequence :: int
  mr_lastSequence :: int
  mr_replayed :: bool

record control_submission =
  ct_runId :: string
  ct_operationId :: string
  ct_action :: control_action

record control_request = control_submission +
  ct_recordedAtMs :: int

record loaded_run =
  ld_workflow :: workflow_definition
  ld_state :: run_state
  ld_eventPrefixDigest :: string
  ld_snapshotSequence :: "int option"
  ld_events :: "run_event list"

section \<open>Errors\<close>

datatype run_store_error_code =
    NotFound | OwnershipConflict | LeaseExpired | SequenceConflict | IdempotencyConflict
  | ControlConflict | BusyStore | CorruptStore

datatype store_error =
    StoreError run_store_error_code
  | InvalidArgument
  | HistoryError reducer_error
  | DefinitionError workflow_error
  | SerializationError

definition map_error :: "('e \<Rightarrow> 'f) \<Rightarrow> 'e + 'a \<Rightarrow> 'f + 'a" where
  "map_error f r = (case r of Inl e \<Rightarrow> Inl (f e) | Inr x \<Rightarrow> Inr x)"

lemma map_error_Inr_iff [result_simps]: "map_error f r = Inr x \<longleftrightarrow> r = Inr x"
  by (simp add: map_error_def split: sum.splits)

definition some_or :: "'e \<Rightarrow> 'a option \<Rightarrow> 'e + 'a" where
  "some_or e x = (case x of None \<Rightarrow> Inl e | Some v \<Rightarrow> Inr v)"

lemma some_or_Inr_iff [result_simps]: "some_or e x = Inr v \<longleftrightarrow> x = Some v"
  by (simp add: some_or_def split: option.splits)

section \<open>Validation\<close>

definition valid_timestamp :: "int \<Rightarrow> bool" where
  "valid_timestamp t \<longleftrightarrow> is_safe_integer t \<and> 1 \<le> t"

definition valid_process_identity :: "local_process_identity \<Rightarrow> bool" where
  "valid_process_identity p \<longleftrightarrow>
     lp_version p = ''anastom.dev/local-process/v1alpha1'' \<and>
     is_digest (lp_hostIdentityDigest p) \<and> is_digest (lp_bootIdentityDigest p) \<and>
     is_safe_integer (lp_pid p) \<and> 1 \<le> lp_pid p \<and>
     1 \<le> length (lp_startToken p) \<and> byte_length (lp_startToken p) \<le> 256 \<and>
     CHR 0x00 \<notin> set (lp_startToken p)"

definition valid_lease_token :: "run_lease_token \<Rightarrow> bool" where
  "valid_lease_token t \<longleftrightarrow>
     is_identifier (lt_runId t) \<and> is_uuid (lt_ownerId t) \<and>
     is_safe_integer (lt_generation t) \<and> 1 \<le> lt_generation t"

definition tokenFor :: "run_lease \<Rightarrow> run_lease_token" where
  "tokenFor l = \<lparr>lt_runId = le_runId l, lt_ownerId = le_ownerId l, lt_generation = le_generation l\<rparr>"

definition valid_run_lease :: "run_lease \<Rightarrow> bool" where
  "valid_run_lease l \<longleftrightarrow>
     valid_lease_token (tokenFor l) \<and> valid_process_identity (le_owner l) \<and>
     valid_timestamp (le_acquiredAtMs l) \<and> valid_timestamp (le_renewedAtMs l) \<and>
     valid_timestamp (le_expiresAtMs l) \<and>
     le_acquiredAtMs l \<le> le_renewedAtMs l \<and> le_renewedAtMs l \<le> le_expiresAtMs l"

definition validateAcquisition :: "'a acquire_released_run_scheme \<Rightarrow> store_error + unit" where
  "validateAcquisition i =
     check (is_identifier (aq_runId i) \<and> is_uuid (aq_ownerId i) \<and> valid_process_identity (aq_owner i))
       InvalidArgument"

definition validateMutation :: "fenced_run_mutation \<Rightarrow> store_error + unit" where
  "validateMutation m =
     bindE (check (valid_lease_token (mu_lease m) \<and> is_identifier (mu_operationId m) \<and>
                   is_safe_integer (mu_expectedSequence m) \<and> 0 \<le> mu_expectedSequence m \<and>
                   mu_events m \<noteq> []) InvalidArgument) (\<lambda>_.
     bindE (check (list_all (\<lambda>(i, e).
                     is_safe_integer (mu_expectedSequence m + int i + 1) \<and>
                     ev_runId e = lt_runId (mu_lease m) \<and>
                     ev_sequence e = mu_expectedSequence m + int i + 1)
                   (enumerate 0 (mu_events m))) InvalidArgument) (\<lambda>_.
     check (pred_option is_identifier (mu_handlesControl m)) InvalidArgument))"

definition validateControlSubmission :: "'a control_submission_scheme \<Rightarrow> store_error + unit" where
  "validateControlSubmission c =
     check (is_identifier (ct_runId c) \<and> is_identifier (ct_operationId c)) InvalidArgument"

definition assertControlLimit :: "int \<Rightarrow> store_error + unit" where
  "assertControlLimit limit =
     check (is_safe_integer limit \<and> 1 \<le> limit \<and> limit \<le> 100) InvalidArgument"

section \<open>The clock and leases\<close>

definition RUN_LEASE_DURATION_MS :: int where
  "RUN_LEASE_DURATION_MS = 15000"

definition validateClock :: "int \<Rightarrow> store_error + int" where
  "validateClock now = bindE (check (valid_timestamp now) InvalidArgument) (\<lambda>_. Inr now)"

definition leaseExpiry :: "int \<Rightarrow> store_error + int" where
  "leaseExpiry now =
     bindE (check (valid_timestamp (now + RUN_LEASE_DURATION_MS)) InvalidArgument) (\<lambda>_.
     Inr (now + RUN_LEASE_DURATION_MS))"

definition nextGeneration :: "int \<Rightarrow> store_error + int" where
  "nextGeneration g =
     bindE (check (is_safe_integer (g + 1)) (StoreError CorruptStore)) (\<lambda>_. Inr (g + 1))"

section \<open>Snapshots\<close>

definition RUN_SNAPSHOT_MAX_BYTES :: int where
  "RUN_SNAPSHOT_MAX_BYTES = 4 * 1024 * 1024"

definition assertStateMatchesWorkflow :: "run_state \<Rightarrow> workflow_definition \<Rightarrow> store_error + unit" where
  "assertStateMatchesWorkflow s w =
     check (rs_workflowId s = wm_id (wf_metadata w) \<and> rs_workflowVersion s = wm_version (wf_metadata w) \<and>
            sort (map fst (rs_nodes s)) = sort (wf_nodeOrder w)) InvalidArgument"

definition EMPTY_EVENT_HISTORY_DIGEST :: "store_env \<Rightarrow> string" where
  "EMPTY_EVENT_HISTORY_DIGEST env =
     digestBytes (en_sha256 env) (''anastom.dev/event-history/v1alpha1'' @ [CHR 0x0A])"

text \<open>The pair of the event digest and the cumulative history digest.\<close>

definition extendEventHistoryDigest ::
    "store_env \<Rightarrow> string \<Rightarrow> string \<Rightarrow> int \<Rightarrow> string \<Rightarrow> string \<Rightarrow> store_error + string \<times> string" where
  "extendEventHistoryDigest env previous runId sequence eventType eventJson =
     (let eventDigest = digestBytes (en_sha256 env) eventJson in
      bindE (some_or SerializationError (digestJson (en_sha256 env) (JObj
        [(''version'', JStr ''anastom.dev/event-history/v1alpha1''), (''previous'', JStr previous),
         (''runId'', JStr runId), (''sequence'', JInt sequence), (''eventType'', JStr eventType),
         (''eventDigest'', JStr eventDigest)]))) (\<lambda>historyDigest.
      Inr (eventDigest, historyDigest)))"

definition extend_with_event :: "store_env \<Rightarrow> string \<Rightarrow> run_event \<Rightarrow> store_error + string" where
  "extend_with_event env previous e =
     bindE (some_or SerializationError (canonicalJson (event_js e))) (\<lambda>json.
     bindE (extendEventHistoryDigest env previous (ev_runId e) (ev_sequence e)
              (event_type (ev_payload e)) json) (\<lambda>(_, historyDigest). Inr historyDigest))"

definition event_prefix_digest :: "store_env \<Rightarrow> run_event list \<Rightarrow> store_error + string" where
  "event_prefix_digest env events = foldE (extend_with_event env) (EMPTY_EVENT_HISTORY_DIGEST env) events"

definition createRunSnapshotFromState ::
    "store_env \<Rightarrow> workflow_definition \<Rightarrow> run_state \<Rightarrow> string \<Rightarrow> store_error + run_snapshot" where
  "createRunSnapshotFromState env w s prefixDigest =
     bindE (map_error DefinitionError (assertWorkflowDefinition (en_compiles env) w)) (\<lambda>_.
     bindE (assertStateMatchesWorkflow s w) (\<lambda>_.
     bindE (check (is_digest prefixDigest) InvalidArgument) (\<lambda>_.
     bindE (some_or SerializationError (canonicalJson (state_js s))) (\<lambda>stateJson.
     bindE (check (int (byte_length stateJson) \<le> RUN_SNAPSHOT_MAX_BYTES) InvalidArgument) (\<lambda>_.
     bindE (some_or SerializationError (digestJson (en_sha256 env) (workflow_js w))) (\<lambda>definitionDigest.
     Inr \<lparr>sn_version = ''anastom.dev/run-snapshot/v1alpha1'',
          sn_reducerVersion = ''anastom.dev/run-reducer/v1alpha1'', sn_runId = rs_runId s,
          sn_definitionDigest = definitionDigest, sn_sequence = rs_sequence s,
          sn_stateJson = stateJson, sn_stateDigest = digestBytes (en_sha256 env) stateJson,
          sn_eventPrefixDigest = prefixDigest\<rparr>))))))"

definition createRunSnapshot ::
    "store_env \<Rightarrow> workflow_definition \<Rightarrow> run_event list \<Rightarrow> store_error + run_snapshot" where
  "createRunSnapshot env w events =
     bindE (map_error DefinitionError (assertWorkflowDefinition (en_compiles env) w)) (\<lambda>_.
     bindE (map_error HistoryError (replayRun events)) (\<lambda>s.
     bindE (assertStateMatchesWorkflow s w) (\<lambda>_.
     bindE (event_prefix_digest env events) (\<lambda>prefixDigest.
     createRunSnapshotFromState env w s prefixDigest))))"

definition assertRunSnapshot ::
    "store_env \<Rightarrow> run_snapshot \<Rightarrow> workflow_definition \<Rightarrow> run_event list \<Rightarrow> store_error + unit" where
  "assertRunSnapshot env sn w events =
     bindE (createRunSnapshot env w events) (\<lambda>expected. check (sn = expected) InvalidArgument)"

definition validateCreateOwnedRun :: "store_env \<Rightarrow> create_owned_run \<Rightarrow> store_error + unit" where
  "validateCreateOwnedRun env i =
     bindE (check (is_identifier (co_runId i) \<and> is_uuid (co_ownerId i) \<and>
                   valid_process_identity (co_owner i) \<and> is_identifier (co_operationId i))
              InvalidArgument) (\<lambda>_.
     bindE (map_error DefinitionError (assertWorkflowDefinition (en_compiles env) (co_workflow i))) (\<lambda>_.
     bindE (check (co_initialEvents i \<noteq> []) InvalidArgument) (\<lambda>_.
     bindE (map_error HistoryError (replayRun (co_initialEvents i))) (\<lambda>s.
     bindE (check (rs_runId s = co_runId i) InvalidArgument) (\<lambda>_.
     bindE (assertStateMatchesWorkflow s (co_workflow i)) (\<lambda>_.
     assertRunSnapshot env (co_snapshot i) (co_workflow i) (co_initialEvents i)))))))"

text \<open>
  The state that \<open>JSON.parse\<close> gives back for canonical text, and \<open>isDeepStrictEqual\<close>, which
  ignores the order of keys.
\<close>

definition canonical_state :: "run_state \<Rightarrow> run_state" where
  "canonical_state s =
     s\<lparr>rs_inputs := canonical_fields (rs_inputs s),
       rs_nodes := canonical_dict
         (map (\<lambda>(k, nd). (k, nd\<lparr>n_output := map_option canonical_order (n_output nd)\<rparr>)) (rs_nodes s)),
       rs_runtimeDescriptor := map_option
         (\<lambda>d. d\<lparr>rd_configuration := canonical_fields (rd_configuration d)\<rparr>) (rs_runtimeDescriptor s)\<rparr>"

definition same_state :: "run_state \<Rightarrow> run_state \<Rightarrow> bool" where
  "same_state s t \<longleftrightarrow> canonical_state s = canonical_state t"

definition snapshotCompatible ::
    "store_env \<Rightarrow> workflow_definition \<Rightarrow> run_event list \<Rightarrow> run_state \<Rightarrow> run_snapshot \<Rightarrow> bool" where
  "snapshotCompatible env w events final sn =
     (let prefix = take (nat (sn_sequence sn)) events; tail = drop (nat (sn_sequence sn)) events in
      case bindE (assertRunSnapshot env sn w prefix) (\<lambda>_.
           bindE (map_error HistoryError (replayRun prefix)) (\<lambda>s.
           map_error HistoryError (foldE (\<lambda>s e. applyRunEvent (Some s) e) (canonical_state s) tail))) of
        Inl _ \<Rightarrow> False
      | Inr s \<Rightarrow> same_state s final)"

section \<open>Idempotency\<close>

text \<open>\<open>mutationPayloadDigest\<close>: the lease is not part of it, so a new owner can retry.\<close>

definition mutationPayloadDigest :: "store_env \<Rightarrow> fenced_run_mutation \<Rightarrow> store_error + string" where
  "mutationPayloadDigest env m =
     some_or SerializationError (digestJson (en_sha256 env) (JObj
       [(''expectedSequence'', JInt (mu_expectedSequence m)),
        (''events'', JArr (map event_js (mu_events m))),
        (''snapshot'', case mu_snapshot m of
            None \<Rightarrow> JNull
          | Some sn \<Rightarrow> JObj
              [(''version'', JStr (sn_version sn)), (''reducerVersion'', JStr (sn_reducerVersion sn)),
               (''runId'', JStr (sn_runId sn)), (''definitionDigest'', JStr (sn_definitionDigest sn)),
               (''sequence'', JInt (sn_sequence sn)), (''stateDigest'', JStr (sn_stateDigest sn)),
               (''eventPrefixDigest'', JStr (sn_eventPrefixDigest sn))]),
        (''handlesControlOperationId'', case_option JNull JStr (mu_handlesControl m))]))"

definition durableMutationPayloadDigest :: "store_env \<Rightarrow> fenced_run_mutation \<Rightarrow> store_error + string" where
  "durableMutationPayloadDigest env m =
     bindE (validateMutation m) (\<lambda>_. mutationPayloadDigest env m)"

end
