(* ===== verification/Memory_Store.thy ===== *)
theory Memory_Store
  imports Store_Types
begin

text \<open>
  \<open>InMemoryDurableRunStore\<close> of \<open>engine/src/durable-store.ts\<close>, the process-local reference
  implementation of the lease and fencing contract. An operation takes the time its clock
  returns and gives the changed store with its result, or an error and no change. (The one
  exception in the code, a renewal within fifteen seconds of the largest safe timestamp that
  throws after writing \<open>renewedAtMs\<close>, is outside the model.)
\<close>

section \<open>State\<close>

record memory_mutation =
  mm_payloadDigest :: string
  mm_receipt :: mutation_receipt

record memory_control = control_request +
  mc_acknowledgedSequence :: "int option"

record memory_run =
  me_workflow :: workflow_definition
  me_events :: "run_event list"
  me_lease :: run_lease
  me_mutations :: "string \<rightharpoonup> memory_mutation"
  me_controls :: "(string \<times> memory_control) list"
  me_snapshots :: "run_snapshot list"

type_synonym memory_store = "string \<rightharpoonup> memory_run"

definition requireRun :: "memory_store \<Rightarrow> string \<Rightarrow> store_error + memory_run" where
  "requireRun st runId = some_or (StoreError NotFound) (st runId)"

definition requireFence :: "memory_run \<Rightarrow> run_lease_token \<Rightarrow> int \<Rightarrow> store_error + run_lease" where
  "requireFence r t now =
     (let l = me_lease r in
      bindE (check (le_ownerId l = lt_ownerId t \<and> le_generation l = lt_generation t)
               (StoreError OwnershipConflict)) (\<lambda>_.
      bindE (check (\<not> le_released l \<and> now < le_expiresAtMs l) (StoreError LeaseExpired)) (\<lambda>_.
      Inr l)))"

definition fresh_lease ::
    "string \<Rightarrow> string \<Rightarrow> local_process_identity \<Rightarrow> int \<Rightarrow> int \<Rightarrow> store_error + run_lease" where
  "fresh_lease runId ownerId owner generation now =
     bindE (leaseExpiry now) (\<lambda>expires.
     Inr \<lparr>le_runId = runId, le_ownerId = ownerId, le_owner = owner, le_generation = generation,
          le_acquiredAtMs = now, le_renewedAtMs = now, le_expiresAtMs = expires, le_released = False\<rparr>)"

section \<open>Creation and loading\<close>

definition createOwned :: "store_env \<Rightarrow> int \<Rightarrow> memory_store \<Rightarrow> create_owned_run \<Rightarrow>
    store_error + memory_store \<times> run_lease_token \<times> mutation_receipt" where
  "createOwned env clock st i =
     bindE (validateCreateOwnedRun env i) (\<lambda>_.
     bindE (check (st (co_runId i) = None) (StoreError OwnershipConflict)) (\<lambda>_.
     bindE (validateClock clock) (\<lambda>now.
     bindE (fresh_lease (co_runId i) (co_ownerId i) (co_owner i) 1 now) (\<lambda>lease.
     let receipt = \<lparr>mr_runId = co_runId i, mr_operationId = co_operationId i, mr_firstSequence = 1,
           mr_lastSequence = int (length (co_initialEvents i)), mr_replayed = False\<rparr>;
         mutation = \<lparr>mu_lease = tokenFor lease, mu_operationId = co_operationId i,
           mu_expectedSequence = 0, mu_events = co_initialEvents i,
           mu_snapshot = Some (co_snapshot i), mu_handlesControl = None\<rparr>
     in bindE (mutationPayloadDigest env mutation) (\<lambda>payloadDigest.
        Inr (st(co_runId i \<mapsto>
              \<lparr>me_workflow = co_workflow i, me_events = co_initialEvents i, me_lease = lease,
               me_mutations = [co_operationId i \<mapsto>
                 \<lparr>mm_payloadDigest = payloadDigest, mm_receipt = receipt\<rparr>],
               me_controls = [], me_snapshots = [co_snapshot i]\<rparr>),
             tokenFor lease, receipt))))))"

text \<open>The first compatible snapshot, newest first; \<open>complete\<close> asks for the history as well.\<close>

definition loadRun :: "store_env \<Rightarrow> memory_store \<Rightarrow> string \<Rightarrow> bool \<Rightarrow> store_error + loaded_run option" where
  "loadRun env st runId complete =
     bindE (check (is_identifier runId) InvalidArgument) (\<lambda>_.
     case st runId of
       None \<Rightarrow> Inr None
     | Some r \<Rightarrow>
         bindE (map_error HistoryError (replayRun (me_events r))) (\<lambda>s.
         bindE (assertStateMatchesWorkflow s (me_workflow r)) (\<lambda>_.
         bindE (createRunSnapshot env (me_workflow r) (me_events r)) (\<lambda>sn.
         Inr (Some
           \<lparr>ld_workflow = me_workflow r, ld_state = s, ld_eventPrefixDigest = sn_eventPrefixDigest sn,
            ld_snapshotSequence = map_option sn_sequence
              (List.find (snapshotCompatible env (me_workflow r) (me_events r) s)
                 (sort_key (\<lambda>x. - sn_sequence x) (me_snapshots r))),
            ld_events = (if complete then me_events r else [])\<rparr>)))))"

definition inspectLease :: "memory_store \<Rightarrow> string \<Rightarrow> store_error + run_lease option" where
  "inspectLease st runId =
     bindE (check (is_identifier runId) InvalidArgument) (\<lambda>_. Inr (map_option me_lease (st runId)))"

section \<open>Leases\<close>

definition acquireReleased :: "int \<Rightarrow> memory_store \<Rightarrow> acquire_released_run \<Rightarrow>
    store_error + memory_store \<times> run_lease_token" where
  "acquireReleased clock st i =
     bindE (validateAcquisition i) (\<lambda>_.
     bindE (requireRun st (aq_runId i)) (\<lambda>r.
     bindE (check (le_released (me_lease r)) (StoreError OwnershipConflict)) (\<lambda>_.
     bindE (validateClock clock) (\<lambda>now.
     bindE (nextGeneration (le_generation (me_lease r))) (\<lambda>generation.
     bindE (fresh_lease (aq_runId i) (aq_ownerId i) (aq_owner i) generation now) (\<lambda>lease.
     Inr (st(aq_runId i \<mapsto> r\<lparr>me_lease := lease\<rparr>), tokenFor lease)))))))"

definition takeoverExpired :: "int \<Rightarrow> memory_store \<Rightarrow> takeover_expired_run \<Rightarrow>
    store_error + memory_store \<times> run_lease_token" where
  "takeoverExpired clock st i =
     bindE (validateAcquisition i) (\<lambda>_.
     bindE (check (valid_run_lease (aq_observedLease i)) InvalidArgument) (\<lambda>_.
     bindE (check (valid_timestamp (aq_absenceObservedAtMs i)) InvalidArgument) (\<lambda>_.
     bindE (requireRun st (aq_runId i)) (\<lambda>r.
     bindE (validateClock clock) (\<lambda>now.
     let current = me_lease r in
     bindE (check (current = aq_observedLease i \<and> \<not> le_released current)
              (StoreError OwnershipConflict)) (\<lambda>_.
     bindE (check (le_expiresAtMs current \<le> now) (StoreError OwnershipConflict)) (\<lambda>_.
     bindE (check (le_expiresAtMs current \<le> aq_absenceObservedAtMs i \<and> aq_absenceObservedAtMs i \<le> now)
              (StoreError OwnershipConflict)) (\<lambda>_.
     bindE (nextGeneration (le_generation current)) (\<lambda>generation.
     bindE (fresh_lease (aq_runId i) (aq_ownerId i) (aq_owner i) generation now) (\<lambda>lease.
     Inr (st(aq_runId i \<mapsto> r\<lparr>me_lease := lease\<rparr>), tokenFor lease)))))))))))"

definition renewLease :: "int \<Rightarrow> memory_store \<Rightarrow> run_lease_token \<Rightarrow>
    store_error + memory_store \<times> run_lease" where
  "renewLease clock st t =
     bindE (check (valid_lease_token t) InvalidArgument) (\<lambda>_.
     bindE (requireRun st (lt_runId t)) (\<lambda>r.
     bindE (validateClock clock) (\<lambda>now.
     bindE (requireFence r t now) (\<lambda>l.
     let renewed = max now (le_renewedAtMs l) in
     bindE (leaseExpiry renewed) (\<lambda>expires.
     let lease = l\<lparr>le_renewedAtMs := renewed, le_expiresAtMs := expires\<rparr> in
     Inr (st(lt_runId t \<mapsto> r\<lparr>me_lease := lease\<rparr>), lease))))))"

definition releaseLease :: "memory_store \<Rightarrow> run_lease_token \<Rightarrow> store_error + memory_store \<times> unit" where
  "releaseLease st t =
     bindE (check (valid_lease_token t) InvalidArgument) (\<lambda>_.
     bindE (requireRun st (lt_runId t)) (\<lambda>r.
     let l = me_lease r in
     bindE (check (le_ownerId l = lt_ownerId t \<and> le_generation l = lt_generation t)
              (StoreError OwnershipConflict)) (\<lambda>_.
     Inr (st(lt_runId t \<mapsto> r\<lparr>me_lease := l\<lparr>le_released := True\<rparr>\<rparr>), ()))))"

section \<open>Mutations\<close>

text \<open>\<open>validateControlAcknowledgement\<close>: the control to acknowledge and the sequence that observes it.\<close>

definition observes_control :: "memory_control \<Rightarrow> run_event \<Rightarrow> bool" where
  "observes_control c e \<longleftrightarrow>
     ev_payload e = ControlRequestObserved (ct_operationId c) (ct_action c) (ct_recordedAtMs c)"

definition validateControlAcknowledgement ::
    "memory_run \<Rightarrow> fenced_run_mutation \<Rightarrow> store_error + (string \<times> int) option" where
  "validateControlAcknowledgement r m =
     (case mu_handlesControl m of
        None \<Rightarrow> Inr None
      | Some opId \<Rightarrow>
          (case map_of (me_controls r) opId of
             None \<Rightarrow> Inl (StoreError ControlConflict)
           | Some c \<Rightarrow>
               bindE (check (mc_acknowledgedSequence c = None) (StoreError ControlConflict)) (\<lambda>_.
               case filter (observes_control c) (mu_events m) of
                 [e] \<Rightarrow> Inr (Some (opId, ev_sequence e))
               | _ \<Rightarrow> Inl (StoreError ControlConflict))))"

definition last_sequence :: "run_event list \<Rightarrow> int" where
  "last_sequence es = (case last_opt es of None \<Rightarrow> 0 | Some e \<Rightarrow> ev_sequence e)"

definition add_snapshot :: "run_snapshot \<Rightarrow> run_snapshot list \<Rightarrow> run_snapshot list" where
  "add_snapshot sn xs =
     filter (\<lambda>x. sn_sequence x \<noteq> sn_sequence sn \<or> sn_reducerVersion x \<noteq> sn_reducerVersion sn) xs @ [sn]"

definition commitMutation :: "store_env \<Rightarrow> int \<Rightarrow> memory_store \<Rightarrow> fenced_run_mutation \<Rightarrow>
    store_error + memory_store \<times> mutation_receipt" where
  "commitMutation env clock st m =
     bindE (validateMutation m) (\<lambda>_.
     bindE (requireRun st (lt_runId (mu_lease m))) (\<lambda>r.
     bindE (validateClock clock) (\<lambda>now.
     bindE (requireFence r (mu_lease m) now) (\<lambda>_.
     bindE (mutationPayloadDigest env m) (\<lambda>payloadDigest.
     case me_mutations r (mu_operationId m) of
       Some prior \<Rightarrow>
         bindE (check (mm_payloadDigest prior = payloadDigest) (StoreError IdempotencyConflict)) (\<lambda>_.
         Inr (st, (mm_receipt prior)\<lparr>mr_replayed := True\<rparr>))
     | None \<Rightarrow>
         bindE (check (last_sequence (me_events r) = mu_expectedSequence m) (StoreError SequenceConflict)) (\<lambda>_.
         let combined = me_events r @ mu_events m in
         bindE (map_error HistoryError (replayRun combined)) (\<lambda>s.
         bindE (assertStateMatchesWorkflow s (me_workflow r)) (\<lambda>_.
         bindE (case mu_snapshot m of
                  None \<Rightarrow> Inr ()
                | Some sn \<Rightarrow> assertRunSnapshot env sn (me_workflow r) combined) (\<lambda>_.
         bindE (validateControlAcknowledgement r m) (\<lambda>acknowledgement.
         let receipt = \<lparr>mr_runId = lt_runId (mu_lease m), mr_operationId = mu_operationId m,
               mr_firstSequence = ev_sequence (hd (mu_events m)),
               mr_lastSequence = ev_sequence (last (mu_events m)), mr_replayed = False\<rparr>
         in Inr (st(lt_runId (mu_lease m) \<mapsto>
                r\<lparr>me_events := combined,
                  me_snapshots := (case mu_snapshot m of None \<Rightarrow> me_snapshots r
                     | Some sn \<Rightarrow> add_snapshot sn (me_snapshots r)),
                  me_controls := (case acknowledgement of
                       None \<Rightarrow> me_controls r
                     | Some (opId, q) \<Rightarrow>
                         update_at opId (\<lambda>c. c\<lparr>mc_acknowledgedSequence := Some q\<rparr>) (me_controls r)),
                  me_mutations := (me_mutations r)(mu_operationId m \<mapsto>
                     \<lparr>mm_payloadDigest = payloadDigest, mm_receipt = receipt\<rparr>)\<rparr>),
              receipt)))))))))))"

section \<open>Controls\<close>

definition controlRequest :: "'a control_request_scheme \<Rightarrow> control_request" where
  "controlRequest c =
     \<lparr>ct_runId = ct_runId c, ct_operationId = ct_operationId c, ct_action = ct_action c,
      ct_recordedAtMs = ct_recordedAtMs c\<rparr>"

text \<open>The receipt is the recorded request and whether it was replayed.\<close>

definition submitControl :: "int \<Rightarrow> memory_store \<Rightarrow> control_submission \<Rightarrow>
    store_error + memory_store \<times> control_request \<times> bool" where
  "submitControl clock st c =
     bindE (validateControlSubmission c) (\<lambda>_.
     bindE (requireRun st (ct_runId c)) (\<lambda>r.
     case map_of (me_controls r) (ct_operationId c) of
       Some prior \<Rightarrow>
         bindE (check (ct_action prior = ct_action c) (StoreError ControlConflict)) (\<lambda>_.
         Inr (st, controlRequest prior, True))
     | None \<Rightarrow>
         bindE (validateClock clock) (\<lambda>now.
         let control = \<lparr>ct_runId = ct_runId c, ct_operationId = ct_operationId c,
               ct_action = ct_action c, ct_recordedAtMs = now, mc_acknowledgedSequence = None\<rparr>
         in Inr (st(ct_runId c \<mapsto> r\<lparr>me_controls := me_controls r @ [(ct_operationId c, control)]\<rparr>),
                 controlRequest control, False))))"

definition pendingControls :: "store_env \<Rightarrow> memory_store \<Rightarrow> string \<Rightarrow> int \<Rightarrow>
    store_error + control_request list" where
  "pendingControls env st runId limit =
     bindE (check (is_identifier runId) InvalidArgument) (\<lambda>_.
     bindE (assertControlLimit limit) (\<lambda>_.
     bindE (requireRun st runId) (\<lambda>r.
     Inr (map controlRequest (take (nat limit)
       (sort_key ct_recordedAtMs (sort_key (\<lambda>c. en_collate env (ct_operationId c))
         (filter (\<lambda>c. mc_acknowledgedSequence c = None) (map snd (me_controls r)))))))))) "

section \<open>All operations\<close>

datatype store_op =
    CreateOp create_owned_run
  | AcquireOp acquire_released_run
  | TakeoverOp takeover_expired_run
  | RenewOp run_lease_token
  | ReleaseOp run_lease_token
  | CommitOp fenced_run_mutation
  | ControlOp control_submission

text \<open>What an operation does to the store; a failed one leaves it as it is.\<close>

fun memory_run_op :: "store_env \<Rightarrow> int \<Rightarrow> memory_store \<Rightarrow> store_op \<Rightarrow> store_error + memory_store" where
  "memory_run_op env now st (CreateOp i) = bindE (createOwned env now st i) (\<lambda>r. Inr (fst r))"
| "memory_run_op env now st (AcquireOp i) = bindE (acquireReleased now st i) (\<lambda>r. Inr (fst r))"
| "memory_run_op env now st (TakeoverOp i) = bindE (takeoverExpired now st i) (\<lambda>r. Inr (fst r))"
| "memory_run_op env now st (RenewOp t) = bindE (renewLease now st t) (\<lambda>r. Inr (fst r))"
| "memory_run_op env now st (ReleaseOp t) = bindE (releaseLease st t) (\<lambda>r. Inr (fst r))"
| "memory_run_op env now st (CommitOp m) = bindE (commitMutation env now st m) (\<lambda>r. Inr (fst r))"
| "memory_run_op env now st (ControlOp c) = bindE (submitControl now st c) (\<lambda>r. Inr (fst r))"

end
