(* ===== verification/Store_Rules.thy ===== *)
theory Store_Rules
  imports Memory_Store Run_Evolution
begin

text \<open>
  The operations of the in-memory store as changes of one run: \<open>run_created\<close> for a new run and one
  rule of \<open>run_change\<close> per operation on an existing one. The locale \<open>memory_invariant\<close> lifts a
  property of single runs to every store that a sequence of operations can reach.
\<close>

section \<open>Changes of one run\<close>

definition run_created :: "store_env \<Rightarrow> int \<Rightarrow> string \<Rightarrow> memory_run \<Rightarrow> bool" where
  "run_created env now k r \<longleftrightarrow>
     (\<exists>i lease pd. validateCreateOwnedRun env i = Inr () \<and> co_runId i = k \<and> valid_timestamp now \<and>
        fresh_lease k (co_ownerId i) (co_owner i) 1 now = Inr lease \<and>
        r = \<lparr>me_workflow = co_workflow i, me_events = co_initialEvents i, me_lease = lease,
             me_mutations = [co_operationId i \<mapsto> \<lparr>mm_payloadDigest = pd,
               mm_receipt = \<lparr>mr_runId = k, mr_operationId = co_operationId i, mr_firstSequence = 1,
                 mr_lastSequence = int (length (co_initialEvents i)), mr_replayed = False\<rparr>\<rparr>],
             me_controls = [], me_snapshots = [co_snapshot i]\<rparr>)"

inductive run_change :: "store_env \<Rightarrow> int \<Rightarrow> string \<Rightarrow> memory_run \<Rightarrow> memory_run \<Rightarrow> bool"
  for env now k where
  acquire: "le_released (me_lease r) \<Longrightarrow>
    fresh_lease k ownerId owner (le_generation (me_lease r) + 1) now = Inr lease \<Longrightarrow>
    run_change env now k r (r\<lparr>me_lease := lease\<rparr>)"
| takeover: "\<not> le_released (me_lease r) \<Longrightarrow> le_expiresAtMs (me_lease r) \<le> seen \<Longrightarrow> seen \<le> now \<Longrightarrow>
    fresh_lease k ownerId owner (le_generation (me_lease r) + 1) now = Inr lease \<Longrightarrow>
    run_change env now k r (r\<lparr>me_lease := lease\<rparr>)"
| renew: "\<not> le_released (me_lease r) \<Longrightarrow> now < le_expiresAtMs (me_lease r) \<Longrightarrow>
    t = max now (le_renewedAtMs (me_lease r)) \<Longrightarrow>
    run_change env now k r
      (r\<lparr>me_lease := (me_lease r)\<lparr>le_renewedAtMs := t, le_expiresAtMs := t + RUN_LEASE_DURATION_MS\<rparr>\<rparr>)"
| release: "run_change env now k r (r\<lparr>me_lease := (me_lease r)\<lparr>le_released := True\<rparr>\<rparr>)"
| commit: "\<not> le_released (me_lease r) \<Longrightarrow> now < le_expiresAtMs (me_lease r) \<Longrightarrow>
    validateMutation m = Inr () \<Longrightarrow> lt_runId (mu_lease m) = k \<Longrightarrow>
    tokenFor (me_lease r) = (mu_lease m)\<lparr>lt_runId := le_runId (me_lease r)\<rparr> \<Longrightarrow>
    me_mutations r (mu_operationId m) = None \<Longrightarrow>
    last_sequence (me_events r) = mu_expectedSequence m \<Longrightarrow>
    replayRun (me_events r @ mu_events m) = Inr s \<Longrightarrow>
    assertStateMatchesWorkflow s (me_workflow r) = Inr () \<Longrightarrow>
    pred_option (\<lambda>sn. assertRunSnapshot env sn (me_workflow r) (me_events r @ mu_events m) = Inr ())
      (mu_snapshot m) \<Longrightarrow>
    validateControlAcknowledgement r m = Inr ack \<Longrightarrow>
    run_change env now k r
      (r\<lparr>me_events := me_events r @ mu_events m,
         me_snapshots := (case mu_snapshot m of None \<Rightarrow> me_snapshots r
           | Some sn \<Rightarrow> add_snapshot sn (me_snapshots r)),
         me_controls := (case ack of None \<Rightarrow> me_controls r
           | Some (opId, q) \<Rightarrow>
               update_at opId (\<lambda>c. c\<lparr>mc_acknowledgedSequence := Some q\<rparr>) (me_controls r)),
         me_mutations := (me_mutations r)(mu_operationId m \<mapsto>
           \<lparr>mm_payloadDigest = pd,
            mm_receipt = \<lparr>mr_runId = k, mr_operationId = mu_operationId m,
              mr_firstSequence = ev_sequence (hd (mu_events m)),
              mr_lastSequence = ev_sequence (last (mu_events m)), mr_replayed = False\<rparr>\<rparr>)\<rparr>)"
| submit: "map_of (me_controls r) opId = None \<Longrightarrow> valid_timestamp now \<Longrightarrow>
    run_change env now k r
      (r\<lparr>me_controls := me_controls r @
         [(opId, \<lparr>ct_runId = k, ct_operationId = opId, ct_action = action,
                  ct_recordedAtMs = now, mc_acknowledgedSequence = None\<rparr>)]\<rparr>)"

lemma fresh_lease_iff:
  "fresh_lease k ownerId owner g now = Inr lease \<longleftrightarrow>
     valid_timestamp (now + RUN_LEASE_DURATION_MS) \<and>
     lease = \<lparr>le_runId = k, le_ownerId = ownerId, le_owner = owner, le_generation = g,
              le_acquiredAtMs = now, le_renewedAtMs = now,
              le_expiresAtMs = now + RUN_LEASE_DURATION_MS, le_released = False\<rparr>"
  by (auto simp: fresh_lease_def leaseExpiry_def result_simps)

lemma requireFence_iff:
  "requireFence r t now = Inr l \<longleftrightarrow>
     l = me_lease r \<and> le_ownerId l = lt_ownerId t \<and> le_generation l = lt_generation t \<and>
     \<not> le_released l \<and> now < le_expiresAtMs l"
  by (auto simp: requireFence_def Let_def result_simps)

lemma requireRun_iff [result_simps]: "requireRun st k = Inr r \<longleftrightarrow> st k = Some r"
  by (simp add: requireRun_def result_simps)

lemma validateClock_iff [result_simps]: "validateClock t = Inr now \<longleftrightarrow> valid_timestamp t \<and> now = t"
  by (auto simp: validateClock_def result_simps)

lemma nextGeneration_iff [result_simps]:
  "nextGeneration g = Inr g' \<longleftrightarrow> is_safe_integer (g + 1) \<and> g' = g + 1"
  by (auto simp: nextGeneration_def result_simps)

lemma leaseExpiry_iff [result_simps]:
  "leaseExpiry t = Inr x \<longleftrightarrow> valid_timestamp (t + RUN_LEASE_DURATION_MS) \<and> x = t + RUN_LEASE_DURATION_MS"
  by (auto simp: leaseExpiry_def result_simps)

section \<open>Operations, inverted\<close>

lemma upd_eq_iff: "f(k := x) = f(k := y) \<longleftrightarrow> x = y"
  by (metis fun_upd_same)

lemma createOwned_Inr:
  assumes "createOwned env now st i = Inr (st', t, rc)"
  shows "\<exists>r. st (co_runId i) = None \<and> st' = st(co_runId i \<mapsto> r) \<and> run_created env now (co_runId i) r \<and>
    t = tokenFor (me_lease r)"
proof -
  let ?run = "\<lambda>lease pd. \<lparr>me_workflow = co_workflow i, me_events = co_initialEvents i, me_lease = lease,
    me_mutations = [co_operationId i \<mapsto> \<lparr>mm_payloadDigest = pd,
      mm_receipt = \<lparr>mr_runId = co_runId i, mr_operationId = co_operationId i, mr_firstSequence = 1,
        mr_lastSequence = int (length (co_initialEvents i)), mr_replayed = False\<rparr>\<rparr>],
    me_controls = [], me_snapshots = [co_snapshot i]\<rparr>"
  from assms obtain lease pd where new: "st (co_runId i) = None"
    and facts: "validateCreateOwnedRun env i = Inr ()" "valid_timestamp now"
      "fresh_lease (co_runId i) (co_ownerId i) (co_owner i) 1 now = Inr lease"
    and st': "st' = st(co_runId i \<mapsto> ?run lease pd)" "t = tokenFor lease"
    by (auto simp: createOwned_def Let_def result_simps)
  have "run_created env now (co_runId i) (?run lease pd)"
    unfolding run_created_def using facts by blast
  with new st' show ?thesis by (intro exI [of _ "?run lease pd"]) simp
qed

lemma acquireReleased_Inr:
  assumes "acquireReleased now st i = Inr (st', t)"
  shows "\<exists>r r'. st (aq_runId i) = Some r \<and> st' = st(aq_runId i \<mapsto> r') \<and>
    run_change env now (aq_runId i) r r' \<and> le_released (me_lease r) \<and>
    t = tokenFor (me_lease r') \<and> lt_generation t = le_generation (me_lease r) + 1"
proof -
  from assms obtain r lease where r: "st (aq_runId i) = Some r" "le_released (me_lease r)"
    and fresh: "fresh_lease (aq_runId i) (aq_ownerId i) (aq_owner i) (le_generation (me_lease r) + 1) now =
      Inr lease"
    and st': "st' = st(aq_runId i \<mapsto> r\<lparr>me_lease := lease\<rparr>)" "t = tokenFor lease"
    by (auto simp: acquireReleased_def result_simps)
  from fresh have "le_generation lease = le_generation (me_lease r) + 1" by (simp add: fresh_lease_iff)
  with run_change.acquire [OF r(2) fresh, of env] r st' show ?thesis
    by (intro exI [of _ r] exI [of _ "r\<lparr>me_lease := lease\<rparr>"]) (simp add: tokenFor_def)
qed

lemma takeoverExpired_Inr:
  assumes "takeoverExpired now st i = Inr (st', t)"
  shows "\<exists>r r'. st (aq_runId i) = Some r \<and> st' = st(aq_runId i \<mapsto> r') \<and>
    run_change env now (aq_runId i) r r' \<and> me_lease r = aq_observedLease i \<and>
    \<not> le_released (me_lease r) \<and> le_expiresAtMs (me_lease r) \<le> aq_absenceObservedAtMs i \<and>
    aq_absenceObservedAtMs i \<le> now \<and>
    t = tokenFor (me_lease r') \<and> lt_generation t = le_generation (me_lease r) + 1"
proof -
  from assms obtain r lease where r: "st (aq_runId i) = Some r" "me_lease r = aq_observedLease i"
      "\<not> le_released (me_lease r)" "le_expiresAtMs (me_lease r) \<le> aq_absenceObservedAtMs i"
      "aq_absenceObservedAtMs i \<le> now"
    and fresh: "fresh_lease (aq_runId i) (aq_ownerId i) (aq_owner i) (le_generation (me_lease r) + 1) now =
      Inr lease"
    and st': "st' = st(aq_runId i \<mapsto> r\<lparr>me_lease := lease\<rparr>)" "t = tokenFor lease"
    by (auto simp: takeoverExpired_def Let_def result_simps)
  from fresh have "le_generation lease = le_generation (me_lease r) + 1" by (simp add: fresh_lease_iff)
  with run_change.takeover [OF r(3,4,5) fresh, of env] r st' show ?thesis
    by (intro exI [of _ r] exI [of _ "r\<lparr>me_lease := lease\<rparr>"]) (simp add: tokenFor_def)
qed

lemma renewLease_Inr:
  assumes "renewLease now st t = Inr (st', l)"
  shows "\<exists>r r'. st (lt_runId t) = Some r \<and> st' = st(lt_runId t \<mapsto> r') \<and>
    run_change env now (lt_runId t) r r' \<and> l = me_lease r' \<and>
    le_ownerId (me_lease r) = lt_ownerId t \<and> le_generation (me_lease r) = lt_generation t \<and>
    \<not> le_released (me_lease r) \<and> now < le_expiresAtMs (me_lease r)"
  using assms
  by (auto simp: renewLease_def Let_def result_simps requireFence_iff upd_eq_iff
      intro!: run_change.renew)

lemma releaseLease_Inr:
  assumes "releaseLease st t = Inr (st', u)"
  shows "\<exists>r r'. st (lt_runId t) = Some r \<and> st' = st(lt_runId t \<mapsto> r') \<and>
    run_change env now (lt_runId t) r r' \<and>
    le_ownerId (me_lease r) = lt_ownerId t \<and> le_generation (me_lease r) = lt_generation t"
  using assms
  by (auto simp: releaseLease_def Let_def result_simps upd_eq_iff intro!: run_change.release)

lemma commitMutation_Inr:
  assumes "commitMutation env now st m = Inr (st', rc)"
  shows "\<exists>r. st (lt_runId (mu_lease m)) = Some r \<and>
    le_ownerId (me_lease r) = lt_ownerId (mu_lease m) \<and>
    le_generation (me_lease r) = lt_generation (mu_lease m) \<and>
    \<not> le_released (me_lease r) \<and> now < le_expiresAtMs (me_lease r) \<and>
    (case me_mutations r (mu_operationId m) of
       Some prior \<Rightarrow> st' = st \<and> mutationPayloadDigest env m = Inr (mm_payloadDigest prior) \<and>
         rc = (mm_receipt prior)\<lparr>mr_replayed := True\<rparr>
     | None \<Rightarrow> \<exists>r'. st' = st(lt_runId (mu_lease m) \<mapsto> r') \<and>
         run_change env now (lt_runId (mu_lease m)) r r' \<and>
         me_events r' = me_events r @ mu_events m \<and> mr_replayed rc = False \<and>
         (\<exists>pd. mutationPayloadDigest env m = Inr pd \<and>
            me_mutations r' (mu_operationId m) = Some \<lparr>mm_payloadDigest = pd, mm_receipt = rc\<rparr>))"
proof -
  from assms obtain r pd where r: "st (lt_runId (mu_lease m)) = Some r"
    and fence: "le_ownerId (me_lease r) = lt_ownerId (mu_lease m)"
      "le_generation (me_lease r) = lt_generation (mu_lease m)"
      "\<not> le_released (me_lease r)" "now < le_expiresAtMs (me_lease r)"
    and pd: "mutationPayloadDigest env m = Inr pd" and valid: "validateMutation m = Inr ()"
    by (auto simp: commitMutation_def result_simps requireFence_iff)
  show ?thesis
  proof (cases "me_mutations r (mu_operationId m)")
    case (Some prior)
    with assms r fence pd valid show ?thesis
      by (auto simp: commitMutation_def result_simps requireFence_iff)
  next
    case None
    from assms r fence pd valid None obtain s ack where
      facts: "last_sequence (me_events r) = mu_expectedSequence m"
        "replayRun (me_events r @ mu_events m) = Inr s"
        "assertStateMatchesWorkflow s (me_workflow r) = Inr ()"
        "(case mu_snapshot m of None \<Rightarrow> Inr ()
          | Some sn \<Rightarrow> assertRunSnapshot env sn (me_workflow r) (me_events r @ mu_events m)) = Inr ()"
        "validateControlAcknowledgement r m = Inr ack"
      and res: "(st', rc) = (st(lt_runId (mu_lease m) \<mapsto>
          r\<lparr>me_events := me_events r @ mu_events m,
            me_snapshots := (case mu_snapshot m of None \<Rightarrow> me_snapshots r
              | Some sn \<Rightarrow> add_snapshot sn (me_snapshots r)),
            me_controls := (case ack of None \<Rightarrow> me_controls r
              | Some (opId, q) \<Rightarrow>
                  update_at opId (\<lambda>c. c\<lparr>mc_acknowledgedSequence := Some q\<rparr>) (me_controls r)),
            me_mutations := (me_mutations r)(mu_operationId m \<mapsto>
              \<lparr>mm_payloadDigest = pd,
               mm_receipt = \<lparr>mr_runId = lt_runId (mu_lease m), mr_operationId = mu_operationId m,
                 mr_firstSequence = ev_sequence (hd (mu_events m)),
                 mr_lastSequence = ev_sequence (last (mu_events m)), mr_replayed = False\<rparr>\<rparr>)\<rparr>),
          \<lparr>mr_runId = lt_runId (mu_lease m), mr_operationId = mu_operationId m,
            mr_firstSequence = ev_sequence (hd (mu_events m)),
            mr_lastSequence = ev_sequence (last (mu_events m)), mr_replayed = False\<rparr>)"
      by (auto simp: commitMutation_def result_simps requireFence_iff Let_def)
    have "pred_option (\<lambda>sn. assertRunSnapshot env sn (me_workflow r) (me_events r @ mu_events m) = Inr ())
        (mu_snapshot m)"
      using facts(4) by (auto split: option.splits)
    moreover have "tokenFor (me_lease r) = (mu_lease m)\<lparr>lt_runId := le_runId (me_lease r)\<rparr>"
      using fence by (simp add: tokenFor_def)
    ultimately show ?thesis
      using r fence None pd res
        run_change.commit [OF fence(3,4) valid refl _ None facts(1,2,3) _ facts(5), of env pd]
      by auto
  qed
qed

lemma submitControl_Inr:
  assumes "submitControl now st c = Inr (st', rq, replayed)"
  shows "\<exists>r. st (ct_runId c) = Some r \<and>
    (replayed \<and> st' = st \<or> (\<exists>r'. st' = st(ct_runId c \<mapsto> r') \<and> run_change env now (ct_runId c) r r'))"
  using assms
  by (auto simp: submitControl_def Let_def result_simps upd_eq_iff intro!: run_change.submit
      split: option.splits)

text \<open>An operation creates a run, changes one run, or changes nothing.\<close>

lemma memory_run_op_cases:
  assumes "memory_run_op env now st op = Inr st'"
  obtains (same) "st' = st"
  | (created) k r where "st k = None" and "st' = st(k \<mapsto> r)" and "run_created env now k r"
  | (changed) k r r' where "st k = Some r" and "st' = st(k \<mapsto> r')" and "run_change env now k r r'"
proof (cases op)
  case (CreateOp i)
  with assms obtain t rc where "createOwned env now st i = Inr (st', t, rc)" by (auto simp: result_simps)
  from createOwned_Inr [OF this] created show thesis by blast
next
  case (AcquireOp i)
  with assms obtain t where "acquireReleased now st i = Inr (st', t)" by (auto simp: result_simps)
  from acquireReleased_Inr [OF this, of env] changed show thesis by blast
next
  case (TakeoverOp i)
  with assms obtain t where "takeoverExpired now st i = Inr (st', t)" by (auto simp: result_simps)
  from takeoverExpired_Inr [OF this, of env] changed show thesis by blast
next
  case (RenewOp t)
  with assms obtain l where "renewLease now st t = Inr (st', l)" by (auto simp: result_simps)
  from renewLease_Inr [OF this, of env] changed show thesis by blast
next
  case (ReleaseOp t)
  with assms obtain u where "releaseLease st t = Inr (st', u)" by (auto simp: result_simps)
  from releaseLease_Inr [OF this, of env now] changed show thesis by blast
next
  case (CommitOp m)
  with assms obtain rc where "commitMutation env now st m = Inr (st', rc)" by (auto simp: result_simps)
  from commitMutation_Inr [OF this] same changed show thesis by (auto split: option.splits)
next
  case (ControlOp c)
  with assms obtain rq b where "submitControl now st c = Inr (st', rq, b)" by (auto simp: result_simps)
  from submitControl_Inr [OF this, of env] same changed show thesis by blast
qed

section \<open>Sequences of operations\<close>

text \<open>Any number of callers, at the times their clocks show; a failed operation changes nothing.\<close>

definition attempt_op :: "store_env \<Rightarrow> memory_store \<Rightarrow> int \<times> store_op \<Rightarrow> memory_store" where
  "attempt_op env st c = (case memory_run_op env (fst c) st (snd c) of Inl _ \<Rightarrow> st | Inr st' \<Rightarrow> st')"

definition run_ops :: "store_env \<Rightarrow> memory_store \<Rightarrow> (int \<times> store_op) list \<Rightarrow> memory_store" where
  "run_ops env st ops = foldl (attempt_op env) st ops"

lemma run_ops_simps [simp]:
  "run_ops env st [] = st"
  "run_ops env st (c # cs) = run_ops env (attempt_op env st c) cs"
  by (simp_all add: run_ops_def)

lemma run_ops_append: "run_ops env st (cs @ ds) = run_ops env (run_ops env st cs) ds"
  by (simp add: run_ops_def)

text \<open>What every change of a run respects holds between a store and all that follow it.\<close>

lemma run_ops_runs:
  assumes refl: "\<And>r. R r r" and trans: "\<And>x y z. R x y \<Longrightarrow> R y z \<Longrightarrow> R x z"
    and step: "\<And>env now k r r'. run_change env now k r r' \<Longrightarrow> R r r'"
  shows "st k = Some r \<Longrightarrow> \<exists>r'. run_ops env st ops k = Some r' \<and> R r r'"
proof (induction ops arbitrary: st r)
  case Nil
  then show ?case by (auto intro: refl)
next
  case (Cons c cs)
  have "\<exists>r'. attempt_op env st c k = Some r' \<and> R r r'"
  proof (cases "memory_run_op env (fst c) st (snd c)")
    case (Inl e)
    with Cons.prems show ?thesis by (auto simp: attempt_op_def intro: refl)
  next
    case (Inr st')
    from Inr have eq: "attempt_op env st c = st'" by (simp add: attempt_op_def)
    from Inr show ?thesis
    proof (cases rule: memory_run_op_cases)
      case same
      with Cons.prems eq show ?thesis by (auto intro: refl)
    next
      case (created j q)
      with Cons.prems eq show ?thesis by (auto intro: refl)
    next
      case (changed j q q')
      with Cons.prems eq show ?thesis by (cases "j = k") (auto intro: refl step)
    qed
  qed
  then obtain r1 where "attempt_op env st c k = Some r1" "R r r1" by blast
  with Cons.IH [of "attempt_op env st c" r1] show ?case by (auto intro: trans)
qed

locale memory_invariant =
  fixes env :: store_env and P :: "string \<Rightarrow> memory_run \<Rightarrow> bool"
  assumes P_created: "run_created env now k r \<Longrightarrow> P k r"
    and P_change: "run_change env now k r r' \<Longrightarrow> P k r \<Longrightarrow> P k r'"
begin

lemma P_op:
  assumes "memory_run_op env now st op = Inr st'" and "\<And>k r. st k = Some r \<Longrightarrow> P k r"
    and "st' k = Some r"
  shows "P k r"
  using assms(1)
proof (cases rule: memory_run_op_cases)
  case same
  with assms(2,3) show ?thesis by blast
next
  case (created j q)
  with assms(2,3) show ?thesis by (auto split: if_splits intro: P_created)
next
  case (changed j q q')
  with assms(2,3) show ?thesis by (auto split: if_splits intro: P_change)
qed

lemma P_run_ops:
  "(\<And>k r. st k = Some r \<Longrightarrow> P k r) \<Longrightarrow> run_ops env st ops k = Some r \<Longrightarrow> P k r"
proof (induction ops arbitrary: st)
  case Nil
  then show ?case by simp
next
  case (Cons c cs)
  have "P j q" if "attempt_op env st c j = Some q" for j q
    using that P_op [of "fst c" st "snd c"] Cons.prems(1)
    by (auto simp: attempt_op_def split: sum.splits)
  from Cons.IH [OF this] Cons.prems(2) show ?case by simp
qed

lemma P_reachable: "run_ops env Map.empty ops k = Some r \<Longrightarrow> P k r"
  by (rule P_run_ops [of Map.empty]) simp_all

end

end
