(* ===== verification/Store_Invariants.thy ===== *)
theory Store_Invariants
  imports Store_Rules
begin

text \<open>
  The invariants of the in-memory store, each an interpretation of \<open>memory_invariant\<close>: the lease
  of a run is well formed, its history replays to a state of its workflow, every snapshot is the
  snapshot of a prefix, every event was appended by exactly one recorded operation, and an
  acknowledged control is observed by the event its acknowledgement names.
\<close>

section \<open>Leases\<close>

definition lease_ok :: "string \<Rightarrow> memory_run \<Rightarrow> bool" where
  "lease_ok k r \<longleftrightarrow>
     (let l = me_lease r in le_runId l = k \<and> 1 \<le> le_generation l \<and>
        le_acquiredAtMs l \<le> le_renewedAtMs l \<and>
        le_expiresAtMs l = le_renewedAtMs l + RUN_LEASE_DURATION_MS)"

interpretation leases: memory_invariant env lease_ok for env
proof unfold_locales
  show "lease_ok k r" if "run_created env now k r" for now k r
    using that by (auto simp: run_created_def fresh_lease_iff lease_ok_def Let_def)
  show "lease_ok k r'" if "run_change env now k r r'" "lease_ok k r" for now k r r'
    using that by (induction rule: run_change.induct) (auto simp: fresh_lease_iff lease_ok_def Let_def)
qed

text \<open>A lease only moves to later generations; within one generation its owner is fixed.\<close>

definition lease_step :: "memory_run \<Rightarrow> memory_run \<Rightarrow> bool" where
  "lease_step r r' \<longleftrightarrow>
     (let l = me_lease r; l' = me_lease r' in
      le_generation l < le_generation l' \<or>
      le_generation l = le_generation l' \<and> le_ownerId l = le_ownerId l' \<and> le_owner l = le_owner l' \<and>
      le_acquiredAtMs l = le_acquiredAtMs l' \<and> le_renewedAtMs l \<le> le_renewedAtMs l' \<and>
      (le_released l \<longrightarrow> le_released l'))"

lemma lease_step_refl [simp]: "lease_step r r"
  by (simp add: lease_step_def)

lemma lease_step_trans: "lease_step x y \<Longrightarrow> lease_step y z \<Longrightarrow> lease_step x z"
  by (auto simp: lease_step_def Let_def)

lemma run_change_lease_step: "run_change env now k r r' \<Longrightarrow> lease_step r r'"
  by (induction rule: run_change.induct) (auto simp: fresh_lease_iff lease_step_def Let_def)

section \<open>Histories\<close>

definition history_ok :: "store_env \<Rightarrow> string \<Rightarrow> memory_run \<Rightarrow> bool" where
  "history_ok env k r \<longleftrightarrow>
     (\<exists>s. replayRun (me_events r) = Inr s \<and> rs_runId s = k \<and>
        assertStateMatchesWorkflow s (me_workflow r) = Inr ()) \<and>
     assertWorkflowDefinition (en_compiles env) (me_workflow r) = Inr ()"

lemma replay_runId_append:
  assumes "replayRun es = Inr s" and "replayRun (es @ fs) = Inr s'"
  shows "rs_runId s' = rs_runId s"
proof -
  from assms(1) have "es \<noteq> []" by auto
  with assms have "apply_events s fs = Inr s'" by (simp add: replayRun_append)
  from apply_events_contiguous [OF this] show ?thesis by simp
qed

lemma created_history_ok:
  assumes "run_created env now k r"
  shows "history_ok env k r"
  using assms by (auto simp: run_created_def validateCreateOwnedRun_def result_simps history_ok_def)

interpretation histories: memory_invariant env "history_ok env" for env
proof unfold_locales
  show "history_ok env k r" if "run_created env now k r" for now k r
    using that by (rule created_history_ok)
  show "history_ok env k r'" if "run_change env now k r r'" "history_ok env k r" for now k r r'
    using that
    by (induction rule: run_change.induct) (auto simp: history_ok_def dest: replay_runId_append)
qed

text \<open>Histories only grow, and the workflow of a run never changes.\<close>

definition history_step :: "memory_run \<Rightarrow> memory_run \<Rightarrow> bool" where
  "history_step r r' \<longleftrightarrow>
     me_workflow r' = me_workflow r \<and> (\<exists>es. me_events r' = me_events r @ es) \<and>
     me_mutations r \<subseteq>\<^sub>m me_mutations r'"

lemma history_step_refl [simp]: "history_step r r"
  by (simp add: history_step_def)

lemma history_step_trans: "history_step x y \<Longrightarrow> history_step y z \<Longrightarrow> history_step x z"
  by (auto simp: history_step_def intro: map_le_trans)

lemma run_change_history_step: "run_change env now k r r' \<Longrightarrow> history_step r r'"
  by (induction rule: run_change.induct) (auto simp: history_step_def map_le_def)

text \<open>The sequence a commit must name is the length of the history.\<close>

lemma last_sequence_length:
  assumes "history_ok env k r"
  shows "last_sequence (me_events r) = int (length (me_events r))"
proof -
  from assms obtain s where s: "replayRun (me_events r) = Inr s" by (auto simp: history_ok_def)
  with replayRun_last_sequence [OF s] replayRun_contiguous [OF s] show ?thesis
    by (simp add: last_sequence_def last_opt_def)
qed

lemma validateMutation_facts:
  assumes "validateMutation m = Inr ()"
  shows "mu_events m \<noteq> [] \<and> ev_sequence (hd (mu_events m)) = mu_expectedSequence m + 1 \<and>
    ev_sequence (last (mu_events m)) = mu_expectedSequence m + int (length (mu_events m)) \<and>
    (\<forall>e \<in> set (mu_events m). ev_runId e = lt_runId (mu_lease m))"
proof -
  from assms have ne: "mu_events m \<noteq> []"
    and all: "\<forall>(i, e) \<in> set (enumerate 0 (mu_events m)). ev_runId e = lt_runId (mu_lease m) \<and>
      ev_sequence e = mu_expectedSequence m + int i + 1"
    by (auto simp: validateMutation_def result_simps list_all_iff)
  have nth: "ev_runId (mu_events m ! i) = lt_runId (mu_lease m) \<and>
      ev_sequence (mu_events m ! i) = mu_expectedSequence m + int i + 1" if "i < length (mu_events m)" for i
  proof -
    have "(i, mu_events m ! i) \<in> set (enumerate 0 (mu_events m))"
      using that by (auto simp: in_set_enumerate_eq)
    with all show ?thesis by blast
  qed
  have "0 < length (mu_events m)" using ne by simp
  then have "int (length (mu_events m) - 1) + 1 = int (length (mu_events m))" by linarith
  with ne nth [of 0] nth [of "length (mu_events m) - 1"] nth show ?thesis
    by (auto simp: hd_conv_nth last_conv_nth in_set_conv_nth)
qed

section \<open>Snapshots\<close>

definition snapshots_ok :: "store_env \<Rightarrow> string \<Rightarrow> memory_run \<Rightarrow> bool" where
  "snapshots_ok env k r \<longleftrightarrow>
     (\<forall>sn \<in> set (me_snapshots r). 1 \<le> sn_sequence sn \<and> sn_sequence sn \<le> int (length (me_events r)) \<and>
        createRunSnapshot env (me_workflow r) (take (nat (sn_sequence sn)) (me_events r)) = Inr sn)"

lemma createRunSnapshot_sequence:
  assumes "createRunSnapshot env w es = Inr sn"
  shows "sn_sequence sn = int (length es) \<and> 1 \<le> length es"
proof -
  from assms obtain s where s: "replayRun es = Inr s" and "sn_sequence sn = rs_sequence s"
    by (auto simp: createRunSnapshot_def createRunSnapshotFromState_def result_simps)
  with replayRun_contiguous [OF s] show ?thesis by (cases es) auto
qed

lemma assertRunSnapshot_iff:
  "assertRunSnapshot env sn w es = Inr () \<longleftrightarrow> createRunSnapshot env w es = Inr sn"
  by (auto simp: assertRunSnapshot_def result_simps)

lemma snapshot_of_whole:
  assumes "assertRunSnapshot env sn w es = Inr ()"
  shows "1 \<le> sn_sequence sn \<and> sn_sequence sn \<le> int (length es) \<and>
    createRunSnapshot env w (take (nat (sn_sequence sn)) es) = Inr sn"
  using assms createRunSnapshot_sequence by (fastforce simp: assertRunSnapshot_iff)

lemma snapshots_ok_extend:
  "1 \<le> sn_sequence sn \<and> sn_sequence sn \<le> int (length es) \<and>
     createRunSnapshot env w (take (nat (sn_sequence sn)) es) = Inr sn \<Longrightarrow>
   1 \<le> sn_sequence sn \<and> sn_sequence sn \<le> int (length (es @ fs)) \<and>
     createRunSnapshot env w (take (nat (sn_sequence sn)) (es @ fs)) = Inr sn"
  by (cases "nat (sn_sequence sn) \<le> length es") auto

interpretation snapshots: memory_invariant env "snapshots_ok env" for env
proof unfold_locales
  show "snapshots_ok env k r" if "run_created env now k r" for now k r
    using that snapshot_of_whole
    by (auto simp: run_created_def validateCreateOwnedRun_def result_simps snapshots_ok_def)
  show "snapshots_ok env k r'" if "run_change env now k r r'" "snapshots_ok env k r" for now k r r'
    using that
  proof (induction rule: run_change.induct)
    case (commit r m s ack pd)
    have old: "1 \<le> sn_sequence sn \<and> sn_sequence sn \<le> int (length (me_events r @ mu_events m)) \<and>
        createRunSnapshot env (me_workflow r)
          (take (nat (sn_sequence sn)) (me_events r @ mu_events m)) = Inr sn"
      if "sn \<in> set (me_snapshots r)" for sn
      using that commit.prems by (intro snapshots_ok_extend) (auto simp: snapshots_ok_def)
    show ?case
    proof (cases "mu_snapshot m")
      case None
      with old show ?thesis by (simp add: snapshots_ok_def)
    next
      case (Some new)
      with commit.hyps have "assertRunSnapshot env new (me_workflow r) (me_events r @ mu_events m) = Inr ()"
        by simp
      from snapshot_of_whole [OF this] old Some show ?thesis
        by (auto simp: snapshots_ok_def add_snapshot_def)
    qed
  qed (auto simp: snapshots_ok_def)
qed

section \<open>Receipts\<close>

text \<open>\<open>op_covers r op i\<close>: the recorded operation \<open>op\<close> appended the event with sequence \<open>i\<close>.\<close>

definition op_covers :: "memory_run \<Rightarrow> string \<Rightarrow> int \<Rightarrow> bool" where
  "op_covers r op i \<longleftrightarrow>
     (\<exists>m. me_mutations r op = Some m \<and> mr_firstSequence (mm_receipt m) \<le> i \<and>
        i \<le> mr_lastSequence (mm_receipt m))"

definition receipts_ok :: "string \<Rightarrow> memory_run \<Rightarrow> bool" where
  "receipts_ok k r \<longleftrightarrow>
     (\<forall>op m. me_mutations r op = Some m \<longrightarrow>
        mr_runId (mm_receipt m) = k \<and> mr_operationId (mm_receipt m) = op \<and> \<not> mr_replayed (mm_receipt m) \<and>
        1 \<le> mr_firstSequence (mm_receipt m) \<and>
        mr_firstSequence (mm_receipt m) \<le> mr_lastSequence (mm_receipt m) \<and>
        mr_lastSequence (mm_receipt m) \<le> int (length (me_events r))) \<and>
     (\<forall>i. 1 \<le> i \<and> i \<le> int (length (me_events r)) \<longrightarrow> (\<exists>!op. op_covers r op i))"

lemma receipts_ok_frame:
  assumes "me_mutations r' = me_mutations r" and "length (me_events r') = length (me_events r)"
  shows "receipts_ok k r' = receipts_ok k r"
  by (simp add: receipts_ok_def op_covers_def assms)

text \<open>Recording a batch at the end of the history.\<close>

lemma receipts_ok_append:
  assumes ok: "receipts_ok k r" and fresh: "me_mutations r op = None"
    and muts: "me_mutations r' = (me_mutations r)(op \<mapsto> \<lparr>mm_payloadDigest = pd, mm_receipt =
      \<lparr>mr_runId = k, mr_operationId = op, mr_firstSequence = int (length (me_events r)) + 1,
       mr_lastSequence = int (length (me_events r')), mr_replayed = False\<rparr>\<rparr>)"
    and grow: "length (me_events r) < length (me_events r')"
  shows "receipts_ok k r'"
proof -
  have covers: "op_covers r' x i \<longleftrightarrow>
      (if x = op then int (length (me_events r)) < i \<and> i \<le> int (length (me_events r'))
       else op_covers r x i)" for x i
    by (auto simp: op_covers_def muts)
  have old: "i \<le> int (length (me_events r))" if "op_covers r x i" for x i
    using that ok by (fastforce simp: op_covers_def receipts_ok_def)
  have none: "\<not> op_covers r op i" for i by (simp add: op_covers_def fresh)
  have "\<exists>!x. op_covers r' x i" if i: "1 \<le> i" "i \<le> int (length (me_events r'))" for i
  proof (cases "i \<le> int (length (me_events r))")
    case True
    with ok i have "\<exists>!x. op_covers r x i" unfolding receipts_ok_def by blast
    then obtain x where x: "op_covers r x i" and uniq: "\<And>y. op_covers r y i \<Longrightarrow> y = x" by blast
    with none have "x \<noteq> op" by blast
    with x True show ?thesis
      by (intro ex1I [of _ x]) (auto simp: covers uniq split: if_splits)
  next
    case False
    with i old show ?thesis
      by (intro ex1I [of _ op]) (auto simp: covers split: if_splits)
  qed
  moreover have "mr_runId (mm_receipt m) = k \<and> mr_operationId (mm_receipt m) = x \<and>
      \<not> mr_replayed (mm_receipt m) \<and> 1 \<le> mr_firstSequence (mm_receipt m) \<and>
      mr_firstSequence (mm_receipt m) \<le> mr_lastSequence (mm_receipt m) \<and>
      mr_lastSequence (mm_receipt m) \<le> int (length (me_events r'))"
    if "me_mutations r' x = Some m" for x m
    using that ok grow by (fastforce simp: muts receipts_ok_def split: if_splits)
  ultimately show ?thesis by (simp add: receipts_ok_def)
qed

lemma commit_range:
  assumes "history_ok env k r" and "validateMutation m = Inr ()"
    and "last_sequence (me_events r) = mu_expectedSequence m"
  shows "ev_sequence (hd (mu_events m)) = int (length (me_events r)) + 1 \<and>
    ev_sequence (last (mu_events m)) = int (length (me_events r @ mu_events m)) \<and> mu_events m \<noteq> []"
  using validateMutation_facts [OF assms(2)] assms(3) last_sequence_length [OF assms(1)] by simp

interpretation receipts: memory_invariant env "\<lambda>k r. history_ok env k r \<and> receipts_ok k r" for env
proof unfold_locales
  show "history_ok env k r \<and> receipts_ok k r" if "run_created env now k r" for now k r
  proof
    show h: "history_ok env k r" using that by (rule created_history_ok)
    from that obtain i lease pd where valid: "validateCreateOwnedRun env i = Inr ()"
      and r: "r = \<lparr>me_workflow = co_workflow i, me_events = co_initialEvents i, me_lease = lease,
        me_mutations = [co_operationId i \<mapsto> \<lparr>mm_payloadDigest = pd,
          mm_receipt = \<lparr>mr_runId = k, mr_operationId = co_operationId i, mr_firstSequence = 1,
            mr_lastSequence = int (length (co_initialEvents i)), mr_replayed = False\<rparr>\<rparr>],
        me_controls = [], me_snapshots = [co_snapshot i]\<rparr>"
      unfolding run_created_def by blast
    from valid have "co_initialEvents i \<noteq> []" by (auto simp: validateCreateOwnedRun_def result_simps)
    show "receipts_ok k r"
      by (rule receipts_ok_append [of k "r\<lparr>me_events := [], me_mutations := Map.empty\<rparr>"
            "co_operationId i" r pd])
        (use \<open>co_initialEvents i \<noteq> []\<close> in \<open>auto simp: r receipts_ok_def op_covers_def\<close>)
  qed
  show "history_ok env k r' \<and> receipts_ok k r'"
    if step: "run_change env now k r r'" and ok: "history_ok env k r \<and> receipts_ok k r" for now k r r'
  proof
    show "history_ok env k r'" using histories.P_change [OF step] ok by blast
    show "receipts_ok k r'"
      using step ok
    proof (induction rule: run_change.induct)
      case (commit r m s ack pd)
      note range = commit_range [OF commit.prems [THEN conjunct1] commit.hyps(3,7)]
      show ?case
        by (rule receipts_ok_append [of k r "mu_operationId m" _ pd])
          (use commit.prems commit.hyps(6) range in \<open>auto\<close>)
    qed (auto simp: receipts_ok_def op_covers_def)
  qed
qed

section \<open>Controls\<close>

definition control_ok :: "string \<Rightarrow> run_event list \<Rightarrow> string \<times> memory_control \<Rightarrow> bool" where
  "control_ok k events = (\<lambda>(op, c).
     ct_operationId c = op \<and> ct_runId c = k \<and>
     (\<forall>q. mc_acknowledgedSequence c = Some q \<longrightarrow>
        1 \<le> q \<and> q \<le> int (length events) \<and> observes_control c (events ! (nat q - 1))))"

definition controls_ok :: "string \<Rightarrow> memory_run \<Rightarrow> bool" where
  "controls_ok k r \<longleftrightarrow> distinct (map fst (me_controls r)) \<and>
     (\<forall>oc \<in> set (me_controls r). control_ok k (me_events r) oc)"

lemma control_ok_extend: "control_ok k es oc \<Longrightarrow> control_ok k (es @ fs) oc"
proof -
  assume ok: "control_ok k es oc"
  obtain op c where oc: "oc = (op, c)" by (cases oc)
  have "nat q - 1 < length es" if "1 \<le> q" "q \<le> int (length es)" for q using that by linarith
  with ok show ?thesis by (auto simp: oc control_ok_def nth_append)
qed

lemma acknowledgement_facts:
  assumes "validateControlAcknowledgement r m = Inr (Some (op, q))"
  shows "\<exists>c e. map_of (me_controls r) op = Some c \<and> mc_acknowledgedSequence c = None \<and>
    mu_handlesControl m = Some op \<and> e \<in> set (mu_events m) \<and> observes_control c e \<and> ev_sequence e = q"
proof -
  from assms obtain op' where h: "mu_handlesControl m = Some op'"
    by (auto simp: validateControlAcknowledgement_def split: option.splits)
  from assms h obtain c where c: "map_of (me_controls r) op' = Some c"
    by (auto simp: validateControlAcknowledgement_def split: option.splits)
  from assms h c have fresh: "mc_acknowledgedSequence c = None"
    and e: "(case filter (observes_control c) (mu_events m) of
      [e] \<Rightarrow> Inr (Some (op', ev_sequence e)) | _ \<Rightarrow> Inl (StoreError ControlConflict)) = Inr (Some (op, q))"
    by (simp_all add: validateControlAcknowledgement_def result_simps)
  from e obtain x where x: "filter (observes_control c) (mu_events m) = [x]" "ev_sequence x = q" "op' = op"
    by (cases "filter (observes_control c) (mu_events m)" rule: remdups_adj.cases) auto
  then have "x \<in> set (filter (observes_control c) (mu_events m))" by simp
  with h c fresh x(2,3) show ?thesis by auto
qed

lemma observes_control_acknowledged [simp]:
  "observes_control (c\<lparr>mc_acknowledgedSequence := x\<rparr>) e = observes_control c e"
  by (simp add: observes_control_def)

lemma event_at_sequence:
  assumes "replayRun es = Inr s" and "e \<in> set es"
  shows "1 \<le> ev_sequence e \<and> ev_sequence e \<le> int (length es) \<and> es ! (nat (ev_sequence e) - 1) = e"
proof -
  from assms(2) obtain i where i: "i < length es" "es ! i = e" by (auto simp: in_set_conv_nth)
  with replayRun_contiguous [OF assms(1)] have "ev_sequence e = int i + 1"
    by (auto simp: contiguous_from_def)
  with i show ?thesis by (simp add: nat_add_distrib)
qed

interpretation controls: memory_invariant env controls_ok for env
proof unfold_locales
  show "controls_ok k r" if "run_created env now k r" for now k r
    using that by (auto simp: run_created_def controls_ok_def)
  show "controls_ok k r'" if "run_change env now k r r'" "controls_ok k r" for now k r r'
    using that
  proof (induction rule: run_change.induct)
    case (commit r m s ack pd)
    have old: "control_ok k (me_events r @ mu_events m) oc" if "oc \<in> set (me_controls r)" for oc
      using that commit.prems by (intro control_ok_extend) (auto simp: controls_ok_def)
    show ?case
    proof (cases ack)
      case None
      with commit.prems old show ?thesis by (simp add: controls_ok_def)
    next
      case (Some a)
      obtain op q where a: "a = (op, q)" by (cases a)
      with Some commit.hyps(11) obtain c e where c: "map_of (me_controls r) op = Some c"
        and e: "e \<in> set (mu_events m)" "observes_control c e" "ev_sequence e = q"
        using acknowledgement_facts [of r m op q] by blast
      have "control_ok k (me_events r @ mu_events m) (op, d\<lparr>mc_acknowledgedSequence := Some q\<rparr>)"
        if d: "(op, d) \<in> set (me_controls r)" for d
      proof -
        from d c commit.prems have "d = c"
          by (metis controls_ok_def map_of_is_SomeI option.inject)
        with old [OF d] e event_at_sequence [OF commit.hyps(8), of e] show ?thesis
          by (auto simp: control_ok_def)
      qed
      with old commit.prems show ?thesis
        by (auto simp: Some a controls_ok_def dict_simps set_update_at)
    qed
  next
    case (submit r opId action)
    then have "opId \<notin> fst ` set (me_controls r)" by (simp add: map_of_eq_None_iff)
    with submit show ?case by (auto simp: controls_ok_def control_ok_def)
  qed (auto simp: controls_ok_def)
qed

text \<open>A request is never withdrawn or changed, and stays acknowledged by the same event.\<close>

definition control_step :: "memory_run \<Rightarrow> memory_run \<Rightarrow> bool" where
  "control_step r r' \<longleftrightarrow>
     (\<forall>op c. map_of (me_controls r) op = Some c \<longrightarrow>
        (\<exists>c'. map_of (me_controls r') op = Some c' \<and> controlRequest c' = controlRequest c \<and>
           (mc_acknowledgedSequence c \<noteq> None \<longrightarrow> c' = c)))"

lemma control_step_refl [simp]: "control_step r r"
  by (simp add: control_step_def)

lemma control_step_trans: "control_step x y \<Longrightarrow> control_step y z \<Longrightarrow> control_step x z"
  unfolding control_step_def by metis

lemma controlRequest_acknowledged [simp]:
  "controlRequest (c\<lparr>mc_acknowledgedSequence := x\<rparr>) = controlRequest c"
  by (simp add: controlRequest_def)

lemma run_change_control_step: "run_change env now k r r' \<Longrightarrow> control_step r r'"
proof (induction rule: run_change.induct)
  case (commit r m s ack pd)
  show ?case
  proof (cases ack)
    case None
    then show ?thesis by (simp add: control_step_def)
  next
    case (Some a)
    obtain op q where a: "a = (op, q)" by (cases a)
    with Some commit.hyps(11) acknowledgement_facts [of r m op q] show ?thesis
      by (auto simp: control_step_def dict_simps)
  qed
qed (auto simp: control_step_def)

section \<open>From a store to all that follow it\<close>

lemma run_ops_lease:
  assumes "st k = Some r"
  shows "\<exists>r'. run_ops env st ops k = Some r' \<and> lease_step r r'"
  by (rule run_ops_runs [where R = lease_step])
    (rule assms lease_step_refl lease_step_trans run_change_lease_step; assumption)+

lemma run_ops_history:
  assumes "st k = Some r"
  shows "\<exists>r'. run_ops env st ops k = Some r' \<and> history_step r r'"
  by (rule run_ops_runs [where R = history_step])
    (rule assms history_step_refl history_step_trans run_change_history_step; assumption)+

lemma run_ops_control:
  assumes "st k = Some r"
  shows "\<exists>r'. run_ops env st ops k = Some r' \<and> control_step r r'"
  by (rule run_ops_runs [where R = control_step])
    (rule assms control_step_refl control_step_trans run_change_control_step; assumption)+

end
