(* ===== verification/Store_Contract.thy ===== *)
theory Store_Contract
  imports Store_Invariants
begin

text \<open>
  The contract between a durable store and the coordinators that share it, as a locale: leases
  only move forward, histories are only appended to, and an append carries the token of the
  current lease. What coordinators rely on follows once, for every store: a token that was
  superseded never writes again, whatever all the others do. The in-memory store interprets it.
\<close>

locale fenced_store =
  fixes attempt :: "'s \<Rightarrow> 'op \<Rightarrow> 's"
    and lease_of :: "'s \<Rightarrow> string \<Rightarrow> (int \<times> string) option"
    and events_of :: "'s \<Rightarrow> string \<Rightarrow> 'e list option"
    and token_of :: "'op \<Rightarrow> (string \<times> int \<times> string) option"
  assumes lease_forward: "lease_of s k = Some (g, w) \<Longrightarrow>
      \<exists>g' w'. lease_of (attempt s op) k = Some (g', w') \<and> (g < g' \<or> g = g' \<and> w = w')"
    and append_only: "events_of s k = Some es \<Longrightarrow> \<exists>fs. events_of (attempt s op) k = Some (es @ fs)"
    and append_fenced: "events_of s k = Some es \<Longrightarrow> events_of (attempt s op) k \<noteq> Some es \<Longrightarrow>
      \<exists>g w. token_of op = Some (k, g, w) \<and> lease_of s k = Some (g, w)"
begin

lemma leases_forward:
  "lease_of s k = Some (g, w) \<Longrightarrow>
     \<exists>g' w'. lease_of (foldl attempt s ops) k = Some (g', w') \<and> (g < g' \<or> g = g' \<and> w = w')"
proof (induction ops arbitrary: s g w)
  case Nil
  then show ?case by simp
next
  case (Cons op ops)
  from lease_forward [OF Cons.prems] obtain g1 w1 where
    "lease_of (attempt s op) k = Some (g1, w1)" "g < g1 \<or> g = g1 \<and> w = w1" by blast
  with Cons.IH [OF this(1)] show ?case by fastforce
qed

lemma histories_append_only:
  "events_of s k = Some es \<Longrightarrow> \<exists>fs. events_of (foldl attempt s ops) k = Some (es @ fs)"
proof (induction ops arbitrary: s es)
  case Nil
  then show ?case by simp
next
  case (Cons op ops)
  from append_only [OF Cons.prems] obtain fs where "events_of (attempt s op) k = Some (es @ fs)" by blast
  from Cons.IH [OF this] show ?case by auto
qed

text \<open>A token of an earlier generation never changes the history, in any continuation.\<close>

lemma superseded_never_writes:
  assumes "lease_of s k = Some (g', w')" and "g < g'" and "token_of op = Some (k, g, w)"
    and "events_of s k = Some es"
  shows "events_of (attempt (foldl attempt s ops) op) k = events_of (foldl attempt s ops) k"
proof -
  from leases_forward [OF assms(1)] obtain g1 w1 where g1: "lease_of (foldl attempt s ops) k = Some (g1, w1)"
    "g' \<le> g1" by fastforce
  from histories_append_only [OF assms(4)] obtain fs where
    fs: "events_of (foldl attempt s ops) k = Some (es @ fs)" by blast
  show ?thesis
  proof (rule ccontr)
    assume "\<not> ?thesis"
    with fs have "events_of (attempt (foldl attempt s ops) op) k \<noteq> Some (es @ fs)" by simp
    from append_fenced [OF fs this] assms(2,3) g1 show False by auto
  qed
qed

text \<open>Two tokens that can both write in one state are the same.\<close>

lemma one_writer:
  assumes "events_of s k = Some es"
    and "events_of (attempt s op1) k \<noteq> Some es" and "events_of (attempt s op2) k \<noteq> Some es"
  shows "token_of op1 = token_of op2"
  using append_fenced [OF assms(1,2)] append_fenced [OF assms(1,3)] by auto

end

section \<open>The in-memory store\<close>

definition memory_lease_of :: "memory_store \<Rightarrow> string \<Rightarrow> (int \<times> string) option" where
  "memory_lease_of st k = map_option (\<lambda>r. (le_generation (me_lease r), le_ownerId (me_lease r))) (st k)"

definition memory_events_of :: "memory_store \<Rightarrow> string \<Rightarrow> run_event list option" where
  "memory_events_of st k = map_option me_events (st k)"

definition commit_token :: "int \<times> store_op \<Rightarrow> (string \<times> int \<times> string) option" where
  "commit_token c =
     (case snd c of
        CommitOp m \<Rightarrow> Some (lt_runId (mu_lease m), lt_generation (mu_lease m), lt_ownerId (mu_lease m))
      | _ \<Rightarrow> None)"

lemma append_needs_commit:
  assumes "st k = Some r" and "memory_events_of (attempt_op env st c) k \<noteq> Some (me_events r)"
  shows "\<exists>m. snd c = CommitOp m \<and> lt_runId (mu_lease m) = k \<and>
    lt_generation (mu_lease m) = le_generation (me_lease r) \<and>
    lt_ownerId (mu_lease m) = le_ownerId (me_lease r)"
proof -
  obtain now op where c: "c = (now, op)" by (cases c)
  from assms obtain st' where st': "memory_run_op env now st op = Inr st'"
    and diff: "map_option me_events (st' k) \<noteq> Some (me_events r)"
    by (auto simp: c attempt_op_def memory_events_of_def split: sum.splits)
  have other: False if "st' = st(j \<mapsto> r2)" "st j = Some r1" "run_change env now j r1 r2"
    "\<And>m. op \<noteq> CommitOp m" "me_events r2 = me_events r1" for j r1 r2
    using that diff assms(1) by (auto split: if_splits)
  show ?thesis
  proof (cases op)
    case (CommitOp m)
    with st' obtain rc where "commitMutation env now st m = Inr (st', rc)" by (auto simp: result_simps)
    from commitMutation_Inr [OF this] diff assms(1) CommitOp c show ?thesis
      by (auto split: option.splits if_splits)
  next
    case (CreateOp i)
    with st' obtain t rc where "createOwned env now st i = Inr (st', t, rc)" by (auto simp: result_simps)
    from createOwned_Inr [OF this] diff assms(1) show ?thesis by (auto split: if_splits)
  next
    case (AcquireOp i)
    with st' diff assms(1) show ?thesis
      by (auto simp: result_simps acquireReleased_def split: if_splits)
  next
    case (TakeoverOp i)
    with st' diff assms(1) show ?thesis
      by (auto simp: result_simps takeoverExpired_def Let_def split: if_splits)
  next
    case (RenewOp t)
    with st' diff assms(1) show ?thesis
      by (auto simp: result_simps renewLease_def Let_def split: if_splits)
  next
    case (ReleaseOp t)
    with st' diff assms(1) show ?thesis
      by (auto simp: result_simps releaseLease_def Let_def split: if_splits)
  next
    case (ControlOp x)
    with st' diff assms(1) show ?thesis
      by (auto simp: result_simps submitControl_def Let_def split: if_splits option.splits)
  qed
qed

interpretation memory: fenced_store "attempt_op env" memory_lease_of memory_events_of commit_token for env
proof unfold_locales
  show "\<exists>g' w'. memory_lease_of (attempt_op env s op) k = Some (g', w') \<and> (g < g' \<or> g = g' \<and> w = w')"
    if "memory_lease_of s k = Some (g, w)" for s k g w op
  proof -
    from that obtain r where r: "s k = Some r" "g = le_generation (me_lease r)" "w = le_ownerId (me_lease r)"
      by (auto simp: memory_lease_of_def)
    from run_ops_lease [of s k r env "[op]"] r(1)
    obtain r' where "attempt_op env s op k = Some r'" "lease_step r r'" by auto
    with r show ?thesis by (auto simp: memory_lease_of_def lease_step_def Let_def)
  qed
  show "\<exists>fs. memory_events_of (attempt_op env s op) k = Some (es @ fs)"
    if "memory_events_of s k = Some es" for s k es op
  proof -
    from that obtain r where r: "s k = Some r" "es = me_events r" by (auto simp: memory_events_of_def)
    from run_ops_history [of s k r env "[op]"] r(1)
    obtain r' where "attempt_op env s op k = Some r'" "history_step r r'" by auto
    with r show ?thesis by (auto simp: memory_events_of_def history_step_def)
  qed
  show "\<exists>g w. commit_token op = Some (k, g, w) \<and> memory_lease_of s k = Some (g, w)"
    if "memory_events_of s k = Some es" "memory_events_of (attempt_op env s op) k \<noteq> Some es" for s k es op
  proof -
    from that(1) obtain r where r: "s k = Some r" "es = me_events r" by (auto simp: memory_events_of_def)
    from append_needs_commit [of s k r env op] that(2) r show ?thesis
      by (auto simp: commit_token_def memory_lease_of_def)
  qed
qed

end
