(* ===== verification/Store_Samples.thy ===== *)
theory Store_Samples
  imports Store_Contract Run_Samples
begin

text \<open>
  One session of two owners over a concrete store, on which the properties of the store are
  evaluated: the first owner creates a run, an operator asks for a pause, the owner acknowledges
  it, and after the lease has expired a second owner takes the run over.
\<close>

definition sample_env :: store_env where
  "sample_env = \<lparr>en_sha256 = (\<lambda>_. replicate 64 CHR ''a''), en_compiles = (\<lambda>_. True), en_collate = id\<rparr>"

definition sample_schema :: resolved_schema where
  "sample_schema = \<lparr>sc_ref = ''o.json'', sc_schema = JObj []\<rparr>"

definition stored_workflow :: workflow_definition where
  "stored_workflow =
     \<lparr>wf_apiVersion = ''anastom.dev/v1alpha1'', wf_kind = ''Workflow'',
      wf_metadata = \<lparr>wm_id = ''w'', wm_version = ''1.0.0''\<rparr>, wf_sourcePath = ''/f'', wf_inputs = [],
      wf_defaultAttemptBudget = \<lparr>ab_maxAttempts = 1, ab_maxDurationMs = None\<rparr>,
      wf_nodeOrder = [''a''],
      wf_nodes = [(''a'', \<lparr>nd_id = ''a'', nd_kind = GateNode, nd_needs = [], nd_role = None,
        nd_output = sample_schema, nd_attemptBudget = \<lparr>ab_maxAttempts = 1, ab_maxDurationMs = None\<rparr>,
        nd_mutation = None, nd_command = None\<rparr>)],
      wf_task = None\<rparr>"

definition first_owner :: string where
  "first_owner = ''00000000-0000-4000-8000-000000000001''"

definition second_owner :: string where
  "second_owner = ''00000000-0000-4000-8000-000000000002''"

definition sample_process :: local_process_identity where
  "sample_process =
     \<lparr>lp_version = ''anastom.dev/local-process/v1alpha1'',
      lp_hostIdentityDigest = ''sha256:'' @ replicate 64 CHR ''a'',
      lp_bootIdentityDigest = ''sha256:'' @ replicate 64 CHR ''b'', lp_pid = 7, lp_startToken = ''t''\<rparr>"

definition created_events :: "run_event list" where
  "created_events = [\<lparr>ev_runId = ''run-1'', ev_sequence = 1,
     ev_payload = RunCreated ''wi'' ''w'' ''1.0.0'' [''a''] []\<rparr>]"

definition observed_event :: run_event where
  "observed_event = \<lparr>ev_runId = ''run-1'', ev_sequence = 2,
     ev_payload = ControlRequestObserved ''c1'' PauseAction 2000\<rparr>"

definition sample_snapshot :: run_snapshot where
  "sample_snapshot = projr (createRunSnapshot sample_env stored_workflow created_events)"

definition sample_create :: create_owned_run where
  "sample_create =
     \<lparr>co_runId = ''run-1'', co_workflow = stored_workflow, co_initialEvents = created_events,
      co_ownerId = first_owner, co_owner = sample_process, co_operationId = ''m0'',
      co_snapshot = sample_snapshot\<rparr>"

definition sample_control :: control_submission where
  "sample_control = \<lparr>ct_runId = ''run-1'', ct_operationId = ''c1'', ct_action = PauseAction\<rparr>"

definition first_token :: run_lease_token where
  "first_token = \<lparr>lt_runId = ''run-1'', lt_ownerId = first_owner, lt_generation = 1\<rparr>"

definition sample_mutation :: fenced_run_mutation where
  "sample_mutation =
     \<lparr>mu_lease = first_token, mu_operationId = ''m1'', mu_expectedSequence = 1,
      mu_events = [observed_event], mu_snapshot = None, mu_handlesControl = Some ''c1''\<rparr>"

definition second_token :: run_lease_token where
  "second_token = \<lparr>lt_runId = ''run-1'', lt_ownerId = second_owner, lt_generation = 2\<rparr>"

definition first_lease :: run_lease where
  "first_lease =
     \<lparr>le_runId = ''run-1'', le_ownerId = first_owner, le_owner = sample_process, le_generation = 1,
      le_acquiredAtMs = 1000, le_renewedAtMs = 1000, le_expiresAtMs = 16000, le_released = False\<rparr>"

definition sample_takeover :: takeover_expired_run where
  "sample_takeover =
     \<lparr>aq_runId = ''run-1'', aq_ownerId = second_owner, aq_owner = sample_process,
      aq_observedLease = first_lease, aq_absenceObservedAtMs = 17000\<rparr>"

text \<open>The store after each operation.\<close>

definition created_receipt :: mutation_receipt where
  "created_receipt = \<lparr>mr_runId = ''run-1'', mr_operationId = ''m0'', mr_firstSequence = 1,
     mr_lastSequence = 1, mr_replayed = False\<rparr>"

definition sample_receipt :: mutation_receipt where
  "sample_receipt = \<lparr>mr_runId = ''run-1'', mr_operationId = ''m1'', mr_firstSequence = 2,
     mr_lastSequence = 2, mr_replayed = False\<rparr>"

definition recorded_control :: "int option \<Rightarrow> memory_control" where
  "recorded_control q = \<lparr>ct_runId = ''run-1'', ct_operationId = ''c1'', ct_action = PauseAction,
     ct_recordedAtMs = 2000, mc_acknowledgedSequence = q\<rparr>"

definition created_run :: memory_run where
  "created_run =
     \<lparr>me_workflow = stored_workflow, me_events = created_events, me_lease = first_lease,
      me_mutations = [''m0'' \<mapsto> \<lparr>mm_payloadDigest = sample_digest, mm_receipt = created_receipt\<rparr>],
      me_controls = [], me_snapshots = [sample_snapshot]\<rparr>"

definition requested_run :: memory_run where
  "requested_run = created_run\<lparr>me_controls := [(''c1'', recorded_control None)]\<rparr>"

definition committed_run :: memory_run where
  "committed_run = created_run\<lparr>me_events := created_events @ [observed_event],
     me_controls := [(''c1'', recorded_control (Some 2))],
     me_mutations := (me_mutations created_run)(''m1'' \<mapsto>
       \<lparr>mm_payloadDigest = sample_digest, mm_receipt = sample_receipt\<rparr>)\<rparr>"

definition taken_run :: memory_run where
  "taken_run = committed_run\<lparr>me_lease := first_lease\<lparr>le_ownerId := second_owner,
     le_generation := 2, le_acquiredAtMs := 20000, le_renewedAtMs := 20000, le_expiresAtMs := 35000\<rparr>\<rparr>"

section \<open>The session\<close>

lemma sample_digestJson: "is_json v \<Longrightarrow> digestJson (en_sha256 sample_env) v = Some sample_digest"
  using canonicalJson_defined_iff [of v]
  by (auto simp: digestJson_def digestBytes_def sample_env_def sample_digest_def)

lemma sample_snapshot: "createRunSnapshot sample_env stored_workflow created_events = Inr sample_snapshot"
proof -
  have "\<not> isl (createRunSnapshot sample_env stored_workflow created_events)" by code_simp
  then show ?thesis
    unfolding sample_snapshot_def
    by (cases "createRunSnapshot sample_env stored_workflow created_events") simp_all
qed

lemmas sample_eval = check_def some_or_def requireRun_def validateClock_def valid_timestamp_def
  is_safe_integer_def MAX_SAFE_INTEGER_def is_alnum_def is_digit_def leaseExpiry_def RUN_LEASE_DURATION_MS_def
  Let_def tokenFor_def controlRequest_def recorded_control_def requireFence_def nextGeneration_def

lemma sample_valid [simp]:
  "valid_process_identity sample_process" "is_uuid first_owner" "is_uuid second_owner"
  "is_identifier ''run-1''" "is_identifier ''m0''" "is_identifier ''m1''" "is_identifier ''c1''"
  by code_simp+

lemma sample_workflow_accepted:
  "assertWorkflowDefinition (en_compiles sample_env) stored_workflow = Inr ()"
  using sample_snapshot by (auto simp: createRunSnapshot_def result_simps)

lemma created_replay:
  obtains s where "replayRun created_events = Inr s" and "rs_runId s = ''run-1''"
    and "assertStateMatchesWorkflow s stored_workflow = Inr ()"
proof -
  from sample_snapshot obtain s where s: "replayRun created_events = Inr s"
    "assertStateMatchesWorkflow s stored_workflow = Inr ()"
    by (auto simp: createRunSnapshot_def result_simps)
  moreover from replayRun_contiguous [OF s(1)] have "rs_runId s = ''run-1''"
    by (simp add: created_events_def)
  ultimately show ?thesis using that by blast
qed

lemma sample_snapshot_sequence: "sn_sequence sample_snapshot = 1"
  using createRunSnapshot_sequence [OF sample_snapshot] by (simp add: created_events_def)

lemma sample_payload_digest:
  "list_all (\<lambda>e. is_json (event_js e)) (mu_events m) \<Longrightarrow>
   mutationPayloadDigest sample_env m = Inr sample_digest"
  unfolding mutationPayloadDigest_def
  by (subst sample_digestJson) (auto simp: some_or_def list_all_iff split: option.splits)

lemma sample_events_json: "is_json (event_js (hd created_events))" "is_json (event_js observed_event)"
  by (simp_all add: created_events_def observed_event_def event_js_def str_array_def)

lemma sample_created:
  "createOwned sample_env 1000 Map.empty sample_create =
     Inr ([''run-1'' \<mapsto> created_run], first_token, created_receipt)"
proof -
  obtain s where s: "replayRun created_events = Inr s" "rs_runId s = ''run-1''"
    "assertStateMatchesWorkflow s stored_workflow = Inr ()" by (rule created_replay)
  have "created_events \<noteq> []" by (simp add: created_events_def)
  with s sample_workflow_accepted sample_snapshot
  have "validateCreateOwnedRun sample_env sample_create = Inr ()"
    by (simp add: validateCreateOwnedRun_def sample_create_def assertRunSnapshot_iff map_error_def
        sample_eval del: is_identifier.simps)
  moreover have "list_all (\<lambda>e. is_json (event_js e)) created_events"
    using sample_events_json by (simp add: created_events_def)
  ultimately show ?thesis
    by (simp add: createOwned_def sample_eval fresh_lease_def sample_create_def first_token_def
        created_run_def first_lease_def created_receipt_def created_events_def
        sample_payload_digest)
qed

lemma sample_requested:
  "submitControl 2000 [''run-1'' \<mapsto> created_run] sample_control =
     Inr ([''run-1'' \<mapsto> requested_run], controlRequest (recorded_control None), False)"
  by (simp add: submitControl_def validateControlSubmission_def sample_control_def created_run_def
      requested_run_def sample_eval)

lemma sample_extended: "\<exists>s. replayRun (created_events @ [observed_event]) = Inr s \<and>
    assertStateMatchesWorkflow s stored_workflow = Inr ()"
proof -
  have "case replayRun (created_events @ [observed_event]) of Inl _ \<Rightarrow> False
    | Inr s \<Rightarrow> assertStateMatchesWorkflow s stored_workflow = Inr ()" by code_simp
  then show ?thesis by (auto split: sum.splits)
qed

lemma sample_committed:
  "commitMutation sample_env 3000 [''run-1'' \<mapsto> requested_run] sample_mutation =
     Inr ([''run-1'' \<mapsto> committed_run], sample_receipt)"
proof -
  obtain s where s: "replayRun (created_events @ [observed_event]) = Inr s"
    "assertStateMatchesWorkflow s stored_workflow = Inr ()" using sample_extended by blast
  have valid: "validateMutation sample_mutation = Inr ()" by code_simp
  have last: "last_sequence created_events = 1"
    by (simp add: created_events_def last_sequence_def last_opt_def)
  have digest: "mutationPayloadDigest sample_env sample_mutation = Inr sample_digest"
    using sample_events_json by (intro sample_payload_digest) (simp add: sample_mutation_def)
  have ack: "validateControlAcknowledgement requested_run sample_mutation = Inr (Some (''c1'', 2))"
    by (simp add: validateControlAcknowledgement_def sample_mutation_def requested_run_def
        recorded_control_def observes_control_def observed_event_def check_def)
  have fence: "requireFence requested_run first_token 3000 = Inr first_lease"
    by (simp add: requested_run_def created_run_def first_lease_def first_token_def sample_eval)
  have mutation: "mu_lease sample_mutation = first_token" "lt_runId first_token = ''run-1''"
      "mu_operationId sample_mutation = ''m1''" "mu_expectedSequence sample_mutation = 1"
      "mu_events sample_mutation = [observed_event]" "mu_snapshot sample_mutation = None"
      "ev_sequence observed_event = 2"
    by (simp_all add: sample_mutation_def first_token_def observed_event_def)
  have run: "me_events requested_run = created_events" "me_workflow requested_run = stored_workflow"
      "me_controls requested_run = [(''c1'', recorded_control None)]"
      "me_mutations requested_run ''m1'' = None"
    by (simp_all add: requested_run_def created_run_def)
  have after: "requested_run
      \<lparr>me_events := created_events @ [observed_event], me_snapshots := me_snapshots requested_run,
       me_controls := [(''c1'', recorded_control None\<lparr>mc_acknowledgedSequence := Some 2\<rparr>)],
       me_mutations := (me_mutations requested_run)(''m1'' \<mapsto>
         \<lparr>mm_payloadDigest = sample_digest, mm_receipt = sample_receipt\<rparr>)\<rparr> = committed_run"
    by (simp add: requested_run_def committed_run_def created_run_def recorded_control_def)
  show ?thesis
    unfolding commitMutation_def
    using s ack valid digest fence last after
    by (simp add: check_def some_or_def requireRun_def validateClock_def valid_timestamp_def
        is_safe_integer_def MAX_SAFE_INTEGER_def map_error_def mutation run Let_def update_at_def
        sample_receipt_def [symmetric])
qed

lemma sample_taken:
  "takeoverExpired 20000 [''run-1'' \<mapsto> committed_run] sample_takeover =
     Inr ([''run-1'' \<mapsto> taken_run], second_token)"
proof -
  have "valid_run_lease first_lease"
    by (simp add: valid_run_lease_def valid_lease_token_def first_lease_def sample_eval
        del: is_identifier.simps)
  then show ?thesis
    by (simp add: takeoverExpired_def validateAcquisition_def sample_eval fresh_lease_def
        sample_takeover_def committed_run_def created_run_def taken_run_def first_lease_def
        second_token_def)
qed

text \<open>The second owner retries the mutation of the first.\<close>

lemma sample_replayed:
  "\<exists>st rc. commitMutation sample_env 21000 [''run-1'' \<mapsto> taken_run]
     (sample_mutation\<lparr>mu_lease := second_token\<rparr>) = Inr (st, rc)"
proof -
  let ?m = "sample_mutation\<lparr>mu_lease := second_token\<rparr>"
  have "validateMutation ?m = Inr ()" by code_simp
  moreover have "mutationPayloadDigest sample_env ?m = Inr sample_digest"
    using sample_events_json by (intro sample_payload_digest) (simp add: sample_mutation_def)
  moreover have "requireFence taken_run second_token 21000 = Inr (me_lease taken_run)"
    by (simp add: taken_run_def first_lease_def second_token_def sample_eval)
  moreover have "mu_operationId ?m = ''m1''" "lt_runId second_token = ''run-1''"
    by (simp_all add: sample_mutation_def second_token_def)
  moreover have "me_mutations taken_run ''m1'' =
      Some \<lparr>mm_payloadDigest = sample_digest, mm_receipt = sample_receipt\<rparr>"
    by (simp add: taken_run_def committed_run_def)
  ultimately show ?thesis
    by (simp add: commitMutation_def check_def some_or_def requireRun_def validateClock_def
        valid_timestamp_def is_safe_integer_def MAX_SAFE_INTEGER_def)
qed

text \<open>The session as a sequence of attempted operations.\<close>

definition sample_ops :: "(int \<times> store_op) list" where
  "sample_ops = [(1000, CreateOp sample_create), (2000, ControlOp sample_control),
     (3000, CommitOp sample_mutation), (20000, TakeoverOp sample_takeover)]"

lemma sample_run_ops:
  "run_ops sample_env Map.empty (take 3 sample_ops) = [''run-1'' \<mapsto> committed_run]"
  "run_ops sample_env Map.empty sample_ops = [''run-1'' \<mapsto> taken_run]"
  by (simp_all add: sample_ops_def attempt_op_def sample_created sample_requested sample_committed
      sample_taken)

end
