(* ===== verification/Store_Properties.thy ===== *)
theory Store_Properties
  imports Store_Samples
begin

text \<open>
  The properties of the durable store (\<open>engine/src/durable-store.ts\<close>): fencing, append-only
  histories, takeover, idempotent commits, receipts, snapshots and controls. They hold for every
  sequence of operations by any number of callers, evaluated on the session of \<open>Store_Samples\<close>.
\<close>

section \<open>Leases\<close>

text \<open>
  C27: a token of an earlier generation is fenced for good: whatever happens to the store after
  the run has moved on to a later generation, a commit, a renewal and a release with that token
  fail, the release with an ownership conflict.
\<close>

theorem superseded_token_fenced:
  assumes "st k = Some r" and "lt_runId t = k" and "lt_generation t < le_generation (me_lease r)"
    and "valid_lease_token t" and "mu_lease m = t"
  shows "isl (commitMutation env now (run_ops env st ops) m) \<and>
    isl (renewLease now (run_ops env st ops) t) \<and>
    releaseLease (run_ops env st ops) t = Inl (StoreError OwnershipConflict)"
proof -
  from run_ops_lease [of st k r env ops] assms(1) obtain r' where r': "run_ops env st ops k = Some r'"
    and "lease_step r r'" by blast
  with assms(3) have gen: "lt_generation t < le_generation (me_lease r')"
    by (auto simp: lease_step_def Let_def)
  have "isl (commitMutation env now (run_ops env st ops) m)"
  proof (cases "commitMutation env now (run_ops env st ops) m")
    case (Inr p)
    then obtain st' rc where "commitMutation env now (run_ops env st ops) m = Inr (st', rc)"
      by (cases p) auto
    from commitMutation_Inr [OF this] r' assms(2,5) gen show ?thesis by auto
  qed simp
  moreover have "isl (renewLease now (run_ops env st ops) t)"
  proof (cases "renewLease now (run_ops env st ops) t")
    case (Inr p)
    then obtain st' l where "renewLease now (run_ops env st ops) t = Inr (st', l)" by (cases p) auto
    from renewLease_Inr [OF this, of env] r' assms(2) gen show ?thesis by auto
  qed simp
  moreover have "releaseLease (run_ops env st ops) t = Inl (StoreError OwnershipConflict)"
    using r' assms(2,4) gen
    by (simp add: releaseLease_def check_def requireRun_def some_or_def Let_def)
  ultimately show ?thesis by blast
qed

theorem superseded_token_fenced_witness:
  "isl (commitMutation sample_env 21000 [''run-1'' \<mapsto> taken_run] sample_mutation)"
proof -
  have "valid_lease_token first_token"
    by (simp add: valid_lease_token_def first_token_def sample_eval del: is_identifier.simps)
  then show ?thesis
    using superseded_token_fenced [of "[''run-1'' \<mapsto> taken_run]" "''run-1''" taken_run first_token
        sample_mutation sample_env 21000 "[]"]
    by (simp add: first_token_def taken_run_def committed_run_def created_run_def first_lease_def
        sample_mutation_def)
qed

text \<open>
  C28: only the holder of the current, unexpired lease writes: an operation that changes the
  history of a run is a commit whose token is the run's lease at that moment, and the change is
  that the events of the commit are appended.
\<close>

theorem only_holder_writes:
  assumes "st k = Some r" and "memory_run_op env now st op = Inr st'" and "st' k = Some r'"
    and "me_events r' \<noteq> me_events r"
  shows "\<exists>m. op = CommitOp m \<and> lt_runId (mu_lease m) = k \<and>
    lt_ownerId (mu_lease m) = le_ownerId (me_lease r) \<and>
    lt_generation (mu_lease m) = le_generation (me_lease r) \<and>
    \<not> le_released (me_lease r) \<and> now < le_expiresAtMs (me_lease r) \<and>
    me_events r' = me_events r @ mu_events m"
proof -
  have "memory_events_of (attempt_op env st (now, op)) k \<noteq> Some (me_events r)"
    using assms by (simp add: memory_events_of_def attempt_op_def)
  from append_needs_commit [of st k r env "(now, op)", OF assms(1) this]
  obtain m where m: "op = CommitOp m" "lt_runId (mu_lease m) = k" by auto
  with assms(2) obtain rc where "commitMutation env now st m = Inr (st', rc)"
    by (auto simp: result_simps)
  from commitMutation_Inr [OF this] m assms(1,3,4) show ?thesis by (auto split: option.splits)
qed

theorem only_holder_writes_witness:
  "lt_ownerId (mu_lease sample_mutation) = le_ownerId (me_lease requested_run)"
proof -
  have "memory_run_op sample_env 3000 [''run-1'' \<mapsto> requested_run] (CommitOp sample_mutation) =
      Inr [''run-1'' \<mapsto> committed_run]"
    by (simp add: sample_committed)
  then show ?thesis
    using only_holder_writes [of "[''run-1'' \<mapsto> requested_run]" "''run-1''" requested_run sample_env 3000
        "CommitOp sample_mutation" "[''run-1'' \<mapsto> committed_run]" committed_run]
    by (auto simp: requested_run_def committed_run_def created_run_def)
qed

text \<open>
  C29: takeover is decided exactly: a valid request against a valid clock succeeds when, and only
  when, the observed lease is the current one, it is not released, and it had expired both now and
  when the absence of the owner was observed; the new lease has the next generation and fifteen
  seconds to run.
\<close>

theorem takeover_exact:
  assumes "st (aq_runId i) = Some r" and "validateAcquisition i = Inr ()"
    and "valid_run_lease (aq_observedLease i)" and "valid_timestamp (aq_absenceObservedAtMs i)"
    and "valid_timestamp now" and "valid_timestamp (now + 15000)"
    and "is_safe_integer (le_generation (me_lease r) + 1)"
  shows "takeoverExpired now st i =
    (if me_lease r = aq_observedLease i \<and> \<not> le_released (me_lease r) \<and>
        le_expiresAtMs (me_lease r) \<le> aq_absenceObservedAtMs i \<and> aq_absenceObservedAtMs i \<le> now
     then Inr (st(aq_runId i \<mapsto> r\<lparr>me_lease :=
         \<lparr>le_runId = aq_runId i, le_ownerId = aq_ownerId i, le_owner = aq_owner i,
          le_generation = le_generation (me_lease r) + 1, le_acquiredAtMs = now,
          le_renewedAtMs = now, le_expiresAtMs = now + 15000, le_released = False\<rparr>\<rparr>),
       \<lparr>lt_runId = aq_runId i, lt_ownerId = aq_ownerId i,
        lt_generation = le_generation (me_lease r) + 1\<rparr>)
     else Inl (StoreError OwnershipConflict))"
  using assms
  by (auto simp: takeoverExpired_def check_def requireRun_def some_or_def validateClock_def
      nextGeneration_def fresh_lease_def leaseExpiry_def RUN_LEASE_DURATION_MS_def tokenFor_def Let_def)

theorem takeover_exact_witness:
  "takeoverExpired 15999 [''run-1'' \<mapsto> committed_run] (sample_takeover\<lparr>aq_absenceObservedAtMs := 15999\<rparr>) =
     Inl (StoreError OwnershipConflict)"
proof -
  have "valid_run_lease first_lease"
    by (simp add: valid_run_lease_def valid_lease_token_def first_lease_def sample_eval
        del: is_identifier.simps)
  then show ?thesis
    using takeover_exact [of "[''run-1'' \<mapsto> committed_run]"
        "sample_takeover\<lparr>aq_absenceObservedAtMs := 15999\<rparr>" committed_run 15999]
    by (simp add: sample_takeover_def validateAcquisition_def sample_eval committed_run_def
        created_run_def first_lease_def)
qed

text \<open>
  The lease of every run of every reachable store is well formed: it names its run, its
  generation starts at one, and it expires fifteen seconds after its last renewal, which is not
  before it was acquired; from there on generations never go back, and within a generation the
  owner stays, renewals only move forward and a released lease is never active again.
\<close>

theorem lease_monotone:
  assumes "run_ops env Map.empty ops k = Some r"
  shows "le_runId (me_lease r) = k \<and> 1 \<le> le_generation (me_lease r) \<and>
    le_acquiredAtMs (me_lease r) \<le> le_renewedAtMs (me_lease r) \<and>
    le_expiresAtMs (me_lease r) = le_renewedAtMs (me_lease r) + 15000 \<and>
    (\<exists>r'. run_ops env Map.empty (ops @ later) k = Some r' \<and>
       (le_generation (me_lease r) < le_generation (me_lease r') \<or>
        le_generation (me_lease r) = le_generation (me_lease r') \<and>
        le_ownerId (me_lease r) = le_ownerId (me_lease r') \<and>
        le_renewedAtMs (me_lease r) \<le> le_renewedAtMs (me_lease r') \<and>
        (le_released (me_lease r) \<longrightarrow> le_released (me_lease r'))))"
proof -
  from leases.P_reachable [OF assms] have "lease_ok k r" .
  moreover from run_ops_lease [of "run_ops env Map.empty ops" k r env later] assms
  obtain r' where "run_ops env Map.empty (ops @ later) k = Some r'" "lease_step r r'"
    by (auto simp: run_ops_append)
  ultimately show ?thesis
    by (auto simp: lease_ok_def lease_step_def Let_def RUN_LEASE_DURATION_MS_def)
qed

theorem lease_monotone_witness:
  "le_expiresAtMs (me_lease taken_run) = le_renewedAtMs (me_lease taken_run) + 15000"
  using lease_monotone [of sample_env sample_ops "''run-1''" taken_run] by (simp add: sample_run_ops)

section \<open>Histories\<close>

text \<open>
  C31: the history of every run of every reachable store replays to a state of that run and of its
  workflow, which \<open>assertWorkflowDefinition\<close> accepts; from there on the workflow stays the same and
  events are only appended.
\<close>

theorem stored_history_valid:
  assumes "run_ops env Map.empty ops k = Some r"
  shows "(\<exists>s. replayRun (me_events r) = Inr s \<and> rs_runId s = k \<and>
       assertStateMatchesWorkflow s (me_workflow r) = Inr ()) \<and>
    assertWorkflowDefinition (en_compiles env) (me_workflow r) = Inr () \<and>
    (\<exists>r' es. run_ops env Map.empty (ops @ later) k = Some r' \<and> me_workflow r' = me_workflow r \<and>
       me_events r' = me_events r @ es)"
proof -
  from run_ops_history [of "run_ops env Map.empty ops" k r env later] assms obtain r'
    where "run_ops env Map.empty (ops @ later) k = Some r'" "history_step r r'"
    by (auto simp: run_ops_append)
  with histories.P_reachable [OF assms] show ?thesis by (auto simp: history_ok_def history_step_def)
qed

theorem stored_history_valid_witness: "\<exists>s. replayRun (me_events taken_run) = Inr s \<and> rs_runId s = ''run-1''"
  using stored_history_valid [of sample_env sample_ops "''run-1''" taken_run] by (auto simp: sample_run_ops)

text \<open>
  C32: a commit is applied once: when an operation was committed, every later commit of the same
  operation to that run, by whatever owner and with whatever else in between, either fails or
  changes nothing and returns the first receipt marked as replayed, and it can return only if its
  payload has the digest of the first one.
\<close>

theorem commit_idempotent:
  assumes "commitMutation env now st m = Inr (st1, rc)" and "mu_operationId m' = mu_operationId m"
    and "lt_runId (mu_lease m') = lt_runId (mu_lease m)"
    and "commitMutation env now' (run_ops env st1 ops) m' = Inr (st2, rc')"
  shows "st2 = run_ops env st1 ops \<and> rc' = rc\<lparr>mr_replayed := True\<rparr> \<and>
    mutationPayloadDigest env m' = mutationPayloadDigest env m"
proof -
  let ?k = "lt_runId (mu_lease m)" and ?op = "mu_operationId m"
  from commitMutation_Inr [OF assms(1)] obtain r1 x where r1: "st1 ?k = Some r1"
    and x: "me_mutations r1 ?op = Some x" "mutationPayloadDigest env m = Inr (mm_payloadDigest x)"
    and rc: "rc\<lparr>mr_replayed := True\<rparr> = (mm_receipt x)\<lparr>mr_replayed := True\<rparr>"
    by (auto split: option.splits)
  from run_ops_history [of st1 ?k r1 env ops] r1 obtain r2 where r2: "run_ops env st1 ops ?k = Some r2"
    and "history_step r1 r2" by blast
  then have "me_mutations r1 \<subseteq>\<^sub>m me_mutations r2" by (simp add: history_step_def)
  with x(1) have "me_mutations r2 ?op = Some x" by (metis domI map_le_def)
  with commitMutation_Inr [OF assms(4)] r2 x(2) rc assms(2,3) show ?thesis by auto
qed

theorem commit_idempotent_witness:
  "\<exists>st2 rc'. commitMutation sample_env 21000 [''run-1'' \<mapsto> taken_run]
       (sample_mutation\<lparr>mu_lease := second_token\<rparr>) = Inr (st2, rc') \<and>
     st2 = [''run-1'' \<mapsto> taken_run] \<and> rc' = sample_receipt\<lparr>mr_replayed := True\<rparr>"
proof -
  have "run_ops sample_env [''run-1'' \<mapsto> committed_run] [(20000, TakeoverOp sample_takeover)] =
      [''run-1'' \<mapsto> taken_run]"
    by (simp add: attempt_op_def sample_taken)
  moreover obtain st2 rc' where "commitMutation sample_env 21000 [''run-1'' \<mapsto> taken_run]
      (sample_mutation\<lparr>mu_lease := second_token\<rparr>) = Inr (st2, rc')"
    using sample_replayed by blast
  ultimately show ?thesis
    using commit_idempotent [OF sample_committed, of "sample_mutation\<lparr>mu_lease := second_token\<rparr>" 21000
        "[(20000, TakeoverOp sample_takeover)]" st2 rc']
    by (simp add: sample_mutation_def first_token_def second_token_def)
qed

text \<open>
  C33: receipts account for the history: in every reachable store each recorded operation has
  appended a non-empty range of the sequence numbers of its run, and each event was appended by
  exactly one recorded operation.
\<close>

theorem receipts_partition_history:
  assumes "run_ops env Map.empty ops k = Some r"
  shows "(\<forall>op m. me_mutations r op = Some m \<longrightarrow>
       mr_runId (mm_receipt m) = k \<and> mr_operationId (mm_receipt m) = op \<and>
       1 \<le> mr_firstSequence (mm_receipt m) \<and>
       mr_firstSequence (mm_receipt m) \<le> mr_lastSequence (mm_receipt m) \<and>
       mr_lastSequence (mm_receipt m) \<le> int (length (me_events r))) \<and>
    (\<forall>i. 1 \<le> i \<and> i \<le> int (length (me_events r)) \<longrightarrow>
       (\<exists>!op. \<exists>m. me_mutations r op = Some m \<and> mr_firstSequence (mm_receipt m) \<le> i \<and>
          i \<le> mr_lastSequence (mm_receipt m)))"
  using receipts.P_reachable [OF assms] unfolding receipts_ok_def op_covers_def by blast

theorem receipts_partition_history_witness:
  "\<exists>!op. \<exists>m. me_mutations taken_run op = Some m \<and> mr_firstSequence (mm_receipt m) \<le> 2 \<and>
     2 \<le> mr_lastSequence (mm_receipt m)"
  using receipts_partition_history [of sample_env sample_ops "''run-1''" taken_run]
  by (auto simp: sample_run_ops taken_run_def committed_run_def created_run_def created_events_def)

text \<open>
  every stored snapshot is the snapshot of a prefix of the history it is stored with: what
  \<open>createRunSnapshot\<close> makes of the first \<open>sequence\<close> events. Loading such a run returns the replay of
  the whole history and its digest, whichever snapshot it found.
\<close>

theorem snapshots_of_prefixes:
  assumes "run_ops env Map.empty ops k = Some r"
  shows "(\<forall>sn \<in> set (me_snapshots r). 1 \<le> sn_sequence sn \<and> sn_sequence sn \<le> int (length (me_events r)) \<and>
       createRunSnapshot env (me_workflow r) (take (nat (sn_sequence sn)) (me_events r)) = Inr sn) \<and>
    (\<forall>complete l. loadRun env (run_ops env Map.empty ops) k complete = Inr (Some l) \<longrightarrow>
       ld_workflow l = me_workflow r \<and> replayRun (me_events r) = Inr (ld_state l) \<and>
       event_prefix_digest env (me_events r) = Inr (ld_eventPrefixDigest l) \<and>
       ld_events l = (if complete then me_events r else []) \<and>
       (\<forall>n. ld_snapshotSequence l = Some n \<longrightarrow> n \<le> rs_sequence (ld_state l)))"
proof (intro conjI allI impI)
  show snaps: "\<forall>sn \<in> set (me_snapshots r). 1 \<le> sn_sequence sn \<and>
      sn_sequence sn \<le> int (length (me_events r)) \<and>
      createRunSnapshot env (me_workflow r) (take (nat (sn_sequence sn)) (me_events r)) = Inr sn"
    using snapshots.P_reachable [OF assms] by (simp add: snapshots_ok_def)
  fix complete l
  assume load: "loadRun env (run_ops env Map.empty ops) k complete = Inr (Some l)"
  then obtain s sn where s: "replayRun (me_events r) = Inr s"
    and sn: "createRunSnapshot env (me_workflow r) (me_events r) = Inr sn"
    and l: "l = \<lparr>ld_workflow = me_workflow r, ld_state = s, ld_eventPrefixDigest = sn_eventPrefixDigest sn,
      ld_snapshotSequence = map_option sn_sequence
        (List.find (snapshotCompatible env (me_workflow r) (me_events r) s)
          (sort_key (\<lambda>x. - sn_sequence x) (me_snapshots r))),
      ld_events = (if complete then me_events r else [])\<rparr>"
    using assms by (auto simp: loadRun_def result_simps)
  show "ld_workflow l = me_workflow r" "replayRun (me_events r) = Inr (ld_state l)"
    "ld_events l = (if complete then me_events r else [])"
    by (simp_all add: l s)
  show "event_prefix_digest env (me_events r) = Inr (ld_eventPrefixDigest l)"
    using sn by (auto simp: l createRunSnapshot_def createRunSnapshotFromState_def result_simps)
  fix n assume "ld_snapshotSequence l = Some n"
  then obtain x where "List.find (snapshotCompatible env (me_workflow r) (me_events r) s)
      (sort_key (\<lambda>x. - sn_sequence x) (me_snapshots r)) = Some x" and n: "sn_sequence x = n"
    by (auto simp: l)
  then have "x \<in> set (sort_key (\<lambda>x. - sn_sequence x) (me_snapshots r))"
    unfolding find_Some_iff by (metis nth_mem)
  with snaps replayRun_contiguous [OF s] n show "n \<le> rs_sequence (ld_state l)"
    by (auto simp: l)
qed

theorem snapshots_of_prefixes_witness:
  "createRunSnapshot sample_env stored_workflow (take 1 (me_events taken_run)) = Inr sample_snapshot"
  using snapshots_of_prefixes [of sample_env sample_ops "''run-1''" taken_run]
  by (simp add: sample_run_ops taken_run_def committed_run_def created_run_def sample_snapshot_sequence)

section \<open>Controls\<close>

text \<open>
  C34: an acknowledged control was observed: in every reachable store the sequence a control is
  acknowledged with is that of an event of the history that records exactly this request; and from
  there on a request is never withdrawn, changed or acknowledged again.
\<close>

theorem controls_acknowledged_by_history:
  assumes "run_ops env Map.empty ops k = Some r" and "map_of (me_controls r) op = Some c"
  shows "(\<forall>q. mc_acknowledgedSequence c = Some q \<longrightarrow>
       (\<exists>e \<in> set (me_events r). ev_sequence e = q \<and>
          ev_payload e = ControlRequestObserved op (ct_action c) (ct_recordedAtMs c))) \<and>
    (\<exists>r' c'. run_ops env Map.empty (ops @ later) k = Some r' \<and> map_of (me_controls r') op = Some c' \<and>
       controlRequest c' = controlRequest c \<and> (mc_acknowledgedSequence c \<noteq> None \<longrightarrow> c' = c))"
proof (intro conjI allI impI)
  from controls.P_reachable [OF assms(1)] map_of_SomeD [OF assms(2)]
  have ok: "control_ok k (me_events r) (op, c)" by (auto simp: controls_ok_def)
  from histories.P_reachable [OF assms(1)] obtain s where s: "replayRun (me_events r) = Inr s"
    by (auto simp: history_ok_def)
  fix q assume "mc_acknowledgedSequence c = Some q"
  with ok have q: "1 \<le> q" "q \<le> int (length (me_events r))"
    and e: "observes_control c (me_events r ! (nat q - 1))" "ct_operationId c = op"
    by (simp_all add: control_ok_def)
  let ?e = "me_events r ! (nat q - 1)"
  have "?e \<in> set (me_events r)" using q by (intro nth_mem) linarith
  moreover have "ev_sequence ?e = q"
    using replayRun_contiguous [OF s] q by (auto simp: contiguous_from_def)
  ultimately show "\<exists>e \<in> set (me_events r). ev_sequence e = q \<and>
      ev_payload e = ControlRequestObserved op (ct_action c) (ct_recordedAtMs c)"
    using e by (auto simp: observes_control_def)
next
  from run_ops_control [of "run_ops env Map.empty ops" k r env later] assms obtain r'
    where "run_ops env Map.empty (ops @ later) k = Some r'" "control_step r r'"
    by (auto simp: run_ops_append)
  with assms(2) show "\<exists>r' c'. run_ops env Map.empty (ops @ later) k = Some r' \<and>
      map_of (me_controls r') op = Some c' \<and> controlRequest c' = controlRequest c \<and>
      (mc_acknowledgedSequence c \<noteq> None \<longrightarrow> c' = c)"
    by (auto simp: control_step_def)
qed

theorem controls_acknowledged_by_history_witness:
  "\<exists>e \<in> set (me_events taken_run). ev_payload e = ControlRequestObserved ''c1'' PauseAction 2000"
  using controls_acknowledged_by_history [of sample_env sample_ops "''run-1''" taken_run "''c1''"
      "recorded_control (Some 2)" "[]"]
  by (auto simp: sample_run_ops taken_run_def committed_run_def recorded_control_def)

text \<open>
  \<open>pendingControls\<close> returns the oldest unacknowledged requests: every result is one, they come
  in the order they were recorded, there are at most \<open>limit\<close>, and a pending request is left out only
  when the limit is reached and no later than every one that is returned.
\<close>

theorem pending_controls_exact:
  assumes "pendingControls env st k limit = Inr cs" and "st k = Some r"
  shows "int (length cs) \<le> limit \<and> sorted (map ct_recordedAtMs cs) \<and>
    (\<forall>x \<in> set cs. \<exists>op c. (op, c) \<in> set (me_controls r) \<and> mc_acknowledgedSequence c = None \<and>
       x = controlRequest c) \<and>
    (\<forall>(op, c) \<in> set (me_controls r). mc_acknowledgedSequence c = None \<longrightarrow> controlRequest c \<notin> set cs \<longrightarrow>
       int (length cs) = limit \<and> (\<forall>x \<in> set cs. ct_recordedAtMs x \<le> ct_recordedAtMs c))"
proof -
  let ?pending = "filter (\<lambda>c. mc_acknowledgedSequence c = None) (map snd (me_controls r))"
  let ?all = "sort_key ct_recordedAtMs (sort_key (\<lambda>c. en_collate env (ct_operationId c)) ?pending)"
  let ?n = "nat limit"
  from assms have cs: "cs = map controlRequest (take ?n ?all)" and limit: "1 \<le> limit"
    by (auto simp: pendingControls_def assertControlLimit_def result_simps)
  have time: "map ct_recordedAtMs cs = map ct_recordedAtMs (take ?n ?all)"
    by (simp add: cs controlRequest_def)
  have sorted: "sorted (map ct_recordedAtMs ?all)" by simp
  have "sorted (map ct_recordedAtMs cs)"
    unfolding time take_map [symmetric] using sorted by (rule sorted_wrt_take)
  moreover have "int (length cs) \<le> limit" using limit by (simp add: cs)
  moreover have "\<exists>op c. (op, c) \<in> set (me_controls r) \<and> mc_acknowledgedSequence c = None \<and>
      x = controlRequest c" if "x \<in> set cs" for x
    using that by (fastforce simp: cs dest: in_set_takeD)
  moreover have "int (length cs) = limit \<and> (\<forall>x \<in> set cs. ct_recordedAtMs x \<le> ct_recordedAtMs c)"
    if c: "(op, c) \<in> set (me_controls r)" "mc_acknowledgedSequence c = None" "controlRequest c \<notin> set cs"
    for op c
  proof -
    have "c \<in> set ?all" using c(1,2) by force
    moreover have "c \<notin> set (take ?n ?all)" using c(3) by (auto simp: cs)
    ultimately have drop: "c \<in> set (drop ?n ?all)" by (metis append_take_drop_id set_append Un_iff)
    then have "?n < length ?all" by (cases "length ?all \<le> ?n") auto
    then have "int (length cs) = limit" using limit by (simp add: cs)
    moreover have "ct_recordedAtMs y \<le> ct_recordedAtMs c" if "y \<in> set (take ?n ?all)" for y
    proof -
      have "sorted (map ct_recordedAtMs (take ?n ?all) @ map ct_recordedAtMs (drop ?n ?all))"
        using sorted by (simp only: append_take_drop_id map_append [symmetric])
      with that drop show ?thesis by (auto simp: sorted_append)
    qed
    ultimately show ?thesis by (auto simp: cs controlRequest_def)
  qed
  ultimately show ?thesis by blast
qed

theorem pending_controls_exact_witness:
  "pendingControls sample_env [''run-1'' \<mapsto> requested_run] ''run-1'' 1 = Inr [controlRequest (recorded_control None)] \<and>
   sorted (map ct_recordedAtMs [controlRequest (recorded_control None)])"
proof -
  have eq: "pendingControls sample_env [''run-1'' \<mapsto> requested_run] ''run-1'' 1 =
      Inr [controlRequest (recorded_control None)]"
    by (simp add: pendingControls_def assertControlLimit_def sample_eval requested_run_def)
  with pending_controls_exact [OF eq, of requested_run] show ?thesis by simp
qed

text \<open>
  Submitting a control is idempotent: once a request was recorded, every later submission of
  its operation with the same action changes nothing and returns the recorded request as replayed,
  and one with another action is refused.
\<close>

lemma submit_control_idempotent:
  assumes "submitControl now st c = Inr (st1, request, replayed)"
    and "ct_runId d = ct_runId c" and "ct_operationId d = ct_operationId c"
  shows "submitControl now' (run_ops env st1 ops) d =
    (if ct_action d = ct_action c then Inr (run_ops env st1 ops, request, True)
     else Inl (StoreError ControlConflict))"
proof -
  from assms(1) obtain r1 c1 where r1: "st1 (ct_runId c) = Some r1"
    and c1: "map_of (me_controls r1) (ct_operationId c) = Some c1"
      "controlRequest c1 = request" "ct_action c1 = ct_action c"
    by (auto simp: submitControl_def Let_def result_simps map_add_Some_iff controlRequest_def
        split: option.splits)
  have valid: "validateControlSubmission d = Inr ()"
    using assms by (auto simp: submitControl_def validateControlSubmission_def result_simps)
  from run_ops_control [of st1 "ct_runId c" r1 env ops] r1 obtain r2 where r2: "run_ops env st1 ops (ct_runId c) = Some r2"
    and "control_step r1 r2" by blast
  with c1(1) obtain c2 where c2: "map_of (me_controls r2) (ct_operationId c) = Some c2"
    "controlRequest c2 = controlRequest c1"
    unfolding control_step_def by blast
  from c2(2) c1(3) have "ct_action c2 = ct_action c" by (simp add: controlRequest_def)
  with valid r2 c2 c1(2) assms(2,3) show ?thesis
    by (simp add: submitControl_def check_def requireRun_def some_or_def)
qed

end
