(* ===== verification/Json_Parse.thy ===== *)
theory Json_Parse
  imports Json_Canonical "HOL-Library.Multiset"
begin

text \<open>
  \<open>JSON.parse\<close>, with which the durable store reads back the text it has written. An object gets
  its keys in the order JavaScript lists them; of a repeated key the last value counts. Fractions,
  exponents and code units above 255 are outside the model: the parser gives \<open>None\<close> for them as it
  does for a syntax error.
\<close>

section \<open>Strings and numbers\<close>

fun skip_ws :: "string \<Rightarrow> string" where
  "skip_ws [] = []"
| "skip_ws (c # cs) =
     (if c \<in> {CHR '' '', CHR 0x09, CHR 0x0A, CHR 0x0D} then skip_ws cs else c # cs)"

definition hex_value :: "char \<Rightarrow> nat option" where
  "hex_value c =
     (if is_digit c then Some (of_char c - 48)
      else if 97 \<le> (of_char c :: nat) \<and> (of_char c :: nat) \<le> 102 then Some (of_char c - 87)
      else if 65 \<le> (of_char c :: nat) \<and> (of_char c :: nat) \<le> 70 then Some (of_char c - 55)
      else None)"

definition hex4 :: "char \<Rightarrow> char \<Rightarrow> char \<Rightarrow> char \<Rightarrow> char option" where
  "hex4 a b c d =
     (case (hex_value a, hex_value b, hex_value c, hex_value d) of
        (Some w, Some x, Some y, Some z) \<Rightarrow>
          if w = 0 \<and> x = 0 then Some (char_of (16 * y + z)) else None
      | _ \<Rightarrow> None)"

definition short_escape :: "char \<Rightarrow> char option" where
  "short_escape e = map_of
     [(CHR 0x22, CHR 0x22), (CHR 0x5C, CHR 0x5C), (CHR ''/'', CHR ''/''), (CHR ''b'', CHR 0x08),
      (CHR ''f'', CHR 0x0C), (CHR ''n'', CHR 0x0A), (CHR ''r'', CHR 0x0D), (CHR ''t'', CHR 0x09)] e"

definition cons_char :: "char \<Rightarrow> (string \<times> string) option \<Rightarrow> (string \<times> string) option" where
  "cons_char c r = map_option (\<lambda>(s, rest). (c # s, rest)) r"

text \<open>The characters of a string literal after its opening quote, and what follows the closing one.\<close>

fun parse_chars :: "string \<Rightarrow> (string \<times> string) option" where
  "parse_chars [] = None"
| "parse_chars (c # cs) =
     (if c = CHR 0x22 then Some ([], cs)
      else if c = CHR 0x5C then
        (case cs of
           [] \<Rightarrow> None
         | e # ds \<Rightarrow>
             if e = CHR ''u'' then
               (case ds of
                  h1 # h2 # h3 # h4 # es \<Rightarrow>
                    (case hex4 h1 h2 h3 h4 of None \<Rightarrow> None | Some x \<Rightarrow> cons_char x (parse_chars es))
                | _ \<Rightarrow> None)
             else (case short_escape e of None \<Rightarrow> None | Some x \<Rightarrow> cons_char x (parse_chars ds)))
      else if (of_char c :: nat) < 32 then None
      else cons_char c (parse_chars cs))"

definition parse_digits :: "string \<Rightarrow> (nat \<times> string) option" where
  "parse_digits s =
     (let ds = takeWhile is_digit s; rest = dropWhile is_digit s in
      if ds = [] \<or> (hd ds = CHR ''0'' \<and> length ds \<noteq> 1) \<or>
         (rest \<noteq> [] \<and> hd rest \<in> {CHR ''.'', CHR ''e'', CHR ''E''})
      then None else Some (digits_value ds, rest))"

definition parse_number :: "string \<Rightarrow> (js \<times> string) option" where
  "parse_number s =
     (case s of
        [] \<Rightarrow> None
      | c # cs \<Rightarrow>
          if c = CHR ''-'' then map_option (\<lambda>(n, r). (JInt (- int n), r)) (parse_digits cs)
          else map_option (\<lambda>(n, r). (JInt (int n), r)) (parse_digits s))"

definition parse_literal :: "string \<Rightarrow> (js \<times> string) option" where
  "parse_literal s =
     (if take 4 s = ''null'' then Some (JNull, drop 4 s)
      else if take 4 s = ''true'' then Some (JBool True, drop 4 s)
      else if take 5 s = ''false'' then Some (JBool False, drop 5 s)
      else None)"

section \<open>Values\<close>

text \<open>Assigning the members of an object one after the other.\<close>

definition assign :: "(string \<times> js) list \<Rightarrow> string \<times> js \<Rightarrow> (string \<times> js) list" where
  "assign d p =
     (if fst p \<in> fst ` set d then map (\<lambda>q. if fst q = fst p then p else q) d else d @ [p])"

definition js_object :: "(string \<times> js) list \<Rightarrow> js" where
  "js_object kvs = JObj (js_key_order (foldl assign [] kvs))"

text \<open>The first argument bounds the depth of the recursion; the length of the text is enough.\<close>

fun parse_value :: "nat \<Rightarrow> string \<Rightarrow> (js \<times> string) option"
  and parse_items :: "nat \<Rightarrow> string \<Rightarrow> (js list \<times> string) option"
  and parse_members :: "nat \<Rightarrow> string \<Rightarrow> ((string \<times> js) list \<times> string) option" where
  "parse_value 0 s = None"
| "parse_value (Suc n) s =
     (case skip_ws s of
        [] \<Rightarrow> None
      | c # cs \<Rightarrow>
          if c = CHR 0x22 then map_option (\<lambda>(t, r). (JStr t, r)) (parse_chars cs)
          else if c = CHR ''['' then
            (case skip_ws cs of
               [] \<Rightarrow> None
             | d # r \<Rightarrow>
                 if d = CHR '']'' then Some (JArr [], r)
                 else map_option (\<lambda>(vs, q). (JArr vs, q)) (parse_items n cs))
          else if c = CHR ''{'' then
            (case skip_ws cs of
               [] \<Rightarrow> None
             | d # r \<Rightarrow>
                 if d = CHR ''}'' then Some (JObj [], r)
                 else map_option (\<lambda>(kvs, q). (js_object kvs, q)) (parse_members n cs))
          else if c = CHR ''-'' \<or> is_digit c then parse_number (c # cs)
          else parse_literal (c # cs))"
| "parse_items 0 s = None"
| "parse_items (Suc n) s =
     (case parse_value n s of
        None \<Rightarrow> None
      | Some (v, r) \<Rightarrow>
          (case skip_ws r of
             [] \<Rightarrow> None
           | c # cs \<Rightarrow>
               if c = CHR '','' then map_option (\<lambda>(vs, q). (v # vs, q)) (parse_items n cs)
               else if c = CHR '']'' then Some ([v], cs)
               else None))"
| "parse_members 0 s = None"
| "parse_members (Suc n) s =
     (case skip_ws s of
        [] \<Rightarrow> None
      | q # ks \<Rightarrow>
          if q \<noteq> CHR 0x22 then None
          else
            (case parse_chars ks of
               None \<Rightarrow> None
             | Some (k, r) \<Rightarrow>
                 (case skip_ws r of
                    [] \<Rightarrow> None
                  | c # cs \<Rightarrow>
                      if c \<noteq> CHR '':'' then None
                      else
                        (case parse_value n cs of
                           None \<Rightarrow> None
                         | Some (v, t) \<Rightarrow>
                             (case skip_ws t of
                                [] \<Rightarrow> None
                              | d # ds \<Rightarrow>
                                  if d = CHR '','' then
                                    map_option (\<lambda>(kvs, u). ((k, v) # kvs, u)) (parse_members n ds)
                                  else if d = CHR ''}'' then Some ([(k, v)], ds)
                                  else None)))))"

definition parse_json :: "string \<Rightarrow> js option" where
  "parse_json s =
     (case parse_value (length s) s of
        None \<Rightarrow> None
      | Some (v, r) \<Rightarrow> if skip_ws r = [] then Some v else None)"

section \<open>Strings read back\<close>

lemma hex_value_hex_char: "d < 16 \<Longrightarrow> hex_value (hex_char d) = Some d"
  by (auto simp: hex_value_def hex_char_def is_digit_def)

lemma hex4_escape: "of_char c < (32 :: nat) \<Longrightarrow>
    hex4 (CHR ''0'') (CHR ''0'') (hex_char (of_char c div 16)) (hex_char (of_char c mod 16)) = Some c"
  by (simp add: hex4_def hex_value_hex_char) (simp add: hex_value_def is_digit_def)

lemma parse_escaped_char:
  "parse_chars (escape_char c @ t) = cons_char c (parse_chars t)"
  by (simp add: escape_char_def short_escape_def hex4_escape)

lemma parse_chars_quote:
  "parse_chars (concat (map escape_char s) @ CHR 0x22 # rest) = Some (s, rest)"
  by (induction s) (simp_all add: parse_escaped_char cons_char_def)

section \<open>Numbers read back\<close>

definition no_number_after :: "string \<Rightarrow> bool" where
  "no_number_after r \<longleftrightarrow>
     (r = [] \<or> (\<not> is_digit (hd r) \<and> hd r \<notin> {CHR ''.'', CHR ''e'', CHR ''E''}))"

lemma parse_nat_digits:
  assumes "no_number_after r"
  shows "parse_digits (nat_digits n @ r) = Some (n, r)"
proof -
  have digits: "list_all is_digit (nat_digits n)" "nat_digits n \<noteq> []" by (simp_all add: nat_digits_digits)
  have "takeWhile is_digit (nat_digits n @ r) = nat_digits n"
    "dropWhile is_digit (nat_digits n @ r) = r"
    using digits(1) assms
    by (simp_all add: takeWhile_append dropWhile_append list_all_iff no_number_after_def
        takeWhile_eq_Nil_iff dropWhile_eq_self_iff) auto
  moreover have "\<not> (hd (nat_digits n) = CHR ''0'' \<and> length (nat_digits n) \<noteq> 1)"
  proof (cases "n = 0")
    case True
    then show ?thesis by (simp add: nat_digits.simps)
  next
    case False
    then show ?thesis using nat_digits_hd [of n] by (simp add: is_nonzero_digit_def)
  qed
  ultimately show ?thesis
    using digits(2) assms by (auto simp: parse_digits_def no_number_after_def)
qed

lemma parse_int_string:
  assumes "no_number_after r"
  shows "parse_number (int_string n @ r) = Some (JInt n, r)"
proof (cases "n < 0")
  case True
  then show ?thesis
    by (simp add: parse_number_def int_string_def parse_nat_digits [OF assms])
next
  case False
  obtain c cs where c: "nat_digits (nat n) = c # cs" using nat_digits_digits by (cases "nat_digits (nat n)") auto
  then have "is_digit c" using nat_digits_digits [of "nat n"] by simp
  then have "c \<noteq> CHR ''-''" by (auto simp: is_digit_def)
  with False parse_nat_digits [OF assms, of "nat n"] c show ?thesis
    by (simp add: parse_number_def int_string_def)
qed

section \<open>Values read back\<close>

fun js_distinct :: "js \<Rightarrow> bool" where
  "js_distinct (JArr vs) = list_all js_distinct vs"
| "js_distinct (JObj kvs) = (distinct (map fst kvs) \<and> list_all (\<lambda>(k, v). js_distinct v) kvs)"
| "js_distinct _ = True"

lemma sort_key_map: "sort_key f (map g xs) = map g (sort_key (\<lambda>x. f (g x)) xs)"
proof (induction xs)
  case Nil
  then show ?case by simp
next
  case (Cons x xs)
  have "insort_key f (g x) (map g ys) = map g (insort_key (\<lambda>x. f (g x)) x ys)" for ys
    by (induction ys) simp_all
  with Cons show ?case by simp
qed

lemma sort_key_distinct_keys:
  "distinct (map fst kvs) \<Longrightarrow> distinct (map fst (sort_key fst kvs))"
  by (simp add: distinct_map)

lemma assign_distinct: "distinct (map fst kvs) \<Longrightarrow> foldl assign [] kvs = kvs"
proof (induction kvs rule: rev_induct)
  case Nil
  then show ?case by simp
next
  case (snoc p kvs)
  then show ?case by (auto simp: assign_def)
qed

text \<open>No text starts with white space or with a closing bracket.\<close>

definition starts_value :: "string \<Rightarrow> bool" where
  "starts_value t \<longleftrightarrow> t \<noteq> [] \<and>
     hd t \<notin> {CHR '' '', CHR 0x09, CHR 0x0A, CHR 0x0D, CHR '']'', CHR ''}'', CHR '','', CHR '':''}"

lemma starts_int: "starts_value (int_string n)"
proof (cases "n < 0")
  case True
  then show ?thesis by (simp add: starts_value_def int_string_def)
next
  case False
  obtain c cs where c: "nat_digits (nat n) = c # cs" using nat_digits_digits by (cases "nat_digits (nat n)") auto
  with nat_digits_digits [of "nat n"] have "is_digit c" by simp
  with False c show ?thesis by (auto simp: starts_value_def int_string_def is_digit_def)
qed

lemma canonical_starts:
  "canonicalJson v = Some t \<Longrightarrow> starts_value t"
proof (cases v)
  case (JInt n)
  then show "canonicalJson v = Some t \<Longrightarrow> starts_value t" by (auto intro: starts_int)
qed (auto simp: starts_value_def quote_json_def split: if_splits)

lemma skip_ws_starts [simp]: "starts_value t \<Longrightarrow> skip_ws (t @ r) = t @ r"
  by (cases t) (auto simp: starts_value_def)

definition reads_back :: "js \<Rightarrow> bool" where
  "reads_back v \<longleftrightarrow> (\<forall>t n rest. canonicalJson v = Some t \<longrightarrow> no_number_after rest \<longrightarrow> length t \<le> n \<longrightarrow>
     parse_value n (t @ rest) = Some (canonical_order v, rest))"

lemma reads_backD:
  "reads_back v \<Longrightarrow> canonicalJson v = Some t \<Longrightarrow> no_number_after rest \<Longrightarrow> length t \<le> n \<Longrightarrow>
   parse_value n (t @ rest) = Some (canonical_order v, rest)"
  by (simp add: reads_back_def)

lemma no_number_after_simps [simp]:
  "no_number_after (CHR '','' # r)" "no_number_after (CHR '']'' # r)" "no_number_after (CHR ''}'' # r)"
  "no_number_after []"
  by (simp_all add: no_number_after_def is_digit_def)

lemma parse_items_join:
  assumes "vs \<noteq> []" and "map canonicalJson vs = map Some ts" and "\<forall>v \<in> set vs. reads_back v"
    and "length (join_comma ts) < n"
  shows "parse_items n (join_comma ts @ CHR '']'' # rest) = Some (map canonical_order vs, rest)"
  using assms
proof (induction vs arbitrary: ts n)
  case Nil
  then show ?case by simp
next
  case (Cons v vs)
  obtain t ts' where ts: "ts = t # ts'" "canonicalJson v = Some t" "map canonicalJson vs = map Some ts'"
    using Cons.prems(2) by (cases ts) auto
  obtain m where n: "n = Suc m" using Cons.prems(4) by (cases n) auto
  show ?case
  proof (cases vs)
    case Nil
    with ts have "ts' = []" by simp
    with Nil Cons.prems ts n show ?thesis by (simp add: reads_backD)
  next
    case (Cons w ws)
    then obtain u us where ts': "ts' = u # us" using ts(3) by (cases ts') auto
    have "parse_items m (join_comma ts' @ CHR '']'' # rest) = Some (map canonical_order vs, rest)"
      using Cons Cons.prems ts ts' n by (intro Cons.IH) auto
    moreover have "parse_value m (t @ CHR '','' # join_comma ts' @ CHR '']'' # rest) =
        Some (canonical_order v, CHR '','' # join_comma ts' @ CHR '']'' # rest)"
      using Cons.prems ts ts' n by (intro reads_backD) auto
    ultimately show ?thesis using ts ts' n by simp
  qed
qed

text \<open>The members of an object, with their texts.\<close>

definition member_text :: "string \<times> string \<Rightarrow> string" where
  "member_text = (\<lambda>(k, s). quote_json k @ CHR '':'' # s)"

lemma parse_members_join:
  assumes "kvs \<noteq> []" and "map (\<lambda>(k, v). map_option (Pair k) (canonicalJson v)) kvs = map Some fs"
    and "\<forall>p \<in> set kvs. reads_back (snd p)" and "length (join_comma (map member_text fs)) < n"
  shows "parse_members n (join_comma (map member_text fs) @ CHR ''}'' # rest) =
    Some (map (\<lambda>(k, v). (k, canonical_order v)) kvs, rest)"
  using assms
proof (induction kvs arbitrary: fs n)
  case Nil
  then show ?case by simp
next
  case (Cons p kvs)
  obtain k v where p: "p = (k, v)" by (cases p)
  with Cons.prems(2) obtain t fs' where fs: "fs = (k, t) # fs'" "canonicalJson v = Some t"
      "map (\<lambda>(k, v). map_option (Pair k) (canonicalJson v)) kvs = map Some fs'"
    by (cases fs) auto
  obtain m where n: "n = Suc m" using Cons.prems(4) by (cases n) auto
  have key: "parse_chars (concat (map escape_char k) @ CHR 0x22 # r) = Some (k, r)" for r
    by (rule parse_chars_quote)
  have start: "skip_ws (CHR 0x22 # r) = CHR 0x22 # r" "skip_ws (CHR '':'' # r) = CHR '':'' # r"
    "skip_ws (CHR '','' # r) = CHR '','' # r" "skip_ws (CHR ''}'' # r) = CHR ''}'' # r" for r
    by simp_all
  show ?case
  proof (cases fs')
    case Nil
    with fs(3) have kvs: "kvs = []" by (cases kvs) auto
    have "parse_value m (t @ CHR ''}'' # rest) = Some (canonical_order v, CHR ''}'' # rest)"
      using Cons.prems fs Nil n p by (intro reads_backD) (auto simp: member_text_def quote_json_def)
    with Nil kvs fs n p start show ?thesis by (simp add: member_text_def quote_json_def key)
  next
    case (Cons f gs)
    then have ne: "kvs \<noteq> []" using fs(3) by auto
    let ?tail = "join_comma (map member_text fs') @ CHR ''}'' # rest"
    have body: "join_comma (map member_text fs) =
        quote_json k @ CHR '':'' # t @ CHR '','' # join_comma (map member_text fs')"
      by (simp add: fs(1) Cons member_text_def)
    have "parse_members m ?tail = Some (map (\<lambda>(k, v). (k, canonical_order v)) kvs, rest)"
      using Cons.prems fs ne n body by (intro Cons.IH) auto
    moreover have "parse_value m (t @ CHR '','' # ?tail) = Some (canonical_order v, CHR '','' # ?tail)"
      using Cons.prems fs n p body by (intro reads_backD) auto
    ultimately show ?thesis using n p body start by (simp add: quote_json_def key)
  qed
qed

lemma join_comma_starts:
  "xs \<noteq> [] \<Longrightarrow> (\<forall>x \<in> set xs. starts_value x) \<Longrightarrow> starts_value (join_comma xs)"
  by (cases xs rule: join_comma.cases) (auto simp: starts_value_def)

lemma canonical_obj_text:
  assumes "canonicalJson (JObj kvs) = Some t"
  obtains fs where
    "map (\<lambda>(k, v). map_option (Pair k) (canonicalJson v)) (sort_key fst kvs) = map Some fs"
    and "t = CHR ''{'' # join_comma (map member_text fs) @ ''}''"
proof -
  let ?g = "\<lambda>(k, v). map_option (Pair k) (canonicalJson v)"
  from assms obtain gs where gs: "map ?g kvs = map Some gs"
    and t: "t = CHR ''{'' # join_comma (map member_text (sort_key fst gs)) @ ''}''"
    by (auto simp: those_Some_iff member_text_def)
  have "map ?g (sort_key fst kvs) = map Some (sort_key fst gs)"
    using gs
  proof (induction kvs arbitrary: gs)
    case Nil
    then show ?case by simp
  next
    case (Cons p kvs)
    then obtain g gs' where g: "gs = g # gs'" "?g p = Some g" "map ?g kvs = map Some gs'"
      by (cases gs) auto
    have "map ?g (insort_key fst p xs) = map Some (insort_key fst g ys)"
      if "map ?g xs = map Some ys" for xs ys
      using that
    proof (induction xs arbitrary: ys)
      case Nil
      then show ?case using g(2) by simp
    next
      case (Cons x xs)
      then obtain y ys' where y: "ys = y # ys'" "?g x = Some y" "map ?g xs = map Some ys'"
        by (cases ys) auto
      moreover have "fst y = fst x" "fst g = fst p" using y(2) g(2) by (auto split: prod.splits)
      ultimately show ?case using Cons.IH [of ys'] g(2) by simp
    qed
    with Cons.IH [OF g(3)] g(1) show ?case by simp
  qed
  with t that show thesis by blast
qed

text \<open>Values without parts.\<close>

lemma reads_back_scalar:
  "reads_back JNull" "reads_back (JBool b)" "reads_back (JInt k)" "reads_back (JStr s)"
  "reads_back JNonFinite" "reads_back JForeign"
proof -
  show "reads_back JNull" "reads_back JNonFinite" "reads_back JForeign"
    by (auto simp: reads_back_def parse_literal_def is_digit_def elim!: less_natE dest!: Suc_le_D)
  show "reads_back (JBool b)"
    by (cases b) (auto simp: reads_back_def parse_literal_def is_digit_def dest!: Suc_le_D)
  show "reads_back (JStr s)"
    using parse_chars_quote [of s] by (auto simp: reads_back_def quote_json_def dest!: Suc_le_D)
  show "reads_back (JInt k)"
    unfolding reads_back_def
  proof (intro allI impI)
    fix t n rest
    assume t: "canonicalJson (JInt k) = Some t" and r: "no_number_after rest" and n: "length t \<le> n"
    obtain c cs where c: "t = c # cs" "c = CHR ''-'' \<or> is_digit c"
    proof (cases "k < 0")
      case False
      obtain d ds where d: "nat_digits (nat k) = d # ds" using nat_digits_digits by (cases "nat_digits (nat k)") auto
      with nat_digits_digits [of "nat k"] have "is_digit d" by simp
      moreover have "t = d # ds" using d False t by (simp add: int_string_def)
      ultimately show thesis using that by blast
    next
      case True
      then have "t = CHR ''-'' # nat_digits (nat (- k))" using t by (simp add: int_string_def)
      then show thesis using that by blast
    qed
    then obtain m where "n = Suc m" using n by (cases n) auto
    moreover have "starts_value t" using t starts_int [of k] by simp
    moreover have "c \<noteq> CHR 0x22" "c \<noteq> CHR ''[''" "c \<noteq> CHR ''{''" using c(2) by (auto simp: is_digit_def)
    ultimately show "parse_value n (t @ rest) = Some (canonical_order (JInt k), rest)"
      using c t parse_int_string [OF r, of k] skip_ws_starts [of t rest] by auto
  qed
qed

lemma canonical_reads_back:
  "js_distinct v \<Longrightarrow> reads_back v"
proof (induction v rule: canonical_order.induct)
  case (1 vs)
  have IH: "\<forall>v \<in> set vs. reads_back v" using 1 by (simp add: list_all_iff)
  show ?case
    unfolding reads_back_def
  proof (intro allI impI)
    fix t n rest
    assume t: "canonicalJson (JArr vs) = Some t" and n: "length t \<le> n"
    then obtain ts where ts: "map canonicalJson vs = map Some ts" "t = CHR ''['' # join_comma ts @ '']''"
      by (auto simp: those_Some_iff)
    from n ts(2) obtain m where m: "n = Suc m" by (cases n) auto
    show "parse_value n (t @ rest) = Some (canonical_order (JArr vs), rest)"
    proof (cases "vs = []")
      case True
      with ts m show ?thesis by (cases ts) simp_all
    next
      case False
      have "\<forall>x \<in> set ts. starts_value x"
        using ts(1) canonical_starts by (metis image_eqI imageE set_map)
      with False ts(1) have "starts_value (join_comma ts)" by (intro join_comma_starts) auto
      then obtain c cs where c: "join_comma ts = c # cs" "c \<noteq> CHR '']''"
        "skip_ws (join_comma ts @ CHR '']'' # rest) = join_comma ts @ CHR '']'' # rest"
        by (cases "join_comma ts") (auto simp: starts_value_def)
      have "parse_items m (join_comma ts @ CHR '']'' # rest) = Some (map canonical_order vs, rest)"
        using False ts n m IH by (intro parse_items_join) auto
      with c ts(2) m show ?thesis by (simp add: is_digit_def)
    qed
  qed
next
  case (2 kvs)
  have IH: "\<forall>p \<in> set (sort_key fst kvs). reads_back (snd p)"
    using 2 by (auto simp: list_all_iff)
  have dist: "distinct (map fst kvs)" using "2.prems" by simp
  show ?case
    unfolding reads_back_def
  proof (intro allI impI)
    fix t n rest
    assume t: "canonicalJson (JObj kvs) = Some t" and n: "length t \<le> n"
    then obtain fs where fs:
        "map (\<lambda>(k, v). map_option (Pair k) (canonicalJson v)) (sort_key fst kvs) = map Some fs"
      and tx: "t = CHR ''{'' # join_comma (map member_text fs) @ ''}''"
      by (elim canonical_obj_text)
    from n tx obtain m where m: "n = Suc m" by (cases n) auto
    let ?kvs = "map (\<lambda>(k, v). (k, canonical_order v)) (sort_key fst kvs)"
    have ord: "canonical_order (JObj kvs) = JObj (js_key_order ?kvs)"
      by (simp add: sort_key_map case_prod_unfold)
    show "parse_value n (t @ rest) = Some (canonical_order (JObj kvs), rest)"
    proof (cases "kvs = []")
      case True
      with fs tx m show ?thesis by (cases fs) (simp_all add: js_key_order_def)
    next
      case False
      then have ne: "sort_key fst kvs \<noteq> []" by (metis length_0_conv length_sort)
      then have "fs \<noteq> []" using fs by (metis map_is_Nil_conv)
      moreover have "\<forall>x \<in> set (map member_text fs). starts_value x"
        by (auto simp: member_text_def quote_json_def starts_value_def)
      ultimately have "starts_value (join_comma (map member_text fs))"
        by (intro join_comma_starts) simp_all
      then obtain c cs where c: "join_comma (map member_text fs) = c # cs" "c \<noteq> CHR ''}''"
        "skip_ws (join_comma (map member_text fs) @ CHR ''}'' # rest) =
           join_comma (map member_text fs) @ CHR ''}'' # rest"
        by (cases "join_comma (map member_text fs)") (auto simp: starts_value_def)
      have "parse_members m (join_comma (map member_text fs) @ CHR ''}'' # rest) = Some (?kvs, rest)"
        using ne fs tx n m IH by (intro parse_members_join) auto
      moreover have "distinct (map fst ?kvs)"
        using dist by (simp add: case_prod_unfold comp_def sort_key_distinct_keys)
      ultimately show ?thesis
        using c tx m ord by (simp add: js_object_def assign_distinct is_digit_def)
    qed
  qed
qed (auto simp: reads_back_scalar)

theorem parse_json_canonical:
  assumes "canonicalJson v = Some t" and "js_distinct v"
  shows "parse_json t = Some (canonical_order v)"
  using reads_backD [OF canonical_reads_back [OF assms(2)] assms(1), of "[]" "length t"]
  by (simp add: parse_json_def)

section \<open>Canonical values\<close>

text \<open>Sorting does not depend on the order of entries with distinct keys.\<close>

lemma distinct_keys_perm:
  assumes "distinct (map fst xs)" and "set xs = set ys" and "length xs = length ys"
  shows "distinct (map fst ys)"
proof -
  have "set (map fst ys) = set (map fst xs)" using assms(2) by simp
  then have "card (set (map fst ys)) = length (map fst ys)"
    using distinct_card [OF assms(1)] assms(3) by (simp del: set_map)
  then show ?thesis by (rule card_distinct)
qed

lemma sort_key_perm:
  fixes xs ys :: "('a :: linorder \<times> 'b) list"
  assumes "distinct (map fst xs)" and "set xs = set ys" and "length xs = length ys"
  shows "sort_key fst xs = sort_key fst ys"
  using assms distinct_keys_perm [OF assms]
  by (intro map_sorted_distinct_set_unique [where f = fst])
    (simp_all add: distinct_map inj_on_def sort_key_distinct_keys)

text \<open>The text of a value does not depend on the order of the keys of its objects.\<close>

lemma is_json_canonical_order: "is_json (canonical_order v) = is_json v"
  by (induction v rule: canonical_order.induct) (auto simp: list_all_iff case_prod_unfold)

definition json_text :: "js \<Rightarrow> string" where
  "json_text v = the (canonicalJson v)"

lemma canonicalJson_text: "canonicalJson v = (if is_json v then Some (json_text v) else None)"
  using canonicalJson_defined_iff [of v] by (auto simp: json_text_def)

lemma json_text_obj:
  assumes "is_json (JObj kvs)"
  shows "json_text (JObj kvs) =
    CHR ''{'' # join_comma (map member_text (sort_key fst (map (\<lambda>(k, v). (k, json_text v)) kvs))) @ ''}''"
proof -
  have "map (\<lambda>(k, v). map_option (Pair k) (canonicalJson v)) kvs =
      map Some (map (\<lambda>(k, v). (k, json_text v)) kvs)"
    using assms by (auto simp: list_all_iff canonicalJson_text)
  then have "those (map (\<lambda>(k, v). map_option (Pair k) (canonicalJson v)) kvs) =
      Some (map (\<lambda>(k, v). (k, json_text v)) kvs)"
    by (simp add: those_Some_iff)
  then show ?thesis by (simp add: json_text_def member_text_def)
qed

lemma json_text_canonical_order:
  "js_distinct v \<Longrightarrow> is_json v \<Longrightarrow> json_text (canonical_order v) = json_text v"
proof (induction v rule: canonical_order.induct)
  case (1 vs)
  then have "map (\<lambda>v. canonicalJson (canonical_order v)) vs = map canonicalJson vs"
    by (simp add: list_all_iff canonicalJson_text is_json_canonical_order)
  then have "canonicalJson (canonical_order (JArr vs)) = canonicalJson (JArr vs)"
    by (simp only: canonical_order.simps canonicalJson.simps map_map comp_def)
  then show ?case by (simp only: json_text_def)
next
  case (2 kvs)
  let ?kvs = "map (\<lambda>(k, v). (k, canonical_order v)) kvs"
  let ?ord = "js_key_order (sort_key fst ?kvs)"
  let ?text = "map (\<lambda>(k, v). (k, json_text v))"
  have dist: "distinct (map fst ?kvs)" using "2.prems" by (simp add: case_prod_unfold comp_def)
  have json: "is_json (JObj ?ord)"
    using is_json_canonical_order [of "JObj kvs"] "2.prems"(2) by simp
  have "json_text (canonical_order v) = json_text v" if "(k, v) \<in> set kvs" for k v
    using that 2 by (fastforce simp: list_all_iff)
  then have "?text ?kvs = ?text kvs" by auto
  moreover have "sort_key fst (?text ?kvs) = sort_key fst (?text ?ord)"
    using dist
    by (intro sort_key_perm) (simp_all add: comp_def case_prod_unfold image_image)
  ultimately have "sort_key fst (?text ?ord) = sort_key fst (?text kvs)" by (simp only:)
  then show ?case
    by (simp only: canonical_order.simps json_text_obj [OF json] json_text_obj [OF "2.prems"(2)])
qed simp_all

lemma canonicalJson_canonical_order:
  "js_distinct v \<Longrightarrow> canonicalJson (canonical_order v) = canonicalJson v"
  by (simp add: canonicalJson_text is_json_canonical_order json_text_canonical_order)

text \<open>Equal texts are equal values up to the order of keys.\<close>

lemma canonicalJson_eq_iff:
  assumes "js_distinct v" and "js_distinct w" and "is_json v"
  shows "canonicalJson v = canonicalJson w \<longleftrightarrow> canonical_order v = canonical_order w"
proof
  assume eq: "canonicalJson v = canonicalJson w"
  have "canonicalJson v = Some (json_text v)" using assms(3) by (simp add: canonicalJson_text)
  with parse_json_canonical assms(1,2) eq show "canonical_order v = canonical_order w"
    by (metis option.inject)
next
  assume "canonical_order v = canonical_order w"
  then show "canonicalJson v = canonicalJson w" using canonicalJson_canonical_order assms(1,2) by metis
qed

end
