(* ===== verification/Event_Decode.thy ===== *)
theory Event_Decode
  imports Event_Json Json_Parse "HOL-Library.Monad_Syntax"
begin

text \<open>
  From JSON to typed data: the shape that the schemas of \<open>engine/src/event-validation.ts\<close> and of
  \<open>runtime-contract/schemas\<close> prescribe, with the typed value as the result. A schema allows
  exactly its properties; the constraints on the values themselves are those of
  \<open>Event_Validation\<close>. Reading back what was written gives the event up to the order of keys in
  the JSON values it carries.
\<close>

section \<open>Schema combinators\<close>

text \<open>\<open>object\<close> with \<open>additionalProperties: false\<close>, required and optional properties.\<close>

definition obj :: "string list \<Rightarrow> js \<Rightarrow> (string \<times> js) list option" where
  "obj allowed v =
     (case v of JObj kvs \<Rightarrow> if list_all (\<lambda>p. fst p \<in> set allowed) kvs then Some kvs else None
      | _ \<Rightarrow> None)"

definition req :: "string \<Rightarrow> (js \<Rightarrow> 'a option) \<Rightarrow> (string \<times> js) list \<Rightarrow> 'a option" where
  "req k d kvs = Option.bind (map_of kvs k) d"

definition opt :: "string \<Rightarrow> (js \<Rightarrow> 'a option) \<Rightarrow> (string \<times> js) list \<Rightarrow> 'a option option" where
  "opt k d kvs = (case map_of kvs k of None \<Rightarrow> Some None | Some v \<Rightarrow> map_option Some (d v))"

definition any_js :: "js \<Rightarrow> js option" where
  "any_js v = Some v"

definition any_obj :: "js \<Rightarrow> (string \<times> js) list option" where
  "any_obj v = (case v of JObj kvs \<Rightarrow> Some kvs | _ \<Rightarrow> None)"

definition str :: "js \<Rightarrow> string option" where
  "str v = (case v of JStr s \<Rightarrow> Some s | _ \<Rightarrow> None)"

definition num :: "js \<Rightarrow> int option" where
  "num v = (case v of JInt n \<Rightarrow> Some n | _ \<Rightarrow> None)"

definition boolean :: "js \<Rightarrow> bool option" where
  "boolean v = (case v of JBool b \<Rightarrow> Some b | _ \<Rightarrow> None)"

definition nullable :: "(js \<Rightarrow> 'a option) \<Rightarrow> js \<Rightarrow> 'a option option" where
  "nullable d v = (if v = JNull then Some None else map_option Some (d v))"

definition arr :: "(js \<Rightarrow> 'a option) \<Rightarrow> js \<Rightarrow> 'a list option" where
  "arr d v = (case v of JArr vs \<Rightarrow> those (map d vs) | _ \<Rightarrow> None)"

definition enum_js :: "('a \<Rightarrow> string) \<Rightarrow> 'a list \<Rightarrow> js \<Rightarrow> 'a option" where
  "enum_js name xs v = Option.bind (str v) (\<lambda>s. List.find (\<lambda>x. name x = s) xs)"

definition const_js :: "string \<Rightarrow> js \<Rightarrow> unit option" where
  "const_js s v = (if v = JStr s then Some () else None)"

section \<open>Enumerations\<close>

definition failure_category_dec :: "js \<Rightarrow> failure_category option" where
  "failure_category_dec = enum_js failure_category_name
     [RuntimeUnavailable, ModelProvider, ToolFailure, SchemaViolation, VerificationFailure,
      BudgetExhausted, PolicyViolation, WorkspaceConflict, HumanRejection, UnknownInternal]"

definition difference_dec :: "js \<Rightarrow> workspace_difference option" where
  "difference_dec = enum_js difference_name
     [DiffVersion, DiffWorkspaceId, DiffBaseCommit, DiffHeadCommit, DiffDigest, DiffChangedFiles,
      DiffIgnoredContent, DiffRepository, DiffWorkspacePath, DiffBranch, DiffOwnershipManifest,
      DiffWorktreeRegistration]"

definition result_status_dec :: "js \<Rightarrow> result_status option" where
  "result_status_dec = enum_js result_status_name [ResSucceeded, ResFailed, ResBlocked, ResCancelled]"

definition observation_reason_dec :: "js \<Rightarrow> execution_observation_reason option" where
  "observation_reason_dec = enum_js observation_reason_name
     [InvalidRecord, IdentityMismatch, BootMismatch, SupervisorUnreachable, SupervisorLost,
      CleanupUnconfirmed]"

definition workspace_mode_dec :: "js \<Rightarrow> workspace_mode option" where
  "workspace_mode_dec = enum_js workspace_mode_name [MemoryMode, ReadonlyMode, IsolatedMode]"

definition structured_output_dec :: "js \<Rightarrow> structured_output option" where
  "structured_output_dec = enum_js structured_output_name [NativeOutput, PromptedOutput, NoOutput]"

definition usage_reporting_dec :: "js \<Rightarrow> usage_reporting option" where
  "usage_reporting_dec = enum_js usage_reporting_name [TokensUsage, CostUsage, PartialUsage, NoUsage]"

definition cancellation_dec :: "js \<Rightarrow> cancellation_outcome option" where
  "cancellation_dec = enum_js cancellation_name [CancelSucceeded, CancelFailed, CancelUnavailable]"

definition cause_dec :: "js \<Rightarrow> cleanup_cause option" where
  "cause_dec = enum_js cause_name [PauseCause, CancelCause, TimeoutCause, RecoveryCause]"

definition cleanup_dec :: "js \<Rightarrow> cleanup_outcome option" where
  "cleanup_dec = enum_js cleanup_name [ConfirmedCleanup, UnknownCleanup]"

definition orphan_dec :: "js \<Rightarrow> orphan_reason option" where
  "orphan_dec = enum_js orphan_name [CoordinatorLost, LaunchInterrupted]"

definition ready_dec :: "js \<Rightarrow> ready_reason option" where
  "ready_dec = enum_js ready_name [DependenciesSatisfied, RetryReason, ResumedReason, RecoveredReason]"

definition action_dec :: "js \<Rightarrow> control_action option" where
  "action_dec = enum_js action_name [PauseAction, CancelAction]"

definition kind_dec :: "js \<Rightarrow> execution_kind option" where
  "kind_dec = enum_js kind_name [RuntimeKind, CommandKind]"

definition outcome_name :: "run_outcome \<Rightarrow> string" where
  "outcome_name out = (case out of OutcomeSucceeded \<Rightarrow> ''succeeded'' | OutcomeFailed \<Rightarrow> ''failed'')"

definition outcome_dec :: "js \<Rightarrow> run_outcome option" where
  "outcome_dec = enum_js outcome_name [OutcomeSucceeded, OutcomeFailed]"

definition source_name :: "metadata_source \<Rightarrow> string" where
  "source_name s = (case s of ConfiguredSource \<Rightarrow> ''configured'' | ReportedSource \<Rightarrow> ''reported'')"

definition source_dec :: "js \<Rightarrow> metadata_source option" where
  "source_dec = enum_js source_name [ConfiguredSource, ReportedSource]"

definition coverage_name :: "usage_coverage \<Rightarrow> string" where
  "coverage_name c = (case c of CompleteCoverage \<Rightarrow> ''complete'' | PartialCoverage \<Rightarrow> ''partial'')"

definition coverage_dec :: "js \<Rightarrow> usage_coverage option" where
  "coverage_dec = enum_js coverage_name [CompleteCoverage, PartialCoverage]"

section \<open>Contract values\<close>

definition failure_dec :: "js \<Rightarrow> execution_failure option" where
  "failure_dec v = do {
     f \<leftarrow> obj [''category'', ''message''] v;
     c \<leftarrow> req ''category'' failure_category_dec f;
     m \<leftarrow> req ''message'' str f;
     Some \<lparr>f_category = c, f_message = m\<rparr> }"

definition producer_dec :: "js \<Rightarrow> artifact_producer option" where
  "producer_dec v = do {
     f \<leftarrow> obj [''runId'', ''nodeId'', ''attempt''] v;
     r \<leftarrow> req ''runId'' str f;
     nid \<leftarrow> req ''nodeId'' str f;
     n \<leftarrow> req ''attempt'' num f;
     Some \<lparr>pr_runId = r, pr_nodeId = nid, pr_attempt = n\<rparr> }"

definition artifact_dec :: "js \<Rightarrow> artifact_ref option" where
  "artifact_dec v = do {
     f \<leftarrow> obj [''id'', ''type'', ''mediaType'', ''uri'', ''digest'', ''producer''] v;
     i \<leftarrow> req ''id'' str f;
     t \<leftarrow> req ''type'' str f;
     m \<leftarrow> req ''mediaType'' str f;
     u \<leftarrow> req ''uri'' str f;
     d \<leftarrow> req ''digest'' str f;
     p \<leftarrow> req ''producer'' producer_dec f;
     Some \<lparr>ar_id = i, ar_type = t, ar_mediaType = m, ar_uri = u, ar_digest = d, ar_producer = p\<rparr> }"

definition workspace_dec :: "js \<Rightarrow> workspace_ref option" where
  "workspace_dec v = do {
     f \<leftarrow> obj [''id'', ''mode'', ''repoRoot'', ''path'', ''baseCommit'', ''branch''] v;
     i \<leftarrow> req ''id'' str f;
     m \<leftarrow> req ''mode'' workspace_mode_dec f;
     (case m of
        MemoryMode \<Rightarrow> do { _ \<leftarrow> obj [''id'', ''mode''] v; Some (MemoryWorkspace i) }
      | ReadonlyMode \<Rightarrow> do {
          _ \<leftarrow> obj [''id'', ''mode'', ''repoRoot'', ''path'', ''baseCommit''] v;
          r \<leftarrow> req ''repoRoot'' str f;
          p \<leftarrow> req ''path'' str f;
          b \<leftarrow> req ''baseCommit'' str f;
          Some (ReadonlyWorkspace i r p b) }
      | IsolatedMode \<Rightarrow> do {
          r \<leftarrow> req ''repoRoot'' str f;
          p \<leftarrow> req ''path'' str f;
          b \<leftarrow> req ''baseCommit'' str f;
          br \<leftarrow> req ''branch'' str f;
          Some (IsolatedWorkspace i r p b br) }) }"

definition command_report_dec :: "js \<Rightarrow> command_report option" where
  "command_report_dec v = do {
     f \<leftarrow> obj [''passed'', ''exitCode'', ''signal'', ''durationMs'', ''stdoutBytes'', ''stderrBytes'',
       ''stdoutTruncated'', ''stderrTruncated''] v;
     p \<leftarrow> req ''passed'' boolean f;
     e \<leftarrow> req ''exitCode'' (nullable num) f;
     s \<leftarrow> req ''signal'' (nullable str) f;
     d \<leftarrow> req ''durationMs'' num f;
     ob \<leftarrow> req ''stdoutBytes'' num f;
     eb \<leftarrow> req ''stderrBytes'' num f;
     ot \<leftarrow> req ''stdoutTruncated'' boolean f;
     et \<leftarrow> req ''stderrTruncated'' boolean f;
     Some \<lparr>cr_passed = p, cr_exitCode = e, cr_signal = s, cr_durationMs = d, cr_stdoutBytes = ob,
       cr_stderrBytes = eb, cr_stdoutTruncated = ot, cr_stderrTruncated = et\<rparr> }"

definition ownership_dec :: "js \<Rightarrow> workspace_ownership option" where
  "ownership_dec v = do {
     f \<leftarrow> obj [''repositoryRoot'', ''repositoryCommonDirectory'', ''workspacePath'',
       ''workspaceGitDirectory'', ''branch'', ''manifestDigest'', ''registrationDigest''] v;
     a \<leftarrow> req ''repositoryRoot'' str f;
     b \<leftarrow> req ''repositoryCommonDirectory'' str f;
     c \<leftarrow> req ''workspacePath'' str f;
     d \<leftarrow> req ''workspaceGitDirectory'' str f;
     e \<leftarrow> req ''branch'' str f;
     m \<leftarrow> req ''manifestDigest'' str f;
     r \<leftarrow> req ''registrationDigest'' str f;
     Some \<lparr>ow_repositoryRoot = a, ow_repositoryCommonDirectory = b, ow_workspacePath = c,
       ow_workspaceGitDirectory = d, ow_branch = e, ow_manifestDigest = m, ow_registrationDigest = r\<rparr> }"

definition checkpoint_dec :: "js \<Rightarrow> workspace_checkpoint option" where
  "checkpoint_dec v = do {
     f \<leftarrow> obj [''version'', ''workspaceId'', ''baseCommit'', ''headCommit'', ''diffDigest'',
       ''changedFiles'', ''ignoredDigest'', ''ignoredEntryCount'', ''ignoredByteCount'', ''ownership'',
       ''diffArtifactId''] v;
     a \<leftarrow> req ''version'' str f;
     b \<leftarrow> req ''workspaceId'' str f;
     c \<leftarrow> req ''baseCommit'' str f;
     d \<leftarrow> req ''headCommit'' str f;
     e \<leftarrow> req ''diffDigest'' str f;
     fs \<leftarrow> req ''changedFiles'' (arr str) f;
     g \<leftarrow> req ''ignoredDigest'' str f;
     n \<leftarrow> req ''ignoredEntryCount'' num f;
     m \<leftarrow> req ''ignoredByteCount'' num f;
     w \<leftarrow> req ''ownership'' ownership_dec f;
     x \<leftarrow> opt ''diffArtifactId'' str f;
     Some \<lparr>wc_version = a, wc_workspaceId = b, wc_baseCommit = c, wc_headCommit = d, wc_diffDigest = e,
       wc_changedFiles = fs, wc_ignoredDigest = g, wc_ignoredEntryCount = n, wc_ignoredByteCount = m,
       wc_ownership = w, wc_diffArtifactId = x\<rparr> }"

definition plan_of_fields :: "(string \<times> js) list \<Rightarrow> execution_plan_ref option" where
  "plan_of_fields f = do {
     a \<leftarrow> req ''version'' str f;
     b \<leftarrow> req ''runId'' str f;
     c \<leftarrow> req ''executionId'' str f;
     k \<leftarrow> req ''kind'' kind_dec f;
     g \<leftarrow> req ''generation'' num f;
     d \<leftarrow> req ''planDigest'' str f;
     Some \<lparr>ex_version = a, ex_runId = b, ex_executionId = c, ex_kind = k, ex_generation = g,
       ex_planDigest = d\<rparr> }"

definition plan_dec :: "js \<Rightarrow> execution_plan_ref option" where
  "plan_dec v = do {
     f \<leftarrow> obj [''version'', ''runId'', ''executionId'', ''kind'', ''generation'', ''planDigest''] v;
     plan_of_fields f }"

definition execution_dec :: "js \<Rightarrow> persisted_execution_ref option" where
  "execution_dec v = do {
     f \<leftarrow> obj [''version'', ''runId'', ''executionId'', ''kind'', ''generation'', ''planDigest'',
       ''manifestDigest''] v;
     p \<leftarrow> plan_of_fields f;
     m \<leftarrow> req ''manifestDigest'' str f;
     Some (execution_plan_ref.extend p \<lparr>ex_manifestDigest = m\<rparr>) }"

definition pause_reason_dec :: "js \<Rightarrow> pause_reason option" where
  "pause_reason_dec v = do {
     f \<leftarrow> any_obj v;
     k \<leftarrow> req ''kind'' str f;
     if k = ''operator'' then do {
       _ \<leftarrow> obj [''kind'', ''operationId''] v;
       i \<leftarrow> req ''operationId'' str f;
       Some (OperatorPause i) }
     else if k = ''workspace-conflict'' then do {
       _ \<leftarrow> obj [''kind'', ''differences''] v;
       ds \<leftarrow> req ''differences'' (arr difference_dec) f;
       Some (WorkspaceConflictPause ds) }
     else if k = ''attempt-budget-exhausted'' then do {
       _ \<leftarrow> obj [''kind'', ''nodeId'', ''attempts''] v;
       nid \<leftarrow> req ''nodeId'' str f;
       n \<leftarrow> req ''attempts'' num f;
       Some (BudgetExhaustedPause nid n) }
     else if k = ''runtime-unavailable'' then do {
       _ \<leftarrow> obj [''kind'', ''runtimeId''] v;
       rt \<leftarrow> req ''runtimeId'' str f;
       Some (RuntimeUnavailablePause rt) }
     else if k = ''policy-violation'' then do {
       _ \<leftarrow> obj [''kind'', ''runtimeId''] v;
       rt \<leftarrow> req ''runtimeId'' str f;
       Some (PolicyViolationPause rt) }
     else None }"

definition recovery_reason_dec :: "js \<Rightarrow> recovery_block_reason option" where
  "recovery_reason_dec v = do {
     f \<leftarrow> any_obj v;
     k \<leftarrow> req ''kind'' str f;
     eid \<leftarrow> req ''executionId'' str f;
     if k = ''execution-unknown'' then do {
       _ \<leftarrow> obj [''kind'', ''executionId'', ''detail''] v;
       d \<leftarrow> req ''detail'' observation_reason_dec f;
       Some (ExecutionUnknown eid d) }
     else if k = ''cleanup-unknown'' then do {
       _ \<leftarrow> obj [''kind'', ''executionId''] v;
       Some (CleanupUnknown eid) }
     else None }"

definition capabilities_dec :: "js \<Rightarrow> runtime_capabilities option" where
  "capabilities_dec v = do {
     f \<leftarrow> obj [''streaming'', ''cancellation'', ''resumableSession'', ''nativeSubagents'', ''mcp'', ''lsp'',
       ''debugger'', ''browser'', ''structuredOutput'', ''usageReporting'', ''sandboxing'',
       ''workspaceModes''] v;
     a \<leftarrow> req ''streaming'' boolean f;
     b \<leftarrow> req ''cancellation'' boolean f;
     c \<leftarrow> req ''resumableSession'' boolean f;
     d \<leftarrow> req ''nativeSubagents'' boolean f;
     e \<leftarrow> req ''mcp'' boolean f;
     g \<leftarrow> req ''lsp'' boolean f;
     h \<leftarrow> req ''debugger'' boolean f;
     i \<leftarrow> req ''browser'' boolean f;
     so \<leftarrow> req ''structuredOutput'' structured_output_dec f;
     ur \<leftarrow> req ''usageReporting'' usage_reporting_dec f;
     sb \<leftarrow> req ''sandboxing'' (arr str) f;
     ms \<leftarrow> opt ''workspaceModes'' (arr workspace_mode_dec) f;
     Some \<lparr>cap_streaming = a, cap_cancellation = b, cap_resumableSession = c, cap_nativeSubagents = d,
       cap_mcp = e, cap_lsp = g, cap_debugger = h, cap_browser = i, cap_structuredOutput = so,
       cap_usageReporting = ur, cap_sandboxing = sb, cap_workspaceModes = ms\<rparr> }"

definition negotiation_dec :: "js \<Rightarrow> runtime_negotiation option" where
  "negotiation_dec v = do {
     f \<leftarrow> obj [''version'', ''runtimeId'', ''requirements'', ''capabilities''] v;
     a \<leftarrow> req ''version'' str f;
     r \<leftarrow> req ''runtimeId'' str f;
     q \<leftarrow> req ''requirements'' (obj [''workspaceMode'', ''cancellation'', ''structuredOutput'']) f;
     m \<leftarrow> req ''workspaceMode'' workspace_mode_dec q;
     c \<leftarrow> req ''cancellation'' boolean q;
     so \<leftarrow> req ''structuredOutput'' str q;
     cs \<leftarrow> req ''capabilities'' capabilities_dec f;
     Some \<lparr>ng_version = a, ng_runtimeId = r, ng_workspaceMode = m, ng_cancellation = c,
       ng_structuredOutput = so, ng_capabilities = cs\<rparr> }"

definition descriptor_dec :: "js \<Rightarrow> runtime_descriptor option" where
  "descriptor_dec v = do {
     f \<leftarrow> obj [''version'', ''runtimeId'', ''configurationVersion'', ''configuration''] v;
     a \<leftarrow> req ''version'' str f;
     r \<leftarrow> req ''runtimeId'' str f;
     c \<leftarrow> req ''configurationVersion'' str f;
     d \<leftarrow> req ''configuration'' any_obj f;
     Some \<lparr>rd_version = a, rd_runtimeId = r, rd_configurationVersion = c, rd_configuration = d\<rparr> }"

definition observation_dec :: "js \<Rightarrow> runtime_event option" where
  "observation_dec v = do {
     f \<leftarrow> any_obj v;
     t \<leftarrow> req ''type'' str f;
     if t = ''started'' then do { _ \<leftarrow> obj [''type''] v; Some StartedEvent }
     else if t = ''log'' then do {
       _ \<leftarrow> obj [''type'', ''message'', ''droppedLogs''] v;
       m \<leftarrow> req ''message'' str f;
       d \<leftarrow> opt ''droppedLogs'' num f;
       Some (LogEvent m d) }
     else if t = ''metadata'' then do {
       _ \<leftarrow> obj [''type'', ''provider'', ''model'', ''source'', ''runtimeVersion''] v;
       p \<leftarrow> req ''provider'' str f;
       m \<leftarrow> req ''model'' str f;
       s \<leftarrow> opt ''source'' source_dec f;
       r \<leftarrow> opt ''runtimeVersion'' str f;
       Some (MetadataEvent \<lparr>md_provider = p, md_model = m, md_source = s, md_runtimeVersion = r\<rparr>) }
     else if t = ''usage'' then do {
       _ \<leftarrow> obj [''type'', ''scope'', ''coverage'', ''inputTokens'', ''outputTokens'', ''cacheReadTokens'',
         ''cacheWriteTokens'', ''reasoningTokens'', ''totalTokens''] v;
       _ \<leftarrow> req ''scope'' (const_js ''attempt'') f;
       c \<leftarrow> req ''coverage'' coverage_dec f;
       i \<leftarrow> opt ''inputTokens'' num f;
       out \<leftarrow> opt ''outputTokens'' num f;
       cr \<leftarrow> opt ''cacheReadTokens'' num f;
       cw \<leftarrow> opt ''cacheWriteTokens'' num f;
       r \<leftarrow> opt ''reasoningTokens'' num f;
       tt \<leftarrow> opt ''totalTokens'' num f;
       Some (UsageEvent \<lparr>us_coverage = c, us_inputTokens = i, us_outputTokens = out,
         us_cacheReadTokens = cr, us_cacheWriteTokens = cw, us_reasoningTokens = r,
         us_totalTokens = tt\<rparr>) }
     else if t = ''completed'' then do {
       _ \<leftarrow> obj [''type'', ''status''] v;
       s \<leftarrow> req ''status'' result_status_dec f;
       Some (CompletedEvent s) }
     else None }"

definition orphan_of_fields :: "(string \<times> js) list \<Rightarrow> orphan_evidence option" where
  "orphan_of_fields f = do {
     eid \<leftarrow> req ''executionId'' str f;
     g \<leftarrow> req ''lostGeneration'' num f;
     r \<leftarrow> req ''reason'' orphan_dec f;
     w \<leftarrow> req ''workspaceObservation'' checkpoint_dec f;
     ds \<leftarrow> req ''workspaceDifferences'' (arr difference_dec) f;
     aid \<leftarrow> opt ''terminalArtifactId'' str f;
     Some \<lparr>or_executionId = eid, or_lostGeneration = g, or_reason = r, or_workspaceObservation = w,
       or_workspaceDifferences = ds, or_terminalArtifactId = aid\<rparr> }"

section \<open>Events\<close>

type_synonym payload_schema = "string list \<times> ((string \<times> js) list \<Rightarrow> run_event_payload option)"

text \<open>The properties of one node, of one attempt, and what else an event has.\<close>

definition node_schema :: "string list \<Rightarrow> (string \<Rightarrow> (string \<times> js) list \<Rightarrow> run_event_payload option) \<Rightarrow> payload_schema" where
  "node_schema ks d = (''nodeId'' # ks, \<lambda>f. do { nid \<leftarrow> req ''nodeId'' str f; d nid f })"

definition attempt_schema ::
    "string list \<Rightarrow> (string \<Rightarrow> int \<Rightarrow> (string \<times> js) list \<Rightarrow> run_event_payload option) \<Rightarrow> payload_schema" where
  "attempt_schema ks d =
     (''nodeId'' # ''attempt'' # ks,
      \<lambda>f. do { nid \<leftarrow> req ''nodeId'' str f; n \<leftarrow> req ''attempt'' num f; d nid n f })"

text \<open>\<open>fields\<close>: the schema of each event type.\<close>

definition payload_schemas :: "(string \<times> payload_schema) list" where
  "payload_schemas =
     [(''RuntimeNegotiated'', [''negotiation''], \<lambda>f. map_option RuntimeNegotiated (req ''negotiation'' negotiation_dec f)),
      (''RuntimeConfigured'', [''descriptor''], \<lambda>f. map_option RuntimeConfigured (req ''descriptor'' descriptor_dec f)),
      (''RunCreated'', [''workflowInstanceId'', ''workflowId'', ''workflowVersion'', ''nodeIds'', ''inputs''],
        \<lambda>f. do {
          i \<leftarrow> req ''workflowInstanceId'' str f;
          w \<leftarrow> req ''workflowId'' str f;
          v \<leftarrow> req ''workflowVersion'' str f;
          ns \<leftarrow> req ''nodeIds'' (arr str) f;
          ins \<leftarrow> req ''inputs'' any_obj f;
          Some (RunCreated i w v ns ins) }),
      (''NodeReady'', node_schema [''reason''] (\<lambda>nid f. map_option (NodeReady nid) (req ''reason'' ready_dec f))),
      (''AttemptScheduled'', attempt_schema [''runtimeId'']
        (\<lambda>nid n f. map_option (AttemptScheduled nid n) (req ''runtimeId'' str f))),
      (''AttemptPrepared'', attempt_schema [''execution'', ''workspaceCheckpoint'']
        (\<lambda>nid n f. do {
          x \<leftarrow> req ''execution'' plan_dec f;
          c \<leftarrow> req ''workspaceCheckpoint'' checkpoint_dec f;
          Some (AttemptPrepared nid n x c) })),
      (''AttemptStartAuthorized'', attempt_schema [''execution'']
        (\<lambda>nid n f. map_option (AttemptStartAuthorized nid n) (req ''execution'' execution_dec f))),
      (''AttemptStarted'', attempt_schema [] (\<lambda>nid n f. Some (AttemptStarted nid n))),
      (''RuntimeEventObserved'', attempt_schema [''event'']
        (\<lambda>nid n f. map_option (RuntimeEventObserved nid n) (req ''event'' observation_dec f))),
      (''AttemptSucceeded'', attempt_schema [''output'']
        (\<lambda>nid n f. map_option (AttemptSucceeded nid n) (req ''output'' any_js f))),
      (''AttemptFailed'', attempt_schema [''failure'']
        (\<lambda>nid n f. map_option (AttemptFailed nid n) (req ''failure'' failure_dec f))),
      (''AttemptBlocked'', attempt_schema [''reason'']
        (\<lambda>nid n f. map_option (AttemptBlocked nid n) (req ''reason'' str f))),
      (''AttemptCancelled'', attempt_schema [''reason'']
        (\<lambda>nid n f. map_option (AttemptCancelled nid n) (req ''reason'' str f))),
      (''AttemptOrphaned'', attempt_schema [''executionId'', ''lostGeneration'', ''reason'',
          ''workspaceObservation'', ''workspaceDifferences'', ''terminalArtifactId'']
        (\<lambda>nid n f. map_option (AttemptOrphaned nid n) (orphan_of_fields f))),
      (''ControlRequestObserved'', [''operationId'', ''action'', ''recordedAtMs''],
        \<lambda>f. do {
          i \<leftarrow> req ''operationId'' str f;
          a \<leftarrow> req ''action'' action_dec f;
          t \<leftarrow> req ''recordedAtMs'' num f;
          Some (ControlRequestObserved i a t) }),
      (''ExecutionCleanupObserved'', attempt_schema [''executionId'', ''cause'', ''outcome'']
        (\<lambda>nid n f. do {
          eid \<leftarrow> req ''executionId'' str f;
          c \<leftarrow> req ''cause'' cause_dec f;
          out \<leftarrow> req ''outcome'' cleanup_dec f;
          Some (ExecutionCleanupObserved nid n eid c out) })),
      (''NodeSucceeded'', node_schema [] (\<lambda>nid f. Some (NodeSucceeded nid))),
      (''NodeFailed'', node_schema [''failure''] (\<lambda>nid f. map_option (NodeFailed nid) (req ''failure'' failure_dec f))),
      (''NodeBlocked'', node_schema [''reason''] (\<lambda>nid f. map_option (NodeBlocked nid) (req ''reason'' str f))),
      (''NodePaused'', node_schema [''reason''] (\<lambda>nid f. map_option (NodePaused nid) (opt ''reason'' pause_reason_dec f))),
      (''NodeCancelled'', node_schema [''reason''] (\<lambda>nid f. map_option (NodeCancelled nid) (req ''reason'' str f))),
      (''RunPaused'', [''reason''], \<lambda>f. map_option RunPaused (opt ''reason'' pause_reason_dec f)),
      (''RunResumed'', [''operationId''], \<lambda>f. map_option RunResumed (opt ''operationId'' str f)),
      (''RunRecoveryBlocked'', [''operationId'', ''reason''],
        \<lambda>f. do {
          i \<leftarrow> req ''operationId'' str f;
          r \<leftarrow> req ''reason'' recovery_reason_dec f;
          Some (RunRecoveryBlocked i r) }),
      (''RunBlocked'', [''reason''], \<lambda>f. map_option RunBlocked (req ''reason'' str f)),
      (''RunCancelled'', [''operationId'', ''reason''],
        \<lambda>f. do {
          i \<leftarrow> opt ''operationId'' str f;
          r \<leftarrow> req ''reason'' str f;
          Some (RunCancelled i r) }),
      (''RunCompleted'', [''outcome''], \<lambda>f. map_option RunCompleted (req ''outcome'' outcome_dec f)),
      (''WorkspaceAssigned'', [''workspace''], \<lambda>f. map_option WorkspaceAssigned (req ''workspace'' workspace_dec f)),
      (''ArtifactProduced'', attempt_schema [''artifact'']
        (\<lambda>nid n f. map_option (ArtifactProduced nid n) (req ''artifact'' artifact_dec f))),
      (''WorkspaceObserved'', attempt_schema [''headCommit'', ''changedFiles'', ''diffArtifactId'']
        (\<lambda>nid n f. do {
          h \<leftarrow> req ''headCommit'' str f;
          fs \<leftarrow> req ''changedFiles'' (arr str) f;
          aid \<leftarrow> req ''diffArtifactId'' str f;
          Some (WorkspaceObserved nid n h fs aid) })),
      (''CommandCompleted'', attempt_schema [''output'']
        (\<lambda>nid n f. map_option (CommandCompleted nid n) (req ''output'' command_report_dec f))),
      (''AttemptTimeoutRequested'', attempt_schema [] (\<lambda>nid n f. Some (AttemptTimeoutRequested nid n))),
      (''AttemptCancellationCompleted'', attempt_schema [''outcome'']
        (\<lambda>nid n f. map_option (AttemptCancellationCompleted nid n) (req ''outcome'' cancellation_dec f))),
      (''LateResultObserved'', attempt_schema [''status'']
        (\<lambda>nid n f. map_option (LateResultObserved nid n) (req ''status'' result_status_dec f)))]"

text \<open>\<open>assertRunEvent\<close> on a JSON value: the event type selects the schema.\<close>

definition decode_event :: "js \<Rightarrow> run_event option" where
  "decode_event v = do {
     f \<leftarrow> any_obj v;
     t \<leftarrow> req ''type'' str f;
     (ks, d) \<leftarrow> map_of payload_schemas t;
     _ \<leftarrow> obj (''type'' # ''runId'' # ''sequence'' # ks) v;
     r \<leftarrow> req ''runId'' str f;
     n \<leftarrow> req ''sequence'' num f;
     p \<leftarrow> d f;
     let e = \<lparr>ev_runId = r, ev_sequence = n, ev_payload = p\<rparr> in
     if assertRunEvent e then Some e else None }"

end
