(* ===== verification/Event_Roundtrip.thy ===== *)
theory Event_Roundtrip
  imports Event_Decode
begin

text \<open>
  What is written is read back: the decoders of \<open>Event_Decode\<close> applied to the canonical order of
  an encoded value give the value, with the JSON values inside it in canonical order.
\<close>

named_theorems decode_simps \<open>decoding what was encoded\<close>

section \<open>Fields\<close>

lemma map_of_opt_field [decode_simps]:
  "map_of (opt_field k f x) j = (if j = k then map_option f x else None)"
  by (cases x) (simp_all add: opt_field_def)

definition first_some :: "'a option \<Rightarrow> 'a option \<Rightarrow> 'a option" where
  "first_some a b = (case a of None \<Rightarrow> b | Some x \<Rightarrow> Some x)"

lemma first_some_None [decode_simps]: "first_some a None = a"
  by (simp add: first_some_def split: option.splits)

lemma map_of_add_opt_field [decode_simps]:
  "(m ++ map_of (opt_field k f x)) j = (if j = k then first_some (map_option f x) (m j) else m j)"
  by (cases x) (simp_all add: opt_field_def map_add_def first_some_def)

lemma opt_field_keys [decode_simps]:
  "list_all P (opt_field k f x) \<longleftrightarrow> x = None \<or> P (k, f (the x))"
  by (simp add: opt_field_def split: option.splits)

text \<open>The keys of optional fields are among those of all fields present.\<close>

definition opt_key :: "string \<Rightarrow> 'a option \<Rightarrow> string list" where
  "opt_key k x = (if x = None then [] else [k])"

lemma keys_opt_field [decode_simps]: "map fst (opt_field k f x) = opt_key k x"
  by (simp add: opt_field_def opt_key_def split: option.splits)

lemma set_opt_key [decode_simps]:
  "j \<in> set (opt_key k x) \<longleftrightarrow> j = k \<and> x \<noteq> None"
  "set (opt_key k x) \<inter> A = {} \<longleftrightarrow> x = None \<or> k \<notin> A"
  by (auto simp: opt_key_def)

lemma distinct_opt_key [decode_simps]: "distinct (opt_key k x)"
  by (simp add: opt_key_def)

lemma set_canonical_fields: "set (canonical_fields kvs) = (\<lambda>(k, v). (k, canonical_order v)) ` set kvs"
  by (simp add: canonical_fields_def canonical_dict_def)

lemma distinct_canonical_fields:
  "distinct (map fst kvs) \<Longrightarrow> distinct (map fst (canonical_fields kvs))"
  unfolding canonical_fields_def canonical_dict_def
  by (intro distinct_js_key_order sort_key_distinct_keys) (simp add: comp_def case_prod_unfold)

lemma map_of_canonical_fields:
  assumes "distinct (map fst kvs)"
  shows "map_of (canonical_fields kvs) k = map_option canonical_order (map_of kvs k)"
proof -
  let ?kvs = "map (\<lambda>(k, v). (k, canonical_order v)) kvs"
  have dist: "distinct (map fst ?kvs)" using assms by (simp add: comp_def case_prod_unfold)
  have "map_of (canonical_fields kvs) = map_of ?kvs"
    using map_of_inject_set [OF distinct_canonical_fields [OF assms] dist]
    by (simp add: set_canonical_fields)
  then show ?thesis by (simp add: map_of_map)
qed

lemma obj_canonical [decode_simps]:
  "obj ks (canonical_order (JObj kvs)) =
     (if list_all (\<lambda>p. fst p \<in> set ks) kvs then Some (canonical_fields kvs) else None)"
  unfolding canonical_order_obj
  by (force simp: obj_def list_all_iff set_canonical_fields)

lemma any_obj_canonical [decode_simps]:
  "any_obj (canonical_order (JObj kvs)) = Some (canonical_fields kvs)"
  unfolding canonical_order_obj by (simp add: any_obj_def)

lemma req_canonical [decode_simps]:
  "distinct (map fst kvs) \<Longrightarrow>
   req k d (canonical_fields kvs) = Option.bind (map_of kvs k) (\<lambda>v. d (canonical_order v))"
  by (cases "map_of kvs k") (simp_all add: req_def map_of_canonical_fields)

definition opt_dec :: "(js \<Rightarrow> 'a option) \<Rightarrow> js option \<Rightarrow> 'a option option" where
  "opt_dec d v = (case v of None \<Rightarrow> Some None | Some w \<Rightarrow> map_option Some (d (canonical_order w)))"

lemma opt_dec_simps [decode_simps]:
  "opt_dec d None = Some None"
  "opt_dec d (Some w) = map_option Some (d (canonical_order w))"
  "(\<And>v. d (canonical_order (f v)) = Some v) \<Longrightarrow> opt_dec d (map_option f x) = Some x"
  by (cases x; simp add: opt_dec_def)+

lemma opt_canonical [decode_simps]:
  "distinct (map fst kvs) \<Longrightarrow> opt k d (canonical_fields kvs) = opt_dec d (map_of kvs k)"
  by (cases "map_of kvs k") (simp_all add: opt_def opt_dec_def map_of_canonical_fields)

lemma scalar_dec [decode_simps]:
  "str (canonical_order (JStr s)) = Some s" "num (canonical_order (JInt n)) = Some n"
  "boolean (canonical_order (JBool b)) = Some b"
  "nullable d (canonical_order JNull) = Some None"
  "nullable num (canonical_order (JInt n)) = Some (Some n)"
  "nullable str (canonical_order (JStr s)) = Some (Some s)"
  "const_js s (canonical_order (JStr s)) = Some ()"
  "any_js v = Some v"
  by (simp_all add: str_def num_def boolean_def nullable_def const_js_def any_js_def)

lemma those_map_Some_iff: "\<forall>x \<in> set xs. g x = Some (f x) \<Longrightarrow> those (map g xs) = Some (map f xs)"
  by (simp add: those_Some_iff)

lemma arr_str_dec [decode_simps]: "arr str (canonical_order (str_array xs)) = Some xs"
  using those_map_Some_iff [of xs "\<lambda>x. str (canonical_order (JStr x))" "\<lambda>x. x"]
  by (simp add: arr_def str_array_def comp_def str_def)

lemma arr_enum_dec:
  assumes "\<And>x. d (canonical_order (JStr (name x))) = Some x"
  shows "arr d (canonical_order (str_array (map name xs))) = Some xs"
  using those_map_Some_iff [of xs "\<lambda>x. d (canonical_order (JStr (name x)))" "\<lambda>x. x"] assms
  by (simp add: arr_def str_array_def comp_def)

lemma enum_back:
  "enum_js name xs (canonical_order (JStr s)) = List.find (\<lambda>x. name x = s) xs"
  by (simp add: enum_js_def str_def)

lemma failure_category_back [decode_simps]:
  "failure_category_dec (canonical_order (JStr (failure_category_name x))) = Some x"
  unfolding failure_category_dec_def enum_back by (cases x) simp_all

lemma difference_back [decode_simps]: "difference_dec (canonical_order (JStr (difference_name x))) = Some x"
  unfolding difference_dec_def enum_back by (cases x) simp_all

lemma result_status_back [decode_simps]:
  "result_status_dec (canonical_order (JStr (result_status_name x))) = Some x"
  unfolding result_status_dec_def enum_back by (cases x) simp_all

lemma observation_reason_back [decode_simps]:
  "observation_reason_dec (canonical_order (JStr (observation_reason_name x))) = Some x"
  unfolding observation_reason_dec_def enum_back by (cases x) simp_all

lemma workspace_mode_back [decode_simps]:
  "workspace_mode_dec (canonical_order (JStr (workspace_mode_name x))) = Some x"
  unfolding workspace_mode_dec_def enum_back by (cases x) simp_all

lemma workspace_mode_literals [decode_simps]:
  "workspace_mode_dec (canonical_order (JStr ''memory'')) = Some MemoryMode"
  "workspace_mode_dec (canonical_order (JStr ''readonly'')) = Some ReadonlyMode"
  "workspace_mode_dec (canonical_order (JStr ''isolated'')) = Some IsolatedMode"
  unfolding workspace_mode_dec_def enum_back by simp_all

lemma structured_output_back [decode_simps]:
  "structured_output_dec (canonical_order (JStr (structured_output_name x))) = Some x"
  unfolding structured_output_dec_def enum_back by (cases x) simp_all

lemma usage_reporting_back [decode_simps]:
  "usage_reporting_dec (canonical_order (JStr (usage_reporting_name x))) = Some x"
  unfolding usage_reporting_dec_def enum_back by (cases x) simp_all

lemma cancellation_back [decode_simps]: "cancellation_dec (canonical_order (JStr (cancellation_name x))) = Some x"
  unfolding cancellation_dec_def enum_back by (cases x) simp_all

lemma cause_back [decode_simps]: "cause_dec (canonical_order (JStr (cause_name x))) = Some x"
  unfolding cause_dec_def enum_back by (cases x) simp_all

lemma cleanup_back [decode_simps]: "cleanup_dec (canonical_order (JStr (cleanup_name x))) = Some x"
  unfolding cleanup_dec_def enum_back by (cases x) simp_all

lemma orphan_back [decode_simps]: "orphan_dec (canonical_order (JStr (orphan_name x))) = Some x"
  unfolding orphan_dec_def enum_back by (cases x) simp_all

lemma ready_back [decode_simps]: "ready_dec (canonical_order (JStr (ready_name x))) = Some x"
  unfolding ready_dec_def enum_back by (cases x) simp_all

lemma action_back [decode_simps]: "action_dec (canonical_order (JStr (action_name x))) = Some x"
  unfolding action_dec_def enum_back by (cases x) simp_all

lemma kind_back [decode_simps]: "kind_dec (canonical_order (JStr (kind_name x))) = Some x"
  unfolding kind_dec_def enum_back by (cases x) simp_all

lemma outcome_back [decode_simps]: "outcome_dec (canonical_order (JStr (outcome_name x))) = Some x"
  unfolding outcome_dec_def enum_back by (cases x) (simp_all add: outcome_name_def)

lemma source_back [decode_simps]: "source_dec (canonical_order (JStr (source_name x))) = Some x"
  unfolding source_dec_def enum_back by (cases x) (simp_all add: source_name_def)

lemma coverage_back [decode_simps]: "coverage_dec (canonical_order (JStr (coverage_name x))) = Some x"
  unfolding coverage_dec_def enum_back by (cases x) (simp_all add: coverage_name_def)

declare canonical_order.simps [simp del]

section \<open>Contract values\<close>

lemma failure_back [decode_simps]: "failure_dec (canonical_order (failure_js x)) = Some x"
  by (simp add: failure_dec_def failure_js_def decode_simps)

lemma artifact_back [decode_simps]: "artifact_dec (canonical_order (artifact_js x)) = Some x"
  by (simp add: artifact_dec_def artifact_js_def producer_dec_def decode_simps)

lemma workspace_back [decode_simps]: "workspace_dec (canonical_order (workspace_js x)) = Some x"
  by (cases x) (simp_all add: workspace_dec_def decode_simps)

lemma command_report_back [decode_simps]: "command_report_dec (canonical_order (command_report_js x)) = Some x"
  by (cases "cr_exitCode x"; cases "cr_signal x")
    (simp_all add: command_report_dec_def command_report_js_def decode_simps)

lemma ownership_back [decode_simps]:
  "ownership_dec (canonical_order (JObj
     [(''repositoryRoot'', JStr (ow_repositoryRoot w)),
      (''repositoryCommonDirectory'', JStr (ow_repositoryCommonDirectory w)),
      (''workspacePath'', JStr (ow_workspacePath w)),
      (''workspaceGitDirectory'', JStr (ow_workspaceGitDirectory w)),
      (''branch'', JStr (ow_branch w)), (''manifestDigest'', JStr (ow_manifestDigest w)),
      (''registrationDigest'', JStr (ow_registrationDigest w))])) = Some w"
  by (simp add: ownership_dec_def decode_simps)

lemma checkpoint_back [decode_simps]: "checkpoint_dec (canonical_order (checkpoint_js x)) = Some x"
  by (simp add: checkpoint_dec_def checkpoint_js_def Let_def decode_simps)

lemma plan_back [decode_simps]: "plan_dec (canonical_order (plan_js x)) = Some x"
  by (simp add: plan_dec_def plan_js_def plan_fields_def plan_of_fields_def decode_simps)

lemma execution_back [decode_simps]: "execution_dec (canonical_order (execution_js x)) = Some x"
  by (simp add: execution_dec_def execution_js_def plan_fields_def plan_of_fields_def
      execution_plan_ref.defs decode_simps)

lemma pause_reason_back [decode_simps]: "pause_reason_dec (canonical_order (pause_reason_js x)) = Some x"
  by (cases x) (simp_all add: pause_reason_dec_def decode_simps arr_enum_dec)

lemma recovery_reason_back [decode_simps]:
  "recovery_reason_dec (canonical_order (recovery_reason_js x)) = Some x"
  by (cases x) (simp_all add: recovery_reason_dec_def decode_simps)

lemma capabilities_back [decode_simps]: "capabilities_dec (canonical_order (capabilities_js x)) = Some x"
  by (simp add: capabilities_dec_def capabilities_js_def decode_simps arr_enum_dec)

lemma negotiation_back [decode_simps]: "negotiation_dec (canonical_order (negotiation_js x)) = Some x"
  by (simp add: negotiation_dec_def negotiation_js_def decode_simps)

definition canonical_descriptor :: "runtime_descriptor \<Rightarrow> runtime_descriptor" where
  "canonical_descriptor d = d\<lparr>rd_configuration := canonical_fields (rd_configuration d)\<rparr>"

lemma descriptor_back [decode_simps]:
  "descriptor_dec (canonical_order (descriptor_js x)) = Some (canonical_descriptor x)"
  by (simp add: descriptor_dec_def descriptor_js_def canonical_descriptor_def decode_simps)

lemma metadata_back [decode_simps]: "observation_dec (canonical_order (metadata_js x)) = Some (MetadataEvent x)"
  by (simp add: observation_dec_def metadata_js_def decode_simps source_name_def [symmetric])

lemma usage_back [decode_simps]: "observation_dec (canonical_order (usage_js x)) = Some (UsageEvent x)"
  unfolding usage_js_def coverage_name_def [symmetric]
  by (simp add: observation_dec_def decode_simps)

lemma observation_back [decode_simps]: "observation_dec (canonical_order (observation_js x)) = Some x"
proof (cases x)
  case (LogEvent m d)
  then show ?thesis by (cases d) (simp_all add: observation_dec_def decode_simps)
qed (simp_all add: decode_simps, simp_all add: observation_dec_def decode_simps)

section \<open>Events\<close>

text \<open>An event with the JSON values in its payload in canonical order.\<close>

fun canonical_payload :: "run_event_payload \<Rightarrow> run_event_payload" where
  "canonical_payload (RunCreated i w v ns ins) = RunCreated i w v ns (canonical_fields ins)"
| "canonical_payload (RuntimeConfigured d) = RuntimeConfigured (canonical_descriptor d)"
| "canonical_payload (AttemptSucceeded nid n out) = AttemptSucceeded nid n (canonical_order out)"
| "canonical_payload p = p"

definition canonical_event :: "run_event \<Rightarrow> run_event" where
  "canonical_event e = e\<lparr>ev_payload := canonical_payload (ev_payload e)\<rparr>"

text \<open>The fields of each payload: distinct, allowed by its schema, and read back.\<close>

definition payload_back :: "run_event_payload \<Rightarrow> bool" where
  "payload_back p \<longleftrightarrow>
     (\<exists>ks d. map_of payload_schemas (event_type p) = Some (ks, d) \<and>
        list_all (\<lambda>q. fst q \<in> set ks) (payload_fields p) \<and>
        distinct (map fst (payload_fields p)) \<and> set ks \<inter> {''type'', ''runId'', ''sequence''} = {} \<and>
        (\<forall>kvs. distinct (map fst kvs) \<longrightarrow> (\<forall>k \<in> set ks. map_of kvs k = map_of (payload_fields p) k) \<longrightarrow>
           d (canonical_fields kvs) = Some (canonical_payload p)))"

lemmas payload_simps = payload_back_def payload_schemas_def node_schema_def attempt_schema_def
  node_field_def attempt_fields_def decode_simps

lemma payload_back_run:
  "payload_back (RuntimeNegotiated ng)" "payload_back (RuntimeConfigured ds)"
  "payload_back (RunCreated i w v ns ins)" "payload_back (ControlRequestObserved i a t)"
  "payload_back (RunPaused pr)" "payload_back (RunResumed oi)" "payload_back (RunRecoveryBlocked i rr)"
  "payload_back (RunBlocked r)" "payload_back (RunCancelled oi r)" "payload_back (RunCompleted out)"
  "payload_back (WorkspaceAssigned ws)"
  by (simp_all add: payload_simps outcome_name_def [symmetric] del: map_of_eq_Some_iff)

lemma payload_back_node:
  "payload_back (NodeReady nid rd)" "payload_back (NodeSucceeded nid)" "payload_back (NodeFailed nid fl)"
  "payload_back (NodeBlocked nid r)" "payload_back (NodePaused nid pr)" "payload_back (NodeCancelled nid r)"
  by (simp_all add: payload_simps del: map_of_eq_Some_iff)

lemma payload_back_attempt:
  "payload_back (AttemptScheduled nid n rt)" "payload_back (AttemptPrepared nid n plan cp)"
  "payload_back (AttemptStartAuthorized nid n x)" "payload_back (AttemptStarted nid n)"
  "payload_back (RuntimeEventObserved nid n ob)" "payload_back (AttemptSucceeded nid n v)"
  "payload_back (AttemptFailed nid n fl)" "payload_back (AttemptBlocked nid n r)"
  "payload_back (AttemptCancelled nid n r)" "payload_back (ArtifactProduced nid n ar)"
  "payload_back (WorkspaceObserved nid n hc fs aid)" "payload_back (CommandCompleted nid n cr)"
  "payload_back (AttemptTimeoutRequested nid n)" "payload_back (AttemptCancellationCompleted nid n oc)"
  "payload_back (LateResultObserved nid n st)" "payload_back (ExecutionCleanupObserved nid n eid cause cl)"
  by (simp_all add: payload_simps del: map_of_eq_Some_iff)

lemma payload_back_orphaned: "payload_back (AttemptOrphaned nid n e)"
  by (simp add: payload_simps orphan_fields_def orphan_of_fields_def arr_enum_dec del: map_of_eq_Some_iff)

lemma payload_back: "payload_back p"
  by (cases p) (simp_all only: payload_back_run payload_back_node payload_back_attempt payload_back_orphaned)

text \<open>The text of an object depends on the texts of its fields only.\<close>

lemma canonicalJson_obj_cong:
  assumes "map (\<lambda>(k, v). (k, canonicalJson v)) kvs = map (\<lambda>(k, v). (k, canonicalJson v)) kvs'"
  shows "canonicalJson (JObj kvs) = canonicalJson (JObj kvs')"
proof -
  have split: "map (\<lambda>(k, v). map_option (Pair k) (canonicalJson v)) xs =
      map (\<lambda>(k, x). map_option (Pair k) x) (map (\<lambda>(k, v). (k, canonicalJson v)) xs)" for xs
    by (induction xs) auto
  have "map (\<lambda>(k, v). map_option (Pair k) (canonicalJson v)) kvs =
      map (\<lambda>(k, v). map_option (Pair k) (canonicalJson v)) kvs'"
    unfolding split assms ..
  then show ?thesis by (simp only: canonicalJson.simps)
qed

lemma descriptor_text_canonical:
  assumes "js_distinct (JObj (rd_configuration d))"
  shows "canonicalJson (descriptor_js (canonical_descriptor d)) = canonicalJson (descriptor_js d)"
proof -
  have "canonicalJson (JObj (canonical_fields (rd_configuration d))) =
      canonicalJson (JObj (rd_configuration d))"
    using canonicalJson_canonical_order [OF assms] by (simp only: canonical_order_obj)
  then show ?thesis
    unfolding descriptor_js_def
    by (intro canonicalJson_obj_cong) (simp add: canonical_descriptor_def del: canonicalJson.simps)
qed

lemma valid_canonical_payload:
  assumes "valid_payload p" and "list_all (\<lambda>(k, v). js_distinct v) (payload_fields p)"
  shows "valid_payload (canonical_payload p)"
proof (cases p)
  case (RuntimeConfigured d)
  with assms(2) have "js_distinct (JObj (rd_configuration d))" by (simp add: descriptor_js_def)
  from descriptor_text_canonical [OF this] RuntimeConfigured assms(1) show ?thesis
    by (simp add: assertRuntimeDescriptor_def canonical_descriptor_def)
qed (use assms(1) in simp_all)

theorem decode_event_back:
  assumes "assertRunEvent e" and "js_distinct (event_js e)"
  shows "decode_event (canonical_order (event_js e)) = Some (canonical_event e)"
proof -
  let ?p = "ev_payload e"
  obtain ks d where schema: "map_of payload_schemas (event_type ?p) = Some (ks, d)"
    and allowed: "list_all (\<lambda>q. fst q \<in> set ks) (payload_fields ?p)"
    and keys: "set ks \<inter> {''type'', ''runId'', ''sequence''} = {}"
    and decodes: "\<And>kvs. distinct (map fst kvs) \<Longrightarrow> \<forall>k \<in> set ks. map_of kvs k = map_of (payload_fields ?p) k \<Longrightarrow>
      d (canonical_fields kvs) = Some (canonical_payload ?p)"
    using payload_back [of ?p] unfolding payload_back_def by (elim exE conjE) (rule that, assumption+, blast)
  let ?kvs = "(''type'', JStr (event_type ?p)) # payload_fields ?p @
    [(''runId'', JStr (ev_runId e)), (''sequence'', JInt (ev_sequence e))]"
  have js: "event_js e = JObj ?kvs" by (simp add: event_js_def)
  with assms(2) have dist: "distinct (map fst ?kvs)"
    and inner: "list_all (\<lambda>(k, v). js_distinct v) (payload_fields ?p)"
    by simp_all
  have "\<forall>k \<in> set ks. map_of ?kvs k = map_of (payload_fields ?p) k"
    using keys by (auto simp: map_add_def split: option.splits)
  with decodes [OF dist] have payload: "d (canonical_fields ?kvs) = Some (canonical_payload ?p)" by blast
  have "''runId'' \<notin> fst ` set (payload_fields ?p)" "''sequence'' \<notin> fst ` set (payload_fields ?p)"
    using allowed keys by (auto simp: list_all_iff)
  then have ids: "map_of ?kvs ''type'' = Some (JStr (event_type ?p))"
    "map_of ?kvs ''runId'' = Some (JStr (ev_runId e))"
    "map_of ?kvs ''sequence'' = Some (JInt (ev_sequence e))"
    by (simp_all add: map_add_def map_of_eq_None_iff [THEN iffD2])
  have all: "list_all (\<lambda>q. fst q \<in> set (''type'' # ''runId'' # ''sequence'' # ks)) ?kvs"
    using allowed by (auto simp: list_all_iff)
  have "assertRunEvent (canonical_event e)"
    using assms(1) valid_canonical_payload [OF _ inner]
    by (simp add: assertRunEvent_def canonical_event_def)
  moreover have "canonical_event e = \<lparr>ev_runId = ev_runId e, ev_sequence = ev_sequence e,
      ev_payload = canonical_payload ?p\<rparr>"
    by (cases e) (simp add: canonical_event_def)
  ultimately show ?thesis
    unfolding js decode_event_def
    using payload ids all dist schema
    by (simp only: any_obj_canonical obj_canonical req_canonical scalar_dec bind.bind_lunit if_True)
      (simp add: scalar_dec Let_def)
qed

theorem event_text_back:
  assumes "canonicalJson (event_js e) = Some t" and "assertRunEvent e" and "js_distinct (event_js e)"
  shows "Option.bind (parse_json t) decode_event = Some (canonical_event e)"
  using parse_json_canonical [OF assms(1,3)] decode_event_back [OF assms(2,3)] by simp

end
