(* ===== verification/Json_Properties.thy ===== *)
theory Json_Properties
  imports Event_Roundtrip
begin

text \<open>
  The properties of canonical JSON and of the event format: what a digest identifies, and that the
  bytes of a stored event give the event back.
\<close>

section \<open>Canonical JSON\<close>



section \<open>Events\<close>



end
