(* ===== verification/Store_Decode.thy ===== *)
theory Store_Decode
  imports Event_Roundtrip Store_Types
begin

text \<open>
  What the persistent store reads besides events: the workflow definition against the shape of
  \<open>workflow-definition.v1alpha1.json\<close> and the owner of a lease (\<open>assertLocalProcessIdentity\<close>), with
  the proof that what was written is read back.
\<close>

section \<open>Workflow definitions\<close>

text \<open>An object with a schema for every property: the list of its entries.\<close>

definition dict_dec :: "(js \<Rightarrow> 'a option) \<Rightarrow> js \<Rightarrow> (string \<times> 'a) list option" where
  "dict_dec d v = do { kvs \<leftarrow> any_obj v; those (map (\<lambda>(k, x). map_option (Pair k) (d x)) kvs) }"

definition node_kind_name :: "node_kind \<Rightarrow> string" where
  "node_kind_name k = (case k of AgentNode \<Rightarrow> ''agent'' | CommandNode \<Rightarrow> ''command''
     | GateNode \<Rightarrow> ''gate'' | VerifierNode \<Rightarrow> ''verifier'')"

definition node_kind_dec :: "js \<Rightarrow> node_kind option" where
  "node_kind_dec = enum_js node_kind_name [AgentNode, CommandNode, VerifierNode, GateNode]"

definition mutation_name :: "node_mutation \<Rightarrow> string" where
  "mutation_name m = (case m of ReadonlyMutation \<Rightarrow> ''readonly'' | IsolatedMutation \<Rightarrow> ''isolated'')"

definition mutation_dec :: "js \<Rightarrow> node_mutation option" where
  "mutation_dec = enum_js mutation_name [ReadonlyMutation, IsolatedMutation]"

definition budget_dec :: "js \<Rightarrow> attempt_budget option" where
  "budget_dec v = do {
     f \<leftarrow> obj [''maxAttempts'', ''maxDurationMs''] v;
     n \<leftarrow> req ''maxAttempts'' num f;
     ms \<leftarrow> opt ''maxDurationMs'' num f;
     Some \<lparr>ab_maxAttempts = n, ab_maxDurationMs = ms\<rparr> }"

definition output_dec :: "js \<Rightarrow> resolved_schema option" where
  "output_dec v = do {
     f \<leftarrow> obj [''ref'', ''schema''] v;
     r \<leftarrow> req ''ref'' str f;
     s \<leftarrow> req ''schema'' any_js f;
     Some \<lparr>sc_ref = r, sc_schema = s\<rparr> }"

definition input_dec :: "js \<Rightarrow> workflow_input option" where
  "input_dec v = do {
     f \<leftarrow> obj [''id'', ''ref'', ''schema''] v;
     i \<leftarrow> req ''id'' str f;
     r \<leftarrow> req ''ref'' str f;
     s \<leftarrow> req ''schema'' any_js f;
     Some \<lparr>sc_ref = r, sc_schema = s, in_id = i\<rparr> }"

definition command_dec :: "js \<Rightarrow> command_definition option" where
  "command_dec v = do {
     f \<leftarrow> obj [''argv'', ''cwd'', ''maxDurationMs'', ''maxOutputBytes''] v;
     a \<leftarrow> req ''argv'' (arr str) f;
     c \<leftarrow> req ''cwd'' str f;
     ms \<leftarrow> req ''maxDurationMs'' num f;
     b \<leftarrow> req ''maxOutputBytes'' num f;
     Some \<lparr>cm_argv = a, cm_cwd = c, cm_maxDurationMs = ms, cm_maxOutputBytes = b\<rparr> }"

definition workflow_node_dec :: "js \<Rightarrow> workflow_node option" where
  "workflow_node_dec v = do {
     f \<leftarrow> obj [''id'', ''kind'', ''needs'', ''role'', ''output'', ''attemptBudget'', ''mutation'', ''command''] v;
     i \<leftarrow> req ''id'' str f;
     k \<leftarrow> req ''kind'' node_kind_dec f;
     ns \<leftarrow> req ''needs'' (arr str) f;
     r \<leftarrow> opt ''role'' str f;
     out \<leftarrow> req ''output'' output_dec f;
     b \<leftarrow> req ''attemptBudget'' budget_dec f;
     m \<leftarrow> opt ''mutation'' mutation_dec f;
     c \<leftarrow> opt ''command'' command_dec f;
     Some \<lparr>nd_id = i, nd_kind = k, nd_needs = ns, nd_role = r, nd_output = out, nd_attemptBudget = b,
       nd_mutation = m, nd_command = c\<rparr> }"

definition metadata_dec :: "js \<Rightarrow> workflow_metadata option" where
  "metadata_dec v = do {
     f \<leftarrow> obj [''id'', ''version''] v;
     i \<leftarrow> req ''id'' str f;
     n \<leftarrow> req ''version'' str f;
     Some \<lparr>wm_id = i, wm_version = n\<rparr> }"

definition task_dec :: "js \<Rightarrow> workflow_task option" where
  "task_dec v = do {
     f \<leftarrow> obj [''objective'', ''acceptanceCriteria''] v;
     ob \<leftarrow> req ''objective'' str f;
     cs \<leftarrow> req ''acceptanceCriteria'' (arr str) f;
     Some \<lparr>tk_objective = ob, tk_acceptanceCriteria = cs\<rparr> }"

definition workflow_dec :: "js \<Rightarrow> workflow_definition option" where
  "workflow_dec v = do {
     f \<leftarrow> obj [''apiVersion'', ''kind'', ''metadata'', ''sourcePath'', ''inputs'', ''policies'', ''nodeOrder'',
       ''nodes'', ''task''] v;
     a \<leftarrow> req ''apiVersion'' str f;
     k \<leftarrow> req ''kind'' str f;
     m \<leftarrow> req ''metadata'' metadata_dec f;
     p \<leftarrow> req ''sourcePath'' str f;
     ins \<leftarrow> req ''inputs'' (dict_dec input_dec) f;
     q \<leftarrow> req ''policies'' (obj [''defaultAttemptBudget'']) f;
     b \<leftarrow> req ''defaultAttemptBudget'' budget_dec q;
     ns \<leftarrow> req ''nodeOrder'' (arr str) f;
     nds \<leftarrow> req ''nodes'' (dict_dec workflow_node_dec) f;
     t \<leftarrow> opt ''task'' task_dec f;
     Some \<lparr>wf_apiVersion = a, wf_kind = k, wf_metadata = m, wf_sourcePath = p, wf_inputs = ins,
       wf_defaultAttemptBudget = b, wf_nodeOrder = ns, wf_nodes = nds, wf_task = t\<rparr> }"

section \<open>Lease owners\<close>

definition identity_js :: "local_process_identity \<Rightarrow> js" where
  "identity_js p = JObj
     [(''version'', JStr (lp_version p)), (''hostIdentityDigest'', JStr (lp_hostIdentityDigest p)),
      (''bootIdentityDigest'', JStr (lp_bootIdentityDigest p)), (''pid'', JInt (lp_pid p)),
      (''startToken'', JStr (lp_startToken p))]"

definition identity_dec :: "js \<Rightarrow> local_process_identity option" where
  "identity_dec v = do {
     f \<leftarrow> obj [''bootIdentityDigest'', ''hostIdentityDigest'', ''pid'', ''startToken'', ''version''] v;
     a \<leftarrow> req ''version'' str f;
     h \<leftarrow> req ''hostIdentityDigest'' str f;
     b \<leftarrow> req ''bootIdentityDigest'' str f;
     p \<leftarrow> req ''pid'' num f;
     t \<leftarrow> req ''startToken'' str f;
     Some \<lparr>lp_version = a, lp_hostIdentityDigest = h, lp_bootIdentityDigest = b, lp_pid = p,
       lp_startToken = t\<rparr> }"

section \<open>Reading back\<close>

declare canonical_order.simps [simp del]

definition canonical_input :: "workflow_input \<Rightarrow> workflow_input" where
  "canonical_input i = i\<lparr>sc_schema := canonical_order (sc_schema i)\<rparr>"

definition canonical_node :: "workflow_node \<Rightarrow> workflow_node" where
  "canonical_node nd = nd\<lparr>nd_output := (nd_output nd)\<lparr>sc_schema := canonical_order (sc_schema (nd_output nd))\<rparr>\<rparr>"

text \<open>A workflow with its inputs, its nodes and their schemas in canonical order.\<close>

definition canonical_workflow :: "workflow_definition \<Rightarrow> workflow_definition" where
  "canonical_workflow w =
     w\<lparr>wf_inputs := canonical_dict (map (\<lambda>(k, i). (k, canonical_input i)) (wf_inputs w)),
       wf_nodes := canonical_dict (map (\<lambda>(k, nd). (k, canonical_node nd)) (wf_nodes w))\<rparr>"

lemma canonical_dict_map:
  "canonical_dict (map (\<lambda>(k, x). (k, f x)) d) = map (\<lambda>(k, x). (k, f x)) (canonical_dict d)"
  by (simp add: canonical_dict_def js_key_order_def sort_key_map filter_map comp_def case_prod_unfold)

lemma set_canonical_dict [simp]: "set (canonical_dict d) = set d"
  by (simp add: canonical_dict_def)

lemma dict_back [decode_simps]:
  assumes "\<And>x. dec (canonical_order (enc x)) = Some (c x)"
  shows "dict_dec dec (canonical_order (JObj (map (\<lambda>(k, x). (k, enc x)) d))) =
    Some (canonical_dict (map (\<lambda>(k, x). (k, c x)) d))"
proof -
  have "those (map (\<lambda>(k, x). map_option (Pair k) (dec x)) (map (\<lambda>(k, x). (k, canonical_order (enc x))) xs)) =
      Some (map (\<lambda>(k, x). (k, c x)) xs)" for xs
    using those_map_Some_iff [of xs "\<lambda>(k, x). Some (k, c x)" "\<lambda>(k, x). (k, c x)"]
    by (simp add: assms comp_def case_prod_unfold)
  moreover have "canonical_fields (map (\<lambda>(k, x). (k, enc x)) d) =
      map (\<lambda>(k, x). (k, canonical_order (enc x))) (canonical_dict d)"
    using canonical_dict_map [of "\<lambda>x. canonical_order (enc x)" d]
    by (simp add: canonical_fields_def comp_def case_prod_unfold)
  ultimately show ?thesis
    by (simp add: dict_dec_def any_obj_canonical canonical_dict_map)
qed

lemma node_kind_back [decode_simps]: "node_kind_dec (canonical_order (JStr (node_kind_name k))) = Some k"
  unfolding node_kind_dec_def enum_back by (cases k) (simp_all add: node_kind_name_def)

lemma mutation_back [decode_simps]: "mutation_dec (canonical_order (JStr (mutation_name m))) = Some m"
  unfolding mutation_dec_def enum_back by (cases m) (simp_all add: mutation_name_def)

lemma budget_back [decode_simps]: "budget_dec (canonical_order (budget_js b)) = Some b"
  by (simp add: budget_dec_def budget_js_def decode_simps)

lemma output_back [decode_simps]:
  "output_dec (canonical_order (JObj (schema_fields r))) = Some (r\<lparr>sc_schema := canonical_order (sc_schema r)\<rparr>)"
  by (cases r) (simp add: output_dec_def schema_fields_def decode_simps)

lemma input_back [decode_simps]:
  "input_dec (canonical_order (JObj ((''id'', JStr (in_id i)) # schema_fields i))) = Some (canonical_input i)"
  by (cases i) (simp add: input_dec_def schema_fields_def canonical_input_def decode_simps)

lemma command_back [decode_simps]:
  "command_dec (canonical_order (JObj
     [(''argv'', str_array (cm_argv c)), (''cwd'', JStr (cm_cwd c)),
      (''maxDurationMs'', JInt (cm_maxDurationMs c)), (''maxOutputBytes'', JInt (cm_maxOutputBytes c))])) = Some c"
  by (simp add: command_dec_def decode_simps)

lemma workflow_node_back [decode_simps]:
  "workflow_node_dec (canonical_order (workflow_node_js nd)) = Some (canonical_node nd)"
  unfolding workflow_node_js_def node_kind_name_def [symmetric] mutation_name_def [symmetric]
  by (cases nd) (simp add: workflow_node_dec_def canonical_node_def decode_simps)

lemma metadata_dec_back [decode_simps]:
  "metadata_dec (canonical_order (JObj [(''id'', JStr (wm_id m)), (''version'', JStr (wm_version m))])) = Some m"
  by (simp add: metadata_dec_def decode_simps)

lemma task_back [decode_simps]:
  "task_dec (canonical_order (JObj
     [(''objective'', JStr (tk_objective t)), (''acceptanceCriteria'', str_array (tk_acceptanceCriteria t))])) = Some t"
  by (simp add: task_dec_def decode_simps)

lemma workflow_back: "workflow_dec (canonical_order (workflow_js w)) = Some (canonical_workflow w)"
  by (cases w) (simp add: workflow_dec_def workflow_js_def canonical_workflow_def decode_simps)

lemma identity_back [decode_simps]: "identity_dec (canonical_order (identity_js p)) = Some p"
  by (simp add: identity_dec_def identity_js_def decode_simps)

end
