(* ===== verification/Sqlite_Tables.thy ===== *)
theory Sqlite_Tables
  imports Store_Decode
begin

text \<open>
  The tables of \<open>persistence/migrations/0001-run-store.sql\<close> as lists of rows in the order of their
  insertion: the columns the store reads, primary and foreign keys, the checks and the triggers.
  A statement that violates one is an SQLite error, which the store reports as \<open>corrupt-store\<close>.
\<close>

section \<open>Rows\<close>

record run_row =
  rr_run_id :: string
  rr_workflow_digest :: string
  rr_workflow_json :: string

record event_row =
  er_run_id :: string
  er_sequence :: int
  er_event_type :: string
  er_event_json :: string

record lease_row =
  lr_run_id :: string
  lr_owner_id :: string
  lr_owner_json :: string
  lr_owner_digest :: string
  lr_generation :: int
  lr_acquired_at_ms :: int
  lr_renewed_at_ms :: int
  lr_expires_at_ms :: int
  lr_released :: int

record mutation_row =
  ur_run_id :: string
  ur_operation_id :: string
  ur_generation :: int
  ur_payload_digest :: string
  ur_expected_sequence :: int
  ur_first_sequence :: int
  ur_last_sequence :: int
  ur_committed_at_ms :: int

record control_row =
  qr_run_id :: string
  qr_operation_id :: string
  qr_action :: string
  qr_recorded_at_ms :: int
  qr_acknowledged_sequence :: "int option"

record integrity_row =
  ir_run_id :: string
  ir_sequence :: int
  ir_event_digest :: string
  ir_history_digest :: string

record snapshot_row =
  sr_run_id :: string
  sr_sequence :: int
  sr_version :: string
  sr_reducer_version :: string
  sr_definition_digest :: string
  sr_event_prefix_digest :: string
  sr_state_digest :: string
  sr_state_json :: string
  sr_created_at_ms :: int

record sqlite_db =
  db_runs :: "run_row list"
  db_events :: "event_row list"
  db_leases :: "lease_row list"
  db_mutations :: "mutation_row list"
  db_controls :: "control_row list"
  db_integrity :: "integrity_row list"
  db_snapshots :: "snapshot_row list"

definition empty_db :: sqlite_db where
  "empty_db = \<lparr>db_runs = [], db_events = [], db_leases = [], db_mutations = [], db_controls = [],
     db_integrity = [], db_snapshots = []\<rparr>"

section \<open>Constraints\<close>

text \<open>\<open>length(x) BETWEEN 1 AND 128\<close>, and \<open>length(x) = 71 AND x GLOB 'sha256:*'\<close>.\<close>

definition short_text :: "string \<Rightarrow> bool" where
  "short_text s \<longleftrightarrow> 1 \<le> length s \<and> length s \<le> 128"

definition digest_text :: "string \<Rightarrow> bool" where
  "digest_text s \<longleftrightarrow> length s = 71 \<and> take 7 s = ''sha256:''"

definition json_object_text :: "string \<Rightarrow> bool" where
  "json_object_text s \<longleftrightarrow> (case parse_json s of Some (JObj _) \<Rightarrow> True | _ \<Rightarrow> False)"

definition has_event :: "sqlite_db \<Rightarrow> string \<Rightarrow> int \<Rightarrow> bool" where
  "has_event db k n \<longleftrightarrow> list_ex (\<lambda>r. er_run_id r = k \<and> er_sequence r = n) (db_events db)"

definition has_run :: "sqlite_db \<Rightarrow> string \<Rightarrow> bool" where
  "has_run db k \<longleftrightarrow> list_ex (\<lambda>r. rr_run_id r = k) (db_runs db)"

definition event_row_ok :: "sqlite_db \<Rightarrow> event_row \<Rightarrow> bool" where
  "event_row_ok db r \<longleftrightarrow> has_run db (er_run_id r) \<and> 0 < er_sequence r"

definition lease_row_ok :: "sqlite_db \<Rightarrow> lease_row \<Rightarrow> bool" where
  "lease_row_ok db r \<longleftrightarrow>
     has_run db (lr_run_id r) \<and> short_text (lr_owner_id r) \<and> json_object_text (lr_owner_json r) \<and>
     digest_text (lr_owner_digest r) \<and> 0 < lr_generation r \<and> 0 < lr_acquired_at_ms r \<and>
     lr_acquired_at_ms r \<le> lr_renewed_at_ms r \<and> lr_renewed_at_ms r \<le> lr_expires_at_ms r \<and>
     lr_released r \<in> {0, 1}"

definition mutation_row_ok :: "sqlite_db \<Rightarrow> mutation_row \<Rightarrow> bool" where
  "mutation_row_ok db r \<longleftrightarrow>
     has_run db (ur_run_id r) \<and> short_text (ur_operation_id r) \<and> 0 < ur_generation r \<and>
     digest_text (ur_payload_digest r) \<and> 0 \<le> ur_expected_sequence r \<and> 0 < ur_first_sequence r \<and>
     ur_first_sequence r \<le> ur_last_sequence r \<and> 0 < ur_committed_at_ms r \<and>
     has_event db (ur_run_id r) (ur_first_sequence r) \<and> has_event db (ur_run_id r) (ur_last_sequence r)"

definition control_row_ok :: "sqlite_db \<Rightarrow> control_row \<Rightarrow> bool" where
  "control_row_ok db r \<longleftrightarrow>
     has_run db (qr_run_id r) \<and> short_text (qr_operation_id r) \<and> qr_action r \<in> {''pause'', ''cancel''} \<and>
     0 < qr_recorded_at_ms r \<and>
     pred_option (\<lambda>n. 0 < n \<and> has_event db (qr_run_id r) n) (qr_acknowledged_sequence r)"

definition integrity_row_ok :: "sqlite_db \<Rightarrow> integrity_row \<Rightarrow> bool" where
  "integrity_row_ok db r \<longleftrightarrow>
     0 < ir_sequence r \<and> digest_text (ir_event_digest r) \<and> digest_text (ir_history_digest r) \<and>
     has_event db (ir_run_id r) (ir_sequence r)"

definition snapshot_row_ok :: "snapshot_row \<Rightarrow> bool" where
  "snapshot_row_ok r \<longleftrightarrow>
     0 < sr_sequence r \<and> short_text (sr_version r) \<and> short_text (sr_reducer_version r) \<and>
     digest_text (sr_definition_digest r) \<and> digest_text (sr_event_prefix_digest r) \<and>
     digest_text (sr_state_digest r) \<and> int (byte_length (sr_state_json r)) \<le> 4194304 \<and>
     0 < sr_created_at_ms r"

text \<open>\<open>json_extract(text, '$.field')\<close>\<close>

definition json_extract :: "string \<Rightarrow> string \<Rightarrow> js option" where
  "json_extract t k = do { v \<leftarrow> parse_json t; kvs \<leftarrow> any_obj v; map_of kvs k }"

text \<open>The trigger \<open>controlled_control_acknowledgement\<close>.\<close>

definition acknowledgement_ok :: "sqlite_db \<Rightarrow> control_row \<Rightarrow> control_row \<Rightarrow> bool" where
  "acknowledgement_ok db old new \<longleftrightarrow>
     qr_acknowledged_sequence old = None \<and> qr_acknowledged_sequence new \<noteq> None \<and>
     qr_run_id new = qr_run_id old \<and> qr_operation_id new = qr_operation_id old \<and>
     qr_action new = qr_action old \<and> qr_recorded_at_ms new = qr_recorded_at_ms old \<and>
     list_ex (\<lambda>e. er_run_id e = qr_run_id new \<and> Some (er_sequence e) = qr_acknowledged_sequence new \<and>
        er_event_type e = ''ControlRequestObserved'' \<and>
        json_extract (er_event_json e) ''operationId'' = Some (JStr (qr_operation_id new)) \<and>
        json_extract (er_event_json e) ''action'' = Some (JStr (qr_action new)) \<and>
        json_extract (er_event_json e) ''recordedAtMs'' = Some (JInt (qr_recorded_at_ms new)))
       (db_events db)"

section \<open>Statements\<close>

text \<open>\<open>INSERT\<close>: the primary key is new and the row satisfies its constraints.\<close>

definition insert_row :: "('r \<Rightarrow> 'k) \<Rightarrow> ('r \<Rightarrow> bool) \<Rightarrow> 'r \<Rightarrow> 'r list \<Rightarrow> store_error + 'r list" where
  "insert_row key ok r rows =
     bindE (check (ok r \<and> list_all (\<lambda>q. key q \<noteq> key r) rows) (StoreError CorruptStore)) (\<lambda>_.
     Inr (rows @ [r]))"

definition insert_run :: "run_row \<Rightarrow> sqlite_db \<Rightarrow> store_error + sqlite_db" where
  "insert_run r db =
     bindE (insert_row rr_run_id (\<lambda>_. True) r (db_runs db)) (\<lambda>rows. Inr (db\<lparr>db_runs := rows\<rparr>))"

definition insert_event :: "event_row \<Rightarrow> sqlite_db \<Rightarrow> store_error + sqlite_db" where
  "insert_event r db =
     bindE (insert_row (\<lambda>r. (er_run_id r, er_sequence r)) (event_row_ok db) r (db_events db)) (\<lambda>rows.
     Inr (db\<lparr>db_events := rows\<rparr>))"

definition insert_lease :: "lease_row \<Rightarrow> sqlite_db \<Rightarrow> store_error + sqlite_db" where
  "insert_lease r db =
     bindE (insert_row lr_run_id (lease_row_ok db) r (db_leases db)) (\<lambda>rows. Inr (db\<lparr>db_leases := rows\<rparr>))"

definition insert_mutation :: "mutation_row \<Rightarrow> sqlite_db \<Rightarrow> store_error + sqlite_db" where
  "insert_mutation r db =
     bindE (insert_row (\<lambda>r. (ur_run_id r, ur_operation_id r)) (mutation_row_ok db) r (db_mutations db))
       (\<lambda>rows. Inr (db\<lparr>db_mutations := rows\<rparr>))"

definition insert_control :: "control_row \<Rightarrow> sqlite_db \<Rightarrow> store_error + sqlite_db" where
  "insert_control r db =
     bindE (insert_row (\<lambda>r. (qr_run_id r, qr_operation_id r)) (control_row_ok db) r (db_controls db))
       (\<lambda>rows. Inr (db\<lparr>db_controls := rows\<rparr>))"

definition insert_integrity :: "integrity_row \<Rightarrow> sqlite_db \<Rightarrow> store_error + sqlite_db" where
  "insert_integrity r db =
     bindE (insert_row (\<lambda>r. (ir_run_id r, ir_sequence r)) (integrity_row_ok db) r (db_integrity db))
       (\<lambda>rows. Inr (db\<lparr>db_integrity := rows\<rparr>))"

text \<open>\<open>INSERT OR REPLACE\<close>: the row with the same key is removed first.\<close>

definition snapshot_key :: "snapshot_row \<Rightarrow> string \<times> int \<times> string" where
  "snapshot_key r = (sr_run_id r, sr_sequence r, sr_reducer_version r)"

definition replace_snapshot :: "snapshot_row \<Rightarrow> sqlite_db \<Rightarrow> store_error + sqlite_db" where
  "replace_snapshot r db =
     bindE (insert_row snapshot_key snapshot_row_ok r
              (filter (\<lambda>q. snapshot_key q \<noteq> snapshot_key r) (db_snapshots db))) (\<lambda>rows.
     Inr (db\<lparr>db_snapshots := rows\<rparr>))"

text \<open>\<open>UPDATE run_leases SET \<dots> WHERE run_id=?\<close>\<close>

definition update_lease :: "string \<Rightarrow> (lease_row \<Rightarrow> lease_row) \<Rightarrow> sqlite_db \<Rightarrow> store_error + sqlite_db" where
  "update_lease k f db =
     (let rows = map (\<lambda>r. if lr_run_id r = k then f r else r) (db_leases db) in
      bindE (check (list_all (\<lambda>r. lr_run_id r = k \<longrightarrow> lease_row_ok db (f r)) (db_leases db))
               (StoreError CorruptStore)) (\<lambda>_.
      Inr (db\<lparr>db_leases := rows\<rparr>)))"

text \<open>
  \<open>UPDATE control_requests SET acknowledged_sequence=? WHERE run_id=? AND operation_id=? AND
  acknowledged_sequence IS NULL\<close>
\<close>

definition acknowledge_control :: "string \<Rightarrow> string \<Rightarrow> int \<Rightarrow> sqlite_db \<Rightarrow> store_error + sqlite_db" where
  "acknowledge_control k op n db =
     (let hit = (\<lambda>r. qr_run_id r = k \<and> qr_operation_id r = op \<and> qr_acknowledged_sequence r = None);
          new = (\<lambda>r. r\<lparr>qr_acknowledged_sequence := Some n\<rparr>)
      in bindE (check (list_all (\<lambda>r. hit r \<longrightarrow> control_row_ok db (new r) \<and> acknowledgement_ok db r (new r))
                  (db_controls db)) (StoreError CorruptStore)) (\<lambda>_.
         Inr (db\<lparr>db_controls := map (\<lambda>r. if hit r then new r else r) (db_controls db)\<rparr>)))"

text \<open>\<open>SELECT \<dots> WHERE run_id=?\<close>, and the first row of a result.\<close>

definition select_by :: "('r \<Rightarrow> string) \<Rightarrow> string \<Rightarrow> 'r list \<Rightarrow> 'r list" where
  "select_by col k rows = filter (\<lambda>r. col r = k) rows"

definition first_row :: "'r list \<Rightarrow> 'r option" where
  "first_row rows = (case rows of [] \<Rightarrow> None | r # _ \<Rightarrow> Some r)"

end
