(* ===== verification/Sqlite_Store.thy ===== *)
theory Sqlite_Store
  imports Sqlite_Tables Memory_Store
begin

text \<open>
  \<open>SqliteDurableRunStore\<close> of \<open>persistence/src/durable-store.ts\<close>. As for the in-memory store, an
  operation takes the time of the store clock and gives the changed database and its result, or an
  error: \<open>writeTransaction\<close> rolls back everything an operation that throws has written. Lock
  contention (\<open>busy\<close>) and the bytes of the database file are outside the model; the columns have
  the type their \<open>typeof\<close> check demands.
\<close>

section \<open>Reading rows\<close>

text \<open>\<open>asStoreError(error, "corrupt-store", \<dots>)\<close>: a classified error stays as it is.\<close>

definition asStoreError :: "store_error \<Rightarrow> store_error" where
  "asStoreError e = (case e of StoreError c \<Rightarrow> StoreError c | _ \<Rightarrow> StoreError CorruptStore)"

definition leaseFromRow :: "store_env \<Rightarrow> lease_row \<Rightarrow> store_error + run_lease" where
  "leaseFromRow env r =
     bindE (check (digestBytes (en_sha256 env) (lr_owner_json r) = lr_owner_digest r \<and>
                   lr_released r \<in> {0, 1}) InvalidArgument) (\<lambda>_.
     bindE (some_or InvalidArgument (parse_json (lr_owner_json r))) (\<lambda>json.
     bindE (some_or InvalidArgument (identity_dec json)) (\<lambda>owner.
     bindE (check (valid_process_identity owner) InvalidArgument) (\<lambda>_.
     bindE (check (canonicalJson json = Some (lr_owner_json r)) InvalidArgument) (\<lambda>_.
     let lease = \<lparr>le_runId = lr_run_id r, le_ownerId = lr_owner_id r, le_owner = owner,
           le_generation = lr_generation r, le_acquiredAtMs = lr_acquired_at_ms r,
           le_renewedAtMs = lr_renewed_at_ms r, le_expiresAtMs = lr_expires_at_ms r,
           le_released = (lr_released r = 1)\<rparr>
     in bindE (check (valid_run_lease lease) InvalidArgument) (\<lambda>_. Inr lease))))))"

definition parseEventRow :: "string \<Rightarrow> event_row \<Rightarrow> store_error + run_event" where
  "parseEventRow runId r =
     bindE (some_or InvalidArgument (Option.bind (parse_json (er_event_json r)) decode_event)) (\<lambda>e.
     bindE (check (ev_runId e = runId \<and> ev_sequence e = er_sequence r \<and>
                   event_type (ev_payload e) = er_event_type r) InvalidArgument) (\<lambda>_. Inr e))"

definition control_action_of :: "string \<Rightarrow> control_action option" where
  "control_action_of s =
     (if s = ''pause'' then Some PauseAction else if s = ''cancel'' then Some CancelAction else None)"

definition controlFromRow :: "control_row \<Rightarrow> store_error + control_request" where
  "controlFromRow r =
     map_error asStoreError
      (bindE (some_or InvalidArgument (control_action_of (qr_action r))) (\<lambda>action.
       let c = \<lparr>ct_runId = qr_run_id r, ct_operationId = qr_operation_id r, ct_action = action,
             ct_recordedAtMs = qr_recorded_at_ms r\<rparr>
       in bindE (validateControlSubmission c) (\<lambda>_.
          bindE (check (valid_timestamp (qr_recorded_at_ms r)) InvalidArgument) (\<lambda>_.
          bindE (check (pred_option (\<lambda>n. is_safe_integer n \<and> 1 \<le> n) (qr_acknowledged_sequence r))
                   InvalidArgument) (\<lambda>_. Inr c)))))"

definition assertMutationRow :: "mutation_row \<Rightarrow> store_error + unit" where
  "assertMutationRow r =
     check (is_safe_integer (ur_generation r) \<and> 1 \<le> ur_generation r \<and> is_digest (ur_payload_digest r) \<and>
            is_safe_integer (ur_expected_sequence r) \<and> 0 \<le> ur_expected_sequence r \<and>
            is_safe_integer (ur_first_sequence r) \<and> ur_first_sequence r = ur_expected_sequence r + 1 \<and>
            is_safe_integer (ur_last_sequence r) \<and> ur_first_sequence r \<le> ur_last_sequence r \<and>
            is_safe_integer (ur_committed_at_ms r) \<and> 1 \<le> ur_committed_at_ms r)
       (StoreError CorruptStore)"

definition snapshotFromRow :: "string \<Rightarrow> snapshot_row \<Rightarrow> run_snapshot option" where
  "snapshotFromRow runId r =
     (if sr_version r \<noteq> ''anastom.dev/run-snapshot/v1alpha1'' \<or>
         sr_reducer_version r \<noteq> ''anastom.dev/run-reducer/v1alpha1'' \<or>
         \<not> is_safe_integer (sr_sequence r) \<or> sr_sequence r < 1 \<or>
         RUN_SNAPSHOT_MAX_BYTES < int (byte_length (sr_state_json r))
      then None
      else Some \<lparr>sn_version = sr_version r, sn_reducerVersion = sr_reducer_version r, sn_runId = runId,
        sn_definitionDigest = sr_definition_digest r, sn_sequence = sr_sequence r,
        sn_stateJson = sr_state_json r, sn_stateDigest = sr_state_digest r,
        sn_eventPrefixDigest = sr_event_prefix_digest r\<rparr>)"

definition readLease :: "store_env \<Rightarrow> sqlite_db \<Rightarrow> string \<Rightarrow> store_error + run_lease option" where
  "readLease env db runId =
     (case first_row (select_by lr_run_id runId (db_leases db)) of
        None \<Rightarrow> Inr None
      | Some r \<Rightarrow> map_error asStoreError (bindE (leaseFromRow env r) (\<lambda>l. Inr (Some l))))"

definition sq_requireFence ::
    "store_env \<Rightarrow> sqlite_db \<Rightarrow> run_lease_token \<Rightarrow> int \<Rightarrow> store_error + run_lease" where
  "sq_requireFence env db t now =
     bindE (readLease env db (lt_runId t)) (\<lambda>found.
     case found of
       None \<Rightarrow> Inl (StoreError (if has_run db (lt_runId t) then OwnershipConflict else NotFound))
     | Some l \<Rightarrow>
         bindE (check (le_ownerId l = lt_ownerId t \<and> le_generation l = lt_generation t)
                  (StoreError OwnershipConflict)) (\<lambda>_.
         bindE (check (\<not> le_released l \<and> now < le_expiresAtMs l) (StoreError LeaseExpired)) (\<lambda>_. Inr l)))"

section \<open>The authoritative history\<close>

record authoritative_run =
  au_workflow :: workflow_definition
  au_definitionDigest :: string
  au_events :: "run_event list"
  au_eventRows :: "event_row list"
  au_state :: run_state
  au_historyDigests :: "string list"

text \<open>
  One step of the loop of \<open>validateIntegrity\<close>: the previous digest, whether coverage has started,
  the digests so far.
\<close>

definition integrity_step :: "store_env \<Rightarrow> string \<Rightarrow> (int \<rightharpoonup> string \<times> string) \<Rightarrow>
    string \<times> bool \<times> string list \<Rightarrow> event_row \<Rightarrow> store_error + string \<times> bool \<times> string list" where
  "integrity_step env runId integrity acc r =
     (case acc of (previous, started, digests) \<Rightarrow>
      bindE (extendEventHistoryDigest env previous runId (er_sequence r) (er_event_type r) (er_event_json r))
        (\<lambda>expected.
      bindE (case integrity (er_sequence r) of
               Some stored \<Rightarrow> bindE (check (stored = expected) InvalidArgument) (\<lambda>_. Inr True)
             | None \<Rightarrow> bindE (check (\<not> started) InvalidArgument) (\<lambda>_. Inr False)) (\<lambda>covered.
      Inr (snd expected, covered, digests @ [snd expected]))))"

definition validateIntegrity ::
    "store_env \<Rightarrow> sqlite_db \<Rightarrow> string \<Rightarrow> event_row list \<Rightarrow> store_error + string list" where
  "validateIntegrity env db runId rows =
     (let stored = sort_key ir_sequence (select_by ir_run_id runId (db_integrity db));
          integrity = map_of (rev (map (\<lambda>r. (ir_sequence r, (ir_event_digest r, ir_history_digest r))) stored))
      in bindE (check (list_all (\<lambda>r. is_safe_integer (ir_sequence r)) stored) InvalidArgument) (\<lambda>_.
         bindE (foldE (integrity_step env runId integrity) (EMPTY_EVENT_HISTORY_DIGEST env, False, []) rows)
           (\<lambda>(_, _, digests).
         bindE (check (list_all (\<lambda>r. ir_sequence r \<in> er_sequence ` set rows) stored) InvalidArgument) (\<lambda>_.
         Inr digests))))"

definition readAuthoritativeRun ::
    "store_env \<Rightarrow> sqlite_db \<Rightarrow> string \<Rightarrow> store_error + authoritative_run option" where
  "readAuthoritativeRun env db runId =
     (case first_row (select_by rr_run_id runId (db_runs db)) of
        None \<Rightarrow> Inr None
      | Some row \<Rightarrow>
          bindE (check (digestBytes (en_sha256 env) (rr_workflow_json row) = rr_workflow_digest row)
                   InvalidArgument) (\<lambda>_.
          bindE (some_or InvalidArgument (parse_json (rr_workflow_json row))) (\<lambda>json.
          bindE (some_or (DefinitionError CorruptDefinition) (workflow_dec json)) (\<lambda>workflow.
          bindE (map_error DefinitionError (assertWorkflowDefinition (en_compiles env) workflow)) (\<lambda>_.
          let rows = sort_key er_sequence (select_by er_run_id runId (db_events db)) in
          bindE (check (list_all (\<lambda>r. is_safe_integer (er_sequence r)) rows) InvalidArgument) (\<lambda>_.
          bindE (mapE (parseEventRow runId) rows) (\<lambda>events.
          bindE (map_error HistoryError (replayRun events)) (\<lambda>state.
          bindE (assertStateMatchesWorkflow state workflow) (\<lambda>_.
          bindE (validateIntegrity env db runId rows) (\<lambda>digests.
          Inr (Some \<lparr>au_workflow = workflow, au_definitionDigest = rr_workflow_digest row,
            au_events = events, au_eventRows = rows, au_state = state,
            au_historyDigests = digests\<rparr>)))))))))))"

text \<open>
  \<open>snapshotCompatible\<close>: the row agrees with the history it claims to be a prefix of, and the state
  it holds, folded over the rest of the history, is the folded state.
\<close>

definition sq_snapshotCompatible :: "store_env \<Rightarrow> authoritative_run \<Rightarrow> run_snapshot \<Rightarrow> bool" where
  "sq_snapshotCompatible env run sn \<longleftrightarrow>
     sn_definitionDigest sn = au_definitionDigest run \<and>
     sn_sequence sn \<le> int (length (au_events run)) \<and>
     sn_sequence sn \<le> int (length (au_historyDigests run)) \<and>
     au_historyDigests run ! nat (sn_sequence sn - 1) = sn_eventPrefixDigest sn \<and>
     digestBytes (en_sha256 env) (sn_stateJson sn) = sn_stateDigest sn \<and>
     Option.bind (parse_json (sn_stateJson sn)) canonicalJson = Some (sn_stateJson sn) \<and>
     snapshotCompatible env (au_workflow run) (au_events run) (au_state run) sn"

definition selectSnapshot :: "store_env \<Rightarrow> sqlite_db \<Rightarrow> authoritative_run \<Rightarrow> run_snapshot option" where
  "selectSnapshot env db run =
     (let runId = rs_runId (au_state run);
          rows = sort_key (\<lambda>r. - sr_sequence r) (select_by sr_run_id runId (db_snapshots db))
      in List.find (sq_snapshotCompatible env run) (List.map_filter (snapshotFromRow runId) rows))"

section \<open>Writing rows\<close>

text \<open>\<open>insertEvents\<close>: each event with its integrity row, and the digests of the extended history.\<close>

definition insert_history_event :: "store_env \<Rightarrow> string \<Rightarrow> sqlite_db \<times> string list \<Rightarrow> run_event \<Rightarrow>
    store_error + sqlite_db \<times> string list" where
  "insert_history_event env runId acc e =
     (case acc of (db, digests) \<Rightarrow>
      let previous = (case last_opt digests of None \<Rightarrow> EMPTY_EVENT_HISTORY_DIGEST env | Some d \<Rightarrow> d);
          eventType = event_type (ev_payload e)
      in bindE (check (assertRunEvent e) InvalidArgument) (\<lambda>_.
         bindE (some_or SerializationError (canonicalJson (event_js e))) (\<lambda>json.
         bindE (extendEventHistoryDigest env previous runId (ev_sequence e) eventType json)
           (\<lambda>(eventDigest, historyDigest).
         bindE (insert_event \<lparr>er_run_id = runId, er_sequence = ev_sequence e, er_event_type = eventType,
                  er_event_json = json\<rparr> db) (\<lambda>db.
         bindE (insert_integrity \<lparr>ir_run_id = runId, ir_sequence = ev_sequence e,
                  ir_event_digest = eventDigest, ir_history_digest = historyDigest\<rparr> db) (\<lambda>db.
         Inr (db, digests @ [historyDigest])))))))"

definition insertEvents :: "store_env \<Rightarrow> string \<Rightarrow> run_event list \<Rightarrow> string list \<Rightarrow> sqlite_db \<Rightarrow>
    store_error + sqlite_db \<times> string list" where
  "insertEvents env runId events existing db = foldE (insert_history_event env runId) (db, existing) events"

definition insertMutation ::
    "fenced_run_mutation \<Rightarrow> string \<Rightarrow> mutation_receipt \<Rightarrow> int \<Rightarrow> sqlite_db \<Rightarrow> store_error + sqlite_db" where
  "insertMutation m payloadDigest receipt now db =
     insert_mutation \<lparr>ur_run_id = lt_runId (mu_lease m), ur_operation_id = mu_operationId m,
       ur_generation = lt_generation (mu_lease m), ur_payload_digest = payloadDigest,
       ur_expected_sequence = mu_expectedSequence m, ur_first_sequence = mr_firstSequence receipt,
       ur_last_sequence = mr_lastSequence receipt, ur_committed_at_ms = now\<rparr> db"

definition snapshot_row_of :: "run_snapshot \<Rightarrow> int \<Rightarrow> snapshot_row" where
  "snapshot_row_of sn now =
     \<lparr>sr_run_id = sn_runId sn, sr_sequence = sn_sequence sn, sr_version = sn_version sn,
      sr_reducer_version = sn_reducerVersion sn, sr_definition_digest = sn_definitionDigest sn,
      sr_event_prefix_digest = sn_eventPrefixDigest sn, sr_state_digest = sn_stateDigest sn,
      sr_state_json = sn_stateJson sn, sr_created_at_ms = now\<rparr>"

definition insertSnapshot :: "run_snapshot \<Rightarrow> int \<Rightarrow> sqlite_db \<Rightarrow> store_error + sqlite_db" where
  "insertSnapshot sn now db = replace_snapshot (snapshot_row_of sn now) db"

definition sq_validateControlAcknowledgement ::
    "sqlite_db \<Rightarrow> fenced_run_mutation \<Rightarrow> store_error + int option" where
  "sq_validateControlAcknowledgement db m =
     (case mu_handlesControl m of
        None \<Rightarrow> Inr None
      | Some op \<Rightarrow>
          bindE (some_or (StoreError ControlConflict) (first_row (filter (\<lambda>r. qr_operation_id r = op)
                   (select_by qr_run_id (lt_runId (mu_lease m)) (db_controls db))))) (\<lambda>row.
          bindE (check (qr_acknowledged_sequence row = None) (StoreError ControlConflict)) (\<lambda>_.
          bindE (controlFromRow row) (\<lambda>c.
          case filter (\<lambda>e. ev_payload e =
                 ControlRequestObserved (ct_operationId c) (ct_action c) (ct_recordedAtMs c)) (mu_events m) of
            [e] \<Rightarrow> Inr (Some (ev_sequence e))
          | _ \<Rightarrow> Inl (StoreError ControlConflict)))))"

section \<open>Operations\<close>

definition sq_createOwned :: "store_env \<Rightarrow> int \<Rightarrow> sqlite_db \<Rightarrow> create_owned_run \<Rightarrow>
    store_error + sqlite_db \<times> run_lease_token \<times> mutation_receipt" where
  "sq_createOwned env clock db i =
     bindE (validateCreateOwnedRun env i) (\<lambda>_.
     bindE (check (\<not> has_run db (co_runId i)) (StoreError OwnershipConflict)) (\<lambda>_.
     bindE (validateClock clock) (\<lambda>now.
     bindE (some_or SerializationError (canonicalJson (workflow_js (co_workflow i)))) (\<lambda>workflowJson.
     bindE (insert_run \<lparr>rr_run_id = co_runId i,
              rr_workflow_digest = digestBytes (en_sha256 env) workflowJson,
              rr_workflow_json = workflowJson\<rparr> db) (\<lambda>db.
     bindE (insertEvents env (co_runId i) (co_initialEvents i) [] db) (\<lambda>(db, digests).
     bindE (some_or SerializationError (canonicalJson (identity_js (co_owner i)))) (\<lambda>ownerJson.
     bindE (leaseExpiry now) (\<lambda>expires.
     bindE (insert_lease \<lparr>lr_run_id = co_runId i, lr_owner_id = co_ownerId i, lr_owner_json = ownerJson,
              lr_owner_digest = digestBytes (en_sha256 env) ownerJson, lr_generation = 1,
              lr_acquired_at_ms = now, lr_renewed_at_ms = now, lr_expires_at_ms = expires,
              lr_released = 0\<rparr> db) (\<lambda>db.
     let token = \<lparr>lt_runId = co_runId i, lt_ownerId = co_ownerId i, lt_generation = 1\<rparr>;
         mutation = \<lparr>mu_lease = token, mu_operationId = co_operationId i, mu_expectedSequence = 0,
           mu_events = co_initialEvents i, mu_snapshot = Some (co_snapshot i), mu_handlesControl = None\<rparr>;
         receipt = \<lparr>mr_runId = co_runId i, mr_operationId = co_operationId i, mr_firstSequence = 1,
           mr_lastSequence = int (length (co_initialEvents i)), mr_replayed = False\<rparr>
     in bindE (durableMutationPayloadDigest env mutation) (\<lambda>payloadDigest.
        bindE (insertMutation mutation payloadDigest receipt now db) (\<lambda>db.
        bindE (insertSnapshot (co_snapshot i) now db) (\<lambda>db.
        bindE (check (last_opt digests = Some (sn_eventPrefixDigest (co_snapshot i)))
                 (StoreError CorruptStore)) (\<lambda>_.
        Inr (db, token, receipt))))))))))))))"

text \<open>The two modes of \<open>load\<close> differ in whether the events are given.\<close>

definition sq_load :: "store_env \<Rightarrow> sqlite_db \<Rightarrow> string \<Rightarrow> bool \<Rightarrow> store_error + loaded_run option" where
  "sq_load env db runId complete =
     bindE (check (is_identifier runId) InvalidArgument) (\<lambda>_.
     map_error asStoreError
      (bindE (readAuthoritativeRun env db runId) (\<lambda>found.
       Inr (map_option (\<lambda>run.
         \<lparr>ld_workflow = au_workflow run, ld_state = au_state run,
          ld_eventPrefixDigest = (case last_opt (au_historyDigests run) of
             None \<Rightarrow> EMPTY_EVENT_HISTORY_DIGEST env | Some d \<Rightarrow> d),
          ld_snapshotSequence = map_option sn_sequence (selectSnapshot env db run),
          ld_events = (if complete then au_events run else [])\<rparr>) found))))"

definition sq_inspectLease :: "store_env \<Rightarrow> sqlite_db \<Rightarrow> string \<Rightarrow> store_error + run_lease option" where
  "sq_inspectLease env db runId =
     bindE (check (is_identifier runId) InvalidArgument) (\<lambda>_. readLease env db runId)"

text \<open>The update that gives a run to a new owner.\<close>

definition assign_lease :: "store_env \<Rightarrow> sqlite_db \<Rightarrow> string \<Rightarrow> string \<Rightarrow> local_process_identity \<Rightarrow> int \<Rightarrow>
    int \<Rightarrow> store_error + sqlite_db" where
  "assign_lease env db runId ownerId owner generation now =
     bindE (some_or SerializationError (canonicalJson (identity_js owner))) (\<lambda>ownerJson.
     bindE (leaseExpiry now) (\<lambda>expires.
     update_lease runId (\<lambda>r. r\<lparr>lr_owner_id := ownerId, lr_owner_json := ownerJson,
       lr_owner_digest := digestBytes (en_sha256 env) ownerJson, lr_generation := generation,
       lr_acquired_at_ms := now, lr_renewed_at_ms := now, lr_expires_at_ms := expires,
       lr_released := 0\<rparr>) db))"

definition sq_acquireReleased :: "store_env \<Rightarrow> int \<Rightarrow> sqlite_db \<Rightarrow> acquire_released_run \<Rightarrow>
    store_error + sqlite_db \<times> run_lease_token" where
  "sq_acquireReleased env clock db i =
     bindE (validateAcquisition i) (\<lambda>_.
     bindE (check (has_run db (aq_runId i)) (StoreError NotFound)) (\<lambda>_.
     bindE (readLease env db (aq_runId i)) (\<lambda>found.
     bindE (some_or (StoreError CorruptStore) found) (\<lambda>existing.
     bindE (check (le_released existing) (StoreError OwnershipConflict)) (\<lambda>_.
     bindE (validateClock clock) (\<lambda>now.
     bindE (nextGeneration (le_generation existing)) (\<lambda>generation.
     bindE (assign_lease env db (aq_runId i) (aq_ownerId i) (aq_owner i) generation now) (\<lambda>db.
     Inr (db, \<lparr>lt_runId = aq_runId i, lt_ownerId = aq_ownerId i, lt_generation = generation\<rparr>)))))))))"

definition sq_takeoverExpired :: "store_env \<Rightarrow> int \<Rightarrow> sqlite_db \<Rightarrow> takeover_expired_run \<Rightarrow>
    store_error + sqlite_db \<times> run_lease_token" where
  "sq_takeoverExpired env clock db i =
     bindE (validateAcquisition i) (\<lambda>_.
     bindE (check (valid_run_lease (aq_observedLease i)) InvalidArgument) (\<lambda>_.
     bindE (check (valid_timestamp (aq_absenceObservedAtMs i)) InvalidArgument) (\<lambda>_.
     bindE (check (has_run db (aq_runId i)) (StoreError NotFound)) (\<lambda>_.
     bindE (readLease env db (aq_runId i)) (\<lambda>found.
     bindE (validateClock clock) (\<lambda>now.
     bindE (some_or (StoreError OwnershipConflict) found) (\<lambda>current.
     bindE (check (\<not> le_released current \<and> current = aq_observedLease i)
              (StoreError OwnershipConflict)) (\<lambda>_.
     bindE (check (le_expiresAtMs current \<le> now) (StoreError OwnershipConflict)) (\<lambda>_.
     bindE (check (le_expiresAtMs current \<le> aq_absenceObservedAtMs i \<and> aq_absenceObservedAtMs i \<le> now)
              (StoreError OwnershipConflict)) (\<lambda>_.
     bindE (nextGeneration (le_generation current)) (\<lambda>generation.
     bindE (assign_lease env db (aq_runId i) (aq_ownerId i) (aq_owner i) generation now) (\<lambda>db.
     Inr (db, \<lparr>lt_runId = aq_runId i, lt_ownerId = aq_ownerId i, lt_generation = generation\<rparr>)))))))))))))"

definition sq_renew :: "store_env \<Rightarrow> int \<Rightarrow> sqlite_db \<Rightarrow> run_lease_token \<Rightarrow>
    store_error + sqlite_db \<times> run_lease" where
  "sq_renew env clock db t =
     bindE (check (valid_lease_token t) InvalidArgument) (\<lambda>_.
     bindE (validateClock clock) (\<lambda>now.
     bindE (sq_requireFence env db t now) (\<lambda>l.
     let renewed = max now (le_renewedAtMs l) in
     bindE (leaseExpiry renewed) (\<lambda>expires.
     bindE (update_lease (lt_runId t)
              (\<lambda>r. r\<lparr>lr_renewed_at_ms := renewed, lr_expires_at_ms := expires\<rparr>) db) (\<lambda>db.
     Inr (db, l\<lparr>le_renewedAtMs := renewed, le_expiresAtMs := expires\<rparr>))))))"

definition sq_release :: "store_env \<Rightarrow> sqlite_db \<Rightarrow> run_lease_token \<Rightarrow> store_error + sqlite_db \<times> unit" where
  "sq_release env db t =
     bindE (check (valid_lease_token t) InvalidArgument) (\<lambda>_.
     bindE (readLease env db (lt_runId t)) (\<lambda>found.
     case found of
       None \<Rightarrow> Inl (StoreError (if has_run db (lt_runId t) then OwnershipConflict else NotFound))
     | Some l \<Rightarrow>
         bindE (check (le_ownerId l = lt_ownerId t \<and> le_generation l = lt_generation t)
                  (StoreError OwnershipConflict)) (\<lambda>_.
         if le_released l then Inr (db, ())
         else bindE (update_lease (lt_runId t) (\<lambda>r. r\<lparr>lr_released := 1\<rparr>) db) (\<lambda>db. Inr (db, ())))))"

text \<open>What a commit writes once its checks have passed.\<close>

definition write_mutation :: "store_env \<Rightarrow> sqlite_db \<Rightarrow> fenced_run_mutation \<Rightarrow> string list \<Rightarrow> string \<Rightarrow>
    int option \<Rightarrow> int \<Rightarrow> store_error + sqlite_db \<times> mutation_receipt" where
  "write_mutation env db m digests payloadDigest acknowledgement now =
     (let runId = lt_runId (mu_lease m);
          receipt = \<lparr>mr_runId = runId, mr_operationId = mu_operationId m,
            mr_firstSequence = ev_sequence (hd (mu_events m)),
            mr_lastSequence = ev_sequence (last (mu_events m)), mr_replayed = False\<rparr>
      in bindE (insertEvents env runId (mu_events m) digests db) (\<lambda>(db, _).
         bindE (insertMutation m payloadDigest receipt now db) (\<lambda>db.
         bindE (case mu_snapshot m of None \<Rightarrow> Inr db | Some sn \<Rightarrow> insertSnapshot sn now db) (\<lambda>db.
         bindE (case acknowledgement of
                  None \<Rightarrow> Inr db
                | Some n \<Rightarrow> acknowledge_control runId (case_option [] id (mu_handlesControl m)) n db) (\<lambda>db.
         Inr (db, receipt))))))"

definition sq_commit :: "store_env \<Rightarrow> int \<Rightarrow> sqlite_db \<Rightarrow> fenced_run_mutation \<Rightarrow>
    store_error + sqlite_db \<times> mutation_receipt" where
  "sq_commit env clock db m =
     (let runId = lt_runId (mu_lease m) in
      bindE (validateMutation m) (\<lambda>_.
      bindE (validateClock clock) (\<lambda>now.
      bindE (sq_requireFence env db (mu_lease m) now) (\<lambda>_.
      bindE (durableMutationPayloadDigest env m) (\<lambda>payloadDigest.
      case first_row (filter (\<lambda>r. ur_operation_id r = mu_operationId m)
             (select_by ur_run_id runId (db_mutations db))) of
        Some prior \<Rightarrow>
          bindE (assertMutationRow prior) (\<lambda>_.
          bindE (check (ur_payload_digest prior = payloadDigest) (StoreError IdempotencyConflict)) (\<lambda>_.
          Inr (db, \<lparr>mr_runId = runId, mr_operationId = mu_operationId m,
            mr_firstSequence = ur_first_sequence prior, mr_lastSequence = ur_last_sequence prior,
            mr_replayed = True\<rparr>)))
      | None \<Rightarrow>
          bindE (map_error asStoreError (readAuthoritativeRun env db runId)) (\<lambda>found.
          bindE (some_or (StoreError NotFound) found) (\<lambda>run.
          bindE (check (last_sequence (au_events run) = mu_expectedSequence m)
                   (StoreError SequenceConflict)) (\<lambda>_.
          let combined = au_events run @ mu_events m in
          bindE (map_error HistoryError (replayRun combined)) (\<lambda>state.
          bindE (assertStateMatchesWorkflow state (au_workflow run)) (\<lambda>_.
          bindE (case mu_snapshot m of
                   None \<Rightarrow> Inr ()
                 | Some sn \<Rightarrow> assertRunSnapshot env sn (au_workflow run) combined) (\<lambda>_.
          bindE (sq_validateControlAcknowledgement db m) (\<lambda>acknowledgement.
          write_mutation env db m (au_historyDigests run) payloadDigest acknowledgement now))))))))))))"

definition sq_submitControl :: "int \<Rightarrow> sqlite_db \<Rightarrow> control_submission \<Rightarrow>
    store_error + sqlite_db \<times> control_request \<times> bool" where
  "sq_submitControl clock db c =
     bindE (validateControlSubmission c) (\<lambda>_.
     bindE (check (has_run db (ct_runId c)) (StoreError NotFound)) (\<lambda>_.
     case first_row (filter (\<lambda>r. qr_operation_id r = ct_operationId c)
            (select_by qr_run_id (ct_runId c) (db_controls db))) of
       Some prior \<Rightarrow>
         bindE (controlFromRow prior) (\<lambda>control.
         bindE (check (ct_action control = ct_action c) (StoreError ControlConflict)) (\<lambda>_.
         Inr (db, control, True)))
     | None \<Rightarrow>
         bindE (validateClock clock) (\<lambda>now.
         bindE (insert_control \<lparr>qr_run_id = ct_runId c, qr_operation_id = ct_operationId c,
                  qr_action = action_name (ct_action c), qr_recorded_at_ms = now,
                  qr_acknowledged_sequence = None\<rparr> db) (\<lambda>db.
         Inr (db, \<lparr>ct_runId = ct_runId c, ct_operationId = ct_operationId c, ct_action = ct_action c,
                   ct_recordedAtMs = now\<rparr>, False)))))"

definition sq_pendingControls ::
    "sqlite_db \<Rightarrow> string \<Rightarrow> int \<Rightarrow> store_error + control_request list" where
  "sq_pendingControls db runId limit =
     bindE (check (is_identifier runId) InvalidArgument) (\<lambda>_.
     bindE (assertControlLimit limit) (\<lambda>_.
     bindE (check (has_run db runId) (StoreError NotFound)) (\<lambda>_.
     map_error asStoreError (mapE controlFromRow (take (nat limit)
       (sort_key qr_recorded_at_ms (sort_key qr_operation_id
         (filter (\<lambda>r. qr_acknowledged_sequence r = None) (select_by qr_run_id runId (db_controls db))))))))))"

fun sqlite_run_op :: "store_env \<Rightarrow> int \<Rightarrow> sqlite_db \<Rightarrow> store_op \<Rightarrow> store_error + sqlite_db" where
  "sqlite_run_op env now db (CreateOp i) = bindE (sq_createOwned env now db i) (\<lambda>r. Inr (fst r))"
| "sqlite_run_op env now db (AcquireOp i) = bindE (sq_acquireReleased env now db i) (\<lambda>r. Inr (fst r))"
| "sqlite_run_op env now db (TakeoverOp i) = bindE (sq_takeoverExpired env now db i) (\<lambda>r. Inr (fst r))"
| "sqlite_run_op env now db (RenewOp t) = bindE (sq_renew env now db t) (\<lambda>r. Inr (fst r))"
| "sqlite_run_op env now db (ReleaseOp t) = bindE (sq_release env db t) (\<lambda>r. Inr (fst r))"
| "sqlite_run_op env now db (CommitOp m) = bindE (sq_commit env now db m) (\<lambda>r. Inr (fst r))"
| "sqlite_run_op env now db (ControlOp c) = bindE (sq_submitControl now db c) (\<lambda>r. Inr (fst r))"

end
