(* ===== verification/Sqlite_Integrity.thy ===== *)
theory Sqlite_Integrity
  imports Sqlite_Store
begin

text \<open>
  The integrity chain of a stored history: the digests \<open>validateIntegrity\<close> recomputes, that they
  are the prefix digests of the snapshots, and that equal final digests mean equal histories as
  long as SHA-256 does not collide on the bytes that were hashed.
\<close>

section \<open>The chain of history digests\<close>

definition link_js :: "string \<Rightarrow> string \<Rightarrow> int \<Rightarrow> string \<Rightarrow> string \<Rightarrow> js" where
  "link_js previous runId sequence eventType eventDigest = JObj
     [(''version'', JStr ''anastom.dev/event-history/v1alpha1''), (''previous'', JStr previous),
      (''runId'', JStr runId), (''sequence'', JInt sequence), (''eventType'', JStr eventType),
      (''eventDigest'', JStr eventDigest)]"

definition link_text :: "store_env \<Rightarrow> string \<Rightarrow> string \<Rightarrow> event_row \<Rightarrow> string" where
  "link_text env previous runId r =
     json_text (link_js previous runId (er_sequence r) (er_event_type r)
       (digestBytes (en_sha256 env) (er_event_json r)))"

definition history_link :: "store_env \<Rightarrow> string \<Rightarrow> string \<Rightarrow> event_row \<Rightarrow> string" where
  "history_link env previous runId r = digestBytes (en_sha256 env) (link_text env previous runId r)"

fun chain :: "store_env \<Rightarrow> string \<Rightarrow> string \<Rightarrow> event_row list \<Rightarrow> string list" where
  "chain env k previous [] = []"
| "chain env k previous (r # rs) =
     history_link env previous k r # chain env k (history_link env previous k r) rs"

definition chain_end :: "store_env \<Rightarrow> string \<Rightarrow> string \<Rightarrow> event_row list \<Rightarrow> string" where
  "chain_end env k previous rs = last (previous # chain env k previous rs)"

lemma length_chain [simp]: "length (chain env k p rs) = length rs"
  by (induction rs arbitrary: p) simp_all

lemma chain_end_simps [simp]:
  "chain_end env k p [] = p"
  "chain_end env k p (r # rs) = chain_end env k (history_link env p k r) rs"
  by (simp_all add: chain_end_def)

lemma chain_append: "chain env k p (xs @ ys) = chain env k p xs @ chain env k (chain_end env k p xs) ys"
  by (induction xs arbitrary: p) simp_all

lemma chain_end_append: "chain_end env k p (xs @ ys) = chain_end env k (chain_end env k p xs) ys"
  by (induction xs arbitrary: p) simp_all

lemma last_opt_chain: "case_option p (\<lambda>d. d) (last_opt (chain env k p rs)) = chain_end env k p rs"
  by (cases rs rule: rev_cases) (simp_all add: chain_append chain_end_append last_opt_def)

lemma chain_nth: "i < length rs \<Longrightarrow> chain env k p rs ! i = chain_end env k p (take (Suc i) rs)"
proof (induction rs arbitrary: p i)
  case (Cons r rs)
  then show ?case by (cases i) auto
qed simp

lemma extendEventHistoryDigest_eq:
  "extendEventHistoryDigest env p k (er_sequence r) (er_event_type r) (er_event_json r) =
     Inr (digestBytes (en_sha256 env) (er_event_json r), history_link env p k r)"
proof -
  let ?v = "link_js p k (er_sequence r) (er_event_type r) (digestBytes (en_sha256 env) (er_event_json r))"
  have "canonicalJson ?v = Some (json_text ?v)"
    by (subst canonicalJson_text) (simp add: link_js_def)
  then show ?thesis
    by (simp add: extendEventHistoryDigest_def Let_def digestJson_def some_or_def link_js_def
        history_link_def link_text_def del: canonicalJson.simps)
qed

section \<open>Stored events\<close>

definition event_row_of :: "run_event \<Rightarrow> event_row" where
  "event_row_of e = \<lparr>er_run_id = ev_runId e, er_sequence = ev_sequence e,
     er_event_type = event_type (ev_payload e), er_event_json = json_text (event_js e)\<rparr>"

lemma event_row_of_simps [simp]:
  "er_run_id (event_row_of e) = ev_runId e" "er_sequence (event_row_of e) = ev_sequence e"
  "er_event_type (event_row_of e) = event_type (ev_payload e)"
  "er_event_json (event_row_of e) = json_text (event_js e)"
  by (simp_all add: event_row_of_def)

text \<open>An event whose JSON values have distinct keys in canonical order: parsing gives it back.\<close>

definition canonical_run_event :: "run_event \<Rightarrow> bool" where
  "canonical_run_event e \<longleftrightarrow> canonical_event e = e \<and> js_distinct (event_js e) \<and> is_json (event_js e)"

lemma parse_event_row:
  assumes "canonical_run_event e" and "assertRunEvent e"
  shows "parseEventRow (ev_runId e) (event_row_of e) = Inr e"
proof -
  from assms(1) have "canonicalJson (event_js e) = Some (json_text (event_js e))"
    by (subst canonicalJson_text) (simp add: canonical_run_event_def)
  from event_text_back [OF this assms(2)] assms(1) show ?thesis
    by (simp add: parseEventRow_def some_or_def check_def canonical_run_event_def)
qed

lemma parse_event_rows:
  assumes "\<forall>e \<in> set es. canonical_run_event e \<and> assertRunEvent e \<and> ev_runId e = k"
  shows "mapE (parseEventRow k) (map event_row_of es) = Inr es"
  using assms
proof (induction es)
  case (Cons e es)
  then have "parseEventRow k (event_row_of e) = Inr e" using parse_event_row [of e] by simp
  with Cons show ?case by simp
qed simp

lemma event_prefix_digest_eq:
  assumes "\<forall>e \<in> set es. is_json (event_js e) \<and> ev_runId e = k"
  shows "event_prefix_digest env es =
    Inr (chain_end env k (EMPTY_EVENT_HISTORY_DIGEST env) (map event_row_of es))"
proof -
  have "foldE (extend_with_event env) p es = Inr (chain_end env k p (map event_row_of es))" for p
    using assms
  proof (induction es arbitrary: p)
    case (Cons e es)
    have "extend_with_event env p e = Inr (history_link env p k (event_row_of e))"
      using Cons.prems extendEventHistoryDigest_eq [of env p "ev_runId e" "event_row_of e"]
      by (simp add: extend_with_event_def canonicalJson_text some_or_def)
    with Cons show ?case by simp
  qed simp
  then show ?thesis by (simp add: event_prefix_digest_def)
qed

section \<open>Validation\<close>

definition integrity_row_of :: "store_env \<Rightarrow> string \<Rightarrow> event_row \<times> string \<Rightarrow> integrity_row" where
  "integrity_row_of env k p = \<lparr>ir_run_id = k, ir_sequence = er_sequence (fst p),
     ir_event_digest = digestBytes (en_sha256 env) (er_event_json (fst p)), ir_history_digest = snd p\<rparr>"

definition integrity_rows :: "store_env \<Rightarrow> string \<Rightarrow> string \<Rightarrow> event_row list \<Rightarrow> integrity_row list" where
  "integrity_rows env k p rs = map (integrity_row_of env k) (zip rs (chain env k p rs))"

lemma integrity_rows_simps [simp]:
  "integrity_rows env k p [] = []"
  "integrity_rows env k p (r # rs) = integrity_row_of env k (r, history_link env p k r) #
     integrity_rows env k (history_link env p k r) rs"
  by (simp_all add: integrity_rows_def)

lemma integrity_rows_append:
  "integrity_rows env k p (xs @ ys) =
     integrity_rows env k p xs @ integrity_rows env k (chain_end env k p xs) ys"
  by (simp add: integrity_rows_def chain_append)

lemma integrity_rows_sequences:
  "map ir_sequence (integrity_rows env k p rs) = map er_sequence rs"
  by (induction rs arbitrary: p) (simp_all add: integrity_row_of_def)

definition integrity_entry :: "integrity_row \<Rightarrow> int \<times> string \<times> string" where
  "integrity_entry r = (ir_sequence r, (ir_event_digest r, ir_history_digest r))"

lemma integrity_fold:
  assumes "\<And>r d. (r, d) \<in> set (zip rs (chain env k p rs)) \<Longrightarrow>
    stored (er_sequence r) = Some (digestBytes (en_sha256 env) (er_event_json r), d)"
  shows "\<exists>b. foldE (integrity_step env k stored) (p, started, ds) rs =
    Inr (chain_end env k p rs, b, ds @ chain env k p rs)"
  using assms
proof (induction rs arbitrary: p started ds)
  case Nil
  then show ?case by simp
next
  case (Cons r rs)
  have "integrity_step env k stored (p, started, ds) r =
      Inr (history_link env p k r, True, ds @ [history_link env p k r])"
    using Cons.prems [of r "history_link env p k r"] extendEventHistoryDigest_eq [of env p k r]
    by (simp add: integrity_step_def check_def)
  with Cons.IH [of "history_link env p k r" True "ds @ [history_link env p k r]"] Cons.prems
  show ?case by simp
qed

text \<open>A completely covered history is accepted, with its chain as the digests.\<close>

lemma validateIntegrity_accepts:
  assumes covered: "select_by ir_run_id k (db_integrity db) =
      integrity_rows env k (EMPTY_EVENT_HISTORY_DIGEST env) rs"
    and sorted: "sorted (map er_sequence rs)" "distinct (map er_sequence rs)"
    and safe: "\<forall>r \<in> set rs. is_safe_integer (er_sequence r)"
  shows "validateIntegrity env db k rs = Inr (chain env k (EMPTY_EVENT_HISTORY_DIGEST env) rs)"
proof -
  let ?p = "EMPTY_EVENT_HISTORY_DIGEST env"
  let ?rows = "integrity_rows env k ?p rs"
  let ?stored = "map_of (rev (map (\<lambda>r. (ir_sequence r, (ir_event_digest r, ir_history_digest r))) ?rows))"
  have "sort_key ir_sequence ?rows = ?rows"
    using sorted(1) by (intro sorted_sort_id sort_key_id_if_sorted) (simp add: integrity_rows_sequences)
  moreover have "?stored (er_sequence r) = Some (digestBytes (en_sha256 env) (er_event_json r), d)"
    if "(r, d) \<in> set (zip rs (chain env k ?p rs))" for r d
  proof -
    have "distinct (map fst (rev (map (\<lambda>r. (ir_sequence r, (ir_event_digest r, ir_history_digest r))) ?rows)))"
      using sorted(2) integrity_rows_sequences [of env k ?p rs]
      by (simp add: rev_map [symmetric] comp_def)
    moreover have "(er_sequence r, (digestBytes (en_sha256 env) (er_event_json r), d)) \<in>
        set (rev (map (\<lambda>r. (ir_sequence r, (ir_event_digest r, ir_history_digest r))) ?rows))"
      using that by (force simp: integrity_rows_def integrity_row_of_def)
    ultimately show ?thesis by simp
  qed
  then obtain b where "foldE (integrity_step env k ?stored) (?p, False, []) rs =
      Inr (chain_end env k ?p rs, b, chain env k ?p rs)"
    using integrity_fold [of rs env k ?p ?stored False "[]"] by auto
  moreover have "ir_sequence ` set ?rows = er_sequence ` set rs"
    using arg_cong [OF integrity_rows_sequences, of set env k ?p rs] by simp
  ultimately show ?thesis
    using safe covered
    by (auto simp: validateIntegrity_def Let_def check_def list_all_iff)
qed

text \<open>What it accepts has the recomputed digests, whatever is stored.\<close>

lemma integrity_step_digests:
  assumes "integrity_step env k stored (p, b, ds) r = Inr acc"
  shows "\<exists>b'. acc = (history_link env p k r, b', ds @ [history_link env p k r])"
  using assms by (auto simp: integrity_step_def extendEventHistoryDigest_eq result_simps)

lemma integrity_fold_digests:
  "foldE (integrity_step env k stored) (p, b, ds) rs = Inr acc \<Longrightarrow>
   \<exists>b'. acc = (chain_end env k p rs, b', ds @ chain env k p rs)"
proof (induction rs arbitrary: p b ds)
  case (Cons r rs)
  from Cons.prems obtain acc1 where step: "integrity_step env k stored (p, b, ds) r = Inr acc1"
    and rest: "foldE (integrity_step env k stored) acc1 rs = Inr acc"
    by (auto simp: result_simps)
  from integrity_step_digests [OF step] rest Cons.IH show ?case by fastforce
qed auto

lemma validateIntegrity_digests:
  assumes "validateIntegrity env db k rs = Inr ds"
  shows "ds = chain env k (EMPTY_EVENT_HISTORY_DIGEST env) rs"
proof -
  from assms obtain stored acc where
    "foldE (integrity_step env k stored) (EMPTY_EVENT_HISTORY_DIGEST env, False, []) rs = Inr acc"
    and "ds = snd (snd acc)"
    by (auto simp: validateIntegrity_def Let_def result_simps split: prod.splits)
  from integrity_fold_digests [OF this(1)] this(2) show ?thesis by auto
qed

section \<open>What a history digest commits to\<close>

definition empty_history_text :: string where
  "empty_history_text = ''anastom.dev/event-history/v1alpha1'' @ [CHR 0x0A]"

text \<open>Every text that is hashed on the way to the digest of a history.\<close>

fun hashed :: "store_env \<Rightarrow> string \<Rightarrow> string \<Rightarrow> event_row list \<Rightarrow> string set" where
  "hashed env k p [] = {empty_history_text}"
| "hashed env k p (r # rs) =
     {er_event_json r, link_text env p k r} \<union> hashed env k (history_link env p k r) rs"

lemma hashed_append:
  "hashed env k p (xs @ ys) = hashed env k p xs \<union> hashed env k (chain_end env k p xs) ys"
  by (induction xs arbitrary: p) (auto, (induction ys, auto)+)

lemma json_text_inject:
  assumes "json_text v = json_text w" and "js_distinct v" "js_distinct w" "is_json v" "is_json w"
  shows "canonical_order v = canonical_order w"
proof -
  have "canonicalJson v = canonicalJson w"
    using assms(1,4,5) by (simp add: canonicalJson_text)
  with canonicalJson_eq_iff [OF assms(2,3,4)] show ?thesis by simp
qed

lemma link_text_inject:
  assumes "link_text env p k r = link_text env p' k r'"
  shows "p = p' \<and> er_sequence r = er_sequence r' \<and> er_event_type r = er_event_type r' \<and>
    en_sha256 env (er_event_json r) = en_sha256 env (er_event_json r')"
proof -
  have "canonical_order (link_js a k b c d) = JObj (canonical_fields
      [(''version'', JStr ''anastom.dev/event-history/v1alpha1''), (''previous'', JStr a),
       (''runId'', JStr k), (''sequence'', JInt b), (''eventType'', JStr c), (''eventDigest'', JStr d)])"
    for a b c d unfolding link_js_def canonical_order_obj ..
  with json_text_inject [OF assms [unfolded link_text_def]]
  have eq: "canonical_fields
      [(''version'', JStr ''anastom.dev/event-history/v1alpha1''), (''previous'', JStr p),
       (''runId'', JStr k), (''sequence'', JInt (er_sequence r)), (''eventType'', JStr (er_event_type r)),
       (''eventDigest'', JStr (digestBytes (en_sha256 env) (er_event_json r)))] =
    canonical_fields
      [(''version'', JStr ''anastom.dev/event-history/v1alpha1''), (''previous'', JStr p'),
       (''runId'', JStr k), (''sequence'', JInt (er_sequence r')), (''eventType'', JStr (er_event_type r')),
       (''eventDigest'', JStr (digestBytes (en_sha256 env) (er_event_json r')))]"
    by (simp add: link_js_def)
  show ?thesis
    using arg_cong [OF eq, of "\<lambda>f. map_of f ''previous''"] arg_cong [OF eq, of "\<lambda>f. map_of f ''sequence''"]
      arg_cong [OF eq, of "\<lambda>f. map_of f ''eventType''"] arg_cong [OF eq, of "\<lambda>f. map_of f ''eventDigest''"]
    by (simp add: map_of_canonical_fields canonical_order.simps digestBytes_def)
qed

lemma link_not_empty: "link_text env p k r \<noteq> empty_history_text"
proof -
  have "json_text (JObj kvs) = CHR ''{'' # t \<Longrightarrow> json_text (JObj kvs) \<noteq> empty_history_text" for kvs t
    by (simp add: empty_history_text_def)
  moreover have "is_json (link_js p k (er_sequence r) (er_event_type r)
      (digestBytes (en_sha256 env) (er_event_json r)))"
    by (simp add: link_js_def)
  ultimately show ?thesis
    unfolding link_text_def link_js_def using json_text_obj by blast
qed

lemma empty_history_hashed: "empty_history_text \<in> hashed env k p rs"
  by (induction rs arbitrary: p) auto

theorem chain_commits:
  assumes "chain_end env k (EMPTY_EVENT_HISTORY_DIGEST env) rs =
      chain_end env k (EMPTY_EVENT_HISTORY_DIGEST env) rs'"
    and "inj_on (en_sha256 env) (hashed env k (EMPTY_EVENT_HISTORY_DIGEST env) rs \<union>
      hashed env k (EMPTY_EVENT_HISTORY_DIGEST env) rs')"
    and "\<forall>r \<in> set rs \<union> set rs'. er_run_id r = k"
  shows "rs = rs'"
  using assms
proof (induction rs arbitrary: rs' rule: rev_induct)
  case Nil
  let ?p = "EMPTY_EVENT_HISTORY_DIGEST env"
  show ?case
  proof (cases rs' rule: rev_cases)
    case (snoc ys r)
    let ?t = "link_text env (chain_end env k ?p ys) k r"
    have "en_sha256 env empty_history_text = en_sha256 env ?t"
      using Nil(1) by (simp add: snoc chain_end_append history_link_def EMPTY_EVENT_HISTORY_DIGEST_def
          digestBytes_def empty_history_text_def)
    moreover have "?t \<in> hashed env k ?p rs'" by (simp add: snoc hashed_append)
    ultimately have "empty_history_text = ?t"
      using inj_onD [OF Nil(2), of empty_history_text ?t] by simp
    with link_not_empty show ?thesis by metis
  qed simp
next
  case (snoc x xs)
  let ?p = "EMPTY_EVENT_HISTORY_DIGEST env"
  let ?t = "link_text env (chain_end env k ?p xs) k x"
  show ?case
  proof (cases rs' rule: rev_cases)
    case Nil
    have "en_sha256 env empty_history_text = en_sha256 env ?t"
      using snoc.prems(1) by (simp add: Nil chain_end_append history_link_def
          EMPTY_EVENT_HISTORY_DIGEST_def digestBytes_def empty_history_text_def)
    moreover have "?t \<in> hashed env k ?p (xs @ [x])" by (simp add: hashed_append)
    ultimately have "empty_history_text = ?t"
      using inj_onD [OF snoc.prems(2), of empty_history_text ?t] Nil by simp
    with link_not_empty show ?thesis by metis
  next
    case ys: (snoc ys y)
    let ?u = "link_text env (chain_end env k ?p ys) k y"
    have hash: "?t \<in> hashed env k ?p (xs @ [x])" "?u \<in> hashed env k ?p rs'"
      "er_event_json x \<in> hashed env k ?p (xs @ [x])" "er_event_json y \<in> hashed env k ?p rs'"
      by (simp_all add: ys hashed_append)
    have "en_sha256 env ?t = en_sha256 env ?u"
      using snoc.prems(1) by (simp add: ys chain_end_append history_link_def digestBytes_def)
    with hash inj_onD [OF snoc.prems(2), of ?t ?u] have "?t = ?u" by blast
    from link_text_inject [OF this] have eq: "chain_end env k ?p xs = chain_end env k ?p ys"
      "er_sequence x = er_sequence y" "er_event_type x = er_event_type y"
      "en_sha256 env (er_event_json x) = en_sha256 env (er_event_json y)" by simp_all
    with hash inj_onD [OF snoc.prems(2), of "er_event_json x" "er_event_json y"]
    have "er_event_json x = er_event_json y" by blast
    with eq snoc.prems(3) ys have "x = y" by simp
    moreover have "xs = ys"
    proof (rule snoc.IH [OF eq(1)])
      show "inj_on (en_sha256 env) (hashed env k ?p xs \<union> hashed env k ?p ys)"
        using snoc.prems(2) by (rule inj_on_subset) (auto simp: ys hashed_append)
      show "\<forall>r \<in> set xs \<union> set ys. er_run_id r = k" using snoc.prems(3) ys by auto
    qed
    ultimately show ?thesis by (simp add: ys)
  qed
qed

end
