(* ===== verification/Sqlite_Slices.thy ===== *)
theory Sqlite_Slices
  imports Sqlite_Integrity Store_Contract
begin

text \<open>
  The rows of one run. Every statement reads and writes the rows of a single run, so the effect of
  an operation is described on the slice of the database that belongs to its run; the image of a
  run of the in-memory store is the slice that holds the same run.
\<close>

section \<open>Slices\<close>

lemma select_by_simps [simp]:
  "select_by col k [] = []"
  "select_by col k (xs @ ys) = select_by col k xs @ select_by col k ys"
  "select_by col k (x # xs) = (if col x = k then x # select_by col k xs else select_by col k xs)"
  by (simp_all add: select_by_def)

definition slice :: "sqlite_db \<Rightarrow> string \<Rightarrow> sqlite_db" where
  "slice db k =
     \<lparr>db_runs = select_by rr_run_id k (db_runs db), db_events = select_by er_run_id k (db_events db),
      db_leases = select_by lr_run_id k (db_leases db),
      db_mutations = select_by ur_run_id k (db_mutations db),
      db_controls = select_by qr_run_id k (db_controls db),
      db_integrity = select_by ir_run_id k (db_integrity db),
      db_snapshots = select_by sr_run_id k (db_snapshots db)\<rparr>"

lemma slice_select [simp]:
  "db_runs (slice db k) = select_by rr_run_id k (db_runs db)"
  "db_events (slice db k) = select_by er_run_id k (db_events db)"
  "db_leases (slice db k) = select_by lr_run_id k (db_leases db)"
  "db_mutations (slice db k) = select_by ur_run_id k (db_mutations db)"
  "db_controls (slice db k) = select_by qr_run_id k (db_controls db)"
  "db_integrity (slice db k) = select_by ir_run_id k (db_integrity db)"
  "db_snapshots (slice db k) = select_by sr_run_id k (db_snapshots db)"
  by (simp_all add: slice_def)

lemma slice_eq_iff:
  "slice db' k = slice db k \<longleftrightarrow>
     select_by rr_run_id k (db_runs db') = select_by rr_run_id k (db_runs db) \<and>
     select_by er_run_id k (db_events db') = select_by er_run_id k (db_events db) \<and>
     select_by lr_run_id k (db_leases db') = select_by lr_run_id k (db_leases db) \<and>
     select_by ur_run_id k (db_mutations db') = select_by ur_run_id k (db_mutations db) \<and>
     select_by qr_run_id k (db_controls db') = select_by qr_run_id k (db_controls db) \<and>
     select_by ir_run_id k (db_integrity db') = select_by ir_run_id k (db_integrity db) \<and>
     select_by sr_run_id k (db_snapshots db') = select_by sr_run_id k (db_snapshots db)"
  by (simp add: slice_def)

lemma has_run_slice: "has_run db k \<longleftrightarrow> select_by rr_run_id k (db_runs db) \<noteq> []"
  by (auto simp: has_run_def select_by_def list_ex_iff filter_empty_conv)

lemma has_event_slice:
  "has_event db k n \<longleftrightarrow> n \<in> er_sequence ` set (select_by er_run_id k (db_events db))"
  by (auto simp: has_event_def select_by_def list_ex_iff)

text \<open>A key that starts with the run is new if it is new among the rows of the run.\<close>

lemma new_key:
  "list_all (\<lambda>q. col q = k \<longrightarrow> key q \<noteq> n) rows \<longleftrightarrow> n \<notin> key ` set (select_by col k rows)"
  by (auto simp: list_all_iff select_by_def)

lemma first_row_Nil [simp]: "first_row [] = None"
  by (simp add: first_row_def)

lemma first_row_Cons [simp]: "first_row (r # rs) = Some r"
  by (simp add: first_row_def)

section \<open>Statements that succeed\<close>

lemma insert_event_ok:
  assumes "has_run db (er_run_id r)" and "0 < er_sequence r"
    and "er_sequence r \<notin> er_sequence ` set (select_by er_run_id (er_run_id r) (db_events db))"
  shows "insert_event r db = Inr (db\<lparr>db_events := db_events db @ [r]\<rparr>)"
  using assms by (simp add: insert_event_def insert_row_def check_def event_row_ok_def new_key)

lemma insert_integrity_ok:
  assumes "has_event db (ir_run_id r) (ir_sequence r)" and "0 < ir_sequence r"
    and "digest_text (ir_event_digest r)" and "digest_text (ir_history_digest r)"
    and "ir_sequence r \<notin> ir_sequence ` set (select_by ir_run_id (ir_run_id r) (db_integrity db))"
  shows "insert_integrity r db = Inr (db\<lparr>db_integrity := db_integrity db @ [r]\<rparr>)"
  using assms by (simp add: insert_integrity_def insert_row_def check_def integrity_row_ok_def new_key)

lemma insert_run_ok:
  assumes "\<not> has_run db (rr_run_id r)"
  shows "insert_run r db = Inr (db\<lparr>db_runs := db_runs db @ [r]\<rparr>)"
  using assms by (auto simp: insert_run_def insert_row_def check_def has_run_def list_all_iff list_ex_iff)

lemma insert_lease_ok:
  assumes "lease_row_ok db r" and "select_by lr_run_id (lr_run_id r) (db_leases db) = []"
  shows "insert_lease r db = Inr (db\<lparr>db_leases := db_leases db @ [r]\<rparr>)"
  using assms by (auto simp: insert_lease_def insert_row_def check_def list_all_iff select_by_def filter_empty_conv)

lemma insert_mutation_ok:
  assumes "mutation_row_ok db r"
    and "ur_operation_id r \<notin> ur_operation_id ` set (select_by ur_run_id (ur_run_id r) (db_mutations db))"
  shows "insert_mutation r db = Inr (db\<lparr>db_mutations := db_mutations db @ [r]\<rparr>)"
  using assms by (simp add: insert_mutation_def insert_row_def check_def new_key)

lemma insert_control_ok:
  assumes "control_row_ok db r"
    and "qr_operation_id r \<notin> qr_operation_id ` set (select_by qr_run_id (qr_run_id r) (db_controls db))"
  shows "insert_control r db = Inr (db\<lparr>db_controls := db_controls db @ [r]\<rparr>)"
  using assms by (simp add: insert_control_def insert_row_def check_def new_key)

lemma replace_snapshot_ok:
  assumes "snapshot_row_ok r"
  shows "replace_snapshot r db = Inr (db\<lparr>db_snapshots :=
    filter (\<lambda>q. snapshot_key q \<noteq> snapshot_key r) (db_snapshots db) @ [r]\<rparr>)"
  using assms by (simp add: replace_snapshot_def insert_row_def check_def list_all_iff)

lemma update_lease_ok:
  assumes "\<forall>r \<in> set (select_by lr_run_id k (db_leases db)). lease_row_ok db (f r)"
  shows "update_lease k f db =
    Inr (db\<lparr>db_leases := map (\<lambda>r. if lr_run_id r = k then f r else r) (db_leases db)\<rparr>)"
  using assms by (simp add: update_lease_def check_def list_all_iff select_by_def)

lemma select_update:
  assumes "\<And>r. col r = k \<Longrightarrow> col (f r) = k"
  shows "select_by col j (map (\<lambda>r. if col r = k then f r else r) rows) =
    (if j = k then map f (select_by col k rows) else select_by col j rows)"
  using assms by (induction rows) auto

section \<open>The image of a run\<close>

definition lease_row_of :: "store_env \<Rightarrow> run_lease \<Rightarrow> lease_row" where
  "lease_row_of env l =
     \<lparr>lr_run_id = le_runId l, lr_owner_id = le_ownerId l, lr_owner_json = json_text (identity_js (le_owner l)),
      lr_owner_digest = digestBytes (en_sha256 env) (json_text (identity_js (le_owner l))),
      lr_generation = le_generation l, lr_acquired_at_ms = le_acquiredAtMs l,
      lr_renewed_at_ms = le_renewedAtMs l, lr_expires_at_ms = le_expiresAtMs l,
      lr_released = (if le_released l then 1 else 0)\<rparr>"

definition control_row_of :: "memory_control \<Rightarrow> control_row" where
  "control_row_of c =
     \<lparr>qr_run_id = ct_runId c, qr_operation_id = ct_operationId c, qr_action = action_name (ct_action c),
      qr_recorded_at_ms = ct_recordedAtMs c, qr_acknowledged_sequence = mc_acknowledgedSequence c\<rparr>"

definition find_mutation :: "string \<Rightarrow> mutation_row list \<Rightarrow> mutation_row option" where
  "find_mutation op rows = first_row (filter (\<lambda>r. ur_operation_id r = op) rows)"

definition mutation_image :: "mutation_row \<Rightarrow> memory_mutation \<Rightarrow> bool" where
  "mutation_image row m \<longleftrightarrow>
     ur_payload_digest row = mm_payloadDigest m \<and>
     ur_first_sequence row = mr_firstSequence (mm_receipt m) \<and>
     ur_last_sequence row = mr_lastSequence (mm_receipt m) \<and> assertMutationRow row = Inr ()"

definition canonical_definition :: "workflow_definition \<Rightarrow> bool" where
  "canonical_definition w \<longleftrightarrow>
     canonical_workflow w = w \<and> js_distinct (workflow_js w) \<and> is_json (workflow_js w)"

definition control_values_ok :: "memory_control \<Rightarrow> bool" where
  "control_values_ok c \<longleftrightarrow>
     is_identifier (ct_operationId c) \<and> valid_timestamp (ct_recordedAtMs c) \<and>
     pred_option (\<lambda>n. is_safe_integer n \<and> 1 \<le> n) (mc_acknowledgedSequence c)"

text \<open>What the invariants of the in-memory store and the checks on its inputs give for a run.\<close>

definition stored_run_ok :: "store_env \<Rightarrow> string \<Rightarrow> memory_run \<Rightarrow> bool" where
  "stored_run_ok env k r \<longleftrightarrow>
     is_identifier k \<and> history_ok env k r \<and> receipts_ok k r \<and> snapshots_ok env k r \<and> controls_ok k r \<and>
     le_runId (me_lease r) = k \<and> valid_run_lease (me_lease r) \<and>
     canonical_definition (me_workflow r) \<and> (\<forall>e \<in> set (me_events r). canonical_run_event e) \<and>
     (\<forall>c \<in> snd ` set (me_controls r). control_values_ok c)"

definition run_image :: "store_env \<Rightarrow> string \<Rightarrow> memory_run \<Rightarrow> sqlite_db \<Rightarrow> bool" where
  "run_image env k r d \<longleftrightarrow>
     stored_run_ok env k r \<and>
     (let wj = json_text (workflow_js (me_workflow r)); rows = map event_row_of (me_events r) in
      db_runs d = [\<lparr>rr_run_id = k, rr_workflow_digest = digestBytes (en_sha256 env) wj, rr_workflow_json = wj\<rparr>] \<and>
      db_events d = rows \<and>
      db_leases d = [lease_row_of env (me_lease r)] \<and>
      db_integrity d = integrity_rows env k (EMPTY_EVENT_HISTORY_DIGEST env) rows \<and>
      db_controls d = map (\<lambda>p. control_row_of (snd p)) (me_controls r) \<and>
      (\<forall>op. rel_option mutation_image (find_mutation op (db_mutations d)) (me_mutations r op)) \<and>
      list_all2 (\<lambda>row sn. snapshotFromRow k row = Some sn) (db_snapshots d) (me_snapshots r))"

text \<open>The database holds exactly the runs of the in-memory store.\<close>

definition represents :: "store_env \<Rightarrow> sqlite_db \<Rightarrow> memory_store \<Rightarrow> bool" where
  "represents env db st \<longleftrightarrow>
     (\<forall>k. case st k of None \<Rightarrow> slice db k = empty_db | Some r \<Rightarrow> run_image env k r (slice db k))"

lemma represents_empty: "represents env empty_db Map.empty"
  by (simp add: represents_def slice_def empty_db_def)

lemma represents_None: "represents env db st \<Longrightarrow> st k = None \<Longrightarrow> slice db k = empty_db"
  by (auto simp: represents_def dest: spec [of _ k])

lemma represents_Some: "represents env db st \<Longrightarrow> st k = Some r \<Longrightarrow> run_image env k r (slice db k)"
  by (auto simp: represents_def dest: spec [of _ k])

lemma represents_update:
  assumes "represents env db st" and "\<And>j. j \<noteq> k \<Longrightarrow> slice db' j = slice db j"
    and "run_image env k r (slice db' k)"
  shows "represents env db' (st(k \<mapsto> r))"
proof -
  have "case (st(k \<mapsto> r)) j of None \<Rightarrow> slice db' j = empty_db | Some q \<Rightarrow> run_image env j q (slice db' j)"
    for j
    using represents_None [OF assms(1), of j] represents_Some [OF assms(1), of j] assms(2) [of j] assms(3)
    by (cases "j = k"; cases "st j") auto
  then show ?thesis by (simp add: represents_def)
qed

lemma represents_has_run: "represents env db st \<Longrightarrow> has_run db k \<longleftrightarrow> st k \<noteq> None"
  using represents_None [of env db st k] represents_Some [of env db st k]
  by (cases "st k") (auto simp: has_run_slice empty_db_def slice_def run_image_def Let_def)

end
