(* ===== verification/Sqlite_Reads.thy ===== *)
theory Sqlite_Reads
  imports Sqlite_Slices
begin

text \<open>
  What the store reads from a database that represents a state of the in-memory store: its lease,
  its history, its receipts and its controls.
\<close>

text \<open>Node's SHA-256 gives 64 lower-case hexadecimal digits.\<close>

definition sha_hex :: "store_env \<Rightarrow> bool" where
  "sha_hex env \<longleftrightarrow> (\<forall>x. is_digest (digestBytes (en_sha256 env) x))"

lemma sha_digest: "sha_hex env \<Longrightarrow> is_digest (digestBytes (en_sha256 env) x)"
  by (simp add: sha_hex_def)

lemma sha_digest_text: "sha_hex env \<Longrightarrow> digest_text (digestBytes (en_sha256 env) x)"
  using sha_digest [of env x] by (simp add: is_digest_def digest_text_def)

lemma json_text_reads:
  assumes "js_distinct v" and "is_json v"
  shows "parse_json (json_text v) = Some (canonical_order v)"
    "canonicalJson (canonical_order v) = Some (json_text v)" "canonicalJson v = Some (json_text v)"
proof -
  show written: "canonicalJson v = Some (json_text v)" using assms(2) by (subst canonicalJson_text) simp
  from parse_json_canonical [OF this assms(1)] show "parse_json (json_text v) = Some (canonical_order v)" .
  from written canonicalJson_canonical_order [OF assms(1)]
  show "canonicalJson (canonical_order v) = Some (json_text v)" by simp
qed

section \<open>Leases\<close>

lemma identity_text:
  "parse_json (json_text (identity_js p)) = Some (canonical_order (identity_js p))"
  "canonicalJson (canonical_order (identity_js p)) = Some (json_text (identity_js p))"
  "canonicalJson (identity_js p) = Some (json_text (identity_js p))"
proof -
  have "js_distinct (identity_js p)" "is_json (identity_js p)" by (simp_all add: identity_js_def)
  from json_text_reads [OF this]
  show "parse_json (json_text (identity_js p)) = Some (canonical_order (identity_js p))"
    "canonicalJson (canonical_order (identity_js p)) = Some (json_text (identity_js p))"
    "canonicalJson (identity_js p) = Some (json_text (identity_js p))" .
qed

lemma leaseFromRow_of: "valid_run_lease l \<Longrightarrow> leaseFromRow env (lease_row_of env l) = Inr l"
  by (cases l) (simp add: leaseFromRow_def lease_row_of_def identity_text identity_back some_or_def
      check_def valid_run_lease_def Let_def tokenFor_def)

lemma lease_row_of_ok:
  assumes "valid_run_lease l" and "has_run db (le_runId l)" and "sha_hex env"
  shows "lease_row_ok db (lease_row_of env l)"
proof -
  have "length (le_ownerId l) = 36"
    using assms(1) by (simp add: valid_run_lease_def valid_lease_token_def tokenFor_def is_uuid_def)
  moreover have "json_object_text (json_text (identity_js p))" for p
    unfolding json_object_text_def identity_text by (simp add: identity_js_def canonical_order_obj)
  moreover have "digest_text (digestBytes (en_sha256 env) x)" for x
    using assms(3) by (rule sha_digest_text)
  ultimately show ?thesis
    using assms(1,2)
    by (simp add: lease_row_ok_def lease_row_of_def short_text_def valid_run_lease_def
        valid_lease_token_def valid_timestamp_def tokenFor_def)
qed

lemma represents_readLease:
  assumes "represents env db st"
  shows "readLease env db k = Inr (map_option me_lease (st k))"
proof (cases "st k")
  case None
  with represents_None [OF assms None] show ?thesis
    by (simp add: readLease_def slice_def empty_db_def)
next
  case (Some r)
  from represents_Some [OF assms Some] have "valid_run_lease (me_lease r)"
    and "select_by lr_run_id k (db_leases db) = [lease_row_of env (me_lease r)]"
    by (simp_all add: run_image_def stored_run_ok_def Let_def)
  with Some show ?thesis by (simp add: readLease_def leaseFromRow_of map_error_def)
qed

section \<open>Histories\<close>

lemma assertRunEvent_safe: "assertRunEvent e \<Longrightarrow> is_safe_integer (ev_sequence e) \<and> 1 \<le> ev_sequence e"
  by (auto simp: assertRunEvent_def positive_int_def is_safe_integer_def MAX_SAFE_INTEGER_def)

lemma foldE_replay_asserts:
  "foldE replay_step c es = Inr c' \<Longrightarrow> \<forall>e \<in> set es. assertRunEvent e"
proof (induction es arbitrary: c)
  case (Cons e es)
  from Cons.prems obtain c1 where "replay_step c e = Inr c1" "foldE replay_step c1 es = Inr c'"
    by (auto simp: result_simps)
  moreover from this(1) have "assertRunEvent e"
    by (auto simp: replay_step_def applyRunEvent_def result_simps)
  ultimately show ?case using Cons.IH by auto
qed simp

lemma replayRun_asserts: "replayRun es = Inr s \<Longrightarrow> \<forall>e \<in> set es. assertRunEvent e"
  by (auto simp: replayRun_def result_simps dest!: foldE_replay_asserts)

lemma contiguous_sequences:
  "contiguous_from k n es \<Longrightarrow> map ev_sequence es = map (\<lambda>i. n + int i + 1) [0..<length es]"
  by (auto simp: contiguous_from_def intro: nth_equalityI)

lemma contiguous_facts:
  assumes "contiguous_from k n es"
  shows "\<forall>e \<in> set es. ev_runId e = k \<and> n < ev_sequence e \<and> ev_sequence e \<le> n + int (length es)"
    and "sorted (map ev_sequence es)" and "distinct (map ev_sequence es)"
proof -
  show "\<forall>e \<in> set es. ev_runId e = k \<and> n < ev_sequence e \<and> ev_sequence e \<le> n + int (length es)"
    using assms by (auto simp: contiguous_from_def in_set_conv_nth)
  show "sorted (map ev_sequence es)" "distinct (map ev_sequence es)"
    unfolding contiguous_sequences [OF assms]
    by (auto simp: sorted_iff_nth_mono distinct_map inj_on_def)
qed

lemma history_facts:
  assumes "history_ok env k r"
  obtains s where "replayRun (me_events r) = Inr s" and "rs_runId s = k"
    and "assertStateMatchesWorkflow s (me_workflow r) = Inr ()"
    and "contiguous_from k 0 (me_events r)" and "\<forall>e \<in> set (me_events r). assertRunEvent e"
    and "me_events r \<noteq> []"
proof -
  from assms obtain s where s: "replayRun (me_events r) = Inr s" "rs_runId s = k"
    "assertStateMatchesWorkflow s (me_workflow r) = Inr ()" by (auto simp: history_ok_def)
  with replayRun_contiguous [OF s(1)] replayRun_asserts [OF s(1)] show ?thesis by (intro that) auto
qed

abbreviation history_rows :: "memory_run \<Rightarrow> event_row list" where
  "history_rows r \<equiv> map event_row_of (me_events r)"

lemma represents_history:
  assumes "represents env db st" and "st k = Some r" and "replayRun (me_events r) = Inr s"
  shows "readAuthoritativeRun env db k = Inr (Some
    \<lparr>au_workflow = me_workflow r,
     au_definitionDigest = digestBytes (en_sha256 env) (json_text (workflow_js (me_workflow r))),
     au_events = me_events r, au_eventRows = history_rows r, au_state = s,
     au_historyDigests = chain env k (EMPTY_EVENT_HISTORY_DIGEST env) (history_rows r)\<rparr>)"
proof -
  let ?wj = "json_text (workflow_js (me_workflow r))"
  from represents_Some [OF assms(1,2)] have ok: "stored_run_ok env k r"
    and image: "select_by rr_run_id k (db_runs db) =
        [\<lparr>rr_run_id = k, rr_workflow_digest = digestBytes (en_sha256 env) ?wj, rr_workflow_json = ?wj\<rparr>]"
      "select_by er_run_id k (db_events db) = history_rows r"
      "select_by ir_run_id k (db_integrity db) =
        integrity_rows env k (EMPTY_EVENT_HISTORY_DIGEST env) (history_rows r)"
    by (simp_all add: run_image_def Let_def)
  from ok have "history_ok env k r" by (simp add: stored_run_ok_def)
  then obtain s' where s': "replayRun (me_events r) = Inr s'"
    and matches: "assertStateMatchesWorkflow s' (me_workflow r) = Inr ()"
    and contiguous: "contiguous_from k 0 (me_events r)"
    and valid: "\<forall>e \<in> set (me_events r). assertRunEvent e" by (rule history_facts)
  from s' assms(3) have s: "s' = s" by simp
  note facts = contiguous_facts [OF contiguous]
  have seqs: "map er_sequence (history_rows r) = map ev_sequence (me_events r)" by simp
  have "is_safe_integer (ev_sequence e)" if "e \<in> set (me_events r)" for e
    using valid that by (auto simp: assertRunEvent_def positive_int_def is_safe_integer_def)
  moreover have "sort_key er_sequence (history_rows r) = history_rows r"
    using facts(2) by (intro sort_key_id_if_sorted) (simp add: comp_def)
  moreover have "mapE (parseEventRow k) (history_rows r) = Inr (me_events r)"
    using ok valid facts(1) by (intro parse_event_rows) (auto simp: stored_run_ok_def)
  moreover have "validateIntegrity env db k (history_rows r) =
      Inr (chain env k (EMPTY_EVENT_HISTORY_DIGEST env) (history_rows r))"
    using facts calculation(1)
    by (intro validateIntegrity_accepts image(3)) (auto simp: comp_def)
  moreover have "workflow_dec (canonical_order (workflow_js (me_workflow r))) = Some (me_workflow r)"
    using ok by (simp add: workflow_back stored_run_ok_def canonical_definition_def)
  moreover have "parse_json ?wj = Some (canonical_order (workflow_js (me_workflow r)))"
    using ok by (intro json_text_reads) (simp_all add: stored_run_ok_def canonical_definition_def)
  moreover have "assertWorkflowDefinition (en_compiles env) (me_workflow r) = Inr ()"
    using ok by (simp add: stored_run_ok_def history_ok_def)
  ultimately show ?thesis
    using matches assms(3)
    by (simp add: readAuthoritativeRun_def image s check_def some_or_def Let_def list_all_iff map_error_def)
qed

lemma represents_no_history:
  "represents env db st \<Longrightarrow> st k = None \<Longrightarrow> readAuthoritativeRun env db k = Inr None"
  using represents_None [of env db st k] by (simp add: readAuthoritativeRun_def slice_def empty_db_def)

section \<open>Receipts and controls\<close>

lemma represents_receipt:
  assumes "represents env db st" and "st k = Some r"
  shows "rel_option mutation_image (find_mutation op (select_by ur_run_id k (db_mutations db))) (me_mutations r op)"
  using represents_Some [OF assms] by (simp add: run_image_def Let_def)

lemma action_name_cases [simp]:
  "control_action_of (action_name a) = Some a" "action_name a = ''pause'' \<or> action_name a = ''cancel''"
  "action_name a = action_name b \<longleftrightarrow> a = b"
  by (cases a; cases b; simp add: control_action_of_def)+

lemma controlFromRow_of:
  assumes "control_values_ok c" and "is_identifier (ct_runId c)"
  shows "controlFromRow (control_row_of c) = Inr (controlRequest c)"
  using assms
  by (simp add: controlFromRow_def control_row_of_def control_values_ok_def some_or_def check_def Let_def
      validateControlSubmission_def map_error_def controlRequest_def)

lemma represents_controls:
  assumes "represents env db st" and "st k = Some r"
  shows "select_by qr_run_id k (db_controls db) = map (\<lambda>p. control_row_of (snd p)) (me_controls r)"
    and "controls_ok k r" and "is_identifier k" and "\<forall>c \<in> snd ` set (me_controls r). control_values_ok c"
  using represents_Some [OF assms] by (simp_all add: run_image_def stored_run_ok_def Let_def)

text \<open>Looking a control up by its operation.\<close>

lemma find_control:
  assumes "represents env db st" and "st k = Some r"
  shows "first_row (filter (\<lambda>q. qr_operation_id q = op) (select_by qr_run_id k (db_controls db))) =
    map_option control_row_of (map_of (me_controls r) op)"
proof -
  note rows = represents_controls [OF assms]
  have "first_row (filter (\<lambda>q. qr_operation_id q = op) (map (\<lambda>p. control_row_of (snd p)) cs)) =
      map_option control_row_of (map_of cs op)" if "\<forall>(j, c) \<in> set cs. ct_operationId c = j" for cs
    using that by (induction cs) (auto simp: control_row_of_def)
  moreover have "\<forall>(j, c) \<in> set (me_controls r). ct_operationId c = j"
    using rows(2) by (auto simp: controls_ok_def control_ok_def)
  ultimately show ?thesis by (simp add: rows(1))
qed

lemma control_of_run:
  assumes "represents env db st" and "st k = Some r" and "map_of (me_controls r) op = Some c"
  shows "ct_runId c = k" "ct_operationId c = op" "controlFromRow (control_row_of c) = Inr (controlRequest c)"
proof -
  note rows = represents_controls [OF assms(1,2)]
  from assms(3) have mem: "(op, c) \<in> set (me_controls r)" by (rule map_of_SomeD)
  with rows(2) show k: "ct_runId c = k" and "ct_operationId c = op"
    by (auto simp: controls_ok_def control_ok_def)
  from mem rows(3,4) k show "controlFromRow (control_row_of c) = Inr (controlRequest c)"
    by (intro controlFromRow_of) force+
qed

end
