(* ===== verification/Sqlite_Refinement.thy ===== *)
theory Sqlite_Refinement
  imports Sqlite_Reads
begin

text \<open>
  The SQLite store refines the in-memory store: from a database that represents a state, every
  operation gives the result, or the error, that the in-memory store gives, and leaves a database
  that represents the state it leaves. The events and workflows are taken in canonical key order,
  the form in which the database gives them back.
\<close>

section \<open>Agreement\<close>

definition agree ::
    "store_env \<Rightarrow> store_error + sqlite_db \<times> 'a \<Rightarrow> store_error + memory_store \<times> 'a \<Rightarrow> bool" where
  "agree env x y =
     (case (x, y) of
        (Inl e, Inl e') \<Rightarrow> e = e'
      | (Inr (db, a), Inr (st, b)) \<Rightarrow> represents env db st \<and> a = b
      | _ \<Rightarrow> False)"

lemma agree_simps [simp]:
  "agree env (Inl e) (Inl e') \<longleftrightarrow> e = e'"
  "agree env (Inr (db, a)) (Inr (st, b)) \<longleftrightarrow> represents env db st \<and> a = b"
  by (simp_all add: agree_def)

lemma agree_bind:
  assumes "m = m'" and "\<And>x. m' = Inr x \<Longrightarrow> agree env (f x) (g x)"
  shows "agree env (bindE m f) (bindE m' g)"
  using assms by (cases m') simp_all

lemma agree_check:
  assumes "b = b'" and "b' \<Longrightarrow> agree env (f ()) (g ())"
  shows "agree env (bindE (check b e) f) (bindE (check b' e) g)"
  using assms by (simp add: check_def)

lemma agreeD:
  assumes "agree env x y"
  shows "(\<exists>e. x = Inl e \<and> y = Inl e) \<or>
    (\<exists>db st a. x = Inr (db, a) \<and> y = Inr (st, a) \<and> represents env db st)"
  using assms by (cases x; cases y) (auto simp: agree_def)

lemma check_simps: "check True e = Inr ()" "check False e = Inl e"
  by (simp_all add: check_def)

lemma some_or_simps: "some_or e (Some x) = Inr x" "some_or e None = Inl e"
  by (simp_all add: some_or_def)

lemmas step_simps = check_simps some_or_simps requireRun_def

section \<open>Leases\<close>

lemma stored_run_lease:
  assumes "stored_run_ok env k r" and "le_runId l = k" and "valid_run_lease l"
  shows "stored_run_ok env k (r\<lparr>me_lease := l\<rparr>)"
  using assms
  by (simp add: stored_run_ok_def history_ok_def receipts_ok_def op_covers_def snapshots_ok_def controls_ok_def)

text \<open>An update of the row of a lease that gives the row of the new lease.\<close>

lemma update_lease_represents:
  assumes rep: "represents env db st" and r: "st k = Some r" and sha: "sha_hex env"
    and l: "le_runId l = k" "valid_run_lease l"
    and row: "f (lease_row_of env (me_lease r)) = lease_row_of env l"
    and id: "\<And>q. lr_run_id (f q) = lr_run_id q"
  shows "\<exists>db'. update_lease k f db = Inr db' \<and> represents env db' (st(k \<mapsto> r\<lparr>me_lease := l\<rparr>))"
proof -
  from represents_Some [OF rep r] have image: "run_image env k r (slice db k)" .
  then have leases: "select_by lr_run_id k (db_leases db) = [lease_row_of env (me_lease r)]"
    and ok: "stored_run_ok env k r"
    by (simp_all add: run_image_def Let_def)
  let ?db = "db\<lparr>db_leases := map (\<lambda>q. if lr_run_id q = k then f q else q) (db_leases db)\<rparr>"
  have "has_run db k" using represents_has_run [OF rep] r by simp
  with lease_row_of_ok [OF l(2) _ sha] l(1) have "update_lease k f db = Inr ?db"
    by (intro update_lease_ok) (simp add: leases row)
  moreover have "represents env ?db (st(k \<mapsto> r\<lparr>me_lease := l\<rparr>))"
  proof (rule represents_update [OF rep])
    show "slice ?db j = slice db j" if "j \<noteq> k" for j
      using that by (simp add: slice_eq_iff select_update id)
    show "run_image env k (r\<lparr>me_lease := l\<rparr>) (slice ?db k)"
      using image stored_run_lease [OF ok l] by (simp add: run_image_def Let_def select_update id leases row)
  qed
  ultimately show ?thesis by blast
qed

lemma valid_fresh_lease:
  assumes "is_identifier k" and "is_uuid w" and "valid_process_identity p" and "is_safe_integer g" and "1 \<le> g"
    and "valid_timestamp now" and "valid_timestamp (now + RUN_LEASE_DURATION_MS)"
  shows "valid_run_lease \<lparr>le_runId = k, le_ownerId = w, le_owner = p, le_generation = g,
    le_acquiredAtMs = now, le_renewedAtMs = now, le_expiresAtMs = now + RUN_LEASE_DURATION_MS,
    le_released = False\<rparr>"
  using assms
  by (simp add: valid_run_lease_def valid_lease_token_def tokenFor_def RUN_LEASE_DURATION_MS_def)

text \<open>Giving the run to a new owner.\<close>

lemma assign_lease_agrees:
  assumes rep: "represents env db st" and r: "st k = Some r" and sha: "sha_hex env"
    and owner: "is_uuid w" "valid_process_identity p" and now: "valid_timestamp now"
    and g: "is_safe_integer g" "g = le_generation (me_lease r) + 1"
  shows "agree env
    (bindE (assign_lease env db k w p g now) (\<lambda>db. Inr (db, \<lparr>lt_runId = k, lt_ownerId = w, lt_generation = g\<rparr>)))
    (bindE (fresh_lease k w p g now) (\<lambda>lease. Inr (st(k \<mapsto> r\<lparr>me_lease := lease\<rparr>), tokenFor lease)))"
proof (cases "valid_timestamp (now + RUN_LEASE_DURATION_MS)")
  case False
  then show ?thesis
    by (simp add: assign_lease_def fresh_lease_def leaseExpiry_def check_def identity_text some_or_def)
next
  case True
  let ?l = "\<lparr>le_runId = k, le_ownerId = w, le_owner = p, le_generation = g, le_acquiredAtMs = now,
    le_renewedAtMs = now, le_expiresAtMs = now + RUN_LEASE_DURATION_MS, le_released = False\<rparr>"
  let ?f = "\<lambda>r. r\<lparr>lr_owner_id := w, lr_owner_json := json_text (identity_js p),
    lr_owner_digest := digestBytes (en_sha256 env) (json_text (identity_js p)), lr_generation := g,
    lr_acquired_at_ms := now, lr_renewed_at_ms := now,
    lr_expires_at_ms := now + RUN_LEASE_DURATION_MS, lr_released := 0\<rparr>"
  from represents_Some [OF rep r] have k: "is_identifier k" and old: "le_runId (me_lease r) = k"
    and "valid_run_lease (me_lease r)"
    by (simp_all add: run_image_def stored_run_ok_def Let_def)
  then have "1 \<le> le_generation (me_lease r)"
    by (simp add: valid_run_lease_def valid_lease_token_def tokenFor_def)
  with valid_fresh_lease [OF k owner g(1) _ now True] g have "valid_run_lease ?l" by simp
  moreover have "?f (lease_row_of env (me_lease r)) = lease_row_of env ?l"
    by (simp add: lease_row_of_def old)
  ultimately obtain db' where "update_lease k ?f db = Inr db'"
    and "represents env db' (st(k \<mapsto> r\<lparr>me_lease := ?l\<rparr>))"
    using update_lease_represents [OF rep r sha, of ?l ?f] by auto
  with True show ?thesis
    by (simp add: assign_lease_def fresh_lease_def leaseExpiry_def check_def identity_text some_or_def tokenFor_def)
qed

lemma acquireReleased_agrees:
  assumes rep: "represents env db st" and sha: "sha_hex env"
  shows "agree env (sq_acquireReleased env now db i) (acquireReleased now st i)"
proof (cases "st (aq_runId i)")
  case None
  then show ?thesis
    unfolding sq_acquireReleased_def acquireReleased_def represents_has_run [OF rep]
    by (intro agree_bind refl) (simp add: step_simps)
next
  case (Some r)
  then show ?thesis
    unfolding sq_acquireReleased_def acquireReleased_def represents_has_run [OF rep]
      represents_readLease [OF rep]
    by (intro agree_bind refl, simp add: step_simps, intro agree_check agree_bind refl,
        intro assign_lease_agrees [OF rep Some sha]) (auto simp: result_simps validateAcquisition_def)
qed

lemma takeoverExpired_agrees:
  assumes rep: "represents env db st" and sha: "sha_hex env"
  shows "agree env (sq_takeoverExpired env now db i) (takeoverExpired now st i)"
proof (cases "st (aq_runId i)")
  case None
  then show ?thesis
    unfolding sq_takeoverExpired_def takeoverExpired_def represents_has_run [OF rep]
    by (intro agree_bind agree_check refl) (simp add: step_simps)
next
  case (Some r)
  then show ?thesis
    unfolding sq_takeoverExpired_def takeoverExpired_def represents_has_run [OF rep]
      represents_readLease [OF rep]
    by (rule_tac agree_bind [OF refl], rule_tac agree_check [OF refl], rule_tac agree_check [OF refl],
        simp add: step_simps Let_def, rule_tac agree_bind [OF refl], rule_tac agree_check,
        blast, intro agree_check agree_bind refl,
        intro assign_lease_agrees [OF rep Some sha]) (auto simp: result_simps validateAcquisition_def)
qed

lemma represents_fence:
  assumes "represents env db st"
  shows "sq_requireFence env db t now = bindE (requireRun st (lt_runId t)) (\<lambda>r. requireFence r t now)"
  by (cases "st (lt_runId t)")
    (simp_all add: sq_requireFence_def represents_readLease [OF assms] represents_has_run [OF assms]
      step_simps requireFence_def Let_def)

lemma image_lease:
  assumes "represents env db st" and "st k = Some r"
  shows "le_runId (me_lease r) = k" and "valid_run_lease (me_lease r)"
  using represents_Some [OF assms] by (simp_all add: run_image_def stored_run_ok_def Let_def)

lemma renew_agrees:
  assumes rep: "represents env db st" and sha: "sha_hex env" and now: "valid_timestamp now"
  shows "agree env (sq_renew env now db t) (renewLease now st t)"
proof (cases "st (lt_runId t)")
  case None
  with now show ?thesis
    unfolding sq_renew_def renewLease_def represents_fence [OF rep]
    by (intro agree_check refl) (simp add: step_simps validateClock_def)
next
  case (Some r)
  let ?k = "lt_runId t"
  let ?renewed = "max now (le_renewedAtMs (me_lease r))"
  let ?l = "(me_lease r)\<lparr>le_renewedAtMs := ?renewed, le_expiresAtMs := ?renewed + RUN_LEASE_DURATION_MS\<rparr>"
  let ?f = "\<lambda>q. q\<lparr>lr_renewed_at_ms := ?renewed, lr_expires_at_ms := ?renewed + RUN_LEASE_DURATION_MS\<rparr>"
  note lease = image_lease [OF rep Some]
  have "agree env
      (bindE (update_lease ?k ?f db) (\<lambda>db. Inr (db, ?l)))
      (Inr (st(?k \<mapsto> r\<lparr>me_lease := ?l\<rparr>), ?l))"
    if expires: "valid_timestamp (?renewed + RUN_LEASE_DURATION_MS)"
  proof -
    have "valid_run_lease ?l"
      using lease(2) now expires
      by (auto simp: valid_run_lease_def tokenFor_def RUN_LEASE_DURATION_MS_def max_def)
    with update_lease_represents [OF rep Some sha, of ?l ?f] lease(1)
    obtain db' where "update_lease ?k ?f db = Inr db'" "represents env db' (st(?k \<mapsto> r\<lparr>me_lease := ?l\<rparr>))"
      by (auto simp: lease_row_of_def)
    then show ?thesis by simp
  qed
  with Some now show ?thesis
    unfolding sq_renew_def renewLease_def represents_fence [OF rep]
    by (intro agree_check refl, simp add: step_simps validateClock_def, intro agree_bind refl)
      (auto simp: leaseExpiry_def requireFence_iff check_def Let_def)
qed

lemma release_agrees:
  assumes rep: "represents env db st" and sha: "sha_hex env"
  shows "agree env (sq_release env db t) (releaseLease st t)"
proof (cases "st (lt_runId t)")
  case None
  then show ?thesis
    unfolding sq_release_def releaseLease_def represents_readLease [OF rep] represents_has_run [OF rep]
    by (intro agree_check refl) (simp add: step_simps)
next
  case (Some r)
  let ?k = "lt_runId t"
  let ?l = "(me_lease r)\<lparr>le_released := True\<rparr>"
  note lease = image_lease [OF rep Some]
  have "agree env
      (if le_released (me_lease r) then Inr (db, ())
       else bindE (update_lease ?k (\<lambda>q. q\<lparr>lr_released := 1\<rparr>) db) (\<lambda>db. Inr (db, ())))
      (Inr (st(?k \<mapsto> r\<lparr>me_lease := ?l\<rparr>), ()))"
  proof (cases "le_released (me_lease r)")
    case True
    then have "?l = me_lease r" by (cases "me_lease r") simp
    then have "st(?k \<mapsto> r\<lparr>me_lease := ?l\<rparr>) = st" using Some by (auto simp: fun_eq_iff)
    with True rep show ?thesis by simp
  next
    case False
    have "valid_run_lease ?l" using lease(2) by (simp add: valid_run_lease_def tokenFor_def)
    with update_lease_represents [OF rep Some sha, of ?l "\<lambda>q. q\<lparr>lr_released := 1\<rparr>"] lease(1)
    obtain db' where "update_lease ?k (\<lambda>q. q\<lparr>lr_released := 1\<rparr>) db = Inr db'"
      "represents env db' (st(?k \<mapsto> r\<lparr>me_lease := ?l\<rparr>))"
      by (auto simp: lease_row_of_def)
    with False show ?thesis by simp
  qed
  with Some show ?thesis
    unfolding sq_release_def releaseLease_def represents_readLease [OF rep]
    by (intro agree_check refl, simp add: step_simps Let_def split del: if_split, intro agree_check refl) auto
qed

section \<open>Controls\<close>

lemma control_row_ids:
  assumes "represents env db st" and "st k = Some r"
  shows "map qr_operation_id (select_by qr_run_id k (db_controls db)) = map fst (me_controls r)"
proof -
  note rows = represents_controls [OF assms]
  have "qr_operation_id (control_row_of (snd p)) = fst p" if "p \<in> set (me_controls r)" for p
    using rows(2) that by (cases p) (auto simp: controls_ok_def control_ok_def control_row_of_def)
  then show ?thesis by (simp add: rows(1))
qed

lemma submitControl_agrees:
  assumes rep: "represents env db st"
  shows "agree env (sq_submitControl now db c) (submitControl now st c)"
proof (cases "st (ct_runId c)")
  case None
  then show ?thesis
    unfolding sq_submitControl_def submitControl_def represents_has_run [OF rep]
    by (intro agree_bind refl) (simp add: step_simps)
next
  case (Some r)
  let ?k = "ct_runId c"
  show ?thesis
  proof (cases "map_of (me_controls r) (ct_operationId c)")
    case prior: (Some p)
    have "agree env
        (bindE (controlFromRow (control_row_of p)) (\<lambda>control.
         bindE (check (ct_action control = ct_action c) (StoreError ControlConflict)) (\<lambda>_.
         Inr (db, control, True))))
        (bindE (check (ct_action p = ct_action c) (StoreError ControlConflict)) (\<lambda>_.
         Inr (st, controlRequest p, True)))"
      using rep control_of_run(3) [OF rep Some prior] by (simp add: controlRequest_def check_def)
    with Some prior show ?thesis
      unfolding sq_submitControl_def submitControl_def represents_has_run [OF rep] find_control [OF rep Some]
      by (intro agree_bind refl) (simp add: step_simps)
  next
    case fresh: None
    let ?row = "\<lparr>qr_run_id = ?k, qr_operation_id = ct_operationId c, qr_action = action_name (ct_action c),
      qr_recorded_at_ms = now, qr_acknowledged_sequence = None\<rparr>"
    let ?new = "\<lparr>ct_runId = ?k, ct_operationId = ct_operationId c, ct_action = ct_action c,
      ct_recordedAtMs = now, mc_acknowledgedSequence = None\<rparr>"
    let ?r = "r\<lparr>me_controls := me_controls r @ [(ct_operationId c, ?new)]\<rparr>"
    let ?db = "db\<lparr>db_controls := db_controls db @ [?row]\<rparr>"
    have rep': "insert_control ?row db = Inr ?db \<and> represents env ?db (st(?k \<mapsto> ?r))"
      if id: "is_identifier (ct_operationId c)" and now: "valid_timestamp now"
    proof
      note rows = represents_controls [OF rep Some]
      have "ct_operationId c \<notin> qr_operation_id ` set (select_by qr_run_id ?k (db_controls db))"
        using fresh arg_cong [OF control_row_ids [OF rep Some], of set] by (simp add: map_of_eq_None_iff)
      moreover have "control_row_ok db ?row"
        using represents_has_run [OF rep] Some id now action_name_cases(2) [of "ct_action c"]
        by (cases "ct_operationId c") (auto simp: control_row_ok_def short_text_def valid_timestamp_def)
      ultimately show "insert_control ?row db = Inr ?db" by (intro insert_control_ok) simp_all
      show "represents env ?db (st(?k \<mapsto> ?r))"
      proof (rule represents_update [OF rep])
        show "slice ?db j = slice db j" if "j \<noteq> ?k" for j using that by (simp add: slice_eq_iff)
        have "controls_ok ?k ?r"
          using rows(2) fresh by (auto simp: controls_ok_def control_ok_def map_of_eq_None_iff)
        with represents_Some [OF rep Some] id now
        show "run_image env ?k ?r (slice ?db ?k)"
          by (auto simp: run_image_def Let_def stored_run_ok_def history_ok_def receipts_ok_def op_covers_def
              snapshots_ok_def control_values_ok_def control_row_of_def)
      qed
    qed
    with Some fresh show ?thesis
      unfolding sq_submitControl_def submitControl_def represents_has_run [OF rep] find_control [OF rep Some]
      by (intro agree_bind refl, simp add: step_simps, intro agree_bind refl)
        (auto simp: result_simps validateControlSubmission_def controlRequest_def Let_def)
  qed
qed

end
