(* ===== verification/Sqlite_Commit.thy ===== *)
theory Sqlite_Commit
  imports Sqlite_Refinement
begin

text \<open>
  Commits and creations on the SQLite store: that the statements of the transaction succeed, what
  they leave, and that the result is that of the in-memory store.
\<close>

section \<open>Appending events\<close>

lemma has_event_append [simp]:
  "has_event (db\<lparr>db_events := db_events db @ rows\<rparr>) k n \<longleftrightarrow>
     has_event db k n \<or> (\<exists>r \<in> set rows. er_run_id r = k \<and> er_sequence r = n)"
  by (auto simp: has_event_def list_ex_iff)

lemma has_run_update [simp]:
  "has_run (db\<lparr>db_events := xs\<rparr>) k = has_run db k"
  "has_run (db\<lparr>db_integrity := is\<rparr>) k = has_run db k"
  "has_run (db\<lparr>db_mutations := ms\<rparr>) k = has_run db k"
  "has_run (db\<lparr>db_snapshots := sns\<rparr>) k = has_run db k"
  "has_run (db\<lparr>db_controls := cs\<rparr>) k = has_run db k"
  "has_run (db\<lparr>db_leases := ls\<rparr>) k = has_run db k"
  "has_event (db\<lparr>db_integrity := is\<rparr>) k n = has_event db k n"
  "has_event (db\<lparr>db_mutations := ms\<rparr>) k n = has_event db k n"
  "has_event (db\<lparr>db_snapshots := sns\<rparr>) k n = has_event db k n"
  "has_event (db\<lparr>db_controls := cs\<rparr>) k n = has_event db k n"
  "has_event (db\<lparr>db_leases := ls\<rparr>) k n = has_event db k n"
  by (simp_all add: has_run_def has_event_def)

lemma integrity_row_of_ids [simp]:
  "ir_run_id (integrity_row_of env k p) = k" "ir_sequence (integrity_row_of env k p) = er_sequence (fst p)"
  by (simp_all add: integrity_row_of_def)

text \<open>The rows of the run end at sequence \<open>n\<close>.\<close>

definition rows_end :: "sqlite_db \<Rightarrow> string \<Rightarrow> int \<Rightarrow> bool" where
  "rows_end db k n \<longleftrightarrow>
     (\<forall>r \<in> set (select_by er_run_id k (db_events db)). er_sequence r \<le> n) \<and>
     (\<forall>r \<in> set (select_by ir_run_id k (db_integrity db)). ir_sequence r \<le> n)"

definition append_history :: "store_env \<Rightarrow> string \<Rightarrow> string \<Rightarrow> run_event list \<Rightarrow> sqlite_db \<Rightarrow> sqlite_db" where
  "append_history env k p es db =
     db\<lparr>db_events := db_events db @ map event_row_of es,
        db_integrity := db_integrity db @ integrity_rows env k p (map event_row_of es)\<rparr>"

lemma append_history_Nil [simp]: "append_history env k p [] db = db"
  by (simp add: append_history_def)

lemma append_history_Cons:
  "append_history env k p (e # es) db =
     append_history env k (history_link env p k (event_row_of e)) es (append_history env k p [e] db)"
  by (simp add: append_history_def)

definition storable :: "string \<Rightarrow> run_event \<Rightarrow> bool" where
  "storable k e \<longleftrightarrow> assertRunEvent e \<and> is_json (event_js e) \<and> ev_runId e = k"

lemma insert_history_event_ok:
  assumes e: "storable k e" and seq: "ev_sequence e = n + 1" "0 \<le> n" and run: "has_run db k"
    and ends: "rows_end db k n" and sha: "sha_hex env"
    and p: "case_option (EMPTY_EVENT_HISTORY_DIGEST env) (\<lambda>d. d) (last_opt ds) = p"
  shows "insert_history_event env k (db, ds) e =
    Inr (append_history env k p [e] db, ds @ [history_link env p k (event_row_of e)])"
proof -
  let ?row = "event_row_of e"
  let ?link = "history_link env p k ?row"
  let ?db = "db\<lparr>db_events := db_events db @ [?row]\<rparr>"
  have row: "?row = \<lparr>er_run_id = k, er_sequence = ev_sequence e, er_event_type = event_type (ev_payload e),
      er_event_json = json_text (event_js e)\<rparr>"
    using e by (simp add: event_row_of_def storable_def)
  have ev: "insert_event ?row db = Inr ?db"
    using run seq ends e by (intro insert_event_ok) (auto simp: rows_end_def storable_def)
  have new: "has_event ?db k (ev_sequence e)" using e by (simp add: storable_def)
  have digests: "digest_text (digestBytes (en_sha256 env) x)" "digest_text ?link" for x
    using sha_digest_text [OF sha] by (simp_all add: history_link_def)
  have int: "insert_integrity (integrity_row_of env k (?row, ?link)) ?db =
      Inr (?db\<lparr>db_integrity := db_integrity ?db @ [integrity_row_of env k (?row, ?link)]\<rparr>)"
    using ends seq new digests
    by (intro insert_integrity_ok) (auto simp: rows_end_def integrity_row_of_def simp del: has_event_append)
  have json: "canonicalJson (event_js e) = Some (json_text (event_js e))"
    using e by (subst canonicalJson_text) (simp add: storable_def)
  have link: "extendEventHistoryDigest env p k (ev_sequence e) (event_type (ev_payload e)) (json_text (event_js e)) =
      Inr (digestBytes (en_sha256 env) (json_text (event_js e)), ?link)"
    using extendEventHistoryDigest_eq [of env p k ?row] by simp
  show ?thesis
    using ev int e p
    by (simp add: insert_history_event_def Let_def step_simps storable_def json link row [symmetric]
        integrity_row_of_def append_history_def check_def)
qed

lemma rows_end_append:
  assumes "rows_end db k n" and "ev_sequence e = n + 1"
  shows "rows_end (append_history env k p [e] db) k (n + 1)"
  using assms by (auto simp: rows_end_def append_history_def)

lemma insertEvents_ok:
  assumes "\<forall>e \<in> set es. storable k e" and "contiguous_from k n es" and "0 \<le> n" and "has_run db k"
    and "rows_end db k n" and sha: "sha_hex env"
    and "case_option (EMPTY_EVENT_HISTORY_DIGEST env) (\<lambda>d. d) (last_opt ds) = p"
  shows "insertEvents env k es ds db =
    Inr (append_history env k p es db, ds @ chain env k p (map event_row_of es))"
  using assms
proof (induction es arbitrary: n db ds p)
  case Nil
  then show ?case by (simp add: insertEvents_def)
next
  case (Cons e es)
  let ?link = "history_link env p k (event_row_of e)"
  from Cons.prems have "insert_history_event env k (db, ds) e =
      Inr (append_history env k p [e] db, ds @ [?link])"
    by (intro insert_history_event_ok) auto
  moreover have "insertEvents env k es (ds @ [?link]) (append_history env k p [e] db) =
      Inr (append_history env k ?link es (append_history env k p [e] db),
        (ds @ [?link]) @ chain env k ?link (map event_row_of es))"
    using Cons.prems rows_end_append [of db k n e env p]
    by (intro Cons.IH [where n = "n + 1"]) (auto simp: append_history_def)
  ultimately show ?case
    by (simp add: insertEvents_def append_history_Cons [of env k p e es])
qed

lemma represents_rows_end:
  assumes "represents env db st" and "st k = Some r"
  shows "rows_end db k (int (length (me_events r)))"
proof -
  from represents_Some [OF assms] have ok: "stored_run_ok env k r"
    and rows: "select_by er_run_id k (db_events db) = history_rows r"
      "select_by ir_run_id k (db_integrity db) =
        integrity_rows env k (EMPTY_EVENT_HISTORY_DIGEST env) (history_rows r)"
    by (simp_all add: run_image_def Let_def)
  from ok have "history_ok env k r" by (simp add: stored_run_ok_def)
  then obtain s where "contiguous_from k 0 (me_events r)" by (rule history_facts)
  from contiguous_facts(1) [OF this] have le: "\<forall>e \<in> set (me_events r). ev_sequence e \<le> int (length (me_events r))"
    by simp
  have "ir_sequence ` set (integrity_rows env k p rs) = er_sequence ` set rs" for p rs
    using arg_cong [OF integrity_rows_sequences, of set env k p rs] by simp
  then have "ir_sequence q \<in> er_sequence ` set (history_rows r)"
    if "q \<in> set (integrity_rows env k (EMPTY_EVENT_HISTORY_DIGEST env) (history_rows r))" for q
    using that by blast
  with le show ?thesis by (fastforce simp: rows_end_def rows)
qed

section \<open>Receipts\<close>

lemma find_mutation_append:
  "find_mutation op (rows @ [row]) =
     (case find_mutation op rows of Some r \<Rightarrow> Some r | None \<Rightarrow>
        if ur_operation_id row = op then Some row else None)"
  by (cases "filter (\<lambda>r. ur_operation_id r = op) rows") (simp_all add: find_mutation_def)

lemma find_mutation_None: "find_mutation op rows = None \<longleftrightarrow> op \<notin> ur_operation_id ` set rows"
  by (cases "filter (\<lambda>r. ur_operation_id r = op) rows")
    (auto simp: find_mutation_def filter_empty_conv filter_eq_Cons_iff)

section \<open>Snapshots\<close>

lemma select_filter: "select_by col k (filter P rows) = filter P (select_by col k rows)"
  by (simp add: select_by_def conj_commute)

lemma snapshot_facts:
  assumes "assertRunSnapshot env sn w es = Inr ()" and "replayRun es = Inr s" and "sha_hex env"
    and "valid_timestamp now"
  shows "snapshot_row_ok (snapshot_row_of sn now)" and "sn_runId sn = rs_runId s"
    and "snapshotFromRow (rs_runId s) (snapshot_row_of sn now) = Some sn"
proof -
  from assms(1,2) obtain p where "createRunSnapshotFromState env w s p = Inr sn"
    by (auto simp: assertRunSnapshot_iff createRunSnapshot_def result_simps)
  then obtain x z where sn: "sn = \<lparr>sn_version = ''anastom.dev/run-snapshot/v1alpha1'',
      sn_reducerVersion = ''anastom.dev/run-reducer/v1alpha1'', sn_runId = rs_runId s,
      sn_definitionDigest = digestBytes (en_sha256 env) z, sn_sequence = rs_sequence s, sn_stateJson = x,
      sn_stateDigest = digestBytes (en_sha256 env) x, sn_eventPrefixDigest = p\<rparr>"
    and facts: "is_digest p" "int (byte_length x) \<le> RUN_SNAPSHOT_MAX_BYTES"
    by (auto simp: createRunSnapshotFromState_def result_simps digestJson_def)
  have seq: "1 \<le> rs_sequence s \<and> is_safe_integer (rs_sequence s)"
  proof -
    from replayRun_contiguous [OF assms(2)] obtain e where "e \<in> set es" "ev_sequence e = rs_sequence s"
      using replayRun_last_sequence [OF assms(2)] last_in_set by blast
    with replayRun_asserts [OF assms(2)] show ?thesis
      by (auto simp: assertRunEvent_def positive_int_def is_safe_integer_def)
  qed
  from facts sha_digest_text [OF assms(3)] seq assms(4)
  show "snapshot_row_ok (snapshot_row_of sn now)"
    by (simp add: sn snapshot_row_ok_def snapshot_row_of_def short_text_def digest_text_def is_digest_def
        RUN_SNAPSHOT_MAX_BYTES_def valid_timestamp_def)
  show "sn_runId sn = rs_runId s" by (simp add: sn)
  from facts seq show "snapshotFromRow (rs_runId s) (snapshot_row_of sn now) = Some sn"
    by (simp add: sn snapshotFromRow_def snapshot_row_of_def)
qed

lemma snapshotFromRow_key:
  assumes "snapshotFromRow k row = Some sn"
  shows "sr_sequence row = sn_sequence sn \<and> sr_reducer_version row = sn_reducerVersion sn"
  using assms by (auto simp: snapshotFromRow_def split: if_splits)

lemma snapshots_replaced:
  assumes "list_all2 (\<lambda>row sn. snapshotFromRow k row = Some sn) rows sns"
    and "\<forall>row \<in> set rows. sr_run_id row = k" and "snapshotFromRow k new = Some sn" and "sr_run_id new = k"
  shows "list_all2 (\<lambda>row sn. snapshotFromRow k row = Some sn)
    (filter (\<lambda>q. snapshot_key q \<noteq> snapshot_key new) rows @ [new]) (add_snapshot sn sns)"
proof -
  have "list_all2 (\<lambda>row sn. snapshotFromRow k row = Some sn)
      (filter (\<lambda>q. snapshot_key q \<noteq> snapshot_key new) rows)
      (filter (\<lambda>x. sn_sequence x \<noteq> sn_sequence sn \<or> sn_reducerVersion x \<noteq> sn_reducerVersion sn) sns)"
    using assms(1,2)
  proof (induction rule: list_all2_induct)
    case (Cons row rows x sns)
    with snapshotFromRow_key [OF Cons.hyps(1)] snapshotFromRow_key [OF assms(3)] assms(4)
    show ?case by (auto simp: snapshot_key_def)
  qed simp
  with assms(3) show ?thesis by (simp add: add_snapshot_def list_all2_appendI)
qed

section \<open>Acknowledgements\<close>

lemma acknowledgement_agrees:
  assumes "represents env db st" and "st (lt_runId (mu_lease m)) = Some r"
  shows "sq_validateControlAcknowledgement db m =
    bindE (validateControlAcknowledgement r m) (\<lambda>a. Inr (map_option snd a))"
proof (cases "mu_handlesControl m")
  case None
  then show ?thesis by (simp add: sq_validateControlAcknowledgement_def validateControlAcknowledgement_def)
next
  case handles: (Some op)
  show ?thesis
  proof (cases "map_of (me_controls r) op")
    case None
    with handles show ?thesis
      by (simp add: sq_validateControlAcknowledgement_def validateControlAcknowledgement_def
          find_control [OF assms] step_simps)
  next
    case (Some c)
    have "(\<lambda>e. ev_payload e = ControlRequestObserved (ct_operationId (controlRequest c))
        (ct_action (controlRequest c)) (ct_recordedAtMs (controlRequest c))) = observes_control c"
      by (simp add: fun_eq_iff observes_control_def controlRequest_def)
    with handles Some control_of_run(3) [OF assms Some] show ?thesis
      by (cases "filter (observes_control c) (mu_events m)" rule: remdups_adj.cases)
        (simp_all add: sq_validateControlAcknowledgement_def validateControlAcknowledgement_def
          find_control [OF assms] step_simps control_row_of_def check_def)
  qed
qed

lemma event_json_fields:
  assumes "canonical_run_event e" and "ev_payload e = ControlRequestObserved op a t"
  shows "json_extract (json_text (event_js e)) ''operationId'' = Some (JStr op)"
    and "json_extract (json_text (event_js e)) ''action'' = Some (JStr (action_name a))"
    and "json_extract (json_text (event_js e)) ''recordedAtMs'' = Some (JInt t)"
proof -
  have dist: "js_distinct (event_js e)" "is_json (event_js e)"
    using assms(1) by (simp_all add: canonical_run_event_def)
  let ?kvs = "[(''type'', JStr ''ControlRequestObserved''), (''operationId'', JStr op),
    (''action'', JStr (action_name a)), (''recordedAtMs'', JInt t), (''runId'', JStr (ev_runId e)),
    (''sequence'', JInt (ev_sequence e))]"
  have js: "event_js e = JObj ?kvs" by (simp add: event_js_def assms(2))
  have fields: "json_extract (json_text (event_js e)) f = map_option canonical_order (map_of ?kvs f)" for f
  proof -
    have "parse_json (json_text (event_js e)) = Some (JObj (canonical_fields ?kvs))"
      using json_text_reads(1) [OF dist] by (simp only: js canonical_order_obj)
    then have "json_extract (json_text (event_js e)) f = map_of (canonical_fields ?kvs) f"
      by (simp only: json_extract_def any_obj_def bind.bind_lunit js.case)
    moreover have "map_of (canonical_fields ?kvs) f = map_option canonical_order (map_of ?kvs f)"
      by (rule map_of_canonical_fields) simp
    ultimately show ?thesis by simp
  qed
  show "json_extract (json_text (event_js e)) ''operationId'' = Some (JStr op)"
    "json_extract (json_text (event_js e)) ''action'' = Some (JStr (action_name a))"
    "json_extract (json_text (event_js e)) ''recordedAtMs'' = Some (JInt t)"
    by (simp_all add: fields canonical_order.simps)
qed

text \<open>The rows after an acknowledgement.\<close>

definition acknowledged :: "string \<Rightarrow> string \<Rightarrow> int \<Rightarrow> control_row \<Rightarrow> control_row" where
  "acknowledged k op n r =
     (if qr_run_id r = k \<and> qr_operation_id r = op \<and> qr_acknowledged_sequence r = None
      then r\<lparr>qr_acknowledged_sequence := Some n\<rparr> else r)"

lemma acknowledged_run [simp]: "qr_run_id (acknowledged k op n r) = qr_run_id r"
  by (simp add: acknowledged_def)

lemma select_acknowledged:
  "select_by qr_run_id j (map (acknowledged k op n) rows) =
     (if j = k then map (acknowledged k op n) (select_by qr_run_id j rows) else select_by qr_run_id j rows)"
  by (induction rows) (auto simp: acknowledged_def)

lemma acknowledged_image:
  assumes "map_of cs op = Some c" and "mc_acknowledgedSequence c = None" and "distinct (map fst cs)"
    and "\<forall>(j, x) \<in> set cs. ct_operationId x = j \<and> ct_runId x = k"
  shows "map (acknowledged k op n) (map (\<lambda>p. control_row_of (snd p)) cs) =
    map (\<lambda>p. control_row_of (snd p)) (update_at op (\<lambda>x. x\<lparr>mc_acknowledgedSequence := Some n\<rparr>) cs)"
proof -
  have "acknowledged k op n (control_row_of x) =
      control_row_of (if j = op then x\<lparr>mc_acknowledgedSequence := Some n\<rparr> else x)" if "(j, x) \<in> set cs" for j x
  proof (cases "j = op")
    case True
    with that assms(1,3) have "x = c" by (metis map_of_is_SomeI option.inject)
    with True that assms(2,4) show ?thesis by (auto simp: acknowledged_def control_row_of_def)
  next
    case False
    with that assms(4) show ?thesis by (auto simp: acknowledged_def control_row_of_def)
  qed
  then show ?thesis by (auto simp: update_at_def)
qed

lemma acknowledge_control_ok:
  assumes rows: "select_by qr_run_id k (db_controls db) = map (\<lambda>p. control_row_of (snd p)) cs"
    and c: "map_of cs op = Some c" "distinct (map fst cs)"
    and ids: "\<forall>(j, x) \<in> set cs. ct_operationId x = j \<and> ct_runId x = k"
    and vals: "control_values_ok c" and run: "has_run db k"
    and e: "event_row_of e \<in> set (db_events db)" "ev_runId e = k" "canonical_run_event e"
      "observes_control c e" "0 < ev_sequence e"
  shows "acknowledge_control k op (ev_sequence e) db =
    Inr (db\<lparr>db_controls := map (acknowledged k op (ev_sequence e)) (db_controls db)\<rparr>)"
proof -
  let ?n = "ev_sequence e"
  have payload: "ev_payload e = ControlRequestObserved (ct_operationId c) (ct_action c) (ct_recordedAtMs c)"
    using e(4) by (simp add: observes_control_def)
  note fields = event_json_fields [OF e(3) payload]
  have ok: "control_row_ok db (r\<lparr>qr_acknowledged_sequence := Some ?n\<rparr>) \<and>
      acknowledgement_ok db r (r\<lparr>qr_acknowledged_sequence := Some ?n\<rparr>)"
    if r: "r \<in> set (db_controls db)" "qr_run_id r = k" "qr_operation_id r = op" "qr_acknowledged_sequence r = None"
    for r
  proof -
    from r(1,2) have "r \<in> set (select_by qr_run_id k (db_controls db))" by (simp add: select_by_def)
    then obtain j x where x: "(j, x) \<in> set cs" "r = control_row_of x" by (auto simp: rows)
    with ids r(3) have "j = op" by (auto simp: control_row_of_def)
    with x(1) c have "x = c" by (metis map_of_is_SomeI option.inject)
    have "has_event db k ?n" using e(1,2) by (force simp: has_event_def list_ex_iff)
    moreover have "short_text (ct_operationId c)"
      using vals by (cases "ct_operationId c") (auto simp: control_values_ok_def short_text_def)
    moreover have "ct_runId c = k" "0 < ct_recordedAtMs c"
      using ids x \<open>x = c\<close> vals by (auto simp: control_values_ok_def valid_timestamp_def)
    ultimately show ?thesis
      using x(2) \<open>x = c\<close> run e r(4) fields payload action_name_cases(2) [of "ct_action c"]
      by (auto simp: control_row_ok_def acknowledgement_ok_def control_row_of_def list_ex_iff
          intro!: bexI [of _ "event_row_of e"])
  qed
  then show ?thesis
    by (auto simp: acknowledge_control_def Let_def check_def list_all_iff acknowledged_def [abs_def])
qed

section \<open>The transaction of a commit\<close>

lemma select_history:
  assumes "\<forall>e \<in> set es. ev_runId e = k"
  shows "select_by er_run_id j (map event_row_of es) = (if j = k then map event_row_of es else [])"
  using assms by (induction es) auto

lemma select_integrity_rows:
  "select_by ir_run_id j (integrity_rows env k p rs) = (if j = k then integrity_rows env k p rs else [])"
  by (induction rs arbitrary: p) auto

lemma select_run_id: "\<forall>r \<in> set (select_by col k rows). col r = k"
  by (simp add: select_by_def)

text \<open>The state a commit leaves in the in-memory store.\<close>

definition committed :: "memory_run \<Rightarrow> fenced_run_mutation \<Rightarrow> string \<Rightarrow> (string \<times> int) option \<Rightarrow> memory_run" where
  "committed r m pd ack =
     r\<lparr>me_events := me_events r @ mu_events m,
       me_snapshots := (case mu_snapshot m of None \<Rightarrow> me_snapshots r | Some sn \<Rightarrow> add_snapshot sn (me_snapshots r)),
       me_controls := (case ack of None \<Rightarrow> me_controls r
         | Some (opId, q) \<Rightarrow> update_at opId (\<lambda>c. c\<lparr>mc_acknowledgedSequence := Some q\<rparr>) (me_controls r)),
       me_mutations := (me_mutations r)(mu_operationId m \<mapsto>
         \<lparr>mm_payloadDigest = pd,
          mm_receipt = \<lparr>mr_runId = lt_runId (mu_lease m), mr_operationId = mu_operationId m,
            mr_firstSequence = ev_sequence (hd (mu_events m)),
            mr_lastSequence = ev_sequence (last (mu_events m)), mr_replayed = False\<rparr>\<rparr>)\<rparr>"

definition canonical_events :: "run_event list \<Rightarrow> bool" where
  "canonical_events es \<longleftrightarrow> (\<forall>e \<in> set es. canonical_run_event e)"

text \<open>What the checks of a commit have established when it starts to write.\<close>

definition commit_checked ::
    "store_env \<Rightarrow> int \<Rightarrow> memory_run \<Rightarrow> fenced_run_mutation \<Rightarrow> run_state \<Rightarrow> string \<Rightarrow> (string \<times> int) option \<Rightarrow> bool" where
  "commit_checked env now r m s pd ack \<longleftrightarrow>
     validateMutation m = Inr () \<and> valid_timestamp now \<and>
     le_ownerId (me_lease r) = lt_ownerId (mu_lease m) \<and>
     le_generation (me_lease r) = lt_generation (mu_lease m) \<and>
     \<not> le_released (me_lease r) \<and> now < le_expiresAtMs (me_lease r) \<and>
     mutationPayloadDigest env m = Inr pd \<and> me_mutations r (mu_operationId m) = None \<and>
     last_sequence (me_events r) = mu_expectedSequence m \<and>
     replayRun (me_events r @ mu_events m) = Inr s \<and>
     assertStateMatchesWorkflow s (me_workflow r) = Inr () \<and>
     pred_option (\<lambda>sn. assertRunSnapshot env sn (me_workflow r) (me_events r @ mu_events m) = Inr ()) (mu_snapshot m) \<and>
     validateControlAcknowledgement r m = Inr ack"

lemma commit_checked_change:
  assumes "commit_checked env now r m s pd ack"
  shows "run_change env now (lt_runId (mu_lease m)) r (committed r m pd ack)"
proof -
  have "tokenFor (me_lease r) = (mu_lease m)\<lparr>lt_runId := le_runId (me_lease r)\<rparr>"
    using assms by (simp add: tokenFor_def commit_checked_def)
  with assms run_change.commit [of r now m "lt_runId (mu_lease m)" s env ack pd]
  show ?thesis by (simp add: commit_checked_def committed_def)
qed

lemma committed_ok:
  assumes ok: "stored_run_ok env k r" and k: "k = lt_runId (mu_lease m)"
    and checked: "commit_checked env now r m s pd ack" and canonical: "canonical_events (mu_events m)"
  shows "stored_run_ok env k (committed r m pd ack)"
proof -
  from commit_checked_change [OF checked] k have change: "run_change env now k r (committed r m pd ack)" by simp
  from ok have inv: "history_ok env k r \<and> receipts_ok k r" "snapshots_ok env k r" "controls_ok k r"
    by (simp_all add: stored_run_ok_def)
  have "control_values_ok c" if "c \<in> snd ` set (me_controls (committed r m pd ack))" for c
  proof (cases ack)
    case None
    with that ok show ?thesis by (auto simp: committed_def stored_run_ok_def)
  next
    case (Some a)
    obtain op q where a: "a = (op, q)" by (cases a)
    with checked Some acknowledgement_facts [of r m op q] obtain e where
      e: "e \<in> set (mu_events m)" "ev_sequence e = q" by (auto simp: commit_checked_def)
    have "replayRun (me_events r @ mu_events m) = Inr s" using checked by (simp add: commit_checked_def)
    from replayRun_asserts [OF this] e have "is_safe_integer q \<and> 1 \<le> q"
      using assertRunEvent_safe [of e] by auto
    with that ok Some a show ?thesis
      by (fastforce simp: committed_def stored_run_ok_def control_values_ok_def set_update_at)
  qed
  moreover have "is_identifier k" "le_runId (me_lease r) = k" "valid_run_lease (me_lease r)"
      "canonical_definition (me_workflow r)" "\<forall>e \<in> set (me_events r). canonical_run_event e"
    using ok by (simp_all add: stored_run_ok_def)
  ultimately show ?thesis
    using receipts.P_change [OF change inv(1)] snapshots.P_change [OF change inv(2)]
      controls.P_change [OF change inv(3)] canonical
    by (auto simp: stored_run_ok_def committed_def canonical_events_def)
qed

text \<open>The database a commit leaves.\<close>

definition snapshot_written :: "run_snapshot option \<Rightarrow> int \<Rightarrow> sqlite_db \<Rightarrow> sqlite_db" where
  "snapshot_written x now db = (case x of None \<Rightarrow> db
     | Some sn \<Rightarrow> db\<lparr>db_snapshots :=
         filter (\<lambda>q. snapshot_key q \<noteq> snapshot_key (snapshot_row_of sn now)) (db_snapshots db) @
         [snapshot_row_of sn now]\<rparr>)"

definition acknowledgement_written :: "string \<Rightarrow> (string \<times> int) option \<Rightarrow> sqlite_db \<Rightarrow> sqlite_db" where
  "acknowledgement_written k ack db = (case ack of None \<Rightarrow> db
     | Some (op, n) \<Rightarrow> db\<lparr>db_controls := map (acknowledged k op n) (db_controls db)\<rparr>)"

lemma written_frame [simp]:
  "db_runs (snapshot_written x now db) = db_runs db" "db_events (snapshot_written x now db) = db_events db"
  "db_leases (snapshot_written x now db) = db_leases db"
  "db_mutations (snapshot_written x now db) = db_mutations db"
  "db_controls (snapshot_written x now db) = db_controls db"
  "db_integrity (snapshot_written x now db) = db_integrity db"
  "db_runs (acknowledgement_written k ack db) = db_runs db"
  "db_events (acknowledgement_written k ack db) = db_events db"
  "db_leases (acknowledgement_written k ack db) = db_leases db"
  "db_mutations (acknowledgement_written k ack db) = db_mutations db"
  "db_snapshots (acknowledgement_written k ack db) = db_snapshots db"
  "db_integrity (acknowledgement_written k ack db) = db_integrity db"
  by (simp_all add: snapshot_written_def acknowledgement_written_def split: option.splits)

definition mutation_row_of :: "fenced_run_mutation \<Rightarrow> string \<Rightarrow> int \<Rightarrow> mutation_row" where
  "mutation_row_of m pd now =
     \<lparr>ur_run_id = lt_runId (mu_lease m), ur_operation_id = mu_operationId m,
      ur_generation = lt_generation (mu_lease m), ur_payload_digest = pd,
      ur_expected_sequence = mu_expectedSequence m, ur_first_sequence = ev_sequence (hd (mu_events m)),
      ur_last_sequence = ev_sequence (last (mu_events m)), ur_committed_at_ms = now\<rparr>"

definition mutation_written ::
    "store_env \<Rightarrow> memory_run \<Rightarrow> fenced_run_mutation \<Rightarrow> string \<Rightarrow> (string \<times> int) option \<Rightarrow> int \<Rightarrow> sqlite_db \<Rightarrow> sqlite_db" where
  "mutation_written env r m pd ack now db =
     (let k = lt_runId (mu_lease m);
          p = chain_end env k (EMPTY_EVENT_HISTORY_DIGEST env) (history_rows r);
          db1 = append_history env k p (mu_events m) db
      in acknowledgement_written k ack (snapshot_written (mu_snapshot m) now
           (db1\<lparr>db_mutations := db_mutations db1 @ [mutation_row_of m pd now]\<rparr>)))"

lemma mutationPayloadDigest_ok:
  assumes "mutationPayloadDigest env m = Inr pd" and "sha_hex env"
  shows "is_digest pd" and "\<forall>e \<in> set (mu_events m). is_json (event_js e)"
proof -
  from assms(1) obtain t v where t: "pd = digestBytes (en_sha256 env) t"
    and v: "canonicalJson (JObj [(''expectedSequence'', JInt (mu_expectedSequence m)),
      (''events'', JArr (map event_js (mu_events m))), (''snapshot'', v),
      (''handlesControlOperationId'', case_option JNull JStr (mu_handlesControl m))]) = Some t"
    unfolding mutationPayloadDigest_def by (auto simp: result_simps digestJson_def simp del: canonicalJson.simps)
  from t sha_digest [OF assms(2)] show "is_digest pd" by simp
  from v have "is_json (JObj [(''expectedSequence'', JInt (mu_expectedSequence m)),
      (''events'', JArr (map event_js (mu_events m))), (''snapshot'', v),
      (''handlesControlOperationId'', case_option JNull JStr (mu_handlesControl m))])"
    using canonicalJson_defined_iff by (metis option.distinct(1))
  then show "\<forall>e \<in> set (mu_events m). is_json (event_js e)" by (simp add: list_all_iff)
qed

lemma validateMutation_values:
  assumes "validateMutation m = Inr ()"
  shows "valid_lease_token (mu_lease m)" "is_identifier (mu_operationId m)"
    "is_safe_integer (mu_expectedSequence m)" "0 \<le> mu_expectedSequence m" "mu_events m \<noteq> []"
  using assms by (auto simp: validateMutation_def result_simps)

lemma mutation_row_checked:
  assumes "commit_checked env now r m s pd ack" and "sha_hex env"
  shows "assertMutationRow (mutation_row_of m pd now) = Inr ()"
proof -
  from assms(1) have valid: "validateMutation m = Inr ()" and pd: "mutationPayloadDigest env m = Inr pd"
    and now: "valid_timestamp now" and replay: "replayRun (me_events r @ mu_events m) = Inr s"
    by (simp_all add: commit_checked_def)
  note vals = validateMutation_values [OF valid] and facts = validateMutation_facts [OF valid]
  have "is_safe_integer (ev_sequence e)" if "e \<in> set (mu_events m)" for e
    using replayRun_asserts [OF replay] that assertRunEvent_safe [of e] by auto
  then have "is_safe_integer (ev_sequence (hd (mu_events m)))" "is_safe_integer (ev_sequence (last (mu_events m)))"
    using vals(5) by simp_all
  moreover have "1 \<le> int (length (mu_events m))" using vals(5) by (cases "mu_events m") auto
  ultimately show ?thesis
    using vals facts now mutationPayloadDigest_ok(1) [OF pd assms(2)]
    by (simp add: assertMutationRow_def mutation_row_of_def check_def valid_lease_token_def valid_timestamp_def)
qed

lemma append_history_frame [simp]:
  "db_runs (append_history env k p es db) = db_runs db" "db_leases (append_history env k p es db) = db_leases db"
  "db_mutations (append_history env k p es db) = db_mutations db"
  "db_controls (append_history env k p es db) = db_controls db"
  "db_snapshots (append_history env k p es db) = db_snapshots db"
  "db_events (append_history env k p es db) = db_events db @ map event_row_of es"
  "db_integrity (append_history env k p es db) = db_integrity db @ integrity_rows env k p (map event_row_of es)"
  by (simp_all add: append_history_def)

lemma has_run_frame: "db_runs db' = db_runs db \<Longrightarrow> has_run db' k = has_run db k"
  by (simp add: has_run_def)

text \<open>The statements succeed.\<close>

lemma write_mutation_ok:
  assumes rep: "represents env db st" and r: "st (lt_runId (mu_lease m)) = Some r" and sha: "sha_hex env"
    and checked: "commit_checked env now r m s pd ack" and canonical: "canonical_events (mu_events m)"
  shows "write_mutation env db m (chain env (lt_runId (mu_lease m)) (EMPTY_EVENT_HISTORY_DIGEST env) (history_rows r))
      pd (map_option snd ack) now =
    Inr (mutation_written env r m pd ack now db,
      \<lparr>mr_runId = lt_runId (mu_lease m), mr_operationId = mu_operationId m,
       mr_firstSequence = ev_sequence (hd (mu_events m)),
       mr_lastSequence = ev_sequence (last (mu_events m)), mr_replayed = False\<rparr>)"
proof -
  let ?k = "lt_runId (mu_lease m)"
  let ?p = "chain_end env ?k (EMPTY_EVENT_HISTORY_DIGEST env) (history_rows r)"
  let ?db1 = "append_history env ?k ?p (mu_events m) db"
  let ?row = "mutation_row_of m pd now"
  let ?db2 = "?db1\<lparr>db_mutations := db_mutations ?db1 @ [?row]\<rparr>"
  let ?db3 = "snapshot_written (mu_snapshot m) now ?db2"
  from checked have valid: "validateMutation m = Inr ()" and pd: "mutationPayloadDigest env m = Inr pd"
    and now: "valid_timestamp now" and replay: "replayRun (me_events r @ mu_events m) = Inr s"
    and fresh: "me_mutations r (mu_operationId m) = None"
    and ack: "validateControlAcknowledgement r m = Inr ack"
    and snapshot: "pred_option (\<lambda>sn. assertRunSnapshot env sn (me_workflow r) (me_events r @ mu_events m) = Inr ())
      (mu_snapshot m)"
    by (simp_all add: commit_checked_def)
  note vals = validateMutation_values [OF valid] and facts = validateMutation_facts [OF valid]
  from represents_Some [OF rep r] have ok: "stored_run_ok env ?k r" by (simp add: run_image_def)
  have contiguous: "contiguous_from ?k 0 (me_events r @ mu_events m)" and runId: "rs_runId s = ?k"
  proof -
    from replayRun_contiguous [OF replay] have c: "contiguous_from (rs_runId s) 0 (me_events r @ mu_events m)" by simp
    have "last (mu_events m) \<in> set (mu_events m)" using vals(5) by simp
    with contiguous_facts(1) [OF c] facts have "rs_runId s = ?k" by auto
    with c show "contiguous_from ?k 0 (me_events r @ mu_events m)" "rs_runId s = ?k" by simp_all
  qed
  have run: "has_run db ?k" using represents_has_run [OF rep] r by simp
  have storable: "\<forall>e \<in> set (mu_events m). storable ?k e"
    using replayRun_asserts [OF replay] mutationPayloadDigest_ok(2) [OF pd sha] facts
    by (simp add: storable_def)
  let ?receipt = "\<lparr>mr_runId = ?k, mr_operationId = mu_operationId m,
    mr_firstSequence = ev_sequence (hd (mu_events m)), mr_lastSequence = ev_sequence (last (mu_events m)),
    mr_replayed = False\<rparr>"
  have history: "insertEvents env ?k (mu_events m)
      (chain env ?k (EMPTY_EVENT_HISTORY_DIGEST env) (history_rows r)) db =
      Inr (?db1, chain env ?k (EMPTY_EVENT_HISTORY_DIGEST env) (history_rows r) @
        chain env ?k ?p (map event_row_of (mu_events m)))"
    using contiguous by (intro insertEvents_ok [OF storable _ _ run represents_rows_end [OF rep r] sha])
      (simp_all add: last_opt_chain)
  have "insert_mutation ?row ?db1 = Inr ?db2"
  proof (rule insert_mutation_ok)
    have "has_event ?db1 ?k (ev_sequence e)" if "e \<in> set (mu_events m)" for e
      using that facts by (force simp: append_history_def has_event_def list_ex_iff)
    with vals(5) have "has_event ?db1 ?k (ev_sequence (hd (mu_events m)))"
      "has_event ?db1 ?k (ev_sequence (last (mu_events m)))" by simp_all
    moreover have "short_text (mu_operationId m)"
      using vals(2) by (cases "mu_operationId m") (auto simp: short_text_def)
    moreover have "has_run ?db1 ?k" using run by (simp add: has_run_frame [of ?db1 db])
    ultimately show "mutation_row_ok ?db1 ?row"
      using mutation_row_checked [OF checked sha]
      by (simp add: mutation_row_ok_def mutation_row_of_def assertMutationRow_def result_simps
          digest_text_def is_digest_def)
    have "find_mutation (mu_operationId m) (select_by ur_run_id ?k (db_mutations db)) = None"
      using represents_receipt [OF rep r, of "mu_operationId m"] fresh by simp
    then show "ur_operation_id ?row \<notin> ur_operation_id ` set (select_by ur_run_id (ur_run_id ?row) (db_mutations ?db1))"
      by (simp add: find_mutation_None mutation_row_of_def)
  qed
  then have receipt: "insertMutation m pd ?receipt now ?db1 = Inr ?db2"
    by (simp add: insertMutation_def mutation_row_of_def)
  have snap: "(case mu_snapshot m of None \<Rightarrow> Inr ?db2 | Some sn \<Rightarrow> insertSnapshot sn now ?db2) = Inr ?db3"
    using snapshot snapshot_facts(1) [OF _ replay sha now] replace_snapshot_ok
    by (cases "mu_snapshot m") (auto simp: snapshot_written_def insertSnapshot_def)
  have acknowledge: "(case map_option snd ack of None \<Rightarrow> Inr ?db3
      | Some n \<Rightarrow> acknowledge_control ?k (case_option [] id (mu_handlesControl m)) n ?db3) =
      Inr (acknowledgement_written ?k ack ?db3)"
  proof (cases ack)
    case None
    then show ?thesis by (simp add: acknowledgement_written_def)
  next
    case (Some a)
    obtain op q where a: "a = (op, q)" by (cases a)
    with ack Some acknowledgement_facts [of r m op q] obtain c e where
      c: "map_of (me_controls r) op = Some c" "mu_handlesControl m = Some op"
      and e: "e \<in> set (mu_events m)" "observes_control c e" "ev_sequence e = q" by auto
    note rows = represents_controls [OF rep r]
    have "acknowledge_control ?k op (ev_sequence e) ?db3 =
        Inr (?db3\<lparr>db_controls := map (acknowledged ?k op (ev_sequence e)) (db_controls ?db3)\<rparr>)"
    proof (rule acknowledge_control_ok)
      show "select_by qr_run_id ?k (db_controls ?db3) = map (\<lambda>p. control_row_of (snd p)) (me_controls r)"
        using rows(1) by simp
      show "control_values_ok c" using rows(4) map_of_SomeD [OF c(1)] by force
      show "has_run ?db3 ?k" using run has_run_frame [of ?db3 db ?k] by simp
      show "event_row_of e \<in> set (db_events ?db3)" using e(1) by simp
      show "ev_runId e = ?k" "0 < ev_sequence e"
        using e(1) facts storable assertRunEvent_safe [of e] by (auto simp: storable_def)
      show "canonical_run_event e" using canonical e(1) by (simp add: canonical_events_def)
    qed (use c e rows(2) in \<open>auto simp: controls_ok_def control_ok_def\<close>)
    with Some a c e show ?thesis by (simp add: acknowledgement_written_def)
  qed
  show ?thesis
    by (simp only: write_mutation_def mutation_written_def Let_def history receipt snap acknowledge
        bindE_simps prod.case)
qed

text \<open>What they leave represents the committed run.\<close>

lemma mutation_written_slice:
  assumes events: "\<forall>e \<in> set (mu_events m). ev_runId e = lt_runId (mu_lease m)"
    and snapshot: "\<forall>sn. mu_snapshot m = Some sn \<longrightarrow> sn_runId sn = lt_runId (mu_lease m)"
    and j: "j \<noteq> lt_runId (mu_lease m)"
  shows "slice (mutation_written env r m pd ack now db) j = slice db j"
proof -
  have "filter (\<lambda>q. snapshot_key q \<noteq> snapshot_key (snapshot_row_of sn now)) (select_by sr_run_id j rows) =
      select_by sr_run_id j rows" if "mu_snapshot m = Some sn" for sn rows
    using snapshot that j select_run_id [of sr_run_id j rows]
    by (auto simp: filter_id_conv snapshot_key_def snapshot_row_of_def)
  with j snapshot show ?thesis
    by (auto simp: slice_eq_iff mutation_written_def Let_def select_history [OF events] select_integrity_rows
        mutation_row_of_def snapshot_written_def acknowledgement_written_def select_acknowledged select_filter
        snapshot_row_of_def split: option.splits)
qed

lemma mutation_written_represents:
  assumes rep: "represents env db st" and r: "st (lt_runId (mu_lease m)) = Some r" and sha: "sha_hex env"
    and checked: "commit_checked env now r m s pd ack" and canonical: "canonical_events (mu_events m)"
  shows "represents env (mutation_written env r m pd ack now db)
    (st(lt_runId (mu_lease m) \<mapsto> committed r m pd ack))"
proof -
  let ?k = "lt_runId (mu_lease m)"
  let ?db = "mutation_written env r m pd ack now db"
  let ?r = "committed r m pd ack"
  from checked have valid: "validateMutation m = Inr ()" and pd: "mutationPayloadDigest env m = Inr pd"
    and now: "valid_timestamp now" and replay: "replayRun (me_events r @ mu_events m) = Inr s"
    and ack: "validateControlAcknowledgement r m = Inr ack"
    and snapshot: "\<forall>sn. mu_snapshot m = Some sn \<longrightarrow>
      assertRunSnapshot env sn (me_workflow r) (me_events r @ mu_events m) = Inr ()"
    by (auto simp: commit_checked_def)
  note facts = validateMutation_facts [OF valid]
  then have events: "\<forall>e \<in> set (mu_events m). ev_runId e = ?k" by blast
  have runId: "rs_runId s = ?k"
  proof -
    from replayRun_contiguous [OF replay] have c: "contiguous_from (rs_runId s) 0 (me_events r @ mu_events m)" by simp
    have "last (mu_events m) \<in> set (mu_events m)" using facts by simp
    with contiguous_facts(1) [OF c] events show ?thesis by auto
  qed
  have sns: "\<forall>sn. mu_snapshot m = Some sn \<longrightarrow> sn_runId sn = ?k \<and>
      snapshotFromRow ?k (snapshot_row_of sn now) = Some sn"
    using snapshot snapshot_facts(2,3) [OF _ replay sha now] by (auto simp: runId)
  from represents_Some [OF rep r] have image: "run_image env ?k r (slice db ?k)" .
  then have ok: "stored_run_ok env ?k r" by (simp add: run_image_def)
  note rows = represents_controls [OF rep r]
  have controls: "select_by qr_run_id ?k (db_controls ?db) = map (\<lambda>p. control_row_of (snd p)) (me_controls ?r)"
  proof (cases ack)
    case None
    with rows(1) show ?thesis
      by (simp add: mutation_written_def Let_def acknowledgement_written_def committed_def)
  next
    case (Some a)
    obtain op q where a: "a = (op, q)" by (cases a)
    with ack Some acknowledgement_facts [of r m op q] obtain c where
      "map_of (me_controls r) op = Some c" "mc_acknowledgedSequence c = None" by auto
    with acknowledged_image [of "me_controls r" op c ?k q] rows(2) Some a show ?thesis
      by (auto simp: mutation_written_def Let_def acknowledgement_written_def committed_def
          select_acknowledged rows(1) controls_ok_def control_ok_def)
  qed
  have snapshots: "list_all2 (\<lambda>row sn. snapshotFromRow ?k row = Some sn)
      (select_by sr_run_id ?k (db_snapshots ?db)) (me_snapshots ?r)"
  proof (cases "mu_snapshot m")
    case None
    with image show ?thesis
      by (simp add: run_image_def Let_def mutation_written_def snapshot_written_def committed_def)
  next
    case (Some sn)
    have "list_all2 (\<lambda>row sn. snapshotFromRow ?k row = Some sn)
        (select_by sr_run_id ?k (db_snapshots db)) (me_snapshots r)"
      using image by (simp add: run_image_def Let_def)
    moreover have id: "sr_run_id (snapshot_row_of sn now) = ?k" using sns Some by (simp add: snapshot_row_of_def)
    ultimately show ?thesis
      using snapshots_replaced [OF _ select_run_id, of ?k "db_snapshots db" "me_snapshots r" "snapshot_row_of sn now" sn]
        sns Some
      by (simp add: mutation_written_def Let_def snapshot_written_def committed_def select_filter)
  qed
  have receipts: "rel_option mutation_image (find_mutation op (select_by ur_run_id ?k (db_mutations ?db)))
      (me_mutations ?r op)" for op
    using represents_receipt [OF rep r, of op] mutation_row_checked [OF checked sha] checked
    by (cases "find_mutation op (select_by ur_run_id ?k (db_mutations db))"; cases "me_mutations r op")
      (auto simp: mutation_written_def Let_def committed_def find_mutation_append mutation_row_of_def
        mutation_image_def commit_checked_def)
  show ?thesis
  proof (rule represents_update [OF rep])
    show "slice ?db j = slice db j" if "j \<noteq> ?k" for j
      using mutation_written_slice [OF events _ that] sns by blast
    have "stored_run_ok env ?k ?r" by (rule committed_ok [OF ok refl checked canonical])
    with image controls snapshots receipts show "run_image env ?k ?r (slice ?db ?k)"
      by (simp add: run_image_def Let_def select_history [OF events] select_integrity_rows integrity_rows_append
          mutation_written_def committed_def)
  qed
qed

section \<open>Agreement of commits\<close>

lemma map_error_simps: "map_error f (Inr x) = Inr x" "map_error f (Inl e) = Inl (f e)"
  by (simp_all add: map_error_def)

lemma commit_replayed_agrees:
  assumes rep: "represents env db st" and r: "st k = Some r" and prior: "me_mutations r op = Some p"
  shows "agree env
    (case find_mutation op (select_by ur_run_id k (db_mutations db)) of
       Some row \<Rightarrow>
         bindE (assertMutationRow row) (\<lambda>_.
         bindE (check (ur_payload_digest row = pd) (StoreError IdempotencyConflict)) (\<lambda>_.
         Inr (db, \<lparr>mr_runId = k, mr_operationId = op, mr_firstSequence = ur_first_sequence row,
           mr_lastSequence = ur_last_sequence row, mr_replayed = True\<rparr>)))
     | None \<Rightarrow> X)
    (bindE (check (mm_payloadDigest p = pd) (StoreError IdempotencyConflict)) (\<lambda>_.
     Inr (st, (mm_receipt p)\<lparr>mr_replayed := True\<rparr>)))"
proof -
  from represents_receipt [OF rep r, of op] prior obtain row where
    row: "find_mutation op (select_by ur_run_id k (db_mutations db)) = Some row" "mutation_image row p"
    by (cases "find_mutation op (select_by ur_run_id k (db_mutations db))") auto
  from represents_Some [OF rep r] have "receipts_ok k r" by (simp add: run_image_def stored_run_ok_def)
  with prior have "mr_runId (mm_receipt p) = k" "mr_operationId (mm_receipt p) = op"
    by (auto simp: receipts_ok_def)
  with row rep show ?thesis
    by (cases "mm_receipt p") (simp add: mutation_image_def check_def)
qed

theorem commit_agrees:
  assumes rep: "represents env db st" and sha: "sha_hex env" and now: "valid_timestamp now"
    and canonical: "canonical_events (mu_events m)"
  shows "agree env (sq_commit env now db m) (commitMutation env now st m)"
proof (cases "st (lt_runId (mu_lease m))")
  case None
  with now show ?thesis
    unfolding sq_commit_def commitMutation_def represents_fence [OF rep] Let_def
    by (intro agree_bind refl) (simp add: step_simps validateClock_def)
next
  case (Some r)
  let ?k = "lt_runId (mu_lease m)"
  let ?chain = "chain env ?k (EMPTY_EVENT_HISTORY_DIGEST env) (history_rows r)"
  from represents_Some [OF rep Some] have "history_ok env ?k r" by (simp add: run_image_def stored_run_ok_def)
  then obtain s0 where s0: "replayRun (me_events r) = Inr s0" by (rule history_facts)
  note history = represents_history [OF rep Some s0] and ack = acknowledgement_agrees [OF rep Some]
  have clock: "validateClock now = Inr now" using now by (simp add: validateClock_def step_simps)
  have digest: "durableMutationPayloadDigest env m = mutationPayloadDigest env m"
    if "validateMutation m = Inr ()" using that by (simp add: durableMutationPayloadDigest_def)
  show ?thesis
  proof (cases "me_mutations r (mu_operationId m)")
    case prior: (Some p)
    from Some prior show ?thesis
      unfolding sq_commit_def commitMutation_def represents_fence [OF rep] Let_def
        find_mutation_def [symmetric]
      by (intro agree_bind refl, simp add: step_simps clock digest, intro agree_bind refl, simp,
          intro commit_replayed_agrees [OF rep Some prior])
  next
    case fresh: None
    then have none: "find_mutation (mu_operationId m) (select_by ur_run_id ?k (db_mutations db)) = None"
      using represents_receipt [OF rep Some, of "mu_operationId m"] by simp
    have writes: "agree env (write_mutation env db m ?chain pd (map_option snd a) now)
        (Inr (st(?k \<mapsto> committed r m pd a), \<lparr>mr_runId = ?k, mr_operationId = mu_operationId m,
          mr_firstSequence = ev_sequence (hd (mu_events m)),
          mr_lastSequence = ev_sequence (last (mu_events m)), mr_replayed = False\<rparr>))"
      if "commit_checked env now r m s pd a" for s pd a
      using write_mutation_ok [OF rep Some sha that canonical]
        mutation_written_represents [OF rep Some sha that canonical] by simp
    have rest: "agree env
        (bindE (check (last_sequence (me_events r) = mu_expectedSequence m) (StoreError SequenceConflict)) (\<lambda>_.
         bindE (map_error HistoryError (replayRun (me_events r @ mu_events m))) (\<lambda>state.
         bindE (assertStateMatchesWorkflow state (me_workflow r)) (\<lambda>_.
         bindE (case mu_snapshot m of None \<Rightarrow> Inr ()
                | Some sn \<Rightarrow> assertRunSnapshot env sn (me_workflow r) (me_events r @ mu_events m)) (\<lambda>_.
         bindE (bindE (validateControlAcknowledgement r m) (\<lambda>a. Inr (map_option snd a))) (\<lambda>a.
         write_mutation env db m ?chain pd a now))))))
        (bindE (check (last_sequence (me_events r) = mu_expectedSequence m) (StoreError SequenceConflict)) (\<lambda>_.
         bindE (map_error HistoryError (replayRun (me_events r @ mu_events m))) (\<lambda>s.
         bindE (assertStateMatchesWorkflow s (me_workflow r)) (\<lambda>_.
         bindE (case mu_snapshot m of None \<Rightarrow> Inr ()
                | Some sn \<Rightarrow> assertRunSnapshot env sn (me_workflow r) (me_events r @ mu_events m)) (\<lambda>_.
         bindE (validateControlAcknowledgement r m) (\<lambda>a.
         Inr (st(?k \<mapsto> committed r m pd a), \<lparr>mr_runId = ?k, mr_operationId = mu_operationId m,
           mr_firstSequence = ev_sequence (hd (mu_events m)),
           mr_lastSequence = ev_sequence (last (mu_events m)), mr_replayed = False\<rparr>)))))))"
      if checks: "validateMutation m = Inr ()" "requireFence r (mu_lease m) now = Inr l"
        "mutationPayloadDigest env m = Inr pd" for pd l
    proof (intro agree_check agree_bind refl)
      fix s u v
      assume "last_sequence (me_events r) = mu_expectedSequence m"
        and "map_error HistoryError (replayRun (me_events r @ mu_events m)) = Inr s"
        and "assertStateMatchesWorkflow s (me_workflow r) = Inr u"
        and "(case mu_snapshot m of None \<Rightarrow> Inr ()
          | Some sn \<Rightarrow> assertRunSnapshot env sn (me_workflow r) (me_events r @ mu_events m)) = Inr v"
      with checks fresh now have "commit_checked env now r m s pd a"
        if "validateControlAcknowledgement r m = Inr a" for a
        using that by (auto simp: commit_checked_def requireFence_iff result_simps split: option.splits)
      with writes show "agree env
          (bindE (bindE (validateControlAcknowledgement r m) (\<lambda>a. Inr (map_option snd a))) (\<lambda>a.
            write_mutation env db m ?chain pd a now))
          (bindE (validateControlAcknowledgement r m) (\<lambda>a.
            Inr (st(?k \<mapsto> committed r m pd a), \<lparr>mr_runId = ?k, mr_operationId = mu_operationId m,
              mr_firstSequence = ev_sequence (hd (mu_events m)),
              mr_lastSequence = ev_sequence (last (mu_events m)), mr_replayed = False\<rparr>)))"
        by (cases "validateControlAcknowledgement r m") simp_all
    qed
    from Some fresh show ?thesis
      unfolding sq_commit_def commitMutation_def represents_fence [OF rep] Let_def
        find_mutation_def [symmetric] none history ack committed_def [symmetric]
      by (intro agree_bind refl, simp add: step_simps clock digest, intro agree_bind refl,
          simp add: step_simps map_error_simps cong: option.case_cong, intro rest) auto
  qed
qed

end
