(* ===== verification/Sqlite_Create.thy ===== *)
theory Sqlite_Create
  imports Sqlite_Commit
begin

text \<open>The creation of a run on the SQLite store, and the operations together.\<close>

section \<open>Creation\<close>

definition canonical_create :: "create_owned_run \<Rightarrow> bool" where
  "canonical_create i \<longleftrightarrow> canonical_definition (co_workflow i) \<and> canonical_events (co_initialEvents i)"

definition create_token :: "create_owned_run \<Rightarrow> run_lease_token" where
  "create_token i = \<lparr>lt_runId = co_runId i, lt_ownerId = co_ownerId i, lt_generation = 1\<rparr>"

definition create_mutation :: "create_owned_run \<Rightarrow> fenced_run_mutation" where
  "create_mutation i = \<lparr>mu_lease = create_token i, mu_operationId = co_operationId i, mu_expectedSequence = 0,
     mu_events = co_initialEvents i, mu_snapshot = Some (co_snapshot i), mu_handlesControl = None\<rparr>"

definition create_receipt :: "create_owned_run \<Rightarrow> mutation_receipt" where
  "create_receipt i = \<lparr>mr_runId = co_runId i, mr_operationId = co_operationId i, mr_firstSequence = 1,
     mr_lastSequence = int (length (co_initialEvents i)), mr_replayed = False\<rparr>"

definition create_lease :: "create_owned_run \<Rightarrow> int \<Rightarrow> run_lease" where
  "create_lease i now =
     \<lparr>le_runId = co_runId i, le_ownerId = co_ownerId i, le_owner = co_owner i, le_generation = 1,
      le_acquiredAtMs = now, le_renewedAtMs = now, le_expiresAtMs = now + RUN_LEASE_DURATION_MS,
      le_released = False\<rparr>"

definition create_run :: "create_owned_run \<Rightarrow> int \<Rightarrow> string \<Rightarrow> memory_run" where
  "create_run i now pd =
     \<lparr>me_workflow = co_workflow i, me_events = co_initialEvents i, me_lease = create_lease i now,
      me_mutations = [co_operationId i \<mapsto> \<lparr>mm_payloadDigest = pd, mm_receipt = create_receipt i\<rparr>],
      me_controls = [], me_snapshots = [co_snapshot i]\<rparr>"

lemma create_facts:
  assumes "validateCreateOwnedRun env i = Inr ()"
  obtains s where "replayRun (co_initialEvents i) = Inr s" and "rs_runId s = co_runId i"
    and "assertRunSnapshot env (co_snapshot i) (co_workflow i) (co_initialEvents i) = Inr ()"
    and "contiguous_from (co_runId i) 0 (co_initialEvents i)"
    and "\<forall>e \<in> set (co_initialEvents i). assertRunEvent e \<and> ev_runId e = co_runId i"
    and "co_initialEvents i \<noteq> []"
    and "is_identifier (co_runId i)" and "is_uuid (co_ownerId i)" and "valid_process_identity (co_owner i)"
    and "is_identifier (co_operationId i)"
proof -
  from assms obtain s where s: "replayRun (co_initialEvents i) = Inr s" "rs_runId s = co_runId i"
    "assertRunSnapshot env (co_snapshot i) (co_workflow i) (co_initialEvents i) = Inr ()"
    and ids: "is_identifier (co_runId i)" "is_uuid (co_ownerId i)" "valid_process_identity (co_owner i)"
      "is_identifier (co_operationId i)"
    by (auto simp: validateCreateOwnedRun_def result_simps)
  from replayRun_contiguous [OF s(1)] s(2) have c: "contiguous_from (co_runId i) 0 (co_initialEvents i)"
    "co_initialEvents i \<noteq> []" by simp_all
  with replayRun_asserts [OF s(1)] contiguous_facts(1) [OF c(1)] s ids show ?thesis by (intro that) auto
qed

lemma create_mutation_valid:
  assumes "validateCreateOwnedRun env i = Inr ()"
  shows "validateMutation (create_mutation i) = Inr ()"
proof -
  from assms obtain s where c: "contiguous_from (co_runId i) 0 (co_initialEvents i)"
    and valid: "\<forall>e \<in> set (co_initialEvents i). assertRunEvent e \<and> ev_runId e = co_runId i"
    and ids: "co_initialEvents i \<noteq> []" "is_identifier (co_runId i)" "is_uuid (co_ownerId i)"
      "is_identifier (co_operationId i)" by (rule create_facts)
  have "is_safe_integer (int j + 1) \<and> ev_runId e = co_runId i \<and> ev_sequence e = int j + 1"
    if "(j, e) \<in> set (enumerate 0 (co_initialEvents i))" for j e
  proof -
    from that have e: "j < length (co_initialEvents i)" "e = co_initialEvents i ! j"
      by (auto simp: in_set_enumerate_eq)
    then have "e \<in> set (co_initialEvents i)" by simp
    with valid assertRunEvent_safe [of e] c e show ?thesis
      by (auto simp: contiguous_from_def)
  qed
  with ids show ?thesis
    by (auto simp: validateMutation_def create_mutation_def create_token_def valid_lease_token_def check_def
        list_all_iff is_safe_integer_def MAX_SAFE_INTEGER_def)
qed

lemma mutationPayloadDigest_defined:
  assumes "\<forall>e \<in> set (mu_events m). is_json (event_js e)"
  shows "\<exists>pd. mutationPayloadDigest env m = Inr pd"
  using assms unfolding mutationPayloadDigest_def digestJson_def
  by (cases "mu_snapshot m"; cases "mu_handlesControl m")
    (simp_all add: canonicalJson_text some_or_def list_all_iff del: canonicalJson.simps)

lemma snapshot_prefix_digest:
  "createRunSnapshot env w es = Inr sn \<Longrightarrow> event_prefix_digest env es = Inr (sn_eventPrefixDigest sn)"
  by (auto simp: createRunSnapshot_def createRunSnapshotFromState_def result_simps)

text \<open>The database a creation leaves.\<close>

definition run_written :: "store_env \<Rightarrow> create_owned_run \<Rightarrow> int \<Rightarrow> string \<Rightarrow> sqlite_db \<Rightarrow> sqlite_db" where
  "run_written env i now pd db =
     (let k = co_runId i; wj = json_text (workflow_js (co_workflow i));
          db1 = db\<lparr>db_runs := db_runs db @
            [\<lparr>rr_run_id = k, rr_workflow_digest = digestBytes (en_sha256 env) wj, rr_workflow_json = wj\<rparr>]\<rparr>;
          db2 = append_history env k (EMPTY_EVENT_HISTORY_DIGEST env) (co_initialEvents i) db1;
          db3 = db2\<lparr>db_leases := db_leases db2 @ [lease_row_of env (create_lease i now)]\<rparr>;
          db4 = db3\<lparr>db_mutations := db_mutations db3 @ [mutation_row_of (create_mutation i) pd now]\<rparr>
      in snapshot_written (Some (co_snapshot i)) now db4)"

lemma create_lease_valid:
  assumes "validateCreateOwnedRun env i = Inr ()" and "valid_timestamp now"
    and "valid_timestamp (now + RUN_LEASE_DURATION_MS)"
  shows "valid_run_lease (create_lease i now)"
proof -
  from assms(1) obtain s where "is_identifier (co_runId i)" "is_uuid (co_ownerId i)"
    "valid_process_identity (co_owner i)" by (rule create_facts)
  with valid_fresh_lease [of "co_runId i" "co_ownerId i" "co_owner i" 1 now] assms(2,3)
  show ?thesis by (simp add: create_lease_def is_safe_integer_def MAX_SAFE_INTEGER_def)
qed

lemma create_row_checked:
  assumes valid: "validateCreateOwnedRun env i = Inr ()" and now: "valid_timestamp now"
    and pd: "mutationPayloadDigest env (create_mutation i) = Inr pd" and sha: "sha_hex env"
  shows "assertMutationRow (mutation_row_of (create_mutation i) pd now) = Inr ()"
    and "ev_sequence (hd (co_initialEvents i)) = 1"
    and "ev_sequence (last (co_initialEvents i)) = int (length (co_initialEvents i))"
    and "1 \<le> int (length (co_initialEvents i))"
proof -
  from valid obtain s where events: "\<forall>e \<in> set (co_initialEvents i). assertRunEvent e \<and> ev_runId e = co_runId i"
    "co_initialEvents i \<noteq> []" by (rule create_facts)
  from validateMutation_facts [OF create_mutation_valid [OF valid]]
  show seqs: "ev_sequence (hd (co_initialEvents i)) = 1"
    "ev_sequence (last (co_initialEvents i)) = int (length (co_initialEvents i))"
    by (simp_all add: create_mutation_def)
  show len: "1 \<le> int (length (co_initialEvents i))" using events(2) by (cases "co_initialEvents i") auto
  have "last (co_initialEvents i) \<in> set (co_initialEvents i)" using events(2) by simp
  with events(1) assertRunEvent_safe seqs have "is_safe_integer (int (length (co_initialEvents i)))" by fastforce
  moreover have "is_digest pd" by (rule mutationPayloadDigest_ok(1) [OF pd sha])
  ultimately show "assertMutationRow (mutation_row_of (create_mutation i) pd now) = Inr ()"
    using seqs len now
    by (simp add: assertMutationRow_def mutation_row_of_def create_mutation_def create_token_def check_def
        valid_timestamp_def is_safe_integer_def MAX_SAFE_INTEGER_def)
qed

lemma createOwned_memory:
  assumes valid: "validateCreateOwnedRun env i = Inr ()" and new: "st (co_runId i) = None"
    and now: "valid_timestamp now" "valid_timestamp (now + RUN_LEASE_DURATION_MS)"
    and pd: "mutationPayloadDigest env (create_mutation i) = Inr pd"
  shows "createOwned env now st i =
    Inr (st(co_runId i \<mapsto> create_run i now pd), create_token i, create_receipt i)"
proof -
  have "fresh_lease (co_runId i) (co_ownerId i) (co_owner i) 1 now = Inr (create_lease i now)"
    using now(2) by (simp add: fresh_lease_iff create_lease_def)
  moreover have "tokenFor (create_lease i now) = create_token i"
    by (simp add: tokenFor_def create_lease_def create_token_def)
  ultimately show ?thesis
    using valid new now(1) pd
    by (simp add: createOwned_def step_simps validateClock_def create_mutation_def create_receipt_def
        create_run_def Let_def)
qed

lemma created_run_ok:
  assumes valid: "validateCreateOwnedRun env i = Inr ()" and now: "valid_timestamp now"
    "valid_timestamp (now + RUN_LEASE_DURATION_MS)" and canonical: "canonical_create i"
  shows "stored_run_ok env (co_runId i) (create_run i now pd)"
proof -
  have "run_created env now (co_runId i) (create_run i now pd)"
    unfolding run_created_def create_run_def create_receipt_def using assms
    by (intro exI [of _ i] exI [of _ "create_lease i now"] exI [of _ pd])
      (simp add: fresh_lease_iff create_lease_def)
  note inv = receipts.P_created [OF this] snapshots.P_created [OF this] controls.P_created [OF this]
  from valid obtain s where "is_identifier (co_runId i)" by (rule create_facts)
  with inv create_lease_valid [OF valid now] canonical show ?thesis
    by (simp add: stored_run_ok_def create_run_def create_lease_def canonical_create_def canonical_events_def)
qed

lemma run_written_represents:
  assumes rep: "represents env db st" and new: "st (co_runId i) = None" and sha: "sha_hex env"
    and valid: "validateCreateOwnedRun env i = Inr ()"
    and now: "valid_timestamp now" "valid_timestamp (now + RUN_LEASE_DURATION_MS)"
    and pd: "mutationPayloadDigest env (create_mutation i) = Inr pd" and canonical: "canonical_create i"
  shows "represents env (run_written env i now pd db) (st(co_runId i \<mapsto> create_run i now pd))"
proof (rule represents_update [OF rep])
  let ?k = "co_runId i"
  let ?db = "run_written env i now pd db"
  from valid obtain s where s: "replayRun (co_initialEvents i) = Inr s" "rs_runId s = ?k"
    and sn: "assertRunSnapshot env (co_snapshot i) (co_workflow i) (co_initialEvents i) = Inr ()"
    and events: "\<forall>e \<in> set (co_initialEvents i). assertRunEvent e \<and> ev_runId e = ?k" by (rule create_facts)
  from events have ids: "\<forall>e \<in> set (co_initialEvents i). ev_runId e = ?k" by blast
  note snapshot = snapshot_facts(2,3) [OF sn s(1) sha now(1), unfolded s(2)]
  have simps: "mu_lease (create_mutation i) = create_token i" "lt_runId (create_token i) = ?k"
      "le_runId (create_lease i now) = ?k" "lr_run_id (lease_row_of env (create_lease i now)) = ?k"
      "ur_run_id (mutation_row_of (create_mutation i) pd now) = ?k"
    by (simp_all add: create_mutation_def create_token_def create_lease_def lease_row_of_def mutation_row_of_def)
  have key: "sr_run_id (snapshot_row_of (co_snapshot i) now) = ?k" using snapshot(1) by (simp add: snapshot_row_of_def)
  show "slice ?db j = slice db j" if j: "j \<noteq> ?k" for j
  proof -
    have "filter (\<lambda>q. snapshot_key q \<noteq> snapshot_key (snapshot_row_of (co_snapshot i) now))
        (select_by sr_run_id j rows) = select_by sr_run_id j rows" for rows
      using key j select_run_id [of sr_run_id j rows] by (auto simp: filter_id_conv snapshot_key_def)
    with j key show ?thesis
      by (simp add: slice_eq_iff run_written_def Let_def select_history [OF ids] select_integrity_rows
          snapshot_written_def select_filter simps)
  qed
  have empty: "select_by rr_run_id ?k (db_runs db) = []" "select_by er_run_id ?k (db_events db) = []"
      "select_by lr_run_id ?k (db_leases db) = []" "select_by ur_run_id ?k (db_mutations db) = []"
      "select_by qr_run_id ?k (db_controls db) = []" "select_by ir_run_id ?k (db_integrity db) = []"
      "select_by sr_run_id ?k (db_snapshots db) = []"
    using represents_None [OF rep new] by (simp_all add: slice_def empty_db_def)
  note row = create_row_checked [OF valid now(1) pd sha]
  have "rel_option mutation_image (find_mutation op [mutation_row_of (create_mutation i) pd now])
      (me_mutations (create_run i now pd) op)" for op
    using row by (simp add: find_mutation_def mutation_image_def create_run_def create_receipt_def
        mutation_row_of_def create_mutation_def)
  moreover have "stored_run_ok env ?k (create_run i now pd)" by (rule created_run_ok [OF valid now canonical])
  ultimately show "run_image env ?k (create_run i now pd) (slice ?db ?k)"
    using snapshot(2) key
    by (simp add: run_image_def Let_def run_written_def select_history [OF ids] select_integrity_rows
        snapshot_written_def select_filter simps empty create_run_def)
qed

lemma createOwned_sqlite:
  assumes rep: "represents env db st" and new: "st (co_runId i) = None" and sha: "sha_hex env"
    and valid: "validateCreateOwnedRun env i = Inr ()" and now: "valid_timestamp now"
    and canonical: "canonical_create i" and pd: "mutationPayloadDigest env (create_mutation i) = Inr pd"
  shows "sq_createOwned env now db i =
    bindE (leaseExpiry now) (\<lambda>_. Inr (run_written env i now pd db, create_token i, create_receipt i))"
proof -
  let ?k = "co_runId i" and ?es = "co_initialEvents i" and ?p = "EMPTY_EVENT_HISTORY_DIGEST env"
  let ?wj = "json_text (workflow_js (co_workflow i))"
  let ?db1 = "db\<lparr>db_runs := db_runs db @
    [\<lparr>rr_run_id = ?k, rr_workflow_digest = digestBytes (en_sha256 env) ?wj, rr_workflow_json = ?wj\<rparr>]\<rparr>"
  let ?db2 = "append_history env ?k ?p ?es ?db1"
  let ?db3 = "?db2\<lparr>db_leases := db_leases ?db2 @ [lease_row_of env (create_lease i now)]\<rparr>"
  let ?db4 = "?db3\<lparr>db_mutations := db_mutations ?db3 @ [mutation_row_of (create_mutation i) pd now]\<rparr>"
  from valid obtain s where s: "replayRun ?es = Inr s" "rs_runId s = ?k"
    and sn: "assertRunSnapshot env (co_snapshot i) (co_workflow i) ?es = Inr ()"
    and contiguous: "contiguous_from ?k 0 ?es"
    and events: "\<forall>e \<in> set ?es. assertRunEvent e \<and> ev_runId e = ?k" "?es \<noteq> []"
    and op: "is_identifier (co_operationId i)" by (rule create_facts)
  have absent: "\<not> has_run db ?k" using represents_has_run [OF rep] new by simp
  have empty: "select_by er_run_id ?k (db_events db) = []" "select_by lr_run_id ?k (db_leases db) = []"
      "select_by ur_run_id ?k (db_mutations db) = []" "select_by ir_run_id ?k (db_integrity db) = []"
    using represents_None [OF rep new] by (simp_all add: slice_def empty_db_def)
  have workflow: "canonicalJson (workflow_js (co_workflow i)) = Some ?wj"
    using canonical by (subst canonicalJson_text) (simp add: canonical_create_def canonical_definition_def)
  have run: "insert_run \<lparr>rr_run_id = ?k, rr_workflow_digest = digestBytes (en_sha256 env) ?wj,
      rr_workflow_json = ?wj\<rparr> db = Inr ?db1"
    using absent by (intro insert_run_ok) simp
  have has_run: "has_run ?db1 ?k" by (simp add: has_run_def)
  have storable: "\<forall>e \<in> set ?es. storable ?k e"
    using events canonical by (auto simp: storable_def canonical_create_def canonical_events_def canonical_run_event_def)
  have history: "insertEvents env ?k ?es [] ?db1 = Inr (?db2, [] @ chain env ?k ?p (map event_row_of ?es))"
    by (rule insertEvents_ok [OF storable contiguous _ has_run _ sha]) (simp_all add: rows_end_def empty)
  have lease: "insert_lease (lease_row_of env (create_lease i now)) ?db2 = Inr ?db3"
    if later: "valid_timestamp (now + RUN_LEASE_DURATION_MS)"
  proof (rule insert_lease_ok)
    have "has_run ?db2 ?k" using has_run has_run_frame [of ?db2 ?db1 ?k] by simp
    with lease_row_of_ok [OF create_lease_valid [OF valid now later] _ sha]
    show "lease_row_ok ?db2 (lease_row_of env (create_lease i now))" by (simp add: create_lease_def)
    show "select_by lr_run_id (lr_run_id (lease_row_of env (create_lease i now))) (db_leases ?db2) = []"
      by (simp add: empty lease_row_of_def create_lease_def)
  qed
  have lease_row: "lease_row_of env (create_lease i now) =
      \<lparr>lr_run_id = ?k, lr_owner_id = co_ownerId i, lr_owner_json = json_text (identity_js (co_owner i)),
       lr_owner_digest = digestBytes (en_sha256 env) (json_text (identity_js (co_owner i))),
       lr_generation = 1, lr_acquired_at_ms = now, lr_renewed_at_ms = now,
       lr_expires_at_ms = now + RUN_LEASE_DURATION_MS, lr_released = 0\<rparr>"
    by (simp add: lease_row_of_def create_lease_def)
  note checked = create_row_checked [OF valid now pd sha]
  have "insert_mutation (mutation_row_of (create_mutation i) pd now) ?db3 = Inr ?db4"
  proof (rule insert_mutation_ok)
    have "has_event ?db3 ?k (ev_sequence e)" if "e \<in> set ?es" for e
      using that events by (force simp: append_history_def has_event_def list_ex_iff)
    then have "has_event ?db3 ?k (ev_sequence (hd ?es))" "has_event ?db3 ?k (ev_sequence (last ?es))"
      using events(2) by simp_all
    moreover have "short_text (co_operationId i)"
      using op by (cases "co_operationId i") (auto simp: short_text_def)
    moreover have "has_run ?db3 ?k" using has_run has_run_frame [of ?db3 ?db1 ?k] by simp
    ultimately show "mutation_row_ok ?db3 (mutation_row_of (create_mutation i) pd now)"
      using checked(1)
      by (simp add: mutation_row_ok_def mutation_row_of_def assertMutationRow_def result_simps
          digest_text_def is_digest_def create_mutation_def create_token_def)
    show "ur_operation_id (mutation_row_of (create_mutation i) pd now) \<notin> ur_operation_id ` set
        (select_by ur_run_id (ur_run_id (mutation_row_of (create_mutation i) pd now)) (db_mutations ?db3))"
      by (simp add: empty mutation_row_of_def create_mutation_def create_token_def)
  qed
  then have receipt: "insertMutation (create_mutation i) pd (create_receipt i) now ?db3 = Inr ?db4"
    using checked(2,3) by (simp add: insertMutation_def mutation_row_of_def create_receipt_def create_mutation_def)
  have snapshot: "insertSnapshot (co_snapshot i) now ?db4 = Inr (run_written env i now pd db)"
    using replace_snapshot_ok [OF snapshot_facts(1) [OF sn s(1) sha now]]
    by (simp add: insertSnapshot_def snapshot_written_def run_written_def Let_def)
  have digest: "durableMutationPayloadDigest env (create_mutation i) = Inr pd"
    using pd create_mutation_valid [OF valid] by (simp add: durableMutationPayloadDigest_def)
  have "event_prefix_digest env ?es = Inr (chain_end env ?k ?p (map event_row_of ?es))"
    using storable by (intro event_prefix_digest_eq) (simp add: storable_def)
  with sn have prefix: "sn_eventPrefixDigest (co_snapshot i) = chain_end env ?k ?p (map event_row_of ?es)"
    using snapshot_prefix_digest [of env "co_workflow i" ?es "co_snapshot i"] by (simp add: assertRunSnapshot_iff)
  have last: "last_opt (chain env ?k ?p (map event_row_of ?es)) = Some (sn_eventPrefixDigest (co_snapshot i))"
    using events(2) last_opt_chain [of ?p env ?k "map event_row_of ?es"] prefix
    by (cases ?es) (auto simp: last_opt_def split: option.splits)
  show ?thesis
  proof (cases "valid_timestamp (now + RUN_LEASE_DURATION_MS)")
    case False
    then show ?thesis
      using valid absent now workflow run history
      by (simp add: sq_createOwned_def step_simps validateClock_def leaseExpiry_def identity_text)
  next
    case True
    note lease = lease [OF True, unfolded lease_row]
    show ?thesis
      using valid absent now workflow run history lease True digest receipt snapshot last
      by (simp add: sq_createOwned_def step_simps validateClock_def leaseExpiry_def identity_text
          create_mutation_def create_token_def create_receipt_def Let_def lease_row)
  qed
qed

theorem createOwned_agrees:
  assumes rep: "represents env db st" and sha: "sha_hex env" and now: "valid_timestamp now"
    and canonical: "canonical_create i"
  shows "agree env (sq_createOwned env now db i) (createOwned env now st i)"
proof (cases "validateCreateOwnedRun env i = Inr () \<and> st (co_runId i) = None")
  case False
  then show ?thesis
    unfolding sq_createOwned_def createOwned_def represents_has_run [OF rep]
    by (cases "validateCreateOwnedRun env i") (auto simp: step_simps)
next
  case True
  have "\<forall>e \<in> set (mu_events (create_mutation i)). is_json (event_js e)"
    using canonical
    by (simp add: create_mutation_def canonical_create_def canonical_events_def canonical_run_event_def)
  then obtain pd where pd: "mutationPayloadDigest env (create_mutation i) = Inr pd"
    using mutationPayloadDigest_defined by blast
  note written = createOwned_sqlite [OF rep _ sha _ now canonical pd]
  show ?thesis
  proof (cases "valid_timestamp (now + RUN_LEASE_DURATION_MS)")
    case False
    with True written now show ?thesis
      by (simp add: createOwned_def step_simps validateClock_def fresh_lease_def leaseExpiry_def)
  next
    case later: True
    with True written createOwned_memory [OF _ _ now later pd, of st] 
      run_written_represents [OF rep _ sha _ now later pd canonical]
    show ?thesis by (simp add: leaseExpiry_def step_simps)
  qed
qed

section \<open>All operations\<close>

definition canonical_op :: "store_op \<Rightarrow> bool" where
  "canonical_op op = (case op of CreateOp i \<Rightarrow> canonical_create i
     | CommitOp m \<Rightarrow> canonical_events (mu_events m) | _ \<Rightarrow> True)"

definition attempt_sqlite :: "store_env \<Rightarrow> sqlite_db \<Rightarrow> int \<times> store_op \<Rightarrow> sqlite_db" where
  "attempt_sqlite env db c = (case sqlite_run_op env (fst c) db (snd c) of Inl _ \<Rightarrow> db | Inr db' \<Rightarrow> db')"

definition run_sqlite_ops :: "store_env \<Rightarrow> sqlite_db \<Rightarrow> (int \<times> store_op) list \<Rightarrow> sqlite_db" where
  "run_sqlite_ops env db ops = foldl (attempt_sqlite env) db ops"

lemma agree_effect:
  assumes "agree env x y"
  shows "(\<exists>e. bindE x (\<lambda>r. Inr (fst r)) = Inl e \<and> bindE y (\<lambda>r. Inr (fst r)) = Inl e) \<or>
    (\<exists>db st. bindE x (\<lambda>r. Inr (fst r)) = Inr db \<and> bindE y (\<lambda>r. Inr (fst r)) = Inr st \<and> represents env db st)"
  using agreeD [OF assms] by auto

lemma run_op_agrees:
  assumes rep: "represents env db st" and sha: "sha_hex env" and now: "valid_timestamp now"
    and canonical: "canonical_op op"
  shows "(\<exists>e. sqlite_run_op env now db op = Inl e \<and> memory_run_op env now st op = Inl e) \<or>
    (\<exists>db' st'. sqlite_run_op env now db op = Inr db' \<and> memory_run_op env now st op = Inr st' \<and>
       represents env db' st')"
proof (cases op)
  case (CreateOp i)
  with canonical have "canonical_create i" by (simp add: canonical_op_def)
  from agree_effect [OF createOwned_agrees [OF rep sha now this]] CreateOp show ?thesis by simp
next
  case (AcquireOp i)
  from agree_effect [OF acquireReleased_agrees [OF rep sha, of now i]] AcquireOp show ?thesis by simp
next
  case (TakeoverOp i)
  from agree_effect [OF takeoverExpired_agrees [OF rep sha, of now i]] TakeoverOp show ?thesis by simp
next
  case (RenewOp t)
  from agree_effect [OF renew_agrees [OF rep sha now, of t]] RenewOp show ?thesis by simp
next
  case (ReleaseOp t)
  from agree_effect [OF release_agrees [OF rep sha, of t]] ReleaseOp show ?thesis by simp
next
  case (CommitOp m)
  with canonical have "canonical_events (mu_events m)" by (simp add: canonical_op_def)
  from agree_effect [OF commit_agrees [OF rep sha now this]] CommitOp show ?thesis by simp
next
  case (ControlOp c)
  from agree_effect [OF submitControl_agrees [OF rep, of now c]] ControlOp show ?thesis by simp
qed

lemma attempt_agrees:
  assumes "represents env db st" and "sha_hex env" and "valid_timestamp (fst c)" and "canonical_op (snd c)"
  shows "represents env (attempt_sqlite env db c) (attempt_op env st c)"
  using run_op_agrees [OF assms] assms(1) by (auto simp: attempt_sqlite_def attempt_op_def)

lemma run_ops_agree:
  assumes "sha_hex env" and "\<forall>c \<in> set ops. valid_timestamp (fst c) \<and> canonical_op (snd c)"
  shows "represents env db st \<Longrightarrow> represents env (run_sqlite_ops env db ops) (run_ops env st ops)"
  using assms(2)
proof (induction ops arbitrary: db st)
  case (Cons c ops)
  from Cons.prems attempt_agrees [OF Cons.prems(1) assms(1), of c]
  have "represents env (attempt_sqlite env db c) (attempt_op env st c)" by simp
  with Cons.IH [OF this] Cons.prems show ?case by (simp add: run_sqlite_ops_def)
qed (simp add: run_sqlite_ops_def)

section \<open>Reads\<close>

lemma inspectLease_agrees:
  "represents env db st \<Longrightarrow> sq_inspectLease env db k = inspectLease st k"
  by (simp add: sq_inspectLease_def inspectLease_def represents_readLease)

lemma controls_from_rows:
  assumes "\<forall>c \<in> set cs. controlFromRow (control_row_of c) = Inr (controlRequest c)"
  shows "mapE controlFromRow (map control_row_of cs) = Inr (map controlRequest cs)"
  using assms by (induction cs) auto

text \<open>Requests recorded in the same millisecond are ordered by code units here, not by \<open>localeCompare\<close>.\<close>

lemma pendingControls_agrees:
  assumes rep: "represents env db st"
  shows "sq_pendingControls db k limit = pendingControls (env\<lparr>en_collate := id\<rparr>) st k limit"
proof (cases "st k")
  case None
  then show ?thesis
    by (simp add: sq_pendingControls_def pendingControls_def represents_has_run [OF rep] step_simps)
next
  case (Some r)
  note rows = represents_controls [OF rep Some]
  let ?cs = "filter (\<lambda>c. mc_acknowledgedSequence c = None) (map snd (me_controls r))"
  let ?sorted = "take (nat limit) (sort_key ct_recordedAtMs (sort_key ct_operationId ?cs))"
  have "filter (\<lambda>q. qr_acknowledged_sequence q = None) (select_by qr_run_id k (db_controls db)) =
      map control_row_of ?cs"
    by (simp add: rows(1) filter_map comp_def control_row_of_def)
  then have "take (nat limit) (sort_key qr_recorded_at_ms (sort_key qr_operation_id
      (filter (\<lambda>q. qr_acknowledged_sequence q = None) (select_by qr_run_id k (db_controls db))))) =
      map control_row_of ?sorted"
    by (simp add: sort_key_map control_row_of_def take_map)
  moreover have "\<forall>c \<in> set ?sorted. controlFromRow (control_row_of c) = Inr (controlRequest c)"
  proof
    fix c assume "c \<in> set ?sorted"
    then have "c \<in> snd ` set (me_controls r)" by (auto dest: in_set_takeD)
    then obtain op where mem: "(op, c) \<in> set (me_controls r)" by force
    with rows(2) have "map_of (me_controls r) op = Some c" by (simp add: controls_ok_def)
    from control_of_run(3) [OF rep Some this] show "controlFromRow (control_row_of c) = Inr (controlRequest c)" .
  qed
  from controls_from_rows [OF this] calculation show ?thesis
    by (simp add: sq_pendingControls_def pendingControls_def represents_has_run [OF rep] step_simps Some
        map_error_simps)
qed

text \<open>
  A loaded run is the run: its workflow, its state, its prefix digest and its events are those of the
  in-memory store, and a snapshot it was folded from is one of the stored ones.
\<close>

lemma load_agrees:
  assumes rep: "represents env db st" and loaded: "loadRun env st k complete = Inr (Some l)"
  shows "\<exists>q. sq_load env db k complete = Inr (Some (l\<lparr>ld_snapshotSequence := q\<rparr>))"
proof -
  from loaded obtain r s sn where r: "st k = Some r" and id: "is_identifier k"
    and s: "replayRun (me_events r) = Inr s"
    and sn: "createRunSnapshot env (me_workflow r) (me_events r) = Inr sn"
    and l: "ld_workflow l = me_workflow r" "ld_state l = s" "ld_eventPrefixDigest l = sn_eventPrefixDigest sn"
      "ld_events l = (if complete then me_events r else [])"
    by (auto simp: loadRun_def result_simps split: option.splits)
  from represents_Some [OF rep r] have ok: "stored_run_ok env k r" by (simp add: run_image_def)
  then have "history_ok env k r" by (simp add: stored_run_ok_def)
  then obtain s' where "\<forall>e \<in> set (me_events r). assertRunEvent e" and "contiguous_from k 0 (me_events r)"
    by (rule history_facts)
  with contiguous_facts(1) ok have "\<forall>e \<in> set (me_events r). is_json (event_js e) \<and> ev_runId e = k"
    by (auto simp: stored_run_ok_def canonical_run_event_def)
  from event_prefix_digest_eq [OF this, of env] snapshot_prefix_digest [OF sn]
  have "sn_eventPrefixDigest sn = chain_end env k (EMPTY_EVENT_HISTORY_DIGEST env) (history_rows r)" by simp
  with id l represents_history [OF rep r s] show ?thesis
    by (cases l) (simp add: sq_load_def step_simps map_error_simps last_opt_chain)
qed

end
