(* ===== verification/Sqlite_Contract.thy ===== *)
theory Sqlite_Contract
  imports Sqlite_Create
begin

text \<open>
  The SQLite store keeps the fencing contract on every database, whatever has been written to it
  before: an operation moves a lease forward only, appends to the event rows of a run only, and
  appends with the token in the lease row only.
\<close>

section \<open>What the statements change\<close>

definition lease_of_row :: "sqlite_db \<Rightarrow> string \<Rightarrow> (int \<times> string) option" where
  "lease_of_row db k =
     map_option (\<lambda>r. (lr_generation r, lr_owner_id r)) (first_row (select_by lr_run_id k (db_leases db)))"

definition event_rows_of :: "sqlite_db \<Rightarrow> string \<Rightarrow> event_row list option" where
  "event_rows_of db k = (if has_run db k then Some (select_by er_run_id k (db_events db)) else None)"

lemma insert_row_Inr: "insert_row key ok r rows = Inr rows' \<Longrightarrow> rows' = rows @ [r] \<and> (\<forall>q \<in> set rows. key q \<noteq> key r)"
  by (auto simp: insert_row_def result_simps list_all_iff)

text \<open>Statements on other tables leave runs, events and leases alone.\<close>

definition same_core :: "sqlite_db \<Rightarrow> sqlite_db \<Rightarrow> bool" where
  "same_core db db' \<longleftrightarrow>
     db_runs db' = db_runs db \<and> db_events db' = db_events db \<and> db_leases db' = db_leases db"

lemma same_core_refl [simp]: "same_core db db"
  by (simp add: same_core_def)

lemma same_core_trans: "same_core a b \<Longrightarrow> same_core b c \<Longrightarrow> same_core a c"
  by (simp add: same_core_def)

lemma same_core_statements:
  "insert_mutation u db = Inr db' \<Longrightarrow> same_core db db'"
  "insert_control q db = Inr db' \<Longrightarrow> same_core db db'"
  "insert_integrity t db = Inr db' \<Longrightarrow> same_core db db'"
  "replace_snapshot w db = Inr db' \<Longrightarrow> same_core db db'"
  "acknowledge_control k op n db = Inr db' \<Longrightarrow> same_core db db'"
  by (auto simp: insert_mutation_def insert_control_def insert_integrity_def replace_snapshot_def
      acknowledge_control_def same_core_def Let_def result_simps)

lemma same_core_reads:
  assumes "same_core db db'"
  shows "lease_of_row db' k = lease_of_row db k" "event_rows_of db' k = event_rows_of db k"
  using assms by (simp_all add: same_core_def lease_of_row_def event_rows_of_def has_run_def)

text \<open>Inserting events appends rows of their run.\<close>

definition appends :: "string \<Rightarrow> sqlite_db \<Rightarrow> sqlite_db \<Rightarrow> bool" where
  "appends k db db' \<longleftrightarrow>
     db_runs db' = db_runs db \<and> db_leases db' = db_leases db \<and>
     (\<exists>rows. db_events db' = db_events db @ rows \<and> (\<forall>r \<in> set rows. er_run_id r = k))"

lemma appends_refl: "appends k db db"
  by (simp add: appends_def)

lemma appends_trans: "appends k a b \<Longrightarrow> appends k b c \<Longrightarrow> appends k a c"
  by (fastforce simp: appends_def)

lemma appends_core: "appends k a b \<Longrightarrow> same_core b c \<Longrightarrow> appends k a c"
  by (auto simp: appends_def same_core_def)

lemma insert_history_event_appends:
  assumes "insert_history_event env k (db, ds) e = Inr (db', ds')"
  shows "appends k db db'"
proof -
  from assms obtain row db1 t where row: "insert_event row db = Inr db1" "er_run_id row = k"
    and "insert_integrity t db1 = Inr db'"
    by (auto simp: insert_history_event_def Let_def result_simps split: prod.splits)
  then have "same_core db1 db'" using same_core_statements(3) by blast
  moreover from row have "appends k db db1"
    by (auto simp: insert_event_def result_simps appends_def dest!: insert_row_Inr)
  ultimately show ?thesis by (rule appends_core [rotated])
qed

lemma insertEvents_appends: "insertEvents env k es ds db = Inr (db', ds') \<Longrightarrow> appends k db db'"
proof (induction es arbitrary: ds db)
  case Nil
  then show ?case by (simp add: insertEvents_def appends_refl)
next
  case (Cons e es)
  from Cons.prems obtain db1 ds1 where step: "insert_history_event env k (db, ds) e = Inr (db1, ds1)"
    and "insertEvents env k es ds1 db1 = Inr (db', ds')"
    by (auto simp: insertEvents_def result_simps)
  from insert_history_event_appends [OF step] Cons.IH [OF this(2)] show ?case by (rule appends_trans)
qed

lemma appends_reads:
  assumes "appends k db db'"
  shows "lease_of_row db' j = lease_of_row db j"
    and "event_rows_of db j = Some es \<Longrightarrow> \<exists>fs. event_rows_of db' j = Some (es @ fs) \<and> (j \<noteq> k \<longrightarrow> fs = [])"
proof -
  from assms obtain rows where rows: "db_events db' = db_events db @ rows" "\<forall>r \<in> set rows. er_run_id r = k"
    and same: "db_runs db' = db_runs db" "db_leases db' = db_leases db" by (auto simp: appends_def)
  show "lease_of_row db' j = lease_of_row db j" using same by (simp add: lease_of_row_def)
  have "select_by er_run_id j rows = []" if "j \<noteq> k"
    using that rows(2) by (auto simp: select_by_def filter_empty_conv)
  with rows same show "event_rows_of db j = Some es \<Longrightarrow>
      \<exists>fs. event_rows_of db' j = Some (es @ fs) \<and> (j \<noteq> k \<longrightarrow> fs = [])"
    by (auto simp: event_rows_of_def has_run_def split: if_splits)
qed

text \<open>Updating a lease changes its row only.\<close>

lemma update_lease_reads:
  assumes "update_lease k f db = Inr db'" and "\<And>r. lr_run_id (f r) = lr_run_id r"
  shows "event_rows_of db' j = event_rows_of db j"
    and "lease_of_row db' j = (if j = k
      then map_option (\<lambda>r. (lr_generation (f r), lr_owner_id (f r))) (first_row (select_by lr_run_id k (db_leases db)))
      else lease_of_row db j)"
proof -
  from assms(1) have db': "db' = db\<lparr>db_leases := map (\<lambda>r. if lr_run_id r = k then f r else r) (db_leases db)\<rparr>"
    by (auto simp: update_lease_def Let_def result_simps)
  show "event_rows_of db' j = event_rows_of db j" by (simp add: db' event_rows_of_def)
  have "first_row (map f rows) = map_option f (first_row rows)" for rows
    by (cases rows) simp_all
  then show "lease_of_row db' j = (if j = k
      then map_option (\<lambda>r. (lr_generation (f r), lr_owner_id (f r))) (first_row (select_by lr_run_id k (db_leases db)))
      else lease_of_row db j)"
    by (simp add: db' lease_of_row_def select_update assms(2) option.map_comp comp_def)
qed

section \<open>What the operations change\<close>

definition moves_forward :: "sqlite_db \<Rightarrow> sqlite_db \<Rightarrow> bool" where
  "moves_forward db db' \<longleftrightarrow>
     (\<forall>j g w. lease_of_row db j = Some (g, w) \<longrightarrow>
        (\<exists>g' w'. lease_of_row db' j = Some (g', w') \<and> (g < g' \<or> g = g' \<and> w = w')))"

definition keeps_events :: "sqlite_db \<Rightarrow> sqlite_db \<Rightarrow> bool" where
  "keeps_events db db' \<longleftrightarrow> (\<forall>j es. event_rows_of db j = Some es \<longrightarrow> event_rows_of db' j = Some es)"

lemma moves_forward_same: "(\<And>j. lease_of_row db' j = lease_of_row db j) \<Longrightarrow> moves_forward db db'"
  by (simp add: moves_forward_def)

lemma keeps_events_same: "(\<And>j. event_rows_of db' j = event_rows_of db j) \<Longrightarrow> keeps_events db db'"
  by (simp add: keeps_events_def)

lemma readLease_row:
  assumes "readLease env db k = Inr (Some l)"
  shows "\<exists>r. first_row (select_by lr_run_id k (db_leases db)) = Some r \<and>
    lr_generation r = le_generation l \<and> lr_owner_id r = le_ownerId l"
  using assms
  by (auto simp: readLease_def result_simps leaseFromRow_def Let_def split: option.splits)

lemma fence_row:
  assumes "sq_requireFence env db t now = Inr l"
  shows "lease_of_row db (lt_runId t) = Some (lt_generation t, lt_ownerId t)"
proof -
  from assms have "readLease env db (lt_runId t) = Inr (Some l)"
    and "le_ownerId l = lt_ownerId t" "le_generation l = lt_generation t"
    by (auto simp: sq_requireFence_def result_simps split: option.splits)
  with readLease_row [OF this(1)] show ?thesis by (auto simp: lease_of_row_def)
qed

lemma assign_lease_effect:
  assumes assigned: "assign_lease env db k w p g now = Inr db'" and read: "readLease env db k = Inr (Some l)"
    and g: "g = le_generation l + 1"
  shows "moves_forward db db' \<and> keeps_events db db'"
proof -
  from assigned obtain j x where upd: "update_lease k (\<lambda>r. r\<lparr>lr_owner_id := w, lr_owner_json := j,
      lr_owner_digest := digestBytes (en_sha256 env) j, lr_generation := g, lr_acquired_at_ms := now,
      lr_renewed_at_ms := now, lr_expires_at_ms := x, lr_released := 0\<rparr>) db = Inr db'"
    by (auto simp: assign_lease_def result_simps)
  note reads = update_lease_reads [OF upd, simplified]
  from readLease_row [OF read] reads(2) g have "moves_forward db db'"
    by (fastforce simp: moves_forward_def lease_of_row_def)
  with reads(1) show ?thesis by (simp add: keeps_events_same)
qed

lemma acquire_effect:
  assumes "sq_acquireReleased env now db i = Inr (db', t)"
  shows "moves_forward db db' \<and> keeps_events db db'"
proof -
  from assms obtain l where read: "readLease env db (aq_runId i) = Inr (Some l)"
    and w: "assign_lease env db (aq_runId i) (aq_ownerId i) (aq_owner i) (le_generation l + 1) now = Inr db'"
    by (auto simp: sq_acquireReleased_def result_simps)
  show ?thesis by (rule assign_lease_effect [OF w read refl])
qed

lemma takeover_effect:
  assumes "sq_takeoverExpired env now db i = Inr (db', t)"
  shows "moves_forward db db' \<and> keeps_events db db'"
proof -
  from assms obtain l where read: "readLease env db (aq_runId i) = Inr (Some l)"
    and w: "assign_lease env db (aq_runId i) (aq_ownerId i) (aq_owner i) (le_generation l + 1) now = Inr db'"
    by (auto simp: sq_takeoverExpired_def result_simps)
  show ?thesis by (rule assign_lease_effect [OF w read refl])
qed

lemma renew_effect:
  assumes "sq_renew env now db t = Inr (db', l)"
  shows "moves_forward db db' \<and> keeps_events db db'"
proof -
  from assms obtain a b where upd: "update_lease (lt_runId t)
      (\<lambda>r. r\<lparr>lr_renewed_at_ms := a, lr_expires_at_ms := b\<rparr>) db = Inr db'"
    by (auto simp: sq_renew_def result_simps Let_def)
  note reads = update_lease_reads [OF upd, simplified]
  have "lease_of_row db' j = lease_of_row db j" for j using reads(2) by (simp add: lease_of_row_def)
  with reads(1) show ?thesis by (simp add: keeps_events_same moves_forward_same)
qed

lemma release_effect:
  assumes "sq_release env db t = Inr (db', u)"
  shows "moves_forward db db' \<and> keeps_events db db'"
proof -
  from assms consider "db' = db" | "update_lease (lt_runId t) (\<lambda>r. r\<lparr>lr_released := 1\<rparr>) db = Inr db'"
    by (auto simp: sq_release_def result_simps split: option.splits if_splits)
  then show ?thesis
  proof cases
    case 1
    then show ?thesis by (simp add: keeps_events_same moves_forward_same)
  next
    case 2
    note reads = update_lease_reads [OF 2, simplified]
    have "lease_of_row db' j = lease_of_row db j" for j using reads(2) by (simp add: lease_of_row_def)
    with reads(1) show ?thesis by (simp add: keeps_events_same moves_forward_same)
  qed
qed

lemma submit_effect:
  assumes "sq_submitControl now db c = Inr (db', q, b)"
  shows "moves_forward db db' \<and> keeps_events db db'"
proof -
  from assms have "same_core db db'"
    by (auto simp: sq_submitControl_def result_simps split: option.splits intro: same_core_statements)
  from same_core_reads [OF this] show ?thesis by (simp add: keeps_events_same moves_forward_same)
qed

lemma create_effect:
  assumes "sq_createOwned env now db i = Inr (db', t, rc)"
  shows "moves_forward db db' \<and> keeps_events db db'"
proof -
  let ?k = "co_runId i"
  from assms obtain row db1 db2 ds lease db3 u db4 where new: "\<not> has_run db ?k"
    and run: "insert_run row db = Inr db1" "rr_run_id row = ?k"
    and history: "insertEvents env ?k (co_initialEvents i) [] db1 = Inr (db2, ds)"
    and lease: "insert_lease lease db2 = Inr db3"
    and rest: "insert_mutation u db3 = Inr db4" "insertSnapshot (co_snapshot i) now db4 = Inr db'"
    by (auto simp: sq_createOwned_def result_simps Let_def insertMutation_def split: prod.splits)
  from run have db1: "db1 = db\<lparr>db_runs := db_runs db @ [row]\<rparr>"
    by (auto simp: insert_run_def result_simps dest!: insert_row_Inr)
  from lease have db3: "db3 = db2\<lparr>db_leases := db_leases db2 @ [lease]\<rparr>"
    by (auto simp: insert_lease_def result_simps dest!: insert_row_Inr)
  from rest have core: "same_core db3 db'"
    by (auto simp: insertSnapshot_def intro: same_core_trans same_core_statements)
  note reads = same_core_reads [OF core] and app = appends_reads [OF insertEvents_appends [OF history]]
  have first: "first_row (rows @ [x]) = (case first_row rows of None \<Rightarrow> Some x | Some r \<Rightarrow> Some r)"
    for rows :: "lease_row list" and x by (cases rows) simp_all
  have "lease_of_row db' j = Some (g, w)" if "lease_of_row db j = Some (g, w)" for j g w
  proof -
    from that have "lease_of_row db1 j = Some (g, w)" by (simp add: db1 lease_of_row_def)
    with app(1) have "lease_of_row db2 j = Some (g, w)" by simp
    then have "lease_of_row db3 j = Some (g, w)"
      by (auto simp: db3 lease_of_row_def first split: option.splits)
    with reads(1) show ?thesis by simp
  qed
  then have "moves_forward db db'" by (simp add: moves_forward_def)
  moreover have "keeps_events db db'"
    unfolding keeps_events_def
  proof (intro allI impI)
    fix j es assume es: "event_rows_of db j = Some es"
    with new have "j \<noteq> ?k" by (auto simp: event_rows_of_def split: if_splits)
    with es run(2) have "event_rows_of db1 j = Some es"
      by (auto simp: db1 event_rows_of_def has_run_def split: if_splits)
    from app(2) [OF this] \<open>j \<noteq> ?k\<close> have "event_rows_of db2 j = Some es" by auto
    moreover have "event_rows_of db3 j = event_rows_of db2 j" by (simp add: db3 event_rows_of_def has_run_def)
    ultimately show "event_rows_of db' j = Some es" using reads(2) by simp
  qed
  ultimately show ?thesis ..
qed

lemma commit_effect:
  assumes "sq_commit env now db m = Inr (db', rc)"
  shows "moves_forward db db'"
    and "lease_of_row db (lt_runId (mu_lease m)) = Some (lt_generation (mu_lease m), lt_ownerId (mu_lease m))"
    and "event_rows_of db j = Some es \<Longrightarrow>
      \<exists>fs. event_rows_of db' j = Some (es @ fs) \<and> (j \<noteq> lt_runId (mu_lease m) \<longrightarrow> fs = [])"
proof -
  let ?k = "lt_runId (mu_lease m)"
  from assms obtain l where "sq_requireFence env db (mu_lease m) now = Inr l"
    by (auto simp: sq_commit_def Let_def result_simps)
  then show "lease_of_row db ?k = Some (lt_generation (mu_lease m), lt_ownerId (mu_lease m))" by (rule fence_row)
  have "appends ?k db db'"
  proof -
    from assms consider "db' = db" | ds pd a where "write_mutation env db m ds pd a now = Inr (db', rc)"
      by (auto simp: sq_commit_def Let_def result_simps split: option.splits)
    then show ?thesis
    proof cases
      case 1
      then show ?thesis by (simp add: appends_refl)
    next
      case 2
      then obtain db1 ds1 u db2 db3 where "insertEvents env ?k (mu_events m) ds db = Inr (db1, ds1)"
        and mutation: "insert_mutation u db1 = Inr db2"
        and snapshot: "(case mu_snapshot m of None \<Rightarrow> Inr db2 | Some sn \<Rightarrow> insertSnapshot sn now db2) = Inr db3"
        and ack: "(case a of None \<Rightarrow> Inr db3
          | Some n \<Rightarrow> acknowledge_control ?k (case_option [] id (mu_handlesControl m)) n db3) = Inr db'"
        by (auto simp: write_mutation_def Let_def result_simps insertMutation_def split: prod.splits)
      from snapshot have "same_core db2 db3"
        by (auto simp: insertSnapshot_def split: option.splits intro: same_core_statements)
      moreover from ack have "same_core db3 db'" by (auto split: option.splits intro: same_core_statements)
      ultimately have "same_core db1 db'"
        using same_core_statements(1) [OF mutation] by (blast intro: same_core_trans)
      with insertEvents_appends [OF \<open>insertEvents env ?k (mu_events m) ds db = Inr (db1, ds1)\<close>]
      show ?thesis by (rule appends_core)
    qed
  qed
  from appends_reads [OF this] show "moves_forward db db'"
    and "event_rows_of db j = Some es \<Longrightarrow> \<exists>fs. event_rows_of db' j = Some (es @ fs) \<and> (j \<noteq> ?k \<longrightarrow> fs = [])"
    by (simp_all add: moves_forward_same)
qed

text \<open>One operation, whatever it is.\<close>

lemma run_op_effect:
  assumes "sqlite_run_op env now db op = Inr db'"
  shows "moves_forward db db' \<and>
    (keeps_events db db' \<or> (\<exists>m rc. op = CommitOp m \<and> sq_commit env now db m = Inr (db', rc)))"
  using assms create_effect acquire_effect takeover_effect renew_effect release_effect submit_effect
    commit_effect(1)
  by (cases op) (fastforce simp: result_simps)+

interpretation sqlite: fenced_store "attempt_sqlite env" lease_of_row event_rows_of commit_token for env
proof unfold_locales
  fix s :: sqlite_db and k g w and op :: "int \<times> store_op"
  obtain now o1 where op: "op = (now, o1)" by (cases op)
  have step: "attempt_sqlite env s op = s \<or> sqlite_run_op env now s o1 = Inr (attempt_sqlite env s op)"
    by (auto simp: attempt_sqlite_def op split: sum.splits)
  show "\<exists>g' w'. lease_of_row (attempt_sqlite env s op) k = Some (g', w') \<and> (g < g' \<or> g = g' \<and> w = w')"
    if "lease_of_row s k = Some (g, w)"
    using step run_op_effect [of env now s o1] that by (auto simp: moves_forward_def)
  have events: "\<exists>fs. event_rows_of (attempt_sqlite env s op) k = Some (es @ fs) \<and>
      (fs \<noteq> [] \<longrightarrow> (\<exists>g w. commit_token op = Some (k, g, w) \<and> lease_of_row s k = Some (g, w)))"
    if es: "event_rows_of s k = Some es" for es
  proof (cases "sqlite_run_op env now s o1 = Inr (attempt_sqlite env s op)")
    case False
    with step es show ?thesis by simp
  next
    case True
    from run_op_effect [OF True] show ?thesis
    proof (elim conjE disjE exE)
      assume "keeps_events s (attempt_sqlite env s op)"
      with es show ?thesis by (simp add: keeps_events_def)
    next
      fix m rc
      assume m: "o1 = CommitOp m" and commit: "sq_commit env now s m = Inr (attempt_sqlite env s op, rc)"
      from commit_effect(2) [OF commit] commit_effect(3) [OF commit es] show ?thesis
        by (auto simp: commit_token_def op m)
    qed
  qed
  show "\<exists>fs. event_rows_of (attempt_sqlite env s op) k = Some (es @ fs)"
    if "event_rows_of s k = Some es" for es
    using events [OF that] by blast
  show "\<exists>g w. commit_token op = Some (k, g, w) \<and> lease_of_row s k = Some (g, w)"
    if "event_rows_of s k = Some es" "event_rows_of (attempt_sqlite env s op) k \<noteq> Some es" for es
    using events [OF that(1)] that(2) by auto
qed

end
