(* ===== verification/Sqlite_Properties.thy ===== *)
theory Sqlite_Properties
  imports Sqlite_Contract Store_Samples
begin

text \<open>
  The properties of the SQLite store: that it refines the in-memory store, what it loads and what
  it lists, what its history digests commit to, and that it fences superseded owners.
\<close>

section \<open>The sample session\<close>

lemma sample_sha: "sha_hex sample_env"
  by (simp add: sha_hex_def sample_env_def digestBytes_def is_digest_def is_lower_hex_def is_digit_def
      list_all_iff)

lemma sample_canonical: "\<forall>c \<in> set sample_ops. valid_timestamp (fst c) \<and> canonical_op (snd c)"
proof -
  have "canonical_definition stored_workflow" by code_simp
  moreover have "canonical_run_event (hd created_events)" "canonical_run_event observed_event" by code_simp+
  ultimately show ?thesis
    by (simp add: sample_ops_def canonical_op_def canonical_create_def canonical_events_def sample_create_def
        sample_mutation_def created_events_def valid_timestamp_def is_safe_integer_def MAX_SAFE_INTEGER_def)
qed

lemma sample_represents:
  "represents sample_env (run_sqlite_ops sample_env empty_db sample_ops) [''run-1'' \<mapsto> taken_run]"
  using run_ops_agree [OF sample_sha sample_canonical represents_empty] sample_run_ops(2) by simp

lemma sample_times: "valid_timestamp 21000"
  by (simp add: valid_timestamp_def is_safe_integer_def MAX_SAFE_INTEGER_def)

section \<open>Refinement\<close>



text \<open>
  A commit gives the same receipt, or the same error, on SQLite as in memory, for a new
  operation as for one that is retried.
\<close>

theorem sqlite_commit_receipts:
  assumes "sha_hex env" and "\<forall>c \<in> set ops. valid_timestamp (fst c) \<and> canonical_op (snd c)"
    and "valid_timestamp now" and "canonical_events (mu_events m)"
  shows "map_sum id snd (sq_commit env now (run_sqlite_ops env empty_db ops) m) =
    map_sum id snd (commitMutation env now (run_ops env Map.empty ops) m)"
  using agreeD [OF commit_agrees [OF run_ops_agree [OF assms(1,2) represents_empty] assms(1,3,4)]]
  by auto

theorem sqlite_commit_receipts_witness:
  "map_sum id snd (sq_commit sample_env 21000 (run_sqlite_ops sample_env empty_db sample_ops)
     (sample_mutation\<lparr>mu_lease := second_token\<rparr>)) =
   map_sum id snd (commitMutation sample_env 21000 [''run-1'' \<mapsto> taken_run]
     (sample_mutation\<lparr>mu_lease := second_token\<rparr>))"
proof -
  have "canonical_events (mu_events (sample_mutation\<lparr>mu_lease := second_token\<rparr>))" by code_simp
  from sqlite_commit_receipts [OF sample_sha sample_canonical sample_times this] show ?thesis
    by (simp add: sample_run_ops(2))
qed

section \<open>Reads\<close>



text \<open>
  The pending controls of a run are listed as in memory, except that requests of the same
  millisecond are ordered by their code units and not by the collation of the locale.
\<close>

lemma sqlite_pending_controls:
  assumes "sha_hex env" and "\<forall>c \<in> set ops. valid_timestamp (fst c) \<and> canonical_op (snd c)"
  shows "sq_pendingControls (run_sqlite_ops env empty_db ops) k limit =
    pendingControls (env\<lparr>en_collate := id\<rparr>) (run_ops env Map.empty ops) k limit"
  by (rule pendingControls_agrees [OF run_ops_agree [OF assms represents_empty]])

section \<open>Integrity\<close>

text \<open>
  C39: A history digest commits to the history. If two lists of event rows of a run both pass the
  integrity check and end in the same digest, they are the same rows, byte for byte, unless SHA-256
  collides on two of the texts that were hashed.
\<close>

theorem history_digest_commits:
  assumes "validateIntegrity env db k rs = Inr ds" and "validateIntegrity env db' k rs' = Inr ds'"
    and "last_opt ds = last_opt ds'" and "\<forall>r \<in> set rs \<union> set rs'. er_run_id r = k"
    and "inj_on (en_sha256 env) (hashed env k (EMPTY_EVENT_HISTORY_DIGEST env) rs \<union>
      hashed env k (EMPTY_EVENT_HISTORY_DIGEST env) rs')"
  shows "rs = rs'"
proof (rule chain_commits [OF _ assms(5,4)])
  let ?p = "EMPTY_EVENT_HISTORY_DIGEST env"
  from assms(3) have "case_option ?p (\<lambda>d. d) (last_opt ds) = case_option ?p (\<lambda>d. d) (last_opt ds')" by simp
  then show "chain_end env k ?p rs = chain_end env k ?p rs'"
    using validateIntegrity_digests [OF assms(1)] validateIntegrity_digests [OF assms(2)]
    by (simp add: last_opt_chain)
qed

definition plain_env :: store_env where
  "plain_env = \<lparr>en_sha256 = id, en_compiles = (\<lambda>_. True), en_collate = id\<rparr>"

definition plain_row :: "string \<Rightarrow> event_row" where
  "plain_row t = \<lparr>er_run_id = ''run-1'', er_sequence = 1, er_event_type = ''RunCreated'', er_event_json = t\<rparr>"

lemma plain_validated: "validateIntegrity plain_env empty_db ''run-1'' [plain_row t] =
    Inr (chain plain_env ''run-1'' (EMPTY_EVENT_HISTORY_DIGEST plain_env) [plain_row t])"
  using extendEventHistoryDigest_eq [of plain_env _ "''run-1''" "plain_row t"]
  by (simp add: validateIntegrity_def empty_db_def integrity_step_def step_simps)

theorem history_digest_commits_witness:
  "last_opt (projr (validateIntegrity plain_env empty_db ''run-1'' [plain_row ''x''])) \<noteq>
   last_opt (projr (validateIntegrity plain_env empty_db ''run-1'' [plain_row ''y'']))"
proof
  assume "last_opt (projr (validateIntegrity plain_env empty_db ''run-1'' [plain_row ''x''])) =
    last_opt (projr (validateIntegrity plain_env empty_db ''run-1'' [plain_row ''y'']))"
  then have eq: "last_opt (chain plain_env ''run-1'' (EMPTY_EVENT_HISTORY_DIGEST plain_env) [plain_row ''x'']) =
      last_opt (chain plain_env ''run-1'' (EMPTY_EVENT_HISTORY_DIGEST plain_env) [plain_row ''y''])"
    by (simp only: plain_validated sum.sel)
  have "[plain_row ''x''] = [plain_row ''y'']"
    by (rule history_digest_commits [OF plain_validated plain_validated eq])
      (simp_all add: plain_row_def plain_env_def)
  then show False by (simp add: plain_row_def)
qed

section \<open>Fencing\<close>

text \<open>
  A superseded owner never writes to SQLite again. On any database, once the lease row of a
  run has a later generation than a token, no commit with that token changes the event rows of the
  run, whatever operations come in between.
\<close>

lemma sqlite_superseded_fenced:
  assumes "lease_of_row db k = Some (g', w')" and "lt_runId (mu_lease m) = k"
    and "lt_generation (mu_lease m) < g'" and "event_rows_of db k = Some rows"
  shows "event_rows_of (attempt_sqlite env (run_sqlite_ops env db ops) (now, CommitOp m)) k =
    event_rows_of (run_sqlite_ops env db ops) k"
  unfolding run_sqlite_ops_def
  by (rule sqlite.superseded_never_writes [OF assms(1,3) _ assms(4)]) (simp add: commit_token_def assms(2))

end
