(* ===== verification/Execution_Requests.thy ===== *)
theory Execution_Requests
  imports Store_Decode
begin

text \<open>
  What a coordinator hands to an execution: the context envelope (\<open>engine/src/context.ts\<close>), the
  execution request and the terminal result with their validators
  (\<open>runtime-contract/src/validation.ts\<close>), and the launch input bound to a plan digest
  (\<open>engine/src/execution-host.ts\<close>). As for events, the shape of the datatypes stands for the
  checks of keys and types; the checks of values are definitions.
\<close>

section \<open>Requests and results\<close>

text \<open>\<open>ContextEnvelope\<close>: an optional property is an option; \<open>en_role\<close> is the id of the role.\<close>

record context_task =
  xt_id :: string
  xt_version :: string
  xt_objective :: string
  xt_acceptanceCriteria :: "string list"

record context_envelope =
  cx_inputs :: "(string \<times> js) list"
  cx_dependencyOutputs :: "(string \<times> js) list"
  cx_version :: "string option"
  cx_runId :: "string option"
  cx_workflowInstanceId :: "string option"
  cx_nodeId :: "string option"
  cx_attempt :: "int option"
  cx_task :: "context_task option"
  cx_role :: "string option"
  cx_workspace :: "workspace_ref option"
  cx_allowedMutations :: "node_mutation option"
  cx_artifacts :: "artifact_ref list option"
  cx_verification :: "command_definition option"
  cx_requiredOutputSchema :: "js option"
  cx_budget :: "attempt_budget option"

record execution_request =
  rq_runId :: string
  rq_workflowInstanceId :: string
  rq_nodeId :: string
  rq_nodeKind :: node_kind
  rq_attempt :: int
  rq_role :: "string option"
  rq_workspace :: workspace_ref
  rq_context :: context_envelope
  rq_budget :: attempt_budget
  rq_requiredOutputSchema :: js
  rq_allowMutations :: bool

record command_execution =
  ce_output :: command_report
  ce_stdout :: string
  ce_stderr :: string
  ce_failure :: "execution_failure option"

section \<open>Their JSON\<close>

definition command_js :: "command_definition \<Rightarrow> js" where
  "command_js c = JObj
     [(''argv'', str_array (cm_argv c)), (''cwd'', JStr (cm_cwd c)),
      (''maxDurationMs'', JInt (cm_maxDurationMs c)), (''maxOutputBytes'', JInt (cm_maxOutputBytes c))]"

definition mutation_name :: "node_mutation \<Rightarrow> string" where
  "mutation_name m = (case m of ReadonlyMutation \<Rightarrow> ''readonly'' | IsolatedMutation \<Rightarrow> ''isolated'')"

definition role_js :: "string \<Rightarrow> js" where
  "role_js r = JObj [(''id'', JStr r)]"

definition context_js :: "context_envelope \<Rightarrow> js" where
  "context_js x = JObj
     (opt_field ''version'' JStr (cx_version x) @ opt_field ''runId'' JStr (cx_runId x) @
      opt_field ''workflowInstanceId'' JStr (cx_workflowInstanceId x) @
      opt_field ''nodeId'' JStr (cx_nodeId x) @ opt_field ''attempt'' JInt (cx_attempt x) @
      [(''inputs'', JObj (cx_inputs x)), (''dependencyOutputs'', JObj (cx_dependencyOutputs x))] @
      opt_field ''task'' (\<lambda>t. JObj
        [(''id'', JStr (xt_id t)), (''version'', JStr (xt_version t)),
         (''objective'', JStr (xt_objective t)),
         (''acceptanceCriteria'', str_array (xt_acceptanceCriteria t))]) (cx_task x) @
      opt_field ''role'' role_js (cx_role x) @ opt_field ''workspace'' workspace_js (cx_workspace x) @
      opt_field ''allowedMutations'' (\<lambda>m. JStr (mutation_name m)) (cx_allowedMutations x) @
      opt_field ''artifacts'' (\<lambda>xs. JArr (map artifact_js xs)) (cx_artifacts x) @
      opt_field ''verification'' command_js (cx_verification x) @
      opt_field ''requiredOutputSchema'' id (cx_requiredOutputSchema x) @
      opt_field ''budget'' budget_js (cx_budget x))"

definition request_js :: "execution_request \<Rightarrow> js" where
  "request_js r = JObj
     ([(''runId'', JStr (rq_runId r)), (''workflowInstanceId'', JStr (rq_workflowInstanceId r)),
       (''nodeId'', JStr (rq_nodeId r)),
       (''nodeKind'', JStr (case rq_nodeKind r of AgentNode \<Rightarrow> ''agent'' | CommandNode \<Rightarrow> ''command''
          | GateNode \<Rightarrow> ''gate'' | VerifierNode \<Rightarrow> ''verifier'')),
       (''attempt'', JInt (rq_attempt r))] @
      opt_field ''role'' role_js (rq_role r) @
      [(''workspace'', workspace_js (rq_workspace r)), (''context'', context_js (rq_context r)),
       (''budget'', budget_js (rq_budget r)), (''requiredOutputSchema'', rq_requiredOutputSchema r),
       (''toolPolicy'', JObj [(''allowMutations'', JBool (rq_allowMutations r))])])"

fun result_js :: "execution_result \<Rightarrow> js" where
  "result_js (SucceededResult out) = JObj [(''status'', JStr ''succeeded''), (''output'', out)]"
| "result_js (FailedResult f) = JObj [(''status'', JStr ''failed''), (''failure'', failure_js f)]"
| "result_js (BlockedResult r) = JObj [(''status'', JStr ''blocked''), (''reason'', JStr r)]"
| "result_js (CancelledResult r) = JObj [(''status'', JStr ''cancelled''), (''reason'', JStr r)]"

section \<open>Validation of requests and results\<close>

definition validString :: "string \<Rightarrow> bool" where
  "validString s \<longleftrightarrow> s \<noteq> [] \<and> CHR 0x00 \<notin> set s"

fun validWorkspace :: "workspace_ref \<Rightarrow> bool" where
  "validWorkspace (MemoryWorkspace i) = validString i"
| "validWorkspace (ReadonlyWorkspace i root path base) =
     (validString i \<and> validString root \<and> validString path \<and> validString base)"
| "validWorkspace (IsolatedWorkspace i root path base branch) =
     (validString i \<and> validString root \<and> validString path \<and> validString base \<and> validString branch)"

definition validBudget :: "attempt_budget \<Rightarrow> bool" where
  "validBudget b \<longleftrightarrow> positive_int (ab_maxAttempts b) \<and> pred_option positive_int (ab_maxDurationMs b)"

definition validCommand :: "command_definition \<Rightarrow> bool" where
  "validCommand c \<longleftrightarrow>
     cm_argv c \<noteq> [] \<and> list_all validString (cm_argv c) \<and> CHR 0x00 \<notin> set (cm_cwd c) \<and>
     positive_int (cm_maxDurationMs c) \<and> positive_int (cm_maxOutputBytes c)"

definition validArtifact :: "artifact_ref \<Rightarrow> bool" where
  "validArtifact a \<longleftrightarrow>
     list_all validString [ar_id a, ar_type a, ar_mediaType a, ar_uri a] \<and> is_digest (ar_digest a) \<and>
     validString (pr_runId (ar_producer a)) \<and> validString (pr_nodeId (ar_producer a)) \<and>
     positive_int (pr_attempt (ar_producer a))"

definition validContextScalars :: "context_envelope \<Rightarrow> bool" where
  "validContextScalars x \<longleftrightarrow>
     pred_option (\<lambda>v. v = ''anastom.dev/context/v1alpha1'') (cx_version x) \<and>
     pred_option validString (cx_runId x) \<and> pred_option validString (cx_workflowInstanceId x) \<and>
     pred_option validString (cx_nodeId x) \<and> pred_option positive_int (cx_attempt x)"

definition validContextStructures :: "context_envelope \<Rightarrow> bool" where
  "validContextStructures x \<longleftrightarrow>
     pred_option validWorkspace (cx_workspace x) \<and> pred_option validBudget (cx_budget x) \<and>
     pred_option validCommand (cx_verification x) \<and>
     pred_option (list_all validArtifact) (cx_artifacts x) \<and> pred_option validString (cx_role x)"

definition validContextTask :: "context_envelope \<Rightarrow> bool" where
  "validContextTask x \<longleftrightarrow>
     pred_option (\<lambda>t. validString (xt_id t) \<and> validString (xt_version t) \<and>
        validString (xt_objective t) \<and> list_all validString (xt_acceptanceCriteria t)) (cx_task x)"

definition validContext :: "context_envelope \<Rightarrow> bool" where
  "validContext x \<longleftrightarrow>
     validContextScalars x \<and> validContextStructures x \<and> validContextTask x \<and>
     canonicalJson (context_js x) \<noteq> None"

definition is_record :: "js \<Rightarrow> bool" where
  "is_record v = (case v of JObj _ \<Rightarrow> True | _ \<Rightarrow> False)"

definition MAX_EXECUTION_REQUEST_BYTES :: nat where
  "MAX_EXECUTION_REQUEST_BYTES = 4 * 1024 * 1024"

definition MAX_EXECUTION_RESULT_BYTES :: nat where
  "MAX_EXECUTION_RESULT_BYTES = 1024 * 1024"

definition fits_json :: "js \<Rightarrow> nat \<Rightarrow> bool" where
  "fits_json v bound =
     (case canonicalJson v of None \<Rightarrow> False | Some bytes \<Rightarrow> byte_length bytes \<le> bound)"

definition assertExecutionRequest :: "execution_request \<Rightarrow> bool" where
  "assertExecutionRequest r \<longleftrightarrow>
     list_all validString [rq_runId r, rq_workflowInstanceId r, rq_nodeId r] \<and>
     positive_int (rq_attempt r) \<and> validWorkspace (rq_workspace r) \<and> validContext (rq_context r) \<and>
     validBudget (rq_budget r) \<and> is_record (rq_requiredOutputSchema r) \<and>
     pred_option validString (rq_role r) \<and> canonicalJson (rq_requiredOutputSchema r) \<noteq> None \<and>
     fits_json (request_js r) MAX_EXECUTION_REQUEST_BYTES"

definition assertExecutionResult :: "execution_result \<Rightarrow> bool" where
  "assertExecutionResult r \<longleftrightarrow> fits_json (result_js r) MAX_EXECUTION_RESULT_BYTES"

end
