(* ===== verification/Execution_Launch.thy ===== *)
theory Execution_Launch
  imports Execution_Requests
begin

text \<open>
  \<open>buildContext\<close> (\<open>engine/src/context.ts\<close>) and the launch input of \<open>engine/src/execution-host.ts\<close>:
  a plan whose digest binds everything the supervisor will run, the validators of plans and
  references, and the observations that a host answers with.
\<close>

section \<open>The context of an attempt\<close>

datatype request_error =
    UnknownContextNode string
  | DependencyWithoutOutput string
  | InvalidPlanRef
  | InvalidCoordinator
  | InvalidDescriptor
  | InvalidRequest
  | RequestOfAnotherRun
  | InvalidCommand
  | InvalidFilesystemWorkspace
  | KindDisagrees
  | PlanDigestDisagrees
  | LaunchTooLarge
  | NotSerializable
  | AnotherPlan

definition dependency_output :: "run_state \<Rightarrow> string \<Rightarrow> request_error + string \<times> js" where
  "dependency_output s dep =
     (case find_node s dep of
        None \<Rightarrow> Inl (DependencyWithoutOutput dep)
      | Some nd \<Rightarrow>
          (case n_output nd of
             None \<Rightarrow> Inl (DependencyWithoutOutput dep)
           | Some v \<Rightarrow> Inr (dep, v)))"

text \<open>\<open>Object.fromEntries(needs.map(...))\<close>.\<close>

definition dependency_outputs :: "run_state \<Rightarrow> string list \<Rightarrow> request_error + (string \<times> js) list" where
  "dependency_outputs s needs =
     foldE (\<lambda>d dep. bindE (dependency_output s dep) (\<lambda>p. Inr (assign d p))) [] needs"

definition buildContext :: "store_env \<Rightarrow> workflow_definition \<Rightarrow> run_state \<Rightarrow> string \<Rightarrow> int \<Rightarrow>
    workspace_ref \<Rightarrow> artifact_ref list \<Rightarrow> request_error + context_envelope \<times> string \<times> string" where
  "buildContext env w s nid n workspace artifacts =
     (case map_of (wf_nodes w) nid of
        None \<Rightarrow> Inl (UnknownContextNode nid)
      | Some nd \<Rightarrow>
          bindE (dependency_outputs s (nd_needs nd)) (\<lambda>outputs.
          let envelope =
            \<lparr>cx_inputs = rs_inputs s, cx_dependencyOutputs = outputs,
             cx_version = Some ''anastom.dev/context/v1alpha1'', cx_runId = Some (rs_runId s),
             cx_workflowInstanceId = Some (rs_workflowInstanceId s), cx_nodeId = Some nid,
             cx_attempt = Some n,
             cx_task = map_option (\<lambda>t. \<lparr>xt_id = wm_id (wf_metadata w), xt_version = wm_version (wf_metadata w),
               xt_objective = tk_objective t, xt_acceptanceCriteria = tk_acceptanceCriteria t\<rparr>) (wf_task w),
             cx_role = (if truthy (nd_role nd) then nd_role nd else None),
             cx_workspace = Some workspace,
             cx_allowedMutations = Some (case_option ReadonlyMutation id (nd_mutation nd)),
             cx_artifacts = Some artifacts,
             cx_verification = Option.bind (map_of (wf_nodes w) ''verify'') nd_command,
             cx_requiredOutputSchema = Some (sc_schema (nd_output nd)),
             cx_budget = Some (nd_attemptBudget nd)\<rparr>
          in case canonicalJson (context_js envelope) of
               None \<Rightarrow> Inl NotSerializable
             | Some bytes \<Rightarrow> Inr (envelope, bytes, digestBytes (en_sha256 env) bytes)))"

section \<open>Launch input\<close>

datatype launch_input =
    RuntimeLaunch runtime_descriptor execution_request
  | CommandLaunch command_definition workspace_ref

fun launch_kind :: "launch_input \<Rightarrow> execution_kind" where
  "launch_kind (RuntimeLaunch _ _) = RuntimeKind"
| "launch_kind (CommandLaunch _ _) = CommandKind"

record unplanned_execution =
  un_runId :: string
  un_executionId :: string
  un_generation :: int
  un_coordinator :: local_process_identity
  un_input :: launch_input

record prepare_execution =
  pe_plan :: execution_plan_ref
  pe_coordinator :: local_process_identity
  pe_input :: launch_input

fun launch_fields :: "launch_input \<Rightarrow> (string \<times> js) list" where
  "launch_fields (RuntimeLaunch d r) = [(''descriptor'', descriptor_js d), (''request'', request_js r)]"
| "launch_fields (CommandLaunch c w) = [(''command'', command_js c), (''workspace'', workspace_js w)]"

definition planDigestInput :: "unplanned_execution \<Rightarrow> js" where
  "planDigestInput u = JObj
     ([(''version'', JStr ''anastom.dev/execution-plan/v1alpha1''), (''runId'', JStr (un_runId u)),
       (''executionId'', JStr (un_executionId u)), (''generation'', JInt (un_generation u)),
       (''coordinator'', identity_js (un_coordinator u)),
       (''kind'', JStr (kind_name (launch_kind (un_input u))))] @ launch_fields (un_input u))"

definition prepare_js :: "prepare_execution \<Rightarrow> js" where
  "prepare_js p = JObj
     ([(''plan'', plan_js (pe_plan p)), (''coordinator'', identity_js (pe_coordinator p))] @
      launch_fields (pe_input p))"

definition assertExecutionPlanRef :: "'a execution_plan_ref_scheme \<Rightarrow> bool" where
  "assertExecutionPlanRef x \<longleftrightarrow>
     ex_version x = ''anastom.dev/owned-execution/v1alpha1'' \<and> is_identifier (ex_runId x) \<and>
     is_uuid (ex_executionId x) \<and> is_safe_integer (ex_generation x) \<and> 1 \<le> ex_generation x \<and>
     is_digest (ex_planDigest x)"

text \<open>A persisted reference has the digest of its manifest as well; it may be compared with a plan.\<close>

definition assertPersistedExecutionRef ::
    "persisted_execution_ref \<Rightarrow> execution_plan_ref option \<Rightarrow> request_error + unit" where
  "assertPersistedExecutionRef x plan =
     bindE (check (assertExecutionPlanRef x \<and> is_digest (ex_manifestDigest x)) InvalidPlanRef) (\<lambda>_.
     case plan of
       None \<Rightarrow> Inr ()
     | Some p \<Rightarrow>
         bindE (check (assertExecutionPlanRef p) InvalidPlanRef) (\<lambda>_.
         check (persisted_plan x = p) AnotherPlan))"

definition assertCommandDefinition :: "command_definition \<Rightarrow> bool" where
  "assertCommandDefinition c \<longleftrightarrow>
     1 \<le> length (cm_argv c) \<and> list_all (\<lambda>a. a \<noteq> [] \<and> CHR 0x00 \<notin> set a) (cm_argv c) \<and>
     CHR 0x00 \<notin> set (cm_cwd c) \<and> is_safe_integer (cm_maxDurationMs c) \<and>
     1 \<le> cm_maxDurationMs c \<and> cm_maxDurationMs c \<le> 2147483647 \<and>
     is_safe_integer (cm_maxOutputBytes c) \<and> 1 \<le> cm_maxOutputBytes c \<and>
     cm_maxOutputBytes c \<le> 16777216"

fun assertFilesystemWorkspace :: "workspace_ref \<Rightarrow> bool" where
  "assertFilesystemWorkspace (MemoryWorkspace _) = False"
| "assertFilesystemWorkspace (ReadonlyWorkspace i root path base) =
     (is_identifier i \<and> root \<noteq> [] \<and> path \<noteq> [] \<and> base \<noteq> [])"
| "assertFilesystemWorkspace (IsolatedWorkspace i root path base branch) =
     (is_identifier i \<and> root \<noteq> [] \<and> path \<noteq> [] \<and> base \<noteq> [] \<and> branch \<noteq> [])"

definition check_launch_input :: "execution_plan_ref \<Rightarrow> launch_input \<Rightarrow> request_error + unit" where
  "check_launch_input plan i =
     (case i of
        RuntimeLaunch d r \<Rightarrow>
          bindE (check (ex_kind plan = RuntimeKind) KindDisagrees) (\<lambda>_.
          bindE (check (assertRuntimeDescriptor d) InvalidDescriptor) (\<lambda>_.
          bindE (check (assertExecutionRequest r) InvalidRequest) (\<lambda>_.
          check (rq_runId r = ex_runId plan) RequestOfAnotherRun)))
      | CommandLaunch c w \<Rightarrow>
          bindE (check (ex_kind plan = CommandKind) KindDisagrees) (\<lambda>_.
          bindE (check (assertCommandDefinition c) InvalidCommand) (\<lambda>_.
          check (assertFilesystemWorkspace w) InvalidFilesystemWorkspace)))"

definition serialized :: "'a option \<Rightarrow> request_error + 'a" where
  "serialized x = (case x of None \<Rightarrow> Inl NotSerializable | Some v \<Rightarrow> Inr v)"

definition assertPrepareExecution :: "store_env \<Rightarrow> prepare_execution \<Rightarrow> request_error + unit" where
  "assertPrepareExecution env p =
     bindE (check (assertExecutionPlanRef (pe_plan p)) InvalidPlanRef) (\<lambda>_.
     bindE (check (valid_process_identity (pe_coordinator p)) InvalidCoordinator) (\<lambda>_.
     bindE (check_launch_input (pe_plan p) (pe_input p)) (\<lambda>_.
     bindE (serialized (digestJson (en_sha256 env) (planDigestInput
       \<lparr>un_runId = ex_runId (pe_plan p), un_executionId = ex_executionId (pe_plan p),
        un_generation = ex_generation (pe_plan p), un_coordinator = pe_coordinator p,
        un_input = pe_input p\<rparr>))) (\<lambda>digest.
     bindE (check (digest = ex_planDigest (pe_plan p)) PlanDigestDisagrees) (\<lambda>_.
     bindE (serialized (canonicalJson (prepare_js p))) (\<lambda>bytes.
     check (byte_length bytes \<le> 4 * 1024 * 1024) LaunchTooLarge))))))"

definition createPrepareExecution :: "store_env \<Rightarrow> unplanned_execution \<Rightarrow> request_error + prepare_execution" where
  "createPrepareExecution env u =
     bindE (serialized (digestJson (en_sha256 env) (planDigestInput u))) (\<lambda>digest.
     let plan = \<lparr>ex_version = ''anastom.dev/owned-execution/v1alpha1'', ex_runId = un_runId u,
           ex_executionId = un_executionId u, ex_kind = launch_kind (un_input u),
           ex_generation = un_generation u, ex_planDigest = digest\<rparr>;
         prepared = \<lparr>pe_plan = plan, pe_coordinator = un_coordinator u, pe_input = un_input u\<rparr>
     in bindE (assertPrepareExecution env prepared) (\<lambda>_. Inr prepared))"

section \<open>Observations of an execution\<close>

record terminal_evidence =
  te_outcome :: result_status
  te_terminalDigest :: string

datatype execution_observation =
    ActiveObservation execution_plan_ref
  | AbsentObservation execution_plan_ref "terminal_evidence option"
  | UnknownObservation execution_plan_ref execution_observation_reason

fun observed_absent :: "execution_observation \<Rightarrow> bool" where
  "observed_absent (AbsentObservation _ _) = True"
| "observed_absent _ = False"

end
