(* ===== verification/Owned_Session.thy ===== *)
theory Owned_Session
  imports Execution_Launch Store_Contract
begin

text \<open>
  \<open>OwnedRunSession\<close> (\<open>engine/src/durable-session.ts\<close>) and what it runs in. A coordinator is a
  program of awaited calls: to the durable store, and to the interfaces that
  \<open>DurableRunCoordinatorOptions\<close> injects (execution host, artifacts, workspace, runtimes, process
  observation, identifiers, clock). The interfaces are the functions of a record over a state
  \<open>'w\<close> of the outside world. At every await the world may act first: other processes operate on
  the same store, and the heartbeat of the session renews its lease or fails to.

  A computation is \<open>None\<close> when it never returns, an error value when it throws.
\<close>

section \<open>Computations\<close>

datatype ownership_block = LeaseActive | OwnerAlive | OwnerUnknown

datatype process_observation =
    AliveProcess int
  | AbsentProcess int
  | UnknownProcess int string

datatype durable_issue =
    MissingInputs "string list"
  | UnknownInputs "string list"
  | InvalidInput string "string list"
  | UnsupportedDurableNode string
  | MutationIntentRequired string
  | WorkspaceModeMismatch string
  | MissingRuntimeId

datatype coord_error =
    StoreFailure store_error
  | ReducerFailure reducer_error
  | RequestFailure request_error
  | PreflightFailure preflight_error
  | BoundaryFailure
  | HeartbeatFailure
  | MutationFailure
  | SessionStopped
  | OwnershipBlocked ownership_block run_lease "process_observation option"
  | RunNotFoundFailure string
  | InvalidDurableRun "durable_issue list"
  | InvalidCoordinatorOwner
  | DescriptorRejected
  | DescriptorChanged
  | NoReadyNode
  | ReadyNodeIncomplete
  | ReadyNodeMissing
  | WorkspaceLost
  | WorkspaceRequired
  | DiffNotPublished
  | InvalidObservation
  | ConflictingUsage
  | InvalidResult
  | WrongResultKind
  | OrphanRequired

record owned_session =
  ss_lease :: run_lease_token
  ss_workflow :: workflow_definition
  ss_state :: run_state
  ss_prefixDigest :: string
  ss_heartbeatFailed :: bool
  ss_mutationFailed :: bool
  ss_stopped :: bool

text \<open>
  The calls made to the execution host and the commits of the session, each with its answer and
  the store at that time: a record of what happened that no operation reads.
\<close>

datatype host_call =
    PrepareCall prepare_execution "persisted_execution_ref option"
  | AuthorizeCall persisted_execution_ref bool
  | InspectCall execution_plan_ref "execution_observation option"
  | TerminateCall execution_plan_ref "execution_observation option"
  | CancelCall persisted_execution_ref "execution_observation option"
  | CommitCall fenced_run_mutation mutation_receipt

record 'w machine =
  mx_world :: 'w
  mx_store :: memory_store
  mx_session :: "owned_session option"
  mx_calls :: "(host_call \<times> memory_store) list"

type_synonym ('w, 'a) act = "'w machine \<Rightarrow> ((coord_error + 'a) \<times> 'w machine) option"

definition returnA :: "'a \<Rightarrow> ('w, 'a) act" where
  "returnA x s = Some (Inr x, s)"

definition throwA :: "coord_error \<Rightarrow> ('w, 'a) act" where
  "throwA e s = Some (Inl e, s)"

definition bindA :: "('w, 'a) act \<Rightarrow> ('a \<Rightarrow> ('w, 'b) act) \<Rightarrow> ('w, 'b) act" where
  "bindA m f s =
     Option.bind (m s) (\<lambda>(r, s'). case r of Inl e \<Rightarrow> Some (Inl e, s') | Inr x \<Rightarrow> f x s')"

definition catchA :: "('w, 'a) act \<Rightarrow> (coord_error \<Rightarrow> ('w, 'a) act) \<Rightarrow> ('w, 'a) act" where
  "catchA m h s =
     Option.bind (m s) (\<lambda>(r, s'). case r of Inl e \<Rightarrow> h e s' | Inr x \<Rightarrow> Some (Inr x, s'))"

definition checkA :: "bool \<Rightarrow> coord_error \<Rightarrow> ('w, unit) act" where
  "checkA b e = (if b then returnA () else throwA e)"

definition liftE :: "('e \<Rightarrow> coord_error) \<Rightarrow> 'e + 'a \<Rightarrow> ('w, 'a) act" where
  "liftE f r = (case r of Inl e \<Rightarrow> throwA (f e) | Inr x \<Rightarrow> returnA x)"

lemma bindA_mono [partial_function_mono]:
  assumes "\<And>s. mono_option (\<lambda>f. m f s)" and "\<And>x s. mono_option (\<lambda>f. g f x s)"
  shows "mono_option (\<lambda>f. bindA (m f) (g f) s)"
  unfolding bindA_def
proof (rule bind_mono [OF assms(1)])
  show "mono_option (\<lambda>f. case y of (r, s') \<Rightarrow>
      (case r of Inl e \<Rightarrow> Some (Inl e, s') | Inr x \<Rightarrow> g f x s'))" for y
    by (cases y; cases "fst y") (auto intro: assms(2) option.const_mono)
qed

section \<open>The world\<close>

datatype ambient = ForeignOp int store_op | HeartbeatTick int

datatype event_race = RaceEvent runtime_event | RaceDone | RaceFailed | RaceTimer

datatype collected = RuntimeCollected execution_result | CommandCollected command_execution

datatype adapter_outcome =
    AdapterCreated string
  | AdapterPreflightError preflight_error
  | AdapterOtherError

record artifact_write =
  aw_runId :: string
  aw_nodeId :: string
  aw_attempt :: int
  aw_type :: string
  aw_mediaType :: string
  aw_bytes :: string

text \<open>The fields of \<open>DurableRunCoordinator\<close>; an answer \<open>None\<close> is a rejected promise.\<close>

record 'w coordinator =
  dc_env :: store_env
  dc_ownerIdentity :: local_process_identity
  dc_between :: "'w \<Rightarrow> ambient list \<times> 'w"
  dc_clock :: "'w \<Rightarrow> int \<times> 'w"
  dc_createRunId :: "'w \<Rightarrow> string \<times> 'w"
  dc_createOwnerId :: "'w \<Rightarrow> string \<times> 'w"
  dc_createOperationId :: "'w \<Rightarrow> string \<times> 'w"
  dc_createExecutionId :: "'w \<Rightarrow> string \<times> 'w"
  dc_prepare :: "prepare_execution \<Rightarrow> 'w \<Rightarrow> persisted_execution_ref option \<times> 'w"
  dc_authorize :: "persisted_execution_ref \<Rightarrow> 'w \<Rightarrow> bool \<times> 'w"
  dc_inspect :: "execution_plan_ref \<Rightarrow> 'w \<Rightarrow> execution_observation option \<times> 'w"
  dc_terminate :: "execution_plan_ref \<Rightarrow> 'w \<Rightarrow> execution_observation option \<times> 'w"
  dc_cancel :: "persisted_execution_ref \<Rightarrow> 'w \<Rightarrow> execution_observation option \<times> 'w"
  dc_next :: "persisted_execution_ref \<Rightarrow> 'w \<Rightarrow> event_race \<times> 'w"
  dc_collect :: "persisted_execution_ref \<Rightarrow> 'w \<Rightarrow> collected option \<times> 'w"
  dc_capture :: "workspace_ref \<Rightarrow> 'w \<Rightarrow> (workspace_checkpoint \<times> string) option \<times> 'w"
  dc_compare :: "workspace_checkpoint \<Rightarrow> workspace_checkpoint \<Rightarrow> bool \<times> workspace_difference list"
  dc_write :: "artifact_write \<Rightarrow> 'w \<Rightarrow> artifact_ref option \<times> 'w"
  dc_parse :: "runtime_descriptor \<Rightarrow> runtime_descriptor option"
  dc_create :: "runtime_descriptor \<Rightarrow> 'w \<Rightarrow> adapter_outcome \<times> 'w"
  dc_probe :: "string \<Rightarrow> 'w \<Rightarrow> probe_outcome \<times> 'w"
  dc_observe :: "local_process_identity \<Rightarrow> 'w \<Rightarrow> process_observation option \<times> 'w"
  dc_validate :: "js \<Rightarrow> js \<Rightarrow> string list"

section \<open>Awaiting the world\<close>

definition ambient_step :: "store_env \<Rightarrow> ambient \<Rightarrow> 'w machine \<Rightarrow> 'w machine" where
  "ambient_step env a s =
     (case a of
        ForeignOp now op \<Rightarrow> s\<lparr>mx_store := attempt_op env (mx_store s) (now, op)\<rparr>
      | HeartbeatTick now \<Rightarrow>
          (case mx_session s of
             None \<Rightarrow> s
           | Some x \<Rightarrow>
               if ss_stopped x \<or> ss_heartbeatFailed x then s
               else case renewLease now (mx_store s) (ss_lease x) of
                      Inl _ \<Rightarrow> s\<lparr>mx_session := Some (x\<lparr>ss_heartbeatFailed := True\<rparr>)\<rparr>
                    | Inr (st, _) \<Rightarrow> s\<lparr>mx_store := st\<rparr>))"

definition ambient :: "'w coordinator \<Rightarrow> ('w, unit) act" where
  "ambient co s =
     (let (events, w) = dc_between co (mx_world s)
      in Some (Inr (), fold (ambient_step (dc_env co)) events (s\<lparr>mx_world := w\<rparr>)))"

text \<open>Awaiting a call: the world acts before it is made and before its answer is seen.\<close>

definition await :: "'w coordinator \<Rightarrow> ('w, 'a) act \<Rightarrow> ('w, 'a) act" where
  "await co m = bindA (ambient co) (\<lambda>_. bindA m (\<lambda>x. bindA (ambient co) (\<lambda>_. returnA x)))"

text \<open>A call to an injected interface, and one that may reject.\<close>

definition ask :: "('w \<Rightarrow> 'a \<times> 'w) \<Rightarrow> ('w, 'a) act" where
  "ask f s = (let (x, w) = f (mx_world s) in Some (Inr x, s\<lparr>mx_world := w\<rparr>))"

definition answered :: "'a option \<Rightarrow> ('w, 'a) act" where
  "answered x = (case x of None \<Rightarrow> throwA BoundaryFailure | Some v \<Rightarrow> returnA v)"

definition call :: "('w \<Rightarrow> 'a option \<times> 'w) \<Rightarrow> ('w, 'a) act" where
  "call f = bindA (ask f) answered"

text \<open>A call to the execution host, which is recorded with its answer.\<close>

definition host :: "('w \<Rightarrow> 'a \<times> 'w) \<Rightarrow> ('a \<Rightarrow> host_call) \<Rightarrow> ('w, 'a) act" where
  "host f entry s =
     (let (x, w) = f (mx_world s)
      in Some (Inr x, s\<lparr>mx_world := w, mx_calls := mx_calls s @ [(entry x, mx_store s)]\<rparr>))"

definition host_prepare :: "'w coordinator \<Rightarrow> prepare_execution \<Rightarrow> ('w, persisted_execution_ref) act" where
  "host_prepare co p = bindA (host (dc_prepare co p) (PrepareCall p)) answered"

definition host_authorize :: "'w coordinator \<Rightarrow> persisted_execution_ref \<Rightarrow> ('w, unit) act" where
  "host_authorize co x =
     bindA (host (dc_authorize co x) (AuthorizeCall x)) (\<lambda>ok. checkA ok BoundaryFailure)"

definition host_inspect :: "'w coordinator \<Rightarrow> execution_plan_ref \<Rightarrow> ('w, execution_observation) act" where
  "host_inspect co plan = bindA (host (dc_inspect co plan) (InspectCall plan)) answered"

definition host_terminate :: "'w coordinator \<Rightarrow> execution_plan_ref \<Rightarrow> ('w, execution_observation) act" where
  "host_terminate co plan = bindA (host (dc_terminate co plan) (TerminateCall plan)) answered"

definition owned_cancel :: "'w coordinator \<Rightarrow> persisted_execution_ref \<Rightarrow> ('w, execution_observation) act" where
  "owned_cancel co x = bindA (host (dc_cancel co x) (CancelCall x)) answered"

text \<open>
  The store: an operation replaces the store, or throws and leaves it; most read the clock.
\<close>

definition store_change :: "'w coordinator \<Rightarrow> (int \<Rightarrow> memory_store \<Rightarrow> store_error + memory_store \<times> 'a) \<Rightarrow>
    ('w, 'a) act" where
  "store_change co f s =
     (let (now, w) = dc_clock co (mx_world s)
      in case f now (mx_store s) of
           Inl e \<Rightarrow> Some (Inl (StoreFailure e), s\<lparr>mx_world := w\<rparr>)
         | Inr (st, x) \<Rightarrow> Some (Inr x, s\<lparr>mx_world := w, mx_store := st\<rparr>))"

definition record_call :: "host_call \<Rightarrow> ('w, unit) act" where
  "record_call c s = Some (Inr (), s\<lparr>mx_calls := mx_calls s @ [(c, mx_store s)]\<rparr>)"

definition store_commit :: "'w coordinator \<Rightarrow> fenced_run_mutation \<Rightarrow> ('w, unit) act" where
  "store_commit co m =
     bindA (store_change co (\<lambda>now st. commitMutation (dc_env co) now st m)) (\<lambda>receipt.
     record_call (CommitCall m receipt))"

definition store_update :: "(memory_store \<Rightarrow> store_error + memory_store \<times> 'a) \<Rightarrow> ('w, 'a) act" where
  "store_update f s =
     (case f (mx_store s) of
        Inl e \<Rightarrow> Some (Inl (StoreFailure e), s)
      | Inr (st, x) \<Rightarrow> Some (Inr x, s\<lparr>mx_store := st\<rparr>))"

definition store_read :: "(memory_store \<Rightarrow> store_error + 'a) \<Rightarrow> ('w, 'a) act" where
  "store_read f s =
     (case f (mx_store s) of Inl e \<Rightarrow> Some (Inl (StoreFailure e), s) | Inr x \<Rightarrow> Some (Inr x, s))"

section \<open>The owned session\<close>

definition open_session :: "owned_session \<Rightarrow> ('w, unit) act" where
  "open_session x s = Some (Inr (), s\<lparr>mx_session := Some x\<rparr>)"

definition session :: "('w, owned_session) act" where
  "session s = (case mx_session s of None \<Rightarrow> Some (Inl SessionStopped, s) | Some x \<Rightarrow> Some (Inr x, s))"

definition session_state :: "('w, run_state) act" where
  "session_state = bindA session (\<lambda>x. returnA (ss_state x))"

definition update_session :: "(owned_session \<Rightarrow> owned_session) \<Rightarrow> ('w, unit) act" where
  "update_session f s = Some (Inr (), s\<lparr>mx_session := map_option f (mx_session s)\<rparr>)"

definition assertHealthy :: "('w, unit) act" where
  "assertHealthy =
     bindA session (\<lambda>x.
     bindA (checkA (\<not> ss_heartbeatFailed x) HeartbeatFailure) (\<lambda>_.
     bindA (checkA (\<not> ss_mutationFailed x) MutationFailure) (\<lambda>_.
     checkA (\<not> ss_stopped x) SessionStopped)))"

definition guard :: "'w coordinator \<Rightarrow> ('w, 'a) act \<Rightarrow> ('w, 'a) act" where
  "guard co operation =
     bindA assertHealthy (\<lambda>_.
     bindA (await co operation) (\<lambda>x.
     bindA assertHealthy (\<lambda>_. returnA x)))"

definition extendPrefix :: "store_env \<Rightarrow> string \<Rightarrow> run_event list \<Rightarrow> store_error + string" where
  "extendPrefix env previous events = foldE (extend_with_event env) previous events"

record commit_options =
  op_handlesControl :: "string option"
  op_snapshot :: bool

definition plain_commit :: commit_options where
  "plain_commit = \<lparr>op_handlesControl = None, op_snapshot = False\<rparr>"

definition snapshot_commit :: commit_options where
  "snapshot_commit = \<lparr>op_handlesControl = None, op_snapshot = True\<rparr>"

text \<open>One serialized mutation: fold the payloads, store them under the fence, then move on.\<close>

definition session_mutation ::
    "'w coordinator \<Rightarrow> run_event_payload list \<Rightarrow> commit_options \<Rightarrow> ('w, run_state) act" where
  "session_mutation co payloads opts =
     bindA assertHealthy (\<lambda>_.
     bindA session (\<lambda>x.
     let initial = ss_state x in
     bindA (liftE ReducerFailure (materializeEvents (Some initial) (lt_runId (ss_lease x)) payloads))
       (\<lambda>(events, final).
     bindA (liftE StoreFailure (extendPrefix (dc_env co) (ss_prefixDigest x) events)) (\<lambda>nextPrefix.
     bindA (if op_snapshot opts
            then bindA (liftE StoreFailure
                   (createRunSnapshotFromState (dc_env co) (ss_workflow x) final nextPrefix))
                   (\<lambda>sn. returnA (Some sn))
            else returnA None) (\<lambda>snapshot.
     bindA (guard co
       (bindA (ask (dc_createOperationId co)) (\<lambda>operationId.
        store_commit co
          \<lparr>mu_lease = ss_lease x, mu_operationId = operationId,
           mu_expectedSequence = rs_sequence initial, mu_events = events, mu_snapshot = snapshot,
           mu_handlesControl = op_handlesControl opts\<rparr>))) (\<lambda>_.
     bindA (update_session (\<lambda>y. y\<lparr>ss_state := final, ss_prefixDigest := nextPrefix\<rparr>)) (\<lambda>_.
     returnA final)))))))"

definition session_commit ::
    "'w coordinator \<Rightarrow> run_event_payload list \<Rightarrow> commit_options \<Rightarrow> ('w, run_state) act" where
  "session_commit co payloads opts =
     (if payloads = [] then session_state
      else catchA (session_mutation co payloads opts) (\<lambda>e.
             bindA (update_session (\<lambda>y. y\<lparr>ss_mutationFailed := True\<rparr>)) (\<lambda>_. throwA e)))"

definition session_stop :: "('w, unit) act" where
  "session_stop = update_session (\<lambda>y. y\<lparr>ss_stopped := True\<rparr>)"

end
