(* ===== verification/Coordinator_Steps.thy ===== *)
theory Coordinator_Steps
  imports Owned_Session
begin

text \<open>
  The parts of \<open>DurableRunCoordinator\<close> (\<open>engine/src/durable-coordinator.ts\<close>) that its execution and
  its recovery share, over the session and the interfaces of \<open>Owned_Session\<close>: the payloads of a
  transition, the inputs of a run, artifacts and checkpoints, preflight, budgets and controls. One
  definition per function or method.
\<close>

section \<open>Payloads and findings\<close>

text \<open>\<open>Object.values\<close> of a dictionary.\<close>

definition object_values :: "(string \<times> 'v) list \<Rightarrow> 'v list" where
  "object_values d = map snd (js_key_order d)"

definition blockedNodePayloads :: "run_state \<Rightarrow> string \<Rightarrow> string \<Rightarrow> run_event_payload list" where
  "blockedNodePayloads s except reason =
     map (\<lambda>nd. NodeBlocked (n_id nd) reason)
       (filter (\<lambda>nd. n_id nd \<noteq> except \<and> n_status nd \<in> {NodePendingStatus, NodeReadyStatus})
         (object_values (rs_nodes s)))"

definition cancelNodePayloads :: "run_state \<Rightarrow> string \<Rightarrow> run_event_payload list" where
  "cancelNodePayloads s reason =
     map (\<lambda>nd. NodeCancelled (n_id nd) reason)
       (filter (\<lambda>nd. n_status nd \<notin> {NodeSucceededStatus, NodeFailedStatus, NodeCancelledStatus})
         (object_values (rs_nodes s)))"

definition controlObservedPayload :: "control_request \<Rightarrow> run_event_payload" where
  "controlObservedPayload c = ControlRequestObserved (ct_operationId c) (ct_action c) (ct_recordedAtMs c)"

definition readyPayloads :: "string list \<Rightarrow> run_event_payload list" where
  "readyPayloads nids = map (\<lambda>nid. NodeReady nid DependenciesSatisfied) nids"

definition currentOwnedAttempt :: "run_state \<Rightarrow> (string \<times> attempt_state) option" where
  "currentOwnedAttempt s =
     map_option (\<lambda>nd. (n_id nd, last (n_attempts nd)))
       (List.find (\<lambda>nd. last_status nd = Some Prepared \<or> last_status nd = Some Running)
         (object_values (rs_nodes s)))"

definition currentOrphanedAttempt :: "run_state \<Rightarrow> string option" where
  "currentOrphanedAttempt s =
     map_option n_id
       (List.find (\<lambda>nd. last_status nd = Some Orphaned \<and> n_status nd = NodeRunningStatus)
         (object_values (rs_nodes s)))"

text \<open>The controls observed by a history (a map, in the order of first insertion) and those completed.\<close>

definition observe_controls :: "(string \<times> control_request) list \<Rightarrow> run_event \<Rightarrow>
    (string \<times> control_request) list" where
  "observe_controls d e =
     (case ev_payload e of
        ControlRequestObserved opId action t \<Rightarrow>
          let c = \<lparr>ct_runId = ev_runId e, ct_operationId = opId, ct_action = action, ct_recordedAtMs = t\<rparr>
          in if map_of d opId = None then d @ [(opId, c)] else update_at opId (\<lambda>_. c) d
      | _ \<Rightarrow> d)"

definition completed_control :: "run_event \<Rightarrow> string option" where
  "completed_control e =
     (case ev_payload e of
        RunPaused (Some (OperatorPause opId)) \<Rightarrow> Some opId
      | RunCancelled opId _ \<Rightarrow> opId
      | _ \<Rightarrow> None)"

definition outstandingObservedControl :: "run_event list \<Rightarrow> control_request option" where
  "outstandingObservedControl events =
     List.find (\<lambda>c. \<not> list_ex (\<lambda>e. completed_control e = Some (ct_operationId c)) events)
       (map snd (foldl observe_controls [] events))"

definition isTerminalRun :: "run_state \<Rightarrow> bool" where
  "isTerminalRun s \<longleftrightarrow> rs_status s \<in> {RunSucceeded, RunFailed, RunIsCancelled}"

definition cause_of_action :: "control_action \<Rightarrow> cleanup_cause" where
  "cause_of_action a = (case a of PauseAction \<Rightarrow> PauseCause | CancelAction \<Rightarrow> CancelCause)"

fun join_with :: "string \<Rightarrow> string list \<Rightarrow> string" where
  "join_with sep [] = []"
| "join_with sep [x] = x"
| "join_with sep (x # xs) = x @ sep @ join_with sep xs"

definition normalizedFailure ::
    "'w coordinator \<Rightarrow> workflow_node \<Rightarrow> execution_result \<Rightarrow> execution_failure option" where
  "normalizedFailure co node r =
     (case r of
        FailedResult f \<Rightarrow> Some f
      | SucceededResult out \<Rightarrow>
          (let errors = dc_validate co (sc_schema (nd_output node)) out in
           if errors \<noteq> [] then
             Some \<lparr>f_category = SchemaViolation, f_message =
               ''Output for '' @ nd_id node @ '' is invalid: '' @ join_with ''; '' errors\<rparr>
           else if nd_kind node = VerifierNode then
             (case out of
                JObj kvs \<Rightarrow>
                  (case map_of kvs ''passed'' of
                     Some (JBool passed) \<Rightarrow>
                       if passed then None
                       else Some \<lparr>f_category = VerificationFailure,
                              f_message = ''Verifier reported that its checks failed''\<rparr>
                   | _ \<Rightarrow> Some \<lparr>f_category = SchemaViolation,
                            f_message = ''Verifier output must contain a boolean passed field''\<rparr>)
              | _ \<Rightarrow> Some \<lparr>f_category = SchemaViolation,
                       f_message = ''Verifier output must contain a boolean passed field''\<rparr>)
           else None)
      | _ \<Rightarrow> None)"

definition mutation_mode :: "node_mutation \<Rightarrow> workspace_mode" where
  "mutation_mode m = (case m of ReadonlyMutation \<Rightarrow> ReadonlyMode | IsolatedMutation \<Rightarrow> IsolatedMode)"

definition node_durable_issues :: "workspace_ref \<Rightarrow> workflow_node \<Rightarrow> durable_issue list" where
  "node_durable_issues workspace node =
     (if nd_kind node \<noteq> AgentNode \<and> (nd_kind node \<noteq> CommandNode \<or> nd_command node = None)
      then [UnsupportedDurableNode (nd_id node)] else []) @
     (if nd_kind node = AgentNode \<and> nd_mutation node = None
      then [MutationIntentRequired (nd_id node)] else []) @
     (if pred_option (\<lambda>m. mutation_mode m = ws_mode workspace) (nd_mutation node) then []
      else [WorkspaceModeMismatch (nd_id node)])"

definition validateDurableRunInputs :: "'w coordinator \<Rightarrow> workflow_definition \<Rightarrow> (string \<times> js) list \<Rightarrow>
    workspace_ref \<Rightarrow> runtime_descriptor \<Rightarrow> coord_error + unit" where
  "validateDurableRunInputs co w inputs workspace d =
     (let missing = filter (\<lambda>i. map_of inputs i = None) (map fst (js_key_order (wf_inputs w)));
          unknown = filter (\<lambda>i. map_of (wf_inputs w) i = None) (map fst (js_key_order inputs));
          errors =
            (if missing \<noteq> [] then [MissingInputs missing] else []) @
            (if unknown \<noteq> [] then [UnknownInputs unknown] else []) @
            concat (map (\<lambda>(i, def).
              case map_of inputs i of
                None \<Rightarrow> []
              | Some v \<Rightarrow>
                  (let es = dc_validate co (sc_schema def) v in if es = [] then [] else [InvalidInput i es]))
              (js_key_order (wf_inputs w))) @
            concat (map (node_durable_issues workspace) (object_values (wf_nodes w))) @
            (if rd_runtimeId d = [] then [MissingRuntimeId] else [])
      in check (errors = []) (InvalidDurableRun errors))"

text \<open>\<open>PublicObservationFilter\<close>: repeated metadata and usage are dropped, a second usage throws.\<close>

record observation_filter =
  of_seen :: "string list"
  of_usageSeen :: bool

definition filter_accept ::
    "observation_filter \<Rightarrow> runtime_event \<Rightarrow> coord_error + bool \<times> observation_filter" where
  "filter_accept f e =
     (let identity = canonicalJson (observation_js e);
          usage = (case e of UsageEvent _ \<Rightarrow> True | _ \<Rightarrow> False);
          metadata = (case e of MetadataEvent _ \<Rightarrow> True | _ \<Rightarrow> False) in
      if \<not> usage \<and> \<not> metadata then Inr (True, f)
      else case identity of
        None \<Rightarrow> Inl (StoreFailure SerializationError)
      | Some i \<Rightarrow>
          if i \<in> set (of_seen f) then Inr (False, f)
          else if usage \<and> of_usageSeen f then Inl ConflictingUsage
          else Inr (True, \<lparr>of_seen = of_seen f @ [i], of_usageSeen = of_usageSeen f \<or> usage\<rparr>))"

section \<open>Artifacts and checkpoints\<close>

definition writeArtifact :: "'w coordinator \<Rightarrow> string \<Rightarrow> int \<Rightarrow> string \<Rightarrow> string \<Rightarrow> string \<Rightarrow>
    ('w, artifact_ref) act" where
  "writeArtifact co nid n type mediaType bytes =
     guard co (bindA session (\<lambda>x. call (dc_write co
       \<lparr>aw_runId = lt_runId (ss_lease x), aw_nodeId = nid, aw_attempt = n, aw_type = type,
        aw_mediaType = mediaType, aw_bytes = bytes\<rparr>)))"

definition captureCheckpoint :: "'w coordinator \<Rightarrow> workspace_ref \<Rightarrow> string \<Rightarrow> int \<Rightarrow> bool \<Rightarrow>
    ('w, workspace_checkpoint \<times> artifact_ref option) act" where
  "captureCheckpoint co workspace nid n alwaysPersistDiff =
     bindA (guard co (call (dc_capture co workspace))) (\<lambda>(checkpoint, diff).
     if \<not> alwaysPersistDiff \<and> diff = [] then returnA (checkpoint, None)
     else bindA (writeArtifact co nid n ''diff'' ''text/x-diff'' diff) (\<lambda>artifact.
          returnA (checkpoint\<lparr>wc_diffArtifactId := Some (ar_id artifact)\<rparr>, Some artifact)))"

text \<open>The workspace of the session, when it is on a file system.\<close>

definition filesystem_workspace :: "run_state \<Rightarrow> workspace_ref option" where
  "filesystem_workspace s =
     (case rs_workspace s of
        None \<Rightarrow> None
      | Some w \<Rightarrow> if ws_mode w = MemoryMode then None else Some w)"

definition require_workspace :: "coord_error \<Rightarrow> ('w, workspace_ref) act" where
  "require_workspace e =
     bindA session_state (\<lambda>s.
     case filesystem_workspace s of None \<Rightarrow> throwA e | Some w \<Rightarrow> returnA w)"

section \<open>Preflight and budgets\<close>

datatype preflight_outcome = PreflightReady runtime_negotiation | PreflightRefused pause_reason

definition create_adapter :: "'w coordinator \<Rightarrow> runtime_descriptor \<Rightarrow> ('w, string) act" where
  "create_adapter co d =
     bindA (ask (dc_create co d)) (\<lambda>outcome.
     case outcome of
       AdapterCreated i \<Rightarrow> returnA i
     | AdapterPreflightError e \<Rightarrow> throwA (PreflightFailure e)
     | AdapterOtherError \<Rightarrow> throwA BoundaryFailure)"

definition probe_adapter ::
    "'w coordinator \<Rightarrow> string \<Rightarrow> workspace_mode \<Rightarrow> ('w, runtime_negotiation) act" where
  "probe_adapter co adapter mode =
     bindA (ask (dc_probe co adapter)) (\<lambda>outcome.
     liftE PreflightFailure (probeRuntime adapter outcome mode))"

definition preflight_reason :: "runtime_descriptor \<Rightarrow> coord_error \<Rightarrow> pause_reason" where
  "preflight_reason d e =
     (case e of
        PreflightFailure PreflightPolicyViolation \<Rightarrow> PolicyViolationPause (rd_runtimeId d)
      | _ \<Rightarrow> RuntimeUnavailablePause (rd_runtimeId d))"

definition preflight :: "'w coordinator \<Rightarrow> runtime_descriptor \<Rightarrow> ('w, preflight_outcome) act" where
  "preflight co d =
     catchA
       (bindA (guard co (create_adapter co d)) (\<lambda>adapter.
        bindA (require_workspace WorkspaceRequired) (\<lambda>workspace.
        bindA (guard co (probe_adapter co adapter (ws_mode workspace))) (\<lambda>negotiation.
        bindA session_state (\<lambda>s.
        bindA (if rs_runtimeNegotiation s = None \<and> \<not> any_attempts s
               then session_commit co [RuntimeNegotiated negotiation] plain_commit
               else returnA s) (\<lambda>_.
        returnA (PreflightReady negotiation)))))))
       (\<lambda>e. returnA (PreflightRefused (preflight_reason d e)))"

definition pauseForPreflight :: "'w coordinator \<Rightarrow> pause_reason \<Rightarrow> string option \<Rightarrow> ('w, unit) act" where
  "pauseForPreflight co reason activeNode =
     bindA (session_commit co
       ((case activeNode of None \<Rightarrow> [] | Some nid \<Rightarrow> [NodePaused nid (Some reason)]) @
        [RunPaused (Some reason)]) snapshot_commit) (\<lambda>_. returnA ())"

definition ensureAttemptBudget :: "'w coordinator \<Rightarrow> string \<Rightarrow> ('w, bool) act" where
  "ensureAttemptBudget co nid =
     bindA session (\<lambda>x.
     case (map_of (wf_nodes (ss_workflow x)) nid, find_node (ss_state x) nid) of
       (Some node, Some nd) \<Rightarrow>
         if int (length (n_attempts nd)) < ab_maxAttempts (nd_attemptBudget node) then returnA True
         else (let reason = BudgetExhaustedPause nid (int (length (n_attempts nd))) in
           bindA (session_commit co [NodePaused nid (Some reason), RunPaused (Some reason)] snapshot_commit)
             (\<lambda>_. returnA False))
     | _ \<Rightarrow> throwA ReadyNodeMissing)"

section \<open>Controls at a boundary\<close>

definition observeControl :: "'w coordinator \<Rightarrow> control_request \<Rightarrow> ('w, unit) act" where
  "observeControl co c =
     bindA (session_commit co [controlObservedPayload c]
       \<lparr>op_handlesControl = Some (ct_operationId c), op_snapshot = False\<rparr>) (\<lambda>_. returnA ())"

definition applyBoundaryControl :: "'w coordinator \<Rightarrow> control_request \<Rightarrow> bool \<Rightarrow> ('w, unit) act" where
  "applyBoundaryControl co c observe =
     bindA session_state (\<lambda>s.
     bindA (session_commit co
       ((if observe then [controlObservedPayload c] else []) @
        (case ct_action c of
           PauseAction \<Rightarrow>
             if rs_status s \<noteq> RunIsPaused then [RunPaused (Some (OperatorPause (ct_operationId c)))] else []
         | CancelAction \<Rightarrow>
             cancelNodePayloads s ''operator'' @ [RunCancelled (Some (ct_operationId c)) ''operator'']))
       \<lparr>op_handlesControl = (if observe then Some (ct_operationId c) else None), op_snapshot = True\<rparr>)
     (\<lambda>_. returnA ()))"

definition pending_control :: "'w coordinator \<Rightarrow> ('w, control_request option) act" where
  "pending_control co =
     bindA session (\<lambda>x.
     bindA (await co (store_read (\<lambda>st. pendingControls (dc_env co) st (lt_runId (ss_lease x)) 1))) (\<lambda>cs.
     returnA (case cs of [] \<Rightarrow> None | c # _ \<Rightarrow> Some c)))"

end
