(* ===== verification/Byte_Strings.thy ===== *)
theory Byte_Strings
  imports Js_Prelude
begin

text \<open>
  Bytes, as characters: UTF-8 of texts (\<open>Buffer.from\<close>, \<open>TextDecoder\<close> with \<open>fatal: true\<close>), base64
  (\<open>Buffer.toString("base64")\<close>) and the big-endian length of a frame. Decoding inverts encoding.
\<close>

section \<open>UTF-8\<close>

text \<open>The texts of the model have code units below 256, whose encodings have one or two bytes.\<close>

definition utf8_char :: "char \<Rightarrow> string" where
  "utf8_char c = (let n = (of_char c :: nat) in
     if n < 128 then [c] else [char_of (192 + n div 64), char_of (128 + n mod 64)])"

definition utf8 :: "string \<Rightarrow> string" where
  "utf8 s = concat (map utf8_char s)"

fun utf8_decode :: "string \<Rightarrow> string option" where
  "utf8_decode [] = Some []"
| "utf8_decode (c # s) = (let n = (of_char c :: nat) in
     if n < 128 then map_option (Cons c) (utf8_decode s)
     else if n \<noteq> 194 \<and> n \<noteq> 195 then None
     else case s of
         [] \<Rightarrow> None
       | d # t \<Rightarrow> (let m = (of_char d :: nat) in
           if m < 128 \<or> 192 \<le> m then None
           else map_option (Cons (char_of ((n - 192) * 64 + (m - 128)))) (utf8_decode t)))"

lemma of_char_of [simp]: "n < 256 \<Longrightarrow> of_char (char_of (n :: nat)) = n"
  by simp

lemma utf8_char_back: "utf8_decode (utf8_char c @ s) = map_option (Cons c) (utf8_decode s)"
proof (cases "(of_char c :: nat) < 128")
  case True
  then show ?thesis by (simp add: utf8_char_def)
next
  case False
  define n where "n = (of_char c :: nat)"
  with False have n: "128 \<le> n" "n < 256" by auto
  then have div: "n div 64 = 2 \<or> n div 64 = 3" by auto
  have same: "char_of (n div 64 * 64 + n mod 64) = c" by (simp add: n_def)
  have "utf8_char c = [char_of (192 + n div 64), char_of (128 + n mod 64)]"
    using False by (simp add: utf8_char_def n_def Let_def)
  with div same n show ?thesis by (auto simp: Let_def)
qed

lemma utf8_back [simp]: "utf8_decode (utf8 s) = Some s"
  by (induction s) (simp_all add: utf8_def utf8_char_back)

lemma utf8_append [simp]: "utf8 [] = []" "utf8 (s @ t) = utf8 s @ utf8 t"
  by (simp_all add: utf8_def)

lemma length_utf8: "length (utf8 s) = byte_length s"
  by (induction s) (simp_all add: utf8_def utf8_char_def byte_length_def Let_def)

section \<open>Base64\<close>

definition base64_char :: "nat \<Rightarrow> char" where
  "base64_char n = char_of (if n < 26 then 65 + n else if n < 52 then 71 + n else if n < 62 then n - 4
     else if n = 62 then 43 else 47)"

definition base64_value :: "char \<Rightarrow> nat option" where
  "base64_value c = (let n = (of_char c :: nat) in
     if 65 \<le> n \<and> n \<le> 90 then Some (n - 65)
     else if 97 \<le> n \<and> n \<le> 122 then Some (n - 71)
     else if 48 \<le> n \<and> n \<le> 57 then Some (n + 4)
     else if n = 43 then Some 62
     else if n = 47 then Some 63
     else None)"

fun base64 :: "string \<Rightarrow> string" where
  "base64 [] = []"
| "base64 [a] = (let x = (of_char a :: nat) in
     [base64_char (x div 4), base64_char (x mod 4 * 16), CHR ''='', CHR ''=''])"
| "base64 [a, b] = (let x = (of_char a :: nat); y = of_char b in
     [base64_char (x div 4), base64_char (x mod 4 * 16 + y div 16), base64_char (y mod 16 * 4), CHR ''=''])"
| "base64 (a # b # c # s) = (let x = (of_char a :: nat); y = of_char b; z = of_char c in
     [base64_char (x div 4), base64_char (x mod 4 * 16 + y div 16), base64_char (y mod 16 * 4 + z div 64),
      base64_char (z mod 64)] @ base64 s)"

text \<open>
  The bytes whose encoding a text is, if it is one: what \<open>Buffer.from(text, "base64")\<close> gives for the
  texts that \<open>toString\<close> gives back.
\<close>

fun base64_decode :: "string \<Rightarrow> string option" where
  "base64_decode [] = Some []"
| "base64_decode (w # x # y # z # s) =
     (case (base64_value w, base64_value x) of
        (Some a, Some b) \<Rightarrow>
          if s = [] \<and> y = CHR ''='' \<and> z = CHR ''='' then
            (if b mod 16 = 0 then Some [char_of (a * 4 + b div 16)] else None)
          else (case base64_value y of
              None \<Rightarrow> None
            | Some c \<Rightarrow>
                if s = [] \<and> z = CHR ''='' then
                  (if c mod 4 = 0 then Some [char_of (a * 4 + b div 16), char_of (b mod 16 * 16 + c div 4)]
                   else None)
                else (case base64_value z of
                    None \<Rightarrow> None
                  | Some d \<Rightarrow> map_option
                      (\<lambda>t. [char_of (a * 4 + b div 16), char_of (b mod 16 * 16 + c div 4),
                             char_of (c mod 4 * 64 + d)] @ t) (base64_decode s)))
      | _ \<Rightarrow> None)"
| "base64_decode _ = None"

lemma base64_value_char [simp]: "n < 64 \<Longrightarrow> base64_value (base64_char n) = Some n"
  by (auto simp: base64_value_def base64_char_def Let_def)

lemma base64_char_padding: "n < 64 \<Longrightarrow> base64_char n \<noteq> CHR ''=''"
proof
  assume "n < 64" "base64_char n = CHR ''=''"
  then have "base64_value (CHR ''='') = Some n" by (metis base64_value_char)
  then show False by (simp add: base64_value_def)
qed

lemma sixths:
  fixes x y z :: nat
  assumes "x < 256" "y < 256" "z < 256"
  shows "x div 4 < 64" "x mod 4 * 16 < 64" "x mod 4 * 16 + y div 16 < 64" "y mod 16 * 4 < 64"
    "y mod 16 * 4 + z div 64 < 64" "z mod 64 < 64"
    "x div 4 * 4 + (x mod 4 * 16 + y div 16) div 16 = x"
    "(x mod 4 * 16 + y div 16) mod 16 * 16 + (y mod 16 * 4 + z div 64) div 4 = y"
    "(y mod 16 * 4 + z div 64) mod 4 * 64 + z mod 64 = z"
    "x div 4 * 4 + x mod 4 * 16 div 16 = x" "(x mod 4 * 16 + y div 16) mod 16 * 16 + y mod 16 * 4 div 4 = y"
  using assms by auto

lemma base64_decode_quad:
  assumes "a < 64" "b < 64" "c < 64"
  shows
    "b mod 16 = 0 \<Longrightarrow> base64_decode [base64_char a, base64_char b, CHR ''='', CHR ''=''] =
       Some [char_of (a * 4 + b div 16)]"
    "c mod 4 = 0 \<Longrightarrow> base64_decode [base64_char a, base64_char b, base64_char c, CHR ''=''] =
       Some [char_of (a * 4 + b div 16), char_of (b mod 16 * 16 + c div 4)]"
    "d < 64 \<Longrightarrow> base64_decode ([base64_char a, base64_char b, base64_char c, base64_char d] @ s) =
       map_option (\<lambda>t. [char_of (a * 4 + b div 16), char_of (b mod 16 * 16 + c div 4),
         char_of (c mod 4 * 64 + d)] @ t) (base64_decode s)"
  using assms by (simp_all add: base64_char_padding) (cases "base64_decode s"; simp)

lemma base64_back [simp]: "base64_decode (base64 s) = Some s"
proof (induction s rule: base64.induct)
  case (2 a)
  define x where "x = (of_char a :: nat)"
  have x: "x < 256" "char_of x = a" by (simp_all add: x_def)
  note n = sixths [OF x(1), of 0 0]
  have "base64_decode (base64 [a]) = Some [char_of (x div 4 * 4 + x mod 4 * 16 div 16)]"
    unfolding base64.simps Let_def x_def [symmetric]
    by (rule base64_decode_quad(1)) (use n in simp_all)
  then show ?case unfolding n(10) [simplified] by (simp add: x)
next
  case (3 a b)
  define x y where "x = (of_char a :: nat)" and "y = (of_char b :: nat)"
  have x: "x < 256" "y < 256" "char_of x = a" "char_of y = b" by (simp_all add: x_def y_def)
  note n = sixths [OF x(1,2), of 0]
  have "base64_decode (base64 [a, b]) = Some [char_of (x div 4 * 4 + (x mod 4 * 16 + y div 16) div 16),
      char_of ((x mod 4 * 16 + y div 16) mod 16 * 16 + y mod 16 * 4 div 4)]"
    unfolding base64.simps Let_def x_def [symmetric] y_def [symmetric]
    by (rule base64_decode_quad(2)) (use n in simp_all)
  then show ?case using n(7,11) x(3,4) by (simp only: zero_less_numeral)
next
  case (4 a b c s)
  define x y z where "x = (of_char a :: nat)" and "y = (of_char b :: nat)" and "z = (of_char c :: nat)"
  have x: "x < 256" "y < 256" "z < 256" "char_of x = a" "char_of y = b" "char_of z = c"
    by (simp_all add: x_def y_def z_def)
  note n = sixths [OF x(1-3)]
  have "base64_decode (base64 (a # b # c # s)) = map_option (\<lambda>t. [char_of (x div 4 * 4 + (x mod 4 * 16 + y div 16) div 16),
      char_of ((x mod 4 * 16 + y div 16) mod 16 * 16 + (y mod 16 * 4 + z div 64) div 4),
      char_of ((y mod 16 * 4 + z div 64) mod 4 * 64 + z mod 64)] @ t) (base64_decode (base64 s))"
    unfolding base64.simps Let_def x_def [symmetric] y_def [symmetric] z_def [symmetric]
    by (rule base64_decode_quad(3)) (rule n)+
  then show ?case unfolding n(7-9) by (simp add: x 4)
qed simp

section \<open>Lengths\<close>

definition be32 :: "nat \<Rightarrow> string" where
  "be32 n = [char_of (n div 16777216), char_of (n div 65536 mod 256), char_of (n div 256 mod 256), char_of (n mod 256)]"

definition read_be32 :: "string \<Rightarrow> nat" where
  "read_be32 s = of_char (hd s) * 16777216 + of_char (s ! 1) * 65536 + of_char (s ! 2) * 256 + of_char (s ! 3)"

lemma length_be32 [simp]: "length (be32 n) = 4"
  by (simp add: be32_def)

lemma read_be32_back [simp]:
  assumes "n < 4294967296"
  shows "read_be32 (be32 n @ s) = n"
proof -
  have "n div 16777216 < 256" using assms by simp
  then have "read_be32 (be32 n @ s) =
      n div 16777216 * 16777216 + n div 65536 mod 256 * 65536 + n div 256 mod 256 * 256 + n mod 256"
    by (simp add: read_be32_def be32_def)
  also have "\<dots> = ((n div 16777216 * 256 + n div 65536 mod 256) * 256 + n div 256 mod 256) * 256 + n mod 256"
    by (simp add: algebra_simps)
  also have "\<dots> = n"
  proof -
    have parts: "n div 256 div 256 = n div 65536" "n div 65536 div 256 = n div 16777216"
      by (simp_all add: div_mult2_eq [symmetric])
    have "n div 16777216 * 256 + n div 65536 mod 256 = n div 65536"
      using div_mult_mod_eq [of "n div 65536" 256] parts by simp
    moreover have "n div 65536 * 256 + n div 256 mod 256 = n div 256"
      using div_mult_mod_eq [of "n div 256" 256] parts by simp
    ultimately show ?thesis by simp
  qed
  finally show ?thesis .
qed

lemma read_be32_append: "4 \<le> length s \<Longrightarrow> read_be32 (s @ t) = read_be32 s"
  by (cases s) (auto simp: read_be32_def nth_append)

end
