(* ===== verification/Coordinator_Execution.thy ===== *)
theory Coordinator_Execution
  imports Coordinator_Steps Scheduler Byte_Strings
begin

text \<open>
  How \<open>DurableRunCoordinator\<close> executes a ready node (\<open>engine/src/durable-coordinator.ts\<close>): prepare,
  commit, authorize, drive the execution while controls and the deadline are watched, and commit
  what came of it.
\<close>

section \<open>Preparing an attempt\<close>

record prepared_attempt =
  pa_node :: workflow_node
  pa_nodeId :: string
  pa_attempt :: int
  pa_request :: execution_request
  pa_plan :: execution_plan_ref
  pa_launch :: prepare_execution
  pa_checkpoint :: workspace_checkpoint

definition attempt_request :: "run_state \<Rightarrow> workflow_node \<Rightarrow> string \<Rightarrow> int \<Rightarrow> workspace_ref \<Rightarrow>
    context_envelope \<Rightarrow> execution_request" where
  "attempt_request s node nid n workspace envelope =
     \<lparr>rq_runId = rs_runId s, rq_workflowInstanceId = rs_workflowInstanceId s, rq_nodeId = nid,
      rq_nodeKind = nd_kind node, rq_attempt = n,
      rq_role = (if truthy (nd_role node) then nd_role node else None), rq_workspace = workspace,
      rq_context = envelope, rq_budget = the (cx_budget envelope),
      rq_requiredOutputSchema = the (cx_requiredOutputSchema envelope),
      rq_allowMutations = (nd_mutation node = Some IsolatedMutation)\<rparr>"

definition prepareAttempt ::
    "'w coordinator \<Rightarrow> string \<Rightarrow> runtime_descriptor \<Rightarrow> ('w, prepared_attempt) act" where
  "prepareAttempt co nid d =
     bindA session (\<lambda>x.
     let s = ss_state x in
     case (map_of (wf_nodes (ss_workflow x)) nid, find_node s nid, filesystem_workspace s) of
       (Some node, Some nd, Some workspace) \<Rightarrow>
         bindA (checkA (n_status nd = NodeReadyStatus) ReadyNodeIncomplete) (\<lambda>_.
         let n = int (length (n_attempts nd)) + 1 in
         bindA (captureCheckpoint co workspace nid n False) (\<lambda>(checkpoint, diffArtifact).
         bindA (liftE RequestFailure (buildContext (dc_env co) (ss_workflow x) s nid n workspace []))
           (\<lambda>(envelope, bytes, _).
         bindA (writeArtifact co nid n ''context'' ''application/json'' bytes) (\<lambda>contextArtifact.
         let request = attempt_request s node nid n workspace envelope in
         bindA (ask (dc_createExecutionId co)) (\<lambda>executionId.
         bindA (liftE RequestFailure (createPrepareExecution (dc_env co)
           \<lparr>un_runId = rs_runId s, un_executionId = executionId,
            un_generation = lt_generation (ss_lease x), un_coordinator = dc_ownerIdentity co,
            un_input = (case (nd_kind node, nd_command node) of
                (CommandNode, Some command) \<Rightarrow> CommandLaunch command workspace
              | _ \<Rightarrow> RuntimeLaunch d request)\<rparr>)) (\<lambda>launch.
         bindA (session_commit co
           ([AttemptScheduled nid n
               (if nd_kind node = CommandNode then ''command'' else rd_runtimeId d),
             ArtifactProduced nid n contextArtifact] @
            (case diffArtifact of None \<Rightarrow> [] | Some a \<Rightarrow> [ArtifactProduced nid n a]) @
            [AttemptPrepared nid n (pe_plan launch) checkpoint]) snapshot_commit) (\<lambda>_.
         returnA \<lparr>pa_node = node, pa_nodeId = nid, pa_attempt = n, pa_request = request,
           pa_plan = pe_plan launch, pa_launch = launch, pa_checkpoint = checkpoint\<rparr>)))))))
     | _ \<Rightarrow> throwA ReadyNodeIncomplete)"

section \<open>Driving an execution\<close>

datatype drive_outcome =
    DriveResult collected string
  | DriveControl control_request execution_observation
  | DriveTimeout execution_observation string

datatype execution_turn = EventTurn runtime_event | DoneTurn | PollTurn | TimeoutTurn

text \<open>\<open>waitForExecutionTurn\<close>: the next event, or the poll interval or the deadline, whichever is first.\<close>

definition waitForExecutionTurn ::
    "'w coordinator \<Rightarrow> persisted_execution_ref \<Rightarrow> int option \<Rightarrow> ('w, execution_turn) act" where
  "waitForExecutionTurn co x deadline =
     bindA (case deadline of
              None \<Rightarrow> returnA False
            | Some d \<Rightarrow> bindA (ask (dc_clock co)) (\<lambda>now. returnA (d - now \<le> 0))) (\<lambda>expired.
     if expired then returnA TimeoutTurn
     else bindA (ask (dc_next co x)) (\<lambda>race.
       case race of
         RaceEvent e \<Rightarrow> returnA (EventTurn e)
       | RaceDone \<Rightarrow> returnA DoneTurn
       | RaceFailed \<Rightarrow> throwA BoundaryFailure
       | RaceTimer \<Rightarrow>
           (case deadline of
              None \<Rightarrow> returnA PollTurn
            | Some d \<Rightarrow> bindA (ask (dc_clock co)) (\<lambda>now.
                returnA (if d \<le> now then TimeoutTurn else PollTurn)))))"

definition LOG_ARTIFACT_MAX_BYTES :: nat where
  "LOG_ARTIFACT_MAX_BYTES = 1024 * 1024"

definition append_log :: "string \<Rightarrow> runtime_event \<Rightarrow> string" where
  "append_log logs e =
     (case e of
        LogEvent message _ \<Rightarrow>
          if length logs < LOG_ARTIFACT_MAX_BYTES
          then logs @ take (LOG_ARTIFACT_MAX_BYTES - length logs) (utf8 (message @ [CHR 0x0A]))
          else logs
      | _ \<Rightarrow> logs)"

definition drive_timeout :: "'w coordinator \<Rightarrow> prepared_attempt \<Rightarrow> persisted_execution_ref \<Rightarrow> string \<Rightarrow>
    ('w, drive_outcome) act" where
  "drive_timeout co p x logs =
     bindA (session_commit co [AttemptTimeoutRequested (pa_nodeId p) (pa_attempt p)] plain_commit) (\<lambda>_.
     bindA (catchA (await co (owned_cancel co x))
              (\<lambda>_. returnA (UnknownObservation (pa_plan p) CleanupUnconfirmed))) (\<lambda>observation.
     returnA (DriveTimeout observation logs)))"

definition drive_control :: "'w coordinator \<Rightarrow> persisted_execution_ref \<Rightarrow> control_request \<Rightarrow>
    ('w, drive_outcome) act" where
  "drive_control co x c =
     bindA (observeControl co c) (\<lambda>_.
     bindA (await co (owned_cancel co x)) (\<lambda>observation.
     returnA (DriveControl c observation)))"

partial_function (option) drive_loop ::
    "'w coordinator \<Rightarrow> prepared_attempt \<Rightarrow> persisted_execution_ref \<Rightarrow> int option \<Rightarrow>
     observation_filter \<Rightarrow> string \<Rightarrow> 'w machine \<Rightarrow> ((coord_error + drive_outcome) \<times> 'w machine) option" where
  "drive_loop co p x deadline f logs s =
     bindA (guard co (waitForExecutionTurn co x deadline)) (\<lambda>turn s1.
       case turn of
         DoneTurn \<Rightarrow>
           bindA (guard co (call (dc_collect co x))) (\<lambda>result. returnA (DriveResult result logs)) s1
       | EventTurn e \<Rightarrow>
           bindA (checkA (valid_observation e) InvalidObservation) (\<lambda>_.
           bindA (liftE id (filter_accept f e)) (\<lambda>accepted s2.
             if fst accepted then
               bindA (session_commit co [RuntimeEventObserved (pa_nodeId p) (pa_attempt p) e] plain_commit)
                 (\<lambda>_ s3. drive_loop co p x deadline (snd accepted) (append_log logs e) s3) s2
             else drive_loop co p x deadline (snd accepted) logs s2)) s1
       | TimeoutTurn \<Rightarrow> drive_timeout co p x logs s1
       | PollTurn \<Rightarrow>
           bindA (pending_control co) (\<lambda>c s2.
             case c of
               None \<Rightarrow> drive_loop co p x deadline f logs s2
             | Some control \<Rightarrow> drive_control co x control s2) s1) s"

definition driveExecution ::
    "'w coordinator \<Rightarrow> prepared_attempt \<Rightarrow> persisted_execution_ref \<Rightarrow> ('w, drive_outcome) act" where
  "driveExecution co p x =
     bindA (case ab_maxDurationMs (rq_budget (pa_request p)) of
              None \<Rightarrow> returnA None
            | Some ms \<Rightarrow> bindA (ask (dc_clock co)) (\<lambda>now. returnA (Some (now + ms)))) (\<lambda>deadline.
     drive_loop co p x deadline \<lparr>of_seen = [], of_usageSeen = False\<rparr> [])"

section \<open>Committing an outcome\<close>

text \<open>
  The transitions of \<open>finishResult\<close>, each one commit. A failed attempt that changed the workspace
  pauses the run, one within its budget is retried, the last one fails the run.
\<close>

definition blocked_payloads :: "run_state \<Rightarrow> string \<Rightarrow> int \<Rightarrow> string \<Rightarrow> run_event_payload list" where
  "blocked_payloads s nid n reason =
     [AttemptBlocked nid n reason, NodeBlocked nid reason] @ blockedNodePayloads s nid reason @
     [RunBlocked reason]"

definition cancelled_payloads :: "run_state \<Rightarrow> string \<Rightarrow> int \<Rightarrow> string \<Rightarrow> run_event_payload list" where
  "cancelled_payloads s nid n reason =
     [AttemptCancelled nid n reason] @ cancelNodePayloads s reason @ [RunCancelled None reason]"

definition failed_payloads :: "run_state \<Rightarrow> prepared_attempt \<Rightarrow> execution_failure \<Rightarrow>
    bool \<times> workspace_difference list \<Rightarrow> run_event_payload list" where
  "failed_payloads s p failure comparison =
     AttemptFailed (pa_nodeId p) (pa_attempt p) failure #
     (if \<not> fst comparison then
        [NodePaused (pa_nodeId p) (Some (WorkspaceConflictPause (snd comparison))),
         RunPaused (Some (WorkspaceConflictPause (snd comparison)))]
      else if pa_attempt p < ab_maxAttempts (nd_attemptBudget (pa_node p)) then
        [NodeReady (pa_nodeId p) RetryReason]
      else
        [NodeFailed (pa_nodeId p) failure] @
        blockedNodePayloads s (pa_nodeId p) ''A dependency failed'' @ [RunCompleted OutcomeFailed])"

definition succeeded_payloads :: "string \<Rightarrow> int \<Rightarrow> js \<Rightarrow> run_event_payload list" where
  "succeeded_payloads nid n out = [AttemptSucceeded nid n out, NodeSucceeded nid]"

text \<open>After a success: the nodes that may run now, and the end of the run.\<close>

definition release_dependents :: "'w coordinator \<Rightarrow> ('w, unit) act" where
  "release_dependents co =
     bindA session (\<lambda>x.
     if findExecutableNodes (ss_workflow x) (ss_state x) = [] then returnA ()
     else bindA (session_commit co (readyPayloads (findExecutableNodes (ss_workflow x) (ss_state x)))
            plain_commit) (\<lambda>_. returnA ()))"

definition complete_run :: "'w coordinator \<Rightarrow> ('w, unit) act" where
  "complete_run co =
     bindA session_state (\<lambda>t.
     if list_all (\<lambda>nd. n_status nd = NodeSucceededStatus) (node_values t) then
       bindA (session_commit co [RunCompleted OutcomeSucceeded] snapshot_commit) (\<lambda>_. returnA ())
     else returnA ())"

definition finishResult :: "'w coordinator \<Rightarrow> prepared_attempt \<Rightarrow> execution_result \<Rightarrow>
    run_event_payload list \<Rightarrow> bool \<times> workspace_difference list \<Rightarrow> ('w, unit) act" where
  "finishResult co p r evidence comparison =
     bindA session_state (\<lambda>s.
     case r of
       BlockedResult reason \<Rightarrow>
         bindA (session_commit co
           (evidence @ blocked_payloads s (pa_nodeId p) (pa_attempt p) reason) snapshot_commit)
           (\<lambda>_. returnA ())
     | CancelledResult reason \<Rightarrow>
         bindA (session_commit co
           (evidence @ cancelled_payloads s (pa_nodeId p) (pa_attempt p) reason) snapshot_commit)
           (\<lambda>_. returnA ())
     | _ \<Rightarrow>
         (case normalizedFailure co (pa_node p) r of
            Some failure \<Rightarrow>
              bindA (session_commit co (evidence @ failed_payloads s p failure comparison) snapshot_commit)
                (\<lambda>_. returnA ())
          | None \<Rightarrow>
              bindA (session_commit co
                (evidence @ succeeded_payloads (pa_nodeId p) (pa_attempt p) (res_output r)) snapshot_commit) (\<lambda>_.
              bindA (release_dependents co) (\<lambda>_. complete_run co))))"

text \<open>The artifacts of a terminal execution and its normalized result.\<close>

definition produced :: "'w coordinator \<Rightarrow> prepared_attempt \<Rightarrow> string \<Rightarrow> string \<Rightarrow> string \<Rightarrow>
    ('w, run_event_payload) act" where
  "produced co p type mediaType bytes =
     bindA (writeArtifact co (pa_nodeId p) (pa_attempt p) type mediaType bytes) (\<lambda>artifact.
     returnA (ArtifactProduced (pa_nodeId p) (pa_attempt p) artifact))"

definition command_evidence :: "'w coordinator \<Rightarrow> prepared_attempt \<Rightarrow> command_execution \<Rightarrow>
    ('w, run_event_payload list \<times> execution_result) act" where
  "command_evidence co p c =
     bindA (liftE (\<lambda>_. StoreFailure SerializationError)
              (serialized (canonicalJson (command_report_js (ce_output c))))) (\<lambda>report.
     bindA (produced co p ''stdout'' ''text/plain'' (ce_stdout c)) (\<lambda>out.
     bindA (produced co p ''stderr'' ''text/plain'' (ce_stderr c)) (\<lambda>err.
     bindA (produced co p ''command-result'' ''application/json'' report) (\<lambda>res.
     returnA ([out, err, res, CommandCompleted (pa_nodeId p) (pa_attempt p) (ce_output c)],
       case ce_failure c of
         Some f \<Rightarrow> FailedResult f
       | None \<Rightarrow> SucceededResult (command_report_js (ce_output c)))))))"

definition runtime_evidence :: "'w coordinator \<Rightarrow> prepared_attempt \<Rightarrow> execution_result \<Rightarrow> string \<Rightarrow>
    ('w, run_event_payload list \<times> execution_result) act" where
  "runtime_evidence co p r logs =
     bindA (checkA (assertExecutionResult r) InvalidResult) (\<lambda>_.
     bindA (produced co p ''logs'' ''text/plain'' logs) (\<lambda>log.
     case r of
       SucceededResult out \<Rightarrow>
         bindA (liftE (\<lambda>_. StoreFailure SerializationError) (serialized (canonicalJson out))) (\<lambda>bytes.
         bindA (produced co p ''worker-report'' ''application/json'' bytes) (\<lambda>report.
         returnA ([log, report], r)))
     | _ \<Rightarrow> returnA ([log], r)))"

definition result_evidence :: "'w coordinator \<Rightarrow> prepared_attempt \<Rightarrow> collected \<Rightarrow> string \<Rightarrow>
    ('w, run_event_payload list \<times> execution_result) act" where
  "result_evidence co p c logs =
     (case (ex_kind (pa_plan p), c) of
        (CommandKind, CommandCollected x) \<Rightarrow> command_evidence co p x
      | (RuntimeKind, RuntimeCollected r) \<Rightarrow> runtime_evidence co p r logs
      | _ \<Rightarrow> throwA WrongResultKind)"

text \<open>The final capture of the workspace, which always publishes its diff.\<close>

definition final_capture :: "'w coordinator \<Rightarrow> prepared_attempt \<Rightarrow>
    ('w, workspace_ref \<times> workspace_checkpoint \<times> artifact_ref) act" where
  "final_capture co p =
     bindA (require_workspace WorkspaceLost) (\<lambda>workspace.
     bindA (captureCheckpoint co workspace (pa_nodeId p) (pa_attempt p) True) (\<lambda>(checkpoint, artifact).
     case artifact of
       None \<Rightarrow> throwA DiffNotPublished
     | Some a \<Rightarrow> returnA (workspace, checkpoint, a)))"

definition observed_workspace ::
    "prepared_attempt \<Rightarrow> workspace_checkpoint \<Rightarrow> artifact_ref \<Rightarrow> run_event_payload list" where
  "observed_workspace p checkpoint a =
     [ArtifactProduced (pa_nodeId p) (pa_attempt p) a,
      WorkspaceObserved (pa_nodeId p) (pa_attempt p) (wc_headCommit checkpoint)
        (wc_changedFiles checkpoint) (ar_id a)]"

definition finishExecution ::
    "'w coordinator \<Rightarrow> prepared_attempt \<Rightarrow> collected \<Rightarrow> string \<Rightarrow> ('w, unit) act" where
  "finishExecution co p c logs =
     bindA (result_evidence co p c logs) (\<lambda>(evidence, result).
     bindA (final_capture co p) (\<lambda>(workspace, checkpoint, artifact).
     let comparison = dc_compare co (pa_checkpoint p) checkpoint;
         final = (if ws_mode workspace = ReadonlyMode \<and> \<not> fst comparison
                  then FailedResult \<lparr>f_category = PolicyViolation,
                         f_message = ''Readonly workspace was mutated''\<rparr>
                  else result)
     in finishResult co p final (evidence @ observed_workspace p checkpoint artifact) comparison))"

definition cleanup_payload ::
    "prepared_attempt \<Rightarrow> cleanup_cause \<Rightarrow> cleanup_outcome \<Rightarrow> run_event_payload" where
  "cleanup_payload p cause outcome =
     ExecutionCleanupObserved (pa_nodeId p) (pa_attempt p) (ex_executionId (pa_plan p)) cause outcome"

definition finishActiveControl :: "'w coordinator \<Rightarrow> prepared_attempt \<Rightarrow> control_request \<Rightarrow>
    execution_observation \<Rightarrow> ('w, unit) act" where
  "finishActiveControl co p c observation =
     (let cause = cause_of_action (ct_action c) in
      if \<not> observed_absent observation then
        bindA (session_commit co
          [cleanup_payload p cause UnknownCleanup,
           RunRecoveryBlocked (ct_operationId c) (CleanupUnknown (ex_executionId (pa_plan p)))]
          snapshot_commit) (\<lambda>_. returnA ())
      else
        bindA (final_capture co p) (\<lambda>(_, checkpoint, artifact).
        bindA session_state (\<lambda>s.
        let common = observed_workspace p checkpoint artifact @
              [cleanup_payload p cause ConfirmedCleanup,
               AttemptCancelled (pa_nodeId p) (pa_attempt p) (''operator-'' @ cause_name cause)]
        in bindA (session_commit co
          (common @
           (case ct_action c of
              PauseAction \<Rightarrow>
                [NodePaused (pa_nodeId p) (Some (OperatorPause (ct_operationId c))),
                 RunPaused (Some (OperatorPause (ct_operationId c)))]
            | CancelAction \<Rightarrow>
                cancelNodePayloads s ''operator'' @
                [RunCancelled (Some (ct_operationId c)) ''operator''])) snapshot_commit) (\<lambda>_.
        returnA ()))))"

definition finishTimeout :: "'w coordinator \<Rightarrow> prepared_attempt \<Rightarrow> execution_observation \<Rightarrow> string \<Rightarrow>
    ('w, unit) act" where
  "finishTimeout co p observation logs =
     (let absent = observed_absent observation;
          timeoutEvidence =
            [AttemptCancellationCompleted (pa_nodeId p) (pa_attempt p)
               (if absent then CancelSucceeded else CancelFailed),
             cleanup_payload p TimeoutCause (if absent then ConfirmedCleanup else UnknownCleanup)] in
      if \<not> absent then
        bindA (ask (dc_createOperationId co)) (\<lambda>opId.
        bindA (session_commit co
          (timeoutEvidence @ [RunRecoveryBlocked opId (CleanupUnknown (ex_executionId (pa_plan p)))])
          snapshot_commit) (\<lambda>_. returnA ()))
      else
        bindA (final_capture co p) (\<lambda>(_, checkpoint, artifact).
        bindA (produced co p ''logs'' ''text/plain'' logs) (\<lambda>log.
        finishResult co p
          (FailedResult \<lparr>f_category = BudgetExhausted,
             f_message = ''Attempt exceeded its duration limit''\<rparr>)
          (timeoutEvidence @ [log] @ observed_workspace p checkpoint artifact)
          (dc_compare co (pa_checkpoint p) checkpoint))))"

section \<open>Executing a ready node\<close>

definition authorized_start :: "'w coordinator \<Rightarrow> prepared_attempt \<Rightarrow> persisted_execution_ref \<Rightarrow>
    ('w, unit) act" where
  "authorized_start co p x =
     bindA (session_commit co [AttemptStartAuthorized (pa_nodeId p) (pa_attempt p) x] plain_commit) (\<lambda>_.
     guard co (host_authorize co x))"

definition run_prepared :: "'w coordinator \<Rightarrow> prepared_attempt \<Rightarrow> ('w, unit) act" where
  "run_prepared co p =
     bindA (guard co (host_prepare co (pa_launch p))) (\<lambda>x.
     bindA (authorized_start co p x) (\<lambda>_.
     bindA (driveExecution co p x) (\<lambda>driven.
     case driven of
       DriveControl c observation \<Rightarrow> finishActiveControl co p c observation
     | DriveTimeout observation logs \<Rightarrow> finishTimeout co p observation logs
     | DriveResult result logs \<Rightarrow> finishExecution co p result logs)))"

definition executeReadyNode ::
    "'w coordinator \<Rightarrow> string \<Rightarrow> runtime_descriptor \<Rightarrow> ('w, unit) act" where
  "executeReadyNode co nid d =
     bindA (prepareAttempt co nid d) (\<lambda>p.
     catchA (run_prepared co p) (\<lambda>e.
       bindA (catchA (bindA (await co (host_terminate co (pa_plan p))) (\<lambda>_. returnA ()))
                (\<lambda>_. returnA ())) (\<lambda>_. throwA e)))"

end
