(* ===== verification/Durable_Coordinator.thy ===== *)
theory Durable_Coordinator
  imports Coordinator_Execution
begin

text \<open>
  Recovery, the scheduling loop and the entry points of \<open>DurableRunCoordinator\<close>
  (\<open>engine/src/durable-coordinator.ts\<close>): what a coordinator does with an attempt that another one
  left behind, and \<open>createRun\<close>, \<open>start\<close>, \<open>resume\<close>, \<open>submitControl\<close> and \<open>inspect\<close>.
\<close>

section \<open>Reconciling an attempt that is still owned\<close>

definition commit_transition :: "'w coordinator \<Rightarrow> run_event_payload list \<Rightarrow> ('w, unit) act" where
  "commit_transition co payloads = bindA (session_commit co payloads snapshot_commit) (\<lambda>_. returnA ())"

definition recovery_cause :: "control_request option \<Rightarrow> cleanup_cause" where
  "recovery_cause control = (case control of None \<Rightarrow> RecoveryCause | Some c \<Rightarrow> cause_of_action (ct_action c))"

definition recovery_operation :: "control_request option \<Rightarrow> string \<Rightarrow> string" where
  "recovery_operation control opId = (case control of None \<Rightarrow> opId | Some c \<Rightarrow> ct_operationId c)"

text \<open>A cleanup is recorded once for each cause.\<close>

definition cleanup_evidence_payloads :: "string \<Rightarrow> attempt_state \<Rightarrow> execution_plan_ref \<Rightarrow> cleanup_cause \<Rightarrow>
    cleanup_outcome \<Rightarrow> run_event_payload list" where
  "cleanup_evidence_payloads nid a plan cause outcome =
     (if list_ex (\<lambda>c. cl_cause c = cause) (cleanup_list a) then []
      else [ExecutionCleanupObserved nid (a_number a) (ex_executionId plan) cause outcome])"

definition blockExecutionUnknown :: "'w coordinator \<Rightarrow> string \<Rightarrow> execution_plan_ref \<Rightarrow>
    execution_observation_reason \<Rightarrow> ('w, unit) act" where
  "blockExecutionUnknown co opId plan reason =
     commit_transition co [RunRecoveryBlocked opId (ExecutionUnknown (ex_executionId plan) reason)]"

definition terminate_recovered :: "'w coordinator \<Rightarrow> string \<Rightarrow> attempt_state \<Rightarrow> execution_plan_ref \<Rightarrow>
    control_request option \<Rightarrow> string \<Rightarrow> ('w, bool) act" where
  "terminate_recovered co nid a plan control opId =
     bindA (guard co (host_terminate co plan)) (\<lambda>observation.
     if observed_absent observation then returnA True
     else bindA (commit_transition co
            (cleanup_evidence_payloads nid a plan (recovery_cause control) UnknownCleanup @
             [RunRecoveryBlocked (recovery_operation control opId) (CleanupUnknown (ex_executionId plan))]))
            (\<lambda>_. returnA False))"

definition establishRecoveredAbsence :: "'w coordinator \<Rightarrow> string \<Rightarrow> attempt_state \<Rightarrow> execution_plan_ref \<Rightarrow>
    control_request option \<Rightarrow> string \<Rightarrow> ('w, bool) act" where
  "establishRecoveredAbsence co nid a plan control opId =
     bindA (guard co (host_inspect co plan)) (\<lambda>observation.
     case observation of
       UnknownObservation _ reason \<Rightarrow>
         bindA (blockExecutionUnknown co (recovery_operation control opId) plan reason) (\<lambda>_. returnA False)
     | AbsentObservation _ _ \<Rightarrow> returnA True
     | ActiveObservation _ \<Rightarrow> terminate_recovered co nid a plan control opId)"

definition finishRecoveredControl :: "'w coordinator \<Rightarrow> string \<Rightarrow> control_request \<Rightarrow> ('w, unit) act" where
  "finishRecoveredControl co nid c =
     (case ct_action c of
        PauseAction \<Rightarrow>
          commit_transition co [NodePaused nid (Some (OperatorPause (ct_operationId c))),
                      RunPaused (Some (OperatorPause (ct_operationId c)))]
      | CancelAction \<Rightarrow>
          bindA session_state (\<lambda>s.
          commit_transition co (cancelNodePayloads s ''operator'' @
            [RunCancelled (Some (ct_operationId c)) ''operator''])))"

text \<open>
  \<open>continueOrphaned\<close>: an orphaned attempt is replaced only when its workspace is unchanged, its
  budget allows another one and the runtime is available; otherwise the run pauses.
\<close>

definition pause_node :: "'w coordinator \<Rightarrow> string \<Rightarrow> pause_reason \<Rightarrow> ('w, unit) act" where
  "pause_node co nid reason = commit_transition co [NodePaused nid (Some reason), RunPaused (Some reason)]"

definition continueOrphaned :: "'w coordinator \<Rightarrow> string \<Rightarrow> runtime_descriptor \<Rightarrow> string \<Rightarrow> ('w, unit) act" where
  "continueOrphaned co nid d opId =
     bindA session (\<lambda>x.
     case (map_of (wf_nodes (ss_workflow x)) nid,
           Option.bind (find_node (ss_state x) nid)
             (\<lambda>nd. Option.bind (last_attempt nd) (\<lambda>a. map_option (Pair a) (a_orphan a)))) of
       (Some node, Some (a, orphan)) \<Rightarrow>
         if or_workspaceDifferences orphan \<noteq> [] then
           pause_node co nid (WorkspaceConflictPause (or_workspaceDifferences orphan))
         else if ab_maxAttempts (nd_attemptBudget node) \<le> a_number a then
           pause_node co nid (BudgetExhaustedPause nid (a_number a))
         else bindA (preflight co d) (\<lambda>outcome.
           case outcome of
             PreflightRefused reason \<Rightarrow> pauseForPreflight co reason (Some nid)
           | PreflightReady _ \<Rightarrow>
               bindA session_state (\<lambda>s.
               commit_transition co (NodeReady nid RecoveredReason #
                 (if rs_status s = RunRecoveryBlockedStatus then [RunResumed (Some opId)] else []))))
     | _ \<Rightarrow> throwA OrphanRequired)"

definition orphan_payload :: "string \<Rightarrow> attempt_state \<Rightarrow> execution_plan_ref \<Rightarrow> workspace_checkpoint \<Rightarrow>
    workspace_difference list \<Rightarrow> run_event_payload" where
  "orphan_payload nid a plan observed differences =
     AttemptOrphaned nid (a_number a)
       \<lparr>or_executionId = ex_executionId plan, or_lostGeneration = ex_generation plan,
        or_reason = (if a_status a = Prepared then LaunchInterrupted else CoordinatorLost),
        or_workspaceObservation = observed, or_workspaceDifferences = differences,
        or_terminalArtifactId = None\<rparr>"

definition orphan_attempt :: "'w coordinator \<Rightarrow> string \<Rightarrow> attempt_state \<Rightarrow> execution_plan_ref \<Rightarrow>
    control_request option \<Rightarrow> ('w, unit) act" where
  "orphan_attempt co nid a plan control =
     bindA session_state (\<lambda>s.
     case (filesystem_workspace s, a_workspaceCheckpoint a) of
       (Some workspace, Some expected) \<Rightarrow>
         bindA (captureCheckpoint co workspace nid (a_number a) True) (\<lambda>(observed, artifact).
         commit_transition co
           ((case artifact of None \<Rightarrow> [] | Some r \<Rightarrow> [ArtifactProduced nid (a_number a) r]) @
            cleanup_evidence_payloads nid a plan (recovery_cause control) ConfirmedCleanup @
            [orphan_payload nid a plan observed (snd (dc_compare co expected observed))]))
     | _ \<Rightarrow> throwA (StoreFailure (StoreError CorruptStore)))"

definition reconcileOwnedAttempt :: "'w coordinator \<Rightarrow> string \<Rightarrow> attempt_state \<Rightarrow> execution_plan_ref \<Rightarrow>
    control_request option \<Rightarrow> bool \<Rightarrow> string \<Rightarrow> runtime_descriptor \<Rightarrow> ('w, unit) act" where
  "reconcileOwnedAttempt co nid a plan control alreadyObserved opId d =
     bindA (case control of
              None \<Rightarrow> returnA ()
            | Some c \<Rightarrow> if alreadyObserved then returnA () else observeControl co c) (\<lambda>_.
     bindA (establishRecoveredAbsence co nid a plan control opId) (\<lambda>absent.
     if \<not> absent then returnA ()
     else bindA (orphan_attempt co nid a plan control) (\<lambda>_.
       case control of
         Some c \<Rightarrow> finishRecoveredControl co nid c
       | None \<Rightarrow> continueOrphaned co nid d opId)))"

section \<open>Resuming a paused run\<close>

text \<open>
  Whether the paused nodes allow the run to resume: none has used up its budget, and one that was
  paused by a conflict has its workspace back as the attempt left it.
\<close>

fun paused_nodes_ready :: "'w coordinator \<Rightarrow> run_state \<Rightarrow> workflow_definition \<Rightarrow> node_run_state list \<Rightarrow>
    ('w, bool) act" where
  "paused_nodes_ready co s w [] = returnA True"
| "paused_nodes_ready co s w (nd # rest) =
     (case map_of (wf_nodes w) (n_id nd) of
        None \<Rightarrow> returnA False
      | Some node \<Rightarrow>
          if (case n_pauseReason nd of Some (BudgetExhaustedPause _ _) \<Rightarrow> True | _ \<Rightarrow> False) then returnA False
          else if (case last_attempt nd of None \<Rightarrow> False
                   | Some a \<Rightarrow> ab_maxAttempts (nd_attemptBudget node) \<le> a_number a) then returnA False
          else if (case n_pauseReason nd of Some (WorkspaceConflictPause _) \<Rightarrow> True | _ \<Rightarrow> False) then
            (case (filesystem_workspace s, Option.bind (last_attempt nd) a_workspaceCheckpoint) of
               (Some workspace, Some expected) \<Rightarrow>
                 bindA (guard co (call (dc_capture co workspace))) (\<lambda>(observed, _).
                 if fst (dc_compare co expected observed) then paused_nodes_ready co s w rest
                 else returnA False)
             | _ \<Rightarrow> returnA False)
          else paused_nodes_ready co s w rest)"

definition resumePaused :: "'w coordinator \<Rightarrow> runtime_descriptor \<Rightarrow> string \<Rightarrow> ('w, unit) act" where
  "resumePaused co d opId =
     bindA session (\<lambda>x.
     let s = ss_state x;
         paused = filter (\<lambda>nd. n_status nd = NodePausedStatus) (object_values (rs_nodes s)) in
     bindA (paused_nodes_ready co s (ss_workflow x) paused) (\<lambda>ready.
     if \<not> ready then returnA ()
     else bindA (preflight co d) (\<lambda>outcome.
       case outcome of
         PreflightRefused _ \<Rightarrow> returnA ()
       | PreflightReady _ \<Rightarrow>
           commit_transition co (map (\<lambda>nd. NodeReady (n_id nd) ResumedReason) paused @ [RunResumed (Some opId)]))))"

section \<open>The scheduling loop\<close>

text \<open>The first ready node, after the executable nodes were made ready if none was; \<open>None\<close>: nothing to do.\<close>

definition next_ready :: "'w coordinator \<Rightarrow> ('w, string option) act" where
  "next_ready co =
     bindA session (\<lambda>x.
     case findReadyNodes (ss_workflow x) (ss_state x) of
       nid # _ \<Rightarrow> returnA (Some nid)
     | [] \<Rightarrow>
         (case findExecutableNodes (ss_workflow x) (ss_state x) of
            [] \<Rightarrow> returnA None
          | executable \<Rightarrow>
              bindA (session_commit co (readyPayloads executable) plain_commit) (\<lambda>_.
              bindA session (\<lambda>y.
              case findReadyNodes (ss_workflow y) (ss_state y) of
                nid # _ \<Rightarrow> returnA (Some nid)
              | [] \<Rightarrow> throwA NoReadyNode))))"

definition run_ready :: "'w coordinator \<Rightarrow> string \<Rightarrow> runtime_descriptor \<Rightarrow> ('w, unit) act" where
  "run_ready co nid d =
     bindA (ensureAttemptBudget co nid) (\<lambda>within.
     if \<not> within then returnA ()
     else bindA (preflight co d) (\<lambda>outcome.
       case outcome of
         PreflightRefused reason \<Rightarrow> pauseForPreflight co reason None
       | PreflightReady _ \<Rightarrow> executeReadyNode co nid d))"

text \<open>One pass of the loop: \<open>False\<close> when there is nothing left to schedule.\<close>

definition coordinate_step :: "'w coordinator \<Rightarrow> runtime_descriptor \<Rightarrow> ('w, bool) act" where
  "coordinate_step co d =
     bindA (pending_control co) (\<lambda>control.
     case control of
       Some c \<Rightarrow> bindA (applyBoundaryControl co c True) (\<lambda>_. returnA True)
     | None \<Rightarrow>
         bindA (next_ready co) (\<lambda>ready.
         case ready of
           None \<Rightarrow> returnA False
         | Some nid \<Rightarrow> bindA (run_ready co nid d) (\<lambda>_. returnA True)))"

partial_function (option) coordinateRunning ::
    "'w coordinator \<Rightarrow> runtime_descriptor \<Rightarrow> 'w machine \<Rightarrow> ((coord_error + run_state) \<times> 'w machine) option" where
  "coordinateRunning co d s =
     bindA session_state (\<lambda>t s1.
       if rs_status t \<noteq> RunRunning then returnA t s1
       else bindA (coordinate_step co d) (\<lambda>more s2.
              if more then coordinateRunning co d s2 else session_state s2) s1) s"

section \<open>Recovery\<close>

text \<open>An attempt whose record cannot be reconciled: without a plan, or running without its execution.\<close>

definition reconcilable_plan :: "attempt_state \<Rightarrow> execution_plan_ref option" where
  "reconcilable_plan a =
     (if a_status a = Running \<and> a_execution a = None then None else a_executionPlan a)"

definition settle_recovered :: "'w coordinator \<Rightarrow> control_request option \<Rightarrow> bool \<Rightarrow> runtime_descriptor \<Rightarrow>
    string \<Rightarrow> ('w, unit) act" where
  "settle_recovered co pending alreadyObserved d opId =
     bindA session_state (\<lambda>s.
     case currentOwnedAttempt s of
       Some (nid, a) \<Rightarrow>
         (case reconcilable_plan a of
            None \<Rightarrow> throwA (StoreFailure (StoreError CorruptStore))
          | Some plan \<Rightarrow> reconcileOwnedAttempt co nid a plan pending alreadyObserved opId d)
     | None \<Rightarrow>
         (case pending of
            None \<Rightarrow> returnA ()
          | Some c \<Rightarrow> applyBoundaryControl co c (\<not> alreadyObserved)))"

definition continue_recovered :: "'w coordinator \<Rightarrow> runtime_descriptor \<Rightarrow> string \<Rightarrow> ('w, run_state) act" where
  "continue_recovered co d opId =
     bindA session_state (\<lambda>s.
     if rs_status s = RunRecoveryBlockedStatus \<and> currentOrphanedAttempt s = None then returnA s
     else
     bindA (case (rs_status s = RunRecoveryBlockedStatus, currentOrphanedAttempt s) of
              (True, Some nid) \<Rightarrow> continueOrphaned co nid d opId
            | _ \<Rightarrow> returnA ()) (\<lambda>_.
     bindA session_state (\<lambda>t.
     bindA (if rs_status t = RunIsPaused then resumePaused co d opId else returnA ()) (\<lambda>_.
     bindA session_state (\<lambda>u.
     if rs_status u \<noteq> RunRunning then returnA u else coordinateRunning co d)))))"

definition coordinateRecovered :: "'w coordinator \<Rightarrow> run_event list \<Rightarrow> runtime_descriptor \<Rightarrow> string \<Rightarrow>
    ('w, run_state) act" where
  "coordinateRecovered co events d opId =
     (let outstanding = outstandingObservedControl events in
      bindA (case outstanding of None \<Rightarrow> pending_control co | Some c \<Rightarrow> returnA (Some c)) (\<lambda>pending.
      bindA (settle_recovered co pending (outstanding \<noteq> None) d opId) (\<lambda>_.
      if pending \<noteq> None then session_state else continue_recovered co d opId)))"

definition acquisition :: "'w coordinator \<Rightarrow> string \<Rightarrow> ('w, acquire_released_run) act" where
  "acquisition co runId =
     bindA (ask (dc_createOwnerId co)) (\<lambda>ownerId.
     returnA \<lparr>aq_runId = runId, aq_ownerId = ownerId, aq_owner = dc_ownerIdentity co\<rparr>)"

definition acquireForRecovery :: "'w coordinator \<Rightarrow> string \<Rightarrow> ('w, run_lease_token) act" where
  "acquireForRecovery co runId =
     bindA (acquisition co runId) (\<lambda>i.
     bindA (await co (store_read (\<lambda>st. inspectLease st runId))) (\<lambda>lease.
     case lease of
       None \<Rightarrow> throwA (StoreFailure (StoreError CorruptStore))
     | Some l \<Rightarrow>
         if le_released l then await co (store_change co (\<lambda>now st. acquireReleased now st i))
         else bindA (await co (call (dc_observe co (le_owner l)))) (\<lambda>observation.
           case observation of
             AliveProcess _ \<Rightarrow> throwA (OwnershipBlocked OwnerAlive l (Some observation))
           | UnknownProcess _ _ \<Rightarrow> throwA (OwnershipBlocked OwnerUnknown l (Some observation))
           | AbsentProcess observedAt \<Rightarrow>
               if observedAt < le_expiresAtMs l
               then throwA (OwnershipBlocked LeaseActive l (Some observation))
               else await co (store_change co (\<lambda>now st. takeoverExpired now st
                 (acquire_released_run.extend i
                   \<lparr>aq_observedLease = l, aq_absenceObservedAtMs = observedAt\<rparr>))))))"

section \<open>Entry points\<close>

definition parseDescriptor :: "'w coordinator \<Rightarrow> runtime_descriptor \<Rightarrow> ('w, runtime_descriptor) act" where
  "parseDescriptor co d =
     (case dc_parse co d of
        None \<Rightarrow> throwA BoundaryFailure
      | Some parsed \<Rightarrow>
          bindA (checkA (assertRuntimeDescriptor parsed) DescriptorRejected) (\<lambda>_.
          bindA (checkA (canonicalJson (descriptor_js parsed) = canonicalJson (descriptor_js d))
                   DescriptorChanged) (\<lambda>_. returnA parsed)))"

record create_durable_run =
  cu_runId :: "string option"
  cu_inputs :: "(string \<times> js) list"
  cu_workspace :: workspace_ref
  cu_descriptor :: runtime_descriptor

definition initial_history :: "workflow_definition \<Rightarrow> create_durable_run \<Rightarrow> string \<Rightarrow> runtime_descriptor \<Rightarrow>
    reducer_error + run_event list \<times> run_state" where
  "initial_history w i runId d =
     bindE (materializeEvents None runId
       [RunCreated (runId @ '':root'') (wm_id (wf_metadata w)) (wm_version (wf_metadata w))
          (wf_nodeOrder w) (cu_inputs i)]) (\<lambda>(created, s0).
     bindE (materializeEvents (Some s0) runId
       ([RuntimeConfigured d, WorkspaceAssigned (cu_workspace i)] @
        readyPayloads (findExecutableNodes w s0))) (\<lambda>(initialized, s1).
     Inr (created @ initialized, s1)))"

definition initializeOwnedRun ::
    "'w coordinator \<Rightarrow> workflow_definition \<Rightarrow> create_durable_run \<Rightarrow> ('w, unit) act" where
  "initializeOwnedRun co w i =
     bindA (parseDescriptor co (cu_descriptor i)) (\<lambda>d.
     bindA (liftE id (validateDurableRunInputs co w (cu_inputs i) (cu_workspace i) d)) (\<lambda>_.
     bindA (case cu_runId i of None \<Rightarrow> ask (dc_createRunId co) | Some r \<Rightarrow> returnA r) (\<lambda>runId.
     bindA (liftE ReducerFailure (initial_history w i runId d)) (\<lambda>(events, s).
     bindA (liftE StoreFailure (createRunSnapshot (dc_env co) w events)) (\<lambda>snapshot.
     bindA (ask (dc_createOwnerId co)) (\<lambda>ownerId.
     bindA (ask (dc_createOperationId co)) (\<lambda>operationId.
     bindA (await co (store_change co (\<lambda>now st. bindE (createOwned (dc_env co) now st
       \<lparr>co_runId = runId, co_workflow = w, co_initialEvents = events, co_ownerId = ownerId,
        co_owner = dc_ownerIdentity co, co_operationId = operationId, co_snapshot = snapshot\<rparr>)
       (\<lambda>(st', lease, receipt). Inr (st', lease))))) (\<lambda>lease.
     open_session \<lparr>ss_lease = lease, ss_workflow = w, ss_state = s,
       ss_prefixDigest = sn_eventPrefixDigest snapshot, ss_heartbeatFailed = False,
       ss_mutationFailed = False, ss_stopped = False\<rparr>))))))))"

text \<open>
  \<open>finishOwnedSession\<close>: stop the heartbeat and release the lease whatever the operation did; its
  own failure is reported first.
\<close>

definition release_lease :: "'w coordinator \<Rightarrow> ('w, unit) act" where
  "release_lease co =
     bindA session (\<lambda>x. await co (store_update (\<lambda>st. releaseLease st (ss_lease x))))"

definition finishOwnedSession :: "'w coordinator \<Rightarrow> ('w, run_state) act \<Rightarrow> ('w, run_state) act" where
  "finishOwnedSession co operation =
     bindA (catchA (bindA operation (\<lambda>t. returnA (Inr t))) (\<lambda>e. returnA (Inl e))) (\<lambda>outcome.
     bindA session_stop (\<lambda>_.
     case outcome of
       Inl e \<Rightarrow> bindA (catchA (release_lease co) (\<lambda>_. returnA ())) (\<lambda>_. throwA e)
     | Inr t \<Rightarrow> bindA (release_lease co) (\<lambda>_. returnA t)))"

definition createRun :: "'w coordinator \<Rightarrow> workflow_definition \<Rightarrow> create_durable_run \<Rightarrow> ('w, run_state) act" where
  "createRun co w i =
     bindA (initializeOwnedRun co w i) (\<lambda>_. finishOwnedSession co session_state)"

definition start :: "'w coordinator \<Rightarrow> workflow_definition \<Rightarrow> create_durable_run \<Rightarrow> ('w, run_state) act" where
  "start co w i =
     bindA (parseDescriptor co (cu_descriptor i)) (\<lambda>d.
     bindA (initializeOwnedRun co w (i\<lparr>cu_descriptor := d\<rparr>)) (\<lambda>_.
     finishOwnedSession co (coordinateRunning co d)))"

definition coordinator_submitControl :: "'w coordinator \<Rightarrow> string \<Rightarrow> control_action \<Rightarrow> string option \<Rightarrow>
    ('w, control_request \<times> bool) act" where
  "coordinator_submitControl co runId action operationId =
     bindA (case operationId of None \<Rightarrow> ask (dc_createOperationId co) | Some i \<Rightarrow> returnA i) (\<lambda>opId.
     await co (store_change co (\<lambda>now st. submitControl now st
       \<lparr>ct_runId = runId, ct_operationId = opId, ct_action = action\<rparr>)))"

definition requireCompleteRun :: "'w coordinator \<Rightarrow> string \<Rightarrow> ('w, loaded_run) act" where
  "requireCompleteRun co runId =
     bindA (await co (store_read (\<lambda>st. loadRun (dc_env co) st runId True))) (\<lambda>loaded.
     case loaded of None \<Rightarrow> throwA (RunNotFoundFailure runId) | Some l \<Rightarrow> returnA l)"

definition resume :: "'w coordinator \<Rightarrow> string \<Rightarrow> string option \<Rightarrow> ('w, run_state) act" where
  "resume co runId operationId =
     bindA (case operationId of None \<Rightarrow> ask (dc_createOperationId co) | Some i \<Rightarrow> returnA i) (\<lambda>opId.
     bindA (requireCompleteRun co runId) (\<lambda>loaded.
     let s = ld_state loaded in
     if isTerminalRun s \<or> rs_status s = RunIsBlocked then returnA s
     else case rs_runtimeDescriptor s of
       None \<Rightarrow> throwA (StoreFailure (StoreError CorruptStore))
     | Some persisted \<Rightarrow>
         bindA (parseDescriptor co persisted) (\<lambda>d.
         bindA (acquireForRecovery co runId) (\<lambda>lease.
         bindA (open_session \<lparr>ss_lease = lease, ss_workflow = ld_workflow loaded, ss_state = s,
           ss_prefixDigest = ld_eventPrefixDigest loaded, ss_heartbeatFailed = False,
           ss_mutationFailed = False, ss_stopped = False\<rparr>) (\<lambda>_.
         finishOwnedSession co (coordinateRecovered co (ld_events loaded) d opId))))))"

definition inspect_run :: "'w coordinator \<Rightarrow> string \<Rightarrow> ('w, run_state option) act" where
  "inspect_run co runId =
     bindA (await co (store_read (\<lambda>st. loadRun (dc_env co) st runId False))) (\<lambda>loaded.
     returnA (map_option ld_state loaded))"

end
