(* ===== verification/Coordinator_Rules.thy ===== *)
theory Coordinator_Rules
  imports Durable_Coordinator
begin

text \<open>
  Reasoning about coordinators. \<open>triple P m Q E\<close>: started where \<open>P\<close> holds, whatever \<open>m\<close> returns
  satisfies \<open>Q\<close> and whatever it throws leaves \<open>E\<close>; \<open>keeps I m\<close> is the invariant form. Two locales
  carry an invariant of the primitive steps (the world acting, a call, a commit, an authorized
  start) through every method of the coordinator, once for all invariants.
\<close>

named_theorems keeps_intros \<open>computations that keep an invariant\<close>

section \<open>Triples\<close>

definition triple :: "('w machine \<Rightarrow> bool) \<Rightarrow> ('w, 'a) act \<Rightarrow> ('a \<Rightarrow> 'w machine \<Rightarrow> bool) \<Rightarrow>
    ('w machine \<Rightarrow> bool) \<Rightarrow> bool" where
  "triple P m Q E \<longleftrightarrow>
     (\<forall>s r s'. P s \<longrightarrow> m s = Some (r, s') \<longrightarrow> (case r of Inl e \<Rightarrow> E s' | Inr x \<Rightarrow> Q x s'))"

definition keeps :: "('w machine \<Rightarrow> bool) \<Rightarrow> ('w, 'a) act \<Rightarrow> bool" where
  "keeps I m \<longleftrightarrow> triple I m (\<lambda>_. I) I"

lemma tripleI:
  assumes "\<And>s x s'. P s \<Longrightarrow> m s = Some (Inr x, s') \<Longrightarrow> Q x s'"
    and "\<And>s e s'. P s \<Longrightarrow> m s = Some (Inl e, s') \<Longrightarrow> E s'"
  shows "triple P m Q E"
  using assms by (auto simp: triple_def split: sum.splits)

lemma tripleD: "triple P m Q E \<Longrightarrow> m s = Some (Inr x, s') \<Longrightarrow> P s \<Longrightarrow> Q x s'"
  by (fastforce simp: triple_def)

lemma tripleD_error: "triple P m Q E \<Longrightarrow> m s = Some (Inl e, s') \<Longrightarrow> P s \<Longrightarrow> E s'"
  by (fastforce simp: triple_def)

lemma keepsD: "keeps I m \<Longrightarrow> m s = Some (r, s') \<Longrightarrow> I s \<Longrightarrow> I s'"
  by (cases r) (auto simp: keeps_def dest: tripleD tripleD_error)

lemma keepsI: "(\<And>s r s'. I s \<Longrightarrow> m s = Some (r, s') \<Longrightarrow> I s') \<Longrightarrow> keeps I m"
  by (auto simp: keeps_def intro!: tripleI)

lemma triple_weaken:
  assumes "triple P m Q E" and "\<And>s. P' s \<Longrightarrow> P s" and "\<And>x s. Q x s \<Longrightarrow> Q' x s" and "\<And>s. E s \<Longrightarrow> E' s"
  shows "triple P' m Q' E'"
  using assms by (intro tripleI) (meson tripleD tripleD_error)+

lemma bindA_Some_iff:
  "bindA m f s = Some (r, s') \<longleftrightarrow>
     (\<exists>e. m s = Some (Inl e, s') \<and> r = Inl e) \<or>
     (\<exists>x s1. m s = Some (Inr x, s1) \<and> f x s1 = Some (r, s'))"
  by (cases "m s") (auto simp: bindA_def split: sum.splits)

lemma catchA_Some_iff:
  "catchA m h s = Some (r, s') \<longleftrightarrow>
     (\<exists>x. m s = Some (Inr x, s') \<and> r = Inr x) \<or>
     (\<exists>e s1. m s = Some (Inl e, s1) \<and> h e s1 = Some (r, s'))"
  by (cases "m s") (auto simp: catchA_def split: sum.splits)

lemma triple_bind:
  assumes "triple P m Q E" and "\<And>x. triple (Q x) (f x) R E"
  shows "triple P (bindA m f) R E"
proof (rule tripleI)
  fix s y s'
  assume "P s" "bindA m f s = Some (Inr y, s')"
  then show "R y s'" using assms by (auto simp: bindA_Some_iff) (meson tripleD)
next
  fix s e s'
  assume "P s" "bindA m f s = Some (Inl e, s')"
  then show "E s'" using assms by (auto simp: bindA_Some_iff) (meson tripleD tripleD_error)+
qed

lemma triple_return: "(\<And>s. P s \<Longrightarrow> Q x s) \<Longrightarrow> triple P (returnA x) Q E"
  by (auto simp: returnA_def intro!: tripleI)

lemma triple_throw: "(\<And>s. P s \<Longrightarrow> E s) \<Longrightarrow> triple P (throwA e) Q E"
  by (auto simp: throwA_def intro!: tripleI)

lemma triple_check: "(\<And>s. P s \<Longrightarrow> b \<Longrightarrow> Q () s) \<Longrightarrow> (\<And>s. P s \<Longrightarrow> E s) \<Longrightarrow> triple P (checkA b e) Q E"
  by (auto simp: checkA_def intro: triple_return triple_throw)

lemma triple_lift:
  "(\<And>s x. P s \<Longrightarrow> r = Inr x \<Longrightarrow> Q x s) \<Longrightarrow> (\<And>s. P s \<Longrightarrow> E s) \<Longrightarrow> triple P (liftE f r) Q E"
  by (auto simp: liftE_def intro: triple_return triple_throw split: sum.splits)

lemma triple_keeps: "keeps I m \<Longrightarrow> triple I m (\<lambda>_. I) I"
  by (simp add: keeps_def)

lemma keeps_triple: "keeps I m \<Longrightarrow> (\<And>s. P s \<Longrightarrow> I s) \<Longrightarrow> (\<And>x s. I s \<Longrightarrow> Q x s) \<Longrightarrow> (\<And>s. I s \<Longrightarrow> E s) \<Longrightarrow>
    triple P m Q E"
  by (rule triple_weaken [OF triple_keeps])

section \<open>Computations that keep an invariant\<close>

lemma keeps_return [keeps_intros]: "keeps I (returnA x)"
  by (simp add: keeps_def triple_return)

lemma keeps_throw [keeps_intros]: "keeps I (throwA e)"
  by (simp add: keeps_def triple_throw)

lemma keeps_bind [keeps_intros]: "keeps I m \<Longrightarrow> (\<And>x. keeps I (f x)) \<Longrightarrow> keeps I (bindA m f)"
  by (rule keepsI) (auto simp: bindA_Some_iff dest: keepsD)

lemma keeps_catch [keeps_intros]: "keeps I m \<Longrightarrow> (\<And>e. keeps I (h e)) \<Longrightarrow> keeps I (catchA m h)"
  by (rule keepsI) (auto simp: catchA_Some_iff dest: keepsD)

lemma keeps_check [keeps_intros]: "keeps I (checkA b e)"
  by (simp add: checkA_def keeps_intros)

lemma keeps_lift [keeps_intros]: "keeps I (liftE f r)"
  by (simp add: liftE_def keeps_intros split: sum.split)

lemma keeps_if [keeps_intros]: "(b \<Longrightarrow> keeps I m) \<Longrightarrow> (\<not> b \<Longrightarrow> keeps I n) \<Longrightarrow> keeps I (if b then m else n)"
  by simp

lemma keeps_option [keeps_intros]:
  "keeps I m \<Longrightarrow> (\<And>x. keeps I (f x)) \<Longrightarrow> keeps I (case v of None \<Rightarrow> m | Some x \<Rightarrow> f x)"
  by (cases v) simp_all

lemma keeps_list [keeps_intros]:
  "keeps I m \<Longrightarrow> (\<And>x xs. keeps I (f x xs)) \<Longrightarrow> keeps I (case v of [] \<Rightarrow> m | x # xs \<Rightarrow> f x xs)"
  by (cases v) simp_all

lemma keeps_prod [keeps_intros]: "(\<And>x y. keeps I (f x y)) \<Longrightarrow> keeps I (case p of (x, y) \<Rightarrow> f x y)"
  by (cases p) simp

lemma keeps_let [keeps_intros]: "(\<And>x. keeps I (f x)) \<Longrightarrow> keeps I (let x = v in f x)"
  by (simp add: Let_def)

lemma keeps_session [keeps_intros]: "keeps I session"
  by (auto simp: session_def intro!: keepsI split: option.splits)

lemma keeps_session_state [keeps_intros]: "keeps I session_state"
  by (simp add: session_state_def keeps_intros)

lemma keeps_healthy [keeps_intros]: "keeps I assertHealthy"
  by (simp add: assertHealthy_def keeps_intros)

lemma keeps_answered [keeps_intros]: "keeps I (answered x)"
  by (simp add: answered_def keeps_intros)

lemma keeps_store_read [keeps_intros]: "keeps I (store_read f)"
  by (auto simp: store_read_def intro!: keepsI split: sum.splits)

lemma keeps_require_workspace [keeps_intros]: "keeps I (require_workspace e)"
  by (simp add: require_workspace_def keeps_intros)

end
