(* ===== verification/Coordinator_Invariants.thy ===== *)
theory Coordinator_Invariants
  imports Coordinator_Rules
begin

text \<open>
  An invariant of the primitive steps of a coordinator is an invariant of all of it.
  \<open>quiet_invariant\<close> asks for what a session does without launching anything, \<open>session_invariant\<close> adds
  the launch of a prepared attempt; a commit that schedules an attempt is asked for separately
  (\<open>coordinator_invariant\<close>), because it may need what the scheduling loop has checked before;
  \<open>unconditional_invariant\<close> is the common case in which every commit keeps the invariant.
\<close>

definition schedules :: "run_event_payload \<Rightarrow> bool" where
  "schedules p = (case p of AttemptScheduled _ _ _ \<Rightarrow> True | _ \<Rightarrow> False)"

definition unscheduled :: "run_event_payload list \<Rightarrow> bool" where
  "unscheduled ps \<longleftrightarrow> list_all (\<lambda>p. \<not> schedules p) ps"

lemma unscheduled_simps [simp]:
  "unscheduled []"
  "unscheduled (p # ps) \<longleftrightarrow> \<not> schedules p \<and> unscheduled ps"
  "unscheduled (ps @ qs) \<longleftrightarrow> unscheduled ps \<and> unscheduled qs"
  by (auto simp: unscheduled_def)

lemma unscheduled_payloads [simp]:
  "unscheduled (blockedNodePayloads s nid r)"
  "unscheduled (cancelNodePayloads s r)"
  "unscheduled (readyPayloads nids)"
  "unscheduled (blocked_payloads s nid n r)"
  "unscheduled (cancelled_payloads s nid n r)"
  "unscheduled (failed_payloads s p f c)"
  "unscheduled (succeeded_payloads nid n out)"
  "unscheduled (observed_workspace p cp a)"
  "unscheduled (cleanup_evidence_payloads nid at plan cause oc)"
  "\<not> schedules (controlObservedPayload ctl)"
  "\<not> schedules (cleanup_payload p cause oc)"
  "\<not> schedules (orphan_payload nid at plan cp ds)"
  by (auto simp: unscheduled_def schedules_def list_all_iff blockedNodePayloads_def
      cancelNodePayloads_def readyPayloads_def blocked_payloads_def cancelled_payloads_def
      failed_payloads_def succeeded_payloads_def observed_workspace_def cleanup_evidence_payloads_def
      controlObservedPayload_def cleanup_payload_def orphan_payload_def)

lemma schedules_simps [simp]:
  "schedules (AttemptScheduled nid n r)"
  "\<not> schedules (RuntimeNegotiated ng)" "\<not> schedules (ArtifactProduced nid n a)"
  "\<not> schedules (CommandCompleted nid n out)" "\<not> schedules (AttemptTimeoutRequested nid n)"
  "\<not> schedules (AttemptCancellationCompleted nid n oc)" "\<not> schedules (NodeReady nid rr)"
  "\<not> schedules (AttemptPrepared nid n plan cp)" "\<not> schedules (AttemptStartAuthorized nid n x)"
  "\<not> schedules (RuntimeEventObserved nid n e)" "\<not> schedules (AttemptCancelled nid n r)"
  "\<not> schedules (NodePaused nid pr)" "\<not> schedules (RunPaused pr)" "\<not> schedules (RunResumed opId)"
  "\<not> schedules (RunRecoveryBlocked op rb)" "\<not> schedules (RunCancelled opId' r)"
  "\<not> schedules (RunCompleted oc')"
  by (simp_all add: schedules_def)

text \<open>The induction rules of the two loops, over their arguments.\<close>

lemmas drive_loop_induct = drive_loop.raw_induct
  [of _ "((((((co, p), x), deadline), f), logs), s)" for co p x deadline f logs s,
   unfolded prod.case, rotated 1, consumes 1, case_names step]

lemmas coordinateRunning_induct = coordinateRunning.raw_induct [rotated 1, consumes 1, case_names step]

section \<open>Sessions\<close>

definition launches :: "host_call \<Rightarrow> bool" where
  "launches c \<longleftrightarrow> (case c of PrepareCall _ _ \<Rightarrow> True | AuthorizeCall _ _ \<Rightarrow> True | _ \<Rightarrow> False)"

lemma launches_simps [simp]:
  "launches (PrepareCall p y)" "launches (AuthorizeCall x ok)" "\<not> launches (InspectCall plan ob)"
  "\<not> launches (TerminateCall plan ob)" "\<not> launches (CancelCall x ob)" "\<not> launches (CommitCall m rc)"
  by (simp_all add: launches_def)

locale quiet_invariant =
  fixes co :: "'w coordinator" and I :: "'w machine \<Rightarrow> bool"
  assumes world_kept: "I s \<Longrightarrow> I (s\<lparr>mx_world := w\<rparr>)"
    and ambient_kept: "I s \<Longrightarrow> I (ambient_step (dc_env co) a s)"
    and call_kept: "I s \<Longrightarrow> \<not> launches c \<Longrightarrow> I (s\<lparr>mx_calls := mx_calls s @ [(c, mx_store s)]\<rparr>)"
    and commit_kept: "unscheduled ps \<Longrightarrow> keeps I (session_commit co ps opts)"
    and stop_kept: "keeps I session_stop"
begin

lemma ambient_steps: "I s \<Longrightarrow> I (fold (ambient_step (dc_env co)) events s)"
  by (induction events arbitrary: s) (simp_all add: ambient_kept)

lemma keeps_ambient: "keeps I (ambient co)"
  by (auto simp: ambient_def intro!: keepsI ambient_steps world_kept split: prod.splits)

lemma keeps_await: "keeps I m \<Longrightarrow> keeps I (await co m)"
  by (simp add: await_def keeps_intros keeps_ambient)

lemma keeps_guard: "keeps I m \<Longrightarrow> keeps I (guard co m)"
  by (simp add: guard_def keeps_intros keeps_await)

lemma keeps_ask: "keeps I (ask f)"
  by (auto simp: ask_def intro!: keepsI world_kept split: prod.splits)

lemma keeps_call: "keeps I (call f)"
  by (simp add: call_def keeps_intros keeps_ask)

lemma keeps_host: "(\<And>y. \<not> launches (entry y)) \<Longrightarrow> keeps I (host f entry)"
proof (rule keepsI)
  fix s r s'
  assume entry: "\<And>y. \<not> launches (entry y)" and "I s" and "host f entry s = Some (r, s')"
  then obtain x w where s': "s' = s\<lparr>mx_world := w, mx_calls := mx_calls s @ [(entry x, mx_store s)]\<rparr>"
    by (auto simp: host_def split: prod.splits)
  from call_kept [OF world_kept [OF \<open>I s\<close>] entry, of w x] s' show "I s'" by simp
qed

lemma keeps_host_calls:
  "keeps I (host_inspect co plan)" "keeps I (host_terminate co plan)" "keeps I (owned_cancel co x)"
  by (simp_all add: host_inspect_def host_terminate_def owned_cancel_def keeps_intros keeps_host)

text \<open>The other operations of the store are steps that any process could have taken.\<close>

lemma keeps_store_op:
  assumes "\<And>now st st' y. f now st = Inr (st', y) \<Longrightarrow> memory_run_op (dc_env co) now st op = Inr st'"
  shows "keeps I (store_change co f)"
proof (rule keepsI)
  fix s r s'
  assume I: "I s" and run: "store_change co f s = Some (r, s')"
  obtain now w where w: "dc_clock co (mx_world s) = (now, w)" by fastforce
  show "I s'"
  proof (cases "f now (mx_store s)")
    case (Inl e)
    with run w world_kept [OF I, of w] show ?thesis by (simp add: store_change_def)
  next
    case (Inr v)
    obtain st y where v: "v = (st, y)" by (cases v)
    with assms Inr have "memory_run_op (dc_env co) now (mx_store s) op = Inr st" by simp
    with ambient_kept [OF world_kept [OF I, of w], of "ForeignOp now op"] run w Inr v show ?thesis
      by (simp add: store_change_def ambient_step_def attempt_op_def)
  qed
qed

lemmas session_intros = keeps_intros keeps_await keeps_guard keeps_ask keeps_call keeps_host_calls
  commit_kept

lemma keeps_pending_control: "keeps I (pending_control co)"
  unfolding pending_control_def by (intro session_intros)

lemma keeps_writeArtifact: "keeps I (writeArtifact co nid n t mt b)"
  unfolding writeArtifact_def by (intro session_intros)

lemma keeps_captureCheckpoint: "keeps I (captureCheckpoint co w nid n always)"
  unfolding captureCheckpoint_def by (intro session_intros keeps_writeArtifact)

lemma keeps_create_adapter: "keeps I (create_adapter co d)"
  unfolding create_adapter_def
  by (rule keeps_bind [OF keeps_ask]) (auto intro: session_intros split: adapter_outcome.split)

lemma keeps_probe_adapter: "keeps I (probe_adapter co a mode)"
  unfolding probe_adapter_def by (intro session_intros)

lemma keeps_preflight: "keeps I (preflight co d)"
  unfolding preflight_def
  by (intro session_intros keeps_create_adapter keeps_probe_adapter) simp

lemma keeps_transition: "unscheduled ps \<Longrightarrow> keeps I (commit_transition co ps)"
  unfolding commit_transition_def by (intro session_intros)

lemma keeps_pauseForPreflight: "keeps I (pauseForPreflight co reason active)"
  unfolding pauseForPreflight_def by (intro session_intros) (simp split: option.split)

lemma keeps_ensureAttemptBudget: "keeps I (ensureAttemptBudget co nid)"
  unfolding ensureAttemptBudget_def Let_def
  by (rule keeps_bind [OF keeps_session]) (auto intro!: session_intros split: option.split)

lemma keeps_observeControl: "keeps I (observeControl co c)"
  unfolding observeControl_def by (intro session_intros) simp

lemma keeps_applyBoundaryControl: "keeps I (applyBoundaryControl co c observe)"
  unfolding applyBoundaryControl_def by (intro session_intros) (simp split: control_action.split)

lemma keeps_wait: "keeps I (waitForExecutionTurn co x deadline)"
  unfolding waitForExecutionTurn_def
  by (intro session_intros) (auto intro!: session_intros split: event_race.split option.split)

lemma keeps_drive_ends:
  "keeps I (drive_timeout co p x logs)" "keeps I (drive_control co x c)"
  unfolding drive_timeout_def drive_control_def
  by (intro session_intros keeps_observeControl; simp)+

lemma keeps_drive_loop: "keeps I (drive_loop co p x deadline f logs)"
proof -
  have "co' = co \<Longrightarrow> I s \<Longrightarrow> I (snd y)" if "drive_loop co' p x deadline f logs s = Some y" for co' p x deadline f logs s y
    using that
  proof (induction rule: drive_loop_induct)
    case (step loop co' p x deadline f logs s y)
    have loop: "keeps I (loop co p x deadline f logs)" for p x deadline f logs
      using step.IH step.prems(1) by (intro keepsI) fastforce
    have "keeps I (\<lambda>s1. case turn of
        DoneTurn \<Rightarrow> bindA (guard co (call (dc_collect co x))) (\<lambda>result. returnA (DriveResult result logs)) s1
      | EventTurn e \<Rightarrow>
          bindA (checkA (valid_observation e) InvalidObservation) (\<lambda>_.
          bindA (liftE id (filter_accept f e)) (\<lambda>accepted s2.
            if fst accepted then
              bindA (session_commit co [RuntimeEventObserved (pa_nodeId p) (pa_attempt p) e] plain_commit)
                (\<lambda>_ s3. loop co p x deadline (snd accepted) (append_log logs e) s3) s2
            else loop co p x deadline (snd accepted) logs s2)) s1
      | TimeoutTurn \<Rightarrow> drive_timeout co p x logs s1
      | PollTurn \<Rightarrow>
          bindA (pending_control co) (\<lambda>c s2.
            case c of
              None \<Rightarrow> loop co p x deadline f logs s2
            | Some control \<Rightarrow> drive_control co x control s2) s1)" for turn
    proof (cases turn)
      case (EventTurn e)
      have "keeps I (\<lambda>s2. if fst accepted then
              bindA (session_commit co [RuntimeEventObserved (pa_nodeId p) (pa_attempt p) e] plain_commit)
                (\<lambda>_ s3. loop co p x deadline (snd accepted) (append_log logs e) s3) s2
            else loop co p x deadline (snd accepted) logs s2)" for accepted
        by (cases "fst accepted") (auto intro!: session_intros loop)
      with EventTurn show ?thesis by (auto intro!: session_intros)
    next
      case PollTurn
      have "keeps I (\<lambda>s2. case c of None \<Rightarrow> loop co p x deadline f logs s2
            | Some control \<Rightarrow> drive_control co x control s2)" for c
        by (cases c) (simp_all add: loop keeps_drive_ends)
      with PollTurn show ?thesis by (auto intro!: session_intros keeps_pending_control)
    qed (auto intro!: session_intros keeps_drive_ends)
    note all = keeps_bind [OF keeps_guard [OF keeps_wait], OF this]
    obtain r s' where y: "y = (r, s')" by (cases y)
    from keepsD [OF all step.hyps [unfolded step.prems(1) y] step.prems(2)] y show ?case by simp
  qed
  then show ?thesis by (intro keepsI) fastforce
qed

lemma keeps_driveExecution: "keeps I (driveExecution co p x)"
  unfolding driveExecution_def by (intro session_intros keeps_drive_loop)

lemma keeps_release_dependents: "keeps I (release_dependents co)"
  unfolding release_dependents_def by (intro session_intros) simp

lemma keeps_complete_run: "keeps I (complete_run co)"
  unfolding complete_run_def by (intro session_intros) simp

lemma keeps_finishResult: "unscheduled evidence \<Longrightarrow> keeps I (finishResult co p r evidence comparison)"
  unfolding finishResult_def
  by (rule keeps_bind [OF keeps_session_state], cases r)
    (auto intro!: session_intros keeps_release_dependents keeps_complete_run)

lemma keeps_produced: "keeps I (produced co p t mt b)"
  unfolding produced_def by (intro session_intros keeps_writeArtifact)

lemma keeps_result_evidence: "keeps I (result_evidence co p c logs)"
  unfolding result_evidence_def command_evidence_def runtime_evidence_def
  by (auto intro!: session_intros keeps_produced split: execution_kind.split collected.split
      execution_result.split)

lemma keeps_final_capture: "keeps I (final_capture co p)"
  unfolding final_capture_def by (intro session_intros keeps_captureCheckpoint)

end

text \<open>Evidence never schedules an attempt.\<close>

lemma produced_unscheduled: "produced co p t mt b s = Some (Inr e, s') \<Longrightarrow> \<not> schedules e"
  by (auto simp: produced_def bindA_Some_iff returnA_def)

lemma runtime_evidence_unscheduled:
  "runtime_evidence co p r logs s = Some (Inr (evidence, r'), s') \<Longrightarrow> unscheduled evidence"
  by (cases r) (auto simp: runtime_evidence_def bindA_Some_iff returnA_def dest: produced_unscheduled)

lemma command_evidence_unscheduled:
  "command_evidence co p c s = Some (Inr (evidence, r), s') \<Longrightarrow> unscheduled evidence"
  by (auto simp: command_evidence_def bindA_Some_iff returnA_def dest: produced_unscheduled)

lemma result_evidence_unscheduled:
  "result_evidence co p c logs s = Some (Inr (evidence, r), s') \<Longrightarrow> unscheduled evidence"
  by (auto simp: result_evidence_def throwA_def
      dest: runtime_evidence_unscheduled command_evidence_unscheduled
      split: execution_kind.splits collected.splits)

lemma triple_value:
  assumes "keeps I m" and "\<And>s x s'. m s = Some (Inr x, s') \<Longrightarrow> V x" and "\<And>x. V x \<Longrightarrow> keeps I (f x)"
  shows "keeps I (bindA m f)"
proof (rule keepsI)
  fix s r s'
  assume "I s" "bindA m f s = Some (r, s')"
  then show "I s'" using assms by (auto simp: bindA_Some_iff dest: keepsD) (meson keepsD)
qed

context quiet_invariant begin

lemma keeps_finishExecution: "keeps I (finishExecution co p c logs)"
  unfolding finishExecution_def
proof (rule triple_value [where V = "\<lambda>(evidence, r). unscheduled evidence"])
  show "keeps I (result_evidence co p c logs)" by (rule keeps_result_evidence)
  show "case x of (evidence, r) \<Rightarrow> unscheduled evidence"
    if "result_evidence co p c logs s = Some (Inr x, s')" for s x s'
    using that by (cases x) (auto dest: result_evidence_unscheduled)
  show "keeps I (case x of (evidence, result) \<Rightarrow>
      bindA (final_capture co p) (\<lambda>(workspace, checkpoint, artifact).
        let comparison = dc_compare co (pa_checkpoint p) checkpoint;
            final = (if ws_mode workspace = ReadonlyMode \<and> \<not> fst comparison
                     then FailedResult \<lparr>f_category = PolicyViolation,
                            f_message = ''Readonly workspace was mutated''\<rparr>
                     else result)
        in finishResult co p final (evidence @ observed_workspace p checkpoint artifact) comparison))"
    if "case x of (evidence, r) \<Rightarrow> unscheduled evidence" for x
    using that by (cases x) (auto intro!: session_intros keeps_final_capture keeps_finishResult simp: Let_def)
qed

lemma keeps_finishActiveControl: "keeps I (finishActiveControl co p c observation)"
  unfolding finishActiveControl_def Let_def
  by (intro session_intros keeps_final_capture) (auto split: control_action.split)

lemma keeps_finishTimeout: "keeps I (finishTimeout co p observation logs)"
proof -
  have logged: "keeps I (bindA (produced co p t mt b) (\<lambda>log. finishResult co p r (es @ [log] @ fs) c))"
    if "unscheduled es" "unscheduled fs" for t mt b r es fs c
    using that
    by (intro triple_value [where V = "\<lambda>e. \<not> schedules e"])
      (auto intro: keeps_produced keeps_finishResult dest: produced_unscheduled)
  show ?thesis
    unfolding finishTimeout_def Let_def by (intro session_intros keeps_final_capture logged) simp_all
qed

text \<open>Recovery, up to the point where nodes are scheduled again.\<close>

lemma keeps_terminate_recovered: "keeps I (terminate_recovered co nid a plan control opId)"
  unfolding terminate_recovered_def by (intro session_intros keeps_transition) simp

lemma keeps_establishRecoveredAbsence: "keeps I (establishRecoveredAbsence co nid a plan control opId)"
  unfolding establishRecoveredAbsence_def blockExecutionUnknown_def
  by (rule keeps_bind [OF keeps_guard [OF keeps_host_calls(1)]])
    (auto intro!: session_intros keeps_transition keeps_terminate_recovered split: execution_observation.split)

lemma keeps_finishRecoveredControl: "keeps I (finishRecoveredControl co nid c)"
  unfolding finishRecoveredControl_def
  by (cases "ct_action c") (auto intro!: session_intros keeps_transition)

lemma keeps_continueOrphaned: "keeps I (continueOrphaned co nid d opId)"
proof -
  have "keeps I (case outcome of PreflightRefused reason \<Rightarrow> pauseForPreflight co reason (Some nid)
      | PreflightReady ng \<Rightarrow> bindA session_state (\<lambda>s. commit_transition co (NodeReady nid RecoveredReason #
          (if rs_status s = RunRecoveryBlockedStatus then [RunResumed (Some opId)] else []))))" for outcome
    by (cases outcome) (auto intro!: session_intros keeps_transition keeps_pauseForPreflight)
  then show ?thesis
    unfolding continueOrphaned_def pause_node_def
    by (intro session_intros) (auto intro!: session_intros keeps_transition keeps_preflight split: option.split)
qed

lemma keeps_orphan_attempt: "keeps I (orphan_attempt co nid a plan control)"
  unfolding orphan_attempt_def
  by (intro session_intros)
    (auto intro!: session_intros keeps_captureCheckpoint keeps_transition split: option.split)

lemma keeps_reconcile: "keeps I (reconcileOwnedAttempt co nid a plan control observed opId d)"
  unfolding reconcileOwnedAttempt_def
  by (intro session_intros keeps_observeControl keeps_establishRecoveredAbsence keeps_orphan_attempt
      keeps_finishRecoveredControl keeps_continueOrphaned)

lemma keeps_paused_nodes_ready: "keeps I (paused_nodes_ready co s w nds)"
  by (induction nds) (auto intro!: session_intros split: option.split)

lemma keeps_resumePaused: "keeps I (resumePaused co d opId)"
proof -
  have "keeps I (case outcome of PreflightRefused reason \<Rightarrow> returnA ()
      | PreflightReady ng \<Rightarrow> commit_transition co
          (map (\<lambda>nd. NodeReady (n_id nd) ResumedReason) nds @ [RunResumed (Some opId)]))" for outcome nds
    by (cases outcome) (auto intro!: session_intros keeps_transition simp: unscheduled_def list_all_iff)
  then show ?thesis
    unfolding resumePaused_def Let_def
    by (intro session_intros keeps_paused_nodes_ready keeps_preflight)
qed

lemma keeps_settle_recovered: "keeps I (settle_recovered co pending observed d opId)"
  unfolding settle_recovered_def
  by (intro session_intros keeps_reconcile keeps_applyBoundaryControl)

lemma keeps_next_ready: "keeps I (next_ready co)"
  unfolding next_ready_def by (intro session_intros) simp

end

text \<open>
  A session may also launch: prepare an execution, and authorize it after the commit that says so.
\<close>

locale session_invariant = quiet_invariant co I
  for co :: "'w coordinator" and I :: "'w machine \<Rightarrow> bool" +
  assumes prepare_call_kept: "I s \<Longrightarrow> I (s\<lparr>mx_calls := mx_calls s @ [(PrepareCall p y, mx_store s)]\<rparr>)"
    and start_kept: "keeps I (authorized_start co pa x)"
begin

lemma keeps_host_prepare: "keeps I (host_prepare co p)"
proof -
  have "keeps I (host f (PrepareCall p))" for f
  proof (rule keepsI)
    fix s r s'
    assume "I s" and "host f (PrepareCall p) s = Some (r, s')"
    then obtain x w where
      s': "s' = s\<lparr>mx_world := w, mx_calls := mx_calls s @ [(PrepareCall p x, mx_store s)]\<rparr>"
      by (auto simp: host_def split: prod.splits)
    from prepare_call_kept [OF world_kept [OF \<open>I s\<close>, of w], of p x] s' show "I s'" by simp
  qed
  then show ?thesis by (simp add: host_prepare_def keeps_intros)
qed

lemma keeps_run_prepared: "keeps I (run_prepared co p)"
  unfolding run_prepared_def
proof (intro session_intros keeps_host_prepare start_kept keeps_driveExecution)
  show "keeps I (case driven of DriveResult result logs \<Rightarrow> finishExecution co p result logs
      | DriveControl c observation \<Rightarrow> finishActiveControl co p c observation
      | DriveTimeout observation logs \<Rightarrow> finishTimeout co p observation logs)" for driven
    by (cases driven) (simp_all add: keeps_finishExecution keeps_finishActiveControl keeps_finishTimeout)
qed

end

section \<open>The scheduling loop\<close>

text \<open>
  \<open>B nid\<close> is what the loop has established when it schedules the node: the check of the budget
  gives it, preflight keeps it, and preparing the attempt may rely on it.
\<close>

locale coordinator_invariant = session_invariant co I
  for co :: "'w coordinator" and I :: "'w machine \<Rightarrow> bool" +
  fixes B :: "string \<Rightarrow> 'w machine \<Rightarrow> bool"
  assumes budget_checked: "triple I (ensureAttemptBudget co nid) (\<lambda>ok s. I s \<and> (ok \<longrightarrow> B nid s)) I"
    and preflight_kept: "triple (\<lambda>s. I s \<and> B nid s) (preflight co d) (\<lambda>_ s. I s \<and> B nid s) I"
    and prepare_kept: "triple (\<lambda>s. I s \<and> B nid s) (prepareAttempt co nid d) (\<lambda>_. I) I"
begin

lemma execute_kept: "triple (\<lambda>s. I s \<and> B nid s) (executeReadyNode co nid d) (\<lambda>_. I) I"
  unfolding executeReadyNode_def
proof (rule triple_bind [OF prepare_kept])
  show "triple I (catchA (run_prepared co p) (\<lambda>e.
      bindA (catchA (bindA (await co (host_terminate co (pa_plan p))) (\<lambda>_. returnA ()))
        (\<lambda>_. returnA ())) (\<lambda>_. throwA e))) (\<lambda>_. I) I" for p
    by (intro triple_keeps session_intros keeps_run_prepared)
qed

lemma keeps_run_ready: "keeps I (run_ready co nid d)"
  unfolding keeps_def run_ready_def
proof (rule triple_bind [OF budget_checked])
  fix within
  have "triple (\<lambda>s. I s \<and> B nid s) (case outcome of
        PreflightReady ng \<Rightarrow> executeReadyNode co nid d
      | PreflightRefused reason \<Rightarrow> pauseForPreflight co reason None) (\<lambda>_. I) I" for outcome
    by (cases outcome) (auto intro: execute_kept keeps_triple [OF keeps_pauseForPreflight])
  then have "triple (\<lambda>s. I s \<and> B nid s) (bindA (preflight co d) (\<lambda>outcome. case outcome of
        PreflightReady ng \<Rightarrow> executeReadyNode co nid d
      | PreflightRefused reason \<Rightarrow> pauseForPreflight co reason None)) (\<lambda>_. I) I"
    by (intro triple_bind [OF preflight_kept])
  then show "triple (\<lambda>s. I s \<and> (within \<longrightarrow> B nid s))
      (if \<not> within then returnA () else bindA (preflight co d) (\<lambda>outcome. case outcome of
         PreflightReady ng \<Rightarrow> executeReadyNode co nid d
       | PreflightRefused reason \<Rightarrow> pauseForPreflight co reason None)) (\<lambda>_. I) I"
    by (cases within) (simp_all add: triple_return)
qed

lemma keeps_coordinate_step: "keeps I (coordinate_step co d)"
  unfolding coordinate_step_def
  by (intro session_intros keeps_pending_control keeps_applyBoundaryControl keeps_next_ready keeps_run_ready)

lemma keeps_coordinateRunning: "keeps I (coordinateRunning co d)"
proof -
  have "co' = co \<Longrightarrow> I s \<Longrightarrow> I (snd y)" if "coordinateRunning co' d s = Some y" for co' d s y
    using that
  proof (induction rule: coordinateRunning_induct)
    case (step loop co' d s y)
    have loop: "keeps I (loop co d)" for d
      using step.IH step.prems(1) by (intro keepsI) fastforce
    have more: "keeps I (\<lambda>s2. if more then loop co d s2 else session_state s2)" for more
      by (cases more) (simp_all add: loop keeps_session_state)
    have "keeps I (\<lambda>s1. if rs_status t \<noteq> RunRunning then returnA t s1
        else bindA (coordinate_step co d) (\<lambda>more s2. if more then loop co d s2 else session_state s2) s1)" for t
      using keeps_bind [OF keeps_coordinate_step more] by (cases "rs_status t = RunRunning") (simp_all add: keeps_return)
    note all = keeps_bind [OF keeps_session_state, OF this]
    obtain r s' where y: "y = (r, s')" by (cases y)
    from keepsD [OF all step.hyps [unfolded step.prems(1) y] step.prems(2)] y show ?case by simp
  qed
  then show ?thesis by (intro keepsI) fastforce
qed

lemma keeps_continue_recovered: "keeps I (continue_recovered co d opId)"
  unfolding continue_recovered_def
  by (intro session_intros keeps_resumePaused keeps_coordinateRunning)
    (auto intro: session_intros keeps_continueOrphaned split: bool.split option.split)

lemma keeps_coordinateRecovered: "keeps I (coordinateRecovered co events d opId)"
  unfolding coordinateRecovered_def
  by (intro session_intros keeps_pending_control keeps_settle_recovered keeps_continue_recovered)

end

text \<open>Invariants that every commit keeps.\<close>

locale unconditional_invariant = session_invariant co I
  for co :: "'w coordinator" and I :: "'w machine \<Rightarrow> bool" +
  assumes any_commit_kept: "keeps I (session_commit co ps opts)"
begin

lemma keeps_prepareAttempt: "keeps I (prepareAttempt co nid d)"
proof -
  have "keeps I (case (a, b, c) of (Some node, Some nd, Some workspace) \<Rightarrow> f node nd workspace | _ \<Rightarrow> throwA e)"
    if "\<And>node nd workspace. keeps I (f node nd workspace)"
    for a :: "'x option" and b :: "'y option" and c :: "'z option" and f e
    using that by (auto intro: keeps_throw split: option.split)
  then show ?thesis
    unfolding prepareAttempt_def Let_def
    by (intro session_intros keeps_captureCheckpoint keeps_writeArtifact any_commit_kept)
qed

end

sublocale unconditional_invariant \<subseteq> coordinator_invariant co I "\<lambda>_ _. True"
proof unfold_locales
  show "triple I (ensureAttemptBudget co nid) (\<lambda>ok s. I s \<and> (ok \<longrightarrow> True)) I" for nid
    using keeps_ensureAttemptBudget by (simp add: keeps_def)
  show "triple (\<lambda>s. I s \<and> True) (preflight co d) (\<lambda>_ s. I s \<and> True) I" for nid :: string and d
    using keeps_preflight by (simp add: keeps_def)
  show "triple (\<lambda>s. I s \<and> True) (prepareAttempt co nid d) (\<lambda>_. I) I" for nid d
    using keeps_prepareAttempt by (simp add: keeps_def)
qed

end
