(* ===== verification/Coordinator_Commits.thy ===== *)
theory Coordinator_Commits
  imports Coordinator_Invariants
begin

text \<open>
  What a commit of a session does. Between two of its own steps a coordinator only drifts: the
  store advances by operations of others and renewals, and the session may be marked as failed.
  A commit is a drift, or a drift around one mutation of the store, after which the session has
  moved on to the new state unless the commit failed on the way back.
\<close>

section \<open>Drift\<close>

definition same_session :: "owned_session \<Rightarrow> owned_session \<Rightarrow> bool" where
  "same_session x y \<longleftrightarrow>
     ss_lease y = ss_lease x \<and> ss_workflow y = ss_workflow x \<and> ss_state y = ss_state x \<and>
     ss_prefixDigest y = ss_prefixDigest x"

lemma same_session_refl [simp]: "same_session x x"
  by (simp add: same_session_def)

lemma same_session_trans: "same_session x y \<Longrightarrow> same_session y z \<Longrightarrow> same_session x z"
  by (simp add: same_session_def)

definition drift :: "'w coordinator \<Rightarrow> 'w machine \<Rightarrow> 'w machine \<Rightarrow> bool" where
  "drift co s s' \<longleftrightarrow>
     (\<exists>ops. mx_store s' = run_ops (dc_env co) (mx_store s) ops) \<and> mx_calls s' = mx_calls s \<and>
     rel_option same_session (mx_session s) (mx_session s')"

lemma drift_refl [simp]: "drift co s s"
  by (auto simp: drift_def intro: option.rel_refl exI [of _ "[]"])

lemma drift_trans: "drift co s t \<Longrightarrow> drift co t u \<Longrightarrow> drift co s u"
  by (auto simp: drift_def run_ops_append [symmetric] option_rel_Some1 option_rel_Some2
      elim!: option.rel_cases intro: same_session_trans)

lemma drift_world [simp]: "drift co s (s\<lparr>mx_world := w\<rparr>)"
  by (auto simp: drift_def intro: option.rel_refl exI [of _ "[]"])

lemma drift_flags: "(\<And>x. same_session x (f x)) \<Longrightarrow> drift co s (s\<lparr>mx_session := map_option f (mx_session s)\<rparr>)"
  by (cases "mx_session s") (auto simp: drift_def intro: exI [of _ "[]"])

lemma drift_ambient_step: "drift co s (ambient_step (dc_env co) a s)"
proof (cases a)
  case (ForeignOp now op)
  then show ?thesis
    by (auto simp: drift_def ambient_step_def intro!: option.rel_refl exI [of _ "[(now, op)]"])
next
  case (HeartbeatTick now)
  have "\<exists>ops. st' = run_ops (dc_env co) st ops" if "renewLease now st t = Inr (st', l)" for st st' t l
    using that by (intro exI [of _ "[(now, RenewOp t)]"]) (simp add: attempt_op_def)
  with HeartbeatTick show ?thesis
    by (cases "mx_session s")
      (auto simp: drift_def ambient_step_def same_session_def intro: exI [of _ "[]"] split: sum.split)
qed

lemma drift_ambient_steps: "drift co s (fold (ambient_step (dc_env co)) events s)"
  by (induction events arbitrary: s) (auto intro: drift_trans [OF drift_ambient_step])

lemma drift_ambient: "ambient co s = Some (r, s') \<Longrightarrow> r = Inr () \<and> drift co s s'"
  by (auto simp: ambient_def intro: drift_trans [OF drift_world] drift_ambient_steps split: prod.splits)

lemma drift_ask: "ask f s = Some (r, s') \<Longrightarrow> drift co s s'"
  by (auto simp: ask_def split: prod.splits)

lemma healthy_Some: "assertHealthy s = Some (r, s') \<Longrightarrow> s' = s"
  by (auto simp: assertHealthy_def session_def bindA_Some_iff checkA_def returnA_def throwA_def
      split: option.splits if_splits)

text \<open>A guarded call happens between two drifts; if the guard throws, it may have happened or not.\<close>

lemma guard_Some:
  assumes "guard co m s = Some (r, s')"
  shows "(\<exists>e. r = Inl e \<and> drift co s s') \<or>
    (\<exists>s1 s2 q. drift co s s1 \<and> m s1 = Some (q, s2) \<and> drift co s2 s' \<and>
       (case r of Inl _ \<Rightarrow> True | Inr x \<Rightarrow> q = Inr x))"
proof -
  consider (early) e where "r = Inl e" "s' = s"
    | (ran) q s1 where "await co m s = Some (q, s1)" "s' = s1" "case r of Inl _ \<Rightarrow> True | Inr x \<Rightarrow> q = Inr x"
    using assms
    by (auto simp: guard_def bindA_Some_iff returnA_def dest!: healthy_Some)
  then show ?thesis
  proof cases
    case early
    then show ?thesis by auto
  next
    case ran
    then obtain s0 where s0: "ambient co s = Some (Inr (), s0)"
      and rest: "bindA m (\<lambda>x. bindA (ambient co) (\<lambda>_. returnA x)) s0 = Some (q, s1)"
      by (auto simp: await_def bindA_Some_iff dest: drift_ambient)
    then have "\<exists>p s2. m s0 = Some (p, s2) \<and> drift co s2 s1 \<and> (case q of Inl _ \<Rightarrow> True | Inr x \<Rightarrow> p = Inr x)"
      by (auto simp: bindA_Some_iff returnA_def dest: drift_ambient)
    with ran s0 show ?thesis by (fastforce dest: drift_ambient split: sum.splits)
  qed
qed

section \<open>Commits\<close>

definition session_mutation_of :: "owned_session \<Rightarrow> run_event list \<Rightarrow> fenced_run_mutation \<Rightarrow> bool" where
  "session_mutation_of x events m \<longleftrightarrow>
     mu_lease m = ss_lease x \<and> mu_expectedSequence m = rs_sequence (ss_state x) \<and> mu_events m = events"

text \<open>The store after a mutation of the session, and the call on record.\<close>

definition stored_mutation ::
    "'w coordinator \<Rightarrow> owned_session \<Rightarrow> run_event list \<Rightarrow> 'w machine \<Rightarrow> 'w machine \<Rightarrow> bool" where
  "stored_mutation co x events s s' \<longleftrightarrow>
     (\<exists>m now st rc. session_mutation_of x events m \<and>
        commitMutation (dc_env co) now (mx_store s) m = Inr (st, rc) \<and>
        mx_store s' = st \<and> mx_session s' = mx_session s \<and>
        mx_calls s' = mx_calls s @ [(CommitCall m rc, st)])"

definition committed :: "'w coordinator \<Rightarrow> owned_session \<Rightarrow> run_event_payload list \<Rightarrow> run_state \<Rightarrow>
    'w machine \<Rightarrow> 'w machine \<Rightarrow> bool" where
  "committed co x ps t s s' \<longleftrightarrow>
     (\<exists>events s1 s2. ps \<noteq> [] \<and> drift co s s1 \<and>
        materializeEvents (Some (ss_state x)) (lt_runId (ss_lease x)) ps = Inr (events, t) \<and>
        stored_mutation co x events s1 s2 \<and> drift co s2 s')"

definition moved_on :: "run_state \<Rightarrow> 'w machine \<Rightarrow> 'w machine \<Rightarrow> bool" where
  "moved_on t s s' \<longleftrightarrow>
     (\<exists>digest. s' = s\<lparr>mx_session :=
        map_option (\<lambda>y. y\<lparr>ss_state := t, ss_prefixDigest := digest\<rparr>) (mx_session s)\<rparr>)"

lemma store_commit_Some:
  assumes "bindA (ask f) (\<lambda>i. store_commit co (m i)) s = Some (r, s')"
  shows "(\<exists>e. r = Inl e \<and> drift co s s') \<or>
    (\<exists>i now st rc. r = Inr () \<and> commitMutation (dc_env co) now (mx_store s) (m i) = Inr (st, rc) \<and>
       mx_store s' = st \<and> mx_session s' = mx_session s \<and> mx_calls s' = mx_calls s @ [(CommitCall (m i) rc, st)])"
proof -
  obtain i w where i: "f (mx_world s) = (i, w)" by fastforce
  obtain now w' where now: "dc_clock co w = (now, w')" by fastforce
  show ?thesis
  proof (cases "commitMutation (dc_env co) now (mx_store s) (m i)")
    case (Inl e)
    with assms i now show ?thesis
      by (auto simp: bindA_def ask_def store_commit_def store_change_def
          intro: drift_trans [OF drift_world drift_world])
  next
    case (Inr v)
    obtain st rc where v: "v = (st, rc)" by (cases v)
    from Inr v assms i now show ?thesis
      by (intro disjI2 exI [of _ i] exI [of _ now] exI [of _ st] exI [of _ rc])
        (auto simp: bindA_def ask_def store_commit_def store_change_def record_call_def)
  qed
qed

lemma bindA_Inl: "m s = Some (Inl e, s') \<Longrightarrow> bindA m k s = Some (Inl e, s')"
  by (simp add: bindA_def)

lemma bindA_Inr: "m s = Some (Inr x, s') \<Longrightarrow> bindA m k s = k x s'"
  by (simp add: bindA_def)

lemma assertHealthy_cases:
  obtains (fails) e where "assertHealthy s = Some (Inl e, s)" | (passes) "assertHealthy s = Some (Inr (), s)"
proof (cases "mx_session s")
  case None
  then show thesis by (intro fails) (simp add: assertHealthy_def session_def bindA_def)
next
  case (Some x)
  then show thesis
    by (cases "ss_heartbeatFailed x"; cases "ss_mutationFailed x"; cases "ss_stopped x")
      (auto simp: assertHealthy_def session_def bindA_def checkA_def returnA_def throwA_def intro: that)
qed

lemma bindA_liftE:
  "bindA (liftE f v) k s = (case v of Inl e \<Rightarrow> Some (Inl (f e), s) | Inr x \<Rightarrow> k x s)"
  by (simp add: liftE_def bindA_def throwA_def returnA_def split: sum.split)

lemma bindA_returnA [simp]: "bindA (returnA x) k = k x"
  by (simp add: bindA_def returnA_def fun_eq_iff)

lemma bindA_assoc: "bindA (bindA m k) l s = bindA m (\<lambda>x. bindA (k x) l) s"
proof (cases "m s")
  case (Some v)
  then show ?thesis by (cases v) (auto simp: bindA_def split: sum.splits)
qed (simp add: bindA_def)

lemma bindA_session: "mx_session s = Some x \<Longrightarrow> bindA session k s = k x s"
  by (simp add: bindA_def session_def)

lemma bindA_update_session:
  "bindA (update_session f) k s = k () (s\<lparr>mx_session := map_option f (mx_session s)\<rparr>)"
  by (simp add: bindA_def update_session_def)

lemma session_mutation_guarded:
  fixes co :: "'w coordinator"
  assumes run: "session_mutation co ps opts s = Some (r, s')" and x: "mx_session s = Some x"
  defines "m \<equiv> \<lambda>events snapshot i. \<lparr>mu_lease = ss_lease x, mu_operationId = i,
    mu_expectedSequence = rs_sequence (ss_state x), mu_events = events, mu_snapshot = snapshot,
    mu_handlesControl = op_handlesControl opts\<rparr>"
  shows "(\<exists>e. r = Inl e \<and> s' = s) \<or> (\<exists>events t digest snapshot q s1.
     materializeEvents (Some (ss_state x)) (lt_runId (ss_lease x)) ps = Inr (events, t) \<and>
     guard co (bindA (ask (dc_createOperationId co)) (\<lambda>i. store_commit co (m events snapshot i))) s =
       Some (q, s1) \<and>
     (case q of Inl e \<Rightarrow> r = Inl e \<and> s' = s1
      | Inr _ \<Rightarrow> r = Inr t \<and> s' = s1\<lparr>mx_session :=
          map_option (\<lambda>y. y\<lparr>ss_state := t, ss_prefixDigest := digest\<rparr>) (mx_session s1)\<rparr>))"
proof (cases rule: assertHealthy_cases [of s])
  case (fails e)
  with run have "Inl e = r \<and> s = s'" by (simp add: session_mutation_def bindA_Inl)
  then show ?thesis by blast
next
  case passes
  let ?mat = "materializeEvents (Some (ss_state x)) (lt_runId (ss_lease x)) ps"
  have tail: ?thesis
    if mat: "?mat = Inr (events, t)"
      and g: "bindA (guard co (bindA (ask (dc_createOperationId co)) (\<lambda>i. store_commit co (m events snapshot i))))
        (\<lambda>_. bindA (update_session (\<lambda>y. y\<lparr>ss_state := t, ss_prefixDigest := digest\<rparr>)) (\<lambda>_. returnA t)) s =
        Some (r, s')" for events t digest snapshot
  proof -
    from g obtain q s1 where
      "guard co (bindA (ask (dc_createOperationId co)) (\<lambda>i. store_commit co (m events snapshot i))) s =
        Some (q, s1)"
      "case q of Inl e \<Rightarrow> r = Inl e \<and> s' = s1
       | Inr _ \<Rightarrow> r = Inr t \<and> s' = s1\<lparr>mx_session :=
           map_option (\<lambda>y. y\<lparr>ss_state := t, ss_prefixDigest := digest\<rparr>) (mx_session s1)\<rparr>"
      by (cases "guard co (bindA (ask (dc_createOperationId co)) (\<lambda>i. store_commit co (m events snapshot i))) s")
        (auto simp: bindA_Some_iff update_session_def returnA_def)
    with mat show ?thesis by blast
  qed
  note ahead = bindA_Inr [where m = assertHealthy and s = s and s' = s and x = "()", OF passes]
  note run' = run [unfolded session_mutation_def ahead bindA_session [OF x] Let_def bindA_liftE]
  show ?thesis
  proof (cases ?mat)
    case (Inl e)
    with run' show ?thesis by auto
  next
    case (Inr v)
    obtain events t where v: "v = (events, t)" by (cases v)
    show ?thesis
    proof (cases "extendPrefix (dc_env co) (ss_prefixDigest x) events")
      case (Inl e)
      with run' Inr v show ?thesis by (auto simp: bindA_liftE)
    next
      case (Inr digest)
      define snap :: "('w, run_snapshot option) act" where "snap = (if op_snapshot opts
        then \<lambda>s. case createRunSnapshotFromState (dc_env co) (ss_workflow x) t digest of
          Inl e \<Rightarrow> Some (Inl (StoreFailure e), s) | Inr sn \<Rightarrow> returnA (Some sn) s
        else returnA None)"
      obtain q where q: "snap s = Some (q, s)"
        by (cases "createRunSnapshotFromState (dc_env co) (ss_workflow x) t digest"; cases "op_snapshot opts")
          (auto simp: snap_def returnA_def)
      have run2: "bindA snap (\<lambda>snapshot. bindA (guard co (bindA (ask (dc_createOperationId co))
          (\<lambda>i. store_commit co (m events snapshot i))))
        (\<lambda>_. bindA (update_session (\<lambda>y. y\<lparr>ss_state := t, ss_prefixDigest := digest\<rparr>)) (\<lambda>_. returnA t))) s =
        Some (r, s')"
        using run' by (simp only: \<open>?mat = Inr v\<close> v Inr sum.case prod.case m_def snap_def bindA_liftE)
      show ?thesis
      proof (cases q)
        case (Inl e)
        from trans [OF run2 [symmetric] bindA_Inl [where m = snap and s = s and s' = s and e = e, OF q [unfolded Inl]]]
        show ?thesis by auto
      next
        case sn: (Inr sn)
        from trans [OF bindA_Inr [where m = snap and s = s and s' = s and x = sn, OF q [unfolded sn], symmetric] run2]
        show ?thesis by (intro tail [of events t sn digest]) (use \<open>?mat = Inr v\<close> v in simp_all)
      qed
    qed
  qed
qed

lemma session_mutation_Some:
  assumes "session_mutation co ps opts s = Some (r, s')" and "ps \<noteq> []" and x: "mx_session s = Some x"
  shows "(\<exists>e. r = Inl e \<and> (drift co s s' \<or> (\<exists>t. committed co x ps t s s'))) \<or>
    (\<exists>t s1. r = Inr t \<and> committed co x ps t s s1 \<and> moved_on t s1 s')"
proof -
  let ?m = "\<lambda>events snapshot i. \<lparr>mu_lease = ss_lease x, mu_operationId = i,
    mu_expectedSequence = rs_sequence (ss_state x), mu_events = events, mu_snapshot = snapshot,
    mu_handlesControl = op_handlesControl opts\<rparr>"
  consider (none) e where "r = Inl e" "s' = s"
    | (guarded) events t digest snapshot q s1 where
        "materializeEvents (Some (ss_state x)) (lt_runId (ss_lease x)) ps = Inr (events, t)"
        "guard co (bindA (ask (dc_createOperationId co)) (\<lambda>i. store_commit co (?m events snapshot i))) s =
           Some (q, s1)"
        "case q of Inl e \<Rightarrow> r = Inl e \<and> s' = s1
         | Inr _ \<Rightarrow> r = Inr t \<and> s' = s1\<lparr>mx_session :=
             map_option (\<lambda>y. y\<lparr>ss_state := t, ss_prefixDigest := digest\<rparr>) (mx_session s1)\<rparr>"
    using session_mutation_guarded [OF assms(1) x] by blast
  then show ?thesis
  proof cases
    case none
    then show ?thesis by simp
  next
    case guarded
    note mat = guarded(1) and end_ = guarded(3)
    from guard_Some [OF guarded(2)] show ?thesis
    proof (elim disjE exE conjE)
      fix e
      assume "q = Inl e" "drift co s s1"
      with end_ show ?thesis by auto
    next
      fix s2 s3 q'
      assume d1: "drift co s s2" and d2: "drift co s3 s1" and q': "case q of Inl _ \<Rightarrow> True | Inr y \<Rightarrow> q' = Inr y"
        and run: "bindA (ask (dc_createOperationId co)) (\<lambda>i. store_commit co (?m events snapshot i)) s2 =
          Some (q', s3)"
      from store_commit_Some [OF run] show ?thesis
      proof (elim disjE exE conjE)
        fix e
        assume "q' = Inl e" "drift co s2 s3"
        with d1 d2 q' end_ show ?thesis by (cases q) (auto intro: drift_trans)
      next
        fix i now st rc
        assume "commitMutation (dc_env co) now (mx_store s2) (?m events snapshot i) = Inr (st, rc)"
          "mx_store s3 = st" "mx_session s3 = mx_session s2"
          "mx_calls s3 = mx_calls s2 @ [(CommitCall (?m events snapshot i) rc, st)]"
        then have "stored_mutation co x events s2 s3"
          by (auto simp: stored_mutation_def session_mutation_of_def intro!: exI [of _ "?m events snapshot i"])
        with d1 d2 mat assms(2) have "committed co x ps t s s1" by (auto simp: committed_def)
        with end_ show ?thesis by (cases q) (auto simp: moved_on_def)
      qed
    qed
  qed
qed

lemma session_commit_Some:
  assumes "session_commit co ps opts s = Some (r, s')"
  shows "drift co s s' \<and> (\<forall>t. r = Inr t \<longrightarrow> ps = []) \<or>
    (\<exists>x t s1. mx_session s = Some x \<and> committed co x ps t s s1 \<and>
       (case r of Inl _ \<Rightarrow> drift co s1 s' | Inr t' \<Rightarrow> t' = t \<and> moved_on t s1 s'))"
proof (cases "ps = []")
  case True
  with assms show ?thesis
    by (auto simp: session_commit_def session_state_def session_def bindA_Some_iff returnA_def split: option.splits)
next
  case False
  have flag: "drift co s0 (s0\<lparr>mx_session := map_option (\<lambda>y. y\<lparr>ss_mutationFailed := True\<rparr>) (mx_session s0)\<rparr>)" for s0
    by (rule drift_flags) (simp add: same_session_def)
  from assms False obtain q s0 where q: "session_mutation co ps opts s = Some (q, s0)"
    and rest: "case q of Inr t \<Rightarrow> r = Inr t \<and> s' = s0
      | Inl e \<Rightarrow> r = Inl e \<and> s' = s0\<lparr>mx_session := map_option (\<lambda>y. y\<lparr>ss_mutationFailed := True\<rparr>) (mx_session s0)\<rparr>"
    by (auto simp: session_commit_def catchA_Some_iff update_session_def throwA_def bindA_Some_iff)
  show ?thesis
  proof (cases "mx_session s")
    case None
    with q have "s0 = s" "\<exists>e. q = Inl e"
      by (auto simp: session_mutation_def bindA_Some_iff assertHealthy_def session_def)
    with rest flag [of s] show ?thesis by auto
  next
    case (Some x)
    from session_mutation_Some [OF q False Some] rest flag [of s0] Some False show ?thesis
      by (elim disjE exE conjE) (auto intro: drift_trans)
  qed
qed

end
