(* ===== verification/Coordinator_Durability.thy ===== *)
theory Coordinator_Durability
  imports Coordinator_Commits
begin

text \<open>
  What a coordinator has in memory is in the store. Along every run of a coordinator the state of
  its session is the replay of a prefix of the stored history, and no execution was ever started
  whose authorization was not stored before. Both assume that the store took no commit of the
  session for the replay of an older one, which fresh operation ids guarantee.
\<close>

section \<open>Stored states and stored authorizations\<close>

definition stored_prefix :: "memory_store \<Rightarrow> string \<Rightarrow> run_state \<Rightarrow> bool" where
  "stored_prefix st k t \<longleftrightarrow>
     (\<exists>r es fs. st k = Some r \<and> me_events r = es @ fs \<and> replayRun es = Inr t)"

definition authorization_stored :: "memory_store \<Rightarrow> persisted_execution_ref \<Rightarrow> bool" where
  "authorization_stored st x \<longleftrightarrow>
     (\<exists>k r nid n. st k = Some r \<and> AttemptStartAuthorized nid n x \<in> ev_payload ` set (me_events r))"

lemma stored_events_run_ops:
  assumes "st k = Some r"
  shows "\<exists>r' fs. run_ops env st ops k = Some r' \<and> me_events r' = me_events r @ fs"
proof -
  from run_ops_history [of st k r env ops, OF assms] obtain r' where
    "run_ops env st ops k = Some r'" "history_step r r'" by blast
  then show ?thesis by (auto simp: history_step_def)
qed

lemma stored_prefix_run_ops:
  assumes "stored_prefix st k t"
  shows "stored_prefix (run_ops env st ops) k t"
proof -
  from assms obtain r es fs where r: "st k = Some r" "me_events r = es @ fs" "replayRun es = Inr t"
    by (auto simp: stored_prefix_def)
  from stored_events_run_ops [of st k r env ops, OF r(1)] obtain r' gs where
    "run_ops env st ops k = Some r'" "me_events r' = me_events r @ gs" by blast
  with r show ?thesis unfolding stored_prefix_def by (intro exI [of _ r'] exI [of _ es] exI [of _ "fs @ gs"]) simp
qed

lemma authorization_stored_run_ops:
  assumes "authorization_stored st x"
  shows "authorization_stored (run_ops env st ops) x"
proof -
  from assms obtain k r nid n where r: "st k = Some r"
    "AttemptStartAuthorized nid n x \<in> ev_payload ` set (me_events r)"
    unfolding authorization_stored_def by blast
  from stored_events_run_ops [of st k r env ops, OF r(1)] obtain r' gs where
    "run_ops env st ops k = Some r'" "me_events r' = me_events r @ gs" by blast
  with r(2) show ?thesis
    unfolding authorization_stored_def
    by (intro exI [of _ k] exI [of _ r'] exI [of _ nid] exI [of _ n]) auto
qed

text \<open>A commit that the store did not take for a replay appends its events to what it expected.\<close>

lemma commitMutation_new:
  assumes "commitMutation env now st m = Inr (st', rc)" and "\<not> mr_replayed rc"
  shows "\<exists>r r' u. st (lt_runId (mu_lease m)) = Some r \<and> st' = st(lt_runId (mu_lease m) \<mapsto> r') \<and>
    me_events r' = me_events r @ mu_events m \<and> last_sequence (me_events r) = mu_expectedSequence m \<and>
    replayRun (me_events r @ mu_events m) = Inr u"
  using assms
  by (auto simp: commitMutation_def Let_def result_simps split: option.splits if_splits)

lemma stored_commit:
  assumes commit: "commitMutation env now st m = Inr (st', rc)" and new: "\<not> mr_replayed rc"
    and stored: "stored_prefix st (lt_runId (mu_lease m)) t0" and seq: "mu_expectedSequence m = rs_sequence t0"
    and mat: "materializeEvents (Some t0) rid ps = Inr (mu_events m, t)"
  shows "stored_prefix st' (lt_runId (mu_lease m)) t \<and>
    (\<exists>r'. st' (lt_runId (mu_lease m)) = Some r' \<and> set ps \<subseteq> ev_payload ` set (me_events r'))"
proof -
  from commitMutation_new [OF commit new] obtain r r' u where r: "st (lt_runId (mu_lease m)) = Some r"
    "st' = st(lt_runId (mu_lease m) \<mapsto> r')" "me_events r' = me_events r @ mu_events m"
    "last_sequence (me_events r) = mu_expectedSequence m" "replayRun (me_events r @ mu_events m) = Inr u"
    by blast
  from stored r(1) obtain es fs where es: "me_events r = es @ fs" "replayRun es = Inr t0"
    by (auto simp: stored_prefix_def)
  from replayRun_contiguous [OF es(2)] have ne: "es \<noteq> []" and len: "rs_sequence t0 = int (length es)" by auto
  from replayRun_contiguous [OF r(5)] have "contiguous_from (rs_runId u) 0 (es @ fs)" by (simp add: es(1))
  then have "fs = []"
    using r(4) seq len ne es(1)
    by (cases fs rule: rev_cases) (auto simp: last_sequence_def last_opt_def)
  moreover from materializeEvents_Some [OF mat] have "apply_events t0 (mu_events m) = Inr t"
    and ps: "ps = map ev_payload (mu_events m)" by auto
  ultimately have "replayRun (me_events r') = Inr t"
    using es ne r(3) by (simp add: replayRun_append)
  with r(2,3) ps show ?thesis by (auto simp: stored_prefix_def intro: exI [of _ "[]"])
qed

section \<open>The invariant\<close>

definition fresh_commits :: "(host_call \<times> memory_store) list \<Rightarrow> bool" where
  "fresh_commits calls \<longleftrightarrow>
     list_all (\<lambda>(c, _). case c of CommitCall _ rc \<Rightarrow> \<not> mr_replayed rc | _ \<Rightarrow> True) calls"

definition authorized_durably :: "(host_call \<times> memory_store) list \<Rightarrow> bool" where
  "authorized_durably calls \<longleftrightarrow>
     list_all (\<lambda>(c, st). case c of AuthorizeCall x _ \<Rightarrow> authorization_stored st x | _ \<Rightarrow> True) calls"

lemma calls_simps [simp]:
  "fresh_commits []" "authorized_durably []"
  "fresh_commits (cs @ ds) \<longleftrightarrow> fresh_commits cs \<and> fresh_commits ds"
  "authorized_durably (cs @ ds) \<longleftrightarrow> authorized_durably cs \<and> authorized_durably ds"
  "fresh_commits [(CommitCall m rc, st)] \<longleftrightarrow> \<not> mr_replayed rc"
  "authorized_durably [(CommitCall m rc, st)]"
  "fresh_commits [(AuthorizeCall x ok, st)]"
  "authorized_durably [(AuthorizeCall x ok, st)] \<longleftrightarrow> authorization_stored st x"
  "fresh_commits [(PrepareCall p y, st)]" "authorized_durably [(PrepareCall p y, st)]"
  by (auto simp: fresh_commits_def authorized_durably_def)

lemma quiet_call_authorized: "\<not> launches c \<Longrightarrow> authorized_durably [(c, st)]"
  by (cases c) (auto simp: authorized_durably_def)

text \<open>The session holds the lease \<open>l\<close>, and its states carry the run id \<open>j\<close>.\<close>

definition durable_session :: "run_lease_token \<Rightarrow> string \<Rightarrow> 'w machine \<Rightarrow> bool" where
  "durable_session l j s \<longleftrightarrow>
     (fresh_commits (mx_calls s) \<longrightarrow>
        authorized_durably (mx_calls s) \<and>
        (\<forall>x. mx_session s = Some x \<longrightarrow>
           ss_lease x = l \<and> rs_runId (ss_state x) = j \<and>
           stored_prefix (mx_store s) (lt_runId l) (ss_state x)))"

lemma durable_drift:
  assumes "drift co s s'" and "durable_session l j s"
  shows "durable_session l j s'"
  using assms
  by (auto simp: drift_def durable_session_def same_session_def option_rel_Some2
      stored_prefix_run_ops)

lemma materialize_runId:
  assumes "materializeEvents (Some s) rid ps = Inr (events, t)"
  shows "rs_runId t = rs_runId s"
  using apply_events_contiguous materializeEvents_Some [OF assms] by blast

lemma durable_committed:
  assumes c: "committed co x ps t s s'" and x: "mx_session s = Some x" and d: "durable_session l j s"
  shows "durable_session l j s' \<and>
    (fresh_commits (mx_calls s') \<longrightarrow> stored_prefix (mx_store s') (lt_runId l) t \<and> rs_runId t = j \<and>
       (\<forall>y. mx_session s' = Some y \<longrightarrow> ss_lease y = l) \<and>
       (\<forall>nid n e. AttemptStartAuthorized nid n e \<in> set ps \<longrightarrow> authorization_stored (mx_store s') e))"
proof -
  from c obtain events s1 s2 where d1: "drift co s s1" and d2: "drift co s2 s'"
    and mat: "materializeEvents (Some (ss_state x)) (lt_runId (ss_lease x)) ps = Inr (events, t)"
    and sm: "stored_mutation co x events s1 s2"
    by (auto simp: committed_def)
  from sm obtain m now st rc where m: "session_mutation_of x events m"
    "commitMutation (dc_env co) now (mx_store s1) m = Inr (st, rc)" "mx_store s2 = st"
    "mx_session s2 = mx_session s1" "mx_calls s2 = mx_calls s1 @ [(CommitCall m rc, st)]"
    by (auto simp: stored_mutation_def)
  have old: "durable_session l j s1" by (rule durable_drift [OF d1 d])
  from d1 x obtain x1 where x1: "mx_session s1 = Some x1" "same_session x x1"
    by (auto simp: drift_def option_rel_Some1)
  have new: "durable_session l j s2 \<and> (fresh_commits (mx_calls s2) \<longrightarrow>
      stored_prefix (mx_store s2) (lt_runId l) t \<and> rs_runId t = j \<and> ss_lease x1 = l \<and>
      (\<forall>nid n e. AttemptStartAuthorized nid n e \<in> set ps \<longrightarrow> authorization_stored (mx_store s2) e))"
  proof (cases "fresh_commits (mx_calls s2)")
    case False
    then show ?thesis by (simp add: durable_session_def)
  next
    case True
    with m(5) have fresh1: "fresh_commits (mx_calls s1)" and nr: "\<not> mr_replayed rc" by auto
    from old fresh1 x1 have k: "ss_lease x = l" "rs_runId (ss_state x) = j"
      and pre: "stored_prefix (mx_store s1) (lt_runId l) (ss_state x)" and auth: "authorized_durably (mx_calls s1)"
      by (auto simp: durable_session_def same_session_def)
    from m(1) k have m1: "lt_runId (mu_lease m) = lt_runId l" "mu_expectedSequence m = rs_sequence (ss_state x)"
      "mu_events m = events"
      by (auto simp: session_mutation_of_def)
    from stored_commit [OF m(2) nr, of "ss_state x" "lt_runId (ss_lease x)" ps t] pre mat m1
    have stored: "stored_prefix st (lt_runId l) t"
      and r': "\<exists>r'. st (lt_runId l) = Some r' \<and> set ps \<subseteq> ev_payload ` set (me_events r')" by auto
    from m(2) have "st = attempt_op (dc_env co) (mx_store s1) (now, CommitOp m)"
      by (simp add: attempt_op_def)
    then have "stored_prefix st (lt_runId l) (ss_state x)"
      using stored_prefix_run_ops [OF pre, of "dc_env co" "[(now, CommitOp m)]"] by simp
    then have pre2: "stored_prefix (mx_store s2) (lt_runId l) (ss_state x1)"
      using x1(2) m(3) by (simp add: same_session_def)
    have lease1: "ss_lease x1 = l" "rs_runId (ss_state x1) = j"
      using x1(2) k by (auto simp: same_session_def)
    have "authorized_durably (mx_calls s2)" using auth m(5) by simp
    then have "durable_session l j s2"
      using pre2 lease1 m(4) x1(1) by (simp add: durable_session_def)
    moreover have "rs_runId t = j" using materialize_runId [OF mat] k(2) by simp
    moreover have "authorization_stored (mx_store s2) e"
      if "AttemptStartAuthorized nid n e \<in> set ps" for nid n e
      using r' that m(3) unfolding authorization_stored_def by blast
    ultimately show ?thesis using stored lease1(1) m(3) by blast
  qed
  from d2 obtain ops where ops: "mx_store s' = run_ops (dc_env co) (mx_store s2) ops"
    "mx_calls s' = mx_calls s2" and rel: "rel_option same_session (mx_session s2) (mx_session s')"
    by (auto simp: drift_def)
  from rel x1 m(4) have lease: "mx_session s' = Some y \<Longrightarrow> ss_lease y = ss_lease x1" for y
    by (auto simp: option_rel_Some2 same_session_def)
  from new have dur: "durable_session l j s2" by blast
  show ?thesis
  proof (intro conjI impI)
    show "durable_session l j s'" by (rule durable_drift [OF d2 dur])
    assume "fresh_commits (mx_calls s')"
    with ops new have now: "stored_prefix (mx_store s2) (lt_runId l) t" "rs_runId t = j" "ss_lease x1 = l"
      "\<And>nid n e. AttemptStartAuthorized nid n e \<in> set ps \<Longrightarrow> authorization_stored (mx_store s2) e"
      by auto
    show "stored_prefix (mx_store s') (lt_runId l) t"
      using now(1) ops(1) by (simp add: stored_prefix_run_ops)
    show "rs_runId t = j" by (rule now(2))
    show "\<forall>y. mx_session s' = Some y \<longrightarrow> ss_lease y = l"
      using lease now(3) by simp
    show "\<forall>nid n e. AttemptStartAuthorized nid n e \<in> set ps \<longrightarrow> authorization_stored (mx_store s') e"
      using now(4) ops(1) by (simp add: authorization_stored_run_ops)
  qed
qed

lemma durable_moved:
  assumes "durable_session l j s" and "moved_on t s s'"
    and "fresh_commits (mx_calls s) \<Longrightarrow> stored_prefix (mx_store s) (lt_runId l) t \<and> rs_runId t = j"
  shows "durable_session l j s'"
  using assms by (auto simp: durable_session_def moved_on_def)

lemma durable_commit:
  assumes run: "session_commit co ps opts s = Some (r, s')" and d: "durable_session l j s"
  shows "durable_session l j s' \<and>
    (\<forall>u. r = Inr u \<longrightarrow> fresh_commits (mx_calls s') \<longrightarrow>
       (\<forall>nid n e. AttemptStartAuthorized nid n e \<in> set ps \<longrightarrow> authorization_stored (mx_store s') e))"
  using session_commit_Some [OF run]
proof (elim disjE exE conjE)
  assume "drift co s s'" and "\<forall>t. r = Inr t \<longrightarrow> ps = []"
  with durable_drift [OF _ d] show ?thesis by auto
next
  fix x t s1
  assume x: "mx_session s = Some x" and c: "committed co x ps t s s1"
    and e: "case r of Inl _ \<Rightarrow> drift co s1 s' | Inr t' \<Rightarrow> t' = t \<and> moved_on t s1 s'"
  note here = durable_committed [OF c x d]
  show ?thesis
  proof (cases r)
    case (Inl err)
    with e here show ?thesis by (auto intro: durable_drift)
  next
    case (Inr u)
    with e have m: "moved_on t s1 s'" by simp
    from here have "durable_session l j s'" by (blast intro: durable_moved [OF _ m])
    with here m show ?thesis by (auto simp: moved_on_def)
  qed
qed

lemma drift_guard_error_or_ran:
  assumes "guard co m s = Some (r, s')" and "P s" and "\<And>s q t. m s = Some (q, t) \<Longrightarrow> P s \<Longrightarrow> P t"
    and "\<And>s t. drift co s t \<Longrightarrow> P s \<Longrightarrow> P t"
  shows "P s'"
  using guard_Some [OF assms(1)] assms(2-) by (metis (no_types))

lemma host_authorize_Some:
  assumes "host_authorize co x s = Some (r, s')"
  shows "\<exists>ok w. s' = s\<lparr>mx_world := w, mx_calls := mx_calls s @ [(AuthorizeCall x ok, mx_store s)]\<rparr>"
  using assms
  by (auto simp: host_authorize_def bindA_Some_iff host_def checkA_def returnA_def throwA_def
      split: prod.splits if_splits)

lemma durable_authorized_start:
  "keeps (durable_session l j) (authorized_start co p x)"
proof (rule keepsI)
  fix s r s'
  assume d: "durable_session l j s" and run: "authorized_start co p x s = Some (r, s')"
  let ?ps = "[AttemptStartAuthorized (pa_nodeId p) (pa_attempt p) x]"
  let ?P = "\<lambda>s. durable_session l j s \<and> (fresh_commits (mx_calls s) \<longrightarrow> authorization_stored (mx_store s) x)"
  from run consider (failed) e where "session_commit co ?ps plain_commit s = Some (Inl e, s')"
    | (passed) u s1 where "session_commit co ?ps plain_commit s = Some (Inr u, s1)"
      "guard co (host_authorize co x) s1 = Some (r, s')"
    by (auto simp: authorized_start_def bindA_Some_iff)
  then show "durable_session l j s'"
  proof cases
    case failed
    from durable_commit [OF this d] show ?thesis by simp
  next
    case passed
    from durable_commit [OF passed(1) d] have "?P s1" by auto
    with passed(2) have "?P s'"
    proof (rule drift_guard_error_or_ran)
      show "?P t" if "host_authorize co x s = Some (q, t)" "?P s" for s q t
        using host_authorize_Some [OF that(1)] that(2) by (auto simp: durable_session_def)
      show "?P t" if "drift co s t" "?P s" for s t
        using durable_drift [OF that(1)] that
        by (auto simp: drift_def intro: authorization_stored_run_ops)
    qed
    then show ?thesis by simp
  qed
qed

interpretation durable: unconditional_invariant co "durable_session l j" for co l j
proof unfold_locales
  show "durable_session l j (s\<lparr>mx_world := w\<rparr>)" if "durable_session l j s" for s :: "'a machine" and w
    using that by (simp add: durable_session_def)
  show "durable_session l j (ambient_step (dc_env co) a s)" if "durable_session l j s" for s :: "'a machine" and a
    by (rule durable_drift [OF drift_ambient_step that])
  show "durable_session l j (s\<lparr>mx_calls := mx_calls s @ [(c, mx_store s)]\<rparr>)"
    if "durable_session l j s" "\<not> launches c" for s :: "'a machine" and c
    using that quiet_call_authorized [OF that(2)] by (auto simp: durable_session_def)
  show "durable_session l j (s\<lparr>mx_calls := mx_calls s @ [(PrepareCall p y, mx_store s)]\<rparr>)"
    if "durable_session l j s" for s :: "'a machine" and p y
    using that by (simp add: durable_session_def)
  show "keeps (durable_session l j) (session_commit co ps opts)" for ps opts
    by (rule keepsI) (use durable_commit in blast)
  show "keeps (durable_session l j) (session_commit co ps opts)" for ps opts
    by (rule keepsI) (use durable_commit in blast)
  show "keeps (durable_session l j) session_stop"
    by (rule keepsI) (auto simp: session_stop_def update_session_def durable_session_def)
  show "keeps (durable_session l j) (authorized_start co pa x)" for pa x
    by (rule durable_authorized_start)
qed

end
