(* ===== verification/Coordinator_Entry.thy ===== *)
theory Coordinator_Entry
  imports Coordinator_Durability
begin

text \<open>
  The entry points of the coordinator under an invariant, and what they say of the store: the
  state that \<open>start\<close>, \<open>createRun\<close> or \<open>resume\<close> returns is stored, and the lease they took is given up.
\<close>

section \<open>Entry points under an invariant\<close>

lemma keeps_conj: "keeps I m \<Longrightarrow> keeps J m \<Longrightarrow> keeps (\<lambda>s. I s \<and> J s) m"
  by (rule keepsI) (auto dest: keepsD)

context quiet_invariant begin

lemma keeps_parseDescriptor: "keeps I (parseDescriptor co d)"
  unfolding parseDescriptor_def by (intro session_intros)

lemma keeps_release_lease: "keeps I (release_lease co)"
proof -
  have "keeps I (store_update (\<lambda>st. releaseLease st l))" for l
  proof (rule keepsI)
    fix s r s'
    assume I: "I s" and run: "store_update (\<lambda>st. releaseLease st l) s = Some (r, s')"
    show "I s'"
    proof (cases "releaseLease (mx_store s) l")
      case (Inl e)
      with run I show ?thesis by (simp add: store_update_def)
    next
      case (Inr v)
      obtain st where v: "v = (st, ())" by (cases v) auto
      from ambient_kept [OF I, of "ForeignOp 0 (ReleaseOp l)"] run Inr v show ?thesis
        by (simp add: store_update_def ambient_step_def attempt_op_def)
    qed
  qed
  then show ?thesis unfolding release_lease_def by (intro session_intros)
qed

lemma keeps_finishOwnedSession: "keeps I operation \<Longrightarrow> keeps I (finishOwnedSession co operation)"
  unfolding finishOwnedSession_def
  by (intro session_intros stop_kept) (auto intro: session_intros keeps_release_lease split: sum.split)

lemma keeps_acquireForRecovery: "keeps I (acquireForRecovery co runId)"
proof -
  have acquire: "keeps I (store_change co (\<lambda>now st. acquireReleased now st i))" for i
    by (rule keeps_store_op [where op = "AcquireOp i"]) simp
  have takeover: "keeps I (store_change co (\<lambda>now st. takeoverExpired now st i))" for i
    by (rule keeps_store_op [where op = "TakeoverOp i"]) simp
  show ?thesis
    unfolding acquireForRecovery_def acquisition_def
    by (intro session_intros acquire) (auto intro: session_intros takeover split: process_observation.split)
qed

lemma keeps_requireCompleteRun: "keeps I (requireCompleteRun co runId)"
  unfolding requireCompleteRun_def by (intro session_intros)

lemma keeps_submitControl: "keeps I (coordinator_submitControl co runId action opId)"
proof -
  have "keeps I (store_change co (\<lambda>now st. submitControl now st c))" for c
    by (rule keeps_store_op [where op = "ControlOp c"]) simp
  then show ?thesis unfolding coordinator_submitControl_def by (intro session_intros)
qed

end

section \<open>Facts of the store that stay\<close>

text \<open>A stored state stays stored, a lease that was given up stays given up.\<close>

definition lease_over :: "memory_store \<Rightarrow> run_lease_token \<Rightarrow> bool" where
  "lease_over st l \<longleftrightarrow>
     (\<exists>r. st (lt_runId l) = Some r \<and>
        (lt_generation l < le_generation (me_lease r) \<or>
         lt_generation l = le_generation (me_lease r) \<and> le_released (me_lease r)))"

lemma lease_over_run_ops:
  assumes "lease_over st l"
  shows "lease_over (run_ops env st ops) l"
proof -
  from assms obtain r where r: "st (lt_runId l) = Some r"
    "lt_generation l < le_generation (me_lease r) \<or>
     lt_generation l = le_generation (me_lease r) \<and> le_released (me_lease r)"
    by (auto simp: lease_over_def)
  from run_ops_lease [of st "lt_runId l" r env ops, OF r(1)] obtain r' where
    "run_ops env st ops (lt_runId l) = Some r'" "lease_step r r'" by blast
  with r(2) show ?thesis by (auto simp: lease_over_def lease_step_def Let_def)
qed

lemma release_over:
  assumes "releaseLease st l = Inr (st', u)"
  shows "lease_over st' l"
  using assms
  by (auto simp: releaseLease_def Let_def result_simps lease_over_def split: if_splits)

text \<open>A property of the store that no operation undoes is an invariant of every coordinator.\<close>

locale store_property =
  fixes co :: "'w coordinator" and P :: "memory_store \<Rightarrow> bool"
  assumes undone_by_none: "P st \<Longrightarrow> P (run_ops (dc_env co) st ops)"
begin

lemma drift_keeps: "drift co s s' \<Longrightarrow> P (mx_store s) \<Longrightarrow> P (mx_store s')"
  by (auto simp: drift_def undone_by_none)

lemma mutation_keeps:
  assumes "stored_mutation co x events s s'" and "P (mx_store s)"
  shows "P (mx_store s')"
proof -
  from assms(1) obtain m now st rc where
    "commitMutation (dc_env co) now (mx_store s) m = Inr (st, rc)" "mx_store s' = st"
    by (auto simp: stored_mutation_def)
  with undone_by_none [OF assms(2), of "[(now, CommitOp m)]"] show ?thesis by (simp add: attempt_op_def)
qed

lemma commit_keeps:
  assumes run: "session_commit co ps opts s = Some (r, s')" and P: "P (mx_store s)"
  shows "P (mx_store s')"
  using session_commit_Some [OF run]
proof (elim disjE exE conjE)
  assume "drift co s s'"
  from drift_keeps [OF this P] show ?thesis .
next
  fix x t s1
  assume "committed co x ps t s s1" and e: "case r of Inl _ \<Rightarrow> drift co s1 s' | Inr t' \<Rightarrow> t' = t \<and> moved_on t s1 s'"
  then have "P (mx_store s1)"
    using P by (auto simp: committed_def dest!: drift_keeps mutation_keeps)
  with e show ?thesis by (cases r) (auto simp: moved_on_def dest: drift_keeps)
qed

lemma start_keeps:
  assumes run: "authorized_start co p x s = Some (r, s')" and P: "P (mx_store s)"
  shows "P (mx_store s')"
proof -
  from run consider (failed) e where
      "session_commit co [AttemptStartAuthorized (pa_nodeId p) (pa_attempt p) x] plain_commit s = Some (Inl e, s')"
    | (passed) u s1 where
      "session_commit co [AttemptStartAuthorized (pa_nodeId p) (pa_attempt p) x] plain_commit s = Some (Inr u, s1)"
      "guard co (host_authorize co x) s1 = Some (r, s')"
    by (auto simp: authorized_start_def bindA_Some_iff)
  then show ?thesis
  proof cases
    case failed
    from commit_keeps [OF this P] show ?thesis .
  next
    case passed
    from passed(2) commit_keeps [OF passed(1) P] show ?thesis
    proof (rule drift_guard_error_or_ran)
      show "P (mx_store t)" if "host_authorize co x s = Some (q, t)" "P (mx_store s)" for s q t
        using host_authorize_Some [OF that(1)] that(2) by auto
      show "P (mx_store t)" if "drift co s t" "P (mx_store s)" for s t
        by (rule drift_keeps [OF that(1) that(2)])
    qed
  qed
qed

end

sublocale store_property \<subseteq> unconditional_invariant co "\<lambda>s. P (mx_store s)"
proof unfold_locales
  show "P (mx_store (s\<lparr>mx_world := w\<rparr>))" if "P (mx_store s)" for s :: "'w machine" and w
    using that by simp
  show "P (mx_store (ambient_step (dc_env co) a s))" if "P (mx_store s)" for s :: "'w machine" and a
    by (rule drift_keeps [OF drift_ambient_step that])
  show "P (mx_store (s\<lparr>mx_calls := mx_calls s @ [(c, mx_store s)]\<rparr>))"
    if "P (mx_store s)" for s :: "'w machine" and c
    using that by simp
  show "P (mx_store (s\<lparr>mx_calls := mx_calls s @ [(PrepareCall p y, mx_store s)]\<rparr>))"
    if "P (mx_store s)" for s :: "'w machine" and p y
    using that by simp
  show "keeps (\<lambda>s. P (mx_store s)) (session_commit co ps opts)" for ps opts
    by (rule keepsI) (use commit_keeps in blast)
  show "keeps (\<lambda>s. P (mx_store s)) (session_commit co ps opts)" for ps opts
    by (rule keepsI) (use commit_keeps in blast)
  show "keeps (\<lambda>s. P (mx_store s)) session_stop"
    by (rule keepsI) (auto simp: session_stop_def update_session_def)
  show "keeps (\<lambda>s. P (mx_store s)) (authorized_start co pa x)" for pa x
    by (rule keepsI) (use start_keeps in blast)
qed

end
