(* ===== verification/Coordinator_Returns.thy ===== *)
theory Coordinator_Returns
  imports Coordinator_Entry
begin

text \<open>
  What the entry points of the coordinator return. A run that \<open>createRun\<close> or \<open>start\<close> opened is owned
  under the first lease, one that \<open>resume\<close> opened under the lease it acquired; the state either
  gives back is the replay of a stored history, the lease is given up when it ends well, and
  nothing was started that the history does not authorize.
\<close>

section \<open>Invariants of the entry points\<close>

interpretation stored: store_property co "\<lambda>st. stored_prefix st k t" for co k t
  by unfold_locales (rule stored_prefix_run_ops)

interpretation over: store_property co "\<lambda>st. lease_over st l" for co l
  by unfold_locales (rule lease_over_run_ops)

text \<open>Nothing a session does opens one.\<close>

interpretation closed: quiet_invariant co "\<lambda>s. mx_session s = None" for co
proof unfold_locales
  show "mx_session (ambient_step (dc_env co) a s) = None" if "mx_session s = None" for s :: "'a machine" and a
    using that by (simp add: ambient_step_def split: ambient.split)
  show "keeps (\<lambda>s. mx_session s = None) (session_commit co ps opts)" for ps opts
  proof (rule keepsI)
    fix s r s'
    assume "mx_session s = None" and "session_commit co ps opts s = Some (r, s')"
    with session_commit_Some [OF this(2)] show "mx_session s' = None"
      by (auto simp: drift_def)
  qed
  show "keeps (\<lambda>s. mx_session s = None) session_stop"
    by (rule keepsI) (auto simp: session_stop_def update_session_def)
qed simp_all

text \<open>Before a session is opened only the record of the calls matters.\<close>

definition unopened :: "'w machine \<Rightarrow> bool" where
  "unopened s \<longleftrightarrow> mx_session s = None \<and> (fresh_commits (mx_calls s) \<longrightarrow> authorized_durably (mx_calls s))"

lemma unopened_durable: "unopened s \<longleftrightarrow> mx_session s = None \<and> durable_session l j s"
  by (auto simp: unopened_def durable_session_def)

lemma keeps_unopened:
  assumes "keeps (\<lambda>s. mx_session s = None) m" and "keeps (durable_session l j) m"
  shows "keeps unopened m"
  unfolding unopened_durable [of _ l j] by (rule keeps_conj [OF assms])

lemma await_Inr:
  assumes "await co m s = Some (Inr x, s')"
  shows "\<exists>s1 s2. drift co s s1 \<and> m s1 = Some (Inr x, s2) \<and> drift co s2 s'"
  using assms by (auto simp: await_def bindA_Some_iff returnA_def dest!: drift_ambient)

lemma drift_unopened: "drift co s s' \<Longrightarrow> unopened s \<Longrightarrow> unopened s'"
  by (auto simp: drift_def unopened_def)

lemma initial_history_replays:
  assumes "initial_history w i runId d = Inr (events, s)"
  shows "replayRun events = Inr s \<and> rs_runId s = runId"
proof -
  from assms obtain created s0 initialized where
    c: "materializeEvents None runId [RunCreated (runId @ '':root'') (wm_id (wf_metadata w))
      (wm_version (wf_metadata w)) (wf_nodeOrder w) (cu_inputs i)] = Inr (created, s0)" and
    m: "materializeEvents (Some s0) runId ([RuntimeConfigured d, WorkspaceAssigned (cu_workspace i)] @
        readyPayloads (findExecutableNodes w s0)) = Inr (initialized, s)" and
    events: "events = created @ initialized"
    by (auto simp: initial_history_def result_simps)
  from materializeEvents_None [OF c] have r: "replayRun created = Inr s0" "map ev_payload created \<noteq> []"
    "contiguous_from runId 0 created" by auto
  from r(2) have ne: "created \<noteq> []" by auto
  from replayRun_contiguous [OF r(1)] r(3) ne have id0: "rs_runId s0 = runId"
    by (cases created) auto
  from materializeEvents_Some [OF m] have "apply_events s0 initialized = Inr s" by blast
  with apply_events_contiguous [OF this] r(1) ne events id0 show ?thesis
    by (simp add: replayRun_append)
qed

text \<open>A session that was opened on a new run, under the first lease.\<close>

definition opened_first :: "'w machine \<Rightarrow> bool" where
  "opened_first s \<longleftrightarrow> (\<exists>l x. lt_generation l = 1 \<and> durable_session l (lt_runId l) s \<and>
     mx_session s = Some x \<and> ss_lease x = l)"

lemma createOwned_events:
  assumes "createOwned env now st i = Inr (st', t, rc)"
  shows "map_option me_events (st' (co_runId i)) = Some (co_initialEvents i)"
  using assms by (auto simp: createOwned_def Let_def result_simps)

lemma open_created:
  assumes history: "initial_history w i runId d = Inr (events, t)" and un: "unopened s"
    and run: "bindA (await co (store_change co (\<lambda>now st. bindE (createOwned (dc_env co) now st
       \<lparr>co_runId = runId, co_workflow = w, co_initialEvents = events, co_ownerId = ownerId,
        co_owner = owner, co_operationId = operationId, co_snapshot = snapshot\<rparr>)
       (\<lambda>(st', lease, receipt). Inr (st', lease))))) (\<lambda>lease.
     open_session \<lparr>ss_lease = lease, ss_workflow = w, ss_state = t,
       ss_prefixDigest = digest, ss_heartbeatFailed = False,
       ss_mutationFailed = False, ss_stopped = False\<rparr>) s = Some (Inr u, s')"
  shows "opened_first s'"
proof -
  let ?i = "\<lparr>co_runId = runId, co_workflow = w, co_initialEvents = events, co_ownerId = ownerId,
        co_owner = owner, co_operationId = operationId, co_snapshot = snapshot\<rparr>"
  from run obtain lease s3 where opened: "s' = s3\<lparr>mx_session := Some
      \<lparr>ss_lease = lease, ss_workflow = w, ss_state = t, ss_prefixDigest = digest,
       ss_heartbeatFailed = False, ss_mutationFailed = False, ss_stopped = False\<rparr>\<rparr>"
    and created: "await co (store_change co (\<lambda>now st. bindE (createOwned (dc_env co) now st ?i)
       (\<lambda>(st', lease, receipt). Inr (st', lease)))) s = Some (Inr lease, s3)"
    by (auto simp: bindA_Some_iff open_session_def)
  from await_Inr [OF created] obtain s1 s2 where d: "drift co s s1" "drift co s2 s3"
    and change: "store_change co (\<lambda>now st. bindE (createOwned (dc_env co) now st ?i)
       (\<lambda>(st', lease, receipt). Inr (st', lease))) s1 = Some (Inr lease, s2)" by blast
  from change obtain now w' st' rc where c: "createOwned (dc_env co) now (mx_store s1) ?i = Inr (st', lease, rc)"
    and s2: "s2 = s1\<lparr>mx_world := w', mx_store := st'\<rparr>"
    by (auto simp: store_change_def result_simps split: prod.splits sum.splits)
  from createOwned_Inr [OF c] createOwned_events [OF c] obtain r where r: "st' runId = Some r"
    "run_created (dc_env co) now runId r" "lease = tokenFor (me_lease r)" "me_events r = events"
    by auto
  from r(2,3) have l: "lt_runId lease = runId" "lt_generation lease = 1"
    by (auto simp: run_created_def fresh_lease_iff tokenFor_def)
  from initial_history_replays [OF history] r(1,4)
  have "stored_prefix (mx_store s2) runId t" and j: "rs_runId t = runId"
    by (auto simp: stored_prefix_def s2)
  then have "stored_prefix (mx_store s3) runId t" using stored.drift_keeps [OF d(2)] by blast
  moreover have "unopened s3"
    using drift_unopened [OF d(2)] drift_unopened [OF d(1) un] by (simp add: unopened_def s2)
  ultimately have "durable_session lease (lt_runId lease) s'"
    by (auto simp: durable_session_def unopened_def opened l j)
  then show ?thesis using l opened by (auto simp: opened_first_def)
qed

lemma keeps_unopened_calls:
  "keeps unopened (parseDescriptor co d)" "keeps unopened (acquireForRecovery co k)"
  "keeps unopened (requireCompleteRun co k)" "keeps unopened (ask f)"
  by (rule keeps_unopened closed.keeps_parseDescriptor durable.keeps_parseDescriptor
      closed.keeps_acquireForRecovery durable.keeps_acquireForRecovery closed.keeps_requireCompleteRun
      durable.keeps_requireCompleteRun closed.keeps_ask durable.keeps_ask)+

lemma create_is_op:
  assumes "bindE (createOwned env now st i) (\<lambda>(st', lease, receipt). Inr (st', lease)) = Inr (st', y)"
  shows "memory_run_op env now st (CreateOp i) = Inr st'"
  using assms by (auto simp: result_simps)

lemma keeps_closed_create:
  "keeps (\<lambda>s. mx_session s = None) (await co (store_change co (\<lambda>now st.
     bindE (createOwned (dc_env co) now st i) (\<lambda>(st', lease, receipt). Inr (st', lease)))))"
  by (rule closed.keeps_await, rule closed.keeps_store_op, rule create_is_op)

lemma keeps_unopened_create:
  "keeps unopened (await co (store_change co (\<lambda>now st.
     bindE (createOwned (dc_env co) now st i) (\<lambda>(st', lease, receipt). Inr (st', lease)))))"
  by (rule keeps_unopened [OF keeps_closed_create], rule durable.keeps_await, rule durable.keeps_store_op,
      rule create_is_op)

lemma triple_lift_bind:
  assumes "\<And>x. v = Inr x \<Longrightarrow> triple P (k x) R E" and "\<And>s. P s \<Longrightarrow> E s"
  shows "triple P (bindA (liftE f v) k) R E"
proof (cases v)
  case (Inl e)
  then have "bindA (liftE f v) k = throwA (f e)"
    by (simp add: liftE_def bindA_def throwA_def fun_eq_iff)
  then show ?thesis by (simp add: triple_throw assms(2))
next
  case (Inr x)
  then have "bindA (liftE f v) k = k x" by (simp add: liftE_def)
  then show ?thesis by (simp add: assms(1) Inr)
qed

lemma create_opens:
  assumes "initial_history w i runId d = Inr (events, t)"
  shows "triple unopened
    (bindA (await co (store_change co (\<lambda>now st. bindE (createOwned (dc_env co) now st
       \<lparr>co_runId = runId, co_workflow = w, co_initialEvents = events, co_ownerId = ownerId,
        co_owner = owner, co_operationId = operationId, co_snapshot = snapshot\<rparr>)
       (\<lambda>(st', lease, receipt). Inr (st', lease))))) (\<lambda>lease.
     open_session \<lparr>ss_lease = lease, ss_workflow = w, ss_state = t,
       ss_prefixDigest = digest, ss_heartbeatFailed = False,
       ss_mutationFailed = False, ss_stopped = False\<rparr>)) (\<lambda>_. opened_first) unopened"
  by (rule tripleI)
    (auto intro: open_created [OF assms] simp: bindA_Some_iff [of _ _ _ "Inl _"] open_session_def
      dest: keepsD [OF keeps_unopened_create])

lemma initialize_opens:
  "triple unopened (initializeOwnedRun co w i) (\<lambda>_. opened_first) unopened"
  unfolding initializeOwnedRun_def
  by (intro triple_bind [OF triple_keeps [OF keeps_unopened_calls(1)]] triple_lift_bind
      triple_bind [OF triple_keeps [OF keeps_unopened_calls(4)]]
      triple_bind [OF triple_keeps [OF keeps_option [OF keeps_unopened_calls(4) keeps_return]]])
    (auto intro!: triple_lift_bind triple_bind [OF triple_keeps [OF keeps_unopened_calls(4)]] create_opens)

section \<open>What is returned\<close>

definition returns_state :: "('w, run_state) act \<Rightarrow> bool" where
  "returns_state m \<longleftrightarrow>
     (\<forall>s t s'. m s = Some (Inr t, s') \<longrightarrow> map_option ss_state (mx_session s') = Some t)"

lemma returns_session_state: "returns_state session_state"
  by (auto simp: returns_state_def session_state_def bindA_Some_iff session_def returnA_def split: option.splits)

lemma returns_bind: "(\<And>x. returns_state (f x)) \<Longrightarrow> returns_state (bindA m f)"
  unfolding returns_state_def by (auto simp: bindA_Some_iff)

lemma returns_seen:
  "session_state s = Some (Inr t, s1) \<Longrightarrow> s1 = s \<and> map_option ss_state (mx_session s) = Some t"
  by (auto simp: session_state_def bindA_Some_iff session_def returnA_def split: option.splits)

lemma returns_read: "returns_state (bindA session_state (\<lambda>u. if b u then returnA u else m u))"
  if "\<And>u. returns_state (m u)"
  using that unfolding returns_state_def
  by (auto simp: bindA_Some_iff returnA_def dest!: returns_seen split: if_splits)

lemma returns_coordinateRunning: "returns_state (coordinateRunning co d)"
proof -
  have "fst y = Inr t \<Longrightarrow> map_option ss_state (mx_session (snd y)) = Some t"
    if "coordinateRunning co d s = Some y" for s y t
    using that
  proof (induction rule: coordinateRunning_induct)
    case (step loop co d s y)
    from step.hyps step.prems obtain u where u: "session_state s = Some (Inr u, s)"
      and rest: "(if rs_status u \<noteq> RunRunning then returnA u s
        else bindA (coordinate_step co d) (\<lambda>more s2. if more then loop co d s2 else session_state s2) s) = Some y"
      by (cases y) (auto simp: bindA_Some_iff dest: returns_seen)
    show ?case
    proof (cases "rs_status u = RunRunning")
      case False
      with rest u step.prems show ?thesis by (auto simp: returnA_def dest: returns_seen)
    next
      case True
      with rest step.prems show ?thesis
        by (cases y) (auto simp: bindA_Some_iff split: if_splits dest: returns_seen step.IH)
    qed
  qed
  then show ?thesis by (fastforce simp: returns_state_def)
qed

lemma returns_coordinateRecovered: "returns_state (coordinateRecovered co events d opId)"
proof -
  have continue: "returns_state (continue_recovered co d opId)"
    unfolding continue_recovered_def
    by (intro returns_read returns_bind returns_coordinateRunning)
  show ?thesis
    unfolding coordinateRecovered_def Let_def
    by (intro returns_bind) (simp add: continue returns_session_state)
qed

lemma finish_Inr:
  assumes run: "finishOwnedSession co operation s = Some (Inr t, s')"
  shows "\<exists>s1. operation s = Some (Inr t, s1) \<and>
    bindA session_stop (\<lambda>_. bindA (release_lease co) (\<lambda>_. returnA t)) s1 = Some (Inr t, s')"
proof -
  from run obtain q s1 where caught: "catchA (bindA operation (\<lambda>t. returnA (Inr t))) (\<lambda>e. returnA (Inl e)) s =
      Some (Inr q, s1)"
    and ends: "bindA session_stop (\<lambda>_. case q of
        Inl e \<Rightarrow> bindA (catchA (release_lease co) (\<lambda>_. returnA ())) (\<lambda>_. throwA e)
      | Inr t \<Rightarrow> bindA (release_lease co) (\<lambda>_. returnA t)) s1 = Some (Inr t, s')"
    by (auto simp: finishOwnedSession_def bindA_Some_iff)
  have "operation s = Some (Inr t, s1)"
    and "bindA session_stop (\<lambda>_. bindA (release_lease co) (\<lambda>_. returnA t)) s1 = Some (Inr t, s')"
    using caught ends
    by (cases q; auto simp: bindA_Some_iff catchA_Some_iff returnA_def throwA_def)+
  then show ?thesis by blast
qed

text \<open>
  What an owned session gives back when it ends well: a stored state, and its lease given up or
  superseded.
\<close>

lemma finish_returns:
  assumes run: "finishOwnedSession co operation s = Some (Inr t, s')"
    and kept: "keeps (durable_session l j) operation" and d: "durable_session l j s"
    and ret: "returns_state operation" and fresh: "fresh_commits (mx_calls s')"
  shows "stored_prefix (mx_store s') (lt_runId l) t \<and> rs_runId t = j \<and> lease_over (mx_store s') l \<and>
    map_option ss_lease (mx_session s') = Some l"
proof -
  from finish_Inr [OF run] obtain s1 where op: "operation s = Some (Inr t, s1)"
    and rest: "bindA session_stop (\<lambda>_. bindA (release_lease co) (\<lambda>_. returnA t)) s1 = Some (Inr t, s')"
    by blast
  define s2 where "s2 = s1\<lparr>mx_session := map_option (\<lambda>y. y\<lparr>ss_stopped := True\<rparr>) (mx_session s1)\<rparr>"
  from rest have rel: "release_lease co s2 = Some (Inr (), s')"
    by (auto simp: bindA_Some_iff session_stop_def update_session_def s2_def returnA_def)
  from ret op have "map_option ss_state (mx_session s1) = Some t" by (simp add: returns_state_def)
  then obtain y where y: "mx_session s1 = Some y" "ss_state y = t" by auto
  then have s2y: "mx_session s2 = Some (y\<lparr>ss_stopped := True\<rparr>)" by (simp add: s2_def)
  with rel obtain u where "await co (store_update (\<lambda>st. releaseLease st (ss_lease y))) s2 = Some (Inr u, s')"
    by (auto simp: release_lease_def bindA_Some_iff session_def)
  from await_Inr [OF this] obtain s3 s4 where d3: "drift co s2 s3" and d4: "drift co s4 s'"
    and up: "store_update (\<lambda>st. releaseLease st (ss_lease y)) s3 = Some (Inr u, s4)" by blast
  from up obtain st where st: "releaseLease (mx_store s3) (ss_lease y) = Inr (st, u)" "s4 = s3\<lparr>mx_store := st\<rparr>"
    by (auto simp: store_update_def split: sum.splits)
  have "fresh_commits (mx_calls s1)"
    using fresh d3 d4 st(2) by (simp add: drift_def s2_def)
  with keepsD [OF kept op d] y have now: "ss_lease y = l" "rs_runId t = j" "stored_prefix (mx_store s1) (lt_runId l) t"
    by (auto simp: durable_session_def)
  have "stored_prefix (mx_store s2) (lt_runId l) t" using now(3) by (simp add: s2_def)
  moreover have "keeps (\<lambda>s. stored_prefix (mx_store s) (lt_runId l) t) (release_lease co)"
    by (rule stored.keeps_release_lease)
  ultimately have "stored_prefix (mx_store s') (lt_runId l) t" 
    using keepsD [where m = "release_lease co" and s = s2 and s' = s' and r = "Inr ()"] rel by blast
  moreover have "lease_over (mx_store s') l"
    using over.drift_keeps [OF d4] release_over [OF st(1)] st(2) now(1) by simp
  moreover have "map_option ss_lease (mx_session s') = Some l"
    using d3 d4 st(2) s2y now(1) by (auto simp: drift_def same_session_def option_rel_Some1)
  ultimately show ?thesis using now(2) by blast
qed

section \<open>Every entry point\<close>

lemma finish_keeps_log:
  assumes "finishOwnedSession co operation s = Some (r, s')" and "keeps (durable_session l j) operation"
    and "durable_session l j s"
  shows "durable_session l j s'"
  using keepsD [OF durable.keeps_finishOwnedSession [OF assms(2)] assms(1,3)] .

lemma start_stored:
  assumes run: "start co w i s = Some (Inr t, s')" and un: "unopened s" and fresh: "fresh_commits (mx_calls s')"
  shows "\<exists>l. lt_generation l = 1 \<and> lt_runId l = rs_runId t \<and>
    stored_prefix (mx_store s') (rs_runId t) t \<and> lease_over (mx_store s') l \<and>
    map_option ss_lease (mx_session s') = Some l"
proof -
  from run obtain d s1 s2 u where p: "parseDescriptor co (cu_descriptor i) s = Some (Inr d, s1)"
    and init: "initializeOwnedRun co w (i\<lparr>cu_descriptor := d\<rparr>) s1 = Some (Inr u, s2)"
    and fin: "finishOwnedSession co (coordinateRunning co d) s2 = Some (Inr t, s')"
    by (auto simp: start_def bindA_Some_iff)
  from keepsD [OF keeps_unopened_calls(1) p un] tripleD [OF initialize_opens init]
  obtain l where l: "lt_generation l = 1" "durable_session l (lt_runId l) s2" by (auto simp: opened_first_def)
  from finish_returns [OF fin durable.keeps_coordinateRunning l(2) returns_coordinateRunning fresh] l(1)
  show ?thesis by (intro exI [of _ l]) auto
qed

lemma start_log:
  assumes run: "start co w i s = Some (r, s')" and un: "unopened s" and fresh: "fresh_commits (mx_calls s')"
  shows "authorized_durably (mx_calls s')"
proof -
  from run consider (parse) "\<exists>e. parseDescriptor co (cu_descriptor i) s = Some (Inl e, s')"
    | (init) d s1 e where "parseDescriptor co (cu_descriptor i) s = Some (Inr d, s1)"
      "initializeOwnedRun co w (i\<lparr>cu_descriptor := d\<rparr>) s1 = Some (Inl e, s')"
    | (main) d s1 u s2 where "parseDescriptor co (cu_descriptor i) s = Some (Inr d, s1)"
      "initializeOwnedRun co w (i\<lparr>cu_descriptor := d\<rparr>) s1 = Some (Inr u, s2)"
      "finishOwnedSession co (coordinateRunning co d) s2 = Some (r, s')"
    by (auto simp: start_def bindA_Some_iff)
  then show ?thesis
  proof cases
    case parse
    with keepsD [OF keeps_unopened_calls(1) _ un] fresh show ?thesis by (auto simp: unopened_def)
  next
    case init
    from tripleD_error [OF initialize_opens init(2) keepsD [OF keeps_unopened_calls(1) init(1) un]] fresh
    show ?thesis by (simp add: unopened_def)
  next
    case main
    from tripleD [OF initialize_opens main(2) keepsD [OF keeps_unopened_calls(1) main(1) un]]
    obtain l where "durable_session l (lt_runId l) s2" by (auto simp: opened_first_def)
    from finish_keeps_log [OF main(3) durable.keeps_coordinateRunning this] fresh
    show ?thesis by (simp add: durable_session_def)
  qed
qed

lemma createRun_stored:
  assumes run: "createRun co w i s = Some (Inr t, s')" and un: "unopened s" and fresh: "fresh_commits (mx_calls s')"
  shows "\<exists>l. lt_generation l = 1 \<and> lt_runId l = rs_runId t \<and>
    stored_prefix (mx_store s') (rs_runId t) t \<and> lease_over (mx_store s') l \<and>
    map_option ss_lease (mx_session s') = Some l"
proof -
  from run obtain s2 u where init: "initializeOwnedRun co w i s = Some (Inr u, s2)"
    and fin: "finishOwnedSession co session_state s2 = Some (Inr t, s')"
    by (auto simp: createRun_def bindA_Some_iff)
  from tripleD [OF initialize_opens init un]
  obtain l where l: "lt_generation l = 1" "durable_session l (lt_runId l) s2" by (auto simp: opened_first_def)
  from finish_returns [OF fin keeps_session_state l(2) returns_session_state fresh] l(1)
  show ?thesis by (intro exI [of _ l]) auto
qed

lemma createRun_log:
  assumes run: "createRun co w i s = Some (r, s')" and un: "unopened s" and fresh: "fresh_commits (mx_calls s')"
  shows "authorized_durably (mx_calls s')"
proof -
  from run consider (init) e where "initializeOwnedRun co w i s = Some (Inl e, s')"
    | (main) u s2 where "initializeOwnedRun co w i s = Some (Inr u, s2)"
      "finishOwnedSession co session_state s2 = Some (r, s')"
    by (auto simp: createRun_def bindA_Some_iff)
  then show ?thesis
  proof cases
    case init
    from tripleD_error [OF initialize_opens init un] fresh show ?thesis by (simp add: unopened_def)
  next
    case main
    from tripleD [OF initialize_opens main(1) un]
    obtain l where "durable_session l (lt_runId l) s2" by (auto simp: opened_first_def)
    from finish_keeps_log [OF main(2) keeps_session_state this] fresh
    show ?thesis by (simp add: durable_session_def)
  qed
qed

text \<open>\<open>resume\<close> works on the state it loaded, which is stored from then on.\<close>

lemma loadRun_stored:
  assumes "loadRun env st k c = Inr (Some loaded)"
  shows "stored_prefix st k (ld_state loaded)"
  using assms
proof -
  from assms obtain r where "st k = Some r" "replayRun (me_events r) = Inr (ld_state loaded)"
    by (auto simp: loadRun_def result_simps split: option.splits)
  then show ?thesis unfolding stored_prefix_def by (intro exI [of _ r] exI [of _ "me_events r"] exI [of _ "[]"]) simp
qed

lemma require_stored:
  assumes "requireCompleteRun co k s = Some (Inr loaded, s')"
  shows "stored_prefix (mx_store s') k (ld_state loaded)"
proof -
  from assms have "await co (store_read (\<lambda>st. loadRun (dc_env co) st k True)) s = Some (Inr (Some loaded), s')"
    by (auto simp: requireCompleteRun_def bindA_Some_iff returnA_def throwA_def split: option.splits)
  from await_Inr [OF this] obtain s1 s2 where d: "drift co s2 s'"
    and read: "store_read (\<lambda>st. loadRun (dc_env co) st k True) s1 = Some (Inr (Some loaded), s2)" by blast
  from read have "loadRun (dc_env co) (mx_store s2) k True = Inr (Some loaded)"
    by (auto simp: store_read_def split: sum.splits)
  from stored.drift_keeps [OF d loadRun_stored [OF this]] show ?thesis .
qed

lemma acquire_token:
  "acquireReleased now st i = Inr (st', l) \<Longrightarrow> lt_runId l = aq_runId i"
  "takeoverExpired now st j = Inr (st', l) \<Longrightarrow> lt_runId l = aq_runId j"
  by (auto simp: acquireReleased_def takeoverExpired_def Let_def result_simps fresh_lease_iff tokenFor_def
      split: if_splits)

text \<open>What a computation can return, wherever it starts.\<close>

definition gives :: "('a \<Rightarrow> bool) \<Rightarrow> ('w, 'a) act \<Rightarrow> bool" where
  "gives V m \<longleftrightarrow> (\<forall>s x s'. m s = Some (Inr x, s') \<longrightarrow> V x)"

lemma gives_bind: "gives W m \<Longrightarrow> (\<And>x. W x \<Longrightarrow> gives V (f x)) \<Longrightarrow> gives V (bindA m f)"
  by (auto simp: gives_def bindA_Some_iff) blast

lemma gives_any: "gives (\<lambda>_. True) m"
  by (simp add: gives_def)

lemma gives_intros:
  "V x \<Longrightarrow> gives V (returnA x)" "gives V (throwA e)"
  by (auto simp: gives_def returnA_def throwA_def)

lemma gives_store_change:
  assumes "\<And>now st st' y. f now st = Inr (st', y) \<Longrightarrow> V y"
  shows "gives V (store_change co f)"
  unfolding gives_def
proof (intro allI impI)
  fix s x s'
  assume run: "store_change co f s = Some (Inr x, s')"
  obtain now w where w: "dc_clock co (mx_world s) = (now, w)" by fastforce
  with run obtain st where "f now (mx_store s) = Inr (st, x)"
    by (cases "f now (mx_store s)") (auto simp: store_change_def)
  then show "V x" by (rule assms)
qed

lemma gives_await: "gives V m \<Longrightarrow> gives V (await co m)"
  unfolding gives_def by (auto dest!: await_Inr)

lemma acquireForRecovery_token: "gives (\<lambda>l. lt_runId l = k) (acquireForRecovery co k)"
proof -
  have i: "gives (\<lambda>i. aq_runId i = k) (acquisition co k)"
    unfolding acquisition_def by (intro gives_bind [OF gives_any] gives_intros) simp
  have acquired: "gives (\<lambda>l. lt_runId l = k) (await co (store_change co (\<lambda>now st. acquireReleased now st i)))"
    if "aq_runId i = k" for i
    using that by (intro gives_await gives_store_change) (simp add: acquire_token(1))
  have taken: "gives (\<lambda>l. lt_runId l = k) (await co (store_change co (\<lambda>now st. takeoverExpired now st
       (acquire_released_run.extend i \<lparr>aq_observedLease = l, aq_absenceObservedAtMs = t\<rparr>))))"
    if "aq_runId i = k" for i l t
    using that by (intro gives_await gives_store_change) (simp add: acquire_token(2) acquire_released_run.defs)
  have observed: "gives (\<lambda>l. lt_runId l = k) (case observation of
             AliveProcess _ \<Rightarrow> throwA (OwnershipBlocked OwnerAlive l (Some observation))
           | UnknownProcess _ _ \<Rightarrow> throwA (OwnershipBlocked OwnerUnknown l (Some observation))
           | AbsentProcess observedAt \<Rightarrow>
               if observedAt < le_expiresAtMs l
               then throwA (OwnershipBlocked LeaseActive l (Some observation))
               else await co (store_change co (\<lambda>now st. takeoverExpired now st
                 (acquire_released_run.extend i
                   \<lparr>aq_observedLease = l, aq_absenceObservedAtMs = observedAt\<rparr>))))"
    if i: "aq_runId i = k" for i l observation
    by (cases observation) (simp_all add: gives_intros taken [OF i])
  have leased: "gives (\<lambda>l. lt_runId l = k) (case lease of
       None \<Rightarrow> throwA (StoreFailure (StoreError CorruptStore))
     | Some l \<Rightarrow>
         if le_released l then await co (store_change co (\<lambda>now st. acquireReleased now st i))
         else bindA (await co (call (dc_observe co (le_owner l)))) (\<lambda>observation.
           case observation of
             AliveProcess _ \<Rightarrow> throwA (OwnershipBlocked OwnerAlive l (Some observation))
           | UnknownProcess _ _ \<Rightarrow> throwA (OwnershipBlocked OwnerUnknown l (Some observation))
           | AbsentProcess observedAt \<Rightarrow>
               if observedAt < le_expiresAtMs l
               then throwA (OwnershipBlocked LeaseActive l (Some observation))
               else await co (store_change co (\<lambda>now st. takeoverExpired now st
                 (acquire_released_run.extend i
                   \<lparr>aq_observedLease = l, aq_absenceObservedAtMs = observedAt\<rparr>)))))"
    if i: "aq_runId i = k" for i lease
    by (cases lease) (simp_all add: gives_intros acquired [OF i] gives_bind [OF gives_any] observed [OF i])
  show ?thesis
    unfolding acquireForRecovery_def
    by (rule gives_bind [OF i], rule gives_bind [OF gives_any], rule leased)
qed

text \<open>\<open>resume\<close> ends with the state it loaded, or it opens a session on that state.\<close>

lemma resume_Some:
  assumes run: "resume co k opId s = Some (r, s')" and un: "unopened s"
  shows "(unopened s' \<and> (\<forall>t. r = Inr t \<longrightarrow> stored_prefix (mx_store s') k t)) \<or>
    (\<exists>l d (loaded :: loaded_run) s1 opId'. durable_session l (rs_runId (ld_state loaded)) s1 \<and> lt_runId l = k \<and>
       finishOwnedSession co (coordinateRecovered co (ld_events loaded) d opId') s1 = Some (r, s'))"
proof -
  have op: "keeps unopened (case opId of None \<Rightarrow> ask (dc_createOperationId co) | Some i \<Rightarrow> returnA i)"
    by (intro keeps_option keeps_unopened_calls keeps_return)
  let ?ask = "case opId of None \<Rightarrow> ask (dc_createOperationId co) | Some i \<Rightarrow> returnA i"
  let ?rest = "\<lambda>opId loaded. let s = ld_state loaded in
     if isTerminalRun s \<or> rs_status s = RunIsBlocked then returnA s
     else case rs_runtimeDescriptor s of
       None \<Rightarrow> throwA (StoreFailure (StoreError CorruptStore))
     | Some persisted \<Rightarrow>
         bindA (parseDescriptor co persisted) (\<lambda>d.
         bindA (acquireForRecovery co k) (\<lambda>lease.
         bindA (open_session \<lparr>ss_lease = lease, ss_workflow = ld_workflow loaded, ss_state = s,
           ss_prefixDigest = ld_eventPrefixDigest loaded, ss_heartbeatFailed = False,
           ss_mutationFailed = False, ss_stopped = False\<rparr>) (\<lambda>_.
         finishOwnedSession co (coordinateRecovered co (ld_events loaded) d opId))))"
  from run consider (early) e where "?ask s = Some (Inl e, s')"
    | (missing) e s1 i where "?ask s = Some (Inr i, s1)" "requireCompleteRun co k s1 = Some (Inl e, s')" "r = Inl e"
    | (loaded) i s1 loaded s2 where "?ask s = Some (Inr i, s1)"
        "requireCompleteRun co k s1 = Some (Inr loaded, s2)" "?rest i loaded s2 = Some (r, s')"
    unfolding resume_def bindA_Some_iff by blast
  then show ?thesis
  proof cases
    case early
    then have False by (auto simp: ask_def returnA_def split: option.splits prod.splits)
    then show ?thesis ..
  next
    case missing
    with keepsD [OF keeps_unopened_calls(3) missing(2) keepsD [OF op missing(1) un]] show ?thesis by simp
  next
    case loaded
    let ?t = "ld_state loaded"
    have un2: "unopened s2"
      by (rule keepsD [OF keeps_unopened_calls(3) loaded(2) keepsD [OF op loaded(1) un]])
    note st2 = require_stored [OF loaded(2)]
    show ?thesis
    proof (cases "isTerminalRun ?t \<or> rs_status ?t = RunIsBlocked \<or> rs_runtimeDescriptor ?t = None")
      case True
      with loaded(3) un2 st2 show ?thesis
        by (auto simp: Let_def returnA_def throwA_def split: if_splits)
    next
      case False
      then obtain persisted where "rs_runtimeDescriptor ?t = Some persisted" by auto
      with False loaded(3) consider (parse) e where "parseDescriptor co persisted s2 = Some (Inl e, s')" "r = Inl e"
        | (acquire) d s3 e where "parseDescriptor co persisted s2 = Some (Inr d, s3)"
            "acquireForRecovery co k s3 = Some (Inl e, s')" "r = Inl e"
        | (opened) d s3 l s4 where "parseDescriptor co persisted s2 = Some (Inr d, s3)"
            "acquireForRecovery co k s3 = Some (Inr l, s4)"
            "finishOwnedSession co (coordinateRecovered co (ld_events loaded) d i)
               (s4\<lparr>mx_session := Some \<lparr>ss_lease = l, ss_workflow = ld_workflow loaded, ss_state = ?t,
                 ss_prefixDigest = ld_eventPrefixDigest loaded, ss_heartbeatFailed = False,
                 ss_mutationFailed = False, ss_stopped = False\<rparr>\<rparr>) = Some (r, s')"
        by (auto simp: Let_def bindA_Some_iff open_session_def)
      then show ?thesis
      proof cases
        case parse
        with keepsD [OF keeps_unopened_calls(1) parse(1) un2] show ?thesis by simp
      next
        case acquire
        with keepsD [OF keeps_unopened_calls(2) acquire(2) keepsD [OF keeps_unopened_calls(1) acquire(1) un2]]
        show ?thesis by simp
      next
        case opened
        have un4: "unopened s4"
          by (rule keepsD [OF keeps_unopened_calls(2) opened(2) keepsD [OF keeps_unopened_calls(1) opened(1) un2]])
        have "stored_prefix (mx_store s4) k ?t"
          using keepsD [where m = "acquireForRecovery co k" and s = s3 and s' = s4, OF stored.keeps_acquireForRecovery opened(2)]
            keepsD [where m = "parseDescriptor co persisted" and s = s2 and s' = s3, OF stored.keeps_parseDescriptor opened(1)]
            st2 by blast
        moreover from opened(2) have "lt_runId l = k"
          using acquireForRecovery_token [of k co] by (auto simp: gives_def)
        ultimately have "durable_session l (rs_runId ?t)
            (s4\<lparr>mx_session := Some \<lparr>ss_lease = l, ss_workflow = ld_workflow loaded, ss_state = ?t,
                 ss_prefixDigest = ld_eventPrefixDigest loaded, ss_heartbeatFailed = False,
                 ss_mutationFailed = False, ss_stopped = False\<rparr>\<rparr>)" and "lt_runId l = k"
          using un4 by (auto simp: durable_session_def unopened_def)
        with opened(3) have "\<exists>s1. durable_session l (rs_runId ?t) s1 \<and> lt_runId l = k \<and>
            finishOwnedSession co (coordinateRecovered co (ld_events loaded) d i) s1 = Some (r, s')"
          by (intro exI conjI)
        then show ?thesis by blast
      qed
    qed
  qed
qed

lemma resume_stored:
  assumes "resume co k opId s = Some (Inr t, s')" and "unopened s" and fresh: "fresh_commits (mx_calls s')"
  shows "stored_prefix (mx_store s') k t \<and>
    (mx_session s' \<noteq> None \<longrightarrow>
       (\<exists>l. lt_runId l = k \<and> lease_over (mx_store s') l \<and> map_option ss_lease (mx_session s') = Some l))"
  using resume_Some [OF assms(1,2)]
proof (elim disjE exE conjE)
  assume "unopened s'" "\<forall>u. Inr t = Inr u \<longrightarrow> stored_prefix (mx_store s') k u"
  then show ?thesis by (auto simp: unopened_def)
next
  fix l d s1 opId' and loaded :: loaded_run
  assume d: "durable_session l (rs_runId (ld_state loaded)) s1" and l: "lt_runId l = k"
    and fin: "finishOwnedSession co (coordinateRecovered co (ld_events loaded) d opId') s1 = Some (Inr t, s')"
  from finish_returns [OF fin durable.keeps_coordinateRecovered d returns_coordinateRecovered fresh] l
  show ?thesis by auto
qed

lemma resume_log:
  assumes "resume co k opId s = Some (r, s')" and "unopened s" and fresh: "fresh_commits (mx_calls s')"
  shows "authorized_durably (mx_calls s')"
  using resume_Some [OF assms(1,2)]
proof (elim disjE exE conjE)
  assume "unopened s'"
  with fresh show ?thesis by (simp add: unopened_def)
next
  fix l d s1 opId' and loaded :: loaded_run
  assume d: "durable_session l (rs_runId (ld_state loaded)) s1"
    and fin: "finishOwnedSession co (coordinateRecovered co (ld_events loaded) d opId') s1 = Some (r, s')"
  from finish_keeps_log [OF fin durable.keeps_coordinateRecovered d] fresh
  show ?thesis by (simp add: durable_session_def)
qed

end
