(* ===== verification/Attempt_Counts.thy ===== *)
theory Attempt_Counts
  imports Coordinator_Returns
begin

text \<open>
  How often a coordinator tries a node. Only scheduling adds an attempt, the loop schedules a node
  only after it has found room in the budget, and nothing between that check and the scheduling
  adds one; so no node of a run that was started here has more attempts than its budget allows.
\<close>

section \<open>Counting\<close>

definition attempt_count :: "run_state \<Rightarrow> string \<Rightarrow> int" where
  "attempt_count s nid = (case find_node s nid of None \<Rightarrow> 0 | Some nd \<Rightarrow> int (length (n_attempts nd)))"

definition scheduled_node :: "run_event_payload \<Rightarrow> string option" where
  "scheduled_node p = (case p of AttemptScheduled nid _ _ \<Rightarrow> Some nid | _ \<Rightarrow> None)"

definition schedulings :: "string \<Rightarrow> run_event_payload list \<Rightarrow> int" where
  "schedulings nid ps = int (length (filter (\<lambda>p. scheduled_node p = Some nid) ps))"

lemma schedulings_simps [simp]:
  "schedulings nid [] = 0"
  "schedulings nid (p # ps) = (if scheduled_node p = Some nid then 1 else 0) + schedulings nid ps"
  "schedulings nid (ps @ qs) = schedulings nid ps + schedulings nid qs"
  by (simp_all add: schedulings_def)

lemma unscheduled_schedulings: "unscheduled ps \<Longrightarrow> schedulings nid ps = 0"
  by (induction ps) (auto simp: schedules_def scheduled_node_def split: run_event_payload.splits)

lemma attempt_count_payload:
  assumes "apply_payload s p = Inr s'"
  shows "attempt_count s' nid = attempt_count s nid + schedulings nid [p]"
proof (cases "node_event p = Some nid")
  case False
  have "find_node s' nid = find_node s nid"
  proof (cases "node_event p")
    case None
    with run_event_step [OF assms] show ?thesis by (simp add: find_node_def)
  next
    case (Some j)
    with False node_event_step [OF assms Some] show ?thesis by auto
  qed
  with False show ?thesis by (cases p) (auto simp: attempt_count_def scheduled_node_def)
next
  case True
  with assms show ?thesis
    by (cases p)
      (auto simp: handler_iffs attempt_count_def scheduled_node_def dest!: observe_runtime_event_frame
        split: option.splits)
qed

lemma attempt_count_event:
  assumes "applyRunEvent (Some s) e = Inr s'"
  shows "attempt_count s' nid = attempt_count s nid + schedulings nid [ev_payload e]"
proof -
  from assms have "apply_payload (s\<lparr>rs_sequence := ev_sequence e\<rparr>) (ev_payload e) = Inr s'"
    unfolding applyRunEvent_Some_iff by blast
  from attempt_count_payload [OF this, of nid] show ?thesis by (simp add: attempt_count_def)
qed

lemma attempt_count_events:
  "apply_events s es = Inr s' \<Longrightarrow> attempt_count s' nid = attempt_count s nid + schedulings nid (map ev_payload es)"
proof (induction es arbitrary: s)
  case (Cons e es)
  then obtain s1 where s1: "applyRunEvent (Some s) e = Inr s1" "apply_events s1 es = Inr s'"
    by (auto simp: result_simps)
  from Cons.IH [OF s1(2)] attempt_count_event [OF s1(1), of nid] show ?case by simp
qed simp

lemma attempt_count_materialized:
  assumes "materializeEvents (Some s) rid ps = Inr (events, t)"
  shows "attempt_count t nid = attempt_count s nid + schedulings nid ps"
  using materializeEvents_Some [OF assms] attempt_count_events [of s events t nid] by auto

section \<open>The session's counts\<close>

text \<open>The workflow of a session and its state after a commit: as it was, or with the new events.\<close>

definition session_view :: "'w machine \<Rightarrow> (workflow_definition \<times> run_state) option" where
  "session_view s = map_option (\<lambda>x. (ss_workflow x, ss_state x)) (mx_session s)"

lemma drift_view: "drift co s s' \<Longrightarrow> session_view s' = session_view s"
  by (auto simp: drift_def session_view_def same_session_def elim: option.rel_cases)

lemma committed_view:
  assumes "committed co x ps t s s'"
  shows "session_view s' = session_view s"
proof -
  from assms obtain events s1 s2 where d: "drift co s s1" "drift co s2 s'"
    and sm: "stored_mutation co x events s1 s2"
    by (auto simp: committed_def)
  from sm have "session_view s2 = session_view s1" by (auto simp: stored_mutation_def session_view_def)
  with d show ?thesis by (simp add: drift_view)
qed

lemma commit_view:
  assumes run: "session_commit co ps opts s = Some (r, s')"
  shows "session_view s' = session_view s \<or>
    (\<exists>w u rid events t. session_view s = Some (w, u) \<and> session_view s' = Some (w, t) \<and>
       materializeEvents (Some u) rid ps = Inr (events, t))"
  using session_commit_Some [OF run]
proof (elim disjE exE conjE)
  assume "drift co s s'"
  from drift_view [OF this] show ?thesis by simp
next
  fix x t s1
  assume x: "mx_session s = Some x" and c: "committed co x ps t s s1"
    and e: "case r of Inl _ \<Rightarrow> drift co s1 s' | Inr t' \<Rightarrow> t' = t \<and> moved_on t s1 s'"
  note v1 = committed_view [OF c]
  from c obtain events where mat: "materializeEvents (Some (ss_state x)) (lt_runId (ss_lease x)) ps = Inr (events, t)"
    by (auto simp: committed_def)
  show ?thesis
  proof (cases r)
    case (Inl err)
    with e v1 drift_view [of co s1 s'] show ?thesis by simp
  next
    case (Inr u)
    with e have "moved_on t s1 s'" by simp
    with v1 x mat show ?thesis
      by (intro disjI2 exI [of _ "ss_workflow x"] exI [of _ "ss_state x"] exI [of _ "lt_runId (ss_lease x)"]
          exI [of _ events] exI [of _ t]) (auto simp: session_view_def moved_on_def)
  qed
qed

text \<open>
  A property of the counts is kept by whatever commits no scheduling. The two of interest: every
  node is within its budget, and node \<open>nid\<close> has room for one more attempt besides.
\<close>

definition counts_hold :: "(workflow_definition \<Rightarrow> (string \<Rightarrow> int) \<Rightarrow> bool) \<Rightarrow> 'w machine \<Rightarrow> bool" where
  "counts_hold Q s \<longleftrightarrow> (\<forall>w t. session_view s = Some (w, t) \<longrightarrow> Q w (attempt_count t))"

definition budgeted :: "workflow_definition \<Rightarrow> (string \<Rightarrow> int) \<Rightarrow> bool" where
  "budgeted w c \<longleftrightarrow>
     (\<forall>nid node. map_of (wf_nodes w) nid = Some node \<longrightarrow> c nid \<le> max 0 (ab_maxAttempts (nd_attemptBudget node)))"

definition roomy :: "string \<Rightarrow> workflow_definition \<Rightarrow> (string \<Rightarrow> int) \<Rightarrow> bool" where
  "roomy nid w c \<longleftrightarrow> budgeted w c \<and>
     (\<forall>node. map_of (wf_nodes w) nid = Some node \<longrightarrow> c nid < ab_maxAttempts (nd_attemptBudget node))"

lemma counts_view: "session_view s' = session_view s \<Longrightarrow> counts_hold Q s' = counts_hold Q s"
  by (simp add: counts_hold_def)

lemma counts_drift: "drift co s s' \<Longrightarrow> counts_hold Q s \<Longrightarrow> counts_hold Q s'"
  by (simp add: counts_view [OF drift_view])

lemma counts_commit:
  assumes "session_commit co ps opts s = Some (r, s')" and "counts_hold Q s"
    and "\<And>w c. Q w c \<Longrightarrow> Q' w (\<lambda>nid. c nid + schedulings nid ps)" and "\<And>w c. Q w c \<Longrightarrow> Q' w c"
  shows "counts_hold Q' s'"
  using commit_view [OF assms(1)]
proof (elim disjE exE conjE)
  assume "session_view s' = session_view s"
  with assms(2,4) show ?thesis by (simp add: counts_hold_def)
next
  fix w u rid events t
  assume "session_view s = Some (w, u)" "session_view s' = Some (w, t)"
    "materializeEvents (Some u) rid ps = Inr (events, t)"
  moreover from attempt_count_materialized [OF this(3)]
  have "attempt_count t = (\<lambda>nid. attempt_count u nid + schedulings nid ps)" by (simp add: fun_eq_iff)
  ultimately show ?thesis using assms(2,3) by (auto simp: counts_hold_def)
qed

lemma counts_unscheduled:
  assumes "session_commit co ps opts s = Some (r, s')" and "counts_hold Q s" and "unscheduled ps"
  shows "counts_hold Q s'"
  by (rule counts_commit [OF assms(1,2)]) (simp_all add: unscheduled_schedulings [OF assms(3)])

lemma counts_start:
  assumes run: "authorized_start co p x s = Some (r, s')" and Q: "counts_hold Q s"
  shows "counts_hold Q s'"
proof -
  let ?ps = "[AttemptStartAuthorized (pa_nodeId p) (pa_attempt p) x]"
  from run consider (failed) e where "session_commit co ?ps plain_commit s = Some (Inl e, s')"
    | (passed) u s1 where "session_commit co ?ps plain_commit s = Some (Inr u, s1)"
      "guard co (host_authorize co x) s1 = Some (r, s')"
    by (auto simp: authorized_start_def bindA_Some_iff)
  then show ?thesis
  proof cases
    case failed
    from counts_unscheduled [OF this Q] show ?thesis by simp
  next
    case passed
    from counts_unscheduled [OF passed(1) Q] have "counts_hold Q s1" by simp
    with passed(2) show ?thesis
    proof (rule drift_guard_error_or_ran)
      show "counts_hold Q t" if "host_authorize co x s = Some (q, t)" "counts_hold Q s" for s q t
        using host_authorize_Some [OF that(1)] that(2) by (auto simp: counts_hold_def session_view_def)
    qed (rule counts_drift)
  qed
qed

interpretation counted: session_invariant co "counts_hold Q" for co Q
proof unfold_locales
  show "counts_hold Q (s\<lparr>mx_world := w\<rparr>)" if "counts_hold Q s" for s :: "'a machine" and w
    using that by (simp add: counts_hold_def session_view_def)
  show "counts_hold Q (ambient_step (dc_env co) a s)" if "counts_hold Q s" for s :: "'a machine" and a
    by (rule counts_drift [OF drift_ambient_step that])
  show "counts_hold Q (s\<lparr>mx_calls := mx_calls s @ [(c, mx_store s)]\<rparr>)"
    if "counts_hold Q s" for s :: "'a machine" and c
    using that by (simp add: counts_hold_def session_view_def)
  show "counts_hold Q (s\<lparr>mx_calls := mx_calls s @ [(PrepareCall p y, mx_store s)]\<rparr>)"
    if "counts_hold Q s" for s :: "'a machine" and p y
    using that by (simp add: counts_hold_def session_view_def)
  show "keeps (counts_hold Q) (session_commit co ps opts)" if "unscheduled ps" for ps opts
    by (rule keepsI) (rule counts_unscheduled [OF _ _ that])
  show "keeps (counts_hold Q) session_stop"
    by (rule keepsI) (auto simp: session_stop_def update_session_def counts_hold_def session_view_def)
  show "keeps (counts_hold Q) (authorized_start co pa x)" for pa x
    by (rule keepsI) (rule counts_start)
qed

section \<open>The budget\<close>

lemma roomy_budgeted: "counts_hold (roomy nid) s \<Longrightarrow> counts_hold budgeted s"
  by (auto simp: counts_hold_def roomy_def)

lemma schedule_in_room:
  assumes "session_commit co ps opts s = Some (r, s')" and "counts_hold (roomy nid) s"
    and "schedulings nid ps = 1" and "\<And>j. j \<noteq> nid \<Longrightarrow> schedulings j ps = 0"
  shows "counts_hold budgeted s'"
proof (rule counts_commit [OF assms(1,2)])
  show "budgeted w (\<lambda>j. c j + schedulings j ps)" if "roomy nid w c" for w c
    unfolding budgeted_def
  proof (intro allI impI)
    fix j node
    assume n: "map_of (wf_nodes w) j = Some node"
    show "c j + schedulings j ps \<le> max 0 (ab_maxAttempts (nd_attemptBudget node))"
      using that n assms(3) assms(4) [of j] by (cases "j = nid") (auto simp: roomy_def budgeted_def)
  qed
qed (simp add: roomy_def)

lemma ensure_cases:
  assumes run: "ensureAttemptBudget co nid s = Some (Inr ok, s')"
  obtains (room) x node nd where "ok" "s' = s" "mx_session s = Some x"
      "map_of (wf_nodes (ss_workflow x)) nid = Some node" "find_node (ss_state x) nid = Some nd"
      "int (length (n_attempts nd)) < ab_maxAttempts (nd_attemptBudget node)"
    | (spent) reason where "\<not> ok" "bindA (session_commit co [NodePaused nid (Some reason), RunPaused (Some reason)]
        snapshot_commit) (\<lambda>_. returnA False) s = Some (Inr ok, s')"
proof -
  obtain x where x: "mx_session s = Some x"
    using run by (cases "mx_session s") (auto simp: ensureAttemptBudget_def bindA_def session_def)
  from run have rest: "(case (map_of (wf_nodes (ss_workflow x)) nid,
        find_node (ss_state x) nid) of
      (Some node, Some nd) \<Rightarrow>
        if int (length (n_attempts nd)) < ab_maxAttempts (nd_attemptBudget node) then returnA True
        else (let reason = BudgetExhaustedPause nid (int (length (n_attempts nd))) in
          bindA (session_commit co [NodePaused nid (Some reason), RunPaused (Some reason)] snapshot_commit)
            (\<lambda>_. returnA False))
    | _ \<Rightarrow> throwA ReadyNodeMissing) s = Some (Inr ok, s')"
    unfolding ensureAttemptBudget_def bindA_session [OF x] .
  from rest obtain node nd where n: "map_of (wf_nodes (ss_workflow x)) nid = Some node"
    "find_node (ss_state x) nid = Some nd"
    by (cases "map_of (wf_nodes (ss_workflow x)) nid"; cases "find_node (ss_state x) nid")
      (auto simp: throwA_def)
  show thesis
  proof (cases "int (length (n_attempts nd)) < ab_maxAttempts (nd_attemptBudget node)")
    case True
    with rest n x show ?thesis by (intro room) (auto simp: returnA_def)
  next
    case False
    with rest n have later: "bindA (session_commit co [NodePaused nid (Some (BudgetExhaustedPause nid (int (length (n_attempts nd))))),
        RunPaused (Some (BudgetExhaustedPause nid (int (length (n_attempts nd)))))] snapshot_commit)
        (\<lambda>_. returnA False) s = Some (Inr ok, s')"
      by (simp add: Let_def)
    then have "\<not> ok" by (auto simp: bindA_Some_iff returnA_def)
    with later show ?thesis by (intro spent)
  qed
qed

lemma room_checked:
  "triple (counts_hold budgeted) (ensureAttemptBudget co nid)
     (\<lambda>ok s. counts_hold budgeted s \<and> (ok \<longrightarrow> counts_hold (roomy nid) s)) (counts_hold budgeted)"
proof (rule tripleI)
  fix s e s'
  assume "counts_hold budgeted s" "ensureAttemptBudget co nid s = Some (Inl e, s')"
  from keepsD [OF counted.keeps_ensureAttemptBudget this(2,1)] show "counts_hold budgeted s'" .
next
  fix s ok s'
  assume b: "counts_hold budgeted s" and run: "ensureAttemptBudget co nid s = Some (Inr ok, s')"
  from keepsD [OF counted.keeps_ensureAttemptBudget run b] have "counts_hold budgeted s'" .
  moreover have "counts_hold (roomy nid) s'" if ok
    using run
  proof (cases rule: ensure_cases)
    case room
    with b show ?thesis by (auto simp: counts_hold_def session_view_def roomy_def attempt_count_def)
  qed (use that in simp)
  ultimately show "counts_hold budgeted s' \<and> (ok \<longrightarrow> counts_hold (roomy nid) s')" by simp
qed

text \<open>Preparing an attempt commits nothing before the one scheduling that the room is for.\<close>

lemma triple_keeping:
  assumes "keeps I m" and "\<And>s. I s \<Longrightarrow> E s" and "\<And>x. triple I (f x) Q E"
  shows "triple I (bindA m f) Q E"
  by (rule triple_bind [where Q = "\<lambda>_. I"], rule keeps_triple [OF assms(1)], assumption, assumption,
      erule assms(2), rule assms(3))

lemma triple_prod: "(\<And>x y. triple P (f x y) Q E) \<Longrightarrow> triple P (case p of (x, y) \<Rightarrow> f x y) Q E"
  by (cases p) simp

lemma prepare_in_room:
  "triple (\<lambda>s. counts_hold budgeted s \<and> counts_hold (roomy nid) s) (prepareAttempt co nid d)
     (\<lambda>_. counts_hold budgeted) (counts_hold budgeted)"
proof -
  let ?P = "counts_hold (roomy nid)" and ?R = "counts_hold budgeted"
  note keeping = triple_keeping [where I = ?P and E = ?R, OF _ roomy_budgeted]
  have commit: "triple ?P (bindA (session_commit co
      ([AttemptScheduled nid n rt, ArtifactProduced nid n a] @
       (case da of None \<Rightarrow> [] | Some a \<Rightarrow> [ArtifactProduced nid n a]) @ [AttemptPrepared nid n plan cp]) opts)
      (\<lambda>_. returnA v)) (\<lambda>_. ?R) ?R" for n rt a da plan cp opts and v :: prepared_attempt
  proof (rule triple_bind [where Q = "\<lambda>_. ?R"])
    show "triple ?P (session_commit co ([AttemptScheduled nid n rt, ArtifactProduced nid n a] @
       (case da of None \<Rightarrow> [] | Some a \<Rightarrow> [ArtifactProduced nid n a]) @ [AttemptPrepared nid n plan cp]) opts)
       (\<lambda>_. ?R) ?R"
      by (intro tripleI schedule_in_room [where nid = nid]; assumption?)
        (auto simp: scheduled_node_def split: option.split)
  qed (simp add: triple_return)
  have cases: "triple ?P (case (x, y, z) of (Some node, Some nd, Some ws) \<Rightarrow> f node nd ws | _ \<Rightarrow> throwA e) (\<lambda>_. ?R) ?R"
    if "\<And>node nd ws. triple ?P (f node nd ws) (\<lambda>_. ?R) ?R"
    for x :: "'x option" and y :: "'y option" and z :: "'z option" and f e
    using that by (auto intro: triple_throw roomy_budgeted split: option.split)
  have "triple ?P (prepareAttempt co nid d) (\<lambda>_. ?R) ?R"
    unfolding prepareAttempt_def Let_def
    by (intro keeping keeps_session cases keeps_check counted.keeps_captureCheckpoint keeps_lift counted.keeps_ask
        counted.keeps_writeArtifact triple_prod commit)
  then show ?thesis by (rule triple_weaken) auto
qed

interpretation budget: coordinator_invariant co "counts_hold budgeted" "\<lambda>nid. counts_hold (roomy nid)" for co
proof unfold_locales
  show "triple (counts_hold budgeted) (ensureAttemptBudget co nid)
      (\<lambda>ok s. counts_hold budgeted s \<and> (ok \<longrightarrow> counts_hold (roomy nid) s)) (counts_hold budgeted)" for nid
    by (rule room_checked)
  show "triple (\<lambda>s. counts_hold budgeted s \<and> counts_hold (roomy nid) s) (preflight co d)
      (\<lambda>_ s. counts_hold budgeted s \<and> counts_hold (roomy nid) s) (counts_hold budgeted)" for nid d
    by (rule keeps_triple [OF keeps_conj [OF counted.keeps_preflight counted.keeps_preflight]]) auto
qed (rule prepare_in_room)

text \<open>The workflow of a session never changes.\<close>

interpretation workflow: unconditional_invariant co "counts_hold (\<lambda>v _. v = w)" for co w
  by unfold_locales (rule keepsI, rule counts_commit)

lemma created_counts:
  assumes "initial_history w i runId d = Inr (events, t)"
  shows "attempt_count t nid = 0"
proof -
  from assms obtain created s0 initialized where
    c: "materializeEvents None runId [RunCreated (runId @ '':root'') (wm_id (wf_metadata w))
      (wm_version (wf_metadata w)) (wf_nodeOrder w) (cu_inputs i)] = Inr (created, s0)" and
    m: "materializeEvents (Some s0) runId ([RuntimeConfigured d, WorkspaceAssigned (cu_workspace i)] @
        readyPayloads (findExecutableNodes w s0)) = Inr (initialized, t)"
    by (auto simp: initial_history_def result_simps)
  from c obtain e where "applyRunEvent None e = Inr s0"
    by (auto simp: materializeEvents_def Let_def result_simps split: option.splits)
  then have z: "attempt_count s0 nid = 0"
    by (auto simp: applyRunEvent_None_iff attempt_count_def new_node_def dest: find_node_created split: option.split)
  have un: "unscheduled ([RuntimeConfigured d, WorkspaceAssigned (cu_workspace i)] @
      readyPayloads (findExecutableNodes w s0))"
    by (simp add: schedules_def)
  show ?thesis
    by (simp only: attempt_count_materialized [OF m] unscheduled_schedulings [OF un] z add_0)
qed

lemma opens_with_counts:
  "triple (\<lambda>s. mx_session s = None) (initializeOwnedRun co w i)
     (\<lambda>_ s. counts_hold budgeted s \<and> counts_hold (\<lambda>v _. v = w) s) (\<lambda>s. mx_session s = None)"
proof -
  let ?I = "\<lambda>s. mx_session s = None"
  have last: "triple ?I
    (bindA (await co (store_change co (\<lambda>now st. bindE (createOwned (dc_env co) now st own)
       (\<lambda>(st', lease, receipt). Inr (st', lease))))) (\<lambda>lease.
     open_session \<lparr>ss_lease = lease, ss_workflow = w, ss_state = t,
       ss_prefixDigest = digest, ss_heartbeatFailed = False,
       ss_mutationFailed = False, ss_stopped = False\<rparr>))
    (\<lambda>_ s. counts_hold budgeted s \<and> counts_hold (\<lambda>v _. v = w) s) ?I"
    if "initial_history w i runId d = Inr (events, t)" for runId d events t digest own
  proof (rule tripleI, goal_cases)
    case (1 s u s')
    then obtain s3 lease where s': "s' = s3\<lparr>mx_session := Some \<lparr>ss_lease = lease, ss_workflow = w, ss_state = t,
       ss_prefixDigest = digest, ss_heartbeatFailed = False,
       ss_mutationFailed = False, ss_stopped = False\<rparr>\<rparr>"
      by (auto simp: bindA_Some_iff open_session_def)
    show ?case
      by (auto simp: s' counts_hold_def session_view_def budgeted_def created_counts [OF that])
  next
    case (2 s e s')
    then show ?case
      by (auto simp: bindA_Some_iff open_session_def dest: keepsD [OF keeps_closed_create])
  qed
  show ?thesis
    unfolding initializeOwnedRun_def
    by (intro triple_bind [OF triple_keeps [OF closed.keeps_parseDescriptor]] triple_lift_bind
      triple_bind [OF triple_keeps [OF closed.keeps_ask]]
      triple_bind [OF triple_keeps [OF keeps_option [OF closed.keeps_ask keeps_return]]])
    (auto intro!: triple_lift_bind triple_bind [OF triple_keeps [OF closed.keeps_ask]] last)
qed

lemma start_budgeted:
  assumes run: "start co w i s = Some (Inr t, s')" and closed: "mx_session s = None"
    and node: "map_of (wf_nodes w) nid = Some node" and nd: "find_node t nid = Some nd"
  shows "int (length (n_attempts nd)) \<le> max 0 (ab_maxAttempts (nd_attemptBudget node))"
proof -
  from run obtain d s1 s2 u where p: "parseDescriptor co (cu_descriptor i) s = Some (Inr d, s1)"
    and init: "initializeOwnedRun co w (i\<lparr>cu_descriptor := d\<rparr>) s1 = Some (Inr u, s2)"
    and fin: "finishOwnedSession co (coordinateRunning co d) s2 = Some (Inr t, s')"
    by (auto simp: start_def bindA_Some_iff)
  from keepsD [OF closed.keeps_parseDescriptor p closed] tripleD [OF opens_with_counts init]
  have b2: "counts_hold budgeted s2" and w2: "counts_hold (\<lambda>v _. v = w) s2" by auto
  from finish_Inr [OF fin] obtain s3 where op: "coordinateRunning co d s2 = Some (Inr t, s3)" by blast
  from returns_coordinateRunning [of co d] op have "map_option ss_state (mx_session s3) = Some t"
    by (simp add: returns_state_def)
  then obtain x where "mx_session s3 = Some x" "ss_state x = t" by auto
  with keepsD [OF budget.keeps_coordinateRunning op b2] keepsD [OF workflow.keeps_coordinateRunning op w2] node
  have "attempt_count t nid \<le> max 0 (ab_maxAttempts (nd_attemptBudget node))"
    by (auto simp: counts_hold_def session_view_def budgeted_def)
  with nd show ?thesis by (simp add: attempt_count_def)
qed

end
