(* ===== verification/Coordinator_Recovery.thy ===== *)
theory Coordinator_Recovery
  imports Attempt_Counts
begin

text \<open>
  The safety of recovery. A coordinator that takes over a run in which an attempt is still owned
  launches nothing before the execution host has confirmed that the attempt's execution is gone:
  every preparation and every start it makes comes after an inspection or a termination of the
  attempt's plan that was answered with absence.
\<close>

section \<open>The record of the calls\<close>

definition launch_free :: "(host_call \<times> memory_store) list \<Rightarrow> bool" where
  "launch_free calls \<longleftrightarrow> list_all (\<lambda>(c, _). \<not> launches c) calls"

definition confirms_absence :: "execution_plan_ref \<Rightarrow> host_call \<Rightarrow> bool" where
  "confirms_absence plan c \<longleftrightarrow>
     (\<exists>ob. observed_absent ob \<and> (c = InspectCall plan (Some ob) \<or> c = TerminateCall plan (Some ob)))"

definition absence_confirmed :: "execution_plan_ref \<Rightarrow> (host_call \<times> memory_store) list \<Rightarrow> bool" where
  "absence_confirmed plan calls \<longleftrightarrow> (\<exists>(c, st) \<in> set calls. confirms_absence plan c)"

definition launches_after_absence :: "execution_plan_ref \<Rightarrow> (host_call \<times> memory_store) list \<Rightarrow> bool" where
  "launches_after_absence plan calls \<longleftrightarrow>
     (\<forall>i < length calls. launches (fst (calls ! i)) \<longrightarrow> absence_confirmed plan (take i calls))"

lemma launch_free_append [simp]:
  "launch_free []" "launch_free (cs @ ds) \<longleftrightarrow> launch_free cs \<and> launch_free ds"
  "launch_free [(c, st)] \<longleftrightarrow> \<not> launches c"
  by (simp_all add: launch_free_def)

lemma absence_confirmed_append [simp]:
  "absence_confirmed plan (cs @ ds) \<longleftrightarrow> absence_confirmed plan cs \<or> absence_confirmed plan ds"
  "absence_confirmed plan [(c, st)] \<longleftrightarrow> confirms_absence plan c"
  by (auto simp: absence_confirmed_def)

lemma launch_free_after: "launch_free calls \<Longrightarrow> launches_after_absence plan calls"
  by (auto simp: launch_free_def launches_after_absence_def list_all_length case_prod_beta)

lemma launches_after_append:
  assumes "launches_after_absence plan cs" and "absence_confirmed plan cs"
  shows "launches_after_absence plan (cs @ ds)"
  using assms by (auto simp: launches_after_absence_def nth_append)

text \<open>The calls of a coordinator only grow, and what a session commits is no launch.\<close>

definition quiet_calls :: "'w machine \<Rightarrow> 'w machine \<Rightarrow> bool" where
  "quiet_calls s s' \<longleftrightarrow> (\<exists>ds. mx_calls s' = mx_calls s @ ds \<and> launch_free ds)"

lemma quiet_calls_refl [simp]: "quiet_calls s s"
  by (auto simp: quiet_calls_def)

lemma drift_quiet: "drift co s s' \<Longrightarrow> quiet_calls s s'"
  by (auto simp: drift_def quiet_calls_def)

lemma commit_quiet:
  assumes run: "session_commit co ps opts s = Some (r, s')"
  shows "quiet_calls s s'"
  using session_commit_Some [OF run]
proof (elim disjE exE conjE)
  assume "drift co s s'"
  then show ?thesis by (rule drift_quiet)
next
  fix x t s1
  assume "committed co x ps t s s1" and "case r of Inl _ \<Rightarrow> drift co s1 s' | Inr t' \<Rightarrow> t' = t \<and> moved_on t s1 s'"
  then show ?thesis
    by (cases r) (auto simp: committed_def stored_mutation_def drift_def moved_on_def quiet_calls_def)
qed

lemma start_calls:
  assumes run: "authorized_start co p x s = Some (r, s')"
  shows "\<exists>ds. mx_calls s' = mx_calls s @ ds"
proof -
  from run consider (failed) e where
      "session_commit co [AttemptStartAuthorized (pa_nodeId p) (pa_attempt p) x] plain_commit s = Some (Inl e, s')"
    | (passed) u s1 where
      "session_commit co [AttemptStartAuthorized (pa_nodeId p) (pa_attempt p) x] plain_commit s = Some (Inr u, s1)"
      "guard co (host_authorize co x) s1 = Some (r, s')"
    by (auto simp: authorized_start_def bindA_Some_iff)
  then show ?thesis
  proof cases
    case failed
    from commit_quiet [OF this] show ?thesis by (auto simp: quiet_calls_def)
  next
    case passed
    from commit_quiet [OF passed(1)] have "\<exists>ds. mx_calls s1 = mx_calls s @ ds" by (auto simp: quiet_calls_def)
    with passed(2) show ?thesis
    proof (rule drift_guard_error_or_ran)
      show "\<exists>ds. mx_calls t = mx_calls s @ ds" if "host_authorize co x u = Some (q, t)" "\<exists>ds. mx_calls u = mx_calls s @ ds" for u q t
        using host_authorize_Some [OF that(1)] that(2) by auto
    qed (auto simp: drift_def)
  qed
qed

interpretation launchless: quiet_invariant co "\<lambda>s. launch_free (mx_calls s)" for co
proof unfold_locales
  show "launch_free (mx_calls (ambient_step (dc_env co) a s))" if "launch_free (mx_calls s)" for s :: "'a machine" and a
    using drift_ambient_step [of co s a] that by (simp add: drift_def)
  show "keeps (\<lambda>s. launch_free (mx_calls s)) (session_commit co ps opts)" for ps opts
    by (rule keepsI) (auto dest!: commit_quiet simp: quiet_calls_def)
  show "keeps (\<lambda>s. launch_free (mx_calls s)) session_stop"
    by (rule keepsI) (auto simp: session_stop_def update_session_def)
qed simp_all

interpretation after_absence: unconditional_invariant co
  "\<lambda>s. absence_confirmed plan (mx_calls s) \<and> launches_after_absence plan (mx_calls s)" for co plan
proof unfold_locales
  let ?I = "\<lambda>s. absence_confirmed plan (mx_calls s) \<and> launches_after_absence plan (mx_calls s)"
  show "?I (ambient_step (dc_env co) a s)" if "?I s" for s :: "'a machine" and a
    using drift_ambient_step [of co s a] that by (simp add: drift_def)
  have grows: "?I s'" if "?I s" "\<exists>ds. mx_calls s' = mx_calls s @ ds" for s s' :: "'a machine"
    using that launches_after_append by auto
  show commits: "keeps ?I (session_commit co ps opts)" "keeps ?I (session_commit co ps opts)" for ps opts
    by (rule keepsI, erule grows, auto dest!: commit_quiet simp: quiet_calls_def)+
  show "keeps ?I session_stop"
    by (rule keepsI) (auto simp: session_stop_def update_session_def)
  show "keeps ?I (authorized_start co pa x)" for pa x
    by (rule keepsI, erule grows, rule start_calls)
qed (simp_all add: launches_after_append)

section \<open>A recovery that stays blocked\<close>

definition orphan_free :: "run_state \<Rightarrow> bool" where
  "orphan_free s \<longleftrightarrow>
     (\<forall>nd \<in> set (node_values s). \<not> (last_status nd = Some Orphaned \<and> n_status nd = NodeRunningStatus))"

lemma orphan_free_iff: "currentOrphanedAttempt s = None \<longleftrightarrow> orphan_free s"
  by (auto simp: currentOrphanedAttempt_def orphan_free_def object_values_def node_values_def find_None_iff
      image_iff)

lemma orphan_free_cleanup:
  assumes "applyExecutionCleanup s nid n eid cause oc = Inr s'" and "orphan_free s"
  shows "orphan_free s'"
proof -
  from assms(1) obtain nd a x where nd: "find_node s nid = Some nd" "last_attempt nd = Some a"
    and s': "s' = set_node s nid (set_attempt nd (a\<lparr>a_cleanup := x\<rparr>))"
    unfolding applyExecutionCleanup_iff by blast
  have status: "last_status (set_attempt nd (a\<lparr>a_cleanup := x\<rparr>)) = last_status nd"
    "n_status (set_attempt nd (a\<lparr>a_cleanup := x\<rparr>)) = n_status nd"
    using nd(2) by (auto simp: last_status_def set_attempt_def last_attempt_def last_opt_Some_iff)
  have "v = set_attempt nd (a\<lparr>a_cleanup := x\<rparr>) \<or> v \<in> set (node_values s)" if "v \<in> set (node_values s')" for v
    using that by (force simp: s' set_node_def node_values_def set_update_at)
  note old = this
  have "\<not> (last_status v = Some Orphaned \<and> n_status v = NodeRunningStatus)" if "v \<in> set (node_values s')" for v
    using old [OF that] assms(2) status find_node_in_values [OF nd(1)] by (auto simp: orphan_free_def)
  then show ?thesis by (simp add: orphan_free_def)
qed

definition blocked_recovery :: "'w machine \<Rightarrow> bool" where
  "blocked_recovery s \<longleftrightarrow> (\<exists>w t. session_view s = Some (w, t) \<and>
     rs_status t = RunRecoveryBlockedStatus \<and> orphan_free t)"

definition orphanless :: "'w machine \<Rightarrow> bool" where
  "orphanless s \<longleftrightarrow> (\<forall>w t. session_view s = Some (w, t) \<longrightarrow> orphan_free t)"

lemma orphanless_view: "session_view s' = session_view s \<Longrightarrow> orphanless s' = orphanless s"
  by (simp add: orphanless_def)

lemma commit_moved:
  assumes run: "session_commit co ps opts s = Some (Inr u, s')" and ne: "ps \<noteq> []"
  shows "\<exists>w t0 rid events t. session_view s = Some (w, t0) \<and> session_view s' = Some (w, t) \<and>
    materializeEvents (Some t0) rid ps = Inr (events, t)"
  using session_commit_Some [OF run]
proof (elim disjE exE conjE)
  assume "\<forall>t. Inr u = Inr t \<longrightarrow> ps = []"
  with ne show ?thesis by simp
next
  fix x t s1
  assume x: "mx_session s = Some x" and c: "committed co x ps t s s1"
    and "case Inr u of Inl _ \<Rightarrow> drift co s1 s' | Inr t' \<Rightarrow> t' = t \<and> moved_on t s1 s'"
  then have m: "moved_on t s1 s'" by simp
  from committed_view [OF c] x m c show ?thesis
    by (intro exI [of _ "ss_workflow x"] exI [of _ "ss_state x"] exI [of _ "lt_runId (ss_lease x)"])
      (auto simp: committed_def moved_on_def session_view_def)
qed

lemma blocked_events:
  assumes "apply_events s es = Inr t" and "orphan_free s"
    and "map ev_payload es = ps @ [RunRecoveryBlocked opId reason]"
    and "\<And>p. p \<in> set ps \<Longrightarrow> \<exists>nid n eid cause oc. p = ExecutionCleanupObserved nid n eid cause oc"
  shows "rs_status t = RunRecoveryBlockedStatus \<and> orphan_free t"
  using assms
proof (induction es arbitrary: s ps)
  case step: (Cons e es)
  then obtain s1 where s1: "applyRunEvent (Some s) e = Inr s1" "apply_events s1 es = Inr t"
    by (auto simp: result_simps)
  then have ap: "apply_payload (s\<lparr>rs_sequence := ev_sequence e\<rparr>) (ev_payload e) = Inr s1"
    unfolding applyRunEvent_Some_iff by blast
  have o1: "orphan_free (s\<lparr>rs_sequence := ev_sequence e\<rparr>)"
    using step.prems(2) by (simp add: orphan_free_def node_values_def)
  show ?case
  proof (cases ps)
    case Nil
    with step.prems(3) have "ev_payload e = RunRecoveryBlocked opId reason" "es = []" by auto
    with ap o1 s1(2) show ?thesis
      by (auto simp: handler_iffs orphan_free_def node_values_def)
  next
    case (Cons p ps')
    with step.prems(3) have "ev_payload e = p" and rest: "map ev_payload es = ps' @ [RunRecoveryBlocked opId reason]"
      by auto
    with step.prems(4) [of p] Cons obtain nid n eid cause oc where
      p: "ev_payload e = ExecutionCleanupObserved nid n eid cause oc" by auto
    from ap p have "orphan_free s1" using orphan_free_cleanup [OF _ o1] by simp
    from step.IH [OF s1(2) this rest] step.prems(4) Cons show ?thesis by simp
  qed
qed simp

definition settling :: "'w machine \<Rightarrow> bool" where
  "settling s \<longleftrightarrow> launch_free (mx_calls s) \<and> orphanless s"

definition cleanups_only :: "run_event_payload list \<Rightarrow> bool" where
  "cleanups_only ps \<longleftrightarrow>
     (\<forall>p \<in> set ps. \<exists>nid n eid cause oc. p = ExecutionCleanupObserved nid n eid cause oc)"

lemma cleanups_only_simps [simp]:
  "cleanups_only []" "cleanups_only (cleanup_evidence_payloads nid a plan cause oc)"
  by (auto simp: cleanups_only_def cleanup_evidence_payloads_def)

lemma blocking_commit:
  assumes "settling s" and run: "session_commit co (ps @ [RunRecoveryBlocked opId reason]) opts s = Some (Inr u, s')"
    and "cleanups_only ps"
  shows "blocked_recovery s'"
proof -
  from commit_moved [OF run] obtain w t0 rid events t where v: "session_view s = Some (w, t0)"
    "session_view s' = Some (w, t)"
    and m: "materializeEvents (Some t0) rid (ps @ [RunRecoveryBlocked opId reason]) = Inr (events, t)" by auto
  from materializeEvents_Some [OF m] assms(1,3) v(1) blocked_events [of t0 events t ps opId reason]
  have "rs_status t = RunRecoveryBlockedStatus \<and> orphan_free t"
    by (auto simp: settling_def orphanless_def cleanups_only_def)
  with v(2) show ?thesis by (auto simp: blocked_recovery_def)
qed

lemma settling_drift: "drift co s s' \<Longrightarrow> settling s \<Longrightarrow> settling s'"
  using orphanless_view [OF drift_view, of co s s'] by (simp add: settling_def) (simp add: drift_def)

text \<open>A guarded question to the host is on record with its answer.\<close>

lemma host_answered:
  assumes "bindA (host f entry) answered s = Some (q, s')"
  shows "\<exists>y w. s' = s\<lparr>mx_world := w, mx_calls := mx_calls s @ [(entry y, mx_store s)]\<rparr> \<and>
    (\<forall>ob. q = Inr ob \<longrightarrow> y = Some ob)"
  using assms
  by (auto simp: bindA_Some_iff host_def answered_def throwA_def returnA_def split: prod.splits option.splits)

lemma asked_host:
  assumes "\<And>y. \<not> launches (entry y)" and "\<And>ob. observed_absent ob \<Longrightarrow> confirms_absence plan (entry (Some ob))"
  shows "triple settling (guard co (bindA (host f entry) answered))
    (\<lambda>ob s. settling s \<and> (observed_absent ob \<longrightarrow> absence_confirmed plan (mx_calls s))) settling"
proof -
  have "settling s' \<and> (\<forall>ob. r = Inr ob \<longrightarrow> observed_absent ob \<longrightarrow> absence_confirmed plan (mx_calls s'))"
    if st: "settling s" and run: "guard co (bindA (host f entry) answered) s = Some (r, s')" for s r s'
    using guard_Some [OF run]
  proof (elim disjE exE conjE)
    fix e
    assume "r = Inl e" "drift co s s'"
    with settling_drift [OF this(2) st] show ?thesis by simp
  next
    fix s1 s2 q
    assume d: "drift co s s1" "drift co s2 s'" and call: "bindA (host f entry) answered s1 = Some (q, s2)"
      and q: "case r of Inl _ \<Rightarrow> True | Inr x \<Rightarrow> q = Inr x"
    from host_answered [OF call] obtain y w where
      s2: "s2 = s1\<lparr>mx_world := w, mx_calls := mx_calls s1 @ [(entry y, mx_store s1)]\<rparr>"
      and y: "\<And>ob. q = Inr ob \<Longrightarrow> y = Some ob" by blast
    have "settling s2"
      using settling_drift [OF d(1) st] assms(1) by (simp add: settling_def s2 orphanless_def session_view_def)
    moreover have "absence_confirmed plan (mx_calls s2)" if "r = Inr ob" "observed_absent ob" for ob
      using that q y assms(2) by (simp add: s2)
    ultimately show ?thesis
      using settling_drift [OF d(2)] d(2) by (auto simp: drift_def)
  qed
  then show ?thesis by (intro tripleI) blast+
qed

definition settled :: "execution_plan_ref \<Rightarrow> bool \<Rightarrow> 'w machine \<Rightarrow> bool" where
  "settled plan absent s \<longleftrightarrow> launch_free (mx_calls s) \<and>
     (if absent then absence_confirmed plan (mx_calls s) else blocked_recovery s)"

lemma settle_blocks:
  assumes "cleanups_only ps"
  shows "triple settling (bindA (commit_transition co (ps @ [RunRecoveryBlocked opId reason])) (\<lambda>_. returnA False))
    (settled plan) (\<lambda>s. launch_free (mx_calls s))"
proof (rule tripleI)
  fix s x s'
  assume st: "settling s"
    and run: "bindA (commit_transition co (ps @ [RunRecoveryBlocked opId reason])) (\<lambda>_. returnA False) s = Some (Inr x, s')"
  then obtain u where c: "session_commit co (ps @ [RunRecoveryBlocked opId reason]) snapshot_commit s = Some (Inr u, s')"
    and "x = False"
    by (auto simp: bindA_Some_iff commit_transition_def returnA_def)
  with blocking_commit [OF st c assms] commit_quiet [OF c] st show "settled plan x s'"
    by (auto simp: settled_def settling_def quiet_calls_def)
next
  fix s e s'
  assume st: "settling s"
    and run: "bindA (commit_transition co (ps @ [RunRecoveryBlocked opId reason])) (\<lambda>_. returnA False) s = Some (Inl e, s')"
  then have "session_commit co (ps @ [RunRecoveryBlocked opId reason]) snapshot_commit s = Some (Inl e, s')"
    by (auto simp: bindA_Some_iff commit_transition_def returnA_def)
  from commit_quiet [OF this] st show "launch_free (mx_calls s')"
    by (auto simp: settling_def quiet_calls_def)
qed

lemma settling_launch_free: "settling s \<Longrightarrow> launch_free (mx_calls s)"
  by (simp add: settling_def)

lemma absence_established:
  "triple settling (establishRecoveredAbsence co nid a plan control opId)
     (settled plan) (\<lambda>s. launch_free (mx_calls s))"
proof -
  let ?Q = "\<lambda>ob s. settling s \<and> (observed_absent ob \<longrightarrow> absence_confirmed plan (mx_calls s))"
  let ?E = "\<lambda>s. launch_free (mx_calls s)"
  have inspected: "triple settling (guard co (host_inspect co plan)) ?Q ?E"
    unfolding host_inspect_def
    by (rule triple_weaken [OF asked_host]) (auto simp: confirms_absence_def settling_def)
  have terminated: "triple settling (guard co (host_terminate co plan)) ?Q ?E"
    unfolding host_terminate_def
    by (rule triple_weaken [OF asked_host]) (auto simp: confirms_absence_def settling_def)
  have ended: "triple settling (terminate_recovered co nid a plan control opId) (settled plan) ?E"
    unfolding terminate_recovered_def
  proof (rule triple_bind [OF terminated])
    fix ob
    show "triple (?Q ob) (if observed_absent ob then returnA True
       else bindA (commit_transition co
            (cleanup_evidence_payloads nid a plan (recovery_cause control) UnknownCleanup @
             [RunRecoveryBlocked (recovery_operation control opId) (CleanupUnknown (ex_executionId plan))]))
            (\<lambda>_. returnA False)) (settled plan) ?E"
    proof (cases "observed_absent ob")
      case True
      then show ?thesis by (auto simp: settled_def settling_def intro!: triple_return)
    next
      case False
      then show ?thesis
        by (simp, intro triple_weaken [OF settle_blocks]) auto
    qed
  qed
  show ?thesis
    unfolding establishRecoveredAbsence_def
  proof (rule triple_bind [OF inspected])
    fix ob
    show "triple (?Q ob) (case ob of
       UnknownObservation _ reason \<Rightarrow>
         bindA (blockExecutionUnknown co (recovery_operation control opId) plan reason) (\<lambda>_. returnA False)
     | AbsentObservation _ _ \<Rightarrow> returnA True
     | ActiveObservation _ \<Rightarrow> terminate_recovered co nid a plan control opId) (settled plan) ?E"
    proof (cases ob)
      case (ActiveObservation x1)
      then show ?thesis by (simp, intro triple_weaken [OF ended]) auto
    next
      case (AbsentObservation x21 x22)
      then show ?thesis by (auto simp: settled_def settling_def intro!: triple_return)
    next
      case (UnknownObservation x31 x32)
      then show ?thesis
        using settle_blocks [of "[]"]
        by (simp add: blockExecutionUnknown_def, intro triple_weaken [OF settle_blocks [of "[]", simplified]]) auto
    qed
  qed
qed

section \<open>Recovery\<close>

text \<open>Settling an owned attempt without a pending control.\<close>

definition owns :: "string \<Rightarrow> attempt_state \<Rightarrow> 'w machine \<Rightarrow> bool" where
  "owns nid a s \<longleftrightarrow> (\<forall>w t. session_view s = Some (w, t) \<longrightarrow> currentOwnedAttempt t = Some (nid, a))"

lemma reconciled:
  "triple settling (reconcileOwnedAttempt co nid a plan None obs opId d)
     (\<lambda>_ s. (absence_confirmed plan (mx_calls s) \<or> blocked_recovery s) \<and> launch_free (mx_calls s))
     (\<lambda>s. launch_free (mx_calls s))"
proof -
  let ?Q = "\<lambda>s. (absence_confirmed plan (mx_calls s) \<or> blocked_recovery s) \<and> launch_free (mx_calls s)"
  let ?E = "\<lambda>s. launch_free (mx_calls s)"
  let ?A = "\<lambda>s. launch_free (mx_calls s) \<and> absence_confirmed plan (mx_calls s) \<and>
    launches_after_absence plan (mx_calls s)"
  have quiet: "keeps ?A m" if "keeps ?E m"
    "keeps (\<lambda>s. absence_confirmed plan (mx_calls s) \<and> launches_after_absence plan (mx_calls s)) m"
    for m :: "('a, 'b) act"
    by (rule keeps_conj [OF that])
  have rest: "triple (settled plan absent) (if \<not> absent then returnA ()
     else bindA (orphan_attempt co nid a plan None) (\<lambda>_. continueOrphaned co nid d opId)) (\<lambda>_. ?Q) ?E" for absent
  proof (cases absent)
    case False
    then show ?thesis by (auto simp: settled_def intro!: triple_return)
  next
    case True
    have "keeps ?A (bindA (orphan_attempt co nid a plan None) (\<lambda>_. continueOrphaned co nid d opId))"
      by (intro quiet keeps_bind launchless.keeps_orphan_attempt launchless.keeps_continueOrphaned
          after_absence.keeps_orphan_attempt after_absence.keeps_continueOrphaned)
    then have "triple ?A (bindA (orphan_attempt co nid a plan None) (\<lambda>_. continueOrphaned co nid d opId)) (\<lambda>_. ?Q) ?E"
      by (rule keeps_triple) auto
    with True show ?thesis
      by (auto simp: settled_def launch_free_after elim!: triple_weaken)
  qed
  show ?thesis
    unfolding reconcileOwnedAttempt_def option.case bindA_returnA
    by (rule triple_bind [OF absence_established rest])
qed

lemma settle_owned:
  assumes plan: "a_executionPlan a = Some plan"
  shows "triple (\<lambda>s. settling s \<and> owns nid a s) (settle_recovered co None obs d opId)
     (\<lambda>_ s. (absence_confirmed plan (mx_calls s) \<or> blocked_recovery s) \<and> launch_free (mx_calls s))
     (\<lambda>s. launch_free (mx_calls s))"
proof -
  have "(case r of Inl _ \<Rightarrow> launch_free (mx_calls s')
      | Inr _ \<Rightarrow> (absence_confirmed plan (mx_calls s') \<or> blocked_recovery s') \<and> launch_free (mx_calls s'))"
    if st: "settling s" and own: "owns nid a s" and run: "settle_recovered co None obs d opId s = Some (r, s')" for s r s'
  proof (cases "mx_session s")
    case None
    with run st show ?thesis
      by (auto simp: settle_recovered_def session_state_def session_def bindA_def settling_def)
  next
    case (Some x)
    with own have "currentOwnedAttempt (ss_state x) = Some (nid, a)" by (simp add: owns_def session_view_def)
    with run Some have "(case reconcilable_plan a of
            None \<Rightarrow> throwA (StoreFailure (StoreError CorruptStore))
          | Some plan \<Rightarrow> reconcileOwnedAttempt co nid a plan None obs opId d) s = Some (r, s')"
      by (simp add: settle_recovered_def session_state_def session_def bindA_def returnA_def)
    moreover have "reconcilable_plan a = None \<or> reconcilable_plan a = Some plan"
      using plan by (auto simp: reconcilable_plan_def)
    ultimately show ?thesis
      using reconciled [unfolded triple_def, of co nid a plan obs opId d] st
      by (auto simp: throwA_def settling_def)
  qed
  then show ?thesis by (auto simp: triple_def)
qed

lemma continue_after:
  assumes "continue_recovered co d opId s = Some (r, s')" and "launch_free (mx_calls s)"
    and "absence_confirmed plan (mx_calls s) \<or> blocked_recovery s"
  shows "launches_after_absence plan (mx_calls s')"
  using assms(3)
proof
  assume "absence_confirmed plan (mx_calls s)"
  with assms(2) keepsD [OF after_absence.keeps_continue_recovered assms(1)] show ?thesis
    by (simp add: launch_free_after)
next
  assume "blocked_recovery s"
  then obtain x where "mx_session s = Some x" "rs_status (ss_state x) = RunRecoveryBlockedStatus"
    "currentOrphanedAttempt (ss_state x) = None"
    by (auto simp: blocked_recovery_def session_view_def orphan_free_iff)
  with assms(1) have "s' = s"
    by (simp add: continue_recovered_def session_state_def session_def bindA_def returnA_def)
  with assms(2) show ?thesis by (simp add: launch_free_after)
qed

lemma await_Some:
  assumes "await co m s = Some (r, s')"
  shows "\<exists>s1 q s2. drift co s s1 \<and> m s1 = Some (q, s2) \<and> drift co s2 s'"
  using assms by (auto simp: await_def bindA_Some_iff returnA_def dest!: drift_ambient intro: drift_refl)

lemma settling_cong:
  assumes "session_view s' = session_view s \<and> mx_calls s' = mx_calls s"
  shows "settling s' = settling s" and "owns nid a s' = owns nid a s"
  using assms by (simp_all add: settling_def orphanless_def owns_def)

lemma pending_view:
  assumes "pending_control co s = Some (r, s')"
  shows "session_view s' = session_view s \<and> mx_calls s' = mx_calls s"
proof (cases "mx_session s")
  case None
  with assms show ?thesis by (auto simp: pending_control_def session_def bindA_def)
next
  case (Some x)
  note run = assms [unfolded pending_control_def bindA_session [OF Some]]
  then obtain q where "await co (store_read (\<lambda>st. pendingControls (dc_env co) st (lt_runId (ss_lease x)) 1)) s =
      Some (q, s')"
    by (auto simp: bindA_Some_iff returnA_def)
  then obtain s1 s2 q' where d: "drift co s s1" "drift co s2 s'"
    and read: "store_read (\<lambda>st. pendingControls (dc_env co) st (lt_runId (ss_lease x)) 1) s1 = Some (q', s2)"
    using await_Some by blast
  from read have "s2 = s1" by (auto simp: store_read_def split: sum.splits)
  with d show ?thesis by (simp add: drift_view) (simp add: drift_def)
qed

lemma recovered_after_absence:
  assumes run: "coordinateRecovered co events d opId s = Some (r, s')"
    and x: "mx_session s = Some x" and own: "currentOwnedAttempt (ss_state x) = Some (nid, a)"
    and plan: "a_executionPlan a = Some plan" and free: "currentOrphanedAttempt (ss_state x) = None"
    and calls: "mx_calls s = []"
  shows "launches_after_absence plan (mx_calls s')"
proof -
  let ?out = "outstandingObservedControl events"
  have st: "settling s" "owns nid a s"
    using x own free calls by (auto simp: settling_def orphanless_def owns_def session_view_def orphan_free_iff)
  have first: "keeps (\<lambda>s. settling s \<and> owns nid a s)
      (case ?out of None \<Rightarrow> pending_control co | Some c \<Rightarrow> returnA (Some c))"
    by (intro keeps_option keeps_return keepsI) (simp add: settling_cong [OF pending_view])
  have rest: "triple (\<lambda>s. settling s \<and> owns nid a s)
      (bindA (settle_recovered co pending (?out \<noteq> None) d opId) (\<lambda>_.
        if pending \<noteq> None then session_state else continue_recovered co d opId))
      (\<lambda>_ s. launches_after_absence plan (mx_calls s)) (\<lambda>s. launches_after_absence plan (mx_calls s))" for pending
  proof (cases pending)
    case None
    let ?Q = "\<lambda>s. (absence_confirmed plan (mx_calls s) \<or> blocked_recovery s) \<and> launch_free (mx_calls s)"
    have "triple (\<lambda>s. settling s \<and> owns nid a s) (settle_recovered co None (?out \<noteq> None) d opId) (\<lambda>_. ?Q)
        (\<lambda>s. launches_after_absence plan (mx_calls s))"
      by (rule triple_weaken [OF settle_owned [OF plan, of nid]]) (simp_all add: launch_free_after)
    moreover have "triple ?Q (continue_recovered co d opId) (\<lambda>_ s. launches_after_absence plan (mx_calls s))
        (\<lambda>s. launches_after_absence plan (mx_calls s))"
      by (rule tripleI; elim conjE; rule continue_after)
    ultimately show ?thesis unfolding None by (intro triple_bind) simp_all
  next
    case (Some c)
    have "keeps (\<lambda>s. launch_free (mx_calls s)) (bindA (settle_recovered co pending (?out \<noteq> None) d opId)
        (\<lambda>_. session_state))"
      by (intro keeps_bind launchless.keeps_settle_recovered keeps_session_state)
    then have "triple (\<lambda>s. settling s \<and> owns nid a s)
        (bindA (settle_recovered co pending (?out \<noteq> None) d opId) (\<lambda>_. session_state))
        (\<lambda>_ s. launches_after_absence plan (mx_calls s)) (\<lambda>s. launches_after_absence plan (mx_calls s))"
      by (rule keeps_triple) (simp_all add: settling_def launch_free_after)
    with Some show ?thesis by simp
  qed
  have "triple (\<lambda>s. settling s \<and> owns nid a s) (coordinateRecovered co events d opId)
      (\<lambda>_ s. launches_after_absence plan (mx_calls s)) (\<lambda>s. launches_after_absence plan (mx_calls s))"
    unfolding coordinateRecovered_def Let_def
    by (rule triple_keeping [OF first _ rest]) (simp add: settling_def launch_free_after)
  with run st show ?thesis by (auto simp: triple_def split: sum.splits)
qed

end
