(* ===== verification/Coordinator_Progress.thy ===== *)
theory Coordinator_Progress
  imports Coordinator_Recovery
begin

text \<open>
  Coordinators return. Everything but the two loops is total; the loop over an execution ends when
  the execution host lets it, which is a hypothesis, and the scheduling loop then ends because
  every pass leaves the run not running or uses up one attempt of a budget.
\<close>

named_theorems total_intros \<open>computations that return\<close>

definition total :: "('w, 'a) act \<Rightarrow> bool" where
  "total m \<longleftrightarrow> (\<forall>s. m s \<noteq> None)"

lemma totalI: "(\<And>s. \<exists>y. m s = Some y) \<Longrightarrow> total m"
  by (auto simp: total_def)

lemma total_outcome: "total m \<Longrightarrow> (\<And>r s'. m s = Some (r, s') \<Longrightarrow> thesis) \<Longrightarrow> thesis"
  unfolding total_def by (metis not_None_eq surj_pair)

lemma total_bind [total_intros]:
  assumes "total m" and "\<And>x. total (f x)"
  shows "total (bindA m f)"
proof (rule totalI)
  fix s
  obtain r s' where "m s = Some (r, s')" by (rule total_outcome [OF assms(1)])
  then show "\<exists>y. bindA m f s = Some y"
    using assms(2) by (cases r) (auto simp: bindA_def total_def)
qed

lemma total_catch [total_intros]:
  assumes "total m" and "\<And>e. total (h e)"
  shows "total (catchA m h)"
proof (rule totalI)
  fix s
  obtain r s' where "m s = Some (r, s')" by (rule total_outcome [OF assms(1)])
  then show "\<exists>y. catchA m h s = Some y"
    using assms(2) by (cases r) (auto simp: catchA_def total_def)
qed

lemma total_basic [total_intros]:
  "total (returnA x)" "total (throwA e)" "total (ask f)" "total (host f entry)" "total (store_change co g)"
  "total (record_call c)" "total (store_update u)" "total (store_read v)" "total session" "total (update_session k)"
  "total (open_session y)" "total (ambient co)"
  by (auto simp: total_def returnA_def throwA_def ask_def host_def store_change_def record_call_def
      store_update_def store_read_def session_def update_session_def open_session_def ambient_def
      split: prod.split sum.split option.split)

lemma total_cases [total_intros]:
  "(b \<Longrightarrow> total m) \<Longrightarrow> (\<not> b \<Longrightarrow> total n) \<Longrightarrow> total (if b then m else n)"
  "total m \<Longrightarrow> (\<And>x. total (f x)) \<Longrightarrow> total (case v of None \<Rightarrow> m | Some x \<Rightarrow> f x)"
  "total m \<Longrightarrow> (\<And>x xs. total (g x xs)) \<Longrightarrow> total (case l of [] \<Rightarrow> m | x # xs \<Rightarrow> g x xs)"
  "(\<And>x y. total (h x y)) \<Longrightarrow> total (case p of (x, y) \<Rightarrow> h x y)"
  "(\<And>x. total (i x)) \<Longrightarrow> (\<And>x. total (j x)) \<Longrightarrow> total (case q of Inl x \<Rightarrow> i x | Inr x \<Rightarrow> j x)"
  by (auto split: option.split list.split prod.split sum.split)

lemma total_check [total_intros]: "total (checkA b e)" "total (liftE g v)" "total (answered x)"
  by (auto simp: checkA_def liftE_def answered_def intro: total_intros)

lemma total_session [total_intros]:
  "total (session_state :: ('w, run_state) act)" "total (assertHealthy :: ('w, unit) act)"
  "total (session_stop :: ('w, unit) act)" "total (require_workspace e)"
  unfolding session_state_def assertHealthy_def session_stop_def require_workspace_def
  by (intro total_intros)+

lemma total_calls [total_intros]:
  "total m \<Longrightarrow> total (await co m)" "total m \<Longrightarrow> total (guard co m)" "total (call f)"
  "total (host_prepare co p)" "total (host_authorize co x)" "total (host_inspect co plan)"
  "total (host_terminate co plan)" "total (owned_cancel co x)"
  unfolding await_def guard_def call_def host_prepare_def host_authorize_def host_inspect_def
    host_terminate_def owned_cancel_def
  by (intro total_intros; assumption?)+

lemma total_store_commit [total_intros]: "total (store_commit co m)"
  unfolding store_commit_def by (intro total_intros)

lemma total_commit [total_intros]: "total (session_commit co ps opts)"
  unfolding session_commit_def session_mutation_def Let_def by (intro total_intros)

lemma total_transition [total_intros]: "total (commit_transition co ps)"
  unfolding commit_transition_def by (intro total_intros)

section \<open>Steps\<close>

lemma total_steps [total_intros]:
  "total (pending_control co)" "total (observeControl co c)"
  "total (pauseForPreflight co reason active)" "total (applyBoundaryControl co c observe)"
  "total (writeArtifact co nid n t mt b)"
  unfolding pending_control_def observeControl_def pauseForPreflight_def applyBoundaryControl_def writeArtifact_def
  by (intro total_intros)+

lemma total_captures [total_intros]: "total (captureCheckpoint co w nid n always)"
  unfolding captureCheckpoint_def by (intro total_intros)

lemma total_preflight [total_intros]: "total (preflight co d)"
proof -
  have "total (create_adapter co d)"
    unfolding create_adapter_def
    by (rule total_bind [OF total_basic(3)]) (auto intro: total_intros split: adapter_outcome.split)
  then show ?thesis
    unfolding preflight_def probe_adapter_def by (intro total_intros)
qed

lemma total_ensure [total_intros]: "total (ensureAttemptBudget co nid)"
  unfolding ensureAttemptBudget_def Let_def
  by (rule total_bind) (auto intro!: total_intros split: option.split)

lemma total_prepare [total_intros]: "total (prepareAttempt co nid d)"
proof -
  have "total (case (a, b, c) of (Some node, Some nd, Some workspace) \<Rightarrow> f node nd workspace | _ \<Rightarrow> throwA e)"
    if "\<And>node nd workspace. total (f node nd workspace)"
    for a :: "'x option" and b :: "'y option" and c :: "'z option" and f e
    using that by (auto intro: total_intros split: option.split)
  then show ?thesis
    unfolding prepareAttempt_def Let_def by (intro total_intros)
qed

lemma total_finish_parts [total_intros]:
  "total (release_dependents co)" "total (complete_run co)" "total (produced co p t mt b)"
  "total (final_capture co p)" "total (command_evidence co p ce)"
  unfolding release_dependents_def complete_run_def produced_def final_capture_def command_evidence_def
  by (intro total_intros)+

lemma total_finishResult [total_intros]: "total (finishResult co p r evidence comparison)"
  unfolding finishResult_def by (rule total_bind, intro total_intros, cases r) (auto intro!: total_intros)

lemma total_evidence [total_intros]: "total (result_evidence co p c logs)"
proof -
  have "total (runtime_evidence co p r logs)" for r
    unfolding runtime_evidence_def by (cases r) (auto intro!: total_intros)
  then show ?thesis
    unfolding result_evidence_def
    by (auto intro!: total_intros split: execution_kind.split collected.split)
qed

lemma total_finish [total_intros]:
  "total (finishExecution co p c logs)" "total (finishActiveControl co p control observation)"
  "total (finishTimeout co p observation logs)" "total (authorized_start co p x)"
  unfolding finishExecution_def finishActiveControl_def finishTimeout_def authorized_start_def Let_def
  by (intro total_intros)+

lemma total_execute:
  assumes "\<And>p x. total (driveExecution co p x)"
  shows "total (executeReadyNode co nid d)"
proof -
  have "total (run_prepared co p)" for p
    unfolding run_prepared_def
    by (intro total_intros assms) (auto intro: total_intros split: drive_outcome.split)
  then show ?thesis unfolding executeReadyNode_def by (intro total_intros)
qed

lemma total_next_ready [total_intros]: "total (next_ready co)"
  unfolding next_ready_def by (intro total_intros)

lemma total_step:
  assumes "\<And>p x. total (driveExecution co p x)"
  shows "total (coordinate_step co d)"
proof -
  have "total (run_ready co nid d)" for nid
    unfolding run_ready_def
    by (intro total_intros) (auto intro: total_intros total_execute assms split: preflight_outcome.split)
  then show ?thesis unfolding coordinate_step_def by (intro total_intros)
qed

section \<open>Recovery\<close>

lemma total_recovery [total_intros]:
  "total (finishRecoveredControl co nid c)" "total (establishRecoveredAbsence co nid a plan control opId)"
  "total (continueOrphaned co nid d opId)" "total (orphan_attempt co nid a plan control)"
  "total (resumePaused co d opId)"
proof -
  show "total (finishRecoveredControl co nid c)"
    unfolding finishRecoveredControl_def by (cases "ct_action c") (auto intro!: total_intros)
  show "total (establishRecoveredAbsence co nid a plan control opId)"
    unfolding establishRecoveredAbsence_def blockExecutionUnknown_def terminate_recovered_def
    by (rule total_bind) (auto intro!: total_intros split: execution_observation.split)
  show "total (continueOrphaned co nid d opId)"
    unfolding continueOrphaned_def pause_node_def
    by (rule total_bind) (auto intro!: total_intros split: option.split preflight_outcome.split)
  show "total (orphan_attempt co nid a plan control)"
    unfolding orphan_attempt_def
    by (rule total_bind) (auto intro!: total_intros split: option.split)
  have "total (paused_nodes_ready co s w nds)" for s w nds
    by (induction nds) (auto intro!: total_intros split: option.split)
  then show "total (resumePaused co d opId)"
    unfolding resumePaused_def Let_def
    by (intro total_intros) (auto intro!: total_intros split: preflight_outcome.split)
qed

lemma total_settle [total_intros]: "total (settle_recovered co pending obs d opId)"
  unfolding settle_recovered_def reconcileOwnedAttempt_def by (intro total_intros)

lemma total_continue:
  assumes "total (coordinateRunning co d)"
  shows "total (coordinateRecovered co events d opId)"
proof -
  have "total (continue_recovered co d opId)"
    unfolding continue_recovered_def
    by (intro total_intros assms) (auto intro: total_intros split: bool.split option.split)
  then show ?thesis unfolding coordinateRecovered_def Let_def by (intro total_intros)
qed

lemma total_entry [total_intros]:
  "total (parseDescriptor co dsc)" "total (initializeOwnedRun co w i)" "total (requireCompleteRun co runId)"
  "total (release_lease co)" "total (coordinator_submitControl co runId action oid)" "total (inspect_run co runId)"
  unfolding parseDescriptor_def initializeOwnedRun_def requireCompleteRun_def release_lease_def
    coordinator_submitControl_def inspect_run_def
  by (intro total_intros)+

lemma total_acquire [total_intros]: "total (acquireForRecovery co runId)"
  unfolding acquireForRecovery_def acquisition_def
  by (intro total_intros) (auto intro: total_intros split: process_observation.split)

lemma total_owned: "total operation \<Longrightarrow> total (finishOwnedSession co operation)"
  unfolding finishOwnedSession_def by (intro total_intros)

section \<open>Progress\<close>

text \<open>What is left of all budgets, and the counts of a session that only grow.\<close>

definition remaining :: "workflow_definition \<Rightarrow> (string \<Rightarrow> int) \<Rightarrow> nat" where
  "remaining w c =
     sum_list (map (\<lambda>(nid, node). nat (ab_maxAttempts (nd_attemptBudget node) - c nid)) (wf_nodes w))"

definition grown :: "workflow_definition \<Rightarrow> (string \<Rightarrow> int) \<Rightarrow> 'w machine \<Rightarrow> bool" where
  "grown w c s \<longleftrightarrow> (\<exists>t. session_view s = Some (w, t) \<and> c \<le> attempt_count t)"

lemma remaining_antimono: "c \<le> c' \<Longrightarrow> remaining w c' \<le> remaining w c"
  unfolding remaining_def by (intro sum_list_mono) (auto simp: le_fun_def intro!: nat_mono diff_left_mono)

lemma remaining_used:
  assumes "map_of (wf_nodes w) nid = Some node" and "c nid < ab_maxAttempts (nd_attemptBudget node)"
  shows "remaining w (c(nid := c nid + 1)) < remaining w c"
proof -
  define f where "f = (\<lambda>(j, node :: workflow_node). nat (ab_maxAttempts (nd_attemptBudget node) - c j))"
  define g where "g = (\<lambda>(j, node :: workflow_node). nat (ab_maxAttempts (nd_attemptBudget node) - (c(nid := c nid + 1)) j))"
  have le: "sum_list (map g zs) \<le> sum_list (map f zs)" for zs
    by (intro sum_list_mono) (auto simp: f_def g_def)
  obtain xs ys where xs: "wf_nodes w = xs @ (nid, node) # ys"
    using map_of_SomeD [OF assms(1)] by (auto dest: split_list)
  have "g (nid, node) < f (nid, node)" using assms(2) by (simp add: f_def g_def)
  with le [of xs] le [of ys] have "sum_list (map g (wf_nodes w)) < sum_list (map f (wf_nodes w))"
    by (simp add: xs)
  then show ?thesis by (simp add: remaining_def f_def g_def)
qed

lemma grown_view: "session_view s' = session_view s \<Longrightarrow> grown w c s' = grown w c s"
  by (simp add: grown_def)

lemma grown_drift: "drift co s s' \<Longrightarrow> grown w c s \<Longrightarrow> grown w c s'"
  by (simp add: grown_view [OF drift_view])

lemma schedulings_nonneg [simp]: "0 \<le> schedulings nid ps"
  by (simp add: schedulings_def)

lemma grown_commit:
  assumes "session_commit co ps opts s = Some (r, s')" and "grown w c s"
  shows "grown w c s'"
  using commit_view [OF assms(1)]
proof (elim disjE exE conjE)
  assume "session_view s' = session_view s"
  from grown_view [OF this] assms(2) show ?thesis by simp
next
  fix v u rid events t
  assume v: "session_view s = Some (v, u)" "session_view s' = Some (v, t)"
    and m: "materializeEvents (Some u) rid ps = Inr (events, t)"
  have "attempt_count u \<le> attempt_count t"
    using attempt_count_materialized [OF m] by (simp add: le_fun_def)
  with v assms(2) show ?thesis by (auto simp: grown_def)
qed

lemma grown_start:
  assumes run: "authorized_start co p x s = Some (r, s')" and g: "grown w c s"
  shows "grown w c s'"
proof -
  let ?ps = "[AttemptStartAuthorized (pa_nodeId p) (pa_attempt p) x]"
  from run consider (failed) e where "session_commit co ?ps plain_commit s = Some (Inl e, s')"
    | (passed) u s1 where "session_commit co ?ps plain_commit s = Some (Inr u, s1)"
      "guard co (host_authorize co x) s1 = Some (r, s')"
    by (auto simp: authorized_start_def bindA_Some_iff)
  then show ?thesis
  proof cases
    case failed
    from grown_commit [OF this g] show ?thesis .
  next
    case passed
    from passed(2) grown_commit [OF passed(1) g] show ?thesis
    proof (rule drift_guard_error_or_ran)
      show "grown w c t" if "host_authorize co x s = Some (q, t)" "grown w c s" for s q t
        using host_authorize_Some [OF that(1)] that(2) by (auto simp: grown_def session_view_def)
    qed (rule grown_drift)
  qed
qed

interpretation growing: unconditional_invariant co "grown w c" for co w c
proof unfold_locales
  show "grown w c (ambient_step (dc_env co) a s)" if "grown w c s" for s :: "'a machine" and a
    by (rule grown_drift [OF drift_ambient_step that])
  show "keeps (grown w c) (session_commit co ps opts)" "keeps (grown w c) (session_commit co ps opts)" for ps opts
    by (rule keepsI, blast intro: grown_commit)+
  show "keeps (grown w c) session_stop"
    by (rule keepsI) (auto simp: session_stop_def update_session_def grown_def session_view_def)
  show "keeps (grown w c) (authorized_start co pa x)" for pa x
    by (rule keepsI) (rule grown_start)
qed (simp_all add: grown_def session_view_def)

text \<open>A scheduling that is committed uses up one attempt.\<close>

lemma prepare_uses:
  "triple (grown w c) (prepareAttempt co nid d) (\<lambda>_. grown w (c(nid := c nid + 1))) (\<lambda>_. True)"
proof -
  let ?R = "grown w (c(nid := c nid + 1))"
  note keeping = triple_keeping [where I = "grown w c" and E = "\<lambda>_. True", OF _ TrueI]
  have commit: "triple (grown w c) (bindA (session_commit co
      ([AttemptScheduled nid n rt, ArtifactProduced nid n a] @
       (case da of None \<Rightarrow> [] | Some a \<Rightarrow> [ArtifactProduced nid n a]) @ [AttemptPrepared nid n plan cp]) opts)
      (\<lambda>_. returnA v)) (\<lambda>_. ?R) (\<lambda>_. True)" for n rt a da plan cp opts and v :: prepared_attempt
  proof (rule tripleI)
    let ?ps = "[AttemptScheduled nid n rt, ArtifactProduced nid n a] @
       (case da of None \<Rightarrow> [] | Some a \<Rightarrow> [ArtifactProduced nid n a]) @ [AttemptPrepared nid n plan cp]"
    fix s x s'
    assume g: "grown w c s" and "bindA (session_commit co ?ps opts) (\<lambda>_. returnA v) s = Some (Inr x, s')"
    then obtain u where run: "session_commit co ?ps opts s = Some (Inr u, s')"
      by (auto simp: bindA_Some_iff returnA_def)
    from commit_moved [OF run] obtain w' t0 rid events t where v: "session_view s = Some (w', t0)"
      "session_view s' = Some (w', t)" and m: "materializeEvents (Some t0) rid ?ps = Inr (events, t)" by auto
    have "schedulings nid ?ps = 1"
      by (auto simp: scheduled_node_def split: option.split)
    with g v attempt_count_materialized [OF m] show "?R s'"
      by (auto simp: grown_def le_fun_def intro: order_trans)
  qed simp
  have cases: "triple (grown w c) (case (x, y, z) of (Some node, Some nd, Some ws) \<Rightarrow> f node nd ws | _ \<Rightarrow> throwA e)
      (\<lambda>_. ?R) (\<lambda>_. True)"
    if "\<And>node nd ws. triple (grown w c) (f node nd ws) (\<lambda>_. ?R) (\<lambda>_. True)"
    for x :: "'x option" and y :: "'y option" and z :: "'z option" and f e
    using that by (auto intro: triple_throw split: option.split)
  show ?thesis
    unfolding prepareAttempt_def Let_def
    by (intro keeping keeps_session cases keeps_check growing.keeps_captureCheckpoint keeps_lift growing.keeps_ask
        growing.keeps_writeArtifact triple_prod commit)
qed

section \<open>The scheduling loop ends\<close>

definition halted :: "'w machine \<Rightarrow> bool" where
  "halted s \<longleftrightarrow> (\<forall>w t. session_view s = Some (w, t) \<longrightarrow> rs_status t \<noteq> RunRunning)"

definition halts :: "run_event_payload \<Rightarrow> bool" where
  "halts p \<longleftrightarrow> (case p of RunPaused _ \<Rightarrow> True | RunCancelled _ _ \<Rightarrow> True | _ \<Rightarrow> False)"

lemma halting_commit:
  assumes run: "session_commit co (ps @ [p]) opts s = Some (Inr u, s')" and "halts p"
  shows "halted s'"
proof -
  from commit_moved [OF run] obtain w t0 rid events t where v: "session_view s' = Some (w, t)"
    and m: "materializeEvents (Some t0) rid (ps @ [p]) = Inr (events, t)" by auto
  from materializeEvents_Some [OF m] obtain es e where e: "events = es @ [e]" "ev_payload e = p"
    and ap: "apply_events t0 events = Inr t"
    by (auto simp: map_eq_append_conv)
  from ap e obtain t1 where "applyRunEvent (Some t1) e = Inr t" by (auto simp: apply_events_append result_simps)
  then have "apply_payload (t1\<lparr>rs_sequence := ev_sequence e\<rparr>) p = Inr t"
    unfolding applyRunEvent_Some_iff e(2) by blast
  with assms(2) have "rs_status t \<noteq> RunRunning"
    by (cases p) (auto simp: halts_def handler_iffs)
  with v show ?thesis by (simp add: halted_def)
qed

lemma transition_halts:
  assumes "bindA (session_commit co ps opts) (\<lambda>_. returnA v) s = Some (Inr x, s')"
    and "ps = qs @ [p]" and "halts p"
  shows "halted s'"
  using assms halting_commit by (auto simp: bindA_Some_iff returnA_def)

lemma boundary_halts:
  assumes run: "applyBoundaryControl co c True s = Some (Inr x, s')" and "\<not> halted s"
  shows "halted s'"
proof -
  from assms(2) obtain w t where v: "session_view s = Some (w, t)" "rs_status t = RunRunning"
    by (auto simp: halted_def)
  then obtain y where y: "mx_session s = Some y" "rs_status (ss_state y) = RunRunning"
    by (auto simp: session_view_def)
  show ?thesis
  proof (cases "ct_action c")
    case PauseAction
    with run y show ?thesis
      by (intro transition_halts [where ps = "[controlObservedPayload c, RunPaused (Some (OperatorPause (ct_operationId c)))]"
            and qs = "[controlObservedPayload c]"])
        (auto simp: applyBoundaryControl_def session_state_def session_def bindA_def returnA_def halts_def)
  next
    case CancelAction
    with run y show ?thesis
      by (intro transition_halts [where ps = "controlObservedPayload c # cancelNodePayloads (ss_state y) ''operator'' @
              [RunCancelled (Some (ct_operationId c)) ''operator'']"
            and qs = "controlObservedPayload c # cancelNodePayloads (ss_state y) ''operator''"])
        (auto simp: applyBoundaryControl_def session_state_def session_def bindA_def returnA_def halts_def)
  qed
qed

lemma ensure_outcome:
  assumes "ensureAttemptBudget co nid s = Some (Inr ok, s')"
  shows "if ok
    then s' = s \<and> (\<exists>w t node. session_view s = Some (w, t) \<and> map_of (wf_nodes w) nid = Some node \<and>
      attempt_count t nid < ab_maxAttempts (nd_attemptBudget node))
    else halted s'"
  using assms
proof (cases rule: ensure_cases)
  case room
  then show ?thesis by (auto simp: session_view_def attempt_count_def)
next
  case (spent reason)
  then show ?thesis
    by (auto intro: transition_halts [where qs = "[NodePaused nid (Some reason)]" and p = "RunPaused (Some reason)"]
        simp: halts_def)
qed

lemma run_ready_progress:
  assumes run: "run_ready co nid d s = Some (Inr x, s')" and v: "session_view s = Some (w, t)"
  shows "halted s' \<or> (\<exists>t'. session_view s' = Some (w, t') \<and>
    remaining w (attempt_count t') < remaining w (attempt_count t))"
proof -
  from run obtain ok s1 where ok: "ensureAttemptBudget co nid s = Some (Inr ok, s1)"
    and rest: "(if \<not> ok then returnA () else bindA (preflight co d) (\<lambda>outcome.
       case outcome of
         PreflightRefused reason \<Rightarrow> pauseForPreflight co reason None
       | PreflightReady _ \<Rightarrow> executeReadyNode co nid d)) s1 = Some (Inr x, s')"
    unfolding run_ready_def bindA_Some_iff by blast
  show ?thesis
  proof (cases ok)
    case False
    with rest ensure_outcome [OF ok] show ?thesis by (auto simp: returnA_def)
  next
    case True
    with ensure_outcome [OF ok] v obtain node where s1: "s1 = s"
      and node: "map_of (wf_nodes w) nid = Some node"
      and room: "attempt_count t nid < ab_maxAttempts (nd_attemptBudget node)"
      by auto
    from True rest s1 obtain outcome s2 where pre: "preflight co d s = Some (Inr outcome, s2)"
      and next_: "(case outcome of
         PreflightRefused reason \<Rightarrow> pauseForPreflight co reason None
       | PreflightReady _ \<Rightarrow> executeReadyNode co nid d) s2 = Some (Inr x, s')"
      by (auto simp: bindA_Some_iff)
    show ?thesis
    proof (cases outcome)
      case (PreflightRefused reason)
      with next_ have "halted s'"
        unfolding pauseForPreflight_def
        by (intro transition_halts [where qs = "[]" and p = "RunPaused (Some reason)"]) (auto simp: halts_def)
      then show ?thesis ..
    next
      case (PreflightReady ng)
      let ?c = "attempt_count t"
      have "grown w ?c s" using v by (simp add: grown_def)
      from keepsD [OF growing.keeps_preflight pre this] have g2: "grown w ?c s2" .
      from PreflightReady next_ obtain p s3 where prep: "prepareAttempt co nid d s2 = Some (Inr p, s3)"
        and exec: "catchA (run_prepared co p) (\<lambda>e.
          bindA (catchA (bindA (await co (host_terminate co (pa_plan p))) (\<lambda>_. returnA ()))
            (\<lambda>_. returnA ())) (\<lambda>_. throwA e)) s3 = Some (Inr x, s')"
        by (auto simp: executeReadyNode_def bindA_Some_iff)
      from exec have "run_prepared co p s3 = Some (Inr x, s')"
        by (auto simp: catchA_Some_iff bindA_Some_iff throwA_def)
      from keepsD [OF growing.keeps_run_prepared this tripleD [OF prepare_uses prep g2]]
      have "grown w (?c(nid := ?c nid + 1)) s'" .
      then obtain t' where "session_view s' = Some (w, t')" "?c(nid := ?c nid + 1) \<le> attempt_count t'"
        by (auto simp: grown_def)
      with remaining_antimono [OF this(2), of w] remaining_used [where c = ?c, OF node room] show ?thesis by auto
    qed
  qed
qed

lemma halted_view: "session_view s' = session_view s \<Longrightarrow> halted s' = halted s"
  by (simp add: halted_def)

lemma step_progress:
  assumes run: "coordinate_step co d s = Some (Inr True, s')" and v: "session_view s = Some (w, t)"
    and running: "rs_status t = RunRunning"
  shows "halted s' \<or> (\<exists>t'. session_view s' = Some (w, t') \<and>
    remaining w (attempt_count t') < remaining w (attempt_count t))"
proof -
  from run obtain control s1 where p: "pending_control co s = Some (Inr control, s1)"
    and rest: "(case control of
       Some c \<Rightarrow> bindA (applyBoundaryControl co c True) (\<lambda>_. returnA True)
     | None \<Rightarrow>
         bindA (next_ready co) (\<lambda>ready.
         case ready of
           None \<Rightarrow> returnA False
         | Some nid \<Rightarrow> bindA (run_ready co nid d) (\<lambda>_. returnA True))) s1 = Some (Inr True, s')"
    unfolding coordinate_step_def bindA_Some_iff by blast
  from pending_view [OF p] v have v1: "session_view s1 = Some (w, t)" by simp
  show ?thesis
  proof (cases control)
    case (Some c)
    with rest obtain u where "applyBoundaryControl co c True s1 = Some (Inr u, s')"
      by (auto simp: bindA_Some_iff returnA_def)
    from boundary_halts [OF this] v1 running have "halted s'" by (simp add: halted_def)
    then show ?thesis ..
  next
    case None
    with rest obtain nid s2 where n: "next_ready co s1 = Some (Inr (Some nid), s2)"
      and r: "run_ready co nid d s2 = Some (Inr (), s')"
      by (auto simp: bindA_Some_iff returnA_def split: option.splits)
    have "grown w (attempt_count t) s1" using v1 by (simp add: grown_def)
    from keepsD [OF growing.keeps_next_ready n this] obtain t2 where
      t2: "session_view s2 = Some (w, t2)" "attempt_count t \<le> attempt_count t2"
      by (auto simp: grown_def)
    from run_ready_progress [OF r t2(1)] remaining_antimono [OF t2(2), of w] show ?thesis
      by (auto intro: less_le_trans)
  qed
qed

lemma coordinateRunning_unfold:
  "coordinateRunning co d s = bindA session_state (\<lambda>t s1.
       if rs_status t \<noteq> RunRunning then returnA t s1
       else bindA (coordinate_step co d) (\<lambda>more s2.
              if more then coordinateRunning co d s2 else session_state s2) s1) s"
  by (rule coordinateRunning.simps)

lemma halted_returns:
  assumes "halted s"
  shows "coordinateRunning co d s \<noteq> None"
proof (cases "mx_session s")
  case None
  then show ?thesis
    by (subst coordinateRunning_unfold) (simp add: session_state_def session_def bindA_def)
next
  case (Some x)
  with assms have "rs_status (ss_state x) \<noteq> RunRunning" by (simp add: halted_def session_view_def)
  with Some show ?thesis
    by (subst coordinateRunning_unfold) (simp add: session_state_def session_def bindA_def returnA_def)
qed

theorem scheduling_ends:
  assumes drives: "\<And>p x. total (driveExecution co p x)"
  shows "total (coordinateRunning co d)"
proof -
  have "coordinateRunning co d s \<noteq> None" if "session_view s = Some (w, t)" for s w t
    using that
  proof (induction "remaining w (attempt_count t)" arbitrary: s t rule: less_induct)
    case less
    show ?case
    proof (cases "rs_status t = RunRunning")
      case False
      with less.prems show ?thesis by (intro halted_returns) (simp add: halted_def)
    next
      case True
      from less.prems obtain x where x: "mx_session s = Some x" "ss_state x = t" by (auto simp: session_view_def)
      obtain r s2 where step: "coordinate_step co d s = Some (r, s2)"
        by (rule total_outcome [OF total_step [OF drives]])
      from x True have unfold: "coordinateRunning co d s =
          bindA (coordinate_step co d) (\<lambda>more s2. if more then coordinateRunning co d s2 else session_state s2) s"
        by (subst coordinateRunning_unfold) (simp add: session_state_def session_def bindA_def returnA_def)
      show ?thesis
      proof (cases r)
        case (Inl e)
        with unfold step show ?thesis by (simp add: bindA_def)
      next
        case (Inr more)
        have "coordinateRunning co d s2 \<noteq> None" if more
          using step_progress [of co d s s2 w t] step Inr that less True halted_returns by auto
        with unfold step Inr total_session(1) show ?thesis
          by (cases more) (auto simp: bindA_def total_def)
      qed
    qed
  qed
  then have "coordinateRunning co d s \<noteq> None" for s
    using halted_returns [of s co d] by (cases "session_view s") (auto simp: halted_def)
  then show ?thesis by (simp add: total_def)
qed

lemma coordination_ends:
  assumes "\<And>p x. total (driveExecution co p x)"
  shows "total (start co w i)" and "total (resume co k opId)" and "total (createRun co w i)"
proof -
  note loop = scheduling_ends [OF assms]
  show "total (start co w i)"
    unfolding start_def by (intro total_intros total_owned loop)
  show "total (resume co k opId)"
    unfolding resume_def Let_def by (intro total_intros total_owned total_continue loop)
  show "total (createRun co w i)"
    unfolding createRun_def by (intro total_intros total_owned)
qed

end
