(* ===== verification/Coordinator_Samples.thy ===== *)
theory Coordinator_Samples
  imports Coordinator_Progress Store_Samples
begin

text \<open>
  A coordinator in a scripted world, on which the properties of coordinators are evaluated: one
  command node, a host that confirms what it is asked, a clock that stands still and operation ids
  that count.
\<close>

definition sample_node :: workflow_node where
  "sample_node = \<lparr>nd_id = ''a'', nd_kind = CommandNode, nd_needs = [], nd_role = None,
     nd_output = sample_schema, nd_attemptBudget = \<lparr>ab_maxAttempts = 2, ab_maxDurationMs = None\<rparr>,
     nd_mutation = None,
     nd_command = Some \<lparr>cm_argv = [''t''], cm_cwd = [], cm_maxDurationMs = 1000, cm_maxOutputBytes = 1000\<rparr>\<rparr>"

definition command_workflow :: workflow_definition where
  "command_workflow = stored_workflow
     \<lparr>wf_nodes := [(''a'', sample_node)]\<rparr>"

definition sample_descriptor :: runtime_descriptor where
  "sample_descriptor = \<lparr>rd_version = ''anastom.dev/runtime-descriptor/v1alpha1'',
        rd_runtimeId = ''pi'', rd_configurationVersion = ''1'', rd_configuration = []\<rparr>"

definition sample_workspace :: workspace_ref where
  "sample_workspace = ReadonlyWorkspace ''ws'' ''/r'' ''/w'' ''c0''"

definition sample_input :: create_durable_run where
  "sample_input = \<lparr>cu_runId = Some ''run-1'', cu_inputs = [],
     cu_workspace = sample_workspace, cu_descriptor = sample_descriptor\<rparr>"

definition sample_capabilities :: runtime_capabilities where
  "sample_capabilities = \<lparr>cap_streaming = True, cap_cancellation = True, cap_resumableSession = False,
     cap_nativeSubagents = False, cap_mcp = False, cap_lsp = False, cap_debugger = False, cap_browser = False,
     cap_structuredOutput = NativeOutput, cap_usageReporting = NoUsage, cap_sandboxing = [],
     cap_workspaceModes = Some [ReadonlyMode]\<rparr>"

definition sample_report :: command_execution where
  "sample_report = \<lparr>ce_output = \<lparr>cr_passed = True, cr_exitCode = Some 0, cr_signal = None, cr_durationMs = 1,
       cr_stdoutBytes = 0, cr_stderrBytes = 0, cr_stdoutTruncated = False, cr_stderrTruncated = False\<rparr>,
     ce_stdout = [], ce_stderr = [], ce_failure = None\<rparr>"

definition sample_artifact :: "artifact_write \<Rightarrow> artifact_ref" where
  "sample_artifact a = \<lparr>ar_id = aw_type a, ar_type = aw_type a, ar_mediaType = aw_mediaType a, ar_uri = ''u'',
     ar_digest = sample_digest, ar_producer = \<lparr>pr_runId = aw_runId a, pr_nodeId = aw_nodeId a, pr_attempt = aw_attempt a\<rparr>\<rparr>"

definition persisted :: "execution_plan_ref \<Rightarrow> persisted_execution_ref" where
  "persisted plan = execution_plan_ref.extend plan \<lparr>ex_manifestDigest = sample_digest\<rparr>"

definition sample_coordinator :: "nat coordinator" where
  "sample_coordinator = \<lparr>dc_env = sample_env, dc_ownerIdentity = sample_process,
     dc_between = (\<lambda>n. ([], n)), dc_clock = (\<lambda>n. (1000, n)), dc_createRunId = (\<lambda>n. (''run-1'', n)),
     dc_createOwnerId = (\<lambda>n. (first_owner, n)), dc_createOperationId = (\<lambda>n. (''m'' @ [char_of (97 + n)], Suc n)),
     dc_createExecutionId = (\<lambda>n. (second_owner, n)),
     dc_prepare = (\<lambda>p n. (Some (persisted (pe_plan p)), n)), dc_authorize = (\<lambda>x n. (True, n)),
     dc_inspect = (\<lambda>plan n. (Some (AbsentObservation plan None), n)),
     dc_terminate = (\<lambda>plan n. (Some (AbsentObservation plan None), n)),
     dc_cancel = (\<lambda>x n. (Some (AbsentObservation (persisted_plan x) None), n)),
     dc_next = (\<lambda>x n. (RaceDone, n)), dc_collect = (\<lambda>x n. (Some (CommandCollected sample_report), n)),
     dc_capture = (\<lambda>w n. (Some (sample_checkpoint, []), n)), dc_compare = (\<lambda>a b. (True, [])),
     dc_write = (\<lambda>a n. (Some (sample_artifact a), n)), dc_parse = Some,
     dc_create = (\<lambda>d n. (AdapterCreated ''pi'', n)), dc_probe = (\<lambda>a n. (ProbedCapabilities sample_capabilities, n)),
     dc_observe = (\<lambda>i n. (Some (AbsentProcess 1000), n)), dc_validate = (\<lambda>s v. [])\<rparr>"

definition empty_machine :: "nat machine" where
  "empty_machine = \<lparr>mx_world = 0, mx_store = Map.empty, mx_session = None, mx_calls = []\<rparr>"

section \<open>The scripted world returns\<close>

lemma total_gives:
  assumes "total m" and "gives V m" and "\<And>x. V x \<Longrightarrow> total (f x)"
  shows "total (bindA m f)"
proof (rule totalI)
  fix s
  obtain r s' where "m s = Some (r, s')" by (rule total_outcome [OF assms(1)])
  then show "\<exists>y. bindA m f s = Some y"
  proof (cases r)
    case (Inr x)
    with \<open>m s = Some (r, s')\<close> assms(2) have "V x" by (auto simp: gives_def)
    from assms(3) [OF this] \<open>m s = Some (r, s')\<close> Inr show ?thesis by (simp add: bindA_def total_def)
  qed (simp add: bindA_def)
qed

lemma gives_guard:
  assumes "gives V m"
  shows "gives V (guard co m)"
proof -
  have inner: "gives V (bindA assertHealthy (\<lambda>_. returnA x))" if "V x" for x
    by (rule gives_bind [OF gives_any]) (simp add: gives_intros(1) that)
  show ?thesis
    unfolding guard_def
    by (rule gives_bind [OF gives_any]) (rule gives_bind [OF gives_await [OF assms]], rule inner)
qed

text \<open>Every execution is done when it is asked for its next event.\<close>

lemma sample_turns:
  "total (waitForExecutionTurn sample_coordinator x deadline)"
  "gives (\<lambda>turn. turn \<in> {DoneTurn, TimeoutTurn}) (waitForExecutionTurn sample_coordinator x deadline)"
proof -
  have race: "gives (\<lambda>race. race = RaceDone) (ask (dc_next sample_coordinator x))"
    by (auto simp: gives_def ask_def sample_coordinator_def)
  have "total (case race of
         RaceEvent e \<Rightarrow> returnA (EventTurn e)
       | RaceDone \<Rightarrow> returnA DoneTurn
       | RaceFailed \<Rightarrow> throwA BoundaryFailure
       | RaceTimer \<Rightarrow> (case deadline of
              None \<Rightarrow> returnA PollTurn
            | Some d \<Rightarrow> bindA (ask (dc_clock sample_coordinator)) (\<lambda>now.
                returnA (if d \<le> now then TimeoutTurn else PollTurn))))" for race
    by (cases race) (auto intro!: total_intros)
  then show "total (waitForExecutionTurn sample_coordinator x deadline)"
    unfolding waitForExecutionTurn_def by (intro total_intros)
  show "gives (\<lambda>turn. turn \<in> {DoneTurn, TimeoutTurn}) (waitForExecutionTurn sample_coordinator x deadline)"
    unfolding waitForExecutionTurn_def
  proof (rule gives_bind [OF gives_any])
    fix expired
    show "gives (\<lambda>turn. turn \<in> {DoneTurn, TimeoutTurn}) (if expired then returnA TimeoutTurn
     else bindA (ask (dc_next sample_coordinator x)) (\<lambda>race.
       case race of
         RaceEvent e \<Rightarrow> returnA (EventTurn e)
       | RaceDone \<Rightarrow> returnA DoneTurn
       | RaceFailed \<Rightarrow> throwA BoundaryFailure
       | RaceTimer \<Rightarrow>
           (case deadline of
              None \<Rightarrow> returnA PollTurn
            | Some d \<Rightarrow> bindA (ask (dc_clock sample_coordinator)) (\<lambda>now.
                returnA (if d \<le> now then TimeoutTurn else PollTurn)))))"
      by (cases expired) (auto intro!: gives_intros gives_bind [OF race])
  qed
qed

lemma sample_drives: "total (driveExecution sample_coordinator p x)"
proof -
  let ?turn = "\<lambda>deadline. guard sample_coordinator (waitForExecutionTurn sample_coordinator x deadline)"
  have "total (drive_loop sample_coordinator p x deadline f logs)" for deadline f logs
  proof -
    let ?next = "\<lambda>turn s1. case turn of
         DoneTurn \<Rightarrow>
           bindA (guard sample_coordinator (call (dc_collect sample_coordinator x)))
             (\<lambda>result. returnA (DriveResult result logs)) s1
       | EventTurn e \<Rightarrow>
           bindA (checkA (valid_observation e) InvalidObservation) (\<lambda>_.
           bindA (liftE id (filter_accept f e)) (\<lambda>accepted s2.
             if fst accepted then
               bindA (session_commit sample_coordinator [RuntimeEventObserved (pa_nodeId p) (pa_attempt p) e] plain_commit)
                 (\<lambda>_ s3. drive_loop sample_coordinator p x deadline (snd accepted) (append_log logs e) s3) s2
             else drive_loop sample_coordinator p x deadline (snd accepted) logs s2)) s1
       | TimeoutTurn \<Rightarrow> drive_timeout sample_coordinator p x logs s1
       | PollTurn \<Rightarrow>
           bindA (pending_control sample_coordinator) (\<lambda>c s2.
             case c of
               None \<Rightarrow> drive_loop sample_coordinator p x deadline f logs s2
             | Some control \<Rightarrow> drive_control sample_coordinator x control s2) s1"
    have "total (?next turn)" if "turn \<in> {DoneTurn, TimeoutTurn}" for turn
      using that unfolding drive_timeout_def by (auto intro!: total_intros)
    from total_gives [OF _ gives_guard [OF sample_turns(2)] this] sample_turns(1)
    have "total (bindA (?turn deadline) ?next)" by (simp add: total_intros)
    then show ?thesis
      unfolding total_def by (subst drive_loop.simps) blast
  qed
  then show ?thesis unfolding driveExecution_def by (intro total_intros)
qed

section \<open>A run to recover\<close>

text \<open>The history up to the start of the first attempt: it is running and owned.\<close>

definition recovering_state :: run_state where
  "recovering_state = projr (replayRun (take 7 durable_history))"

definition recovering_machine :: "nat machine" where
  "recovering_machine = empty_machine\<lparr>mx_session := Some
     \<lparr>ss_lease = first_token, ss_workflow = stored_workflow, ss_state = recovering_state,
      ss_prefixDigest = sample_digest, ss_heartbeatFailed = False, ss_mutationFailed = False,
      ss_stopped = False\<rparr>\<rparr>"

lemma recovering_eval:
  "case replayRun (take 7 durable_history) of
     Inl _ \<Rightarrow> False
   | Inr s \<Rightarrow> currentOrphanedAttempt s = None \<and> rs_runtimeDescriptor s \<noteq> None \<and>
       (case currentOwnedAttempt s of
          None \<Rightarrow> False
        | Some (nid, a) \<Rightarrow> nid = ''build'' \<and> a_number a = 1 \<and> a_executionPlan a = Some sample_plan)"
  by code_simp

lemma recovering_attempt:
  obtains a where "currentOwnedAttempt recovering_state = Some (''build'', a)"
    and "a_executionPlan a = Some sample_plan" and "currentOrphanedAttempt recovering_state = None"
  using replay_projr [OF recovering_eval] by (auto simp: recovering_state_def split: option.splits)

section \<open>A prepared attempt\<close>

definition sample_context :: context_envelope where
  "sample_context = \<lparr>cx_inputs = [], cx_dependencyOutputs = [], cx_version = None, cx_runId = None,
     cx_workflowInstanceId = None, cx_nodeId = None, cx_attempt = None, cx_task = None, cx_role = None,
     cx_workspace = None, cx_allowedMutations = None, cx_artifacts = None, cx_verification = None,
     cx_requiredOutputSchema = None, cx_budget = None\<rparr>"

definition sample_attempt :: prepared_attempt where
  "sample_attempt = \<lparr>pa_node = sample_node, pa_nodeId = ''build'', pa_attempt = 1,
     pa_request = attempt_request recovering_state sample_node ''build'' 1 sample_workspace sample_context,
     pa_plan = sample_plan,
     pa_launch = \<lparr>pe_plan = sample_plan, pe_coordinator = sample_process,
       pe_input = CommandLaunch (the (nd_command sample_node)) sample_workspace\<rparr>,
     pa_checkpoint = sample_checkpoint\<rparr>"

end
