(* ===== verification/Coordinator_Properties.thy ===== *)
theory Coordinator_Properties
  imports Coordinator_Samples
begin

text \<open>
  The properties of durable coordinators, each with a witness in the scripted world of
  \<open>Coordinator_Samples\<close> where it has hypotheses. A property of what a coordinator returns holds of
  every world: of every behaviour of the injected interfaces, of the other processes and of the
  heartbeat.
\<close>

section \<open>Commits that were replayed\<close>




lemma scripted_returns:
  "\<exists>r s'. start sample_coordinator w i s = Some (r, s')"
  "\<exists>r s'. resume sample_coordinator k opId s = Some (r, s')"
  "\<exists>r s'. createRun sample_coordinator w i s = Some (r, s')"
  using coordination_ends [OF sample_drives] unfolding total_def by (metis not_None_eq surj_pair)+

section \<open>Authorization\<close>



section \<open>Recovery\<close>



section \<open>What is returned\<close>



section \<open>Budgets\<close>

text \<open>
  C16: A run never tries a node more often than its attempt budget allows: in the session that
  \<open>start\<close> leaves behind, whether it ended well or not, the workflow is the given one and every node
  of it has at most \<open>maxAttempts\<close> attempts.
\<close>

theorem attempts_within_budget:
  assumes "start co w i s = Some (r, s')" and "mx_session s = None"
  shows "pred_option (\<lambda>x. ss_workflow x = w \<and> budgeted w (attempt_count (ss_state x))) (mx_session s')"
proof -
  let ?P = "\<lambda>s. counts_hold budgeted s \<and> counts_hold (\<lambda>v _. v = w) s"
  have closed: "?P s" if "mx_session s = None" for s :: "'a machine"
    using that by (simp add: counts_hold_def session_view_def)
  have fin: "keeps ?P (finishOwnedSession co (coordinateRunning co d))" for d
    by (intro keeps_conj counted.keeps_finishOwnedSession budget.keeps_coordinateRunning
        counted.keeps_finishOwnedSession workflow.keeps_coordinateRunning)
  have "triple (\<lambda>s. mx_session s = None) (start co w i) (\<lambda>_. ?P) ?P"
    unfolding start_def
  proof (rule triple_keeping [OF closed.keeps_parseDescriptor closed])
    show "triple (\<lambda>s. mx_session s = None) (bindA (initializeOwnedRun co w (i\<lparr>cu_descriptor := d\<rparr>))
        (\<lambda>_. finishOwnedSession co (coordinateRunning co d))) (\<lambda>_. ?P) ?P" for d
      by (rule triple_bind [where Q = "\<lambda>_. ?P"], rule triple_weaken [OF opens_with_counts])
        (auto simp: closed intro: triple_keeps [OF fin])
  qed
  with assms have "?P s'" by (auto simp: triple_def split: sum.splits)
  then show ?thesis by (cases "mx_session s'") (auto simp: counts_hold_def session_view_def)
qed

theorem attempts_within_budget_witness:
  "\<exists>r s'. start sample_coordinator command_workflow sample_input empty_machine = Some (r, s') \<and>
     pred_option (\<lambda>x. ss_workflow x = command_workflow \<and>
       budgeted command_workflow (attempt_count (ss_state x))) (mx_session s')"
proof -
  obtain r s' where run: "start sample_coordinator command_workflow sample_input empty_machine = Some (r, s')"
    using scripted_returns(1) by blast
  from attempts_within_budget [OF run] run show ?thesis by (auto simp: empty_machine_def)
qed

section \<open>Returning\<close>

text \<open>
  C17: Coordinators return. If every execution that is driven ends (the loop over an execution waits
  for the execution host, its timeout or a control), then so do \<open>start\<close>, \<open>createRun\<close> and \<open>resume\<close>:
  the scheduling loop makes finitely many passes, whatever the interfaces answer and the other
  processes do.
\<close>

theorem coordination_returns:
  assumes "\<And>p x. total (driveExecution co p x)" and "m \<in> {start co w i, createRun co w i, resume co k opId}"
  shows "\<exists>r s'. m s = Some (r, s')"
  using coordination_ends [OF assms(1)] assms(2) unfolding total_def by (metis insertE not_None_eq singletonD surj_pair)

theorem coordination_returns_witness:
  "\<exists>r s'. resume sample_coordinator ''run-1'' None empty_machine = Some (r, s')"
  by (rule coordination_returns [OF sample_drives, where k = "''run-1''" and opId = None]) simp

section \<open>A failed attempt that changed the workspace\<close>

lemma apply_events_append_Inr:
  "apply_events s (es @ fs) = Inr t \<Longrightarrow> \<exists>u. apply_events s es = Inr u \<and> apply_events u fs = Inr t"
  by (induction es arbitrary: s) (auto simp: result_simps)

lemma last_update_last: "xs \<noteq> [] \<Longrightarrow> last (update_last f xs) = f (last xs)"
  by (cases xs rule: rev_cases) simp_all

lemma failed_then_paused:
  assumes "apply_events s (e # f # es) = Inr t" and "ev_payload e = AttemptFailed nid n failure"
    and "ev_payload f = NodePaused nid (Some reason)"
  shows False
proof -
  from assms(1) obtain u v where "applyRunEvent (Some s) e = Inr u" "applyRunEvent (Some u) f = Inr v"
    by (auto simp: result_simps)
  with assms(2,3) show False
    by (auto simp: applyRunEvent_Some_iff handler_iffs stopped_attempt_iff last_status_def last_attempt_def last_opt_def
        last_update_last split: if_splits)
qed

lemma conflict_rejected:
  assumes "materializeEvents (Some s) k (evidence @ failed_payloads s' p failure (False, ds)) = Inr (events, t)"
  shows False
proof -
  from materializeEvents_Some [OF assms]
  have ev: "apply_events s events = Inr t" "map ev_payload events = evidence @ failed_payloads s' p failure (False, ds)"
    by auto
  from ev(2) obtain es e f gs where events: "events = es @ e # f # gs"
    "ev_payload e = AttemptFailed (pa_nodeId p) (pa_attempt p) failure"
    "ev_payload f = NodePaused (pa_nodeId p) (Some (WorkspaceConflictPause ds))"
    by (auto simp: failed_payloads_def map_eq_append_conv)
  from ev(1) apply_events_append_Inr [of s es "e # f # gs" t] events failed_then_paused show False by blast
qed

text \<open>
  C40: A failed attempt that changed the workspace is never recorded. \<open>finishResult\<close> then asks for a
  failed attempt whose node is paused by the conflict, which the reducer rejects, since only a
  cancelled or orphaned attempt may leave its node paused; so the call throws and nothing at all is
  committed, and the attempt stays running in the store until the run is recovered.
\<close>

theorem conflicts_unrecorded:
  assumes "finishResult co p res evidence (False, ds) s = Some (r, s')"
    and failure: "normalizedFailure co (pa_node p) res = Some failure"
  shows "(\<exists>e. r = Inl e) \<and> mx_calls s' = mx_calls s \<and> session_view s' = session_view s"
proof (cases "mx_session s")
  case None
  with assms(1) show ?thesis by (auto simp: finishResult_def session_state_def session_def bindA_def)
next
  case (Some x)
  let ?ps = "evidence @ failed_payloads (ss_state x) p failure (False, ds)"
  from assms(1) Some failure have "bindA (session_commit co ?ps snapshot_commit) (\<lambda>_. returnA ()) s = Some (r, s')"
    by (cases res) (simp_all add: finishResult_def session_state_def session_def bindA_def returnA_def normalizedFailure_def)
  then obtain q where q: "session_commit co ?ps snapshot_commit s = Some (q, s')"
    and r: "\<And>e. q = Inl e \<Longrightarrow> r = Inl e"
    by (auto simp: bindA_Some_iff returnA_def)
  have no: "\<not> committed co y ?ps t s s1" if "mx_session s = Some y" for y t s1
    using conflict_rejected by (simp add: committed_def) blast
  have "?ps \<noteq> []" by (simp add: failed_payloads_def)
  with session_commit_Some [OF q] no have "drift co s s' \<and> (\<exists>e. q = Inl e)"
    by (cases q) auto
  with r show ?thesis by (auto simp: drift_view) (simp add: drift_def)
qed

theorem conflicts_unrecorded_witness:
  "\<exists>r s'. finishResult sample_coordinator sample_attempt
       (FailedResult \<lparr>f_category = PolicyViolation, f_message = []\<rparr>) [] (False, []) recovering_machine = Some (r, s') \<and>
     (\<exists>e. r = Inl e) \<and> mx_calls s' = mx_calls recovering_machine \<and>
     session_view s' = session_view recovering_machine"
proof -
  obtain r s' where run: "finishResult sample_coordinator sample_attempt
      (FailedResult \<lparr>f_category = PolicyViolation, f_message = []\<rparr>) [] (False, []) recovering_machine = Some (r, s')"
    by (rule total_outcome [OF total_finishResult])
  from conflicts_unrecorded [OF run] run show ?thesis by (simp add: normalizedFailure_def)
qed

end
