(* ===== verification/Protocol_Frames.thy ===== *)
theory Protocol_Frames
  imports Byte_Strings Json_Parse
begin

text \<open>
  The frames of the supervisor protocol (\<open>execution-host/src/protocol.ts\<close>): a big-endian length and
  as many bytes of canonical JSON. A stream is its chunks, each with the bytes of one \<open>data\<close> event.
\<close>

section \<open>Encoding\<close>

datatype protocol_error =
    FrameTooLong
  | FrameLengthInvalid
  | FrameIncomplete
  | FrameLengthMismatch
  | InvalidUtf8
  | InvalidJson
  | NotCanonical
  | PartialFrame
  | StreamEnded
  | InvalidRecord

definition encodeFrame :: "nat \<Rightarrow> js \<Rightarrow> protocol_error + string" where
  "encodeFrame maxBytes v =
     (case canonicalJson v of
        None \<Rightarrow> Inl NotCanonical
      | Some t \<Rightarrow>
          let payload = utf8 t in
          bindE (check (1 \<le> length payload \<and> length payload \<le> maxBytes) FrameTooLong) (\<lambda>_.
          bindE (check (length payload < 4294967296) FrameTooLong) (\<lambda>_.
          Inr (be32 (length payload) @ payload))))"

section \<open>Decoding\<close>

definition decode_payload :: "string \<Rightarrow> protocol_error + js" where
  "decode_payload bytes =
     (case utf8_decode bytes of
        None \<Rightarrow> Inl InvalidUtf8
      | Some t \<Rightarrow> (case parse_json t of None \<Rightarrow> Inl InvalidJson | Some v \<Rightarrow> Inr v))"

definition decodeFrame :: "nat \<Rightarrow> string \<Rightarrow> protocol_error + js" where
  "decodeFrame maxBytes frame =
     bindE (check (5 \<le> length frame) FrameIncomplete) (\<lambda>_.
     let size = read_be32 frame in
     bindE (check (1 \<le> size \<and> size \<le> maxBytes \<and> length frame = size + 4) FrameLengthMismatch) (\<lambda>_.
     decode_payload (drop 4 frame)))"

text \<open>
  \<open>FrameDecoder\<close>: every complete frame of the buffer, and the bytes that are left.
\<close>

function take_frames :: "nat \<Rightarrow> string \<Rightarrow> protocol_error + js list \<times> string" where
  "take_frames maxBytes bytes =
     (if length bytes < 4 then Inr ([], bytes)
      else
        let size = read_be32 bytes in
        bindE (check (1 \<le> size \<and> size \<le> maxBytes) FrameLengthInvalid) (\<lambda>_.
        if length bytes < size + 4 then Inr ([], bytes)
        else
          bindE (decodeFrame maxBytes (take (size + 4) bytes)) (\<lambda>v.
          bindE (take_frames maxBytes (drop (size + 4) bytes)) (\<lambda>(vs, rest).
          Inr (v # vs, rest)))))"
  by pat_completeness auto
termination by (relation "measure (\<lambda>(_, bytes). length bytes)") auto

declare take_frames.simps [simp del]

definition decoder_push :: "nat \<Rightarrow> string \<Rightarrow> string \<Rightarrow> protocol_error + js list \<times> string" where
  "decoder_push maxBytes buffer chunk =
     bindE (take_frames maxBytes (buffer @ chunk)) (\<lambda>(vs, rest).
     bindE (check (length rest \<le> maxBytes + 4) FrameTooLong) (\<lambda>_. Inr (vs, rest)))"

definition decoder_finish :: "string \<Rightarrow> protocol_error + unit" where
  "decoder_finish buffer = check (buffer = []) PartialFrame"

text \<open>The decoder over a whole stream, as \<open>settleExecution\<close> uses it.\<close>

definition push_chunk :: "nat \<Rightarrow> js list \<times> string \<Rightarrow> string \<Rightarrow> protocol_error + js list \<times> string" where
  "push_chunk maxBytes acc chunk =
     bindE (decoder_push maxBytes (snd acc) chunk) (\<lambda>(vs, rest). Inr (fst acc @ vs, rest))"

definition decode_stream :: "nat \<Rightarrow> string list \<Rightarrow> protocol_error + js list" where
  "decode_stream maxBytes chunks =
     bindE (foldE (push_chunk maxBytes) ([], []) chunks) (\<lambda>(vs, rest).
     bindE (decoder_finish rest) (\<lambda>_. Inr vs))"

text \<open>\<open>readEndedFrame\<close>: exactly one frame, and then the end of the stream.\<close>

definition ended_chunk :: "nat \<Rightarrow> string \<Rightarrow> string \<Rightarrow> protocol_error + string" where
  "ended_chunk maxBytes buffer chunk =
     bindE (check (length (buffer @ chunk) \<le> maxBytes + 4) FrameTooLong) (\<lambda>_. Inr (buffer @ chunk))"

definition readEndedFrame :: "nat \<Rightarrow> string list \<Rightarrow> protocol_error + js" where
  "readEndedFrame maxBytes chunks =
     bindE (foldE (ended_chunk maxBytes) [] chunks) (decodeFrame maxBytes)"

text \<open>\<open>readInitialFrame\<close>: the first frame of a stream that stays open.\<close>

fun initial_frame :: "nat \<Rightarrow> string \<Rightarrow> string list \<Rightarrow> protocol_error + js" where
  "initial_frame maxBytes buffer [] = Inl StreamEnded"
| "initial_frame maxBytes buffer (chunk # chunks) =
     (let bytes = buffer @ chunk in
      bindE (check (length bytes \<le> maxBytes + 4) FrameTooLong) (\<lambda>_.
      if length bytes < 4 then initial_frame maxBytes bytes chunks
      else
        let expected = read_be32 bytes in
        bindE (check (1 \<le> expected \<and> expected \<le> maxBytes) FrameLengthInvalid) (\<lambda>_.
        if expected + 4 \<le> length bytes then decodeFrame maxBytes bytes
        else initial_frame maxBytes bytes chunks)))"

definition readInitialFrame :: "nat \<Rightarrow> string list \<Rightarrow> protocol_error + js" where
  "readInitialFrame maxBytes chunks = initial_frame maxBytes [] chunks"

section \<open>Frames\<close>

lemma encodeFrame_Inr:
  assumes "encodeFrame maxBytes v = Inr frame"
  obtains t where "canonicalJson v = Some t" and "frame = be32 (length (utf8 t)) @ utf8 t"
    and "1 \<le> length (utf8 t)" and "length (utf8 t) \<le> maxBytes" and "length (utf8 t) < 4294967296"
  using assms by (auto simp: encodeFrame_def Let_def result_simps split: option.splits)

lemma frame_size:
  assumes "encodeFrame maxBytes v = Inr frame"
  shows "read_be32 (frame @ s) + 4 = length frame" and "1 \<le> read_be32 (frame @ s)"
    and "read_be32 (frame @ s) \<le> maxBytes"
  using assms by (auto elim!: encodeFrame_Inr)

lemma frame_length: "encodeFrame maxBytes v = Inr frame \<Longrightarrow> 5 \<le> length frame"
  by (auto elim!: encodeFrame_Inr)

lemma decode_frame_back:
  assumes "encodeFrame maxBytes v = Inr frame" and "js_distinct v"
  shows "decodeFrame maxBytes frame = Inr (canonical_order v)"
proof -
  from assms(1) obtain t where t: "canonicalJson v = Some t"
    and f: "frame = be32 (length (utf8 t)) @ utf8 t" by (rule encodeFrame_Inr)
  from parse_json_canonical [OF t assms(2)] have "decode_payload (drop 4 frame) = Inr (canonical_order v)"
    by (simp add: f decode_payload_def)
  with frame_size [OF assms(1), of "[]"] frame_length [OF assms(1)] show ?thesis
    by (simp add: decodeFrame_def Let_def)
qed

lemma take_frames_back:
  assumes "encodeFrame maxBytes v = Inr frame" and "js_distinct v"
  shows "take_frames maxBytes (frame @ s) =
    bindE (take_frames maxBytes s) (\<lambda>(vs, rest). Inr (canonical_order v # vs, rest))"
  using frame_size [OF assms(1), of s] frame_length [OF assms(1)] decode_frame_back [OF assms]
  by (subst take_frames.simps) (simp add: Let_def)

lemma take_frames_nil [simp]: "take_frames maxBytes [] = Inr ([], [])"
  by (simp add: take_frames.simps)

section \<open>Streams\<close>

text \<open>What is left in the buffer is an incomplete frame.\<close>

lemma take_frames_rest:
  "take_frames maxBytes bytes = Inr (vs, rest) \<Longrightarrow> length rest \<le> maxBytes + 4"
proof (induction maxBytes bytes arbitrary: vs rest rule: take_frames.induct)
  case (1 maxBytes bytes)
  show ?case
  proof (cases "length bytes < 4 \<or> length bytes < read_be32 bytes + 4")
    case True
    with 1(2) show ?thesis
      by (subst (asm) take_frames.simps) (auto simp: Let_def result_simps split: if_splits)
  next
    case False
    with 1(2) obtain v vs' where "1 \<le> read_be32 bytes \<and> read_be32 bytes \<le> maxBytes"
      "decodeFrame maxBytes (take (read_be32 bytes + 4) bytes) = Inr v"
      "take_frames maxBytes (drop (read_be32 bytes + 4) bytes) = Inr (vs', rest)"
      by (subst (asm) take_frames.simps) (auto simp: Let_def result_simps split: if_splits)
    with 1(1) False show ?thesis by auto
  qed
qed

lemma decoder_push_frames: "decoder_push maxBytes buffer chunk = take_frames maxBytes (buffer @ chunk)"
proof (cases "take_frames maxBytes (buffer @ chunk)")
  case (Inr y)
  then show ?thesis
    using take_frames_rest [of maxBytes "buffer @ chunk" "fst y" "snd y"]
    by (cases y) (simp add: decoder_push_def)
qed (simp add: decoder_push_def)

lemma take_frames_invalid:
  assumes "4 \<le> length bytes" and "\<not> (1 \<le> read_be32 bytes \<and> read_be32 bytes \<le> maxBytes)"
  shows "take_frames maxBytes bytes = Inl FrameLengthInvalid"
  using assms by (subst take_frames.simps) (auto simp: Let_def check_def)

text \<open>More bytes change nothing of what was decoded before.\<close>

lemma take_frames_append:
  "take_frames maxBytes (bytes @ more) =
     bindE (take_frames maxBytes bytes) (\<lambda>(vs, rest).
     bindE (take_frames maxBytes (rest @ more)) (\<lambda>(ws, rest'). Inr (vs @ ws, rest')))"
proof (induction maxBytes bytes rule: take_frames.induct)
  case (1 maxBytes bytes)
  have triv: "bindE m (\<lambda>(ws, rest'). Inr ([] @ ws, rest')) = m" for m :: "protocol_error + js list \<times> string"
    by (cases m) auto
  define size where "size = read_be32 bytes"
  consider (short) "length bytes < 4" | (bad) "4 \<le> length bytes" "\<not> (1 \<le> size \<and> size \<le> maxBytes)"
    | (part) "4 \<le> length bytes" "1 \<le> size" "size \<le> maxBytes" "length bytes < size + 4"
    | (frame) "4 \<le> length bytes" "1 \<le> size" "size \<le> maxBytes" "size + 4 \<le> length bytes"
    by linarith
  then show ?case
  proof cases
    case short
    then show ?thesis using triv by (subst (2) take_frames.simps) simp
  next
    case bad
    then show ?thesis by (simp add: take_frames_invalid read_be32_append size_def)
  next
    case part
    then have "take_frames maxBytes bytes = Inr ([], bytes)"
      by (subst take_frames.simps) (simp add: Let_def size_def)
    then show ?thesis using triv by simp
  next
    case frame
    let ?v = "decodeFrame maxBytes (take (size + 4) bytes)"
    have l: "take_frames maxBytes (bytes @ more) = bindE ?v (\<lambda>v.
        bindE (take_frames maxBytes (drop (size + 4) bytes @ more)) (\<lambda>(vs, rest). Inr (v # vs, rest)))"
      using frame by (subst take_frames.simps) (simp add: Let_def size_def read_be32_append)
    have r: "take_frames maxBytes bytes = bindE ?v (\<lambda>v.
        bindE (take_frames maxBytes (drop (size + 4) bytes)) (\<lambda>(vs, rest). Inr (v # vs, rest)))"
      using frame by (subst take_frames.simps) (simp add: Let_def size_def)
    show ?thesis
    proof (cases ?v)
      case (Inl e)
      then show ?thesis by (simp add: l r)
    next
      case (Inr v)
      have IH: "take_frames maxBytes (drop (size + 4) bytes @ more) =
          bindE (take_frames maxBytes (drop (size + 4) bytes)) (\<lambda>(vs, rest).
          bindE (take_frames maxBytes (rest @ more)) (\<lambda>(ws, rest'). Inr (vs @ ws, rest')))"
        using 1 frame Inr by (simp add: size_def)
      show ?thesis
      proof (cases "take_frames maxBytes (drop (size + 4) bytes)")
        case (Inl e)
        then show ?thesis by (simp add: l r IH \<open>?v = Inr v\<close>)
      next
        case (Inr y)
        obtain ws rest where y: "y = (ws, rest)" by (cases y)
        show ?thesis
          by (cases "take_frames maxBytes (rest @ more)") (auto simp: l r IH \<open>?v = Inr v\<close> Inr y)
      qed
    qed
  qed
qed

lemma take_frames_split:
  assumes "take_frames maxBytes (bytes @ more) = Inr (vs, rest)"
  obtains us buffer ws where "take_frames maxBytes bytes = Inr (us, buffer)"
    and "take_frames maxBytes (buffer @ more) = Inr (ws, rest)" and "vs = us @ ws"
proof (cases "take_frames maxBytes bytes")
  case (Inl e)
  with assms take_frames_append [of maxBytes bytes more] show thesis by simp
next
  case (Inr y)
  with assms take_frames_append [of maxBytes bytes more] that show thesis
    by (cases y; cases "take_frames maxBytes (snd y @ more)") auto
qed

lemma take_frames_left:
  assumes "take_frames maxBytes bytes = Inr (vs, rest)"
  shows "take_frames maxBytes rest = Inr ([], rest)"
proof -
  from assms have "take_frames maxBytes (bytes @ []) = Inr (vs, rest)" by simp
  then obtain us buffer ws where "take_frames maxBytes bytes = Inr (us, buffer)"
    "take_frames maxBytes (buffer @ []) = Inr (ws, rest)" "vs = us @ ws" by (rule take_frames_split)
  then show ?thesis using assms by simp
qed

text \<open>How a stream is cut into chunks does not matter.\<close>

lemma decode_chunks:
  "foldE (push_chunk maxBytes) (vs, buffer) chunks =
     (case chunks of
        [] \<Rightarrow> Inr (vs, buffer)
      | _ \<Rightarrow> bindE (take_frames maxBytes (buffer @ concat chunks)) (\<lambda>(ws, rest). Inr (vs @ ws, rest)))"
proof (induction chunks arbitrary: vs buffer)
  case (Cons c cs)
  have step: "push_chunk maxBytes (vs, buffer) c =
      bindE (take_frames maxBytes (buffer @ c)) (\<lambda>(ws, rest). Inr (vs @ ws, rest))"
    by (simp add: push_chunk_def decoder_push_frames)
  show ?case
  proof (cases "take_frames maxBytes (buffer @ c)")
    case (Inl e)
    then show ?thesis
      using take_frames_append [of maxBytes "buffer @ c" "concat cs"] by (simp add: step)
  next
    case (Inr y)
    obtain ws rest where y: "y = (ws, rest)" by (cases y)
    show ?thesis
    proof (cases cs)
      case Nil
      with Inr y show ?thesis by (simp add: step)
    next
      case (Cons d ds)
      have "take_frames maxBytes (buffer @ c @ concat cs) =
          bindE (take_frames maxBytes (rest @ concat cs)) (\<lambda>(ws', rest'). Inr (ws @ ws', rest'))"
        using take_frames_append [of maxBytes "buffer @ c" "concat cs"] Inr y by simp
      with Cons.IH Inr y Cons show ?thesis
        by (simp add: step) (cases "take_frames maxBytes (rest @ d @ concat ds)"; simp add: case_prod_beta)
    qed
  qed
qed simp

lemma decode_stream_bytes:
  "decode_stream maxBytes chunks =
     bindE (take_frames maxBytes (concat chunks)) (\<lambda>(vs, rest). bindE (decoder_finish rest) (\<lambda>_. Inr vs))"
proof (cases "take_frames maxBytes (concat chunks)")
  case (Inl e)
  then show ?thesis unfolding decode_stream_def decode_chunks by (cases chunks) auto
next
  case (Inr y)
  then show ?thesis unfolding decode_stream_def decode_chunks by (cases y; cases chunks) auto
qed

text \<open>The stream that a writer of frames produces.\<close>

fun encodeFrames :: "nat \<Rightarrow> js list \<Rightarrow> protocol_error + string" where
  "encodeFrames maxBytes [] = Inr []"
| "encodeFrames maxBytes (v # vs) =
     bindE (encodeFrame maxBytes v) (\<lambda>frame.
     bindE (encodeFrames maxBytes vs) (\<lambda>rest. Inr (frame @ rest)))"

lemma take_frames_encoded:
  "encodeFrames maxBytes vs = Inr bytes \<Longrightarrow> list_all js_distinct vs \<Longrightarrow>
     take_frames maxBytes bytes = Inr (map canonical_order vs, [])"
  by (induction vs arbitrary: bytes) (auto simp: result_simps take_frames_back)

lemma decode_stream_encoded:
  assumes "encodeFrames maxBytes vs = Inr (concat chunks)" and "list_all js_distinct vs"
  shows "decode_stream maxBytes chunks = Inr (map canonical_order vs)"
  by (simp add: decode_stream_bytes take_frames_encoded [OF assms] decoder_finish_def)

text \<open>A single frame, read to the end of its stream or up to it.\<close>

lemma ended_chunks:
  "length (buffer @ concat chunks) \<le> maxBytes + 4 \<Longrightarrow>
     foldE (ended_chunk maxBytes) buffer chunks = Inr (buffer @ concat chunks)"
  by (induction chunks arbitrary: buffer) (auto simp: ended_chunk_def)

lemma readEndedFrame_back:
  assumes "encodeFrame maxBytes v = Inr (concat chunks)" and "js_distinct v"
  shows "readEndedFrame maxBytes chunks = Inr (canonical_order v)"
  using frame_size [OF assms(1), of "[]"] decode_frame_back [OF assms]
  by (simp add: readEndedFrame_def ended_chunks)

lemma initial_frame_back:
  assumes "encodeFrame maxBytes v = Inr (buffer @ concat chunks)" and "js_distinct v"
    and "length buffer < length (buffer @ concat chunks)"
  shows "initial_frame maxBytes buffer chunks = Inr (canonical_order v)"
  using assms(1,3)
proof (induction chunks arbitrary: buffer)
  case (Cons c cs)
  let ?bytes = "buffer @ c"
  note size = frame_size [OF Cons.prems(1), of "[]"]
  have len: "length ?bytes \<le> maxBytes + 4" using size by simp
  have whole: "4 \<le> length ?bytes \<Longrightarrow> read_be32 (buffer @ concat (c # cs)) = read_be32 ?bytes"
    using read_be32_append [of ?bytes "concat cs"] by simp
  show ?case
  proof (cases "length ?bytes = length (buffer @ concat (c # cs))")
    case True
    then have all: "concat cs = []" by simp
    with Cons.prems(1) have "encodeFrame maxBytes v = Inr ?bytes" by simp
    from decode_frame_back [OF this assms(2)] size len all show ?thesis
      by (simp add: Let_def del: concat_eq_Nil_conv)
  next
    case False
    then have "length ?bytes < length (buffer @ concat (c # cs))" by simp
    moreover have "\<not> read_be32 ?bytes + 4 \<le> length ?bytes" if "4 \<le> length ?bytes"
      using whole [OF that] size(1) False that by simp
    moreover have "initial_frame maxBytes ?bytes cs = Inr (canonical_order v)"
      using Cons.IH [of ?bytes] Cons.prems(1) False by simp
    moreover have "4 \<le> length ?bytes \<Longrightarrow> 1 \<le> read_be32 ?bytes" "4 \<le> length ?bytes \<Longrightarrow> read_be32 ?bytes \<le> maxBytes"
      using whole size(2,3) by simp_all
    ultimately show ?thesis
      using len by (cases "length ?bytes < 4") (simp_all only: initial_frame.simps Let_def check_True if_True if_False bindE_simps simp_thms)
  qed
qed simp

lemma readInitialFrame_back:
  assumes "encodeFrame maxBytes v = Inr (concat chunks)" and "js_distinct v"
  shows "readInitialFrame maxBytes chunks = Inr (canonical_order v)"
  using frame_length [OF assms(1)] unfolding readInitialFrame_def
  by (intro initial_frame_back) (simp_all only: assms append_Nil list.size)

end
