(* ===== verification/Supervisor_Protocol.thy ===== *)
theory Supervisor_Protocol
  imports Protocol_Frames Store_Decode Execution_Launch
begin

text \<open>
  The records and messages of the execution supervisor (\<open>execution-host/src/protocol.ts\<close>): their types,
  their JSON and the validators that read them back. A validator is a decoder: it gives the typed value
  of a JSON value that has exactly the keys, types and constraints the code asks for. The constant
  \<open>version\<close> of a record is checked and written, and not a field of its type.
\<close>

definition EXECUTION_PROTOCOL_VERSION :: string where
  "EXECUTION_PROTOCOL_VERSION = ''anastom.dev/execution-supervisor/v1alpha1''"

definition EXECUTION_SOCKET_FRAME_MAX_BYTES :: nat where
  "EXECUTION_SOCKET_FRAME_MAX_BYTES = 1024 * 1024"

definition EXECUTION_LAUNCH_FRAME_MAX_BYTES :: nat where
  "EXECUTION_LAUNCH_FRAME_MAX_BYTES = 4 * 1024 * 1024"

definition EXECUTION_PRIVATE_RECORD_MAX_BYTES :: nat where
  "EXECUTION_PRIVATE_RECORD_MAX_BYTES = 64 * 1024"

definition EXECUTION_TERMINAL_MAX_BYTES :: nat where
  "EXECUTION_TERMINAL_MAX_BYTES = 4 * 1024 * 1024"

definition EXECUTION_READY_FRAME_MAX_BYTES :: nat where
  "EXECUTION_READY_FRAME_MAX_BYTES = 256"

section \<open>Types\<close>

datatype manifest_state = AwaitingStart | Starting | ActiveState | TerminalState

text \<open>\<open>PrivateProcessIdentity\<close> (\<open>process.ts\<close>).\<close>

record private_process = local_process_identity +
  pp_processGroupId :: int
  pp_state :: string

record execution_plan_record =
  pr_plan :: execution_plan_ref
  pr_coordinator :: local_process_identity

record execution_control =
  ct_executionId :: string
  ct_generation :: int
  ct_capability :: string
  ct_endpoint :: string

record execution_manifest =
  mf_plan :: execution_plan_ref
  mf_capabilityDigest :: string
  mf_controlDigest :: string
  mf_supervisor :: private_process
  mf_state :: manifest_state

record start_authority =
  sa_execution :: persisted_execution_ref
  sa_capabilityDigest :: string
  sa_supervisor :: private_process

record serialized_command =
  sz_output :: command_report
  sz_stdout :: string
  sz_stderr :: string
  sz_failure :: "execution_failure option"

datatype terminal_result =
    RuntimeTerminal execution_result
  | CommandTerminal serialized_command

record execution_terminal =
  tm_executionId :: string
  tm_generation :: int
  tm_outcome :: result_status
  tm_events :: "runtime_event list"
  tm_result :: terminal_result
  tm_cleanup :: cleanup_outcome

datatype supervisor_operation =
    AuthorizeOp | InspectOp | EventsOp | CollectOp | TerminateOp | ReleaseOp

record supervisor_request =
  sq_operation :: supervisor_operation
  sq_executionId :: string
  sq_generation :: int
  sq_capability :: string
  sq_cursor :: "int option"

datatype response_category = Unauthorized | InvalidState | InvalidRequest | InternalError

datatype supervisor_response =
    OkResponse supervisor_operation manifest_state "runtime_event list option" "int option" "bool option"
  | FailedResponse response_category string

datatype host_output =
    EventOutput runtime_event
  | RuntimeResult execution_result
  | CommandResult serialized_command

section \<open>Names\<close>

fun manifest_state_name :: "manifest_state \<Rightarrow> string" where
  "manifest_state_name AwaitingStart = ''awaiting-start''"
| "manifest_state_name Starting = ''starting''"
| "manifest_state_name ActiveState = ''active''"
| "manifest_state_name TerminalState = ''terminal''"

definition manifest_state_dec :: "js \<Rightarrow> manifest_state option" where
  "manifest_state_dec = enum_js manifest_state_name [AwaitingStart, Starting, ActiveState, TerminalState]"

fun operation_name :: "supervisor_operation \<Rightarrow> string" where
  "operation_name AuthorizeOp = ''authorize''"
| "operation_name InspectOp = ''inspect''"
| "operation_name EventsOp = ''events''"
| "operation_name CollectOp = ''collect''"
| "operation_name TerminateOp = ''terminate''"
| "operation_name ReleaseOp = ''release''"

definition operation_dec :: "js \<Rightarrow> supervisor_operation option" where
  "operation_dec = enum_js operation_name [AuthorizeOp, InspectOp, EventsOp, CollectOp, TerminateOp, ReleaseOp]"

fun category_name :: "response_category \<Rightarrow> string" where
  "category_name Unauthorized = ''unauthorized''"
| "category_name InvalidState = ''invalid-state''"
| "category_name InvalidRequest = ''invalid-request''"
| "category_name InternalError = ''internal''"

definition category_dec :: "js \<Rightarrow> response_category option" where
  "category_dec = enum_js category_name [Unauthorized, InvalidState, InvalidRequest, InternalError]"

section \<open>Their JSON\<close>

definition version_field :: "string \<times> js" where
  "version_field = (''version'', JStr EXECUTION_PROTOCOL_VERSION)"

definition private_process_js :: "private_process \<Rightarrow> js" where
  "private_process_js p = JObj
     [(''version'', JStr (lp_version p)), (''hostIdentityDigest'', JStr (lp_hostIdentityDigest p)),
      (''bootIdentityDigest'', JStr (lp_bootIdentityDigest p)), (''pid'', JInt (lp_pid p)),
      (''startToken'', JStr (lp_startToken p)), (''processGroupId'', JInt (pp_processGroupId p)),
      (''state'', JStr (pp_state p))]"

definition plan_record_js :: "execution_plan_record \<Rightarrow> js" where
  "plan_record_js r = JObj
     [version_field, (''plan'', plan_js (pr_plan r)), (''coordinator'', identity_js (pr_coordinator r))]"

definition control_js :: "execution_control \<Rightarrow> js" where
  "control_js c = JObj
     [version_field, (''executionId'', JStr (ct_executionId c)), (''generation'', JInt (ct_generation c)),
      (''capability'', JStr (ct_capability c)), (''endpoint'', JStr (ct_endpoint c))]"

definition manifest_fields :: "execution_manifest \<Rightarrow> (string \<times> js) list" where
  "manifest_fields m =
     [version_field, (''plan'', plan_js (mf_plan m)), (''capabilityDigest'', JStr (mf_capabilityDigest m)),
      (''controlDigest'', JStr (mf_controlDigest m)), (''supervisor'', private_process_js (mf_supervisor m))]"

definition manifest_js :: "execution_manifest \<Rightarrow> js" where
  "manifest_js m = JObj (manifest_fields m @ [(''state'', JStr (manifest_state_name (mf_state m)))])"

definition authority_js :: "start_authority \<Rightarrow> js" where
  "authority_js a = JObj
     [version_field, (''execution'', execution_js (sa_execution a)),
      (''capabilityDigest'', JStr (sa_capabilityDigest a)),
      (''supervisor'', private_process_js (sa_supervisor a))]"

definition serialized_js :: "serialized_command \<Rightarrow> js" where
  "serialized_js c = JObj
     ([(''output'', command_report_js (sz_output c)), (''stdout'', JStr (sz_stdout c)),
       (''stderr'', JStr (sz_stderr c))] @ opt_field ''failure'' failure_js (sz_failure c))"

fun terminal_result_js :: "terminal_result \<Rightarrow> js" where
  "terminal_result_js (RuntimeTerminal r) = JObj [(''kind'', JStr ''runtime''), (''value'', result_js r)]"
| "terminal_result_js (CommandTerminal c) = JObj [(''kind'', JStr ''command''), (''value'', serialized_js c)]"

definition terminal_js :: "execution_terminal \<Rightarrow> js" where
  "terminal_js t = JObj
     [version_field, (''executionId'', JStr (tm_executionId t)), (''generation'', JInt (tm_generation t)),
      (''outcome'', JStr (result_status_name (tm_outcome t))),
      (''events'', JArr (map observation_js (tm_events t))), (''result'', terminal_result_js (tm_result t)),
      (''cleanup'', JStr (cleanup_name (tm_cleanup t)))]"

definition supervisor_request_js :: "supervisor_request \<Rightarrow> js" where
  "supervisor_request_js r = JObj
     ([version_field, (''operation'', JStr (operation_name (sq_operation r))),
       (''executionId'', JStr (sq_executionId r)), (''generation'', JInt (sq_generation r)),
       (''capability'', JStr (sq_capability r))] @ opt_field ''cursor'' JInt (sq_cursor r))"

fun response_js :: "supervisor_response \<Rightarrow> js" where
  "response_js (OkResponse op st evs cursor available) = JObj
     ([(''ok'', JBool True), (''operation'', JStr (operation_name op)),
       (''state'', JStr (manifest_state_name st))] @
      opt_field ''events'' (\<lambda>xs. JArr (map observation_js xs)) evs @
      opt_field ''nextCursor'' JInt cursor @ opt_field ''terminalAvailable'' JBool available)"
| "response_js (FailedResponse cat msg) = JObj
     [(''ok'', JBool False), (''category'', JStr (category_name cat)), (''message'', JStr msg)]"

fun output_js :: "host_output \<Rightarrow> js" where
  "output_js (EventOutput e) = JObj [(''type'', JStr ''event''), (''event'', observation_js e)]"
| "output_js (RuntimeResult r) = JObj [(''type'', JStr ''runtime-result''), (''result'', result_js r)]"
| "output_js (CommandResult c) = JObj [(''type'', JStr ''command-result''), (''result'', serialized_js c)]"

definition ready_js :: js where
  "ready_js = JObj [version_field, (''type'', JStr ''ready'')]"

section \<open>Validators\<close>

definition when_valid :: "('a \<Rightarrow> bool) \<Rightarrow> 'a option \<Rightarrow> 'a option" where
  "when_valid ok x = Option.bind x (\<lambda>v. if ok v then Some v else None)"

definition version_dec :: "(string \<times> js) list \<Rightarrow> unit option" where
  "version_dec f = req ''version'' (const_js EXECUTION_PROTOCOL_VERSION) f"

text \<open>\<open>capabilityPattern\<close>: \<open>/^[a-zA-Z0-9_-]{43}$/\<close>.\<close>

definition is_capability :: "string \<Rightarrow> bool" where
  "is_capability s \<longleftrightarrow> length s = 43 \<and> list_all (\<lambda>c. is_alnum c \<or> c \<in> set ''_-'') s"

definition private_process_dec :: "js \<Rightarrow> private_process option" where
  "private_process_dec v = do {
     f \<leftarrow> obj [''bootIdentityDigest'', ''hostIdentityDigest'', ''pid'', ''processGroupId'', ''startToken'',
       ''state'', ''version''] v;
     a \<leftarrow> req ''version'' str f;
     h \<leftarrow> req ''hostIdentityDigest'' str f;
     b \<leftarrow> req ''bootIdentityDigest'' str f;
     p \<leftarrow> req ''pid'' num f;
     t \<leftarrow> req ''startToken'' str f;
     g \<leftarrow> req ''processGroupId'' num f;
     st \<leftarrow> req ''state'' str f;
     Some \<lparr>lp_version = a, lp_hostIdentityDigest = h, lp_bootIdentityDigest = b, lp_pid = p,
       lp_startToken = t, pp_processGroupId = g, pp_state = st\<rparr> }"

definition valid_private_process :: "private_process \<Rightarrow> bool" where
  "valid_private_process p \<longleftrightarrow>
     positive_int (pp_processGroupId p) \<and> pp_state p \<noteq> [] \<and>
     valid_process_identity (local_process_identity.truncate p)"

definition assertPrivateProcessIdentity :: "js \<Rightarrow> private_process option" where
  "assertPrivateProcessIdentity v = when_valid valid_private_process (private_process_dec v)"

definition assertExecutionPlanRecord :: "js \<Rightarrow> execution_plan_record option" where
  "assertExecutionPlanRecord v = do {
     f \<leftarrow> obj [''coordinator'', ''plan'', ''version''] v;
     _ \<leftarrow> version_dec f;
     p \<leftarrow> when_valid assertExecutionPlanRef (req ''plan'' plan_dec f);
     c \<leftarrow> when_valid valid_process_identity (req ''coordinator'' identity_dec f);
     Some \<lparr>pr_plan = p, pr_coordinator = c\<rparr> }"

definition assertExecutionControlRecord :: "js \<Rightarrow> execution_control option" where
  "assertExecutionControlRecord v = do {
     f \<leftarrow> obj [''capability'', ''endpoint'', ''executionId'', ''generation'', ''version''] v;
     _ \<leftarrow> version_dec f;
     e \<leftarrow> req ''executionId'' str f;
     g \<leftarrow> when_valid positive_int (req ''generation'' num f);
     c \<leftarrow> when_valid is_capability (req ''capability'' str f);
     p \<leftarrow> when_valid (\<lambda>s. s \<noteq> [] \<and> byte_length s \<le> 100) (req ''endpoint'' str f);
     Some \<lparr>ct_executionId = e, ct_generation = g, ct_capability = c, ct_endpoint = p\<rparr> }"

definition assertExecutionManifestRecord :: "js \<Rightarrow> execution_manifest option" where
  "assertExecutionManifestRecord v = do {
     f \<leftarrow> obj [''capabilityDigest'', ''controlDigest'', ''plan'', ''state'', ''supervisor'', ''version''] v;
     _ \<leftarrow> version_dec f;
     c \<leftarrow> when_valid is_digest (req ''capabilityDigest'' str f);
     d \<leftarrow> when_valid is_digest (req ''controlDigest'' str f);
     st \<leftarrow> req ''state'' manifest_state_dec f;
     p \<leftarrow> when_valid assertExecutionPlanRef (req ''plan'' plan_dec f);
     s \<leftarrow> req ''supervisor'' assertPrivateProcessIdentity f;
     Some \<lparr>mf_plan = p, mf_capabilityDigest = c, mf_controlDigest = d, mf_supervisor = s, mf_state = st\<rparr> }"

definition valid_execution :: "persisted_execution_ref \<Rightarrow> bool" where
  "valid_execution x \<longleftrightarrow> assertPersistedExecutionRef x None = Inr ()"

definition assertExecutionStartAuthority :: "js \<Rightarrow> start_authority option" where
  "assertExecutionStartAuthority v = do {
     f \<leftarrow> obj [''capabilityDigest'', ''execution'', ''supervisor'', ''version''] v;
     _ \<leftarrow> version_dec f;
     c \<leftarrow> when_valid is_digest (req ''capabilityDigest'' str f);
     x \<leftarrow> when_valid valid_execution (req ''execution'' execution_dec f);
     s \<leftarrow> req ''supervisor'' assertPrivateProcessIdentity f;
     Some \<lparr>sa_execution = x, sa_capabilityDigest = c, sa_supervisor = s\<rparr> }"

definition valid_command_report :: "command_report \<Rightarrow> bool" where
  "valid_command_report c \<longleftrightarrow>
     pred_option is_safe_integer (cr_exitCode c) \<and> 0 \<le> cr_durationMs c \<and>
     nonnegative_int (cr_stdoutBytes c) \<and> nonnegative_int (cr_stderrBytes c)"

definition valid_base64 :: "string \<Rightarrow> bool" where
  "valid_base64 s = (case base64_decode s of None \<Rightarrow> False | Some bytes \<Rightarrow> base64 bytes = s)"

text \<open>What \<open>assertSerializedCommandExecution\<close> asks of the values.\<close>

definition valid_serialized :: "serialized_command \<Rightarrow> bool" where
  "valid_serialized c \<longleftrightarrow>
     valid_command_report (sz_output c) \<and> valid_base64 (sz_stdout c) \<and> valid_base64 (sz_stderr c)"

definition assertSerializedCommandExecution :: "js \<Rightarrow> serialized_command option" where
  "assertSerializedCommandExecution v = do {
     f \<leftarrow> obj [''output'', ''stderr'', ''stdout'', ''failure''] v;
     r \<leftarrow> when_valid valid_command_report (req ''output'' command_report_dec f);
     x \<leftarrow> opt ''failure'' failure_dec f;
     s \<leftarrow> when_valid valid_base64 (req ''stdout'' str f);
     e \<leftarrow> when_valid valid_base64 (req ''stderr'' str f);
     Some \<lparr>sz_output = r, sz_stdout = s, sz_stderr = e, sz_failure = x\<rparr> }"

definition result_dec :: "js \<Rightarrow> execution_result option" where
  "result_dec v = do {
     f \<leftarrow> any_obj v;
     k \<leftarrow> req ''status'' result_status_dec f;
     (case k of
        ResSucceeded \<Rightarrow> do {
          _ \<leftarrow> obj [''output'', ''status''] v;
          x \<leftarrow> req ''output'' any_js f;
          Some (SucceededResult x) }
      | ResFailed \<Rightarrow> do {
          _ \<leftarrow> obj [''failure'', ''status''] v;
          x \<leftarrow> req ''failure'' failure_dec f;
          Some (FailedResult x) }
      | ResBlocked \<Rightarrow> do {
          _ \<leftarrow> obj [''reason'', ''status''] v;
          x \<leftarrow> req ''reason'' str f;
          Some (BlockedResult x) }
      | ResCancelled \<Rightarrow> do {
          _ \<leftarrow> obj [''reason'', ''status''] v;
          x \<leftarrow> req ''reason'' str f;
          Some (CancelledResult x) }) }"

definition terminal_result_dec :: "js \<Rightarrow> terminal_result option" where
  "terminal_result_dec v = do {
     f \<leftarrow> obj [''kind'', ''value''] v;
     k \<leftarrow> req ''kind'' str f;
     if k = ''runtime'' then
       map_option RuntimeTerminal (when_valid assertExecutionResult (req ''value'' result_dec f))
     else if k = ''command'' then
       map_option CommandTerminal (req ''value'' assertSerializedCommandExecution f)
     else None }"

definition assertExecutionTerminalRecord :: "js \<Rightarrow> execution_terminal option" where
  "assertExecutionTerminalRecord v = do {
     f \<leftarrow> obj [''cleanup'', ''events'', ''executionId'', ''generation'', ''outcome'', ''result'', ''version''] v;
     _ \<leftarrow> version_dec f;
     e \<leftarrow> req ''executionId'' str f;
     g \<leftarrow> when_valid positive_int (req ''generation'' num f);
     out \<leftarrow> req ''outcome'' result_status_dec f;
     c \<leftarrow> req ''cleanup'' cleanup_dec f;
     evs \<leftarrow> when_valid (\<lambda>xs. length xs \<le> 256 \<and> list_all valid_observation xs)
       (req ''events'' (arr observation_dec) f);
     r \<leftarrow> req ''result'' terminal_result_dec f;
     Some \<lparr>tm_executionId = e, tm_generation = g, tm_outcome = out, tm_events = evs, tm_result = r,
       tm_cleanup = c\<rparr> }"

definition assertSupervisorRequest :: "js \<Rightarrow> supervisor_request option" where
  "assertSupervisorRequest v = do {
     f \<leftarrow> obj [''capability'', ''executionId'', ''generation'', ''operation'', ''version'', ''cursor''] v;
     _ \<leftarrow> version_dec f;
     op \<leftarrow> req ''operation'' operation_dec f;
     e \<leftarrow> req ''executionId'' str f;
     g \<leftarrow> when_valid positive_int (req ''generation'' num f);
     c \<leftarrow> when_valid is_capability (req ''capability'' str f);
     n \<leftarrow> when_valid (pred_option nonnegative_int) (opt ''cursor'' num f);
     Some \<lparr>sq_operation = op, sq_executionId = e, sq_generation = g, sq_capability = c, sq_cursor = n\<rparr> }"

definition validRuntimeEvent :: "runtime_event \<Rightarrow> bool" where
  "validRuntimeEvent e \<longleftrightarrow>
     valid_observation e \<and> fits_json (observation_js e) EXECUTION_PRIVATE_RECORD_MAX_BYTES"

definition assertSupervisorResponse :: "js \<Rightarrow> supervisor_response option" where
  "assertSupervisorResponse v = do {
     f \<leftarrow> any_obj v;
     ok \<leftarrow> req ''ok'' boolean f;
     if ok then do {
       _ \<leftarrow> obj [''ok'', ''operation'', ''state'', ''events'', ''nextCursor'', ''terminalAvailable''] v;
       op \<leftarrow> req ''operation'' operation_dec f;
       st \<leftarrow> req ''state'' manifest_state_dec f;
       evs \<leftarrow> when_valid (pred_option (list_all validRuntimeEvent)) (opt ''events'' (arr observation_dec) f);
       n \<leftarrow> when_valid (pred_option nonnegative_int) (opt ''nextCursor'' num f);
       b \<leftarrow> opt ''terminalAvailable'' boolean f;
       Some (OkResponse op st evs n b) }
     else do {
       _ \<leftarrow> obj [''category'', ''message'', ''ok''] v;
       c \<leftarrow> req ''category'' category_dec f;
       m \<leftarrow> req ''message'' str f;
       Some (FailedResponse c m) } }"

definition assertRuntimeHostOutput :: "js \<Rightarrow> host_output option" where
  "assertRuntimeHostOutput v = do {
     f \<leftarrow> any_obj v;
     k \<leftarrow> req ''type'' str f;
     if k = ''event'' then do {
       _ \<leftarrow> obj [''event'', ''type''] v;
       map_option EventOutput (when_valid validRuntimeEvent (req ''event'' observation_dec f)) }
     else if k = ''runtime-result'' then do {
       _ \<leftarrow> obj [''result'', ''type''] v;
       map_option RuntimeResult (when_valid assertExecutionResult (req ''result'' result_dec f)) }
     else if k = ''command-result'' then do {
       _ \<leftarrow> obj [''result'', ''type''] v;
       map_option CommandResult (req ''result'' assertSerializedCommandExecution f) }
     else None }"

definition assertRuntimeHostReady :: "js \<Rightarrow> unit option" where
  "assertRuntimeHostReady v = do {
     f \<leftarrow> obj [''type'', ''version''] v;
     _ \<leftarrow> version_dec f;
     req ''type'' (const_js ''ready'') f }"

section \<open>Digests and buffers\<close>

definition executionCapabilityDigest :: "(string \<Rightarrow> string) \<Rightarrow> string \<Rightarrow> string" where
  "executionCapabilityDigest sha capability =
     digestBytes sha (''anastom.dev/execution-capability/v1alpha1'' @ [CHR 0x0A] @ capability)"

definition matchesExecutionCapability :: "string \<Rightarrow> string \<Rightarrow> bool" where
  "matchesExecutionCapability actual expected \<longleftrightarrow>
     length (utf8 actual) = length (utf8 expected) \<and> utf8 actual = utf8 expected"

text \<open>The text of a value that is JSON.\<close>

definition text_of :: "js \<Rightarrow> string" where
  "text_of v = the (canonicalJson v)"

definition executionManifestDigest :: "(string \<Rightarrow> string) \<Rightarrow> execution_manifest \<Rightarrow> string" where
  "executionManifestDigest sha m = digestBytes sha (text_of (JObj (manifest_fields m)))"

definition commandExecutionToRecord :: "command_execution \<Rightarrow> serialized_command" where
  "commandExecutionToRecord c =
     \<lparr>sz_output = ce_output c, sz_stdout = base64 (ce_stdout c), sz_stderr = base64 (ce_stderr c),
      sz_failure = ce_failure c\<rparr>"

definition commandExecutionFromRecord :: "serialized_command \<Rightarrow> command_execution option" where
  "commandExecutionFromRecord c =
     (if \<not> valid_serialized c then None
      else do {
        s \<leftarrow> base64_decode (sz_stdout c);
        e \<leftarrow> base64_decode (sz_stderr c);
        Some \<lparr>ce_output = sz_output c, ce_stdout = s, ce_stderr = e, ce_failure = sz_failure c\<rparr> })"

end
