(* ===== verification/Record_Roundtrip.thy ===== *)
theory Record_Roundtrip
  imports Supervisor_Protocol
begin

text \<open>
  What the supervisor writes is read back: the validators of \<open>Supervisor_Protocol\<close> applied to the
  parsed text of a valid record or message give it again, with the JSON it carries in canonical order.
\<close>

section \<open>Records on disk\<close>

text \<open>
  \<open>readRecord\<close> of a private file: it may be missing (\<open>ENOENT\<close>), and every other failure is the same.
\<close>

datatype 'a record_read = MissingRecord | UnreadableRecord | Loaded 'a

definition record_bytes :: "js \<Rightarrow> string" where
  "record_bytes v = utf8 (text_of v)"

definition readRecord :: "nat \<Rightarrow> (js \<Rightarrow> 'a option) \<Rightarrow> string option \<Rightarrow> 'a record_read" where
  "readRecord maxBytes validate file =
     (case file of
        None \<Rightarrow> MissingRecord
      | Some bytes \<Rightarrow>
          if maxBytes < length bytes then UnreadableRecord
          else (case decode_payload bytes of
              Inl _ \<Rightarrow> UnreadableRecord
            | Inr v \<Rightarrow> (case validate v of None \<Rightarrow> UnreadableRecord | Some x \<Rightarrow> Loaded x)))"

lemma readRecord_back:
  assumes "is_json v" and "js_distinct v" and "length (record_bytes v) \<le> maxBytes"
    and "validate (canonical_order v) = Some x"
  shows "readRecord maxBytes validate (Some (record_bytes v)) = Loaded x"
proof -
  from assms(1) obtain t where t: "canonicalJson v = Some t"
    using canonicalJson_defined_iff by blast
  with parse_json_canonical [OF t assms(2)] assms(3,4) show ?thesis
    by (simp add: readRecord_def record_bytes_def text_of_def decode_payload_def)
qed

section \<open>Canonical values\<close>

fun canonical_result :: "execution_result \<Rightarrow> execution_result" where
  "canonical_result (SucceededResult out) = SucceededResult (canonical_order out)"
| "canonical_result r = r"

fun canonical_terminal_result :: "terminal_result \<Rightarrow> terminal_result" where
  "canonical_terminal_result (RuntimeTerminal r) = RuntimeTerminal (canonical_result r)"
| "canonical_terminal_result r = r"

definition canonical_terminal :: "execution_terminal \<Rightarrow> execution_terminal" where
  "canonical_terminal t = t\<lparr>tm_result := canonical_terminal_result (tm_result t)\<rparr>"

fun canonical_output :: "host_output \<Rightarrow> host_output" where
  "canonical_output (RuntimeResult r) = RuntimeResult (canonical_result r)"
| "canonical_output x = x"

section \<open>Validators of what was written\<close>

declare canonical_order.simps [simp del]

lemma when_valid_Some [decode_simps]:
  "when_valid P (Some x) = (if P x then Some x else None)"
  "when_valid P None = None"
  by (simp_all add: when_valid_def)

lemma version_back [decode_simps]:
  assumes "distinct (map fst kvs)" and "map_of kvs ''version'' = Some (JStr EXECUTION_PROTOCOL_VERSION)"
  shows "version_dec (canonical_fields kvs) = Some ()"
  using assms by (simp add: version_dec_def req_canonical decode_simps del: map_of_eq_Some_iff)

lemma manifest_state_back [decode_simps]:
  "manifest_state_dec (canonical_order (JStr (manifest_state_name x))) = Some x"
  unfolding manifest_state_dec_def enum_back by (cases x) simp_all

lemma operation_back [decode_simps]: "operation_dec (canonical_order (JStr (operation_name x))) = Some x"
  unfolding operation_dec_def enum_back by (cases x) simp_all

lemma category_back [decode_simps]: "category_dec (canonical_order (JStr (category_name x))) = Some x"
  unfolding category_dec_def enum_back by (cases x) simp_all

lemma observations_back [decode_simps]:
  "arr observation_dec (canonical_order (JArr (map observation_js xs))) = Some xs"
  using those_map_Some_iff [of xs "\<lambda>x. observation_dec (canonical_order (observation_js x))" "\<lambda>x. x"]
  by (simp add: arr_def canonical_order.simps observation_back comp_def)

lemma private_process_back [decode_simps]:
  "valid_private_process p \<Longrightarrow> assertPrivateProcessIdentity (canonical_order (private_process_js p)) = Some p"
  by (cases p) (simp add: assertPrivateProcessIdentity_def private_process_dec_def private_process_js_def
      decode_simps)

lemma plan_record_back:
  assumes "assertExecutionPlanRef (pr_plan r)" and "valid_process_identity (pr_coordinator r)"
  shows "assertExecutionPlanRecord (canonical_order (plan_record_js r)) = Some r"
  using assms by (simp add: assertExecutionPlanRecord_def plan_record_js_def version_field_def decode_simps)

definition valid_control :: "execution_control \<Rightarrow> bool" where
  "valid_control c \<longleftrightarrow>
     positive_int (ct_generation c) \<and> is_capability (ct_capability c) \<and> ct_endpoint c \<noteq> [] \<and>
     byte_length (ct_endpoint c) \<le> 100"

lemma control_back:
  "valid_control c \<Longrightarrow> assertExecutionControlRecord (canonical_order (control_js c)) = Some c"
  by (simp add: assertExecutionControlRecord_def control_js_def version_field_def valid_control_def decode_simps)

definition valid_manifest :: "execution_manifest \<Rightarrow> bool" where
  "valid_manifest m \<longleftrightarrow>
     assertExecutionPlanRef (mf_plan m) \<and> is_digest (mf_capabilityDigest m) \<and>
     is_digest (mf_controlDigest m) \<and> valid_private_process (mf_supervisor m)"

lemma manifest_back:
  "valid_manifest m \<Longrightarrow> assertExecutionManifestRecord (canonical_order (manifest_js m)) = Some m"
  by (simp add: assertExecutionManifestRecord_def manifest_js_def manifest_fields_def version_field_def
      valid_manifest_def decode_simps)

definition valid_authority :: "start_authority \<Rightarrow> bool" where
  "valid_authority a \<longleftrightarrow>
     valid_execution (sa_execution a) \<and> is_digest (sa_capabilityDigest a) \<and>
     valid_private_process (sa_supervisor a)"

lemma authority_back:
  "valid_authority a \<Longrightarrow> assertExecutionStartAuthority (canonical_order (authority_js a)) = Some a"
  by (simp add: assertExecutionStartAuthority_def authority_js_def version_field_def valid_authority_def
      decode_simps)

lemma serialized_back [decode_simps]:
  "valid_serialized c \<Longrightarrow> assertSerializedCommandExecution (canonical_order (serialized_js c)) = Some c"
  by (simp add: assertSerializedCommandExecution_def serialized_js_def valid_serialized_def decode_simps)

lemma result_back [decode_simps]:
  "result_dec (canonical_order (result_js r)) = Some (canonical_result r)"
  using result_status_back [of "result_status_of r"]
  by (cases r) (simp_all add: result_dec_def decode_simps)

text \<open>The canonical order of a result has the same text, and so the same size.\<close>

definition distinct_result :: "execution_result \<Rightarrow> bool" where
  "distinct_result r = js_distinct (result_js r)"

lemma assertExecutionResult_canonical [decode_simps]:
  assumes "distinct_result r"
  shows "assertExecutionResult (canonical_result r) = assertExecutionResult r"
proof (cases r)
  case (SucceededResult out)
  with assms have "canonicalJson (canonical_order out) = canonicalJson out"
    by (simp add: distinct_result_def canonicalJson_canonical_order)
  then have "canonicalJson (result_js (canonical_result r)) = canonicalJson (result_js r)"
    unfolding SucceededResult by simp
  then show ?thesis by (simp only: assertExecutionResult_def fits_json_def)
qed (simp_all add: assertExecutionResult_def)

fun valid_terminal_result :: "terminal_result \<Rightarrow> bool" where
  "valid_terminal_result (RuntimeTerminal r) = (assertExecutionResult r \<and> distinct_result r)"
| "valid_terminal_result (CommandTerminal c) = valid_serialized c"

lemma terminal_result_back [decode_simps]:
  "valid_terminal_result r \<Longrightarrow>
     terminal_result_dec (canonical_order (terminal_result_js r)) = Some (canonical_terminal_result r)"
  by (cases r) (simp_all add: terminal_result_dec_def decode_simps)

definition valid_terminal :: "execution_terminal \<Rightarrow> bool" where
  "valid_terminal t \<longleftrightarrow>
     positive_int (tm_generation t) \<and> length (tm_events t) \<le> 256 \<and>
     list_all valid_observation (tm_events t) \<and> valid_terminal_result (tm_result t)"

lemma terminal_back:
  "valid_terminal t \<Longrightarrow>
     assertExecutionTerminalRecord (canonical_order (terminal_js t)) = Some (canonical_terminal t)"
  by (cases t) (simp add: assertExecutionTerminalRecord_def terminal_js_def version_field_def
      valid_terminal_def canonical_terminal_def decode_simps)

definition valid_supervisor_request :: "supervisor_request \<Rightarrow> bool" where
  "valid_supervisor_request r \<longleftrightarrow>
     positive_int (sq_generation r) \<and> is_capability (sq_capability r) \<and>
     pred_option nonnegative_int (sq_cursor r)"

lemma supervisor_request_back:
  "valid_supervisor_request r \<Longrightarrow>
     assertSupervisorRequest (canonical_order (supervisor_request_js r)) = Some r"
  by (cases r) (simp add: assertSupervisorRequest_def supervisor_request_js_def version_field_def
      valid_supervisor_request_def decode_simps)

fun valid_response :: "supervisor_response \<Rightarrow> bool" where
  "valid_response (OkResponse op st evs cursor available) =
     (pred_option (list_all validRuntimeEvent) evs \<and> pred_option nonnegative_int cursor)"
| "valid_response (FailedResponse cat msg) = True"

lemma response_back:
  "valid_response r \<Longrightarrow> assertSupervisorResponse (canonical_order (response_js r)) = Some r"
  by (cases r) (simp_all add: assertSupervisorResponse_def decode_simps)

fun valid_output :: "host_output \<Rightarrow> bool" where
  "valid_output (EventOutput e) = validRuntimeEvent e"
| "valid_output (RuntimeResult r) = (assertExecutionResult r \<and> distinct_result r)"
| "valid_output (CommandResult c) = valid_serialized c"

lemma host_output_back:
  "valid_output x \<Longrightarrow> assertRuntimeHostOutput (canonical_order (output_js x)) = Some (canonical_output x)"
  by (cases x) (simp_all add: assertRuntimeHostOutput_def decode_simps)

lemma host_ready_back: "assertRuntimeHostReady (canonical_order ready_js) = Some ()"
  by (simp add: assertRuntimeHostReady_def ready_js_def version_field_def decode_simps)

section \<open>Command evidence\<close>

lemma valid_base64_back [simp]: "valid_base64 (base64 s)"
  by (simp add: valid_base64_def)

lemma command_record_back:
  assumes "valid_command_report (ce_output c)"
  shows "commandExecutionFromRecord (commandExecutionToRecord c) = Some c"
  using assms by (simp add: commandExecutionFromRecord_def commandExecutionToRecord_def valid_serialized_def)

end
