(* ===== verification/Supervisor_Events.thy ===== *)
theory Supervisor_Events
  imports Record_Roundtrip
begin

text \<open>
  The observations that a supervisor retains (\<open>appendEvent\<close>, \<open>trimEvents\<close> and \<open>flushDroppedLogs\<close> of
  \<open>execution-host/src/supervisor.ts\<close>): a bounded log in which only log lines are dropped, and counted.
  An operation gives the new log and whether it returned; one that throws has changed the log before.
\<close>

section \<open>Operations\<close>

record retained_event =
  re_ordinal :: int
  re_event :: runtime_event

record event_log =
  el_events :: "retained_event list"
  el_ordinal :: int
  el_dropped :: int

definition empty_log :: event_log where
  "empty_log = \<lparr>el_events = [], el_ordinal = 0, el_dropped = 0\<rparr>"

definition TRUNCATED_LOG_MESSAGE :: string where
  "TRUNCATED_LOG_MESSAGE = ''Execution logs were truncated by the supervisor''"

fun is_log :: "runtime_event \<Rightarrow> bool" where
  "is_log (LogEvent _ _) = True"
| "is_log _ = False"

fun dropped_logs :: "runtime_event \<Rightarrow> int" where
  "dropped_logs (LogEvent _ d) = (case d of None \<Rightarrow> 0 | Some n \<Rightarrow> n)"
| "dropped_logs _ = 0"

fun add_dropped :: "int \<Rightarrow> runtime_event \<Rightarrow> runtime_event" where
  "add_dropped n (LogEvent m d) = LogEvent m (Some (dropped_logs (LogEvent m d) + n))"
| "add_dropped n e = e"

fun is_summary :: "runtime_event \<Rightarrow> bool" where
  "is_summary (LogEvent m _) = (m = TRUNCATED_LOG_MESSAGE)"
| "is_summary _ = False"

definition retained_bytes :: "retained_event list \<Rightarrow> nat" where
  "retained_bytes xs = byte_length (text_of (JArr (map (\<lambda>x. observation_js (re_event x)) xs)))"

definition over_limit :: "retained_event list \<Rightarrow> bool" where
  "over_limit xs \<longleftrightarrow> 256 < length xs \<or> EXECUTION_SOCKET_FRAME_MAX_BYTES div 2 < retained_bytes xs"

text \<open>The first event that satisfies a condition, changed or taken out.\<close>

fun update_first :: "('a \<Rightarrow> bool) \<Rightarrow> ('a \<Rightarrow> 'a) \<Rightarrow> 'a list \<Rightarrow> 'a list option" where
  "update_first p f [] = None"
| "update_first p f (x # xs) = (if p x then Some (f x # xs) else map_option (Cons x) (update_first p f xs))"

fun take_first :: "('a \<Rightarrow> bool) \<Rightarrow> 'a list \<Rightarrow> ('a \<times> 'a list) option" where
  "take_first p [] = None"
| "take_first p (x # xs) =
     (if p x then Some (x, xs) else map_option (\<lambda>(y, ys). (y, x # ys)) (take_first p xs))"

text \<open>One round of the loop of \<open>trimEvents\<close>: the first log is dropped, and counted in the summary.\<close>

definition count_removed :: "int \<Rightarrow> retained_event list \<Rightarrow> event_log \<Rightarrow> event_log" where
  "count_removed n rest log =
     (case update_first (\<lambda>x. is_summary (re_event x)) (\<lambda>x. x\<lparr>re_event := add_dropped n (re_event x)\<rparr>) rest of
        Some rest' \<Rightarrow> log\<lparr>el_events := rest'\<rparr>
      | None \<Rightarrow> log\<lparr>el_events := rest, el_dropped := el_dropped log + n\<rparr>)"

lemma take_first_length: "take_first p xs = Some (y, ys) \<Longrightarrow> length xs = Suc (length ys)"
  by (induction xs arbitrary: ys) (auto split: if_splits)

lemma update_first_length: "update_first p f xs = Some ys \<Longrightarrow> length ys = length xs"
  by (induction xs arbitrary: ys) (auto split: if_splits)

lemma count_removed_length [simp]: "length (el_events (count_removed n rest log)) = length rest"
  by (auto simp: count_removed_def update_first_length split: option.splits)

function trim_loop :: "event_log \<Rightarrow> event_log \<times> bool" where
  "trim_loop log =
     (if \<not> over_limit (el_events log) then (log, True)
      else (case take_first (\<lambda>x. is_log (re_event x)) (el_events log) of
          None \<Rightarrow> (log\<lparr>el_events := butlast (el_events log)\<rparr>, False)
        | Some (removed, rest) \<Rightarrow> trim_loop (count_removed (dropped_logs (re_event removed) + 1) rest log)))"
  by pat_completeness auto
termination by (relation "measure (\<lambda>log. length (el_events log))") (auto dest: take_first_length)

declare trim_loop.simps [simp del]

definition trimEvents :: "event_log \<Rightarrow> event_log \<times> bool" where
  "trimEvents log =
     (if 16 < length (filter (\<lambda>x. \<not> is_log (re_event x)) (el_events log)) then
        (log\<lparr>el_events := butlast (el_events log)\<rparr>, False)
      else trim_loop log)"

definition push_event :: "runtime_event \<Rightarrow> event_log \<Rightarrow> event_log" where
  "push_event e log =
     log\<lparr>el_ordinal := el_ordinal log + 1,
         el_events := el_events log @ [\<lparr>re_ordinal = el_ordinal log + 1, re_event = e\<rparr>]\<rparr>"

definition flushDroppedLogs :: "event_log \<Rightarrow> event_log \<times> bool" where
  "flushDroppedLogs log =
     (if el_dropped log < 1 then (log, True)
      else trimEvents ((push_event (LogEvent TRUNCATED_LOG_MESSAGE (Some (el_dropped log))) log)
             \<lparr>el_dropped := 0\<rparr>))"

definition append_retained :: "runtime_event \<Rightarrow> event_log \<Rightarrow> event_log \<times> bool" where
  "append_retained e log =
     (if is_log e \<and> 0 < el_dropped log then
        trimEvents (push_event (add_dropped (el_dropped log) e) (log\<lparr>el_dropped := 0\<rparr>))
      else trimEvents (push_event e log))"

definition appendEvent :: "event_log \<Rightarrow> runtime_event \<Rightarrow> event_log \<times> bool" where
  "appendEvent log e =
     (case e of
        CompletedEvent _ \<Rightarrow>
          (case flushDroppedLogs log of (log', ok) \<Rightarrow> if ok then append_retained e log' else (log', False))
      | _ \<Rightarrow> append_retained e log)"

text \<open>The observations after a cursor, and the next cursor (the \<open>events\<close> operation of \<open>dispatch\<close>).\<close>

definition events_after :: "int \<Rightarrow> event_log \<Rightarrow> retained_event list" where
  "events_after cursor log = filter (\<lambda>x. cursor < re_ordinal x) (el_events log)"

definition next_cursor :: "int \<Rightarrow> event_log \<Rightarrow> int" where
  "next_cursor cursor log =
     (case last_opt (events_after cursor log) of None \<Rightarrow> cursor | Some x \<Rightarrow> re_ordinal x)"

text \<open>Several observations, up to the first that is refused.\<close>

fun append_all :: "event_log \<Rightarrow> runtime_event list \<Rightarrow> event_log \<times> bool" where
  "append_all log [] = (log, True)"
| "append_all log (e # es) = (case appendEvent log e of (log', ok) \<Rightarrow> if ok then append_all log' es else (log', False))"

section \<open>What a log stands for\<close>

text \<open>A log line stands for itself and for the lines dropped before it.\<close>

definition weight :: "runtime_event \<Rightarrow> int" where
  "weight e = (if is_log e then 1 + dropped_logs e else 0)"

definition log_weight :: "event_log \<Rightarrow> int" where
  "log_weight log = sum_list (map (\<lambda>x. weight (re_event x)) (el_events log)) + el_dropped log"

definition required :: "event_log \<Rightarrow> runtime_event list" where
  "required log = filter (\<lambda>e. \<not> is_log e) (map re_event (el_events log))"

text \<open>The invariant of the retained events: their ordinals increase, and every count is positive.\<close>

fun sound_event :: "runtime_event \<Rightarrow> bool" where
  "sound_event (LogEvent _ d) = pred_option (\<lambda>n. 1 \<le> n) d"
| "sound_event e = valid_observation e"

lemma sound_event_simps [simp]:
  "sound_event e \<Longrightarrow> 0 \<le> dropped_logs e"
  "sound_event e \<Longrightarrow> 1 \<le> n \<Longrightarrow> sound_event (add_dropped n e)"
  by (cases e; auto split: option.splits)+

lemma valid_sound_event: "valid_observation e \<Longrightarrow> sound_event e"
  by (cases e) (auto simp: positive_int_def elim!: option.pred_mono_strong)

definition ordered_log :: "event_log \<Rightarrow> bool" where
  "ordered_log log \<longleftrightarrow>
     sorted_wrt (<) (map re_ordinal (el_events log)) \<and>
     list_all (\<lambda>x. 0 < re_ordinal x \<and> re_ordinal x \<le> el_ordinal log) (el_events log) \<and>
     list_all (\<lambda>x. sound_event (re_event x)) (el_events log) \<and> 0 \<le> el_dropped log \<and> 0 \<le> el_ordinal log"

definition bounded_log :: "event_log \<Rightarrow> bool" where
  "bounded_log log \<longleftrightarrow>
     length (el_events log) \<le> 256 \<and> length (required log) \<le> 16 \<and>
     retained_bytes (el_events log) \<le> EXECUTION_SOCKET_FRAME_MAX_BYTES div 2"

lemma weight_simps [simp]:
  "is_log e \<Longrightarrow> weight (add_dropped n e) = weight e + n"
  "is_summary e \<Longrightarrow> is_log e" "is_log (add_dropped n e) = is_log e"
  "\<not> is_log e \<Longrightarrow> weight e = 0"
  by (cases e; simp add: weight_def)+


section \<open>Trimming\<close>

lemma take_first_split:
  "take_first p xs = Some (y, ys) \<Longrightarrow> \<exists>as bs. xs = as @ y # bs \<and> ys = as @ bs \<and> p y"
proof (induction xs arbitrary: ys)
  case (Cons x xs)
  show ?case
  proof (cases "p x")
    case True
    with Cons.prems have "x # xs = [] @ y # xs \<and> ys = [] @ xs \<and> p y" by simp
    then show ?thesis by blast
  next
    case False
    with Cons.prems obtain zs where zs: "take_first p xs = Some (y, zs)" "ys = x # zs" by auto
    from Cons.IH [OF zs(1)] zs(2) show ?thesis by (metis append_Cons)
  qed
qed simp

lemma take_first_None: "take_first p xs = None \<longleftrightarrow> list_all (\<lambda>x. \<not> p x) xs"
  by (induction xs) auto

lemma update_first_split:
  "update_first p f xs = Some ys \<Longrightarrow> \<exists>as x bs. xs = as @ x # bs \<and> ys = as @ f x # bs \<and> p x"
proof (induction xs arbitrary: ys)
  case (Cons x xs)
  show ?case
  proof (cases "p x")
    case True
    with Cons.prems have "x # xs = [] @ x # xs \<and> ys = [] @ f x # xs \<and> p x" by simp
    then show ?thesis by blast
  next
    case False
    with Cons.prems obtain zs where zs: "update_first p f xs = Some zs" "ys = x # zs" by auto
    from Cons.IH [OF zs(1)] zs(2) show ?thesis by (metis append_Cons)
  qed
qed simp

text \<open>Counting a removed line keeps the weight, the required events and the order of the ordinals.\<close>

lemma count_removed_effect:
  assumes "el_events log = as @ x # bs" and "is_log (re_event x)"
  defines "log' \<equiv> count_removed (dropped_logs (re_event x) + 1) (as @ bs) log"
  shows "log_weight log' = log_weight log" and "required log' = required log"
    and "el_ordinal log' = el_ordinal log" and "ordered_log log \<Longrightarrow> ordered_log log'"
proof -
  let ?n = "dropped_logs (re_event x) + 1"
  let ?f = "\<lambda>x. x\<lparr>re_event := add_dropped ?n (re_event x)\<rparr>"
  have x: "weight (re_event x) = ?n" using assms(2) by (simp add: weight_def)
  have "log_weight log' = log_weight log \<and> required log' = required log \<and>
      el_ordinal log' = el_ordinal log \<and> (ordered_log log \<longrightarrow> ordered_log log')"
  proof (cases "update_first (\<lambda>x. is_summary (re_event x)) ?f (as @ bs)")
    case None
    then have log': "log' = log\<lparr>el_events := as @ bs, el_dropped := el_dropped log + ?n\<rparr>"
      by (simp add: log'_def count_removed_def)
    show "log_weight log' = log_weight log \<and> required log' = required log \<and>
        el_ordinal log' = el_ordinal log \<and> (ordered_log log \<longrightarrow> ordered_log log')"
      using x assms(1,2) by (auto simp: log' log_weight_def required_def ordered_log_def sorted_wrt_append)
  next
    case (Some ys)
    then obtain cs s ds where s: "as @ bs = cs @ s # ds" "ys = cs @ ?f s # ds" "is_summary (re_event s)"
      using update_first_split by fast
    have log': "log' = log\<lparr>el_events := ys\<rparr>"
      using Some by (simp add: log'_def count_removed_def)
    have sum: "sum_list (map (\<lambda>x. weight (re_event x)) ys) =
        sum_list (map (\<lambda>x. weight (re_event x)) (as @ bs)) + ?n"
      unfolding s(1) s(2) using s(3) by simp
    have req: "filter (\<lambda>e. \<not> is_log e) (map re_event ys) = filter (\<lambda>e. \<not> is_log e) (map re_event (as @ bs))"
      unfolding s(1) s(2) using s(3) by simp
    have ords: "map re_ordinal ys = map re_ordinal (as @ bs)"
      unfolding s(1) s(2) by simp
    have ok: "list_all (\<lambda>x. 0 < re_ordinal x \<and> re_ordinal x \<le> el_ordinal log) ys" 
      "list_all (\<lambda>x. sound_event (re_event x)) ys"
      if "ordered_log log"
    proof -
      have "list_all (\<lambda>x. 0 < re_ordinal x \<and> re_ordinal x \<le> el_ordinal log) (as @ bs)"
        "list_all (\<lambda>x. sound_event (re_event x)) (as @ bs)" "sound_event (re_event x)"
        using that assms(1) by (auto simp: ordered_log_def)
      then show "list_all (\<lambda>x. 0 < re_ordinal x \<and> re_ordinal x \<le> el_ordinal log) ys" 
        "list_all (\<lambda>x. sound_event (re_event x)) ys"
        unfolding s(1) s(2) by simp_all
    qed
    show "log_weight log' = log_weight log \<and> required log' = required log \<and>
        el_ordinal log' = el_ordinal log \<and> (ordered_log log \<longrightarrow> ordered_log log')"
      using x assms(1,2) sum req ords ok
      by (auto simp: log' log_weight_def required_def ordered_log_def sorted_wrt_append)
  qed
  then show "log_weight log' = log_weight log" "required log' = required log"
    "el_ordinal log' = el_ordinal log" "ordered_log log \<Longrightarrow> ordered_log log'" by simp_all
qed

lemma ordered_butlast: "ordered_log log \<Longrightarrow> ordered_log (log\<lparr>el_events := butlast (el_events log)\<rparr>)"
  by (cases "el_events log" rule: rev_cases) (auto simp: ordered_log_def sorted_wrt_append)

lemma trim_loop_effect:
  assumes "trim_loop log = (log', ok)"
  shows "log_weight log' = log_weight log" and "el_ordinal log' = el_ordinal log"
    and "required log' = (if ok then required log else butlast (required log))"
    and "ok \<Longrightarrow> \<not> over_limit (el_events log')"
    and "ordered_log log \<Longrightarrow> ordered_log log'"
proof -
  have "log_weight log' = log_weight log \<and> el_ordinal log' = el_ordinal log \<and>
      required log' = (if ok then required log else butlast (required log)) \<and>
      (ok \<longrightarrow> \<not> over_limit (el_events log')) \<and> (ordered_log log \<longrightarrow> ordered_log log')"
    using assms
  proof (induction log rule: trim_loop.induct)
    case (1 log)
    show ?case
    proof (cases "over_limit (el_events log)")
      case False
      with 1(2) show ?thesis by (subst (asm) trim_loop.simps) auto
    next
      case over: True
      show ?thesis
      proof (cases "take_first (\<lambda>x. is_log (re_event x)) (el_events log)")
        case None
        with 1(2) over have log': "log' = log\<lparr>el_events := butlast (el_events log)\<rparr>" "\<not> ok"
          by (subst (asm) trim_loop.simps, simp)+
        have none: "list_all (\<lambda>x. \<not> is_log (re_event x)) (el_events log)"
          using None by (simp add: take_first_None)
        then have req: "required log = map re_event (el_events log)"
          by (simp add: required_def filter_map comp_def list_all_iff)
        have "list_all (\<lambda>x. \<not> is_log (re_event x)) (butlast (el_events log))"
          using none by (auto simp: list_all_iff dest: in_set_butlastD)
        then have req': "required log' = map re_event (butlast (el_events log))"
          by (simp add: log' required_def filter_map comp_def list_all_iff)
        have "log_weight log' = log_weight log"
          using none by (cases "el_events log" rule: rev_cases) (auto simp: log' log_weight_def)
        then show ?thesis
          using log'(2) ordered_butlast [of log] unfolding req req' by (simp add: map_butlast log'(1))
      next
        case (Some r)
        obtain x rest where r: "r = (x, rest)" by (cases r)
        from take_first_split Some r obtain as bs
          where split: "el_events log = as @ x # bs" "rest = as @ bs" "is_log (re_event x)" by fast
        let ?log = "count_removed (dropped_logs (re_event x) + 1) rest log"
        from 1(2) over Some r have "trim_loop ?log = (log', ok)"
          by (subst (asm) trim_loop.simps) simp
        with 1(1) over Some r have IH: "log_weight log' = log_weight ?log \<and> el_ordinal log' = el_ordinal ?log \<and>
            required log' = (if ok then required ?log else butlast (required ?log)) \<and>
            (ok \<longrightarrow> \<not> over_limit (el_events log')) \<and> (ordered_log ?log \<longrightarrow> ordered_log log')"
          by simp
        with count_removed_effect [OF split(1,3)] split(2) show ?thesis by simp
      qed
    qed
  qed
  then show "log_weight log' = log_weight log" "el_ordinal log' = el_ordinal log"
    "required log' = (if ok then required log else butlast (required log))"
    "ok \<Longrightarrow> \<not> over_limit (el_events log')" "ordered_log log \<Longrightarrow> ordered_log log'"
    by simp_all
qed


text \<open>\<open>trimEvents\<close> after an event was pushed.\<close>

lemma trimEvents_ok:
  assumes "trimEvents log = (log', True)"
  shows "log_weight log' = log_weight log" and "required log' = required log"
    and "el_ordinal log' = el_ordinal log" and "bounded_log log'" and "ordered_log log \<Longrightarrow> ordered_log log'"
proof -
  from assms have few: "length (required log) \<le> 16" and "trim_loop log = (log', True)"
    by (auto simp: trimEvents_def required_def filter_map comp_def split: if_splits)
  note loop = trim_loop_effect [OF this(2)]
  from loop few show "log_weight log' = log_weight log" "required log' = required log"
    "el_ordinal log' = el_ordinal log" "ordered_log log \<Longrightarrow> ordered_log log'" by simp_all
  from loop few show "bounded_log log'" by (simp add: bounded_log_def over_limit_def)
qed

lemma list_all_butlast: "list_all p xs \<Longrightarrow> list_all p (butlast xs)"
  by (cases xs rule: rev_cases) simp_all

lemma trim_loop_required:
  assumes "trim_loop log = (log', False)"
  shows "length (el_events log') \<le> length (required log)"
proof -
  have "list_all (\<lambda>x. \<not> is_log (re_event x)) (el_events log')"
    using assms
  proof (induction log rule: trim_loop.induct)
    case (1 log)
    then show ?case
      by (subst (asm) (2) trim_loop.simps)
        (auto simp: take_first_None list_all_butlast split: if_splits option.splits)
  qed
  then have "length (el_events log') = length (required log')"
    by (simp add: required_def filter_map comp_def list_all_iff)
  with trim_loop_effect(3) [OF assms] show ?thesis by simp
qed

lemma trimEvents_ordered:
  assumes "trimEvents log = (log', ok)" and "ordered_log log"
  shows "ordered_log log'"
  using assms trim_loop_effect(5) [of log log' ok] ordered_butlast [of log]
  by (auto simp: trimEvents_def split: if_splits)

lemma trimEvents_length:
  assumes "trimEvents log = (log', ok)" and "length (el_events log) \<le> 257"
  shows "length (el_events log') \<le> 256"
proof (cases ok)
  case True
  with assms trimEvents_ok(4) show ?thesis by (auto simp: bounded_log_def)
next
  case False
  show ?thesis
  proof (cases "16 < length (filter (\<lambda>x. \<not> is_log (re_event x)) (el_events log))")
    case True
    with assms show ?thesis by (auto simp: trimEvents_def)
  next
    case few: False
    with assms False have "trim_loop log = (log', False)" by (simp add: trimEvents_def)
    with trim_loop_required few show ?thesis
      by (fastforce simp: required_def filter_map comp_def)
  qed
qed

section \<open>Appending\<close>

lemma push_event_simps [simp]:
  "log_weight (push_event e log) = log_weight log + weight e"
  "required (push_event e log) = required log @ (if is_log e then [] else [e])"
  "el_ordinal (push_event e log) = el_ordinal log + 1"
  "length (el_events (push_event e log)) = length (el_events log) + 1"
  "el_dropped (push_event e log) = el_dropped log"
  by (simp_all add: push_event_def log_weight_def required_def)

lemma log_weight_dropped: "log_weight (log\<lparr>el_dropped := n\<rparr>) = log_weight log - el_dropped log + n"
  by (simp add: log_weight_def)

lemma ordered_push: "ordered_log log \<Longrightarrow> sound_event e \<Longrightarrow> ordered_log (push_event e log)"
  by (force simp: ordered_log_def push_event_def sorted_wrt_append list_all_iff)

lemma ordered_dropped: "ordered_log log \<Longrightarrow> 0 \<le> n \<Longrightarrow> ordered_log (log\<lparr>el_dropped := n\<rparr>)"
  by (simp add: ordered_log_def)

lemma required_dropped [simp]:
  "required (log\<lparr>el_dropped := n\<rparr>) = required log" "el_ordinal (log\<lparr>el_dropped := n\<rparr>) = el_ordinal log"
  by (simp_all add: required_def)

text \<open>Ordered and of bounded length: what holds after every operation, whether it returns or throws.\<close>

definition sound_log :: "event_log \<Rightarrow> bool" where
  "sound_log log \<longleftrightarrow> ordered_log log \<and> length (el_events log) \<le> 256"

lemma sound_trim:
  "trimEvents (push_event e log) = (log', ok) \<Longrightarrow> sound_log log \<Longrightarrow> sound_event e \<Longrightarrow> sound_log log'"
  unfolding sound_log_def using trimEvents_ordered trimEvents_length ordered_push by fastforce

lemma flush_sound: "flushDroppedLogs log = (log', ok) \<Longrightarrow> sound_log log \<Longrightarrow> sound_log log'"
proof -
  assume a: "flushDroppedLogs log = (log', ok)" "sound_log log"
  have same: "(push_event e log)\<lparr>el_dropped := 0\<rparr> = push_event e (log\<lparr>el_dropped := 0\<rparr>)" for e
    by (simp add: push_event_def)
  have "sound_log (log\<lparr>el_dropped := 0\<rparr>)" using a(2) by (simp add: sound_log_def ordered_dropped)
  with a sound_trim show ?thesis
    unfolding flushDroppedLogs_def same by (fastforce split: if_splits)
qed

lemma append_retained_sound:
  assumes "append_retained e log = (log', ok)" and "sound_log log" and "sound_event e"
  shows "sound_log log'"
proof -
  have "sound_log (log\<lparr>el_dropped := 0\<rparr>)" using assms(2) by (simp add: sound_log_def ordered_dropped)
  with assms sound_trim [of _ log] sound_trim [of _ "log\<lparr>el_dropped := 0\<rparr>"] show ?thesis
    by (auto simp: append_retained_def split: if_splits)
qed

lemma append_sound: "appendEvent log e = (log', ok) \<Longrightarrow> sound_log log \<Longrightarrow> sound_event e \<Longrightarrow> sound_log log'"
  by (auto simp: appendEvent_def intro: append_retained_sound flush_sound
      split: runtime_event.splits prod.splits if_splits)

lemma flush_ok:
  assumes "flushDroppedLogs log = (log', True)"
  shows "log_weight log' = log_weight log + (if el_dropped log < 1 then 0 else 1)"
    and "required log' = required log" and "bounded_log log \<Longrightarrow> bounded_log log'"
proof -
  show "log_weight log' = log_weight log + (if el_dropped log < 1 then 0 else 1)" "required log' = required log"
    "bounded_log log \<Longrightarrow> bounded_log log'"
    using assms trimEvents_ok(1,2,4)
    by (fastforce simp: flushDroppedLogs_def log_weight_dropped weight_def split: if_splits)+
qed

lemma append_retained_ok:
  assumes "append_retained e log = (log', True)"
  shows "log_weight log' = log_weight log + weight e"
    and "required log' = required log @ (if is_log e then [] else [e])" and "bounded_log log'"
  using assms trimEvents_ok(1,2,4)
  by (fastforce simp: append_retained_def log_weight_dropped split: if_splits)+

text \<open>An accepted observation: required ones are all kept, and a log line is kept or counted.\<close>

definition flushes :: "event_log \<Rightarrow> runtime_event \<Rightarrow> int" where
  "flushes log e = (case e of CompletedEvent _ \<Rightarrow> if el_dropped log < 1 then 0 else 1 | _ \<Rightarrow> 0)"

lemma append_ok:
  assumes "appendEvent log e = (log', True)"
  shows "log_weight log' = log_weight log + weight e + flushes log e"
    and "required log' = required log @ (if is_log e then [] else [e])" and "bounded_log log'"
proof -
  have "log_weight log' = log_weight log + weight e + flushes log e \<and>
      required log' = required log @ (if is_log e then [] else [e]) \<and> bounded_log log'"
  proof (cases e)
    case (CompletedEvent st)
    with assms obtain log1 where "flushDroppedLogs log = (log1, True)" "append_retained e log1 = (log', True)"
      by (auto simp: appendEvent_def split: prod.splits if_splits)
    with flush_ok append_retained_ok CompletedEvent show ?thesis by (simp add: flushes_def)
  qed (use assms append_retained_ok in \<open>simp_all add: appendEvent_def flushes_def\<close>)
  then show "log_weight log' = log_weight log + weight e + flushes log e"
    "required log' = required log @ (if is_log e then [] else [e])" "bounded_log log'" by simp_all
qed

definition is_completed :: "runtime_event \<Rightarrow> bool" where
  "is_completed e = (case e of CompletedEvent _ \<Rightarrow> True | _ \<Rightarrow> False)"

lemma flushes_bounds: "0 \<le> flushes log e" "flushes log e \<le> (if is_completed e then 1 else 0)"
  by (cases e; simp add: flushes_def is_completed_def)+

lemma append_all_ok:
  assumes "append_all log es = (log', True)"
  shows "required log' = required log @ filter (\<lambda>e. \<not> is_log e) es"
    and "log_weight log + sum_list (map weight es) \<le> log_weight log'"
    and "log_weight log' \<le> log_weight log + sum_list (map weight es) + int (length (filter is_completed es))"
    and "bounded_log log \<Longrightarrow> bounded_log log'"
proof -
  have "required log' = required log @ filter (\<lambda>e. \<not> is_log e) es \<and>
      log_weight log + sum_list (map weight es) \<le> log_weight log' \<and>
      log_weight log' \<le> log_weight log + sum_list (map weight es) + int (length (filter is_completed es)) \<and>
      (bounded_log log \<longrightarrow> bounded_log log')"
    using assms
  proof (induction es arbitrary: log)
    case (Cons e es)
    then obtain log1 where log1: "appendEvent log e = (log1, True)" "append_all log1 es = (log', True)"
      by (auto split: prod.splits if_splits)
    from Cons.IH [OF log1(2)] append_ok [OF log1(1)] flushes_bounds [of log e] show ?case
      by (auto split: if_splits)
  qed simp
  then show "required log' = required log @ filter (\<lambda>e. \<not> is_log e) es"
    "log_weight log + sum_list (map weight es) \<le> log_weight log'"
    "log_weight log' \<le> log_weight log + sum_list (map weight es) + int (length (filter is_completed es))"
    "bounded_log log \<Longrightarrow> bounded_log log'" by simp_all
qed

lemma append_all_sound:
  "append_all log es = (log', ok) \<Longrightarrow> sound_log log \<Longrightarrow> list_all sound_event es \<Longrightarrow> sound_log log'"
  by (induction es arbitrary: log) (auto dest: append_sound split: prod.splits if_splits)

lemma sound_empty_log [simp]: "sound_log empty_log" "bounded_log empty_log" "required empty_log = []"
  "log_weight empty_log = 0"
  by (simp_all add: empty_log_def sound_log_def ordered_log_def bounded_log_def required_def log_weight_def
      retained_bytes_def text_of_def byte_length_def EXECUTION_SOCKET_FRAME_MAX_BYTES_def)

end
