(* ===== verification/Supervisor_Settlement.thy ===== *)
theory Supervisor_Settlement
  imports Supervisor_Events
begin

text \<open>
  How a supervisor settles an execution (\<open>settleExecution\<close>, \<open>publishTerminal\<close> and their helpers in
  \<open>execution-host/src/supervisor.ts\<close>): the frames of the runtime host become observations and one
  result, and the result becomes the terminal record.
\<close>

section \<open>Fallback results\<close>

definition failureResult :: execution_result where
  "failureResult = FailedResult
     \<lparr>f_category = RuntimeUnavailable, f_message = ''Execution host could not confirm worker cleanup''\<rparr>"

definition emptyCommandFailure :: "string \<Rightarrow> command_execution" where
  "emptyCommandFailure msg =
     \<lparr>ce_output = \<lparr>cr_passed = False, cr_exitCode = None, cr_signal = None, cr_durationMs = 0,
        cr_stdoutBytes = 0, cr_stderrBytes = 0, cr_stdoutTruncated = False, cr_stderrTruncated = False\<rparr>,
      ce_stdout = [], ce_stderr = [],
      ce_failure = Some \<lparr>f_category = RuntimeUnavailable, f_message = msg\<rparr>\<rparr>"

definition fallback_result :: "execution_kind \<Rightarrow> string \<Rightarrow> terminal_result" where
  "fallback_result k msg =
     (case k of
        RuntimeKind \<Rightarrow> RuntimeTerminal failureResult
      | CommandKind \<Rightarrow> CommandTerminal (commandExecutionToRecord (emptyCommandFailure msg)))"

definition cancelled_result :: "execution_kind \<Rightarrow> terminal_result" where
  "cancelled_result k =
     (case k of
        RuntimeKind \<Rightarrow> RuntimeTerminal (CancelledResult ''Execution cancelled before authorization'')
      | CommandKind \<Rightarrow> CommandTerminal (commandExecutionToRecord
          (emptyCommandFailure ''Command cancelled before authorization'')))"

section \<open>The terminal record\<close>

definition terminalOutcome :: "bool \<Rightarrow> terminal_result \<Rightarrow> result_status" where
  "terminalOutcome terminationRequested r =
     (if terminationRequested then ResCancelled
      else case r of
          CommandTerminal c \<Rightarrow> if cr_passed (sz_output c) then ResSucceeded else ResFailed
        | RuntimeTerminal x \<Rightarrow> result_status_of x)"

definition fits_terminal :: "execution_terminal \<Rightarrow> bool" where
  "fits_terminal t \<longleftrightarrow> length (record_bytes (terminal_js t)) \<le> EXECUTION_TERMINAL_MAX_BYTES"

definition compact_result :: "terminal_result \<Rightarrow> terminal_result" where
  "compact_result r =
     (case r of
        RuntimeTerminal _ \<Rightarrow> RuntimeTerminal (FailedResult \<lparr>f_category = SchemaViolation,
          f_message = ''Normalized execution result exceeded the terminal evidence limit''\<rparr>)
      | CommandTerminal c \<Rightarrow> CommandTerminal (commandExecutionToRecord
          ((emptyCommandFailure ''Command result exceeded the terminal evidence limit'')
             \<lparr>ce_output := (sz_output c)\<lparr>cr_passed := False,
                 cr_stdoutTruncated := 0 < cr_stdoutBytes (sz_output c),
                 cr_stderrTruncated := 0 < cr_stderrBytes (sz_output c)\<rparr>,
              ce_failure := Some \<lparr>f_category = SchemaViolation,
                f_message = ''Command result exceeded the terminal evidence limit''\<rparr>\<rparr>)))"

definition boundedTerminal :: "bool \<Rightarrow> execution_terminal \<Rightarrow> execution_terminal" where
  "boundedTerminal terminationRequested t =
     (if fits_terminal t then t
      else
        let result = compact_result (tm_result t);
            compact = t\<lparr>tm_outcome := terminalOutcome terminationRequested result,
              tm_events := filter (\<lambda>e. \<not> is_log e) (tm_events t), tm_result := result\<rparr>
        in if fits_terminal compact then compact else compact\<lparr>tm_events := []\<rparr>)"

text \<open>The value that \<open>publishTerminal\<close> writes, if it can be made.\<close>

definition terminal_value :: "execution_plan_ref \<Rightarrow> bool \<Rightarrow> event_log \<Rightarrow> terminal_result \<Rightarrow> cleanup_outcome \<Rightarrow>
    event_log \<times> execution_terminal option" where
  "terminal_value plan terminationRequested log result cleanup =
     (case flushDroppedLogs log of
        (log', ok) \<Rightarrow>
          (log', if ok then Some (boundedTerminal terminationRequested
             \<lparr>tm_executionId = ex_executionId plan, tm_generation = ex_generation plan,
              tm_outcome = terminalOutcome terminationRequested result,
              tm_events = map re_event (el_events log'), tm_result = result, tm_cleanup = cleanup\<rparr>)
           else None))"

section \<open>The output of the runtime host\<close>

definition settle_value :: "event_log \<times> terminal_result option \<Rightarrow> js \<Rightarrow>
    (event_log \<times> terminal_result option) \<times> bool" where
  "settle_value s v =
     (case assertRuntimeHostOutput v of
        None \<Rightarrow> (s, False)
      | Some (EventOutput e) \<Rightarrow> (case appendEvent (fst s) e of (log, ok) \<Rightarrow> ((log, snd s), ok))
      | Some (RuntimeResult r) \<Rightarrow>
          if snd s \<noteq> None then (s, False) else ((fst s, Some (RuntimeTerminal r)), True)
      | Some (CommandResult c) \<Rightarrow>
          if snd s \<noteq> None then (s, False) else ((fst s, Some (CommandTerminal c)), True))"

fun settle_values :: "event_log \<times> terminal_result option \<Rightarrow> js list \<Rightarrow>
    (event_log \<times> terminal_result option) \<times> bool" where
  "settle_values s [] = (s, True)"
| "settle_values s (v # vs) = (case settle_value s v of (s', ok) \<Rightarrow> if ok then settle_values s' vs else (s', False))"

text \<open>One chunk: all its frames are decoded before the first of them counts.\<close>

definition settle_chunk :: "string \<Rightarrow> event_log \<times> terminal_result option \<Rightarrow> string \<Rightarrow>
    string \<times> (event_log \<times> terminal_result option) \<times> bool" where
  "settle_chunk buffer s chunk =
     (case decoder_push EXECUTION_LAUNCH_FRAME_MAX_BYTES buffer chunk of
        Inl _ \<Rightarrow> (buffer, s, False)
      | Inr (vs, rest) \<Rightarrow> (rest, settle_values s vs))"

fun settle_chunks :: "string \<Rightarrow> event_log \<times> terminal_result option \<Rightarrow> string list \<Rightarrow>
    string \<times> (event_log \<times> terminal_result option) \<times> bool" where
  "settle_chunks buffer s [] = (buffer, s, True)"
| "settle_chunks buffer s (chunk # chunks) =
     (case settle_chunk buffer s chunk of
        (rest, s', ok) \<Rightarrow> if ok then settle_chunks rest s' chunks else (rest, s', False))"

definition settle_stream :: "event_log \<Rightarrow> string list \<Rightarrow> (event_log \<times> terminal_result option) \<times> bool" where
  "settle_stream log chunks =
     (case settle_chunks [] (log, None) chunks of
        (rest, s, ok) \<Rightarrow> (s, ok \<and> decoder_finish rest = Inr ()))"

text \<open>The result that counts, and whether the cleanup is confirmed.\<close>

definition settled_result :: "bool \<Rightarrow> int option \<Rightarrow> terminal_result option \<Rightarrow> terminal_result option" where
  "settled_result streamValid exitCode result =
     (if \<not> streamValid \<or> exitCode \<noteq> Some 0 then None else result)"

definition settled_cleanup :: "bool \<Rightarrow> int option \<Rightarrow> terminal_result option \<Rightarrow> bool \<Rightarrow> cleanup_outcome" where
  "settled_cleanup streamValid exitCode result groupEmpty =
     (if streamValid \<and> result \<noteq> None \<and> exitCode = Some 0 \<and> groupEmpty then ConfirmedCleanup
      else UnknownCleanup)"

section \<open>A stream is its frames\<close>

lemma settle_values_append:
  "settle_values s (vs @ ws) =
     (case settle_values s vs of (s', ok) \<Rightarrow> if ok then settle_values s' ws else (s', False))"
  by (induction vs arbitrary: s) (auto split: prod.splits)

lemma settle_chunks_bytes:
  assumes "take_frames EXECUTION_LAUNCH_FRAME_MAX_BYTES (buffer @ concat chunks) = Inr (vs, rest)"
    and "take_frames EXECUTION_LAUNCH_FRAME_MAX_BYTES buffer = Inr ([], buffer)"
    and "settle_values s vs = (s', True)"
  shows "settle_chunks buffer s chunks = (rest, s', True)"
  using assms
proof (induction chunks arbitrary: buffer s vs)
  case (Cons c cs)
  let ?frames = "take_frames EXECUTION_LAUNCH_FRAME_MAX_BYTES"
  from Cons.prems(1) have "?frames ((buffer @ c) @ concat cs) = Inr (vs, rest)" by simp
  then obtain us buffer' ws where us: "?frames (buffer @ c) = Inr (us, buffer')"
    and ws: "?frames (buffer' @ concat cs) = Inr (ws, rest)" and vs: "vs = us @ ws"
    by (rule take_frames_split)
  from Cons.prems(3) obtain s1 where s1: "settle_values s us = (s1, True)" "settle_values s1 ws = (s', True)"
    by (auto simp: vs settle_values_append split: prod.splits if_splits)
  from Cons.IH [OF ws take_frames_left [OF us] s1(2)] us s1(1) show ?case
    by (simp add: settle_chunk_def decoder_push_frames)
qed simp


lemma settle_stream_bytes:
  assumes "take_frames EXECUTION_LAUNCH_FRAME_MAX_BYTES (concat chunks) = Inr (vs, [])"
    and "settle_values (log, None) vs = (s, True)"
  shows "settle_stream log chunks = (s, True)"
  using settle_chunks_bytes [of "[]" chunks vs "[]" "(log, None)" s] assms
  by (simp add: settle_stream_def decoder_finish_def)

section \<open>What a well-behaved host leaves behind\<close>

fun output_events :: "host_output list \<Rightarrow> runtime_event list" where
  "output_events [] = []"
| "output_events (EventOutput e # xs) = e # output_events xs"
| "output_events (_ # xs) = output_events xs"

fun output_results :: "host_output list \<Rightarrow> terminal_result list" where
  "output_results [] = []"
| "output_results (EventOutput _ # xs) = output_results xs"
| "output_results (RuntimeResult r # xs) = RuntimeTerminal r # output_results xs"
| "output_results (CommandResult c # xs) = CommandTerminal c # output_results xs"

lemma settle_outputs:
  assumes "list_all valid_output xs" and "append_all log (output_events xs) = (log', True)"
    and "length (output_results xs) \<le> (if r = None then 1 else 0)"
  shows "settle_values (log, r) (map (\<lambda>x. canonical_order (output_js x)) xs) =
    ((log', if r = None then map_option canonical_terminal_result (last_opt (output_results xs)) else r), True)"
  using assms
proof (induction xs arbitrary: log r)
  case (Cons x xs)
  then have reads: "assertRuntimeHostOutput (canonical_order (output_js x)) = Some (canonical_output x)"
    by (simp add: host_output_back)
  show ?case
  proof (cases x)
    case (EventOutput e)
    with Cons.prems obtain log1 where "appendEvent log e = (log1, True)"
      "append_all log1 (output_events xs) = (log', True)"
      by (auto split: prod.splits if_splits)
    with Cons reads EventOutput show ?thesis by (simp add: settle_value_def)
  next
    case (RuntimeResult y)
    with Cons.prems have "r = None" "output_results xs = []" by (auto split: if_splits)
    with Cons reads RuntimeResult show ?thesis by (simp add: settle_value_def last_opt_def)
  next
    case (CommandResult y)
    with Cons.prems have "r = None" "output_results xs = []" by (auto split: if_splits)
    with Cons reads CommandResult show ?thesis by (simp add: settle_value_def last_opt_def)
  qed
qed simp

text \<open>The bytes that a host writes: a frame for each output (\<open>emit\<close> in \<open>runtime-host.ts\<close>).\<close>

definition host_bytes :: "host_output list \<Rightarrow> protocol_error + string" where
  "host_bytes xs = encodeFrames EXECUTION_LAUNCH_FRAME_MAX_BYTES (map output_js xs)"

lemma js_distinct_observation [simp]: "js_distinct (observation_js e)"
  by (cases e) (auto simp: metadata_js_def usage_js_def opt_field_def split: option.splits)

lemma js_distinct_output: "valid_output x \<Longrightarrow> js_distinct (output_js x)"
  by (cases x) (auto simp: distinct_result_def serialized_js_def command_report_js_def failure_js_def opt_field_def
      split: option.splits)

lemma settle_host_bytes:
  assumes "host_bytes xs = Inr (concat chunks)" and "list_all valid_output xs"
    and "append_all log (output_events xs) = (log', True)" and "output_results xs = [r]"
  shows "settle_stream log chunks = ((log', Some (canonical_terminal_result r)), True)"
proof (rule settle_stream_bytes)
  have "list_all js_distinct (map output_js xs)"
    using assms(2) by (auto simp: list_all_iff intro: js_distinct_output)
  from take_frames_encoded [OF assms(1) [unfolded host_bytes_def] this]
  show "take_frames EXECUTION_LAUNCH_FRAME_MAX_BYTES (concat chunks) =
      Inr (map (\<lambda>x. canonical_order (output_js x)) xs, [])"
    by (simp add: comp_def)
  show "settle_values (log, None) (map (\<lambda>x. canonical_order (output_js x)) xs) =
      ((log', Some (canonical_terminal_result r)), True)"
    using settle_outputs [OF assms(2,3), of None] assms(4) by (simp add: last_opt_def)
qed

end
