(* ===== verification/Supervisor_Steps.thy ===== *)
theory Supervisor_Steps
  imports Supervisor_Settlement
begin

text \<open>
  The supervisor process (\<open>execution-host/src/supervisor.ts\<close>) as a step relation. Its asynchronous
  functions are suspended at their awaits; a program counter per function says where, and a step resumes
  one of them and runs it to its next await. Between steps the runtime host, the coordinator and the
  file system act. The model starts when the supervisor has published its awaiting-start manifest.
\<close>

section \<open>State\<close>

text \<open>What is fixed for one supervisor: the plan, the manifest but for its state, and the launch input.\<close>

record supervision =
  sn_plan :: execution_plan_ref
  sn_control :: execution_control
  sn_manifest :: execution_manifest
  sn_prepare :: prepare_execution
  sn_sha256 :: "string \<Rightarrow> string"

text \<open>The awaits of \<open>startExecution\<close>; a flag says whether the pending write has replaced its file.\<close>

datatype start_pc =
    StartIdle
  | ReadingAuthority
  | PublishingStarting bool
  | InspectingLeader
  | AwaitingReady
  | PublishingActive bool
  | StartDone
  | CleaningUp
  | AwaitingExit
  | CountingGroup
  | PublishingFailure
  | StartFailed

text \<open>The awaits of \<open>settleExecution\<close>.\<close>

datatype settle_pc =
    NotSettling
  | ReadingOutput string "terminal_result option"
  | AwaitingClose bool "terminal_result option"
  | CountingMembers bool "int option" "terminal_result option"
  | PublishingResult
  | Settled

text \<open>The awaits of a call of \<open>terminateExecution\<close>.\<close>

datatype terminate_pc =
    Killing
  | AwaitingSettlement
  | TerminateAwaitingExit
  | TerminateCounting
  | AwaitingPublication
  | TerminateDone

text \<open>The one publication of a terminal record (\<open>terminalPublication\<close>).\<close>

datatype publication =
    NotPublished
  | WritingTerminal execution_terminal bool
  | WritingManifest execution_terminal bool
  | Published execution_terminal
  | PublicationFailed

text \<open>Requests are served one at a time (\<open>serveNextSocket\<close>).\<close>

datatype serving = NotServing | ServingAuthorize | ServingTerminate terminate_pc

text \<open>
  The supervisor, its files and its worker. \<open>sv_leader\<close> says that \<open>executionLeader\<close> and
  \<open>executionExited\<close>, which are set together, are defined; \<open>wk_members\<close> counts the live processes of
  the leader's group, and \<open>wk_launched\<close> says that the host got its launch input.
\<close>

record supervisor =
  sv_alive :: bool
  sv_state :: manifest_state
  sv_terminal :: "execution_terminal option"
  sv_publication :: publication
  sv_start :: start_pc
  sv_leader :: bool
  sv_settlement :: settle_pc
  sv_requested :: bool
  sv_stopping :: bool
  sv_serving :: serving
  sv_shutdown :: "terminate_pc option"
  sv_closed :: bool
  sv_log :: event_log
  fs_manifest :: "string option"
  fs_terminal :: "string option"
  fs_authority :: "string option"
  wk_spawned :: bool
  wk_launched :: bool
  wk_members :: nat
  wk_exit :: "int option option"

definition manifest_bytes :: "supervision \<Rightarrow> manifest_state \<Rightarrow> string" where
  "manifest_bytes c st = record_bytes (manifest_js ((sn_manifest c)\<lparr>mf_state := st\<rparr>))"

definition terminal_bytes :: "execution_terminal \<Rightarrow> string" where
  "terminal_bytes t = record_bytes (terminal_js t)"

definition awaiting_start :: "supervision \<Rightarrow> supervisor" where
  "awaiting_start c =
     \<lparr>sv_alive = True, sv_state = AwaitingStart, sv_terminal = None, sv_publication = NotPublished,
      sv_start = StartIdle, sv_leader = False, sv_settlement = NotSettling, sv_requested = False,
      sv_stopping = False, sv_serving = NotServing, sv_shutdown = None, sv_closed = False,
      sv_log = empty_log, fs_manifest = Some (manifest_bytes c AwaitingStart), fs_terminal = None,
      fs_authority = None, wk_spawned = False, wk_launched = False, wk_members = 0, wk_exit = None\<rparr>"

section \<open>Publishing\<close>

text \<open>\<open>publishTerminal\<close> up to its first await.\<close>

definition publishTerminal :: "supervision \<Rightarrow> terminal_result \<Rightarrow> cleanup_outcome \<Rightarrow> supervisor \<Rightarrow> supervisor" where
  "publishTerminal c result cleanup s =
     (if sv_terminal s \<noteq> None \<or> sv_publication s \<noteq> NotPublished then s
      else (case terminal_value (sn_plan c) (sv_requested s) (sv_log s) result cleanup of
          (log, None) \<Rightarrow> s\<lparr>sv_log := log, sv_publication := PublicationFailed\<rparr>
        | (log, Some v) \<Rightarrow> s\<lparr>sv_log := log, sv_publication := WritingTerminal v False\<rparr>))"

text \<open>Its caller goes on at once when there is a terminal record, and otherwise when this holds.\<close>

definition publication_settled :: "supervisor \<Rightarrow> bool" where
  "publication_settled s \<longleftrightarrow>
     (case sv_publication s of Published _ \<Rightarrow> True | PublicationFailed \<Rightarrow> True | _ \<Rightarrow> False)"

text \<open>The terminal file is linked if there is none, and then compared.\<close>

definition link_terminal :: "execution_terminal \<Rightarrow> supervisor \<Rightarrow> supervisor" where
  "link_terminal v s =
     s\<lparr>fs_terminal := (case fs_terminal s of None \<Rightarrow> Some (terminal_bytes v) | Some f \<Rightarrow> Some f),
       sv_publication := WritingTerminal v True\<rparr>"

definition terminal_written :: "execution_terminal \<Rightarrow> supervisor \<Rightarrow> supervisor" where
  "terminal_written v s =
     s\<lparr>sv_terminal := Some v, sv_state := TerminalState, sv_publication := WritingManifest v False\<rparr>"

definition manifest_fits :: "supervision \<Rightarrow> manifest_state \<Rightarrow> bool" where
  "manifest_fits c st \<longleftrightarrow> length (manifest_bytes c st) \<le> EXECUTION_PRIVATE_RECORD_MAX_BYTES"

definition replace_manifest :: "supervision \<Rightarrow> manifest_state \<Rightarrow> supervisor \<Rightarrow> supervisor" where
  "replace_manifest c st s = s\<lparr>fs_manifest := Some (manifest_bytes c st)\<rparr>"

section \<open>Starting\<close>

definition fallback :: "supervision \<Rightarrow> string \<Rightarrow> terminal_result" where
  "fallback c msg = fallback_result (ex_kind (sn_plan c)) msg"

text \<open>\<open>startExecution\<close>: its first call runs up to the reading of the authority, others share it.\<close>

definition begin_start :: "supervisor \<Rightarrow> supervisor" where
  "begin_start s =
     (if sv_start s \<noteq> StartIdle then s
      else if sv_state s = ActiveState \<or> sv_state s = TerminalState then s\<lparr>sv_start := StartDone\<rparr>
      else if sv_state s \<noteq> AwaitingStart then s\<lparr>sv_start := StartFailed\<rparr>
      else s\<lparr>sv_start := ReadingAuthority\<rparr>)"

text \<open>\<open>readAuthority\<close>.\<close>

definition readAuthority :: "supervision \<Rightarrow> string option \<Rightarrow> bool" where
  "readAuthority c file =
     (case readRecord EXECUTION_PRIVATE_RECORD_MAX_BYTES assertExecutionStartAuthority file of
        Loaded a \<Rightarrow>
          assertPersistedExecutionRef (sa_execution a) (Some (sn_plan c)) = Inr () \<and>
          ex_manifestDigest (sa_execution a) = executionManifestDigest (sn_sha256 c) (sn_manifest c) \<and>
          sa_capabilityDigest a = mf_capabilityDigest (sn_manifest c) \<and>
          canonicalJson (private_process_js (sa_supervisor a)) =
            canonicalJson (private_process_js (mf_supervisor (sn_manifest c)))
      | _ \<Rightarrow> False)"

definition authority_read :: "supervision \<Rightarrow> supervisor \<Rightarrow> supervisor" where
  "authority_read c s =
     (if readAuthority c (fs_authority s)
      then s\<lparr>sv_state := Starting, sv_start := PublishingStarting False\<rparr>
      else s\<lparr>sv_start := StartFailed\<rparr>)"

text \<open>After the starting manifest: the runtime host is spawned, and has a process identifier or not.\<close>

definition spawn_host :: "bool \<Rightarrow> supervisor \<Rightarrow> supervisor" where
  "spawn_host pid s =
     (if pid then s\<lparr>wk_spawned := True, wk_members := 1, sv_start := InspectingLeader\<rparr>
      else s\<lparr>sv_start := StartFailed\<rparr>)"

definition leader_inspected :: "bool \<Rightarrow> supervisor \<Rightarrow> supervisor" where
  "leader_inspected found s =
     (if found then s\<lparr>sv_leader := True, sv_start := AwaitingReady\<rparr> else s\<lparr>sv_start := StartFailed\<rparr>)"

text \<open>The readiness frame, or that it did not come in time.\<close>

definition ready_ok :: "string list \<Rightarrow> bool" where
  "ready_ok chunks \<longleftrightarrow>
     (case readEndedFrame EXECUTION_READY_FRAME_MAX_BYTES chunks of
        Inl _ \<Rightarrow> False
      | Inr v \<Rightarrow> assertRuntimeHostReady v \<noteq> None)"

definition readiness :: "string list option \<Rightarrow> supervisor \<Rightarrow> supervisor" where
  "readiness chunks s =
     (if case chunks of None \<Rightarrow> False | Some cs \<Rightarrow> ready_ok cs then
        if sv_stopping s then s\<lparr>sv_start := StartFailed\<rparr>
        else s\<lparr>sv_state := ActiveState, sv_start := PublishingActive False\<rparr>
      else s\<lparr>sv_start := CleaningUp\<rparr>)"

definition group_cleanup :: "bool \<Rightarrow> cleanup_outcome" where
  "group_cleanup groupEmpty = (if groupEmpty then ConfirmedCleanup else UnknownCleanup)"

definition failed_ready :: "supervision \<Rightarrow> bool \<Rightarrow> supervisor \<Rightarrow> supervisor" where
  "failed_ready c groupEmpty s =
     (publishTerminal c (fallback c ''Command host failed before launch authorization'')
        (group_cleanup groupEmpty) s)
       \<lparr>sv_start := (if sv_terminal s \<noteq> None then StartFailed else PublishingFailure)\<rparr>"

text \<open>After the active manifest: the settlement begins and the host gets its launch input.\<close>

definition launch_host :: "supervision \<Rightarrow> supervisor \<Rightarrow> supervisor" where
  "launch_host c s =
     (let s' = s\<lparr>sv_settlement := ReadingOutput [] None\<rparr> in
      case encodeFrame EXECUTION_LAUNCH_FRAME_MAX_BYTES (prepare_js (sn_prepare c)) of
        Inl _ \<Rightarrow> s'\<lparr>sv_start := StartFailed\<rparr>
      | Inr _ \<Rightarrow> s'\<lparr>wk_launched := True, sv_start := StartDone\<rparr>)"

section \<open>Settling\<close>

definition output_chunk :: "string \<Rightarrow> terminal_result option \<Rightarrow> string \<Rightarrow> supervisor \<Rightarrow> supervisor" where
  "output_chunk buffer result chunk s =
     (case settle_chunk buffer (sv_log s, result) chunk of
        (rest, (log, result'), ok) \<Rightarrow>
          s\<lparr>sv_log := log,
            sv_settlement := (if ok then ReadingOutput rest result' else AwaitingClose False result')\<rparr>)"

definition output_ended :: "string \<Rightarrow> terminal_result option \<Rightarrow> supervisor \<Rightarrow> supervisor" where
  "output_ended buffer result s =
     s\<lparr>sv_settlement := AwaitingClose (decoder_finish buffer = Inr ()) result\<rparr>"

definition host_closed :: "bool \<Rightarrow> terminal_result option \<Rightarrow> int option \<Rightarrow> supervisor \<Rightarrow> supervisor" where
  "host_closed valid result code s =
     s\<lparr>sv_settlement := CountingMembers valid code (settled_result valid code result)\<rparr>"

definition settle :: "supervision \<Rightarrow> bool \<Rightarrow> int option \<Rightarrow> terminal_result option \<Rightarrow> bool \<Rightarrow>
    supervisor \<Rightarrow> supervisor" where
  "settle c valid code result groupEmpty s =
     (publishTerminal c (case result of None \<Rightarrow> fallback c ''Command host cleanup is unknown'' | Some r \<Rightarrow> r)
        (settled_cleanup valid code result groupEmpty) s)
       \<lparr>sv_settlement := (if sv_terminal s \<noteq> None then Settled else PublishingResult)\<rparr>"

section \<open>Terminating\<close>

text \<open>\<open>terminateExecution\<close> up to its first await.\<close>

definition begin_terminate :: "supervision \<Rightarrow> supervisor \<Rightarrow> supervisor \<times> terminate_pc" where
  "begin_terminate c s =
     (let s' = s\<lparr>sv_requested := True\<rparr> in
      if sv_terminal s \<noteq> None then (s', TerminateDone)
      else if sv_state s = AwaitingStart then
        (publishTerminal c (cancelled_result (ex_kind (sn_plan c))) ConfirmedCleanup s', AwaitingPublication)
      else if \<not> sv_leader s then
        (publishTerminal c (fallback c ''Command cleanup is unknown'') UnknownCleanup s', AwaitingPublication)
      else (s', Killing))"

text \<open>Its continuations: after the kill, after the exit of the host, and after counting its group.\<close>

inductive terminate_step :: "supervision \<Rightarrow> supervisor \<times> terminate_pc \<Rightarrow> supervisor \<times> terminate_pc \<Rightarrow> bool"
  for c where
  killed: "terminate_step c (s, Killing)
     (s, if sv_settlement s \<noteq> NotSettling then AwaitingSettlement else TerminateAwaitingExit)"
| kill_failed: "terminate_step c (s, Killing) (s, TerminateDone)"
| settlement_awaited: "sv_settlement s = Settled \<Longrightarrow> terminate_step c (s, AwaitingSettlement) (s, TerminateDone)"
| exit_awaited: "wk_exit s \<noteq> None \<Longrightarrow> terminate_step c (s, TerminateAwaitingExit) (s, TerminateCounting)"
| group_counted: "sv_leader s \<Longrightarrow> groupEmpty \<longrightarrow> wk_members s = 0 \<Longrightarrow>
    terminate_step c (s, TerminateCounting)
      (publishTerminal c (fallback c ''Command host was terminated'') (group_cleanup groupEmpty) s,
       if sv_terminal s \<noteq> None then TerminateDone else AwaitingPublication)"
| count_failed: "terminate_step c (s, TerminateCounting) (s, TerminateDone)"
| publication_awaited: "publication_settled s \<Longrightarrow> terminate_step c (s, AwaitingPublication) (s, TerminateDone)"

text \<open>\<open>shutdown\<close> up to its first await; without a clean-up it closes the server at once.\<close>

definition begin_shutdown :: "supervision \<Rightarrow> bool \<Rightarrow> supervisor \<Rightarrow> supervisor" where
  "begin_shutdown c clean s =
     (if sv_stopping s then s
      else
        let s' = s\<lparr>sv_stopping := True\<rparr> in
        if clean \<and> sv_terminal s = None then
          (case begin_terminate c s' of (s'', pc) \<Rightarrow> s''\<lparr>sv_shutdown := Some pc\<rparr>)
        else s'\<lparr>sv_closed := True\<rparr>)"

section \<open>Steps\<close>

inductive step :: "supervision \<Rightarrow> supervisor \<Rightarrow> supervisor \<Rightarrow> bool" for c where
\<comment> \<open>authenticated requests (\<open>dispatch\<close>); the others change nothing\<close>
  serve_authorize: "sv_alive s \<Longrightarrow> \<not> sv_closed s \<Longrightarrow> sv_serving s = NotServing \<Longrightarrow>
    step c s ((begin_start s)\<lparr>sv_serving := ServingAuthorize\<rparr>)"
| authorize_answered: "sv_alive s \<Longrightarrow> sv_serving s = ServingAuthorize \<Longrightarrow> sv_start s \<in> {StartDone, StartFailed} \<Longrightarrow>
    step c s (s\<lparr>sv_serving := NotServing\<rparr>)"
| serve_terminate: "sv_alive s \<Longrightarrow> \<not> sv_closed s \<Longrightarrow> sv_serving s = NotServing \<Longrightarrow> begin_terminate c s = (s', pc) \<Longrightarrow>
    step c s (s'\<lparr>sv_serving := ServingTerminate pc\<rparr>)"
| terminate_request: "sv_alive s \<Longrightarrow> sv_serving s = ServingTerminate pc \<Longrightarrow> terminate_step c (s, pc) (s', pc') \<Longrightarrow>
    step c s (s'\<lparr>sv_serving := ServingTerminate pc'\<rparr>)"
| terminate_answered: "sv_alive s \<Longrightarrow> sv_serving s = ServingTerminate TerminateDone \<Longrightarrow>
    step c s (s\<lparr>sv_serving := NotServing\<rparr>)"
| serve_release: "sv_alive s \<Longrightarrow> \<not> sv_closed s \<Longrightarrow> sv_serving s = NotServing \<Longrightarrow> sv_terminal s \<noteq> None \<Longrightarrow>
    step c s (begin_shutdown c False s)"
\<comment> \<open>the coordinator is gone, standard input has data, or the server failed\<close>
| shutdown: "sv_alive s \<Longrightarrow> step c s (begin_shutdown c True s)"
| terminate_shutdown: "sv_alive s \<Longrightarrow> sv_shutdown s = Some pc \<Longrightarrow> terminate_step c (s, pc) (s', pc') \<Longrightarrow>
    step c s (s'\<lparr>sv_shutdown := Some pc'\<rparr>)"
| shutdown_closes: "sv_alive s \<Longrightarrow> sv_shutdown s = Some TerminateDone \<Longrightarrow>
    step c s (s\<lparr>sv_closed := True\<rparr>)"
\<comment> \<open>\<open>startExecution\<close>\<close>
| read_authority: "sv_alive s \<Longrightarrow> sv_start s = ReadingAuthority \<Longrightarrow> step c s (authority_read c s)"
| authority_unread: "sv_alive s \<Longrightarrow> sv_start s = ReadingAuthority \<Longrightarrow> step c s (s\<lparr>sv_start := StartFailed\<rparr>)"
| starting_replaced: "sv_alive s \<Longrightarrow> sv_start s = PublishingStarting False \<Longrightarrow> manifest_fits c Starting \<Longrightarrow>
    step c s (replace_manifest c Starting (s\<lparr>sv_start := PublishingStarting True\<rparr>))"
| starting_published: "sv_alive s \<Longrightarrow> sv_start s = PublishingStarting True \<Longrightarrow> step c s (spawn_host pid s)"
| starting_failed: "sv_alive s \<Longrightarrow> sv_start s = PublishingStarting b \<Longrightarrow> step c s (s\<lparr>sv_start := StartFailed\<rparr>)"
| inspect_leader: "sv_alive s \<Longrightarrow> sv_start s = InspectingLeader \<Longrightarrow> step c s (leader_inspected found s)"
| host_ready: "sv_alive s \<Longrightarrow> sv_start s = AwaitingReady \<Longrightarrow> step c s (readiness chunks s)"
| host_cleaned: "sv_alive s \<Longrightarrow> sv_start s = CleaningUp \<Longrightarrow> step c s (s\<lparr>sv_start := AwaitingExit\<rparr>)"
| host_exited: "sv_alive s \<Longrightarrow> sv_start s = AwaitingExit \<Longrightarrow> wk_exit s \<noteq> None \<Longrightarrow>
    step c s (s\<lparr>sv_start := CountingGroup\<rparr>)"
| host_counted: "sv_alive s \<Longrightarrow> sv_start s = CountingGroup \<Longrightarrow> groupEmpty \<longrightarrow> wk_members s = 0 \<Longrightarrow>
    step c s (failed_ready c groupEmpty s)"
| failure_published: "sv_alive s \<Longrightarrow> sv_start s = PublishingFailure \<Longrightarrow> publication_settled s \<Longrightarrow>
    step c s (s\<lparr>sv_start := StartFailed\<rparr>)"
| cleaning_failed: "sv_alive s \<Longrightarrow> sv_start s \<in> {CleaningUp, CountingGroup} \<Longrightarrow> step c s (s\<lparr>sv_start := StartFailed\<rparr>)"
| active_replaced: "sv_alive s \<Longrightarrow> sv_start s = PublishingActive False \<Longrightarrow> manifest_fits c ActiveState \<Longrightarrow>
    step c s (replace_manifest c ActiveState (s\<lparr>sv_start := PublishingActive True\<rparr>))"
| active_published: "sv_alive s \<Longrightarrow> sv_start s = PublishingActive True \<Longrightarrow> step c s (launch_host c s)"
| active_failed: "sv_alive s \<Longrightarrow> sv_start s = PublishingActive b \<Longrightarrow> step c s (s\<lparr>sv_start := StartFailed\<rparr>)"
\<comment> \<open>\<open>settleExecution\<close>\<close>
| host_output: "sv_alive s \<Longrightarrow> sv_settlement s = ReadingOutput buffer result \<Longrightarrow>
    step c s (output_chunk buffer result chunk s)"
| host_output_ended: "sv_alive s \<Longrightarrow> sv_settlement s = ReadingOutput buffer result \<Longrightarrow>
    step c s (output_ended buffer result s)"
| host_output_failed: "sv_alive s \<Longrightarrow> sv_settlement s = ReadingOutput buffer result \<Longrightarrow>
    step c s (s\<lparr>sv_settlement := AwaitingClose False result\<rparr>)"
| close_seen: "sv_alive s \<Longrightarrow> sv_settlement s = AwaitingClose valid result \<Longrightarrow> wk_exit s = Some code \<Longrightarrow>
    step c s (host_closed valid result code s)"
| members_counted: "sv_alive s \<Longrightarrow> sv_settlement s = CountingMembers valid code result \<Longrightarrow>
    groupEmpty \<longrightarrow> wk_members s = 0 \<Longrightarrow> step c s (settle c valid code result groupEmpty s)"
| members_unknown: "sv_alive s \<Longrightarrow> sv_settlement s = CountingMembers valid code result \<Longrightarrow>
    step c s (s\<lparr>sv_settlement := Settled\<rparr>)"
| result_published: "sv_alive s \<Longrightarrow> sv_settlement s = PublishingResult \<Longrightarrow> publication_settled s \<Longrightarrow>
    step c s (s\<lparr>sv_settlement := Settled\<rparr>)"
\<comment> \<open>the publication of the terminal record\<close>
| terminal_linked: "sv_alive s \<Longrightarrow> sv_publication s = WritingTerminal v False \<Longrightarrow>
    length (terminal_bytes v) \<le> EXECUTION_TERMINAL_MAX_BYTES \<Longrightarrow> step c s (link_terminal v s)"
| terminal_synced: "sv_alive s \<Longrightarrow> sv_publication s = WritingTerminal v True \<Longrightarrow>
    fs_terminal s = Some (terminal_bytes v) \<Longrightarrow> step c s (terminal_written v s)"
| terminal_failed: "sv_alive s \<Longrightarrow> sv_publication s = WritingTerminal v b \<Longrightarrow>
    step c s (s\<lparr>sv_publication := PublicationFailed\<rparr>)"
| terminal_replaced: "sv_alive s \<Longrightarrow> sv_publication s = WritingManifest v False \<Longrightarrow>
    manifest_fits c TerminalState \<Longrightarrow>
    step c s (replace_manifest c TerminalState (s\<lparr>sv_publication := WritingManifest v True\<rparr>))"
| terminal_published: "sv_alive s \<Longrightarrow> sv_publication s = WritingManifest v True \<Longrightarrow>
    step c s (s\<lparr>sv_publication := Published v\<rparr>)"
| terminal_unpublished: "sv_alive s \<Longrightarrow> sv_publication s = WritingManifest v b \<Longrightarrow>
    step c s (s\<lparr>sv_publication := PublicationFailed\<rparr>)"
\<comment> \<open>the world: a host stores its authority, the worker runs, and the supervisor may die\<close>
| authority_stored: "fs_authority s = None \<Longrightarrow> step c s (s\<lparr>fs_authority := Some bytes\<rparr>)"
| worker_runs: "wk_spawned s \<Longrightarrow> 0 < wk_members s \<Longrightarrow> step c s (s\<lparr>wk_members := n\<rparr>)"
| worker_exits: "wk_spawned s \<Longrightarrow> wk_exit s = None \<Longrightarrow> step c s (s\<lparr>wk_exit := Some code\<rparr>)"
| supervisor_dies: "sv_alive s \<Longrightarrow> step c s (s\<lparr>sv_alive := False\<rparr>)"

inductive reaches :: "supervision \<Rightarrow> supervisor \<Rightarrow> supervisor \<Rightarrow> bool" for c s where
  reaches_refl: "reaches c s s"
| reaches_step: "reaches c s t \<Longrightarrow> step c t u \<Longrightarrow> reaches c s u"

definition reachable :: "supervision \<Rightarrow> supervisor \<Rightarrow> bool" where
  "reachable c s \<longleftrightarrow> reaches c (awaiting_start c) s"

text \<open>The worker: a host that got its launch input and has live processes.\<close>

definition worker_alive :: "supervisor \<Rightarrow> bool" where
  "worker_alive s \<longleftrightarrow> wk_launched s \<and> 0 < wk_members s"

end
