(* ===== verification/Supervisor_Safety.thy ===== *)
theory Supervisor_Safety
  imports Supervisor_Steps
begin

text \<open>
  Invariants of the supervisor: where its tasks can be in each state, what its files say, and that a
  terminal record with confirmed clean-up is only ever published when no worker is alive or can still
  be launched.
\<close>

section \<open>What publishing and terminating change\<close>

lemma publishTerminal_simps [simp]:
  "sv_alive (publishTerminal c r k s) = sv_alive s" "sv_state (publishTerminal c r k s) = sv_state s"
  "sv_terminal (publishTerminal c r k s) = sv_terminal s" "sv_start (publishTerminal c r k s) = sv_start s"
  "sv_leader (publishTerminal c r k s) = sv_leader s"
  "sv_settlement (publishTerminal c r k s) = sv_settlement s"
  "sv_stopping (publishTerminal c r k s) = sv_stopping s" "sv_serving (publishTerminal c r k s) = sv_serving s"
  "sv_shutdown (publishTerminal c r k s) = sv_shutdown s" "sv_closed (publishTerminal c r k s) = sv_closed s"
  "fs_manifest (publishTerminal c r k s) = fs_manifest s" "fs_terminal (publishTerminal c r k s) = fs_terminal s"
  "fs_authority (publishTerminal c r k s) = fs_authority s" "wk_spawned (publishTerminal c r k s) = wk_spawned s"
  "wk_launched (publishTerminal c r k s) = wk_launched s" "wk_members (publishTerminal c r k s) = wk_members s"
  "wk_exit (publishTerminal c r k s) = wk_exit s"
  by (simp_all add: publishTerminal_def split: prod.splits option.splits)

lemma begin_start_simps [simp]:
  "sv_alive (begin_start s) = sv_alive s" "sv_state (begin_start s) = sv_state s"
  "sv_terminal (begin_start s) = sv_terminal s" "sv_publication (begin_start s) = sv_publication s"
  "sv_leader (begin_start s) = sv_leader s" "sv_settlement (begin_start s) = sv_settlement s"
  "sv_stopping (begin_start s) = sv_stopping s" "sv_serving (begin_start s) = sv_serving s"
  "sv_shutdown (begin_start s) = sv_shutdown s"
  "fs_manifest (begin_start s) = fs_manifest s" "fs_terminal (begin_start s) = fs_terminal s"
  "fs_authority (begin_start s) = fs_authority s" "wk_spawned (begin_start s) = wk_spawned s"
  "wk_launched (begin_start s) = wk_launched s" "wk_members (begin_start s) = wk_members s"
  "wk_exit (begin_start s) = wk_exit s" "sv_log (begin_start s) = sv_log s"
  by (simp_all add: begin_start_def)

text \<open>The cleanup of a terminal record is the one that was asked for.\<close>

lemma boundedTerminal_cleanup [simp]: "tm_cleanup (boundedTerminal b t) = tm_cleanup t"
  by (simp add: boundedTerminal_def Let_def)

lemma publishTerminal_publication:
  "sv_publication (publishTerminal c r k s) = sv_publication s \<or>
   sv_terminal s = None \<and> sv_publication s = NotPublished \<and>
     (sv_publication (publishTerminal c r k s) = PublicationFailed \<or>
      (\<exists>v. sv_publication (publishTerminal c r k s) = WritingTerminal v False \<and> tm_cleanup v = k))"
  by (auto simp: publishTerminal_def terminal_value_def split: prod.splits option.splits if_splits)

section \<open>Where the tasks can be\<close>

text \<open>Where \<open>startExecution\<close> is: at rest, before its host is spawned, or with a leader.\<close>

fun at_rest :: "start_pc \<Rightarrow> bool" where
  "at_rest StartIdle = True" | "at_rest StartDone = True" | "at_rest StartFailed = True" | "at_rest _ = False"

fun unauthorized :: "start_pc \<Rightarrow> bool" where
  "unauthorized StartIdle = True" | "unauthorized ReadingAuthority = True" | "unauthorized _ = False"

fun unspawned :: "start_pc \<Rightarrow> bool" where
  "unspawned (PublishingStarting _) = True" | "unspawned p = unauthorized p"

fun led :: "start_pc \<Rightarrow> bool" where
  "led AwaitingReady = True" | "led (PublishingActive _) = True" | "led CleaningUp = True"
| "led AwaitingExit = True" | "led CountingGroup = True" | "led _ = False"

definition tasks_ok :: "supervision \<Rightarrow> supervisor \<Rightarrow> bool" where
  "tasks_ok c s \<longleftrightarrow>
     (sv_state s = AwaitingStart \<longrightarrow>
        (unauthorized (sv_start s) \<or> sv_start s = StartFailed) \<and> \<not> wk_spawned s) \<and>
     (unauthorized (sv_start s) \<longrightarrow> sv_state s = AwaitingStart \<or> sv_state s = TerminalState) \<and>
     (unspawned (sv_start s) \<longrightarrow> \<not> wk_spawned s) \<and>
     (sv_start s = InspectingLeader \<longrightarrow> wk_spawned s) \<and>
     (led (sv_start s) \<longrightarrow> sv_leader s) \<and>
     (sv_leader s \<longrightarrow> wk_spawned s) \<and> (sv_settlement s \<noteq> NotSettling \<longrightarrow> sv_leader s) \<and>
     (wk_launched s \<longrightarrow> sv_start s = StartDone \<and> sv_leader s) \<and>
     (\<not> at_rest (sv_start s) \<longrightarrow> sv_serving s = ServingAuthorize) \<and>
     (sv_shutdown s \<noteq> None \<longrightarrow> sv_stopping s)"

lemma terminate_step_same:
  assumes "terminate_step c (s, pc) (s', pc')"
  shows "s' = s \<or> (\<exists>r k. s' = publishTerminal c r k s \<and> (k = ConfirmedCleanup \<longrightarrow> sv_leader s \<and> wk_members s = 0) \<and>
    pc = TerminateCounting)"
  using assms by (cases rule: terminate_step.cases) (auto simp: group_cleanup_def)

lemma begin_terminate_same:
  assumes "begin_terminate c s = (s', pc)"
  obtains "s' = s\<lparr>sv_requested := True\<rparr>" and "sv_terminal s \<noteq> None \<or> sv_state s \<noteq> AwaitingStart"
  | r where "s' = publishTerminal c r ConfirmedCleanup (s\<lparr>sv_requested := True\<rparr>)" and "sv_state s = AwaitingStart"
      and "pc = AwaitingPublication" and "sv_terminal s = None"
  | r where "s' = publishTerminal c r UnknownCleanup (s\<lparr>sv_requested := True\<rparr>)"
  using assms by (auto simp: begin_terminate_def Let_def split: if_splits)

lemma publish_tasks: "tasks_ok c (publishTerminal c r k s) = tasks_ok c s"
  by (simp add: tasks_ok_def)

lemma requested_tasks: "tasks_ok c (s\<lparr>sv_requested := b\<rparr>) = tasks_ok c s"
  by (simp add: tasks_ok_def)

lemma terminate_tasks:
  "terminate_step c (s, pc) (s', pc') \<Longrightarrow> tasks_ok c s' = tasks_ok c s"
  "begin_terminate c s = (t, pc) \<Longrightarrow> tasks_ok c t = tasks_ok c s"
  by (auto dest!: terminate_step_same elim!: begin_terminate_same simp: publish_tasks requested_tasks)

text \<open>A task of \<open>startExecution\<close> that waits keeps its request served, so that no other is served then.\<close>

lemma serving_tasks:
  "tasks_ok c s \<Longrightarrow> sv_serving s = NotServing \<Longrightarrow> tasks_ok c (s\<lparr>sv_serving := x\<rparr>)"
  "tasks_ok c s \<Longrightarrow> sv_serving s = ServingTerminate pc \<Longrightarrow> tasks_ok c (s\<lparr>sv_serving := x\<rparr>)"
  by (auto simp: tasks_ok_def)

lemma begin_terminate_serving:
  "begin_terminate c s = (t, pc) \<Longrightarrow> sv_serving t = sv_serving s \<and> sv_stopping t = sv_stopping s"
  by (auto elim!: begin_terminate_same)

lemma terminate_step_serving:
  "terminate_step c (s, pc) (t, pc') \<Longrightarrow> sv_serving t = sv_serving s \<and> sv_stopping t = sv_stopping s"
  by (auto dest!: terminate_step_same)

lemma shutdown_tasks: "tasks_ok c s \<Longrightarrow> sv_stopping s \<Longrightarrow> tasks_ok c (s\<lparr>sv_shutdown := x\<rparr>)"
  by (simp add: tasks_ok_def)

lemma stopping_tasks: "tasks_ok c s \<Longrightarrow> tasks_ok c (s\<lparr>sv_stopping := True, sv_closed := b\<rparr>) \<and> tasks_ok c (s\<lparr>sv_stopping := True\<rparr>)"
  by (simp add: tasks_ok_def)

lemma begin_shutdown_cases:
  obtains "begin_shutdown c b s = s"
  | "begin_shutdown c b s = s\<lparr>sv_stopping := True, sv_closed := True\<rparr>"
  | t pc where "begin_terminate c (s\<lparr>sv_stopping := True\<rparr>) = (t, pc)"
      and "begin_shutdown c b s = t\<lparr>sv_shutdown := Some pc\<rparr>"
proof -
  obtain t pc where "begin_terminate c (s\<lparr>sv_stopping := True\<rparr>) = (t, pc)"
    by (cases "begin_terminate c (s\<lparr>sv_stopping := True\<rparr>)")
  then have "begin_shutdown c b s \<in>
      {s, s\<lparr>sv_stopping := True, sv_closed := True\<rparr>, t\<lparr>sv_shutdown := Some pc\<rparr>}"
    by (simp add: begin_shutdown_def Let_def)
  with that \<open>begin_terminate c (s\<lparr>sv_stopping := True\<rparr>) = (t, pc)\<close> show thesis by blast
qed

lemma begin_shutdown_tasks: "tasks_ok c s \<Longrightarrow> tasks_ok c (begin_shutdown c b s)"
proof (cases rule: begin_shutdown_cases [of c b s])
  case (3 t pc)
  assume "tasks_ok c s"
  with stopping_tasks terminate_tasks(2) [OF 3(1)] have "tasks_ok c t" by blast
  with begin_terminate_serving [OF 3(1)] 3(2) show ?thesis by (simp add: shutdown_tasks)
qed (auto dest: stopping_tasks)

lemma tasks_init: "tasks_ok c (awaiting_start c)"
  by (simp add: tasks_ok_def awaiting_start_def)


lemma start_rest_simps [simp]: "at_rest p \<Longrightarrow> \<not> led p"
  by (cases p) simp_all

lemma tasks_step:
  assumes "step c s s'" and "tasks_ok c s"
  shows "tasks_ok c s'"
  using assms
proof (cases rule: step.cases)
  case serve_authorize
  with assms(2) show ?thesis by (cases "sv_start s") (auto simp: tasks_ok_def begin_start_def)
next
  case authorize_answered
  with assms(2) show ?thesis by (auto simp: tasks_ok_def)
next
  case (serve_terminate t pc)
  from terminate_tasks(2) [OF serve_terminate(5)] begin_terminate_serving [OF serve_terminate(5)]
    assms(2) serve_terminate(4) show ?thesis
    unfolding serve_terminate(1) by (intro serving_tasks(1)) simp_all
next
  case (terminate_request pc t pc')
  from terminate_tasks(1) [OF terminate_request(4)] terminate_step_serving [OF terminate_request(4)]
    assms(2) terminate_request(3) show ?thesis
    unfolding terminate_request(1) by (intro serving_tasks(2)) simp_all
next
  case terminate_answered
  with assms(2) show ?thesis by (simp add: serving_tasks(2))
next
  case (terminate_shutdown pc t pc')
  from terminate_shutdown(3) assms(2) have "sv_stopping s" by (simp add: tasks_ok_def)
  with terminate_tasks(1) [OF terminate_shutdown(4)] terminate_step_serving [OF terminate_shutdown(4)]
    assms(2) show ?thesis
    unfolding terminate_shutdown(1) by (intro shutdown_tasks) simp_all
next
  case shutdown
  with assms(2) show ?thesis by (simp add: begin_shutdown_tasks)
next
  case serve_release
  with assms(2) show ?thesis by (simp add: begin_shutdown_tasks)
next
  case (host_output buffer result chunk)
  obtain a b d e where "settle_chunk buffer (sv_log s, result) chunk = (a, (b, d), e)"
    by (cases "settle_chunk buffer (sv_log s, result) chunk") (metis surj_pair)
  with host_output assms(2) show ?thesis by (simp add: tasks_ok_def output_chunk_def)
next
  case host_ready
  with assms(2) show ?thesis by (auto simp: tasks_ok_def readiness_def)
next
  case cleaning_failed
  with assms(2) show ?thesis by (auto simp: tasks_ok_def)
next
  case (active_published)
  with assms(2) show ?thesis
    by (cases "encodeFrame EXECUTION_LAUNCH_FRAME_MAX_BYTES (prepare_js (sn_prepare c))")
      (simp_all add: tasks_ok_def launch_host_def)
qed (use assms(2) in \<open>simp_all add: tasks_ok_def authority_read_def replace_manifest_def spawn_host_def
    leader_inspected_def readiness_def failed_ready_def output_ended_def host_closed_def settle_def
    link_terminal_def terminal_written_def\<close>)


section \<open>What the files say\<close>

text \<open>The manifest on disk shows a state that the supervisor was in.\<close>

fun before_starting :: "start_pc \<Rightarrow> bool" where
  "before_starting (PublishingStarting b) = (\<not> b)" | "before_starting StartDone = True"
| "before_starting StartFailed = True" | "before_starting p = unauthorized p"

definition manifest_shows :: "manifest_state \<Rightarrow> supervisor \<Rightarrow> bool" where
  "manifest_shows st s \<longleftrightarrow>
     (st = AwaitingStart \<longrightarrow> before_starting (sv_start s) \<and> \<not> wk_spawned s) \<and>
     (st = TerminalState \<longrightarrow> sv_terminal s \<noteq> None)"

fun terminal_pending :: "publication \<Rightarrow> bool" where
  "terminal_pending NotPublished = True" | "terminal_pending (WritingTerminal _ _) = True"
| "terminal_pending _ = False"

fun manifest_pending :: "publication \<Rightarrow> bool" where
  "manifest_pending (WritingManifest _ _) = True" | "manifest_pending _ = False"

definition files_ok :: "supervision \<Rightarrow> supervisor \<Rightarrow> bool" where
  "files_ok c s \<longleftrightarrow>
     (\<exists>st. fs_manifest s = Some (manifest_bytes c st) \<and> manifest_shows st s) \<and>
     (\<forall>v. sv_terminal s = Some v \<longrightarrow> fs_terminal s = Some (terminal_bytes v)) \<and>
     (terminal_pending (sv_publication s) \<longrightarrow> sv_terminal s = None) \<and>
     (manifest_pending (sv_publication s) \<longrightarrow> sv_terminal s \<noteq> None)"

lemma manifest_shows_frame:
  "manifest_shows st s \<Longrightarrow> sv_terminal t = sv_terminal s \<Longrightarrow> wk_spawned t = wk_spawned s \<Longrightarrow>
     (before_starting (sv_start s) \<Longrightarrow> before_starting (sv_start t)) \<Longrightarrow> manifest_shows st t"
  by (auto simp: manifest_shows_def)

lemma files_frame:
  assumes "files_ok c s" and "sv_terminal t = sv_terminal s" "fs_terminal t = fs_terminal s"
    "fs_manifest t = fs_manifest s" "wk_spawned t = wk_spawned s"
    and "before_starting (sv_start s) \<Longrightarrow> before_starting (sv_start t)"
    and "terminal_pending (sv_publication t) \<Longrightarrow> terminal_pending (sv_publication s)"
    and "manifest_pending (sv_publication t) \<Longrightarrow> manifest_pending (sv_publication s)"
  shows "files_ok c t"
  using assms manifest_shows_frame [of _ s t] by (auto simp: files_ok_def)

lemma files_publish: "files_ok c s \<Longrightarrow> files_ok c (publishTerminal c r k s)"
  using publishTerminal_publication [of c r k s] by (elim files_frame) auto

lemma terminate_files:
  "terminate_step c (s, pc) (s', pc') \<Longrightarrow> files_ok c s \<Longrightarrow> files_ok c s'"
  "begin_terminate c s = (t, pc) \<Longrightarrow> files_ok c s \<Longrightarrow> files_ok c t"
proof -
  have r: "files_ok c s \<Longrightarrow> files_ok c (s\<lparr>sv_requested := True\<rparr>)" by (elim files_frame) simp_all
  show "terminate_step c (s, pc) (s', pc') \<Longrightarrow> files_ok c s \<Longrightarrow> files_ok c s'"
    by (auto dest!: terminate_step_same simp: files_publish)
  show "begin_terminate c s = (t, pc) \<Longrightarrow> files_ok c s \<Longrightarrow> files_ok c t"
    using r by (auto elim!: begin_terminate_same simp: files_publish)
qed

lemma begin_shutdown_files: "files_ok c s \<Longrightarrow> files_ok c (begin_shutdown c b s)"
proof (cases rule: begin_shutdown_cases [of c b s])
  case (3 t pc)
  assume "files_ok c s"
  then have "files_ok c (s\<lparr>sv_stopping := True\<rparr>)" by (elim files_frame) simp_all
  from terminate_files(2) [OF 3(1) this] show ?thesis unfolding 3(2) by (elim files_frame) simp_all
qed (auto elim: files_frame)

lemma files_init: "files_ok c (awaiting_start c)"
  by (auto simp: files_ok_def awaiting_start_def manifest_shows_def)

lemma files_step:
  assumes "step c s s'" and "tasks_ok c s" and "files_ok c s"
  shows "files_ok c s'"
  using assms(1)
proof (cases rule: step.cases)
  case (serve_terminate t pc)
  from terminate_files(2) [OF serve_terminate(5) assms(3)] show ?thesis
    unfolding serve_terminate(1) by (elim files_frame) simp_all
next
  case (terminate_request pc t pc')
  from terminate_files(1) [OF terminate_request(4) assms(3)] show ?thesis
    unfolding terminate_request(1) by (elim files_frame) simp_all
next
  case (terminate_shutdown pc t pc')
  from terminate_files(1) [OF terminate_shutdown(4) assms(3)] show ?thesis
    unfolding terminate_shutdown(1) by (elim files_frame) simp_all
next
  case shutdown
  with assms(3) show ?thesis by (simp add: begin_shutdown_files)
next
  case serve_release
  with assms(3) show ?thesis by (simp add: begin_shutdown_files)
next
  case (starting_replaced)
  with assms(3) show ?thesis by (auto simp: files_ok_def replace_manifest_def manifest_shows_def)
next
  case (active_replaced)
  with assms(3) show ?thesis by (auto simp: files_ok_def replace_manifest_def manifest_shows_def)
next
  case (terminal_replaced v)
  with assms(3) show ?thesis by (auto simp: files_ok_def replace_manifest_def manifest_shows_def)
next
  case (terminal_linked v)
  with assms(3) show ?thesis by (auto simp: files_ok_def link_terminal_def manifest_shows_def)
next
  case (terminal_synced v)
  with assms(3) show ?thesis by (auto simp: files_ok_def terminal_written_def manifest_shows_def)
next
  case (starting_published pid)
  with assms(3) show ?thesis by (auto simp: files_ok_def spawn_host_def manifest_shows_def)
next
  case (host_output buffer result chunk)
  obtain a b d e where "settle_chunk buffer (sv_log s, result) chunk = (a, (b, d), e)"
    by (cases "settle_chunk buffer (sv_log s, result) chunk") (metis surj_pair)
  with host_output assms(3) show ?thesis by (elim files_frame) (simp_all add: output_chunk_def)
next
  case (active_published)
  with assms(3) show ?thesis
    by (cases "encodeFrame EXECUTION_LAUNCH_FRAME_MAX_BYTES (prepare_js (sn_prepare c))"; elim files_frame)
      (simp_all add: launch_host_def)
next
  case serve_authorize
  have "before_starting (sv_start s) \<Longrightarrow> before_starting (sv_start (begin_start s))"
    by (cases "sv_start s") (simp_all add: begin_start_def)
  with assms(3) show ?thesis
    unfolding serve_authorize(1) by (elim files_frame) simp_all
next
  case host_counted
  show ?thesis
    unfolding host_counted(1) failed_ready_def by (rule files_frame [OF files_publish [OF assms(3)]])
      (simp_all add: host_counted)
next
  case members_counted
  show ?thesis
    unfolding members_counted(1) settle_def by (rule files_frame [OF files_publish [OF assms(3)]]) simp_all
qed (use assms(3) in \<open>(elim files_frame; auto simp: authority_read_def leader_inspected_def readiness_def
    output_ended_def host_closed_def split: if_splits)+\<close>)


section \<open>Confirmed clean-up\<close>

text \<open>Where \<open>startExecution\<close> is when it will never launch.\<close>

fun never_launches :: "start_pc \<Rightarrow> bool" where
  "never_launches StartDone = True" | "never_launches StartFailed = True" | "never_launches CleaningUp = True"
| "never_launches AwaitingExit = True" | "never_launches CountingGroup = True"
| "never_launches PublishingFailure = True" | "never_launches _ = False"

fun activating :: "start_pc \<Rightarrow> bool" where
  "activating (PublishingActive _) = True" | "activating _ = False"

fun pending_terminal :: "publication \<Rightarrow> execution_terminal option" where
  "pending_terminal (WritingTerminal v _) = Some v" | "pending_terminal _ = None"

text \<open>
  No worker is alive and none can be launched: the host's group is empty, or the launch is ruled out.
\<close>

definition launch_barred :: "supervisor \<Rightarrow> bool" where
  "launch_barred s \<longleftrightarrow>
     \<not> wk_launched s \<and>
     (never_launches (sv_start s) \<or> sv_stopping s \<and> \<not> activating (sv_start s) \<or>
      sv_start s = StartIdle \<and>
        (sv_state s = TerminalState \<or>
         pending_terminal (sv_publication s) \<noteq> None \<and> sv_serving s = ServingTerminate AwaitingPublication))"

definition quiet :: "supervisor \<Rightarrow> bool" where
  "quiet s \<longleftrightarrow> wk_spawned s \<and> wk_members s = 0 \<or> launch_barred s"

definition recorded :: "supervisor \<Rightarrow> execution_terminal \<Rightarrow> bool" where
  "recorded s v \<longleftrightarrow> sv_terminal s = Some v \<or> pending_terminal (sv_publication s) = Some v"

definition confirmed_ok :: "supervisor \<Rightarrow> bool" where
  "confirmed_ok s \<longleftrightarrow> (\<forall>v. recorded s v \<and> tm_cleanup v = ConfirmedCleanup \<longrightarrow> quiet s)"

lemma quiet_frame:
  assumes "quiet s" and "wk_spawned t = wk_spawned s" "wk_members t = wk_members s"
    "wk_launched t = wk_launched s" "sv_start t = sv_start s" "sv_state t = sv_state s"
    "sv_serving t = sv_serving s" "sv_stopping s \<Longrightarrow> sv_stopping t"
    and "pending_terminal (sv_publication s) \<noteq> None \<Longrightarrow> pending_terminal (sv_publication t) \<noteq> None"
  shows "quiet t"
  using assms by (auto simp: quiet_def launch_barred_def)

lemma quiet_publish: "quiet s \<Longrightarrow> quiet (publishTerminal c r k s)"
  using publishTerminal_publication [of c r k s] by (elim quiet_frame) auto

lemma begin_terminate_quiet: "begin_terminate c s = (t, pc) \<Longrightarrow> quiet s \<Longrightarrow> quiet t"
proof -
  assume t: "begin_terminate c s = (t, pc)" and "quiet s"
  then have "quiet (s\<lparr>sv_requested := True\<rparr>)" by (elim quiet_frame) simp_all
  with t show ?thesis by (auto elim!: begin_terminate_same simp: quiet_publish)
qed

lemma quiet_serving:
  assumes "quiet s" and "sv_serving s \<noteq> ServingTerminate AwaitingPublication"
  shows "quiet (s\<lparr>sv_serving := x\<rparr>)"
  using assms by (auto simp: quiet_def launch_barred_def)

lemma quiet_stopping: "quiet s \<Longrightarrow> quiet (s\<lparr>sv_stopping := True, sv_closed := b\<rparr>) \<and> quiet (s\<lparr>sv_stopping := True\<rparr>)"
  by (auto simp: quiet_def launch_barred_def)

lemma begin_shutdown_quiet: "quiet s \<Longrightarrow> quiet (begin_shutdown c b s)"
proof (cases rule: begin_shutdown_cases [of c b s])
  case (3 t pc)
  assume "quiet s"
  then have "quiet (s\<lparr>sv_stopping := True\<rparr>)" by (simp add: quiet_stopping)
  from begin_terminate_quiet [OF 3(1) this] show ?thesis unfolding 3(2) by (elim quiet_frame) simp_all
qed (simp_all add: quiet_stopping)

lemma settled_not_pending: "publication_settled s \<Longrightarrow> pending_terminal (sv_publication s) = None"
  by (cases "sv_publication s") (simp_all add: publication_settled_def)

text \<open>A request that waits for the publication goes on when nothing is pending.\<close>

lemma terminate_request_quiet:
  assumes "terminate_step c (s, pc) (t, pc')" and "quiet s" and "sv_serving s = ServingTerminate pc"
  shows "quiet (t\<lparr>sv_serving := ServingTerminate pc'\<rparr>)"
proof -
  have t: "quiet t" using assms(1,2) by (auto dest!: terminate_step_same simp: quiet_publish)
  show ?thesis
  proof (cases "pc = AwaitingPublication")
    case True
    with assms(1) have "t = s" "publication_settled s" by (auto elim: terminate_step.cases)
    with t settled_not_pending [of s] show ?thesis by (auto simp: quiet_def launch_barred_def)
  next
    case False
    from t show ?thesis
      using False assms(3) terminate_step_serving [OF assms(1)] by (intro quiet_serving) simp_all
  qed
qed

text \<open>Once quiet, always quiet, as long as something is recorded.\<close>

lemma quiet_step:
  assumes "step c s s'" and "tasks_ok c s" and "quiet s" and "recorded s' v" and "files_ok c s"
  shows "quiet s'"
  using assms(1)
proof (cases rule: step.cases)
  case serve_authorize
  with assms(3) show ?thesis
    by (cases "sv_start s") (auto simp: quiet_def launch_barred_def begin_start_def)
next
  case authorize_answered
  with assms(3) show ?thesis by (simp add: quiet_serving)
next
  case (serve_terminate t pc)
  from begin_terminate_quiet [OF serve_terminate(5) assms(3)] show ?thesis
    unfolding serve_terminate(1) using begin_terminate_serving [OF serve_terminate(5)] serve_terminate(4)
    by (intro quiet_serving) simp_all
next
  case (terminate_request pc t pc')
  with terminate_request_quiet assms(3) show ?thesis by simp
next
  case terminate_answered
  with assms(3) show ?thesis by (simp add: quiet_serving)
next
  case (terminate_shutdown pc t pc')
  then have "quiet t" using assms(3) by (auto dest!: terminate_step_same simp: quiet_publish)
  then show ?thesis unfolding terminate_shutdown(1) by (elim quiet_frame) simp_all
next
  case shutdown
  with assms(3) show ?thesis by (simp add: begin_shutdown_quiet)
next
  case serve_release
  with assms(3) show ?thesis by (simp add: begin_shutdown_quiet)
next
  case (starting_published pid)
  with assms(2,3) show ?thesis by (auto simp: quiet_def launch_barred_def tasks_ok_def spawn_host_def)
next
  case (host_output buffer result chunk)
  obtain a b d e where "settle_chunk buffer (sv_log s, result) chunk = (a, (b, d), e)"
    by (cases "settle_chunk buffer (sv_log s, result) chunk") (metis surj_pair)
  with host_output assms(3) show ?thesis by (elim quiet_frame) (simp_all add: output_chunk_def)
next
  case host_counted
  show ?thesis
    unfolding host_counted(1) failed_ready_def using quiet_publish [OF assms(3)] host_counted(3)
    by (auto simp: quiet_def launch_barred_def)
next
  case members_counted
  show ?thesis
    unfolding members_counted(1) settle_def by (rule quiet_frame [OF quiet_publish [OF assms(3)]]) simp_all
next
  case active_published
  with assms(3) show ?thesis
    by (cases "encodeFrame EXECUTION_LAUNCH_FRAME_MAX_BYTES (prepare_js (sn_prepare c))")
      (auto simp: quiet_def launch_barred_def launch_host_def)
next
  case terminal_failed
  with assms(4,5) show ?thesis by (auto simp: recorded_def files_ok_def)
qed (use assms(2-4) in \<open>auto simp: quiet_def launch_barred_def authority_read_def replace_manifest_def
    leader_inspected_def readiness_def output_ended_def host_closed_def link_terminal_def terminal_written_def\<close>)


text \<open>What a step records anew is the value of a publication that began in it.\<close>

lemma recorded_publish:
  assumes "recorded (publishTerminal c r k s) v"
  shows "recorded s v \<or> tm_cleanup v = k \<and> pending_terminal (sv_publication (publishTerminal c r k s)) = Some v"
  using assms publishTerminal_publication [of c r k s] by (auto simp: recorded_def)

lemma begin_terminate_recorded:
  assumes "begin_terminate c s = (t, pc)" and "recorded t v" and "tm_cleanup v = ConfirmedCleanup"
  shows "recorded s v \<or> sv_state s = AwaitingStart \<and> sv_state t = AwaitingStart \<and> pc = AwaitingPublication \<and>
    pending_terminal (sv_publication t) = Some v"
  using assms(1)
proof (cases rule: begin_terminate_same)
  case 1
  with assms(2) show ?thesis by (simp add: recorded_def)
next
  case (2 r)
  with recorded_publish [of c r _ "s\<lparr>sv_requested := True\<rparr>" v] assms(2) show ?thesis
    by (simp add: recorded_def)
next
  case (3 r)
  with recorded_publish [of c r _ "s\<lparr>sv_requested := True\<rparr>" v] assms(2,3) show ?thesis
    by (auto simp: recorded_def)
qed

lemma terminate_step_recorded:
  assumes "terminate_step c (s, pc) (t, pc')" and "recorded t v" and "tm_cleanup v = ConfirmedCleanup"
  shows "recorded s v \<or> sv_leader t \<and> wk_members t = 0"
  using terminate_step_same [OF assms(1)]
proof
  assume "\<exists>r k. t = publishTerminal c r k s \<and> (k = ConfirmedCleanup \<longrightarrow> sv_leader s \<and> wk_members s = 0) \<and>
    pc = TerminateCounting"
  then obtain r k where t: "t = publishTerminal c r k s" "k = ConfirmedCleanup \<longrightarrow> sv_leader s \<and> wk_members s = 0"
    by blast
  from recorded_publish [of c r k s v] assms(2,3) t show ?thesis by auto
qed (use assms(2) in simp)

lemma awaiting_not_launched: "tasks_ok c s \<Longrightarrow> sv_state s = AwaitingStart \<Longrightarrow> \<not> wk_launched s"
  by (cases "sv_start s") (auto simp: tasks_ok_def)

lemma confirmed_step:
  assumes "step c s s'" and "tasks_ok c s" and "files_ok c s" and "confirmed_ok s" and "tasks_ok c s'"
  shows "confirmed_ok s'"
  unfolding confirmed_ok_def
proof (intro allI impI, elim conjE)
  fix v
  assume v: "recorded s' v" "tm_cleanup v = ConfirmedCleanup"
  show "quiet s'"
  proof (cases "recorded s v")
    case True
    with assms(4) v have "quiet s" by (auto simp: confirmed_ok_def)
    with quiet_step [OF assms(1,2) _ v(1) assms(3)] show ?thesis by simp
  next
    case new: False
    show ?thesis
      using assms(1)
    proof (cases rule: step.cases)
      case (serve_terminate t pc)
      with begin_terminate_recorded [OF serve_terminate(5), of v] new v have
        t: "sv_state s = AwaitingStart" "pc = AwaitingPublication" "pending_terminal (sv_publication t) = Some v"
        by (auto simp: recorded_def)
      have "sv_start t = sv_start s" using serve_terminate(5) by (auto elim!: begin_terminate_same)
      moreover have "sv_start s = StartIdle \<or> never_launches (sv_start s)"
        using assms(2) t(1) serve_terminate(4) by (cases "sv_start s") (auto simp: tasks_ok_def)
      moreover have "\<not> wk_launched s'"
        using awaiting_not_launched [OF assms(2) t(1)] serve_terminate(1,5) by (auto elim!: begin_terminate_same)
      ultimately show ?thesis using t serve_terminate(1) by (auto simp: quiet_def launch_barred_def)
    next
      case (terminate_request pc t pc')
      with terminate_step_recorded [OF terminate_request(4), of v] new v
      have "sv_leader s' \<and> wk_members s' = 0" by (auto simp: recorded_def)
      with assms(5) show ?thesis by (auto simp: quiet_def tasks_ok_def)
    next
      case (terminate_shutdown pc t pc')
      with terminate_step_recorded [OF terminate_shutdown(4), of v] new v
      have "sv_leader s' \<and> wk_members s' = 0" by (auto simp: recorded_def)
      with assms(5) show ?thesis by (auto simp: quiet_def tasks_ok_def)
    next
      case shutdown
      show ?thesis
      proof (cases rule: begin_shutdown_cases [of c True s])
        case (3 t pc)
        with begin_terminate_recorded [OF 3(1), of v] new v shutdown
        have t: "sv_state s = AwaitingStart" "sv_state s' = AwaitingStart" by (auto simp: recorded_def)
        have "\<not> activating (sv_start s')"
          using assms(5) t(2) by (cases "sv_start s'") (auto simp: tasks_ok_def)
        moreover have "sv_stopping s'" using begin_terminate_serving [OF 3(1)] 3(2) shutdown by simp
        ultimately show ?thesis
          using awaiting_not_launched [OF assms(5) t(2)] by (simp add: quiet_def launch_barred_def)
      qed (use new v shutdown in \<open>simp_all add: recorded_def\<close>)
    next
      case serve_release
      then show ?thesis
        using new v by (auto simp: begin_shutdown_def recorded_def Let_def split: if_splits)
    next
      case host_counted
      then have "never_launches (sv_start s')" "\<not> wk_launched s'"
        using assms(2) by (auto simp: failed_ready_def tasks_ok_def)
      then show ?thesis by (simp add: quiet_def launch_barred_def)
    next
      case (members_counted valid code result groupEmpty)
      with recorded_publish [of c _ "settled_cleanup valid code result groupEmpty" s v] new v
      have "wk_members s = 0" by (auto simp: settle_def recorded_def settled_cleanup_def split: if_splits)
      with members_counted assms(2) show ?thesis by (auto simp: quiet_def tasks_ok_def settle_def)
    next
      case (host_output buffer result chunk)
      obtain a b d e where "settle_chunk buffer (sv_log s, result) chunk = (a, (b, d), e)"
        by (cases "settle_chunk buffer (sv_log s, result) chunk") (metis surj_pair)
      with host_output new v show ?thesis by (simp add: output_chunk_def recorded_def)
    next
      case active_published
      with new v show ?thesis
        by (cases "encodeFrame EXECUTION_LAUNCH_FRAME_MAX_BYTES (prepare_js (sn_prepare c))")
          (simp_all add: launch_host_def recorded_def)
    next
      case (host_ready chunks)
      with new v show ?thesis by (auto simp: readiness_def recorded_def split: if_splits)
    qed (use new v in \<open>simp_all add: recorded_def authority_read_def replace_manifest_def spawn_host_def
        leader_inspected_def output_ended_def host_closed_def link_terminal_def terminal_written_def
        split: if_splits\<close>)
  qed
qed


section \<open>Authorized hosts\<close>

definition authorized_ok :: "supervision \<Rightarrow> supervisor \<Rightarrow> bool" where
  "authorized_ok c s \<longleftrightarrow>
     (wk_spawned s \<or> (\<exists>b. sv_start s = PublishingStarting b) \<longrightarrow> readAuthority c (fs_authority s))"

lemma readAuthority_None [simp]: "\<not> readAuthority c None"
  by (simp add: readAuthority_def readRecord_def)

lemma authorized_frame:
  assumes "authorized_ok c s" and "wk_spawned t \<Longrightarrow> wk_spawned s"
    and "\<And>b. sv_start t = PublishingStarting b \<Longrightarrow> \<exists>b. sv_start s = PublishingStarting b"
    and "fs_authority t = fs_authority s"
  shows "authorized_ok c t"
  using assms by (auto simp: authorized_ok_def)

lemma authorized_step:
  assumes "step c s s'" and "authorized_ok c s"
  shows "authorized_ok c s'"
  using assms(1)
proof (cases rule: step.cases)
  case serve_authorize
  with assms(2) show ?thesis by (auto simp: authorized_ok_def begin_start_def split: if_splits)
next
  case (serve_terminate t pc)
  with assms(2) show ?thesis by (elim authorized_frame) (auto elim!: begin_terminate_same)
next
  case (terminate_request pc t pc')
  with assms(2) show ?thesis by (elim authorized_frame) (auto dest!: terminate_step_same)
next
  case (terminate_shutdown pc t pc')
  with assms(2) show ?thesis by (elim authorized_frame) (auto dest!: terminate_step_same)
next
  case serve_release
  with assms(2) show ?thesis
    by (cases rule: begin_shutdown_cases [of c False s]; elim authorized_frame)
      (auto elim!: begin_terminate_same)
next
  case shutdown
  with assms(2) show ?thesis
    by (cases rule: begin_shutdown_cases [of c True s]; elim authorized_frame)
      (auto elim!: begin_terminate_same)
next
  case (host_output buffer result chunk)
  obtain a b d e where "settle_chunk buffer (sv_log s, result) chunk = (a, (b, d), e)"
    by (cases "settle_chunk buffer (sv_log s, result) chunk") (metis surj_pair)
  with host_output assms(2) show ?thesis by (elim authorized_frame) (simp_all add: output_chunk_def)
next
  case active_published
  with assms(2) show ?thesis
    by (cases "encodeFrame EXECUTION_LAUNCH_FRAME_MAX_BYTES (prepare_js (sn_prepare c))"; elim authorized_frame)
      (simp_all add: launch_host_def)
next
  case (authority_stored bytes)
  with assms(2) show ?thesis by (auto simp: authorized_ok_def)
next
  case starting_published
  with assms(2) show ?thesis by (auto simp: authorized_ok_def spawn_host_def)
next
  case read_authority
  with assms(2) show ?thesis by (auto simp: authorized_ok_def authority_read_def)
qed (use assms(2) in \<open>(elim authorized_frame; auto simp: replace_manifest_def failed_ready_def settle_def
    leader_inspected_def readiness_def output_ended_def host_closed_def link_terminal_def terminal_written_def
    split: if_splits)+\<close>)

section \<open>Reachable supervisors\<close>

theorem reachable_invariant:
  assumes "reachable c s"
  shows "tasks_ok c s" and "files_ok c s" and "confirmed_ok s" and "authorized_ok c s"
proof -
  have "tasks_ok c s \<and> files_ok c s \<and> confirmed_ok s \<and> authorized_ok c s"
    using assms unfolding reachable_def
  proof (induction rule: reaches.induct)
    case reaches_refl
    have "confirmed_ok (awaiting_start c)" "authorized_ok c (awaiting_start c)"
      by (simp_all add: confirmed_ok_def recorded_def authorized_ok_def awaiting_start_def)
    then show ?case by (simp add: tasks_init files_init)
  next
    case (reaches_step t u)
    then have "tasks_ok c u" by (blast intro: tasks_step)
    with reaches_step show ?case by (blast intro: files_step confirmed_step authorized_step)
  qed
  then show "tasks_ok c s" "files_ok c s" "confirmed_ok s" "authorized_ok c s" by simp_all
qed

lemma reaches_trans: "reaches c s t \<Longrightarrow> reaches c t u \<Longrightarrow> reaches c s u"
  by (rotate_tac, induction rule: reaches.induct) (auto intro: reaches_step)

lemma reachable_reaches: "reachable c s \<Longrightarrow> reaches c s t \<Longrightarrow> reachable c t"
  unfolding reachable_def by (rule reaches_trans)

text \<open>A dead supervisor stays dead, and its files and what it launched stay as they are.\<close>

lemma dead_step:
  "step c s t \<Longrightarrow> \<not> sv_alive s \<Longrightarrow>
     \<not> sv_alive t \<and> fs_manifest t = fs_manifest s \<and> fs_terminal t = fs_terminal s \<and>
     sv_terminal t = sv_terminal s \<and> wk_launched t = wk_launched s \<and> (wk_members s = 0 \<longrightarrow> wk_members t = 0)"
  by (cases rule: step.cases) auto

lemma dead_reaches:
  "reaches c s t \<Longrightarrow> \<not> sv_alive s \<Longrightarrow>
     \<not> sv_alive t \<and> fs_manifest t = fs_manifest s \<and> fs_terminal t = fs_terminal s \<and>
     sv_terminal t = sv_terminal s \<and> wk_launched t = wk_launched s \<and> (wk_members s = 0 \<longrightarrow> wk_members t = 0)"
  by (induction rule: reaches.induct) (auto dest: dead_step)

text \<open>With a confirmed terminal record no worker is alive.\<close>

lemma confirmed_no_worker:
  assumes "reachable c s" and "sv_terminal s = Some v" and "tm_cleanup v = ConfirmedCleanup"
  shows "\<not> worker_alive s"
  using reachable_invariant(3) [OF assms(1)] assms(2,3)
  by (auto simp: confirmed_ok_def recorded_def quiet_def launch_barred_def worker_alive_def)

end
