(* ===== verification/Parsed_Values.thy ===== *)
theory Parsed_Values
  imports Record_Roundtrip
begin

text \<open>
  What \<open>JSON.parse\<close> gives is JSON, and no object in it has a key twice: a value that came over a stream
  or out of a file can be written again and read back. Upper bounds of the size of canonical texts,
  found without the text, show that a concrete record fits its file and that a frame can be made.
\<close>

section \<open>Values\<close>

definition parsed :: "js \<Rightarrow> bool" where
  "parsed v \<longleftrightarrow> is_json v \<and> js_distinct v"

lemma parsed_simps [simp]:
  "parsed JNull" "parsed (JBool b)" "parsed (JInt n)" "parsed (JStr s)"
  "parsed (JArr vs) \<longleftrightarrow> list_all parsed vs"
  "parsed (JObj kvs) \<longleftrightarrow> distinct (map fst kvs) \<and> list_all (\<lambda>p. parsed (snd p)) kvs"
  by (auto simp: parsed_def list_all_iff)

lemma assign_parsed:
  assumes "list_all (\<lambda>p. parsed (snd p)) d" and "distinct (map fst d)" and "parsed (snd p)"
  shows "list_all (\<lambda>p. parsed (snd p)) (assign d p) \<and> distinct (map fst (assign d p))"
proof -
  have "map fst (map (\<lambda>q. if fst q = fst p then p else q) d) = map fst d" by auto
  with assms show ?thesis by (auto simp: assign_def list_all_iff image_iff simp del: map_map)
qed

lemma js_object_parsed:
  assumes "list_all (\<lambda>p. parsed (snd p)) kvs"
  shows "parsed (js_object kvs)"
proof -
  have "list_all (\<lambda>p. parsed (snd p)) (foldl assign d kvs) \<and> distinct (map fst (foldl assign d kvs))"
    if "list_all (\<lambda>p. parsed (snd p)) d" "distinct (map fst d)" for d
    using that assms
  proof (induction kvs arbitrary: d)
    case (Cons p kvs)
    with assign_parsed [of d p] show ?case by simp
  qed simp
  from this [of "[]"] show ?thesis
    by (simp add: js_object_def distinct_js_key_order list_all_iff)
qed

lemma parse_number_parsed: "parse_number s = Some (v, r) \<Longrightarrow> parsed v"
  by (auto simp: parse_number_def split: list.splits if_splits)

lemma parse_literal_parsed: "parse_literal s = Some (v, r) \<Longrightarrow> parsed v"
  by (auto simp: parse_literal_def split: if_splits)

lemma parse_parsed:
  shows "parse_value n s = Some (v, r) \<Longrightarrow> parsed v"
    and "parse_items n s = Some (vs, r) \<Longrightarrow> list_all parsed vs"
    and "parse_members n s = Some (kvs, r) \<Longrightarrow> list_all (\<lambda>p. parsed (snd p)) kvs"
proof (induction n s and n s and n s arbitrary: v r and vs r and kvs r
    rule: parse_value_parse_items_parse_members.induct)
  case (2 n s)
  show ?case
  proof (cases "skip_ws s")
    case Nil
    with 2 show ?thesis by simp
  next
    case (Cons c cs)
    with 2 show ?thesis
      by (fastforce split: if_splits list.splits intro: js_object_parsed parse_number_parsed parse_literal_parsed)
  qed
next
  case (4 n s)
  then show ?case by (fastforce split: option.splits list.splits if_splits)
next
  case (6 n s)
  then show ?case by (fastforce split: option.splits list.splits if_splits)
qed simp_all

lemma parse_json_parsed: "parse_json s = Some v \<Longrightarrow> parsed v"
  by (auto simp: parse_json_def dest: parse_parsed(1) split: option.splits if_splits)

section \<open>Sizes\<close>

lemma byte_length_simps [simp]: "byte_length [] = 0"
  "byte_length (c # s) = (if (of_char c :: nat) < 128 then 1 else 2) + byte_length s"
  by (simp_all add: byte_length_def)

lemma byte_length_quote: "byte_length (quote_json s) \<le> 2 + 6 * length s"
proof -
  have "byte_length (escape_char c) \<le> 6" for c
    by (auto simp: escape_char_def hex_char_def)
  then have "byte_length (concat (map escape_char s)) \<le> 6 * length s"
    by (induction s) (auto intro: add_mono)
  then show ?thesis by (simp add: quote_json_def)
qed

text \<open>An upper bound of the size of a canonical text, which needs no text.\<close>

fun js_weight :: "js \<Rightarrow> nat" where
  "js_weight (JStr s) = 2 + 6 * length s"
| "js_weight (JInt n) = byte_length (int_string n)"
| "js_weight (JArr vs) = 2 + sum_list (map (\<lambda>v. js_weight v + 1) vs)"
| "js_weight (JObj kvs) = 2 + sum_list (map (\<lambda>(k, v). 4 + 6 * length k + js_weight v) kvs)"
| "js_weight _ = 5"

lemma join_comma_bytes: "byte_length (join_comma ss) \<le> sum_list (map (\<lambda>s. byte_length s + 1) ss)"
  by (induction ss rule: join_comma.induct) simp_all

lemma those_weight:
  assumes "\<And>x y. x \<in> set xs \<Longrightarrow> f x = Some y \<Longrightarrow> (g y :: nat) \<le> h x" and "those (map f xs) = Some ys"
  shows "sum_list (map g ys) \<le> sum_list (map h xs)"
  using assms
proof (induction xs arbitrary: ys)
  case (Cons x xs)
  then obtain y zs where "f x = Some y" "those (map f xs) = Some zs" "ys = y # zs"
    by (auto split: option.splits)
  with Cons show ?case by (auto intro!: add_mono)
qed simp

lemma canonical_weight: "canonicalJson v = Some t \<Longrightarrow> byte_length t \<le> js_weight v"
proof (induction v arbitrary: t rule: canonicalJson.induct)
  case (3 s)
  then show ?case using byte_length_quote [of s] by auto
next
  case (6 vs)
  then obtain ss where ss: "those (map canonicalJson vs) = Some ss" "t = CHR ''['' # join_comma ss @ '']''" by auto
  have "sum_list (map (\<lambda>s. byte_length s + 1) ss) \<le> sum_list (map (\<lambda>v. js_weight v + 1) vs)"
    by (rule those_weight [OF _ ss(1)]) (simp add: 6(1))
  with join_comma_bytes [of ss] show ?case unfolding ss(2) by simp
next
  case (7 kvs)
  let ?field = "\<lambda>(k, s). quote_json k @ CHR '':'' # s"
  from 7(2) obtain fs where fs: "those (map (\<lambda>(k, v). map_option (Pair k) (canonicalJson v)) kvs) = Some fs"
    "t = CHR ''{'' # join_comma (map ?field (sort_key fst fs)) @ ''}''" by auto
  have "sum_list (map (\<lambda>f. byte_length (?field f) + 1) fs) \<le>
      sum_list (map (\<lambda>(k, v). 4 + 6 * length k + js_weight v) kvs)"
  proof (rule those_weight [OF _ fs(1)])
    fix x y assume x: "x \<in> set kvs" "(case x of (k, v) \<Rightarrow> map_option (Pair k) (canonicalJson v)) = Some y"
    obtain k v where kv: "x = (k, v)" by (cases x)
    with x(2) obtain s where s: "canonicalJson v = Some s" "y = (k, s)" by auto
    from 7(1) [OF x(1) kv [symmetric] s(1)] byte_length_quote [of k]
    show "byte_length (?field y) + 1 \<le> (case x of (k, v) \<Rightarrow> 4 + 6 * length k + js_weight v)"
      by (simp add: kv s(2))
  qed
  moreover have "sum_list (map (\<lambda>f. byte_length (?field f) + 1) (sort_key fst fs)) =
      sum_list (map (\<lambda>f. byte_length (?field f) + 1) fs)"
    unfolding sum_mset_sum_list [symmetric] by (simp only: mset_map mset_sort)
  moreover have "byte_length (join_comma (map ?field (sort_key fst fs))) \<le>
      sum_list (map (\<lambda>f. byte_length (?field f) + 1) (sort_key fst fs))"
    using join_comma_bytes [of "map ?field (sort_key fst fs)"] by (simp add: comp_def)
  ultimately show ?case unfolding fs(2) by simp
qed (simp_all split: if_splits)

lemma record_bytes_weight:
  assumes "is_json v" and "js_weight v \<le> n"
  shows "length (record_bytes v) \<le> n"
proof -
  from assms(1) obtain t where t: "canonicalJson v = Some t" using canonicalJson_defined_iff by blast
  from canonical_weight [OF t] assms(2) show ?thesis by (simp add: record_bytes_def text_of_def length_utf8 t)
qed

section \<open>Frames\<close>

lemma frame_exists:
  assumes "is_json v" and "js_weight v \<le> n" and "n < 4294967296" and "1 \<le> length (record_bytes v)"
  shows "\<exists>frame. encodeFrame n v = Inr frame"
proof -
  from assms(1) obtain t where "canonicalJson v = Some t" using canonicalJson_defined_iff by blast
  with record_bytes_weight [OF assms(1,2)] assms(3,4) show ?thesis
    by (simp add: encodeFrame_def record_bytes_def text_of_def Let_def)
qed

lemma object_bytes:
  assumes "is_json (JObj kvs)"
  shows "1 \<le> length (record_bytes (JObj kvs))"
proof -
  from assms obtain t where t: "canonicalJson (JObj kvs) = Some t" using canonicalJson_defined_iff by blast
  then obtain u where "t = CHR ''{'' # u" by auto
  with t show ?thesis by (simp add: record_bytes_def text_of_def length_utf8 del: canonicalJson.simps)
qed

end
