(* ===== verification/Supervisor_Evidence.thy ===== *)
theory Supervisor_Evidence
  imports Supervisor_Safety Parsed_Values
begin

text \<open>
  What a supervisor records can be read: every terminal record it holds is of its own execution, is
  bounded, and carries a result that came over the stream as valid or is a fallback.
\<close>

declare canonical_order.simps [simp del]

section \<open>Values of the stream\<close>

lemma decode_payload_parsed: "decode_payload bytes = Inr v \<Longrightarrow> parsed v"
  by (auto simp: decode_payload_def dest: parse_json_parsed split: option.splits)

lemma decodeFrame_parsed: "decodeFrame n bytes = Inr v \<Longrightarrow> parsed v"
  by (auto simp: decodeFrame_def result_simps Let_def dest: decode_payload_parsed)

lemma take_frames_parsed: "take_frames n bytes = Inr (vs, rest) \<Longrightarrow> list_all parsed vs"
proof (induction n bytes arbitrary: vs rest rule: take_frames.induct)
  case (1 n bytes)
  show ?case
  proof (cases "length bytes < 4 \<or> length bytes < read_be32 bytes + 4")
    case True
    with 1(2) show ?thesis
      by (subst (asm) take_frames.simps) (auto simp: Let_def result_simps split: if_splits)
  next
    case False
    with 1(2) obtain v vs' where step: "1 \<le> read_be32 bytes \<and> read_be32 bytes \<le> n"
      "decodeFrame n (take (read_be32 bytes + 4) bytes) = Inr v"
      "take_frames n (drop (read_be32 bytes + 4) bytes) = Inr (vs', rest)" "vs = v # vs'"
      by (subst (asm) take_frames.simps) (auto simp: Let_def result_simps split: if_splits)
    with 1(1) False have "list_all parsed vs'" by auto
    with decodeFrame_parsed [OF step(2)] step(4) show ?thesis by simp
  qed
qed

lemma req_parsed:
  assumes "parsed (JObj f)" and "req k d f = Some x"
  obtains v where "parsed v" and "d v = Some x"
  using assms by (auto simp: req_def bind_eq_Some_conv list_all_iff dest!: map_of_SomeD)

lemma any_obj_parsed: "any_obj v = Some f \<Longrightarrow> v = JObj f"
  by (simp add: any_obj_def split: js.splits)

lemma result_dec_parsed: "parsed v \<Longrightarrow> result_dec v = Some r \<Longrightarrow> distinct_result r"
proof -
  assume v: "parsed v" "result_dec v = Some r"
  show "distinct_result r"
  proof (cases r)
    case (SucceededResult out)
    from v(2) obtain f k where k: "any_obj v = Some f" "req ''status'' result_status_dec f = Some k"
      by (auto simp: result_dec_def bind_eq_Some_conv)
    with v(2) SucceededResult have f: "any_obj v = Some f" "req ''output'' any_js f = Some out"
      by (cases k; auto simp: result_dec_def bind_eq_Some_conv)+
    with v(1) any_obj_parsed [OF f(1)] have "parsed (JObj f)" by simp
    then obtain w where "parsed w" "any_js w = Some out" using f(2) by (rule req_parsed)
    then show ?thesis by (simp add: SucceededResult distinct_result_def any_js_def parsed_def)
  qed (auto simp: distinct_result_def failure_js_def)
qed

lemma when_valid_eq [simp]: "when_valid p x = Some y \<longleftrightarrow> x = Some y \<and> p y"
  by (auto simp: when_valid_def bind_eq_Some_conv split: if_splits)

lemma serialized_dec_valid: "assertSerializedCommandExecution v = Some c \<Longrightarrow> valid_serialized c"
  by (auto simp: assertSerializedCommandExecution_def bind_eq_Some_conv valid_serialized_def)

lemma host_output_valid:
  assumes "parsed v" and "assertRuntimeHostOutput v = Some x"
  shows "valid_output x"
proof -
  from assms(2) obtain f where f: "any_obj v = Some f" by (auto simp: assertRuntimeHostOutput_def bind_eq_Some_conv)
  with assms(1) any_obj_parsed have p: "parsed (JObj f)" by auto
  have result: "distinct_result r" if "req ''result'' result_dec f = Some r" for r
    using p that by (rule req_parsed) (rule result_dec_parsed)
  have command: "valid_serialized c" if "req ''result'' assertSerializedCommandExecution f = Some c" for c
    using p that by (rule req_parsed) (rule serialized_dec_valid)
  from assms(2) f result command show ?thesis
    by (auto simp: assertRuntimeHostOutput_def bind_eq_Some_conv simp del: parsed_simps split: if_splits)
qed

section \<open>Invariants of the evidence\<close>

definition result_ok :: "terminal_result option \<Rightarrow> bool" where
  "result_ok r \<longleftrightarrow> pred_option valid_terminal_result r"

lemma settle_value_ok:
  assumes "settle_value (log, r) v = ((log', r'), ok)" and "parsed v" and "sound_log log" and "result_ok r"
  shows "sound_log log' \<and> result_ok r'"
proof (cases "assertRuntimeHostOutput v")
  case None
  with assms show ?thesis by (simp add: settle_value_def)
next
  case (Some x)
  from host_output_valid [OF assms(2) Some] have x: "valid_output x" .
  show ?thesis
  proof (cases x)
    case (EventOutput e)
    with x have "sound_event e" by (simp add: validRuntimeEvent_def valid_sound_event)
    with Some EventOutput assms append_sound show ?thesis
      by (auto simp: settle_value_def split: prod.splits)
  qed (use Some x assms in \<open>auto simp: settle_value_def result_ok_def split: if_splits\<close>)
qed

lemma settle_values_ok:
  "settle_values (log, r) vs = ((log', r'), ok) \<Longrightarrow> list_all parsed vs \<Longrightarrow> sound_log log \<Longrightarrow> result_ok r \<Longrightarrow>
     sound_log log' \<and> result_ok r'"
proof (induction vs arbitrary: log r)
  case (Cons v vs)
  obtain log1 r1 ok1 where v: "settle_value (log, r) v = ((log1, r1), ok1)" by (metis surj_pair)
  with Cons.prems settle_value_ok have "sound_log log1 \<and> result_ok r1" by auto
  with v Cons show ?case by (auto split: if_splits)
qed simp

lemma settle_chunk_ok:
  "settle_chunk buffer (log, r) chunk = (rest, (log', r'), ok) \<Longrightarrow> sound_log log \<Longrightarrow> result_ok r \<Longrightarrow>
     sound_log log' \<and> result_ok r'"
  by (auto simp: settle_chunk_def decoder_push_frames dest: settle_values_ok take_frames_parsed
      split: sum.splits)

definition sound_terminal :: "supervision \<Rightarrow> execution_terminal \<Rightarrow> bool" where
  "sound_terminal c v \<longleftrightarrow>
     tm_executionId v = ex_executionId (sn_plan c) \<and> tm_generation v = ex_generation (sn_plan c) \<and>
     length (tm_events v) \<le> 256 \<and> list_all sound_event (tm_events v) \<and> valid_terminal_result (tm_result v)"

text \<open>Results with a short message are far below the bound.\<close>

lemma short_failure:
  assumes "length (f_message f) \<le> 1000"
  shows "assertExecutionResult (FailedResult f)"
proof -
  have "length (failure_category_name (f_category f)) \<le> 30" by (cases "f_category f") simp_all
  with assms byte_length_quote [of "f_message f"] byte_length_quote [of "failure_category_name (f_category f)"]
    byte_length_quote [of "''category''"] byte_length_quote [of "''message''"]
    byte_length_quote [of "''status''"] byte_length_quote [of "''failed''"] byte_length_quote [of "''failure''"]
  show ?thesis
    by (simp add: assertExecutionResult_def fits_json_def failure_js_def MAX_EXECUTION_RESULT_BYTES_def)
qed

lemma short_cancelled:
  assumes "length r \<le> 1000"
  shows "assertExecutionResult (CancelledResult r)"
  using assms byte_length_quote [of r] byte_length_quote [of "''status''"] byte_length_quote [of "''reason''"]
    byte_length_quote [of "''cancelled''"]
  by (simp add: assertExecutionResult_def fits_json_def MAX_EXECUTION_RESULT_BYTES_def)

lemma valid_base64_nil [simp]: "valid_base64 []"
  by (simp add: valid_base64_def)

lemma fallback_valid [simp]:
  "valid_terminal_result (fallback_result k msg)" "valid_terminal_result (cancelled_result k)"
proof -
  have "valid_serialized (commandExecutionToRecord (emptyCommandFailure m))" for m
    by (simp add: valid_serialized_def commandExecutionToRecord_def emptyCommandFailure_def valid_command_report_def
        nonnegative_int_def MAX_SAFE_INTEGER_def)
  then show "valid_terminal_result (fallback_result k msg)" "valid_terminal_result (cancelled_result k)"
    by (cases k; simp add: fallback_result_def cancelled_result_def short_failure short_cancelled
      distinct_result_def failureResult_def failure_js_def)+
qed


lemma compact_valid: "valid_terminal_result r \<Longrightarrow> valid_terminal_result (compact_result r)"
proof (cases r)
  case (RuntimeTerminal x)
  then show ?thesis
    by (simp add: compact_result_def short_failure distinct_result_def failure_js_def)
next
  case (CommandTerminal x)
  assume "valid_terminal_result r"
  with CommandTerminal show ?thesis
    by (simp add: compact_result_def valid_serialized_def commandExecutionToRecord_def emptyCommandFailure_def
        valid_command_report_def)
qed

lemma bounded_sound:
  assumes "sound_terminal c v"
  shows "sound_terminal c (boundedTerminal b v)"
proof -
  have "length (filter (\<lambda>e. \<not> is_log e) (tm_events v)) \<le> length (tm_events v)" by (rule length_filter_le)
  then have "sound_terminal c (v\<lparr>tm_outcome := out, tm_events := filter (\<lambda>e. \<not> is_log e) (tm_events v),
      tm_result := compact_result (tm_result v)\<rparr>)" for out
    using assms by (auto simp: sound_terminal_def list_all_iff intro: compact_valid le_trans [OF length_filter_le])
  with assms show ?thesis
    by (simp add: boundedTerminal_def Let_def) (simp add: sound_terminal_def)
qed

definition evidence_sound :: "supervision \<Rightarrow> supervisor \<Rightarrow> bool" where
  "evidence_sound c s \<longleftrightarrow>
     sound_log (sv_log s) \<and>
     (case sv_settlement s of
        ReadingOutput _ r \<Rightarrow> result_ok r
      | AwaitingClose _ r \<Rightarrow> result_ok r
      | CountingMembers _ _ r \<Rightarrow> result_ok r
      | _ \<Rightarrow> True) \<and>
     (\<forall>v. recorded s v \<longrightarrow> sound_terminal c v) \<and>
     pred_option (\<lambda>f. length f \<le> EXECUTION_TERMINAL_MAX_BYTES) (fs_terminal s)"

lemma evidence_frame:
  assumes "evidence_sound c s" and "sv_log t = sv_log s" "sv_settlement t = sv_settlement s"
    "sv_terminal t = sv_terminal s" "fs_terminal t = fs_terminal s"
    and "\<And>v. pending_terminal (sv_publication t) = Some v \<Longrightarrow> pending_terminal (sv_publication s) = Some v"
  shows "evidence_sound c t"
  using assms by (auto simp: evidence_sound_def recorded_def)

lemma terminal_value_sound:
  assumes "terminal_value (sn_plan c) b log r k = (log', x)" and "sound_log log" and "valid_terminal_result r"
  shows "sound_log log' \<and> (\<forall>v. x = Some v \<longrightarrow> sound_terminal c v)"
proof -
  obtain log1 ok where f: "flushDroppedLogs log = (log1, ok)" by (metis surj_pair)
  from flush_sound [OF f assms(2)] have log1: "sound_log log1" .
  then have "sound_terminal c \<lparr>tm_executionId = ex_executionId (sn_plan c), tm_generation = ex_generation (sn_plan c),
      tm_outcome = terminalOutcome b r, tm_events = map re_event (el_events log1), tm_result = r, tm_cleanup = k\<rparr>"
    using assms(3) by (simp add: sound_terminal_def sound_log_def ordered_log_def list_all_iff)
  with f log1 assms(1) show ?thesis by (auto simp: terminal_value_def bounded_sound split: if_splits)
qed

lemma evidence_publish:
  assumes "evidence_sound c s" and "valid_terminal_result r"
  shows "evidence_sound c (publishTerminal c r k s)"
proof -
  obtain log x where v: "terminal_value (sn_plan c) (sv_requested s) (sv_log s) r k = (log, x)" by (metis surj_pair)
  from terminal_value_sound [OF v _ assms(2)] assms(1)
  have "sound_log log \<and> (\<forall>v. x = Some v \<longrightarrow> sound_terminal c v)" by (simp add: evidence_sound_def)
  with v assms(1) show ?thesis
    by (cases x) (auto simp: publishTerminal_def evidence_sound_def recorded_def)
qed

lemma begin_terminate_evidence:
  assumes "begin_terminate c s = (t, pc)" and "evidence_sound c s"
  shows "evidence_sound c t"
proof -
  have "evidence_sound c (s\<lparr>sv_requested := True\<rparr>)" using assms(2) by (elim evidence_frame) simp_all
  with assms(1) show ?thesis
    by (auto simp: begin_terminate_def Let_def fallback_def intro: evidence_publish split: if_splits)
qed

lemma terminate_step_evidence: "terminate_step c (s, pc) (t, pc') \<Longrightarrow> evidence_sound c s \<Longrightarrow> evidence_sound c t"
  by (erule terminate_step.cases) (auto simp: fallback_def intro: evidence_publish)

lemma begin_shutdown_evidence: "evidence_sound c s \<Longrightarrow> evidence_sound c (begin_shutdown c b s)"
proof (cases rule: begin_shutdown_cases [of c b s])
  case (3 t pc)
  assume "evidence_sound c s"
  then have "evidence_sound c (s\<lparr>sv_stopping := True\<rparr>)" by (elim evidence_frame) simp_all
  from begin_terminate_evidence [OF 3(1) this] show ?thesis unfolding 3(2) by (elim evidence_frame) simp_all
qed (auto elim: evidence_frame)

lemma evidence_init: "evidence_sound c (awaiting_start c)"
  by (simp add: evidence_sound_def awaiting_start_def recorded_def)

lemma evidence_step:
  assumes "step c s s'" and "evidence_sound c s"
  shows "evidence_sound c s'"
  using assms(1)
proof (cases rule: step.cases)
  case (serve_terminate t pc)
  from begin_terminate_evidence [OF serve_terminate(5) assms(2)] show ?thesis
    unfolding serve_terminate(1) by (elim evidence_frame) simp_all
next
  case (terminate_request pc t pc')
  from terminate_step_evidence [OF terminate_request(4) assms(2)] show ?thesis
    unfolding terminate_request(1) by (elim evidence_frame) simp_all
next
  case (terminate_shutdown pc t pc')
  from terminate_step_evidence [OF terminate_shutdown(4) assms(2)] show ?thesis
    unfolding terminate_shutdown(1) by (elim evidence_frame) simp_all
next
  case shutdown
  with assms(2) show ?thesis by (simp add: begin_shutdown_evidence)
next
  case serve_release
  with assms(2) show ?thesis by (simp add: begin_shutdown_evidence)
next
  case host_counted
  show ?thesis
    unfolding host_counted(1) failed_ready_def fallback_def
    by (rule evidence_frame [OF evidence_publish [OF assms(2)]]) simp_all
next
  case (members_counted valid code result groupEmpty)
  with assms(2) have "result_ok result" by (simp add: evidence_sound_def)
  then have "valid_terminal_result
      (case result of None \<Rightarrow> fallback c ''Command host cleanup is unknown'' | Some r \<Rightarrow> r)"
    by (cases result) (simp_all add: fallback_def result_ok_def)
  from evidence_publish [OF assms(2) this] show ?thesis
    unfolding members_counted(1) settle_def by (auto simp: evidence_sound_def recorded_def)
next
  case (host_output buffer result chunk)
  obtain a b d e where chunk: "settle_chunk buffer (sv_log s, result) chunk = (a, (b, d), e)"
    by (cases "settle_chunk buffer (sv_log s, result) chunk") (metis surj_pair)
  from host_output assms(2) have "sound_log (sv_log s)" "result_ok result" by (auto simp: evidence_sound_def)
  with settle_chunk_ok [OF chunk] have "sound_log b \<and> result_ok d" by simp
  with host_output chunk assms(2) show ?thesis
    by (simp add: output_chunk_def evidence_sound_def recorded_def)
next
  case active_published
  with assms(2) show ?thesis
    by (cases "encodeFrame EXECUTION_LAUNCH_FRAME_MAX_BYTES (prepare_js (sn_prepare c))")
      (simp_all add: launch_host_def evidence_sound_def recorded_def result_ok_def)
next
  case terminal_linked
  with assms(2) show ?thesis
    by (auto simp: link_terminal_def evidence_sound_def recorded_def split: option.splits)
next
  case host_ready
  with assms(2) show ?thesis by (elim evidence_frame) (auto simp: readiness_def split: if_splits)
qed (use assms(2) in \<open>auto simp: evidence_sound_def recorded_def authority_read_def replace_manifest_def
    spawn_host_def leader_inspected_def output_ended_def host_closed_def settled_result_def result_ok_def
    terminal_written_def split: if_splits\<close>)

lemma reachable_evidence: "reachable c s \<Longrightarrow> evidence_sound c s"
  unfolding reachable_def by (induction rule: reaches.induct) (auto intro: evidence_init evidence_step)


section \<open>Reading it back\<close>

lemma is_json_fields [simp]:
  "is_json (observation_js e)" "is_json (plan_js p)" "is_json (identity_js i)" "is_json (private_process_js q)"
  "is_json (command_report_js r)" "is_json (failure_js f)"
  by (cases e) (auto simp: metadata_js_def usage_js_def opt_field_def plan_js_def plan_fields_def identity_js_def
      private_process_js_def command_report_js_def failure_js_def split: option.splits)

lemma js_distinct_fields [simp]:
  "js_distinct (plan_js p)" "js_distinct (identity_js i)" "js_distinct (private_process_js q)"
  "js_distinct (command_report_js r)" "js_distinct (failure_js f)"
  by (auto simp: plan_js_def plan_fields_def identity_js_def private_process_js_def command_report_js_def
      failure_js_def split: option.splits)

lemma is_json_result: "assertExecutionResult r \<Longrightarrow> is_json (result_js r)"
  using canonicalJson_defined_iff [of "result_js r"]
  by (auto simp: assertExecutionResult_def fits_json_def split: option.splits)

lemma parsed_serialized [simp]: "parsed (serialized_js c)"
  by (auto simp: parsed_def serialized_js_def opt_field_def split: option.splits)

lemma parsed_terminal:
  "valid_terminal_result (tm_result v) \<Longrightarrow> parsed (terminal_js v)"
  by (cases "tm_result v")
    (auto simp: terminal_js_def version_field_def list_all_iff distinct_result_def parsed_def [of "result_js _"]
      parsed_def [of "observation_js _"] is_json_result)

lemma parsed_manifest [simp]: "parsed (manifest_js m)"
  by (simp add: manifest_js_def manifest_fields_def version_field_def parsed_def [of "plan_js _"]
      parsed_def [of "private_process_js _"])

text \<open>A terminal file that can be read at all gives the record that the supervisor holds.\<close>

lemma terminal_dec:
  "valid_terminal_result (tm_result t) \<Longrightarrow>
     assertExecutionTerminalRecord (canonical_order (terminal_js t)) =
       (if valid_terminal t then Some (canonical_terminal t) else None)"
  by (cases t) (auto simp: assertExecutionTerminalRecord_def terminal_js_def version_field_def
      valid_terminal_def canonical_terminal_def decode_simps simp del: when_valid_eq)

lemma read_terminal:
  assumes "reachable c s" and "sv_terminal s = Some v"
  shows "readRecord EXECUTION_TERMINAL_MAX_BYTES assertExecutionTerminalRecord (fs_terminal s) =
    (if valid_terminal v then Loaded (canonical_terminal v) else UnreadableRecord)"
proof -
  from reachable_invariant(2) [OF assms(1)] assms(2) have stored: "fs_terminal s = Some (terminal_bytes v)"
    by (simp add: files_ok_def)
  from reachable_evidence [OF assms(1)] assms(2)
  have v: "valid_terminal_result (tm_result v)" and len: "length (terminal_bytes v) \<le> EXECUTION_TERMINAL_MAX_BYTES"
    by (auto simp: evidence_sound_def recorded_def sound_terminal_def stored)
  from parsed_terminal [OF v] obtain t where t: "canonicalJson (terminal_js v) = Some t"
    unfolding parsed_def using canonicalJson_defined_iff by blast
  with parse_json_canonical [OF t] parsed_terminal [OF v] len terminal_dec [OF v] show ?thesis
    by (simp add: readRecord_def stored terminal_bytes_def record_bytes_def text_of_def decode_payload_def parsed_def)
qed

lemma read_manifest:
  assumes "valid_manifest (sn_manifest c)" and "manifest_fits c st"
  shows "readRecord EXECUTION_PRIVATE_RECORD_MAX_BYTES assertExecutionManifestRecord (Some (manifest_bytes c st)) =
    Loaded ((sn_manifest c)\<lparr>mf_state := st\<rparr>)"
  unfolding manifest_bytes_def
proof (rule readRecord_back)
  let ?m = "(sn_manifest c)\<lparr>mf_state := st\<rparr>"
  show "is_json (manifest_js ?m)" "js_distinct (manifest_js ?m)"
    using parsed_manifest [of ?m] by (simp_all add: parsed_def del: parsed_manifest)
  show "length (record_bytes (manifest_js ?m)) \<le> EXECUTION_PRIVATE_RECORD_MAX_BYTES"
    using assms(2) by (simp add: manifest_fits_def manifest_bytes_def)
  show "assertExecutionManifestRecord (canonical_order (manifest_js ?m)) = Some ?m"
    using assms(1) by (intro manifest_back) (simp add: valid_manifest_def)
qed

end
