(* ===== verification/Process_Identity.thy ===== *)
theory Process_Identity
  imports Supervisor_Protocol
begin

text \<open>
  Identity and liveness of local processes (\<open>execution-host/src/process.ts\<close>): what is read from the
  process table, and what is concluded from it. The table itself is outside: a probe gives the text of
  \<open>/proc/<pid>/stat\<close> or of \<open>ps\<close>, finds no process, or fails.
\<close>

section \<open>Reading the process table\<close>

text \<open>The white space of \<open>\s\<close> and \<open>trim\<close> among the code units below 256.\<close>

definition is_space :: "char \<Rightarrow> bool" where
  "is_space c \<longleftrightarrow> (of_char c :: nat) \<in> {9, 10, 11, 12, 13, 32, 160}"

definition trim_space :: "string \<Rightarrow> string" where
  "trim_space s = rev (dropWhile is_space (rev (dropWhile is_space s)))"

text \<open>\<open>split(/\s+/)\<close> of a text that neither begins nor ends with white space.\<close>

function split_fields :: "string \<Rightarrow> string list" where
  "split_fields s =
     (let rest = dropWhile (\<lambda>c. \<not> is_space c) s in
      if rest = [] then [s]
      else takeWhile (\<lambda>c. \<not> is_space c) s # split_fields (dropWhile is_space rest))"
  by pat_completeness auto
termination
proof (relation "measure length")
  fix s :: string and rest
  assume rest: "rest = dropWhile (\<lambda>c. \<not> is_space c) s" "rest \<noteq> []"
  then have "is_space (hd rest)" using hd_dropWhile [of "\<lambda>c. \<not> is_space c" s] by simp
  then have "length (dropWhile is_space rest) < length rest"
    using rest(2) length_dropWhile_le [of is_space "tl rest"] by (cases rest) auto
  also have "\<dots> \<le> length s" unfolding rest(1) by (rule length_dropWhile_le)
  finally show "(dropWhile is_space rest, s) \<in> measure length" by simp
qed simp

declare split_fields.simps [simp del]

text \<open>The part after the last closing parenthesis and the blank behind it, if it is not too early.\<close>

fun last_index :: "char \<Rightarrow> nat \<Rightarrow> string \<Rightarrow> nat option" where
  "last_index c n [] = None"
| "last_index c n (d # s) =
     (case last_index c (Suc n) s of
        Some i \<Rightarrow> Some i
      | None \<Rightarrow> if d = c then Some n else None)"

text \<open>\<open>Number\<close> of a field that is not a number is \<open>NaN\<close>, which is not a safe integer.\<close>

definition decimal :: "string \<Rightarrow> int option" where
  "decimal s = (if s \<noteq> [] \<and> list_all is_digit s then Some (int (digits_value s)) else None)"

record raw_process =
  rp_processGroupId :: int
  rp_state :: string
  rp_startToken :: string

definition linux_fields :: "string list \<Rightarrow> raw_process option" where
  "linux_fields fs =
     (if length fs \<le> 19 \<or> fs ! 0 = [] \<or> fs ! 19 = [] then None
      else (case decimal (fs ! 2) of
          None \<Rightarrow> None
        | Some g \<Rightarrow>
            if is_safe_integer g \<and> 1 \<le> g
            then Some \<lparr>rp_processGroupId = g, rp_state = fs ! 0, rp_startToken = fs ! 19\<rparr> else None))"

text \<open>\<open>linuxProcess\<close>: \<open>None\<close> is its exception for a malformed text.\<close>

definition linuxProcess :: "string \<Rightarrow> raw_process option" where
  "linuxProcess stat =
     (case last_index (CHR '')'') 0 stat of
        None \<Rightarrow> None
      | Some i \<Rightarrow>
          if i < 2 then None else linux_fields (split_fields (trim_space (drop (i + 2) stat))))"

text \<open>\<open>liveState\<close>: zombies and dead processes are not alive.\<close>

definition liveState :: "string \<Rightarrow> bool" where
  "liveState st = (case st of [] \<Rightarrow> False | c # _ \<Rightarrow> c \<noteq> CHR ''Z'' \<and> c \<noteq> CHR ''X'')"

text \<open>A line of \<open>ps -axo pid=,pgid=,stat=\<close>, and the members that \<open>liveProcessGroup\<close> finds.\<close>

definition ps_line :: "string \<Rightarrow> (int \<times> int \<times> string) option" where
  "ps_line line =
     (case split_fields (trim_space line) of
        [p, g, st] \<Rightarrow>
          (case (decimal p, decimal g) of
             (Some pid, Some pgid) \<Rightarrow> if st = [] then None else Some (pid, pgid, st)
           | _ \<Rightarrow> None)
      | _ \<Rightarrow> None)"

definition liveProcessGroup :: "int \<Rightarrow> string list \<Rightarrow> int list" where
  "liveProcessGroup groupId stdout_lines =
     concat (map (\<lambda>line. case ps_line line of
        None \<Rightarrow> []
      | Some (pid, pgid, st) \<Rightarrow> if pgid = groupId \<and> liveState st then [pid] else []) stdout_lines)"

section \<open>Probes\<close>

text \<open>A probe of a process: its identity, no process, or a failure.\<close>

datatype probe = Found private_process | NoProcess | ProbeFailed

text \<open>\<open>inspectPrivateProcess\<close>, on Linux: the table entry with the digests of host and boot.\<close>

definition inspectPrivateProcess :: "int \<Rightarrow> string \<times> string \<Rightarrow> string option \<Rightarrow> probe" where
  "inspectPrivateProcess pid digests stat =
     (if \<not> is_safe_integer pid \<or> pid < 1 then ProbeFailed
      else (case stat of
          None \<Rightarrow> NoProcess
        | Some txt \<Rightarrow> (case linuxProcess txt of
              None \<Rightarrow> ProbeFailed
            | Some r \<Rightarrow> Found
                \<lparr>lp_version = ''anastom.dev/local-process/v1alpha1'', lp_hostIdentityDigest = fst digests,
                 lp_bootIdentityDigest = snd digests, lp_pid = pid, lp_startToken = rp_startToken r,
                 pp_processGroupId = rp_processGroupId r, pp_state = rp_state r\<rparr>)))"

text \<open>\<open>publicIdentity\<close>.\<close>

definition publicIdentity :: "private_process \<Rightarrow> local_process_identity" where
  "publicIdentity p = local_process_identity.truncate p"

text \<open>\<open>localProcessIdentity\<close>: \<open>None\<close> is its exception.\<close>

definition localProcessIdentity :: "probe \<Rightarrow> local_process_identity option" where
  "localProcessIdentity p =
     (case p of Found q \<Rightarrow> if liveState (pp_state q) then Some (publicIdentity q) else None | _ \<Rightarrow> None)"

datatype process_state = ProcessAlive | ProcessAbsent | ProcessUnknown

text \<open>\<open>observeLocalProcess\<close>: a failure is never an absence. \<open>None\<close> is the exception for an invalid identity.\<close>

definition observeLocalProcess :: "local_process_identity \<Rightarrow> (string \<times> string) option \<Rightarrow> probe \<Rightarrow>
    process_state option" where
  "observeLocalProcess expected digests p =
     (if \<not> valid_process_identity expected then None
      else Some (case digests of
          None \<Rightarrow> ProcessUnknown
        | Some (host, boot) \<Rightarrow>
            if host \<noteq> lp_hostIdentityDigest expected then ProcessUnknown
            else if boot \<noteq> lp_bootIdentityDigest expected then ProcessAbsent
            else (case p of
                ProbeFailed \<Rightarrow> ProcessUnknown
              | NoProcess \<Rightarrow> ProcessAbsent
              | Found q \<Rightarrow>
                  if \<not> liveState (pp_state q) \<or> lp_startToken q \<noteq> lp_startToken expected then ProcessAbsent
                  else ProcessAlive)))"

text \<open>\<open>matchesPrivateProcess\<close>: \<open>None\<close> is its exception.\<close>

definition matchesPrivateProcess :: "private_process \<Rightarrow> probe \<Rightarrow> bool option" where
  "matchesPrivateProcess expected p =
     (case p of
        ProbeFailed \<Rightarrow> None
      | NoProcess \<Rightarrow> Some False
      | Found q \<Rightarrow> Some
          (liveState (pp_state q) \<and> lp_hostIdentityDigest q = lp_hostIdentityDigest expected \<and>
           lp_bootIdentityDigest q = lp_bootIdentityDigest expected \<and>
           lp_startToken q = lp_startToken expected \<and>
           pp_processGroupId q = pp_processGroupId expected))"


section \<open>A process may have any name\<close>

lemma last_index_None: "c \<notin> set s \<Longrightarrow> last_index c n s = None"
  by (induction s arbitrary: n) auto

lemma last_index_split: "c \<notin> set s \<Longrightarrow> last_index c n (pre @ c # s) = Some (n + length pre)"
  by (induction pre arbitrary: n) (simp_all add: last_index_None)

definition is_field :: "string \<Rightarrow> bool" where
  "is_field f \<longleftrightarrow> f \<noteq> [] \<and> list_all (\<lambda>c. \<not> is_space c) f \<and> CHR '')'' \<notin> set f"

fun join_space :: "string list \<Rightarrow> string" where
  "join_space [] = []"
| "join_space [f] = f"
| "join_space (f # fs) = f @ CHR '' '' # join_space fs"

lemma is_space_blank [simp]: "is_space (CHR '' '')" "is_space (CHR 0x0A)"
  by (simp_all add: is_space_def)

lemma take_field: "list_all (\<lambda>c. \<not> is_space c) f \<Longrightarrow> takeWhile (\<lambda>c. \<not> is_space c) (f @ CHR '' '' # s) = f"
  "list_all (\<lambda>c. \<not> is_space c) f \<Longrightarrow> dropWhile (\<lambda>c. \<not> is_space c) (f @ CHR '' '' # s) = CHR '' '' # s"
  "list_all (\<lambda>c. \<not> is_space c) f \<Longrightarrow> dropWhile (\<lambda>c. \<not> is_space c) f = []"
  by (induction f) auto

lemma join_space_head:
  assumes "list_all is_field fs" and "fs \<noteq> []"
  shows "join_space fs \<noteq> [] \<and> \<not> is_space (hd (join_space fs)) \<and> \<not> is_space (last (join_space fs)) \<and>
    CHR '')'' \<notin> set (join_space fs)"
  using assms
  by (induction fs rule: join_space.induct) (auto simp: is_field_def list_all_iff)

lemma drop_space_head: "s \<noteq> [] \<Longrightarrow> \<not> is_space (hd s) \<Longrightarrow> dropWhile is_space (s @ t) = s @ t"
  by (cases s) simp_all

lemma split_join_space: "list_all is_field fs \<Longrightarrow> fs \<noteq> [] \<Longrightarrow> split_fields (join_space fs) = fs"
proof (induction fs rule: join_space.induct)
  case (2 f)
  then show ?case by (subst split_fields.simps) (simp add: is_field_def take_field Let_def)
next
  case (3 f g fs)
  then have "dropWhile is_space (CHR '' '' # join_space (g # fs)) = join_space (g # fs)"
    using join_space_head [of "g # fs"] drop_space_head [of "join_space (g # fs)" "[]"] by simp
  with 3 show ?case
    by (subst split_fields.simps) (simp add: is_field_def take_field Let_def)
qed simp

lemma trim_join_space:
  assumes "list_all is_field fs" and "fs \<noteq> []"
  shows "trim_space (join_space fs @ [CHR 0x0A]) = join_space fs"
proof -
  let ?s = "join_space fs"
  note h = join_space_head [OF assms]
  have "dropWhile is_space (rev ?s) = rev ?s"
    using h drop_space_head [of "rev ?s" "[]"] by (simp add: hd_rev)
  then show ?thesis using h by (simp add: trim_space_def drop_space_head)
qed

lemma linux_stat_parsed:
  assumes "list_all is_field fs" and "fs \<noteq> []" and "2 \<le> length pre"
  shows "linuxProcess (pre @ '') '' @ join_space fs @ [CHR 0x0A]) = linux_fields fs"
proof -
  have "CHR '')'' \<notin> set (CHR '' '' # join_space fs @ [CHR 0x0A])"
    using join_space_head [OF assms(1,2)] by simp
  from last_index_split [OF this, of 0 pre] show ?thesis
    using assms by (simp add: linuxProcess_def trim_join_space split_join_space)
qed

text \<open>Only a process table that was read and does not show the process alive proves its absence.\<close>

lemma observed_absent_cases:
  "observeLocalProcess expected digests p = Some ProcessAbsent \<Longrightarrow>
     \<exists>host boot. digests = Some (host, boot) \<and> host = lp_hostIdentityDigest expected \<and>
       (boot \<noteq> lp_bootIdentityDigest expected \<or> p = NoProcess \<or>
        (\<exists>q. p = Found q \<and> (\<not> liveState (pp_state q) \<or> lp_startToken q \<noteq> lp_startToken expected)))"
  by (auto simp: observeLocalProcess_def split: if_splits option.splits probe.splits)

end
