(* ===== verification/Local_Execution_Host.thy ===== *)
theory Local_Execution_Host
  imports Process_Identity Supervisor_Steps
begin

text \<open>
  \<open>LocalExecutionHost\<close> (\<open>execution-host/src/index.ts\<close>): the client of a supervisor. Its methods read
  private files, probe the supervisor's process and send authenticated requests; each is a function of
  what it reads and is answered, in the order in which it asks. At the end is what the supervisor does
  before it serves requests (the begin of \<open>supervisor.ts\<close>), with \<open>prepare\<close> and \<open>authorize\<close> of the client;
  what other processes leave in the private directory, the probes and the random capability are arguments.
\<close>

section \<open>Requests\<close>

definition planMatches :: "'a execution_plan_ref_scheme \<Rightarrow> 'b execution_plan_ref_scheme \<Rightarrow> bool" where
  "planMatches l r \<longleftrightarrow> canonicalJson (JObj (plan_fields l)) = canonicalJson (JObj (plan_fields r))"

definition supervisorRequest :: "execution_control \<Rightarrow> supervisor_operation \<Rightarrow> int option \<Rightarrow> supervisor_request" where
  "supervisorRequest c op cursor =
     \<lparr>sq_operation = op, sq_executionId = ct_executionId c, sq_generation = ct_generation c,
      sq_capability = ct_capability c, sq_cursor = cursor\<rparr>"

text \<open>The answer on the socket, if one came in time and is one to the operation.\<close>

definition accepted_response :: "supervisor_operation \<Rightarrow> string list option \<Rightarrow> supervisor_response option" where
  "accepted_response op chunks =
     (case chunks of
        None \<Rightarrow> None
      | Some cs \<Rightarrow>
          (case readEndedFrame EXECUTION_SOCKET_FRAME_MAX_BYTES cs of
             Inl _ \<Rightarrow> None
           | Inr v \<Rightarrow> (case assertSupervisorResponse v of
                 Some (OkResponse op' st evs cursor available) \<Rightarrow>
                   if op' = op then Some (OkResponse op' st evs cursor available) else None
               | x \<Rightarrow> x)))"

fun response_ok :: "supervisor_response option \<Rightarrow> bool" where
  "response_ok (Some (OkResponse _ _ _ _ _)) = True"
| "response_ok _ = False"

text \<open>\<open>authenticated\<close> and \<open>dispatch\<close> of the supervisor, once the operation itself is done.\<close>

definition authenticated :: "supervision \<Rightarrow> supervisor_request \<Rightarrow> bool" where
  "authenticated c r \<longleftrightarrow>
     sq_executionId r = ex_executionId (sn_plan c) \<and> sq_generation r = ex_generation (sn_plan c) \<and>
     matchesExecutionCapability (sq_capability r) (ct_capability (sn_control c))"

definition dispatch :: "supervision \<Rightarrow> supervisor \<Rightarrow> supervisor_request \<Rightarrow> supervisor_response" where
  "dispatch c s r =
     (if \<not> authenticated c r then FailedResponse Unauthorized ''Supervisor request rejected''
      else if sq_operation r = CollectOp \<and> sv_settlement s = NotSettling then
        FailedResponse InvalidState ''Execution is not active''
      else if sq_operation r = ReleaseOp \<and> sv_terminal s = None then
        FailedResponse InvalidState ''Execution is not terminal''
      else if sq_operation r = EventsOp then
        (let cursor = case sq_cursor r of None \<Rightarrow> 0 | Some n \<Rightarrow> n in
         OkResponse EventsOp (sv_state s) (Some (map re_event (events_after cursor (sv_log s))))
           (Some (next_cursor cursor (sv_log s))) (Some (sv_terminal s \<noteq> None)))
      else OkResponse (sq_operation r) (sv_state s) None None (Some (sv_terminal s \<noteq> None)))"

section \<open>Records\<close>

record private_files =
  pf_plan :: "string option"
  pf_control :: "string option"
  pf_manifest :: "string option"

record prepared_records =
  pd_planRecord :: execution_plan_record
  pd_control :: execution_control
  pd_manifest :: execution_manifest

definition read_private :: "(js \<Rightarrow> 'a option) \<Rightarrow> string option \<Rightarrow> 'a record_read" where
  "read_private validate file = readRecord EXECUTION_PRIVATE_RECORD_MAX_BYTES validate file"

text \<open>\<open>inspectionRecordsMatch\<close>.\<close>

definition inspectionRecordsMatch :: "(string \<Rightarrow> string) \<Rightarrow> execution_plan_ref \<Rightarrow> execution_control \<Rightarrow>
    execution_manifest \<Rightarrow> bool" where
  "inspectionRecordsMatch sha execution control manifest \<longleftrightarrow>
     planMatches (mf_plan manifest) execution \<and>
     ct_executionId control = ex_executionId execution \<and>
     ct_generation control = ex_generation execution \<and>
     digestBytes sha (text_of (control_js control)) = mf_controlDigest manifest \<and>
     executionCapabilityDigest sha (ct_capability control) = mf_capabilityDigest manifest"

text \<open>
  \<open>readPreparedRecords\<close>: a missing file is an error that callers tell apart; the digest of the
  manifest is compared for a persisted reference.
\<close>

datatype preparation_error = PreparationMissing | PreparationInvalid | PreparationMismatch

definition load_record :: "'a record_read \<Rightarrow> preparation_error + 'a" where
  "load_record r = (case r of
     MissingRecord \<Rightarrow> Inl PreparationMissing | UnreadableRecord \<Rightarrow> Inl PreparationInvalid | Loaded x \<Rightarrow> Inr x)"

definition readPreparedRecords :: "(string \<Rightarrow> string) \<Rightarrow> private_files \<Rightarrow> execution_plan_ref \<Rightarrow> string option \<Rightarrow>
    preparation_error + prepared_records" where
  "readPreparedRecords sha files execution manifestDigest =
     bindE (load_record (read_private assertExecutionPlanRecord (pf_plan files))) (\<lambda>planRecord.
     bindE (load_record (read_private assertExecutionControlRecord (pf_control files))) (\<lambda>control.
     bindE (load_record (read_private assertExecutionManifestRecord (pf_manifest files))) (\<lambda>manifest.
     bindE (check (planMatches (pr_plan planRecord) execution \<and>
         inspectionRecordsMatch sha execution control manifest \<and>
         pred_option (\<lambda>d. d = executionManifestDigest sha manifest) manifestDigest) PreparationMismatch) (\<lambda>_.
     Inr \<lparr>pd_planRecord = planRecord, pd_control = control, pd_manifest = manifest\<rparr>))))"

text \<open>\<open>readOptionalRecord\<close> and \<open>readInspectionRecords\<close>.\<close>

definition readOptionalRecord :: "(js \<Rightarrow> 'a option) \<Rightarrow> string option \<Rightarrow> preparation_error + 'a option" where
  "readOptionalRecord validate file =
     (case read_private validate file of
        MissingRecord \<Rightarrow> Inr None
      | UnreadableRecord \<Rightarrow> Inl PreparationInvalid
      | Loaded x \<Rightarrow> Inr (Some x))"

datatype inspection_records =
    RecordsLoaded execution_control execution_manifest
  | RecordsAbsent
  | RecordsInvalid

definition readInspectionRecords :: "private_files \<Rightarrow> inspection_records" where
  "readInspectionRecords files =
     (case (readOptionalRecord assertExecutionManifestRecord (pf_manifest files),
            readOptionalRecord assertExecutionControlRecord (pf_control files)) of
        (Inr None, Inr None) \<Rightarrow> RecordsAbsent
      | (Inr (Some manifest), Inr (Some control)) \<Rightarrow> RecordsLoaded control manifest
      | _ \<Rightarrow> RecordsInvalid)"

section \<open>Inspecting\<close>

datatype supervisor_presence = LiveSupervisor | AbsentSupervisor | UnknownPresence execution_observation_reason

text \<open>\<open>observeSupervisor\<close>: the identity of this process, and two probes of the supervisor's.\<close>

definition observeSupervisor :: "execution_manifest \<Rightarrow> local_process_identity option \<Rightarrow> probe \<Rightarrow> probe \<Rightarrow>
    supervisor_presence" where
  "observeSupervisor manifest local first second =
     (case local of
        None \<Rightarrow> UnknownPresence SupervisorUnreachable
      | Some me \<Rightarrow>
          if lp_bootIdentityDigest (mf_supervisor manifest) \<noteq> lp_bootIdentityDigest me then
            UnknownPresence BootMismatch
          else if lp_hostIdentityDigest (mf_supervisor manifest) \<noteq> lp_hostIdentityDigest me then
            UnknownPresence IdentityMismatch
          else (case matchesPrivateProcess (mf_supervisor manifest) first of
              None \<Rightarrow> UnknownPresence SupervisorUnreachable
            | Some True \<Rightarrow> LiveSupervisor
            | Some False \<Rightarrow>
                (case second of
                   ProbeFailed \<Rightarrow> UnknownPresence SupervisorUnreachable
                 | NoProcess \<Rightarrow> AbsentSupervisor
                 | Found q \<Rightarrow>
                     if lp_startToken q \<noteq> lp_startToken (mf_supervisor manifest)
                     then UnknownPresence IdentityMismatch else AbsentSupervisor)))"

text \<open>\<open>terminalObservation\<close>: only a confirmed clean-up is an absence.\<close>

definition terminalObservation :: "(string \<Rightarrow> string) \<Rightarrow> string option \<Rightarrow> execution_plan_ref \<Rightarrow>
    execution_observation" where
  "terminalObservation sha file execution =
     (case readRecord EXECUTION_TERMINAL_MAX_BYTES assertExecutionTerminalRecord file of
        Loaded t \<Rightarrow>
          if tm_executionId t \<noteq> ex_executionId execution \<or> tm_generation t \<noteq> ex_generation execution then
            UnknownObservation execution IdentityMismatch
          else if tm_cleanup t \<noteq> ConfirmedCleanup then UnknownObservation execution CleanupUnconfirmed
          else AbsentObservation execution (Some
            \<lparr>te_outcome = tm_outcome t, te_terminalDigest = digestBytes sha (text_of (terminal_js t))\<rparr>)
      | _ \<Rightarrow> UnknownObservation execution InvalidRecord)"

text \<open>\<open>inspect\<close>, with what its reads, probes and requests give.\<close>

definition inspect :: "(string \<Rightarrow> string) \<Rightarrow> execution_plan_ref \<Rightarrow> private_files \<Rightarrow> local_process_identity option \<Rightarrow>
    probe \<Rightarrow> probe \<Rightarrow> string list option \<Rightarrow> string option \<Rightarrow> execution_observation" where
  "inspect sha execution files local first second answer terminalFile =
     (case readInspectionRecords files of
        RecordsAbsent \<Rightarrow> AbsentObservation execution None
      | RecordsInvalid \<Rightarrow> UnknownObservation execution InvalidRecord
      | RecordsLoaded control manifest \<Rightarrow>
          if \<not> inspectionRecordsMatch sha execution control manifest then
            UnknownObservation execution IdentityMismatch
          else (case observeSupervisor manifest local first second of
              UnknownPresence reason \<Rightarrow> UnknownObservation execution reason
            | AbsentSupervisor \<Rightarrow>
                (case mf_state manifest of
                   AwaitingStart \<Rightarrow> AbsentObservation execution None
                 | TerminalState \<Rightarrow> terminalObservation sha terminalFile execution
                 | _ \<Rightarrow> UnknownObservation execution SupervisorLost)
            | LiveSupervisor \<Rightarrow>
                if response_ok (accepted_response InspectOp answer) then ActiveObservation execution
                else UnknownObservation execution SupervisorUnreachable))"

section \<open>Terminating and collecting\<close>

text \<open>\<open>release\<close>: the request, and then probes until the supervisor is gone or time is up.\<close>

fun waitForAbsence :: "private_process \<Rightarrow> probe list \<Rightarrow> bool" where
  "waitForAbsence supervisor [] = False"
| "waitForAbsence supervisor (p # ps) =
     (case matchesPrivateProcess supervisor p of
        None \<Rightarrow> False
      | Some True \<Rightarrow> waitForAbsence supervisor ps
      | Some False \<Rightarrow> True)"

definition release :: "prepared_records \<Rightarrow> string list option \<Rightarrow> probe list \<Rightarrow> bool" where
  "release records answer probes \<longleftrightarrow>
     response_ok (accepted_response ReleaseOp answer) \<and>
     waitForAbsence (mf_supervisor (pd_manifest records)) probes"

text \<open>
  \<open>terminate\<close> of an active execution, with the records, the answer to the request, the answer and the
  probes of the release, and the terminal file afterwards.
\<close>

definition terminate :: "(string \<Rightarrow> string) \<Rightarrow> execution_plan_ref \<Rightarrow> string option \<Rightarrow> execution_observation \<Rightarrow>
    private_files \<Rightarrow> string list option \<Rightarrow> string list option \<Rightarrow> probe list \<Rightarrow> string option \<Rightarrow> execution_observation" where
  "terminate sha execution manifestDigest observed files answer released probes terminalFile =
     (case observed of
        ActiveObservation _ \<Rightarrow>
          (case readPreparedRecords sha files execution manifestDigest of
             Inl _ \<Rightarrow> UnknownObservation execution CleanupUnconfirmed
           | Inr records \<Rightarrow>
               if response_ok (accepted_response TerminateOp answer) \<and> release records released probes
               then terminalObservation sha terminalFile execution
               else UnknownObservation execution CleanupUnconfirmed)
      | _ \<Rightarrow> observed)"

text \<open>The authority that \<open>authorize\<close> writes before it asks for the start.\<close>

definition startAuthority :: "persisted_execution_ref \<Rightarrow> prepared_records \<Rightarrow> start_authority" where
  "startAuthority execution records =
     \<lparr>sa_execution = execution, sa_capabilityDigest = mf_capabilityDigest (pd_manifest records),
      sa_supervisor = mf_supervisor (pd_manifest records)\<rparr>"

datatype collected_output = CollectedRuntime execution_result | CollectedCommand command_execution

definition resultFromTerminal :: "execution_terminal \<Rightarrow> collected_output option" where
  "resultFromTerminal t =
     (case tm_result t of
        RuntimeTerminal r \<Rightarrow> Some (CollectedRuntime r)
      | CommandTerminal c \<Rightarrow> map_option CollectedCommand (commandExecutionFromRecord c))"

text \<open>\<open>collectTerminal\<close> and \<open>collect\<close> after the supervisor reported a terminal record.\<close>

definition collect :: "string option \<Rightarrow> bool \<Rightarrow> collected_output option" where
  "collect terminalFile released =
     (case readRecord EXECUTION_TERMINAL_MAX_BYTES assertExecutionTerminalRecord terminalFile of
        Loaded t \<Rightarrow>
          if tm_cleanup t \<noteq> ConfirmedCleanup \<or> \<not> released then None else resultFromTerminal t
      | _ \<Rightarrow> None)"

text \<open>\<open>events\<close>: polling from cursor to cursor; \<open>None\<close> is a rejected poll.\<close>

fun poll_events :: "int \<Rightarrow> supervisor_response option list \<Rightarrow> runtime_event list \<times> bool" where
  "poll_events cursor [] = ([], False)"
| "poll_events cursor (Some (OkResponse op st evs next_one available) # answers) =
     (let es = (case evs of None \<Rightarrow> [] | Some es \<Rightarrow> es) in
      if available = Some True then (es, True)
      else (case poll_events (case next_one of None \<Rightarrow> cursor | Some n \<Rightarrow> n) answers of
          (later, finished) \<Rightarrow> (es @ later, finished)))"
| "poll_events cursor (_ # answers) = ([], False)"

section \<open>Launch of a supervisor\<close>

record runtime_host_command =
  rh_executable :: string
  rh_args :: "string list"

record supervisor_launch =
  sl_prepare :: prepare_execution
  sl_runtimeHost :: runtime_host_command

definition launch_js :: "supervisor_launch \<Rightarrow> js" where
  "launch_js l = JObj
     [version_field, (''prepare'', prepare_js (sl_prepare l)),
      (''runtimeHost'', JObj [(''executable'', JStr (rh_executable (sl_runtimeHost l))),
        (''args'', str_array (rh_args (sl_runtimeHost l)))])]"

definition valid_host_command :: "runtime_host_command \<Rightarrow> bool" where
  "valid_host_command h \<longleftrightarrow>
     rh_executable h \<noteq> [] \<and> CHR 0x00 \<notin> set (rh_executable h) \<and> length (rh_args h) \<le> 32 \<and>
     list_all (\<lambda>a. CHR 0x00 \<notin> set a) (rh_args h)"

text \<open>\<open>assertSupervisorLaunch\<close>, on a launch frame of the right shape.\<close>

definition assertSupervisorLaunch :: "store_env \<Rightarrow> supervisor_launch \<Rightarrow> bool" where
  "assertSupervisorLaunch env l \<longleftrightarrow>
     valid_host_command (sl_runtimeHost l) \<and> assertPrepareExecution env (sl_prepare l) = Inr ()"

text \<open>
  From the launch frame to the control record and the manifest: the plan record must be that of the
  launch, the coordinator must be alive, and the supervisor's own identity known.
\<close>

definition setup_supervision :: "store_env \<Rightarrow> supervisor_launch \<Rightarrow> string option \<Rightarrow> process_state option \<Rightarrow>
    probe \<Rightarrow> string \<Rightarrow> string \<Rightarrow> supervision option" where
  "setup_supervision env l plan_file coordinator self capability endpoint =
     (if \<not> assertSupervisorLaunch env l then None
      else (case readRecord EXECUTION_PRIVATE_RECORD_MAX_BYTES assertExecutionPlanRecord plan_file of
          Loaded r \<Rightarrow>
            if canonicalJson (plan_js (pr_plan r)) \<noteq> canonicalJson (plan_js (pe_plan (sl_prepare l))) \<or>
               canonicalJson (identity_js (pr_coordinator r)) \<noteq>
                 canonicalJson (identity_js (pe_coordinator (sl_prepare l))) then None
            else if coordinator \<noteq> Some ProcessAlive then None
            else (case self of
                Found supervisor \<Rightarrow>
                  let control = \<lparr>ct_executionId = ex_executionId (pr_plan r), ct_generation = ex_generation (pr_plan r),
                        ct_capability = capability, ct_endpoint = endpoint\<rparr>;
                      manifest = \<lparr>mf_plan = pr_plan r,
                        mf_capabilityDigest = executionCapabilityDigest (en_sha256 env) capability,
                        mf_controlDigest = digestBytes (en_sha256 env) (text_of (control_js control)),
                        mf_supervisor = supervisor, mf_state = AwaitingStart\<rparr>
                  in Some \<lparr>sn_plan = pr_plan r, sn_control = control, sn_manifest = manifest,
                       sn_prepare = sl_prepare l, sn_sha256 = en_sha256 env\<rparr>
              | _ \<Rightarrow> None)
        | _ \<Rightarrow> None))"

section \<open>Preparing and authorizing\<close>

text \<open>
  \<open>writeRecordExclusive\<close>: the record is linked if there is none, and what is there then is compared.
  It gives whether it returned, and the file afterwards.
\<close>

definition writeRecordExclusive :: "nat \<Rightarrow> js \<Rightarrow> string option \<Rightarrow> bool \<times> string option" where
  "writeRecordExclusive maxBytes v found =
     (if maxBytes < length (record_bytes v) then (False, found)
      else (case found of
          None \<Rightarrow> (True, Some (record_bytes v))
        | Some bytes \<Rightarrow> (bytes = record_bytes v, Some bytes)))"

datatype prepare_error =
    PrepareRejected request_error
  | PlanRecordConflict
  | RecordsRejected preparation_error
  | PreparationIncomplete
  | AnotherCoordinator
  | SupervisorNotStarted

definition records_result :: "preparation_error + 'a \<Rightarrow> prepare_error + 'a" where
  "records_result r = (case r of Inl e \<Rightarrow> Inl (RecordsRejected e) | Inr x \<Rightarrow> Inr x)"

definition plan_record_of :: "prepare_execution \<Rightarrow> execution_plan_record" where
  "plan_record_of p = \<lparr>pr_plan = pe_plan p, pr_coordinator = pe_coordinator p\<rparr>"

definition persisted_ref :: "(string \<Rightarrow> string) \<Rightarrow> execution_plan_ref \<Rightarrow> execution_manifest \<Rightarrow> persisted_execution_ref" where
  "persisted_ref sha plan manifest =
     execution_plan_ref.extend plan (persisted_execution_ref.fields (executionManifestDigest sha manifest))"

text \<open>
  \<open>prepare\<close>: \<open>found\<close> is the private directory before, and \<open>published\<close> the one in which the wait for
  the supervisor ended with all records, if it did.
\<close>

definition prepare :: "store_env \<Rightarrow> runtime_host_command \<Rightarrow> prepare_execution \<Rightarrow> private_files \<Rightarrow>
    private_files option \<Rightarrow> prepare_error + persisted_execution_ref" where
  "prepare env host input found published =
     bindE (case assertPrepareExecution env input of Inl e \<Rightarrow> Inl (PrepareRejected e) | Inr _ \<Rightarrow> Inr ()) (\<lambda>_.
     let written = writeRecordExclusive EXECUTION_PRIVATE_RECORD_MAX_BYTES (plan_record_js (plan_record_of input))
           (pf_plan found);
         files = found\<lparr>pf_plan := snd written\<rparr>
     in
     bindE (check (fst written) PlanRecordConflict) (\<lambda>_.
     bindE (records_result (readOptionalRecord assertExecutionManifestRecord (pf_manifest files))) (\<lambda>manifest.
     bindE (records_result (readOptionalRecord assertExecutionControlRecord (pf_control files))) (\<lambda>control.
     if manifest \<noteq> None \<or> control \<noteq> None then
       bindE (check (manifest \<noteq> None \<and> control \<noteq> None) PreparationIncomplete) (\<lambda>_.
       bindE (records_result (readPreparedRecords (en_sha256 env) files (pe_plan input) None)) (\<lambda>records.
       bindE (check (canonicalJson (identity_js (pr_coordinator (pd_planRecord records))) =
           canonicalJson (identity_js (pe_coordinator input))) AnotherCoordinator) (\<lambda>_.
       Inr (persisted_ref (en_sha256 env) (pe_plan input) (pd_manifest records)))))
     else
       (case (encodeFrame EXECUTION_LAUNCH_FRAME_MAX_BYTES
                (launch_js \<lparr>sl_prepare = input, sl_runtimeHost = host\<rparr>), published) of
          (Inr _, Some later) \<Rightarrow>
            bindE (records_result (readPreparedRecords (en_sha256 env) later (pe_plan input) None)) (\<lambda>records.
            Inr (persisted_ref (en_sha256 env) (pe_plan input) (pd_manifest records)))
        | _ \<Rightarrow> Inl SupervisorNotStarted)))))"

text \<open>\<open>authorize\<close>: whether it returned a handle, and the authority file afterwards.\<close>

definition authorize :: "store_env \<Rightarrow> persisted_execution_ref \<Rightarrow> private_files \<Rightarrow> string option \<Rightarrow>
    string list option \<Rightarrow> bool \<times> string option" where
  "authorize env execution files authority answer =
     (if assertPersistedExecutionRef execution None \<noteq> Inr () then (False, authority)
      else (case readPreparedRecords (en_sha256 env) files (persisted_plan execution) (Some (ex_manifestDigest execution)) of
          Inl _ \<Rightarrow> (False, authority)
        | Inr records \<Rightarrow>
            (case writeRecordExclusive EXECUTION_PRIVATE_RECORD_MAX_BYTES
                (authority_js (startAuthority execution records)) authority of
               (written, authority') \<Rightarrow>
                 (written \<and> response_ok (accepted_response AuthorizeOp answer), authority'))))"

section \<open>What they establish\<close>

text \<open>A supervisor that was set up holds the records its clients expect.\<close>

lemma setup_records:
  assumes "setup_supervision env l plan_file coordinator self capability endpoint = Some c"
  shows "coordinator = Some ProcessAlive" and "sn_plan c = mf_plan (sn_manifest c)"
    and "self = Found (mf_supervisor (sn_manifest c))" and "sn_prepare c = sl_prepare l"
    and "ct_executionId (sn_control c) = ex_executionId (sn_plan c)"
    and "ct_generation (sn_control c) = ex_generation (sn_plan c)"
    and "inspectionRecordsMatch (en_sha256 env) (sn_plan c) (sn_control c) (sn_manifest c)"
  using assms
  by (auto simp: setup_supervision_def Let_def inspectionRecordsMatch_def planMatches_def
      split: if_splits record_read.splits probe.splits)

text \<open>A prepared reference is that of the plan, and binds the manifest that was published for it.\<close>

lemma persisted_ref_simps [simp]:
  "persisted_plan (persisted_ref sha plan m) = plan" "ex_manifestDigest (persisted_ref sha plan m) = executionManifestDigest sha m"
  by (simp_all add: persisted_plan_def persisted_ref_def execution_plan_ref.defs persisted_execution_ref.defs)

lemma records_result_Inr [simp]: "records_result r = Inr x \<longleftrightarrow> r = Inr x"
  by (auto simp: records_result_def split: sum.splits)

lemma prepared_reference:
  assumes "prepare env host input found published = Inr x"
  shows "persisted_plan x = pe_plan input \<and> assertPrepareExecution env input = Inr () \<and>
    (\<exists>files records. readPreparedRecords (en_sha256 env) files (pe_plan input) None = Inr records \<and>
       ex_manifestDigest x = executionManifestDigest (en_sha256 env) (pd_manifest records))"
proof (cases "assertPrepareExecution env input")
  case (Inr u)
  with assms show ?thesis
    by (cases published; cases "encodeFrame EXECUTION_LAUNCH_FRAME_MAX_BYTES
        (launch_js \<lparr>sl_prepare = input, sl_runtimeHost = host\<rparr>)")
      (auto simp: prepare_def Let_def result_simps split: if_splits; blast)+
qed (use assms in \<open>simp add: prepare_def\<close>)

end
