(* ===== verification/Supervisor_Samples.thy ===== *)
theory Supervisor_Samples
  imports Supervisor_Evidence Local_Execution_Host
begin

text \<open>
  A concrete supervisor and its files, at which the theorems on supervisors are applied: it awaits its
  start, and in another state it has launched its worker.
\<close>

section \<open>A supervision\<close>

definition sample_sha256 :: "string \<Rightarrow> string" where
  "sample_sha256 s = replicate 64 CHR ''d''"

definition supervised_plan :: execution_plan_ref where
  "supervised_plan =
     \<lparr>ex_version = ''anastom.dev/owned-execution/v1alpha1'', ex_runId = ''run-1'',
      ex_executionId = ''00000000-0000-4000-8000-000000000001'', ex_kind = CommandKind, ex_generation = 1,
      ex_planDigest = ''sha256:'' @ replicate 64 CHR ''a''\<rparr>"

definition sample_identity :: private_process where
  "sample_identity =
     \<lparr>lp_version = ''anastom.dev/local-process/v1alpha1'',
      lp_hostIdentityDigest = ''sha256:'' @ replicate 64 CHR ''a'',
      lp_bootIdentityDigest = ''sha256:'' @ replicate 64 CHR ''b'', lp_pid = 7, lp_startToken = ''t'',
      pp_processGroupId = 7, pp_state = ''S''\<rparr>"

definition supervised_control :: execution_control where
  "supervised_control =
     \<lparr>ct_executionId = ex_executionId supervised_plan, ct_generation = 1,
      ct_capability = replicate 43 CHR ''c'', ct_endpoint = ''/tmp/s''\<rparr>"

definition sample_manifest :: execution_manifest where
  "sample_manifest =
     \<lparr>mf_plan = supervised_plan, mf_capabilityDigest = ''sha256:'' @ replicate 64 CHR ''d'',
      mf_controlDigest = ''sha256:'' @ replicate 64 CHR ''d'', mf_supervisor = sample_identity,
      mf_state = AwaitingStart\<rparr>"

definition sample_prepare :: prepare_execution where
  "sample_prepare =
     \<lparr>pe_plan = supervised_plan, pe_coordinator = publicIdentity sample_identity,
      pe_input = CommandLaunch
        \<lparr>cm_argv = [''true''], cm_cwd = ''.'', cm_maxDurationMs = 1000, cm_maxOutputBytes = 1000\<rparr>
        (ReadonlyWorkspace ''w'' ''/r'' ''/r'' ''0'')\<rparr>"

definition sample_supervision :: supervision where
  "sample_supervision =
     \<lparr>sn_plan = supervised_plan, sn_control = supervised_control, sn_manifest = sample_manifest,
      sn_prepare = sample_prepare, sn_sha256 = sample_sha256\<rparr>"

definition supervised_execution :: persisted_execution_ref where
  "supervised_execution = execution_plan_ref.extend supervised_plan
     (persisted_execution_ref.fields (''sha256:'' @ replicate 64 CHR ''d''))"

definition sample_authority :: start_authority where
  "sample_authority =
     \<lparr>sa_execution = supervised_execution, sa_capabilityDigest = mf_capabilityDigest sample_manifest,
      sa_supervisor = sample_identity\<rparr>"

section \<open>Its records\<close>

lemma sample_manifest_valid: "valid_manifest sample_manifest"
  by code_simp

lemmas sample_defs =
  manifest_js_def manifest_fields_def version_field_def EXECUTION_PRIVATE_RECORD_MAX_BYTES_def
  sample_supervision_def sample_manifest_def supervised_plan_def sample_identity_def private_process_js_def
  plan_js_def plan_fields_def EXECUTION_PROTOCOL_VERSION_def int_string_def nat_digits.simps

lemma sample_manifest_fits: "manifest_fits sample_supervision st"
  unfolding manifest_fits_def manifest_bytes_def
  by (rule record_bytes_weight)
    (cases st; simp add: sample_defs byte_length_def; fail)+

lemma sample_authority_valid: "valid_authority sample_authority"
  by code_simp

lemma sample_authority_size: "length (record_bytes (authority_js sample_authority)) \<le> EXECUTION_PRIVATE_RECORD_MAX_BYTES"
  by (rule record_bytes_weight)
    (simp_all add: sample_defs sample_authority_def authority_js_def execution_js_def supervised_execution_def
      execution_plan_ref.defs persisted_execution_ref.defs byte_length_def)

lemma sample_control_valid: "valid_control supervised_control"
  by code_simp

lemma sample_control_size: "length (record_bytes (control_js supervised_control)) \<le> EXECUTION_PRIVATE_RECORD_MAX_BYTES"
  by (rule record_bytes_weight) (simp_all add: sample_defs supervised_control_def control_js_def byte_length_def)

lemma sample_launch_frame: "\<exists>frame. encodeFrame EXECUTION_LAUNCH_FRAME_MAX_BYTES (prepare_js sample_prepare) = Inr frame"
proof (rule frame_exists)
  show json: "is_json (prepare_js sample_prepare)"
    by (simp add: prepare_js_def sample_prepare_def command_js_def str_array_def)
  show "js_weight (prepare_js sample_prepare) \<le> EXECUTION_LAUNCH_FRAME_MAX_BYTES"
    by (simp add: prepare_js_def sample_prepare_def command_js_def str_array_def identity_js_def publicIdentity_def
        local_process_identity.defs sample_defs EXECUTION_LAUNCH_FRAME_MAX_BYTES_def byte_length_def)
  show "1 \<le> length (record_bytes (prepare_js sample_prepare))"
    using json unfolding prepare_js_def by (rule object_bytes)
qed (simp add: EXECUTION_LAUNCH_FRAME_MAX_BYTES_def)

lemma ready_size: "1 \<le> length (record_bytes ready_js) \<and> length (record_bytes ready_js) \<le> 256"
  by code_simp

lemma ready_frame_exists: "\<exists>frame. encodeFrame EXECUTION_READY_FRAME_MAX_BYTES ready_js = Inr frame"
proof -
  have "is_json ready_js" by (simp add: ready_js_def version_field_def)
  then obtain t where "canonicalJson ready_js = Some t" using canonicalJson_defined_iff by blast
  with ready_size show ?thesis
    by (simp add: encodeFrame_def record_bytes_def text_of_def Let_def EXECUTION_READY_FRAME_MAX_BYTES_def)
qed

definition ready_frame :: string where
  "ready_frame = projr (encodeFrame EXECUTION_READY_FRAME_MAX_BYTES ready_js)"

lemma ready_frame_ok: "ready_ok [ready_frame]"
proof -
  have "encodeFrame EXECUTION_READY_FRAME_MAX_BYTES ready_js = Inr (concat [ready_frame])"
    using ready_frame_exists by (auto simp: ready_frame_def)
  moreover have "js_distinct ready_js" by (simp add: ready_js_def version_field_def)
  ultimately show ?thesis by (simp add: ready_ok_def readEndedFrame_back host_ready_back)
qed

section \<open>A launch\<close>

definition authority_file :: string where
  "authority_file = record_bytes (authority_js sample_authority)"

lemma sample_authority_read:
  "readRecord EXECUTION_PRIVATE_RECORD_MAX_BYTES assertExecutionStartAuthority (Some authority_file) =
     Loaded sample_authority"
  unfolding authority_file_def
proof (rule readRecord_back)
  show "is_json (authority_js sample_authority)" "js_distinct (authority_js sample_authority)"
    by (auto simp: authority_js_def version_field_def execution_js_def plan_fields_def)
qed (fact sample_authority_size authority_back [OF sample_authority_valid])+

definition control_file :: string where
  "control_file = record_bytes (control_js supervised_control)"

lemma sample_control_read:
  "readRecord EXECUTION_PRIVATE_RECORD_MAX_BYTES assertExecutionControlRecord (Some control_file) =
     Loaded supervised_control"
  unfolding control_file_def
proof (rule readRecord_back)
  show "is_json (control_js supervised_control)" "js_distinct (control_js supervised_control)"
    by (auto simp: control_js_def version_field_def)
qed (fact sample_control_size control_back [OF sample_control_valid])+

definition plan_file :: string where
  "plan_file = record_bytes (plan_record_js \<lparr>pr_plan = supervised_plan, pr_coordinator = publicIdentity sample_identity\<rparr>)"

lemma sample_plan_read:
  "readRecord EXECUTION_PRIVATE_RECORD_MAX_BYTES assertExecutionPlanRecord (Some plan_file) =
     Loaded \<lparr>pr_plan = supervised_plan, pr_coordinator = publicIdentity sample_identity\<rparr>"
  unfolding plan_file_def
proof (rule readRecord_back)
  let ?r = "\<lparr>pr_plan = supervised_plan, pr_coordinator = publicIdentity sample_identity\<rparr> :: execution_plan_record"
  show "is_json (plan_record_js ?r)" "js_distinct (plan_record_js ?r)"
    by (auto simp: plan_record_js_def version_field_def)
  show "length (record_bytes (plan_record_js ?r)) \<le> EXECUTION_PRIVATE_RECORD_MAX_BYTES"
    by (rule record_bytes_weight)
      (simp_all add: sample_defs plan_record_js_def identity_js_def publicIdentity_def local_process_identity.defs
        byte_length_def)
  have "assertExecutionPlanRef supervised_plan" "valid_process_identity (publicIdentity sample_identity)"
    by code_simp+
  then show "assertExecutionPlanRecord (canonical_order (plan_record_js ?r)) = Some ?r"
    by (intro plan_record_back) simp_all
qed

text \<open>The private directory when the manifest shows this state.\<close>

definition sample_files :: "manifest_state \<Rightarrow> private_files" where
  "sample_files st =
     \<lparr>pf_plan = Some plan_file, pf_control = Some control_file, pf_manifest = Some (manifest_bytes sample_supervision st)\<rparr>"

lemma sample_records:
  "readInspectionRecords (sample_files st) = RecordsLoaded supervised_control (sample_manifest\<lparr>mf_state := st\<rparr>)"
  using read_manifest [of sample_supervision st] sample_manifest_valid sample_manifest_fits [of st]
  by (simp add: readInspectionRecords_def readOptionalRecord_def read_private_def sample_files_def
      sample_control_read sample_supervision_def)

lemma sample_records_match:
  "inspectionRecordsMatch sample_sha256 supervised_plan supervised_control (sample_manifest\<lparr>mf_state := st\<rparr>)"
  by (simp add: inspectionRecordsMatch_def planMatches_def sample_manifest_def supervised_control_def digestBytes_def
      executionCapabilityDigest_def sample_sha256_def supervised_plan_def)

lemma sample_authority_ok: "readAuthority sample_supervision (Some authority_file)"
proof -
  have "assertPersistedExecutionRef supervised_execution (Some supervised_plan) = Inr ()" by code_simp
  then show ?thesis
    by (simp add: readAuthority_def sample_authority_read)
      (simp add: sample_authority_def sample_supervision_def sample_manifest_def supervised_execution_def
        executionManifestDigest_def digestBytes_def sample_sha256_def
        execution_plan_ref.defs persisted_execution_ref.defs)
qed

lemma sample_prepared:
  "readPreparedRecords sample_sha256 (sample_files st) supervised_plan None =
     Inr \<lparr>pd_planRecord = \<lparr>pr_plan = supervised_plan, pr_coordinator = publicIdentity sample_identity\<rparr>,
       pd_control = supervised_control, pd_manifest = sample_manifest\<lparr>mf_state := st\<rparr>\<rparr>"
  using read_manifest [of sample_supervision st] sample_manifest_valid sample_manifest_fits [of st] sample_records_match
  by (simp add: readPreparedRecords_def load_record_def read_private_def sample_files_def
      sample_control_read sample_plan_read sample_supervision_def planMatches_def)

definition sample_started :: supervisor where
  "sample_started =
     (awaiting_start sample_supervision)
       \<lparr>fs_authority := Some authority_file, sv_serving := ServingAuthorize, sv_start := StartDone,
        sv_state := ActiveState, sv_leader := True, sv_settlement := ReadingOutput [] None,
        fs_manifest := Some (manifest_bytes sample_supervision ActiveState),
        wk_spawned := True, wk_members := 1, wk_launched := True\<rparr>"

text \<open>From the stored authority to the launch: the steps of \<open>startExecution\<close>.\<close>

lemma sample_launches: "reaches sample_supervision (awaiting_start sample_supervision) sample_started"
proof -
  let ?c = sample_supervision
  let ?s0 = "(awaiting_start ?c)\<lparr>fs_authority := Some authority_file\<rparr>"
  let ?s1 = "?s0\<lparr>sv_serving := ServingAuthorize, sv_start := ReadingAuthority\<rparr>"
  let ?s2 = "?s1\<lparr>sv_state := Starting, sv_start := PublishingStarting False\<rparr>"
  let ?s3 = "?s2\<lparr>fs_manifest := Some (manifest_bytes ?c Starting), sv_start := PublishingStarting True\<rparr>"
  let ?s4 = "?s3\<lparr>wk_spawned := True, wk_members := 1, sv_start := InspectingLeader\<rparr>"
  let ?s5 = "?s4\<lparr>sv_leader := True, sv_start := AwaitingReady\<rparr>"
  let ?s6 = "?s5\<lparr>sv_state := ActiveState, sv_start := PublishingActive False\<rparr>"
  let ?s7 = "?s6\<lparr>fs_manifest := Some (manifest_bytes ?c ActiveState), sv_start := PublishingActive True\<rparr>"
  note simps = awaiting_start_def begin_start_def authority_read_def replace_manifest_def spawn_host_def
    leader_inspected_def readiness_def sample_authority_ok ready_frame_ok
  have "step ?c (awaiting_start ?c) ?s0"
    by (rule authority_stored) (simp add: awaiting_start_def)
  moreover have "step ?c ?s0 ?s1"
    using serve_authorize [of ?s0 ?c] by (simp add: simps)
  moreover have "step ?c ?s1 ?s2"
    using read_authority [of ?s1 ?c] by (simp add: simps)
  moreover have "step ?c ?s2 ?s3"
    using starting_replaced [of ?s2 ?c] sample_manifest_fits by (simp add: simps)
  moreover have "step ?c ?s3 ?s4"
    using starting_published [of ?s3 ?c True] by (simp add: simps)
  moreover have "step ?c ?s4 ?s5"
    using inspect_leader [of ?s4 ?c True] by (simp add: simps)
  moreover have "step ?c ?s5 ?s6"
    using host_ready [of ?s5 ?c "Some [ready_frame]"] by (simp add: simps)
  moreover have "step ?c ?s6 ?s7"
    using active_replaced [of ?s6 ?c] sample_manifest_fits by (simp add: simps)
  moreover have "step ?c ?s7 sample_started"
    using active_published [of ?s7 ?c] sample_launch_frame
    by (auto simp: launch_host_def Let_def sample_started_def awaiting_start_def sample_supervision_def)
  ultimately show ?thesis by (meson reaches_refl reaches_step)
qed

lemma sample_started_reachable: "reachable sample_supervision sample_started"
  unfolding reachable_def by (rule sample_launches)

end
