(* ===== verification/Supervisor_Polling.thy ===== *)
theory Supervisor_Polling
  imports Supervisor_Evidence Local_Execution_Host
begin

text \<open>
  Observations and polls. An operation of the log never drops a required observation that was retained,
  even when it refuses a new one, so a client that polls from cursor to cursor sees all of them.
\<close>

section \<open>Required observations stay\<close>

definition required_events :: "event_log \<Rightarrow> retained_event list" where
  "required_events log = filter (\<lambda>x. \<not> is_log (re_event x)) (el_events log)"

lemma required_kept: "required log = map re_event (required_events log)"
  by (simp add: required_def required_events_def filter_map comp_def)

lemma required_events_simps [simp]:
  "required_events (log\<lparr>el_dropped := n\<rparr>) = required_events log" "required_events (log\<lparr>el_ordinal := n\<rparr>) = required_events log"
  "required_events (push_event e log) =
     required_events log @ (if is_log e then [] else [\<lparr>re_ordinal = el_ordinal log + 1, re_event = e\<rparr>])"
  by (simp_all add: required_events_def push_event_def)

text \<open>A part of the events is no larger than all of them.\<close>

lemma join_comma_size: "ss \<noteq> [] \<Longrightarrow> Suc (byte_length (join_comma ss)) = sum_list (map (\<lambda>s. byte_length s + 1) ss)"
  by (induction ss rule: join_comma.induct) simp_all

lemma retained_bytes_sum:
  "xs \<noteq> [] \<Longrightarrow> retained_bytes xs = 1 + sum_list (map (\<lambda>x. byte_length (text_of (observation_js (re_event x))) + 1) xs)"
proof -
  have parts: "those (map canonicalJson (map (\<lambda>x. observation_js (re_event x)) xs)) =
      Some (map (\<lambda>x. text_of (observation_js (re_event x))) xs)" for xs
  proof (induction xs)
    case (Cons x xs)
    have "canonicalJson (observation_js (re_event x)) = Some (text_of (observation_js (re_event x)))"
      using canonicalJson_defined_iff [of "observation_js (re_event x)"] by (auto simp: text_of_def)
    with Cons show ?case by simp
  qed simp
  have array: "text_of (JArr (map (\<lambda>x. observation_js (re_event x)) xs)) =
      CHR ''['' # join_comma (map (\<lambda>x. text_of (observation_js (re_event x))) xs) @ '']''"
    using parts [of xs] by (simp add: text_of_def)
  assume "xs \<noteq> []"
  then show ?thesis
    using join_comma_size [of "map (\<lambda>x. text_of (observation_js (re_event x))) xs"]
    by (simp add: retained_bytes_def array comp_def)
qed

lemma retained_bytes_filter: "retained_bytes (filter p xs) \<le> retained_bytes xs"
proof (cases "filter p xs = []")
  case True
  have "retained_bytes [] \<le> retained_bytes xs"
    using retained_bytes_sum [of xs]
    by (cases "xs = []") (auto simp: retained_bytes_def text_of_def neq_Nil_conv)
  with True show ?thesis by simp
next
  case False
  then have "xs \<noteq> []" by auto
  have "sum_list (map f (filter p xs)) \<le> sum_list (map f xs)" for f :: "_ \<Rightarrow> nat"
    by (induction xs) (auto intro: le_SucI trans_le_add2)
  with retained_bytes_sum [OF False] retained_bytes_sum [OF \<open>xs \<noteq> []\<close>] show ?thesis by simp
qed

lemma kept_bounded:
  assumes "bounded_log log"
  shows "\<not> over_limit (required_events log)" and "length (required_events log) \<le> 16"
proof -
  have "length (required log) = length (required_events log)" by (simp add: required_kept)
  with assms show len: "length (required_events log) \<le> 16" by (simp add: bounded_log_def)
  from assms retained_bytes_filter [of "\<lambda>x. \<not> is_log (re_event x)" "el_events log"]
  have "retained_bytes (required_events log) \<le> EXECUTION_SOCKET_FRAME_MAX_BYTES div 2"
    by (simp add: bounded_log_def required_events_def)
  with len show "\<not> over_limit (required_events log)" by (simp add: over_limit_def)
qed

lemma count_removed_kept:
  assumes "is_log (re_event x)"
  shows "required_events (count_removed n (as @ bs) log) = filter (\<lambda>x. \<not> is_log (re_event x)) (as @ x # bs)"
proof (cases "update_first (\<lambda>x. is_summary (re_event x)) (\<lambda>x. x\<lparr>re_event := add_dropped n (re_event x)\<rparr>) (as @ bs)")
  case None
  then show ?thesis using assms by (simp add: count_removed_def required_events_def)
next
  case (Some ys)
  then obtain cs s ds where s: "as @ bs = cs @ s # ds"
    "ys = cs @ (s\<lparr>re_event := add_dropped n (re_event s)\<rparr>) # ds" "is_summary (re_event s)"
    using update_first_split by fast
  have "filter (\<lambda>x. \<not> is_log (re_event x)) ys = filter (\<lambda>x. \<not> is_log (re_event x)) (as @ bs)"
    unfolding s(1,2) using s(3) by simp
  then show ?thesis using assms Some by (simp add: count_removed_def required_events_def)
qed

lemma trim_loop_kept:
  assumes "trim_loop log = (log', ok)"
  shows "if ok then required_events log' = required_events log
    else over_limit (required_events log) \<and> el_events log' = butlast (required_events log)"
  using assms
proof (induction log rule: trim_loop.induct)
  case (1 log)
  show ?case
  proof (cases "over_limit (el_events log)")
    case False
    with 1(2) show ?thesis by (subst (asm) trim_loop.simps) auto
  next
    case over: True
    show ?thesis
    proof (cases "take_first (\<lambda>x. is_log (re_event x)) (el_events log)")
      case None
      with 1(2) over have log': "log' = log\<lparr>el_events := butlast (el_events log)\<rparr>" "\<not> ok"
        by (subst (asm) trim_loop.simps, simp)+
      from None have "required_events log = el_events log" by (simp add: required_events_def take_first_None list_all_iff)
      with log' over show ?thesis by simp
    next
      case (Some r)
      obtain x rest where r: "r = (x, rest)" by (cases r)
      from take_first_split Some r obtain as bs
        where split: "el_events log = as @ x # bs" "rest = as @ bs" "is_log (re_event x)" by fast
      from 1(2) over Some r have
        "trim_loop (count_removed (dropped_logs (re_event x) + 1) rest log) = (log', ok)"
        by (subst (asm) trim_loop.simps) simp
      with 1(1) over Some r have IH: "if ok
        then required_events log' = required_events (count_removed (dropped_logs (re_event x) + 1) rest log)
        else over_limit (required_events (count_removed (dropped_logs (re_event x) + 1) rest log)) \<and>
          el_events log' = butlast (required_events (count_removed (dropped_logs (re_event x) + 1) rest log))" by simp
      have same: "required_events (count_removed (dropped_logs (re_event x) + 1) rest log) = required_events log"
        unfolding split(2) count_removed_kept [where ?as = as and bs = bs and log = log, OF split(3)]
        by (simp add: required_events_def split(1))
      from IH show ?thesis unfolding same .
    qed
  qed
qed

text \<open>Trimming after a push: the pushed observation is dropped when the log is refused.\<close>

lemma trim_push:
  assumes "trimEvents (push_event e log) = (log', ok)" and "bounded_log log"
  shows "required_events log' = required_events log @
      (if ok \<and> \<not> is_log e then [\<lparr>re_ordinal = el_ordinal log + 1, re_event = e\<rparr>] else [])"
    and "el_ordinal log' = el_ordinal log + 1" and "bounded_log log'"
proof -
  have log: "bounded_log x" if "el_events x = el_events log" for x
    using assms(2) that by (simp add: bounded_log_def required_def)
  have "required_events log' = required_events log @
      (if ok \<and> \<not> is_log e then [\<lparr>re_ordinal = el_ordinal log + 1, re_event = e\<rparr>] else []) \<and>
    el_ordinal log' = el_ordinal log + 1 \<and> bounded_log log'"
  proof (cases "16 < length (required_events (push_event e log))")
    case True
    with kept_bounded(2) [OF assms(2)] have "\<not> is_log e" by auto
    moreover from True assms(1) have "log' = (push_event e log)\<lparr>el_events := butlast (el_events (push_event e log))\<rparr>" "\<not> ok"
      by (auto simp: trimEvents_def required_events_def)
    ultimately show ?thesis using log [of log'] by (simp add: push_event_def required_events_def)
  next
    case False
    with assms(1) have loop: "trim_loop (push_event e log) = (log', ok)"
      by (auto simp: trimEvents_def required_events_def)
    show ?thesis
    proof (cases ok)
      case True
      with trimEvents_ok(4) [of "push_event e log" log'] trim_loop_kept [OF loop] trim_loop_effect(2) [OF loop] assms(1)
      show ?thesis by simp
    next
      case refused: False
      with trim_loop_kept [OF loop] have over: "over_limit (required_events (push_event e log))"
        and events: "el_events log' = butlast (required_events (push_event e log))" by simp_all
      from over kept_bounded(1) [OF assms(2)] have e: "\<not> is_log e" by auto
      with events have events: "el_events log' = required_events log" by simp
      then have "required_events log' = required_events log" by (simp add: required_events_def)
      moreover have "bounded_log log'"
        using kept_bounded [OF assms(2)]
        by (simp add: bounded_log_def events over_limit_def required_kept \<open>required_events log' = required_events log\<close>)
      ultimately show ?thesis using refused trim_loop_effect(2) [OF loop] by simp
    qed
  qed
  then show "required_events log' = required_events log @
      (if ok \<and> \<not> is_log e then [\<lparr>re_ordinal = el_ordinal log + 1, re_event = e\<rparr>] else [])"
    "el_ordinal log' = el_ordinal log + 1" "bounded_log log'" by simp_all
qed

text \<open>A log grows: what is kept stays, and new events have new ordinals.\<close>

definition grows :: "event_log \<Rightarrow> event_log \<Rightarrow> bool" where
  "grows log log' \<longleftrightarrow>
     el_ordinal log \<le> el_ordinal log' \<and> (bounded_log log \<longrightarrow> bounded_log log') \<and>
     (bounded_log log \<longrightarrow>
       (\<exists>news. required_events log' = required_events log @ news \<and> list_all (\<lambda>x. el_ordinal log < re_ordinal x) news))"

lemma grows_refl [simp]: "grows log log"
  by (simp add: grows_def)

lemma grows_trans: "grows log log' \<Longrightarrow> grows log' log'' \<Longrightarrow> grows log log''"
  by (force simp: grows_def list_all_iff)

lemma grows_trim: "trimEvents (push_event e log) = (log', ok) \<Longrightarrow> bounded_log log \<Longrightarrow> grows log log'"
  using trim_push [of e log log' ok] by (simp add: grows_def)

lemma grows_dropped: "bounded_log (log\<lparr>el_dropped := n\<rparr>) = bounded_log log"
  "grows (log\<lparr>el_dropped := n\<rparr>) log' = grows log log'"
  by (simp_all add: bounded_log_def grows_def)

lemma push_dropped: "(push_event e log)\<lparr>el_dropped := n\<rparr> = push_event e (log\<lparr>el_dropped := n\<rparr>)"
  by (simp add: push_event_def)

lemma grows_flush: "flushDroppedLogs log = (log', ok) \<Longrightarrow> bounded_log log \<Longrightarrow> grows log log'"
  using grows_trim [of _ "log\<lparr>el_dropped := 0\<rparr>" log' ok]
  by (auto simp: flushDroppedLogs_def push_dropped grows_dropped split: if_splits)

lemma grows_retained: "append_retained e log = (log', ok) \<Longrightarrow> bounded_log log \<Longrightarrow> grows log log'"
  using grows_trim [of _ log log' ok] grows_trim [of _ "log\<lparr>el_dropped := 0\<rparr>" log' ok]
  by (auto simp: append_retained_def grows_dropped split: if_splits)

lemma grows_append:
  assumes "appendEvent log e = (log', ok)" and "bounded_log log"
  shows "grows log log'"
proof (cases e)
  case (CompletedEvent st)
  with assms(1) obtain log1 ok1 where flush: "flushDroppedLogs log = (log1, ok1)"
    and later: "if ok1 then append_retained e log1 = (log', ok) else log' = log1"
    by (auto simp: appendEvent_def split: prod.splits if_splits)
  from grows_flush [OF flush assms(2)] have g: "grows log log1" .
  with assms(2) have "bounded_log log1" by (simp add: grows_def)
  with later g show ?thesis by (auto split: if_splits intro: grows_trans grows_retained)
qed (use assms grows_retained in \<open>simp_all add: appendEvent_def\<close>)

section \<open>Over the life of a supervisor\<close>

lemma settle_value_grows: "settle_value (log, r) v = ((log', r'), ok) \<Longrightarrow> bounded_log log \<Longrightarrow> grows log log'"
  by (auto simp: settle_value_def intro: grows_append split: option.splits host_output.splits prod.splits if_splits)

lemma settle_values_grows:
  "settle_values (log, r) vs = ((log', r'), ok) \<Longrightarrow> bounded_log log \<Longrightarrow> grows log log'"
proof (induction vs arbitrary: log r)
  case (Cons v vs)
  obtain log1 r1 ok1 where v: "settle_value (log, r) v = ((log1, r1), ok1)" by (metis surj_pair)
  from settle_value_grows [OF this Cons.prems(2)] have g: "grows log log1" .
  with Cons.prems(2) have "bounded_log log1" by (simp add: grows_def)
  with v g Cons show ?case by (auto split: if_splits intro: grows_trans)
qed simp

lemma settle_chunk_grows:
  "settle_chunk buffer (log, r) chunk = (rest, (log', r'), ok) \<Longrightarrow> bounded_log log \<Longrightarrow> grows log log'"
  by (auto simp: settle_chunk_def dest: settle_values_grows split: sum.splits)

lemma publish_grows: "bounded_log (sv_log s) \<Longrightarrow> grows (sv_log s) (sv_log (publishTerminal c r k s))"
  by (auto simp: publishTerminal_def terminal_value_def intro: grows_flush split: prod.splits option.splits if_splits)

lemma begin_terminate_grows:
  "begin_terminate c s = (t, pc) \<Longrightarrow> bounded_log (sv_log s) \<Longrightarrow> grows (sv_log s) (sv_log t)"
  using publish_grows [of "s\<lparr>sv_requested := True\<rparr>"]
  by (auto elim!: begin_terminate_same)

lemma terminate_step_grows:
  "terminate_step c (s, pc) (t, pc') \<Longrightarrow> bounded_log (sv_log s) \<Longrightarrow> grows (sv_log s) (sv_log t)"
  by (auto dest!: terminate_step_same intro: publish_grows)

lemma begin_shutdown_grows: "bounded_log (sv_log s) \<Longrightarrow> grows (sv_log s) (sv_log (begin_shutdown c b s))"
  using begin_terminate_grows [of c "s\<lparr>sv_stopping := True\<rparr>"]
  by (cases rule: begin_shutdown_cases [of c b s]) auto

lemma grows_step:
  assumes "step c s t" and "bounded_log (sv_log s)"
  shows "grows (sv_log s) (sv_log t)"
  using assms(1)
proof (cases rule: step.cases)
  case (serve_terminate u pc)
  with assms(2) begin_terminate_grows show ?thesis by auto
next
  case (terminate_request pc u pc')
  with assms(2) terminate_step_grows show ?thesis by auto
next
  case (terminate_shutdown pc u pc')
  with assms(2) terminate_step_grows show ?thesis by auto
next
  case (host_output buffer result chunk)
  obtain a b d e where chunk: "settle_chunk buffer (sv_log s, result) chunk = (a, (b, d), e)"
    by (cases "settle_chunk buffer (sv_log s, result) chunk") (metis surj_pair)
  with settle_chunk_grows [OF chunk assms(2)] host_output(1) show ?thesis by (simp add: output_chunk_def)
qed (use assms(2) publish_grows in \<open>simp_all add: begin_shutdown_grows failed_ready_def settle_def launch_host_def Let_def
    authority_read_def replace_manifest_def spawn_host_def leader_inspected_def readiness_def output_ended_def
    host_closed_def link_terminal_def terminal_written_def split: sum.splits\<close>)

lemma reaches_grows: "reaches c s t \<Longrightarrow> bounded_log (sv_log s) \<Longrightarrow> grows (sv_log s) (sv_log t)"
proof (induction rule: reaches.induct)
  case (reaches_step t u)
  then have g: "grows (sv_log s) (sv_log t)" by simp
  with reaches_step(4) have "bounded_log (sv_log t)" by (simp add: grows_def)
  with grows_step reaches_step(2) g show ?case by (blast intro: grows_trans)
qed simp

lemma reachable_bounded: "reachable c s \<Longrightarrow> bounded_log (sv_log s)"
  using reaches_grows [of c "awaiting_start c" s] by (simp add: reachable_def grows_def awaiting_start_def)

section \<open>Polls\<close>

text \<open>The supervisor at successive times, and its answers to a client that polls from a cursor.\<close>

fun successive :: "supervision \<Rightarrow> supervisor \<Rightarrow> supervisor list \<Rightarrow> bool" where
  "successive c s [] \<longleftrightarrow> True"
| "successive c s (t # ts) \<longleftrightarrow> reaches c s t \<and> successive c t ts"

fun served :: "supervision \<Rightarrow> int \<Rightarrow> supervisor list \<Rightarrow> supervisor_response option list" where
  "served c cursor [] = []"
| "served c cursor (s # ss) =
     Some (dispatch c s (supervisorRequest (sn_control c) EventsOp (Some cursor))) #
       served c (next_cursor cursor (sv_log s)) ss"

definition own_control :: "supervision \<Rightarrow> bool" where
  "own_control c \<longleftrightarrow>
     ct_executionId (sn_control c) = ex_executionId (sn_plan c) \<and>
     ct_generation (sn_control c) = ex_generation (sn_plan c)"

lemma events_answer:
  assumes "own_control c"
  shows "dispatch c s (supervisorRequest (sn_control c) EventsOp (Some cursor)) =
    OkResponse EventsOp (sv_state s) (Some (map re_event (events_after cursor (sv_log s))))
      (Some (next_cursor cursor (sv_log s))) (Some (sv_terminal s \<noteq> None))"
  using assms by (simp add: dispatch_def supervisorRequest_def authenticated_def own_control_def
      matchesExecutionCapability_def)

text \<open>After a poll the cursor is at the end of the log.\<close>

lemma next_cursor_end:
  assumes "ordered_log log" and "cursor \<le> el_ordinal log"
  shows "list_all (\<lambda>x. re_ordinal x \<le> next_cursor cursor log) (el_events log)"
    and "next_cursor cursor log \<le> el_ordinal log"
proof -
  let ?later = "events_after cursor log"
  have "list_all (\<lambda>x. re_ordinal x \<le> next_cursor cursor log) (el_events log) \<and>
    next_cursor cursor log \<le> el_ordinal log"
  proof (cases "?later = []")
    case True
    then have "next_cursor cursor log = cursor" by (simp add: next_cursor_def last_opt_def)
    with True assms(2) show ?thesis by (auto simp: events_after_def filter_empty_conv list_all_iff)
  next
    case False
    then have cursor: "next_cursor cursor log = re_ordinal (last ?later)" by (simp add: next_cursor_def last_opt_def)
    from False have in_later: "last ?later \<in> set ?later" by simp
    from assms(1) have "sorted_wrt (<) (map re_ordinal ?later)"
      by (simp add: ordered_log_def events_after_def sorted_wrt_map sorted_wrt_filter)
    with False have "\<forall>x \<in> set ?later. re_ordinal x \<le> re_ordinal (last ?later)"
      by (cases ?later rule: rev_cases) (auto simp: sorted_wrt_append less_imp_le)
    with in_later have "\<forall>x \<in> set (el_events log). re_ordinal x \<le> re_ordinal (last ?later)"
      by (force simp: events_after_def)
    with in_later assms(1) show ?thesis
      by (auto simp: cursor list_all_iff ordered_log_def events_after_def)
  qed
  then show "list_all (\<lambda>x. re_ordinal x \<le> next_cursor cursor log) (el_events log)"
    "next_cursor cursor log \<le> el_ordinal log" by simp_all
qed

text \<open>A poll brings the required observations that are new.\<close>

lemma poll_news:
  assumes "grows log log'" and "bounded_log log" and "cursor \<le> el_ordinal log"
    and "list_all (\<lambda>x. re_ordinal x \<le> cursor) (required_events log)"
  shows "required log' = required log @ filter (\<lambda>e. \<not> is_log e) (map re_event (events_after cursor log'))"
proof -
  from assms(1,2) obtain news where news: "required_events log' = required_events log @ news"
    "list_all (\<lambda>x. el_ordinal log < re_ordinal x) news" by (auto simp: grows_def)
  have "filter (\<lambda>x. cursor < re_ordinal x) (required_events log') = news"
  proof -
    have "filter (\<lambda>x. cursor < re_ordinal x) (required_events log) = []" "filter (\<lambda>x. cursor < re_ordinal x) news = news"
      using assms(3,4) news(2) by (auto simp: filter_empty_conv filter_id_conv list_all_iff)
    with news(1) show ?thesis by simp
  qed
  then have "filter (\<lambda>x. \<not> is_log (re_event x)) (events_after cursor log') = news"
    by (simp add: required_events_def events_after_def conj_commute)
  then show ?thesis by (simp add: required_kept news(1) filter_map comp_def)
qed

lemma polls_from:
  assumes "reachable c s" and "successive c s ss" and "own_control c"
    and "cursor \<le> el_ordinal (sv_log s)" and "list_all (\<lambda>x. re_ordinal x \<le> cursor) (required_events (sv_log s))"
    and "t \<in> set ss" and "sv_terminal t \<noteq> None"
    and "poll_events cursor (served c cursor ss) = (evs, finished)"
  shows "finished \<and> required (sv_log (hd (dropWhile (\<lambda>s. sv_terminal s = None) ss))) =
    required (sv_log s) @ filter (\<lambda>e. \<not> is_log e) evs"
  using assms
proof (induction ss arbitrary: s cursor evs)
  case (Cons u us)
  let ?cursor = "next_cursor cursor (sv_log u)"
  let ?seen = "map re_event (events_after cursor (sv_log u))"
  from Cons.prems have u: "reaches c s u" "reachable c u" by (auto intro: reachable_reaches)
  from reaches_grows [OF u(1) reachable_bounded [OF Cons.prems(1)]] have g: "grows (sv_log s) (sv_log u)" .
  then have ord: "el_ordinal (sv_log s) \<le> el_ordinal (sv_log u)" by (simp add: grows_def)
  from reachable_evidence [OF u(2)] have "ordered_log (sv_log u)" by (simp add: evidence_sound_def sound_log_def)
  from next_cursor_end [OF this, of cursor] ord Cons.prems(4)
  have cursor: "list_all (\<lambda>x. re_ordinal x \<le> ?cursor) (el_events (sv_log u))" "?cursor \<le> el_ordinal (sv_log u)"
    by simp_all
  from poll_news [OF g reachable_bounded [OF Cons.prems(1)] Cons.prems(4,5)]
  have seen: "required (sv_log u) = required (sv_log s) @ filter (\<lambda>e. \<not> is_log e) ?seen" .
  show ?case
  proof (cases "sv_terminal u = None")
    case False
    with Cons.prems(8) seen show ?thesis by (auto simp: events_answer [OF Cons.prems(3)])
  next
    case True
    with Cons.prems(8) obtain later where later: "poll_events ?cursor (served c ?cursor us) = (later, finished)"
      and evs: "evs = ?seen @ later"
      by (auto simp: events_answer [OF Cons.prems(3)] split: prod.splits)
    from cursor(1) have "list_all (\<lambda>x. re_ordinal x \<le> ?cursor) (required_events (sv_log u))"
      by (auto simp: required_events_def list_all_iff)
    from Cons.IH [OF u(2) _ Cons.prems(3) cursor(2) this _ Cons.prems(7) later] Cons.prems(2,6,7) True seen evs
    show ?thesis by auto
  qed
qed simp

end
