(* ===== verification/Supervisor_Properties.thy ===== *)
theory Supervisor_Properties
  imports Supervisor_Samples Supervisor_Polling
begin

text \<open>
  What the supervisor and its client are for: an execution that is reported absent has no worker any
  more, no worker is launched without the authority that the coordinator stored, and what the runtime
  host sent is recorded.
\<close>

section \<open>Absence\<close>








lemma sample_inspect_awaiting:
  "inspect sample_sha256 supervised_plan (sample_files AwaitingStart) (Some (publicIdentity sample_identity))
     NoProcess NoProcess None f = AbsentObservation supervised_plan None"
  by (simp add: inspect_def sample_records sample_records_match observeSupervisor_def matchesPrivateProcess_def)
    (simp add: sample_manifest_def publicIdentity_def local_process_identity.defs)


text \<open>
  The condition on the manifest is needed: the client reads it before it probes the supervisor, and a
  supervisor that launches its worker and dies in between is reported absent.
\<close>

theorem stale_inspection:
  "\<exists>t. reaches sample_supervision (awaiting_start sample_supervision) t \<and> \<not> sv_alive t \<and> worker_alive t \<and>
     fs_manifest (awaiting_start sample_supervision) = pf_manifest (sample_files AwaitingStart) \<and>
     inspect sample_sha256 supervised_plan (sample_files AwaitingStart) (Some (publicIdentity sample_identity))
       NoProcess NoProcess None (fs_terminal t) = AbsentObservation supervised_plan None"
proof -
  have "step sample_supervision sample_started (sample_started\<lparr>sv_alive := False\<rparr>)"
    by (rule supervisor_dies) (simp add: sample_started_def awaiting_start_def)
  with sample_launches have "reaches sample_supervision (awaiting_start sample_supervision)
      (sample_started\<lparr>sv_alive := False\<rparr>)"
    by (rule reaches_step)
  then show ?thesis
    using sample_inspect_awaiting
    by (intro exI [of _ "sample_started\<lparr>sv_alive := False\<rparr>"])
      (simp add: sample_started_def worker_alive_def awaiting_start_def sample_files_def)
qed

section \<open>Launches\<close>

text \<open>
  C20: No worker without an authority. A supervisor launches only for the execution, the manifest, the
  capability and the process that the stored authority names.
\<close>

theorem launch_needs_authority:
  assumes "reachable c s" and "wk_launched s"
  shows "\<exists>a. readRecord EXECUTION_PRIVATE_RECORD_MAX_BYTES assertExecutionStartAuthority (fs_authority s) = Loaded a \<and>
    persisted_plan (sa_execution a) = sn_plan c \<and>
    ex_manifestDigest (sa_execution a) = executionManifestDigest (sn_sha256 c) (sn_manifest c) \<and>
    sa_capabilityDigest a = mf_capabilityDigest (sn_manifest c) \<and>
    canonicalJson (private_process_js (sa_supervisor a)) =
      canonicalJson (private_process_js (mf_supervisor (sn_manifest c)))"
proof -
  from reachable_invariant(1) [OF assms(1)] assms(2) have "wk_spawned s" by (simp add: tasks_ok_def)
  with reachable_invariant(4) [OF assms(1)] have "readAuthority c (fs_authority s)" by (simp add: authorized_ok_def)
  then show ?thesis
    by (auto simp: readAuthority_def assertPersistedExecutionRef_def result_simps split: record_read.splits if_splits)
qed

theorem launch_needs_authority_witness:
  "\<exists>a. readRecord EXECUTION_PRIVATE_RECORD_MAX_BYTES assertExecutionStartAuthority (fs_authority sample_started) =
      Loaded a \<and> persisted_plan (sa_execution a) = supervised_plan"
  using launch_needs_authority [OF sample_started_reachable]
  by (auto simp: sample_started_def sample_supervision_def)

text \<open>What \<open>authorize\<close> wrote for a supervisor is the authority that the supervisor accepts.\<close>

lemma authority_accepted:
  assumes "authorize env execution files None answer = (ok, Some bytes)"
    and "sn_sha256 c = en_sha256 env" and "persisted_plan execution = sn_plan c"
    and "assertExecutionPlanRef (sn_plan c)"
    and "pf_manifest files = Some (manifest_bytes c st)"
    and "valid_manifest (sn_manifest c)" and "manifest_fits c st"
  shows "readAuthority c (Some bytes)"
proof -
  from assms(1) have execution: "assertPersistedExecutionRef execution None = Inr ()"
    by (auto simp: authorize_def split: if_splits)
  with assms(1) obtain records
    where records: "readPreparedRecords (en_sha256 env) files (persisted_plan execution)
        (Some (ex_manifestDigest execution)) = Inr records"
      and bytes: "bytes = record_bytes (authority_js (startAuthority execution records))"
      and small: "length bytes \<le> EXECUTION_PRIVATE_RECORD_MAX_BYTES"
    by (auto simp: authorize_def writeRecordExclusive_def split: sum.splits if_splits)
  have "readRecord EXECUTION_PRIVATE_RECORD_MAX_BYTES assertExecutionManifestRecord (pf_manifest files) =
      Loaded ((sn_manifest c)\<lparr>mf_state := st\<rparr>)"
    using read_manifest [OF assms(6,7)] assms(5) by simp
  with records have manifest: "pd_manifest records = (sn_manifest c)\<lparr>mf_state := st\<rparr>"
    and digest: "ex_manifestDigest execution = executionManifestDigest (en_sha256 env) (pd_manifest records)"
    by (auto simp: readPreparedRecords_def load_record_def read_private_def result_simps split: record_read.splits)
  let ?a = "startAuthority execution records"
  have valid: "valid_authority ?a"
    using execution assms(6) by (simp add: valid_authority_def startAuthority_def valid_execution_def manifest valid_manifest_def)
  have "readRecord EXECUTION_PRIVATE_RECORD_MAX_BYTES assertExecutionStartAuthority (Some bytes) = Loaded ?a"
    unfolding bytes
  proof (rule readRecord_back)
    show "is_json (authority_js ?a)" "js_distinct (authority_js ?a)"
      by (auto simp: authority_js_def version_field_def execution_js_def plan_fields_def)
    show "length (record_bytes (authority_js ?a)) \<le> EXECUTION_PRIVATE_RECORD_MAX_BYTES" using small bytes by simp
    show "assertExecutionStartAuthority (canonical_order (authority_js ?a)) = Some ?a" by (rule authority_back [OF valid])
  qed
  moreover have "assertPersistedExecutionRef execution (Some (sn_plan c)) = Inr ()"
    using execution assms(3,4) by (simp add: assertPersistedExecutionRef_def result_simps)
  ultimately show ?thesis
    using assms(2) digest
    by (simp add: readAuthority_def startAuthority_def manifest executionManifestDigest_def manifest_fields_def)
qed

section \<open>Publishing a terminal record\<close>

lemma reaches_steps: "step c s t \<Longrightarrow> reaches c t u \<Longrightarrow> reaches c s u"
  by (blast intro: reaches_trans reaches_step reaches_refl)

definition published :: "supervision \<Rightarrow> execution_terminal \<Rightarrow> supervisor \<Rightarrow> supervisor" where
  "published c v s =
     s\<lparr>sv_terminal := Some v, sv_state := TerminalState, sv_publication := Published v,
       fs_terminal := Some (terminal_bytes v), fs_manifest := Some (manifest_bytes c TerminalState)\<rparr>"

lemma publication_reaches:
  assumes "sv_alive s" and "sv_publication s = WritingTerminal v False" and "fs_terminal s = None"
    and "fits_terminal v" and "manifest_fits c TerminalState"
  shows "reaches c s (published c v s)"
proof -
  let ?a = "link_terminal v s"
  let ?b = "terminal_written v ?a"
  let ?d = "replace_manifest c TerminalState (?b\<lparr>sv_publication := WritingManifest v True\<rparr>)"
  have "step c s ?a"
    using assms by (intro terminal_linked) (simp_all add: fits_terminal_def terminal_bytes_def)
  moreover have "step c ?a ?b"
    using assms by (intro terminal_synced) (simp_all add: link_terminal_def)
  moreover have "step c ?b ?d"
    using assms by (intro terminal_replaced) (simp_all add: terminal_written_def link_terminal_def)
  moreover have "step c ?d (?d\<lparr>sv_publication := Published v\<rparr>)"
    using assms by (intro terminal_published) (simp_all add: terminal_written_def link_terminal_def replace_manifest_def)
  moreover have "?d\<lparr>sv_publication := Published v\<rparr> = published c v s"
    using assms(3) by (simp add: published_def terminal_written_def link_terminal_def replace_manifest_def)
  ultimately show ?thesis by (metis reaches_refl reaches_step)
qed

section \<open>The output of the host\<close>















lemma flush_empty: "flushDroppedLogs empty_log = (empty_log, True)"
  by (simp add: flushDroppedLogs_def empty_log_def)



section \<open>Termination\<close>


text \<open>The sample supervisor after a request for termination before its start.\<close>

definition cancelled_terminal :: execution_terminal where
  "cancelled_terminal =
     \<lparr>tm_executionId = ex_executionId supervised_plan, tm_generation = 1, tm_outcome = ResCancelled, tm_events = [],
      tm_result = cancelled_result CommandKind, tm_cleanup = ConfirmedCleanup\<rparr>"

lemma cancelled_terminal_ok: "valid_terminal cancelled_terminal" "fits_terminal cancelled_terminal"
proof -
  show "valid_terminal cancelled_terminal"
    by (simp add: cancelled_terminal_def valid_terminal_def positive_int_def MAX_SAFE_INTEGER_def)
  show "fits_terminal cancelled_terminal"
    unfolding fits_terminal_def
    by (rule record_bytes_weight)
      (simp_all add: terminal_js_def cancelled_terminal_def sample_defs EXECUTION_TERMINAL_MAX_BYTES_def byte_length_def
        cancelled_result_def commandExecutionToRecord_def emptyCommandFailure_def serialized_js_def
        command_report_js_def failure_js_def opt_field_def)
qed

definition cancelled_supervisor :: supervisor where
  "cancelled_supervisor = published sample_supervision cancelled_terminal
     ((awaiting_start sample_supervision)
        \<lparr>sv_requested := True, sv_publication := WritingTerminal cancelled_terminal False,
         sv_serving := ServingTerminate AwaitingPublication\<rparr>)"

lemma cancelled_reachable: "reachable sample_supervision cancelled_supervisor"
proof -
  let ?s = "awaiting_start sample_supervision"
  let ?t = "?s\<lparr>sv_requested := True, sv_publication := WritingTerminal cancelled_terminal False,
      sv_serving := ServingTerminate AwaitingPublication\<rparr>"
  have "boundedTerminal True cancelled_terminal = cancelled_terminal"
    by (simp add: boundedTerminal_def cancelled_terminal_ok)
  then have "terminal_value supervised_plan True empty_log (cancelled_result CommandKind) ConfirmedCleanup =
      (empty_log, Some cancelled_terminal)"
    by (simp add: terminal_value_def flush_empty)
      (simp add: cancelled_terminal_def supervised_plan_def terminalOutcome_def empty_log_def)
  then have "begin_terminate sample_supervision ?s =
      (?s\<lparr>sv_requested := True, sv_publication := WritingTerminal cancelled_terminal False\<rparr>, AwaitingPublication)"
    by (simp add: begin_terminate_def publishTerminal_def awaiting_start_def sample_supervision_def)
      (simp add: supervised_plan_def)
  from serve_terminate [OF _ _ _ this] have "step sample_supervision ?s ?t" by (simp add: awaiting_start_def)
  moreover have "reaches sample_supervision ?t cancelled_supervisor"
    unfolding cancelled_supervisor_def
    by (rule publication_reaches) (simp_all add: awaiting_start_def cancelled_terminal_ok sample_manifest_fits)
  ultimately show ?thesis unfolding reachable_def by (rule reaches_steps)
qed






section \<open>Observations\<close>

text \<open>
  C22: A client that polls misses nothing. However often it asks while the execution runs, when it is told
  that there is a terminal record it has received every required observation that the supervisor retains
  then, once and in order; lines of the log may be dropped.
\<close>

theorem polls_complete:
  assumes "successive c (awaiting_start c) ss" and "own_control c"
    and "t \<in> set ss" and "sv_terminal t \<noteq> None"
  shows "snd (poll_events 0 (served c 0 ss)) \<and>
    filter (\<lambda>e. \<not> is_log e) (fst (poll_events 0 (served c 0 ss))) =
      required (sv_log (hd (dropWhile (\<lambda>s. sv_terminal s = None) ss)))"
  using polls_from [OF _ assms(1,2) _ _ assms(3,4), of 0 "fst (poll_events 0 (served c 0 ss))"
      "snd (poll_events 0 (served c 0 ss))"]
  by (simp add: reachable_def reaches_refl awaiting_start_def required_events_def empty_log_def required_def)

theorem polls_complete_witness:
  "snd (poll_events 0 (served sample_supervision 0 [awaiting_start sample_supervision, cancelled_supervisor]))"
proof -
  have "own_control sample_supervision"
    by (simp add: own_control_def sample_supervision_def supervised_control_def supervised_plan_def)
  then show ?thesis
    using polls_complete [of sample_supervision "[awaiting_start sample_supervision, cancelled_supervisor]"
        cancelled_supervisor] cancelled_reachable
    by (simp add: reachable_def reaches_refl cancelled_supervisor_def published_def)
qed

section \<open>Files\<close>

text \<open>
  C23: What a supervisor keeps has its type. Its manifest always reads back as its own, in one of the
  states, and shows the terminal state only when there is a terminal record; that record is of this
  execution, holds at most 256 observations and a valid result, fits its file, and reads back unless a
  count of dropped lines has left the range of safe integers. The retained log is within its bounds.
\<close>

theorem supervisor_files_typed:
  assumes "reachable c s" and "valid_manifest (sn_manifest c)" and "\<And>st. manifest_fits c st"
  shows "(\<exists>st. readRecord EXECUTION_PRIVATE_RECORD_MAX_BYTES assertExecutionManifestRecord (fs_manifest s) =
        Loaded ((sn_manifest c)\<lparr>mf_state := st\<rparr>) \<and> (st = TerminalState \<longrightarrow> sv_terminal s \<noteq> None)) \<and>
    (\<forall>v. sv_terminal s = Some v \<longrightarrow> sound_terminal c v \<and> fits_terminal v \<and>
      readRecord EXECUTION_TERMINAL_MAX_BYTES assertExecutionTerminalRecord (fs_terminal s) =
        (if valid_terminal v then Loaded (canonical_terminal v) else UnreadableRecord)) \<and>
    bounded_log (sv_log s)"
proof (intro conjI allI impI)
  from reachable_invariant(2) [OF assms(1)] obtain st where st: "fs_manifest s = Some (manifest_bytes c st)"
    "manifest_shows st s" by (auto simp: files_ok_def)
  with read_manifest [OF assms(2,3), of st]
  show "\<exists>st. readRecord EXECUTION_PRIVATE_RECORD_MAX_BYTES assertExecutionManifestRecord (fs_manifest s) =
      Loaded ((sn_manifest c)\<lparr>mf_state := st\<rparr>) \<and> (st = TerminalState \<longrightarrow> sv_terminal s \<noteq> None)"
    by (intro exI [of _ st]) (simp add: manifest_shows_def)
next
  fix v assume v: "sv_terminal s = Some v"
  from reachable_invariant(2) [OF assms(1)] v have stored: "fs_terminal s = Some (terminal_bytes v)"
    by (simp add: files_ok_def)
  from reachable_evidence [OF assms(1)] v show "sound_terminal c v" "fits_terminal v"
    by (auto simp: evidence_sound_def recorded_def stored fits_terminal_def terminal_bytes_def)
  show "readRecord EXECUTION_TERMINAL_MAX_BYTES assertExecutionTerminalRecord (fs_terminal s) =
      (if valid_terminal v then Loaded (canonical_terminal v) else UnreadableRecord)"
    by (rule read_terminal [OF assms(1) v])
qed (rule reachable_bounded [OF assms(1)])

theorem supervisor_files_typed_witness:
  "sound_terminal sample_supervision cancelled_terminal \<and> bounded_log (sv_log cancelled_supervisor)"
  using supervisor_files_typed [OF cancelled_reachable _ sample_manifest_fits] sample_manifest_valid
  by (simp add: sample_supervision_def cancelled_supervisor_def published_def)

end
