(* ===== verification/Runtime_Host.thy ===== *)
theory Runtime_Host
  imports Supervisor_Settlement Parsed_Values
begin

text \<open>
  The isolated worker (\<open>execution-host/src/runtime-host.ts\<close>): what it captures of a command, and the
  outputs it writes for its supervisor. The child process and the runtime adapter are arguments: the
  chunks and the exit of the one, the observations and the result of the other.
\<close>

section \<open>A command\<close>

text \<open>What is kept of one output stream, and how much of it there was.\<close>

record captured_output =
  co_bytes :: nat
  co_kept :: nat
  co_chunks :: "string list"

definition capture_chunk :: "int \<Rightarrow> string \<Rightarrow> captured_output \<Rightarrow> captured_output" where
  "capture_chunk maxOutputBytes chunk c =
     (let kept = take (nat (max 0 (maxOutputBytes - int (co_kept c)))) chunk in
      \<lparr>co_bytes = co_bytes c + length chunk, co_kept = co_kept c + length kept,
       co_chunks = (if 0 < length kept then co_chunks c @ [kept] else co_chunks c)\<rparr>)"

definition capture_output :: "int \<Rightarrow> string list \<Rightarrow> captured_output" where
  "capture_output maxOutputBytes chunks =
     fold (capture_chunk maxOutputBytes) chunks \<lparr>co_bytes = 0, co_kept = 0, co_chunks = []\<rparr>"

text \<open>How the command ended, and what the host had decided until then.\<close>

record command_end =
  en_exitCode :: "int option"
  en_signal :: "string option"
  en_failedToStart :: bool
  en_cancelled :: bool
  en_timedOut :: bool
  en_durationMs :: int

definition command_message :: "command_end \<Rightarrow> string" where
  "command_message e =
     (if en_timedOut e then ''Command exceeded its duration limit''
      else if en_cancelled e then ''Command cancelled by execution supervisor''
      else if en_failedToStart e then ''Command could not start''
      else ''Command exited with code '' @ (case en_exitCode e of None \<Rightarrow> ''null'' | Some n \<Rightarrow> int_string n))"

definition command_passed :: "command_end \<Rightarrow> bool" where
  "command_passed e \<longleftrightarrow>
     \<not> en_cancelled e \<and> \<not> en_timedOut e \<and> \<not> en_failedToStart e \<and> en_exitCode e = Some 0"

text \<open>
  \<open>executeCommand\<close>: a command that is not confined is not run; otherwise this is what it gives after
  its child has closed.
\<close>

definition confined_command :: "command_definition \<Rightarrow> workspace_ref \<Rightarrow> bool" where
  "confined_command c w \<longleftrightarrow> ws_mode w \<noteq> MemoryMode \<and> \<not> isAbsolute (cm_cwd c)"

definition executeCommand :: "int \<Rightarrow> string list \<Rightarrow> string list \<Rightarrow> command_end \<Rightarrow> command_execution" where
  "executeCommand maxOutputBytes stdout_chunks stderr_chunks e =
     (let out = capture_output maxOutputBytes stdout_chunks;
          err = capture_output maxOutputBytes stderr_chunks in
      \<lparr>ce_output = \<lparr>cr_passed = command_passed e, cr_exitCode = en_exitCode e, cr_signal = en_signal e,
         cr_durationMs = en_durationMs e, cr_stdoutBytes = int (co_bytes out), cr_stderrBytes = int (co_bytes err),
         cr_stdoutTruncated = co_kept out < co_bytes out, cr_stderrTruncated = co_kept err < co_bytes err\<rparr>,
       ce_stdout = concat (co_chunks out), ce_stderr = concat (co_chunks err),
       ce_failure = (if command_passed e then None
         else Some \<lparr>f_category = (if en_timedOut e then BudgetExhausted else ToolFailure),
           f_message = command_message e\<rparr>)\<rparr>)"

section \<open>Outputs\<close>

text \<open>The command branch of \<open>runExecutionRuntimeHost\<close>.\<close>

definition command_outputs :: "command_execution \<Rightarrow> host_output list" where
  "command_outputs result =
     [EventOutput StartedEvent,
      EventOutput (CompletedEvent (if cr_passed (ce_output result) then ResSucceeded else ResFailed)),
      CommandResult (commandExecutionToRecord result)]"

text \<open>
  Its runtime branch and \<open>executeRuntime\<close>: observations up to the first that is invalid, and the result
  when all were valid. The flag says whether the host ends well.
\<close>

definition runtime_outputs :: "runtime_event list \<Rightarrow> execution_result option \<Rightarrow> host_output list \<times> bool" where
  "runtime_outputs events result =
     (let valid = takeWhile validRuntimeEvent events in
      case result of
        Some r \<Rightarrow>
          if length valid = length events \<and> assertExecutionResult r
          then (map EventOutput events @ [RuntimeResult r], True) else (map EventOutput valid, False)
      | None \<Rightarrow> (map EventOutput valid, False))"

section \<open>What they are\<close>

text \<open>Of each stream the first bytes are kept, up to the limit, however it was cut into chunks.\<close>

lemma capture_chunks:
  assumes "concat (co_chunks c) = take (nat limit) s" and "co_kept c = length (concat (co_chunks c))"
    and "co_bytes c = length s" and "0 \<le> limit"
  shows "concat (co_chunks (fold (capture_chunk limit) chunks c)) = take (nat limit) (s @ concat chunks) \<and>
    co_kept (fold (capture_chunk limit) chunks c) =
      length (concat (co_chunks (fold (capture_chunk limit) chunks c))) \<and>
    co_bytes (fold (capture_chunk limit) chunks c) = length (s @ concat chunks)"
  using assms
proof (induction chunks arbitrary: c s)
  case (Cons chunk chunks)
  let ?c = "capture_chunk limit chunk c"
  have room: "nat (max 0 (limit - int (co_kept c))) = nat limit - length s"
    using Cons.prems by (auto simp: min_def)
  have "concat (co_chunks ?c) = take (nat limit) (s @ chunk)" "co_kept ?c = length (concat (co_chunks ?c))"
    "co_bytes ?c = length (s @ chunk)"
    using Cons.prems unfolding capture_chunk_def room by (auto simp: Let_def)
  from Cons.IH [OF this Cons.prems(4)] show ?case by simp
qed simp

lemma capture_output_exact:
  assumes "0 \<le> limit"
  shows "concat (co_chunks (capture_output limit chunks)) = take (nat limit) (concat chunks)"
    and "co_bytes (capture_output limit chunks) = length (concat chunks)"
    and "co_kept (capture_output limit chunks) = min (nat limit) (length (concat chunks))"
  using capture_chunks [of "\<lparr>co_bytes = 0, co_kept = 0, co_chunks = []\<rparr>" limit "[]" chunks] assms
  by (simp_all add: capture_output_def min.commute)

text \<open>The outputs are what the supervisor accepts, with one result.\<close>

lemma command_outputs_valid:
  assumes "valid_command_report (ce_output result)"
  shows "list_all valid_output (command_outputs result)"
    and "output_results (command_outputs result) = [CommandTerminal (commandExecutionToRecord result)]"
    and "output_events (command_outputs result) =
      [StartedEvent, CompletedEvent (if cr_passed (ce_output result) then ResSucceeded else ResFailed)]"
proof -
  have fits: "fits_json v n" if "is_json v" "js_weight v \<le> n" for v n
    using that canonicalJson_defined_iff [of v] canonical_weight [of v]
    by (auto simp: fits_json_def split: option.splits)
  have "validRuntimeEvent StartedEvent" "validRuntimeEvent (CompletedEvent st)" for st
    by (cases st; simp add: validRuntimeEvent_def EXECUTION_PRIVATE_RECORD_MAX_BYTES_def fits)+
  with assms show "list_all valid_output (command_outputs result)"
    by (simp add: command_outputs_def valid_serialized_def commandExecutionToRecord_def)
qed (simp_all add: command_outputs_def)

lemma takeWhile_all: "length (takeWhile p xs) = length xs \<Longrightarrow> list_all p xs"
  by (induction xs) (auto split: if_splits)

lemma runtime_outputs_valid:
  assumes "runtime_outputs events (Some r) = (xs, True)" and "distinct_result r"
  shows "list_all valid_output xs" and "output_results xs = [RuntimeTerminal r]" and "output_events xs = events"
proof -
  from assms(1) have len: "length (takeWhile validRuntimeEvent events) = length events"
    and r: "assertExecutionResult r" and xs: "xs = map EventOutput events @ [RuntimeResult r]"
    by (simp_all add: runtime_outputs_def Let_def split: if_splits)
  from takeWhile_all [OF len] r xs show "list_all valid_output xs" using assms(2) by (auto simp: list_all_iff)
  show "output_results xs = [RuntimeTerminal r]" "output_events xs = events"
    unfolding xs by (induction events) simp_all
qed

end
