(* ===== verification/Authored_Documents.thy ===== *)
theory Authored_Documents
  imports Process_Identity Store_Decode Workflow_Roundtrip
begin

text \<open>
  Reading what an operator authored: the paths a caller may select (\<open>path-policy/src/index.ts\<close>), the
  loaders of workflow files (\<open>core/src/workflow.ts\<close>) and task files with their compilation into a
  workflow of two nodes (\<open>core/src/task.ts\<close>). The file system is a record of functions, one
  reading of it for a whole load; the YAML parser and AJV's compiler of schemas are parameters.
\<close>

section \<open>Paths inside a trusted root\<close>

datatype file_kind = RegularFile | DirectoryFile | OtherFile

text \<open>\<open>realpath\<close>, \<open>stat\<close> and \<open>readFile\<close>; \<open>None\<close> is a rejected promise.\<close>

record file_system =
  fs_realpath :: "string \<Rightarrow> string option"
  fs_kind :: "string \<Rightarrow> file_kind option"
  fs_read :: "string \<Rightarrow> string option"

datatype path_error = OutsideRoot | InvalidChild | WrongType | FileSystemError


definition starts_with :: "string \<Rightarrow> string \<Rightarrow> bool" where
  "starts_with p s \<longleftrightarrow> take (length p) s = p"

definition boundary_of :: "string \<Rightarrow> string" where
  "boundary_of root = (if root \<noteq> [] \<and> last root = CHR ''/'' then root else root @ ''/'')"

definition resolveExistingChild ::
    "file_system \<Rightarrow> string \<Rightarrow> string \<Rightarrow> file_kind \<Rightarrow> path_error + string" where
  "resolveExistingChild fs root input expected =
     (if input = [] \<or> CHR 0x00 \<in> set input then Inl InvalidChild
      else
        let lexical = resolve_path root input in
        if lexical = root then (if expected \<noteq> DirectoryFile then Inl WrongType else Inr root)
        else if \<not> starts_with (boundary_of root) lexical then Inl OutsideRoot
        else
          bindE (some_or FileSystemError (fs_realpath fs lexical)) (\<lambda>canonical.
          if canonical \<noteq> root \<and> \<not> starts_with (boundary_of root) canonical then Inl OutsideRoot
          else
            bindE (some_or FileSystemError (fs_kind fs canonical)) (\<lambda>kind.
            bindE (check (kind = expected) WrongType) (\<lambda>_. Inr canonical))))"





section \<open>Workflow documents\<close>

definition policy_document_dec :: "js \<Rightarrow> attempt_policy_document option" where
  "policy_document_dec v = do {
     f \<leftarrow> obj [''maxAttempts'', ''maxDuration''] v;
     n \<leftarrow> opt ''maxAttempts'' num f;
     d \<leftarrow> opt ''maxDuration'' str f;
     Some \<lparr>ap_maxAttempts = n, ap_maxDuration = d\<rparr> }"

definition command_document_dec :: "js \<Rightarrow> command_document option" where
  "command_document_dec v = do {
     f \<leftarrow> obj [''argv'', ''cwd'', ''maxDuration'', ''maxOutputBytes''] v;
     a \<leftarrow> req ''argv'' (arr str) f;
     c \<leftarrow> opt ''cwd'' str f;
     d \<leftarrow> req ''maxDuration'' str f;
     b \<leftarrow> opt ''maxOutputBytes'' num f;
     Some \<lparr>cd_argv = a, cd_cwd = c, cd_maxDuration = d, cd_maxOutputBytes = b\<rparr> }"

definition schema_reference_dec :: "js \<Rightarrow> string option" where
  "schema_reference_dec v = do { f \<leftarrow> obj [''schema''] v; req ''schema'' str f }"

definition node_document_dec :: "js \<Rightarrow> workflow_node_document option" where
  "node_document_dec v = do {
     f \<leftarrow> obj [''kind'', ''needs'', ''role'', ''output'', ''attemptPolicy'', ''mutation'', ''command''] v;
     k \<leftarrow> req ''kind'' node_kind_dec f;
     ns \<leftarrow> opt ''needs'' (arr str) f;
     r \<leftarrow> opt ''role'' str f;
     out \<leftarrow> req ''output'' schema_reference_dec f;
     p \<leftarrow> opt ''attemptPolicy'' policy_document_dec f;
     m \<leftarrow> opt ''mutation'' mutation_dec f;
     c \<leftarrow> opt ''command'' command_document_dec f;
     Some \<lparr>wn_kind = k, wn_needs = ns, wn_role = r, wn_output = out, wn_attemptPolicy = p,
       wn_mutation = m, wn_command = c\<rparr> }"

definition policies_dec :: "js \<Rightarrow> attempt_policy_document option option" where
  "policies_dec v = do {
     f \<leftarrow> obj [''defaultAttemptBudget''] v;
     opt ''defaultAttemptBudget'' policy_document_dec f }"

text \<open>The shape that \<open>workflow-document.v1alpha1.json\<close> prescribes.\<close>

definition workflow_document_dec :: "js \<Rightarrow> workflow_document option" where
  "workflow_document_dec v = do {
     f \<leftarrow> obj [''apiVersion'', ''kind'', ''metadata'', ''inputs'', ''policies'', ''nodes''] v;
     a \<leftarrow> req ''apiVersion'' str f;
     k \<leftarrow> req ''kind'' str f;
     m \<leftarrow> req ''metadata'' metadata_dec f;
     ins \<leftarrow> req ''inputs'' (dict_dec schema_reference_dec) f;
     q \<leftarrow> opt ''policies'' policies_dec f;
     nds \<leftarrow> req ''nodes'' (dict_dec node_document_dec) f;
     Some \<lparr>wd_apiVersion = a, wd_kind = k, wd_metadata = m, wd_inputs = ins,
       wd_defaultAttemptBudget = Option.bind q id, wd_nodes = nds\<rparr> }"

definition parse_document :: "(string \<Rightarrow> js option) \<Rightarrow> string \<Rightarrow> workflow_error + workflow_document" where
  "parse_document yaml = parseWorkflowYaml (\<lambda>s. Option.bind (yaml s) workflow_document_dec)"

section \<open>Loading workflow files\<close>

datatype load_error =
    PathRejected path_error
  | SourceUnreadable string
  | WorkflowRejected workflow_error
  | FrontMatterRequired
  | InvalidFrontMatter
  | InvalidTask
  | EmptyObjective

definition defaultSchemaLoader :: "(js \<Rightarrow> bool) \<Rightarrow> file_system \<Rightarrow> schema_loader" where
  "defaultSchemaLoader compiles fs path =
     bindE (some_or (SchemaNotLoaded path) (Option.bind (fs_read fs path) parse_json)) (\<lambda>parsed.
     bindE (check (is_object parsed) (SchemaNotLoaded path)) (\<lambda>_.
     bindE (check (compiles parsed) (InvalidSchema path)) (\<lambda>_. Inr parsed)))"

text \<open>A schema outside the root is an error of the load, here that of a schema not loaded.\<close>

definition scopedSchemaLoader :: "(js \<Rightarrow> bool) \<Rightarrow> file_system \<Rightarrow> string \<Rightarrow> schema_loader" where
  "scopedSchemaLoader compiles fs root schemaPath =
     bindE (map_error (\<lambda>_. SchemaNotLoaded schemaPath) (resolveExistingChild fs root schemaPath RegularFile))
       (defaultSchemaLoader compiles fs)"

definition readSource :: "file_system \<Rightarrow> string \<Rightarrow> load_error + string" where
  "readSource fs absolutePath = some_or (SourceUnreadable absolutePath) (fs_read fs absolutePath)"

definition load_source ::
    "string \<Rightarrow> (string \<Rightarrow> js option) \<Rightarrow> (js \<Rightarrow> bool) \<Rightarrow> file_system \<Rightarrow> schema_loader \<Rightarrow> string \<Rightarrow>
     load_error + workflow_definition" where
  "load_source cwd yaml compiles fs loadSchema sourcePath =
     bindE (readSource fs sourcePath) (\<lambda>source.
     map_error WorkflowRejected
       (bindE (parse_document yaml source) (\<lambda>doc.
        normalizeWorkflow cwd loadSchema compiles doc sourcePath)))"

definition loadWorkflow ::
    "string \<Rightarrow> (string \<Rightarrow> js option) \<Rightarrow> (js \<Rightarrow> bool) \<Rightarrow> file_system \<Rightarrow> string \<Rightarrow>
     load_error + workflow_definition" where
  "loadWorkflow cwd yaml compiles fs filePath =
     load_source cwd yaml compiles fs (defaultSchemaLoader compiles fs) (resolve_path cwd filePath)"


section \<open>Task files\<close>

record task_front =
  td_apiVersion :: string
  td_kind :: string
  td_metadata :: workflow_metadata
  td_role :: string
  td_mutation :: node_mutation
  td_acceptanceCriteria :: "string list"
  td_verification :: command_document
  td_attemptPolicy :: "attempt_policy_document option"

record task_document = task_front +
  td_objective :: string

definition task_front_dec :: "js \<Rightarrow> task_front option" where
  "task_front_dec v = do {
     f \<leftarrow> obj [''apiVersion'', ''kind'', ''metadata'', ''role'', ''workspace'', ''acceptanceCriteria'',
       ''verification'', ''attemptPolicy''] v;
     a \<leftarrow> req ''apiVersion'' str f;
     k \<leftarrow> req ''kind'' str f;
     m \<leftarrow> req ''metadata'' metadata_dec f;
     r \<leftarrow> req ''role'' str f;
     w \<leftarrow> req ''workspace'' (obj [''mutation'']) f;
     mu \<leftarrow> req ''mutation'' mutation_dec w;
     cs \<leftarrow> req ''acceptanceCriteria'' (arr str) f;
     c \<leftarrow> req ''verification'' command_document_dec f;
     p \<leftarrow> opt ''attemptPolicy'' policy_document_dec f;
     Some \<lparr>td_apiVersion = a, td_kind = k, td_metadata = m, td_role = r, td_mutation = mu,
       td_acceptanceCriteria = cs, td_verification = c, td_attemptPolicy = p\<rparr> }"

text \<open>The constraints of \<open>task-document.v1alpha1.json\<close> on the values.\<close>

definition valid_task_front :: "'a task_front_scheme \<Rightarrow> bool" where
  "valid_task_front t \<longleftrightarrow>
     td_apiVersion t = ''anastom.dev/v1alpha1'' \<and> td_kind t = ''Task'' \<and>
     valid_document_id (wm_id (td_metadata t)) \<and> valid_version (wm_version (td_metadata t)) \<and>
     td_role t \<noteq> [] \<and>
     td_acceptanceCriteria t \<noteq> [] \<and> list_all (\<lambda>c. c \<noteq> []) (td_acceptanceCriteria t) \<and>
     valid_command_document (td_verification t) \<and>
     pred_option valid_policy_document (td_attemptPolicy t)"

text \<open>
  The scan for the delimiters, on positions as in the code. Texts are code units below 256, which
  a byte order mark is not.
\<close>

definition index_from :: "char \<Rightarrow> string \<Rightarrow> nat \<Rightarrow> nat option" where
  "index_from c s n =
     (let rest = dropWhile (\<lambda>d. d \<noteq> c) (drop n s) in
      if rest = [] then None else Some (length s - length rest))"

definition slice_text :: "string \<Rightarrow> nat \<Rightarrow> nat \<Rightarrow> string" where
  "slice_text s a b = take (b - a) (drop a s)"

text \<open>\<open>replace(/\r$/, "")\<close>\<close>

definition strip_cr :: "string \<Rightarrow> string" where
  "strip_cr s = (if s \<noteq> [] \<and> last s = CHR 0x0D then butlast s else s)"

abbreviation newline :: char where
  "newline \<equiv> CHR 0x0A"

lemma index_from_bounds: "index_from c s n = Some i \<Longrightarrow> n \<le> i \<and> i < length s"
proof -
  assume i: "index_from c s n = Some i"
  let ?rest = "dropWhile (\<lambda>d. d \<noteq> c) (drop n s)"
  have "?rest \<noteq> []" and "i = length s - length ?rest"
    using i by (auto simp: index_from_def Let_def split: if_splits)
  moreover have "length ?rest \<le> length s - n"
    using length_dropWhile_le [of "\<lambda>d. d \<noteq> c" "drop n s"] by simp
  ultimately show ?thesis by (cases ?rest) auto
qed

function closing_delimiter :: "string \<Rightarrow> nat \<Rightarrow> (nat \<times> nat) option" where
  "closing_delimiter text cursor =
     (if cursor < length text then
        (case index_from newline text cursor of
           None \<Rightarrow> None
         | Some e \<Rightarrow>
             if strip_cr (slice_text text cursor e) = ''---'' then Some (cursor, e)
             else closing_delimiter text (e + 1))
      else None)"
  by pat_completeness auto
termination
  by (relation "measure (\<lambda>(text, cursor). length text - cursor)") (auto dest: index_from_bounds)

declare closing_delimiter.simps [simp del]

text \<open>What follows the scan: the YAML between the delimiters, then the objective.\<close>

definition task_of :: "(string \<Rightarrow> js option) \<Rightarrow> string \<Rightarrow> string \<Rightarrow> load_error + task_document" where
  "task_of yaml front body =
     bindE (some_or InvalidFrontMatter (yaml front)) (\<lambda>candidate.
     bindE (some_or InvalidTask (task_front_dec candidate)) (\<lambda>t.
     bindE (check (valid_task_front t) InvalidTask) (\<lambda>_.
     let objective = trim_space body in
     bindE (check (objective \<noteq> []) EmptyObjective) (\<lambda>_.
     Inr (task_front.extend t \<lparr>td_objective = objective\<rparr>)))))"

definition parseTaskMarkdown :: "(string \<Rightarrow> js option) \<Rightarrow> string \<Rightarrow> load_error + task_document" where
  "parseTaskMarkdown yaml text =
     (case index_from newline text 0 of
        None \<Rightarrow> Inl FrontMatterRequired
      | Some openingEnd \<Rightarrow>
          if strip_cr (take openingEnd text) \<noteq> ''---'' then Inl FrontMatterRequired
          else
            (case closing_delimiter text (openingEnd + 1) of
               None \<Rightarrow> Inl FrontMatterRequired
             | Some (closingStart, closingEnd) \<Rightarrow>
                 task_of yaml (slice_text text (openingEnd + 1) closingStart) (drop (closingEnd + 1) text)))"

section \<open>Compilation of a task\<close>

definition workerReportSchema :: js where
  "workerReportSchema = JObj
     [(''$id'', JStr ''anastom.dev/worker-report/v1alpha1''), (''type'', JStr ''object''),
      (''additionalProperties'', JBool False),
      (''required'', str_array [''summary'', ''changedFiles'', ''notes'']),
      (''properties'', JObj
        [(''summary'', JObj
           [(''type'', JStr ''string''), (''minLength'', JInt 30),
            (''pattern'', JStr (''^(?:'' @ [CHR 0x5C] @ ''s*'' @ [CHR 0x5C] @ ''S){30}'')),
            (''description'', JStr (''Describe the work and its outcome using at least 30 '' @
               ''non-whitespace characters. Verification is reported independently.''))]),
         (''changedFiles'', JObj
           [(''type'', JStr ''array''), (''items'', JObj [(''type'', JStr ''string'')])]),
         (''notes'', JObj
           [(''type'', JStr ''array''), (''items'', JObj [(''type'', JStr ''string'')])])])]"

definition commandResultSchema :: js where
  "commandResultSchema = JObj
     [(''$id'', JStr ''anastom.dev/command-result/v1alpha1''), (''type'', JStr ''object''),
      (''additionalProperties'', JBool False),
      (''required'', str_array [''passed'', ''exitCode'', ''signal'', ''durationMs'', ''stdoutBytes'',
         ''stderrBytes'', ''stdoutTruncated'', ''stderrTruncated'']),
      (''properties'', JObj
        [(''passed'', JObj [(''type'', JStr ''boolean'')]),
         (''exitCode'', JObj [(''type'', str_array [''integer'', ''null''])]),
         (''signal'', JObj [(''type'', str_array [''string'', ''null''])]),
         (''durationMs'', JObj [(''type'', JStr ''number''), (''minimum'', JInt 0)]),
         (''stdoutBytes'', JObj [(''type'', JStr ''integer''), (''minimum'', JInt 0)]),
         (''stderrBytes'', JObj [(''type'', JStr ''integer''), (''minimum'', JInt 0)]),
         (''stdoutTruncated'', JObj [(''type'', JStr ''boolean'')]),
         (''stderrTruncated'', JObj [(''type'', JStr ''boolean'')])])]"

text \<open>The files of the built-in schemas, below the directory of the installed package.\<close>

definition workerSchemaPath :: "string \<Rightarrow> string" where
  "workerSchemaPath schemas = schemas @ ''/worker-report.v1alpha1.json''"

definition commandSchemaPath :: "string \<Rightarrow> string" where
  "commandSchemaPath schemas = schemas @ ''/command-result.v1alpha1.json''"

definition builtin_loader :: "string \<Rightarrow> schema_loader" where
  "builtin_loader schemas path =
     (if path = workerSchemaPath schemas then Inr workerReportSchema
      else if path = commandSchemaPath schemas then Inr commandResultSchema
      else Inl (SchemaNotLoaded path))"

text \<open>\<open>JSON.stringify\<close>: the fields in their order; what is not JSON is dropped, or null in an array.\<close>

fun stringify :: "js \<Rightarrow> string" where
  "stringify JNull = ''null''"
| "stringify (JBool b) = (if b then ''true'' else ''false'')"
| "stringify (JInt n) = int_string n"
| "stringify JNonFinite = ''null''"
| "stringify (JStr s) = quote_json s"
| "stringify (JArr vs) = CHR ''['' # join_comma (map stringify vs) @ '']''"
| "stringify (JObj kvs) = CHR ''{'' #
     join_comma (map (\<lambda>(k, v). quote_json k @ CHR '':'' # stringify v) (filter (\<lambda>(k, v). v \<noteq> JForeign) kvs)) @ ''}''"
| "stringify JForeign = ''null''"

definition command_document_js :: "command_document \<Rightarrow> js" where
  "command_document_js c = JObj
     ((''argv'', str_array (cd_argv c)) # opt_field ''cwd'' JStr (cd_cwd c) @
      (''maxDuration'', JStr (cd_maxDuration c)) # opt_field ''maxOutputBytes'' JInt (cd_maxOutputBytes c))"

text \<open>\<open>{ maxAttempts: 1, maxDuration: "10m", ...task.attemptPolicy }\<close>\<close>

definition task_policy :: "attempt_policy_document option \<Rightarrow> int \<times> string" where
  "task_policy p =
     (case_option 1 id (Option.bind p ap_maxAttempts), case_option ''10m'' id (Option.bind p ap_maxDuration))"

definition task_workflow_js :: "string \<Rightarrow> task_document \<Rightarrow> js" where
  "task_workflow_js schemas t = JObj
     [(''apiVersion'', JStr (td_apiVersion t)), (''kind'', JStr ''Workflow''),
      (''metadata'', JObj [(''id'', JStr (wm_id (td_metadata t))), (''version'', JStr (wm_version (td_metadata t)))]),
      (''inputs'', JObj []),
      (''nodes'', JObj
        [(''implement'', JObj
           [(''kind'', JStr ''agent''), (''role'', JStr (td_role t)),
            (''mutation'', JStr (mutation_name (td_mutation t))),
            (''output'', JObj [(''schema'', JStr (workerSchemaPath schemas))]),
            (''attemptPolicy'', JObj
              [(''maxAttempts'', JInt (fst (task_policy (td_attemptPolicy t)))),
               (''maxDuration'', JStr (snd (task_policy (td_attemptPolicy t))))])]),
         (''verify'', JObj
           [(''kind'', JStr ''command''), (''needs'', str_array [''implement'']),
            (''command'', command_document_js (td_verification t)),
            (''output'', JObj [(''schema'', JStr (commandSchemaPath schemas))])])])]"

definition compileTask ::
    "string \<Rightarrow> string \<Rightarrow> (string \<Rightarrow> js option) \<Rightarrow> (js \<Rightarrow> bool) \<Rightarrow> task_document \<Rightarrow> string \<Rightarrow>
     workflow_error + workflow_definition" where
  "compileTask cwd schemas yaml compiles task sourcePath =
     bindE (parse_document yaml (stringify (task_workflow_js schemas task))) (\<lambda>doc.
     bindE (normalizeWorkflow cwd (builtin_loader schemas) compiles doc (resolve_path cwd sourcePath)) (\<lambda>d.
     Inr (d\<lparr>wf_task := Some
       \<lparr>tk_objective = td_objective task, tk_acceptanceCriteria = td_acceptanceCriteria task\<rparr>\<rparr>)))"

definition load_task_source ::
    "string \<Rightarrow> string \<Rightarrow> (string \<Rightarrow> js option) \<Rightarrow> (js \<Rightarrow> bool) \<Rightarrow> file_system \<Rightarrow> string \<Rightarrow>
     load_error + workflow_definition" where
  "load_task_source cwd schemas yaml compiles fs sourcePath =
     bindE (readSource fs sourcePath) (\<lambda>source.
     bindE (parseTaskMarkdown yaml source) (\<lambda>task.
     map_error WorkflowRejected (compileTask cwd schemas yaml compiles task sourcePath)))"

definition loadTask ::
    "string \<Rightarrow> string \<Rightarrow> (string \<Rightarrow> js option) \<Rightarrow> (js \<Rightarrow> bool) \<Rightarrow> file_system \<Rightarrow> string \<Rightarrow>
     load_error + workflow_definition" where
  "loadTask cwd schemas yaml compiles fs file =
     load_task_source cwd schemas yaml compiles fs (resolve_path cwd file)"


section \<open>Scoped loads stay below their root\<close>

definition within_root :: "string \<Rightarrow> string \<Rightarrow> bool" where
  "within_root root p \<longleftrightarrow> p = root \<or> starts_with (boundary_of root) p"

text \<open>The file system of which nothing outside the root can be inspected or read.\<close>

definition confined :: "string \<Rightarrow> file_system \<Rightarrow> file_system" where
  "confined root fs = fs
     \<lparr>fs_kind := \<lambda>p. if within_root root p then fs_kind fs p else None,
      fs_read := \<lambda>p. if within_root root p then fs_read fs p else None\<rparr>"

lemma confined_simps [simp]:
  "fs_realpath (confined root fs) = fs_realpath fs"
  "within_root root p \<Longrightarrow> fs_kind (confined root fs) p = fs_kind fs p"
  "within_root root p \<Longrightarrow> fs_read (confined root fs) p = fs_read fs p"
  by (simp_all add: confined_def)

lemma resolved_within_root: "resolveExistingChild fs root input kind = Inr p \<Longrightarrow> within_root root p"
  by (auto simp: resolveExistingChild_def within_root_def Let_def result_simps split: if_splits)

lemma confined_child [simp]:
  "resolveExistingChild (confined root fs) root input kind = resolveExistingChild fs root input kind"
  by (auto simp: resolveExistingChild_def Let_def within_root_def intro!: bindE_cong)




lemma confined_schemas [simp]:
  "scopedSchemaLoader compiles (confined root fs) root = scopedSchemaLoader compiles fs root"
proof
  fix ref
  show "scopedSchemaLoader compiles (confined root fs) root ref = scopedSchemaLoader compiles fs root ref"
    by (cases "resolveExistingChild fs root ref RegularFile")
      (simp_all add: scopedSchemaLoader_def map_error_def defaultSchemaLoader_def resolved_within_root)
qed

lemma confined_source [simp]:
  "within_root root p \<Longrightarrow> readSource (confined root fs) p = readSource fs p"
  by (simp add: readSource_def)

section \<open>The split of a task file\<close>

definition terminated :: "string list \<Rightarrow> string" where
  "terminated ls = concat (map (\<lambda>l. l @ [newline]) ls)"

lemma terminated_simps [simp]:
  "terminated [] = []" "terminated (l # ls) = l @ newline # terminated ls"
  by (simp_all add: terminated_def)

lemma index_from_line:
  assumes "newline \<notin> set l"
  shows "index_from newline (pre @ l @ newline # rest) (length pre) = Some (length pre + length l)"
proof -
  have "dropWhile (\<lambda>d. d \<noteq> newline) (l @ newline # rest) = newline # rest"
    using assms by (induction l) auto
  then show ?thesis by (simp add: index_from_def)
qed

lemma index_from_none:
  assumes "newline \<notin> set l"
  shows "index_from newline (pre @ l) (length pre) = None"
proof -
  have "dropWhile (\<lambda>d. d \<noteq> newline) l = []" using assms by (induction l) auto
  then show ?thesis by (simp add: index_from_def)
qed

lemma closing_delimiter_line:
  assumes "newline \<notin> set l"
  shows "closing_delimiter (pre @ l @ newline # rest) (length pre) =
    (if strip_cr l = ''---'' then Some (length pre, length pre + length l)
     else closing_delimiter (pre @ l @ newline # rest) (length pre + length l + 1))"
  by (subst closing_delimiter.simps) (simp add: index_from_line [OF assms] slice_text_def)

lemma closing_delimiter_found:
  assumes "\<forall>l \<in> set ls. newline \<notin> set l \<and> strip_cr l \<noteq> ''---''"
    and "newline \<notin> set c" and "strip_cr c = ''---''"
  shows "closing_delimiter (pre @ terminated ls @ c @ newline # body) (length pre) =
    Some (length pre + length (terminated ls), length pre + length (terminated ls) + length c)"
  using assms(1)
proof (induction ls arbitrary: pre)
  case Nil
  then show ?case using closing_delimiter_line [OF assms(2)] assms(3) by simp
next
  case (Cons l ls)
  then show ?case
    using closing_delimiter_line [of l pre "terminated ls @ c @ newline # body"]
      Cons.IH [of "pre @ l @ [newline]"] by simp
qed

lemma closing_delimiter_missing:
  assumes "\<forall>l \<in> set ls. newline \<notin> set l \<and> strip_cr l \<noteq> ''---''" and "newline \<notin> set rest"
  shows "closing_delimiter (pre @ terminated ls @ rest) (length pre) = None"
  using assms(1)
proof (induction ls arbitrary: pre)
  case Nil
  then show ?case using index_from_none [OF assms(2)] by (subst closing_delimiter.simps) simp
next
  case (Cons l ls)
  then show ?case
    using closing_delimiter_line [of l pre "terminated ls @ rest"]
      Cons.IH [of "pre @ l @ [newline]"] by simp
qed

text \<open>
  A task file is its first line, the YAML up to the first later delimiter line, and the objective,
  which may hold delimiter lines of its own; without a second delimiter it is refused.
\<close>

lemma task_split:
  assumes "newline \<notin> set d" and "strip_cr d = ''---''" and "newline \<notin> set c" and "strip_cr c = ''---''"
    and "\<forall>l \<in> set ls. newline \<notin> set l \<and> strip_cr l \<noteq> ''---''"
  shows "parseTaskMarkdown yaml (d @ newline # terminated ls @ c @ newline # body) =
    task_of yaml (terminated ls) body"
  using index_from_line [OF assms(1), of "[]"]
    closing_delimiter_found [OF assms(5,3,4), of "d @ [newline]"] assms(2)
  by (simp add: parseTaskMarkdown_def slice_text_def)

lemma task_unterminated:
  assumes "newline \<notin> set d" and "newline \<notin> set rest"
    and "\<forall>l \<in> set ls. newline \<notin> set l \<and> strip_cr l \<noteq> ''---''"
  shows "parseTaskMarkdown yaml (d @ newline # terminated ls @ rest) = Inl FrontMatterRequired"
  using index_from_line [OF assms(1), of "[]"]
    closing_delimiter_missing [OF assms(3,2), of "d @ [newline]"]
  by (simp add: parseTaskMarkdown_def)

section \<open>The compiled workflow\<close>

text \<open>The document that \<open>compileTask\<close> authors, as the schema reads it.\<close>

definition task_workflow :: "string \<Rightarrow> task_document \<Rightarrow> workflow_document" where
  "task_workflow schemas t =
     \<lparr>wd_apiVersion = td_apiVersion t, wd_kind = ''Workflow'', wd_metadata = td_metadata t, wd_inputs = [],
      wd_defaultAttemptBudget = None,
      wd_nodes =
        [(''implement'',
          \<lparr>wn_kind = AgentNode, wn_needs = None, wn_role = Some (td_role t),
           wn_output = workerSchemaPath schemas,
           wn_attemptPolicy = Some \<lparr>ap_maxAttempts = Some (fst (task_policy (td_attemptPolicy t))),
                                    ap_maxDuration = Some (snd (task_policy (td_attemptPolicy t)))\<rparr>,
           wn_mutation = Some (td_mutation t), wn_command = None\<rparr>),
         (''verify'',
          \<lparr>wn_kind = CommandNode, wn_needs = Some [''implement''], wn_role = None,
           wn_output = commandSchemaPath schemas, wn_attemptPolicy = None, wn_mutation = None,
           wn_command = Some (td_verification t)\<rparr>)]\<rparr>"

lemma mutation_name_read: "mutation_dec (JStr (mutation_name m)) = Some m"
  by (cases m) (simp_all add: mutation_dec_def enum_js_def str_def mutation_name_def
      Store_Decode.mutation_name_def)

lemma str_array_read: "arr str (str_array xs) = Some xs"
  by (induction xs) (auto simp: arr_def str_array_def str_def)

lemma command_document_read: "command_document_dec (command_document_js c) = Some c"
  by (cases c) (simp add: command_document_dec_def command_document_js_def opt_field_def obj_def req_def
      opt_def num_def str_def str_array_read split: option.splits)

lemma policy_read:
  "policy_document_dec (JObj [(''maxAttempts'', JInt n), (''maxDuration'', JStr d)]) =
     Some \<lparr>ap_maxAttempts = Some n, ap_maxDuration = Some d\<rparr>"
  by (simp add: policy_document_dec_def obj_def opt_def num_def str_def)

lemma kind_read:
  "node_kind_dec (JStr ''agent'') = Some AgentNode" "node_kind_dec (JStr ''command'') = Some CommandNode"
  by (simp_all add: node_kind_dec_def enum_js_def str_def node_kind_name_def)

lemma task_workflow_read: "workflow_document_dec (task_workflow_js schemas t) = Some (task_workflow schemas t)"
  by (simp add: workflow_document_dec_def task_workflow_js_def task_workflow_def node_document_dec_def
      schema_reference_dec_def metadata_dec_def dict_dec_def any_obj_def obj_def req_def opt_def str_def
      mutation_name_read str_array_read command_document_read policy_read kind_read)

lemma task_parsed:
  assumes "yaml (stringify (task_workflow_js schemas t)) = Some (task_workflow_js schemas t)"
  shows "parse_document yaml (stringify (task_workflow_js schemas t)) =
    check_workflow_document (task_workflow schemas t)"
  by (simp add: parse_document_def parseWorkflowYaml_def assms task_workflow_read)

lemma parsed_task_valid:
  "parseTaskMarkdown yaml source = Inr t \<Longrightarrow> valid_task_front t \<and> td_objective t \<noteq> []"
  by (auto simp: parseTaskMarkdown_def task_of_def Let_def result_simps valid_task_front_def
      task_front.defs split: option.splits if_splits prod.splits)

lemma builtin_objects: "\<forall>p v. builtin_loader schemas p = Inr v \<longrightarrow> is_object v"
  by (auto simp: builtin_loader_def is_object_def workerReportSchema_def commandResultSchema_def
      split: if_splits)

lemma schema_paths [simp]:
  "workerSchemaPath schemas \<noteq> commandSchemaPath schemas"
  "commandSchemaPath schemas \<noteq> workerSchemaPath schemas"
  "workerSchemaPath schemas \<noteq> []" "commandSchemaPath schemas \<noteq> []"
  by (simp_all add: workerSchemaPath_def commandSchemaPath_def)

lemma absolute_reference:
  assumes "isAbsolute p"
  shows "resolveSchemaPath src p = Inr p"
proof -
  have "\<not> is_alpha (CHR ''/'')" by (simp add: is_alpha_def is_alnum_def is_digit_def)
  then show ?thesis using assms by (auto simp: resolveSchemaPath_def is_remote_reference_def isAbsolute_def)
qed

lemma builtin_loaded:
  assumes "isAbsolute schemas" and "compiles workerReportSchema" and "compiles commandResultSchema"
  shows "load_schema (builtin_loader schemas) compiles src (workerSchemaPath schemas) =
      Inr \<lparr>sc_ref = workerSchemaPath schemas, sc_schema = workerReportSchema\<rparr>"
    and "load_schema (builtin_loader schemas) compiles src (commandSchemaPath schemas) =
      Inr \<lparr>sc_ref = commandSchemaPath schemas, sc_schema = commandResultSchema\<rparr>"
proof -
  have "isAbsolute (workerSchemaPath schemas)" "isAbsolute (commandSchemaPath schemas)"
    using assms(1) by (auto simp: isAbsolute_def workerSchemaPath_def commandSchemaPath_def)
  then show "load_schema (builtin_loader schemas) compiles src (workerSchemaPath schemas) =
      Inr \<lparr>sc_ref = workerSchemaPath schemas, sc_schema = workerReportSchema\<rparr>"
    and "load_schema (builtin_loader schemas) compiles src (commandSchemaPath schemas) =
      Inr \<lparr>sc_ref = commandSchemaPath schemas, sc_schema = commandResultSchema\<rparr>"
    using assms by (auto simp: load_schema_def absolute_reference builtin_loader_def result_simps)
qed

lemma task_workflow_edges: "acyclic (dependency_edges (task_workflow schemas t))"
proof -
  have "dependency_edges (task_workflow schemas t) \<subseteq> {(''verify'', ''implement'')}"
    by (auto simp: dependency_edges_def node_needs_def task_workflow_def needs_of_def split: if_splits)
  moreover have "acyclic {(''verify'', ''implement'')}"
    using acyclic_insert [of "''verify''" "''implement''" "{}"] by (simp add: acyclic_def)
  ultimately show ?thesis by (rule acyclic_subset [rotated])
qed

lemma task_policy_valid:
  assumes "pred_option valid_policy_document p"
  shows "1 \<le> fst (task_policy p) \<and> valid_duration (snd (task_policy p))"
proof -
  have "valid_duration ''10m''" by code_simp
  with assms show ?thesis
    by (cases p) (auto simp: task_policy_def valid_policy_document_def split: option.splits)
qed

lemma task_workflow_valid:
  assumes "valid_task_front t"
  shows "valid_workflow_document (task_workflow schemas t)"
proof -
  have "valid_node_name ''implement''" "valid_node_name ''verify''" by code_simp+
  with assms task_policy_valid [of "td_attemptPolicy t"] show ?thesis
    by (simp add: valid_workflow_document_def task_workflow_def valid_task_front_def
        valid_node_document_def valid_policy_document_def)
qed

lemma task_workflow_issues:
  "concat (map (\<lambda>(nid, nd). node_issues (task_workflow schemas t) nid nd)
     (wd_nodes (task_workflow schemas t))) =
   (if pred_option (\<lambda>c. \<not> cwd_escapes c) (cd_cwd (td_verification t)) then []
    else [CwdOutsideWorkspace ''verify''])"
  by (simp add: task_workflow_def node_issues_def dependency_issues_def has_node_def needs_of_def
      split: option.split)

lemma task_workflow_checked:
  assumes "valid_task_front t"
  shows "check_workflow_document (task_workflow schemas t) =
    (if pred_option (\<lambda>c. \<not> cwd_escapes c) (cd_cwd (td_verification t)) then Inr (task_workflow schemas t)
     else Inl (WorkflowIssues [CwdOutsideWorkspace ''verify'']))"
proof -
  let ?is = "concat (map (\<lambda>(nid, nd). node_issues (task_workflow schemas t) nid nd)
     (wd_nodes (task_workflow schemas t)))"
  have "semantic_issues (task_workflow schemas t) = Inr ?is"
    using task_workflow_edges by (metis semantic_issues_cases append_Nil2)
  then show ?thesis
    unfolding check_workflow_document_def assertSemanticValidity_def task_workflow_issues
    using task_workflow_valid [OF assms] by (simp add: check_def unique_first_def set_add_def)
qed

text \<open>What a task compiles to: an agent, then an independent command that needs it.\<close>

definition task_definition ::
    "string \<Rightarrow> task_document \<Rightarrow> string \<Rightarrow> int \<Rightarrow> int \<Rightarrow> workflow_definition" where
  "task_definition schemas t sourcePath workerMs commandMs =
     \<lparr>wf_apiVersion = td_apiVersion t, wf_kind = ''Workflow'', wf_metadata = td_metadata t,
      wf_sourcePath = sourcePath, wf_inputs = [],
      wf_defaultAttemptBudget = \<lparr>ab_maxAttempts = 1, ab_maxDurationMs = None\<rparr>,
      wf_nodeOrder = [''implement'', ''verify''],
      wf_nodes =
        [(''implement'',
          \<lparr>nd_id = ''implement'', nd_kind = AgentNode, nd_needs = [], nd_role = Some (td_role t),
           nd_output = \<lparr>sc_ref = workerSchemaPath schemas, sc_schema = workerReportSchema\<rparr>,
           nd_attemptBudget = \<lparr>ab_maxAttempts = fst (task_policy (td_attemptPolicy t)),
                               ab_maxDurationMs = Some workerMs\<rparr>,
           nd_mutation = Some (td_mutation t), nd_command = None\<rparr>),
         (''verify'',
          \<lparr>nd_id = ''verify'', nd_kind = CommandNode, nd_needs = [''implement''], nd_role = None,
           nd_output = \<lparr>sc_ref = commandSchemaPath schemas, sc_schema = commandResultSchema\<rparr>,
           nd_attemptBudget = \<lparr>ab_maxAttempts = 1, ab_maxDurationMs = None\<rparr>,
           nd_mutation = None,
           nd_command = Some
             \<lparr>cm_argv = cd_argv (td_verification t),
              cm_cwd = case_option ''.'' id (cd_cwd (td_verification t)), cm_maxDurationMs = commandMs,
              cm_maxOutputBytes = case_option 1048576 id (cd_maxOutputBytes (td_verification t))\<rparr>\<rparr>)],
      wf_task = Some
        \<lparr>tk_objective = td_objective t, tk_acceptanceCriteria = td_acceptanceCriteria t\<rparr>\<rparr>"

lemma task_normalized:
  assumes "isAbsolute schemas" and "compiles workerReportSchema" and "compiles commandResultSchema"
  shows "normalizeWorkflow cwd (builtin_loader schemas) compiles (task_workflow schemas t) path =
    bindE (duration_ms (snd (task_policy (td_attemptPolicy t)))) (\<lambda>workerMs.
    bindE (duration_ms (cd_maxDuration (td_verification t))) (\<lambda>commandMs.
    Inr ((task_definition schemas t (resolve_path cwd path) workerMs commandMs)\<lparr>wf_task := None\<rparr>)))"
  using builtin_loaded [OF assms]
  by (cases "duration_ms (snd (task_policy (td_attemptPolicy t)))";
      cases "duration_ms (cd_maxDuration (td_verification t))")
    (simp_all add: normalizeWorkflow_def Let_def task_workflow_def normalizeBudget_def normalize_node_def
      durationToMilliseconds_def needs_of_def normalize_command_def task_definition_def)

lemma accepted_with_task:
  assumes "assertWorkflowDefinition compiles d = Inr ()" and "valid_task tk"
  shows "assertWorkflowDefinition compiles (d\<lparr>wf_task := Some tk\<rparr>) = Inr ()"
proof -
  have "definition_document (d\<lparr>wf_task := Some tk\<rparr>) = definition_document d"
    by (simp add: definition_document_def)
  then show ?thesis
    using assms by (simp add: assertWorkflowDefinition_def valid_workflow_definition_def result_simps)
qed

lemma task_document_keys: "distinct (map fst (wd_nodes (task_workflow schemas t)))"
  by (simp add: task_workflow_def)

section \<open>Properties\<close>

text \<open>
  C24: a task that was read compiles to exactly one workflow: an agent with the task's role and
  mutation, at most the task's attempts and duration (one attempt and ten minutes when it says
  nothing), and an independent command that needs it; the only refusals are a command directory
  outside the workspace and a duration beyond the range of a timer. What is compiled is accepted by
  the validation of persisted definitions. The YAML parser reads the JSON text of the authored document
  as that document, and AJV compiles the two built-in schemas.
\<close>

theorem compiled_task_exact:
  assumes parsed: "parseTaskMarkdown yaml source = Inr t"
    and reads: "yaml (stringify (task_workflow_js schemas t)) = Some (task_workflow_js schemas t)"
    and schemas: "isAbsolute schemas" "compiles workerReportSchema" "compiles commandResultSchema"
  shows "compileTask cwd schemas yaml compiles t path =
      (if pred_option (\<lambda>c. \<not> cwd_escapes c) (cd_cwd (td_verification t)) then
         bindE (duration_ms (snd (task_policy (td_attemptPolicy t)))) (\<lambda>workerMs.
         bindE (duration_ms (cd_maxDuration (td_verification t))) (\<lambda>commandMs.
         Inr (task_definition schemas t (resolve_path cwd (resolve_path cwd path)) workerMs commandMs)))
       else Inl (WorkflowIssues [CwdOutsideWorkspace ''verify''])) \<and>
    (\<forall>d. compileTask cwd schemas yaml compiles t path = Inr d \<longrightarrow>
       assertWorkflowDefinition compiles d = Inr ())"
proof -
  from parsed_task_valid [OF parsed] have valid: "valid_task_front t" "td_objective t \<noteq> []" by auto
  note checked = task_workflow_checked [OF valid(1), of schemas]
  note compile = compileTask_def task_parsed [where yaml = yaml, OF reads] checked
  have "compileTask cwd schemas yaml compiles t path =
      (if pred_option (\<lambda>c. \<not> cwd_escapes c) (cd_cwd (td_verification t)) then
         bindE (duration_ms (snd (task_policy (td_attemptPolicy t)))) (\<lambda>workerMs.
         bindE (duration_ms (cd_maxDuration (td_verification t))) (\<lambda>commandMs.
         Inr (task_definition schemas t (resolve_path cwd (resolve_path cwd path)) workerMs commandMs)))
       else Inl (WorkflowIssues [CwdOutsideWorkspace ''verify'']))"
    by (cases "duration_ms (snd (task_policy (td_attemptPolicy t)))";
        cases "duration_ms (cd_maxDuration (td_verification t))")
      (simp_all add: compile task_normalized [OF schemas] task_definition_def)
  moreover have "assertWorkflowDefinition compiles d = Inr ()"
    if d: "compileTask cwd schemas yaml compiles t path = Inr d" for d
  proof -
    obtain d0 where norm: "normalizeWorkflow cwd (builtin_loader schemas) compiles
        (task_workflow schemas t) (resolve_path cwd path) = Inr d0"
      and ok: "check_workflow_document (task_workflow schemas t) = Inr (task_workflow schemas t)"
      and eq: "d = d0\<lparr>wf_task := Some
        \<lparr>tk_objective = td_objective t, tk_acceptanceCriteria = td_acceptanceCriteria t\<rparr>\<rparr>"
      using d by (auto simp: compile result_simps split: if_splits)
    have "assertWorkflowDefinition compiles d0 = Inr ()"
      by (rule normalized_definition_accepted [OF norm builtin_objects ok task_document_keys])
    then show ?thesis
      unfolding eq using valid by (intro accepted_with_task) (simp_all add: valid_task_def valid_task_front_def)
  qed
  ultimately show ?thesis by simp
qed

text \<open>A task file whose YAML front matter is, for the sample, one line that the parser knows.\<close>

definition sample_front :: js where
  "sample_front = JObj
     [(''apiVersion'', JStr ''anastom.dev/v1alpha1''), (''kind'', JStr ''Task''),
      (''metadata'', JObj [(''id'', JStr ''demo/t''), (''version'', JStr ''0.1.0'')]),
      (''role'', JStr ''r''), (''workspace'', JObj [(''mutation'', JStr ''isolated'')]),
      (''acceptanceCriteria'', JArr [JStr ''c'']),
      (''verification'', JObj [(''argv'', JArr [JStr ''t'']), (''maxDuration'', JStr ''30s'')])]"

definition sample_task :: task_document where
  "sample_task =
     \<lparr>td_apiVersion = ''anastom.dev/v1alpha1'', td_kind = ''Task'',
      td_metadata = \<lparr>wm_id = ''demo/t'', wm_version = ''0.1.0''\<rparr>, td_role = ''r'',
      td_mutation = IsolatedMutation, td_acceptanceCriteria = [''c''],
      td_verification = \<lparr>cd_argv = [''t''], cd_cwd = None, cd_maxDuration = ''30s'', cd_maxOutputBytes = None\<rparr>,
      td_attemptPolicy = None, td_objective = ''Do it''\<rparr>"

definition sample_front_line :: string where
  "sample_front_line = ''front'' @ [newline]"

definition sample_task_file :: string where
  "sample_task_file = ''---'' @ newline # sample_front_line @ ''---'' @ newline # ''Do it'' @ [newline]"

definition sample_yaml :: "string \<Rightarrow> js option" where
  "sample_yaml s =
     (if s = sample_front_line then Some sample_front
      else if s = stringify (task_workflow_js ''/s'' sample_task) then Some (task_workflow_js ''/s'' sample_task)
      else None)"

lemma sample_task_parsed: "parseTaskMarkdown sample_yaml sample_task_file = Inr sample_task"
  by code_simp

lemma sample_task_reads:
  "sample_yaml (stringify (task_workflow_js ''/s'' sample_task)) = Some (task_workflow_js ''/s'' sample_task)"
proof -
  have "stringify (task_workflow_js ''/s'' sample_task) \<noteq> sample_front_line"
    by (simp add: task_workflow_js_def sample_front_line_def)
  then show ?thesis by (simp add: sample_yaml_def)
qed

theorem compiled_task_exact_witness:
  "\<exists>d. compileTask ''/w'' ''/s'' sample_yaml (\<lambda>_. True) sample_task ''t.md'' = Inr d \<and>
     assertWorkflowDefinition (\<lambda>_. True) d = Inr () \<and> wf_nodeOrder d = [''implement'', ''verify'']"
proof -
  have "duration_ms (snd (task_policy (td_attemptPolicy sample_task))) = Inr 600000"
    "duration_ms (cd_maxDuration (td_verification sample_task)) = Inr 30000"
    "cd_cwd (td_verification sample_task) = None"
    by code_simp+
  with compiled_task_exact [OF sample_task_parsed sample_task_reads, of "\<lambda>_. True" "''/w''" "''t.md''"]
  show ?thesis by (simp add: isAbsolute_def task_definition_def)
qed




end
