(* ===== verification/Spec2Isabelle.thy ===== *)
theory Spec2Isabelle
  imports Run_Properties Workflow_Properties Store_Properties Json_Properties Sqlite_Properties
    Coordinator_Properties Supervisor_Properties Runtime_Host Authored_Documents
begin

text \<open>
  Anastom runs workflows of agents, commands and verifiers and keeps every run as an event history.
  This library models its core as shallow definitions over the TypeScript sources under
  \<open>src/packages\<close> and proves what makes it correct. This theory is its root: it imports every
  other theory and documents the whole.

  \<^bold>\<open>The program\<close>

  A workflow, or a task that compiles to one, is parsed, validated and normalized (\<open>core\<close>). A run is a history of events; a reducer
  folds the history to the state of the run and rejects illegal transitions
  (\<open>engine/src/events.ts\<close>), a scheduler reads off the state which nodes may run
  (\<open>engine/src/scheduler.ts\<close>). Durable runs live in a store that fences the processes that compete
  for a run with leases (\<open>engine/src/durable-store.ts\<close> is the contract and the in-memory reference,
  \<open>persistence/src/durable-store.ts\<close> the SQLite implementation). A coordinator owns a run under a
  lease: it asks the scheduler what to do, commits each transition before it acts on it, has
  executions prepared, authorized, observed and terminated by an execution host, and recovers runs
  that another coordinator left behind (\<open>engine/src/durable-coordinator.ts\<close>,
  \<open>engine/src/durable-session.ts\<close>, \<open>engine/src/execution-host.ts\<close>, \<open>engine/src/context.ts\<close>).
  The execution host gives each execution a supervisor, a process of its own that outlives the
  coordinator: it waits for an authority that the coordinator has stored, launches an isolated worker,
  retains what the worker observes, and leaves a terminal record that says whether the worker is gone
  (\<open>execution-host/src\<close>). Client and supervisor meet over private files and framed messages.

  \<^bold>\<open>Theories and code\<close>

  \<^item> \<open>Js_Prelude\<close>: results that may be errors (\<open>bindE\<close>, \<open>check\<close>, \<open>foldE\<close>), dictionaries in
    insertion order, the order of the own keys of an object, digests, identifiers, safe integers.
  \<^item> \<open>Json_Canonical\<close>, \<open>Json_Parse\<close>, \<open>Json_Properties\<close>: \<open>core/src/canonical.ts\<close> and the
    \<open>JSON.parse\<close> that reads its output back.
  \<^item> \<open>Contract_Types\<close>, \<open>Event_Validation\<close>, \<open>Execution_Requests\<close>: \<open>runtime-contract/src/index.ts\<close>
    and \<open>validation.ts\<close>, \<open>engine/src/event-validation.ts\<close>.
  \<^item> \<open>Run_State\<close>, \<open>Run_Reducer\<close>, \<open>Run_Replay\<close>: \<open>engine/src/events.ts\<close>, one definition per handler
    (\<open>applyAttemptScheduled\<close> is \<open>case "AttemptScheduled"\<close>, and so on). \<open>Reducer_Rules\<close> says when
    each handler accepts, \<open>Node_Lifecycle\<close> is the abstract state machine of a node that the reducer
    refines, \<open>Reducer_Invariants\<close>, \<open>Run_History\<close> and \<open>Run_Evolution\<close> hold the invariants,
    \<open>Run_Samples\<close> the concrete histories, \<open>Run_Properties\<close> the properties.
  \<^item> \<open>Workflow_Types\<close>, \<open>Workflow_Graph\<close>, \<open>Workflow_Duration\<close>, \<open>Workflow_Normalize\<close>, \<open>Scheduler\<close>:
    \<open>core/src/workflow.ts\<close>, \<open>definition.ts\<close>, \<open>types.ts\<close> and \<open>engine/src/scheduler.ts\<close>;
    \<open>Workflow_Search\<close> proves the cycle search, \<open>Workflow_Roundtrip\<close> the normalization.
  \<^item> \<open>Authored_Documents\<close>: \<open>path-policy/src/index.ts\<close>, the loaders of \<open>core/src/workflow.ts\<close>, and
    \<open>core/src/task.ts\<close>: task files, their front matter, and the workflow they compile to.
  \<^item> \<open>Event_Json\<close>, \<open>Event_Decode\<close>, \<open>Store_Decode\<close>, \<open>Event_Roundtrip\<close>: the JSON form of typed data
    and its decoders, which stand for the JSON schemas.
  \<^item> \<open>Store_Types\<close>, \<open>Memory_Store\<close>: \<open>engine/src/durable-store.ts\<close>. \<open>Store_Rules\<close> describes each
    operation as a change of one run, \<open>Store_Invariants\<close> holds the invariants, \<open>Store_Contract\<close> the
    fencing contract as a locale that both stores interpret.
  \<^item> \<open>Sqlite_Tables\<close>, \<open>Sqlite_Store\<close>: the tables, keys, checks and trigger of
    \<open>persistence/migrations/0001-run-store.sql\<close> and \<open>persistence/src/durable-store.ts\<close> over them;
    the other \<open>Sqlite\<close> theories prove that it refines the in-memory store.
  \<^item> \<open>Execution_Launch\<close>, \<open>Owned_Session\<close>, \<open>Coordinator_Steps\<close>, \<open>Coordinator_Execution\<close>,
    \<open>Durable_Coordinator\<close>: the coordinator, one definition per method.
    \<open>Coordinator_Rules\<close> and \<open>Coordinator_Invariants\<close> lift an invariant of the primitive steps to
    every method, \<open>Coordinator_Commits\<close> says what a commit does, \<open>Coordinator_Durability\<close>,
    \<open>Coordinator_Entry\<close>, \<open>Coordinator_Returns\<close>, \<open>Attempt_Counts\<close>, \<open>Coordinator_Recovery\<close> and
    \<open>Coordinator_Progress\<close> prove durability, what is returned, budgets, the safety of recovery and
    termination; \<open>Coordinator_Samples\<close> is a scripted world for \<open>Coordinator_Properties\<close>.
  \<^item> \<open>Byte_Strings\<close>, \<open>Protocol_Frames\<close>, \<open>Supervisor_Protocol\<close>: \<open>execution-host/src/protocol.ts\<close>,
    its frames, records, messages and validators; \<open>Record_Roundtrip\<close> reads back what is written,
    \<open>Parsed_Values\<close> says what can be read at all and how large it is.
  \<^item> \<open>Supervisor_Events\<close>, \<open>Supervisor_Settlement\<close>, \<open>Supervisor_Steps\<close>: \<open>execution-host/src/supervisor.ts\<close>,
    the retained log, the terminal record, and the supervisor as a step relation.
    \<open>Supervisor_Safety\<close>, \<open>Supervisor_Evidence\<close> and \<open>Supervisor_Polling\<close> hold its invariants.
  \<^item> \<open>Process_Identity\<close>, \<open>Local_Execution_Host\<close>, \<open>Runtime_Host\<close>: \<open>process.ts\<close>,
    \<open>index.ts\<close>, the begin of \<open>supervisor.ts\<close>, and \<open>runtime-host.ts\<close> of the same package.
    \<open>Supervisor_Samples\<close> is a concrete supervisor for \<open>Supervisor_Properties\<close>.

  \<^bold>\<open>How the code is rendered\<close>

  Exceptions are the left values of a sum whose error type has a constructor for each kind of error
  the code distinguishes; messages are kept where the code computes with them. Numbers are \<open>int\<close>,
  with \<open>is_safe_integer\<close> where the code asks for it. Strings are lists of code units below 256.
  Objects are association lists in insertion order, listed in the order JavaScript lists own keys.
  Typed values stand for values that passed the type part of their schema; the value constraints of
  the schemas are definitions (\<open>valid_payload\<close>, \<open>assertExecutionRequest\<close>). SHA-256, compiling and
  running JSON schemas, YAML, schema files and the collation of the locale are parameters
  (\<open>store_env\<close> and arguments). The clock is an argument of each store operation.

  An operation of a store takes the store and returns an error or the new store with its result; a
  failed operation changes nothing. SQLite tables are lists of rows in the order of their primary
  key with their constraints written out, and a violated constraint is the error that the code maps
  it to.

  A coordinator is a computation \<open>('w, 'a) act\<close> over a \<open>machine\<close>: the outside world \<open>'w\<close>, the
  store, the owned session, and \<open>mx_calls\<close>, a record of the calls to the execution host and of the
  commits that no operation reads. The injected interfaces are the functions of the record
  \<open>coordinator\<close>, and nothing is assumed of them unless a theorem says so. Around every awaited call
  \<open>ambient\<close> lets the world act: other processes operate on the store in any way, and the heartbeat
  renews the lease or fails. \<open>None\<close> is a computation that never returns. The two loops
  (\<open>coordinateRunning\<close>, \<open>drive_loop\<close>) are \<open>partial_function (option)\<close>; that the scheduling loop
  returns is proved in \<open>Coordinator_Progress\<close>. The coordinator works on the in-memory store, which
  the SQLite store refines.

  The functions of the supervisor are suspended at their awaits. Its state has a program counter for
  each of them, and a step of the relation \<open>step\<close> resumes one and runs it to its next await; a write
  to a file is pending until a step replaces the file, and may fail before or after. Between steps the
  worker runs, the authority is stored by anyone with any bytes, and the supervisor may die. A count of
  the worker's processes may be wrong in one direction only: it never says that live processes are
  gone. What the supervisor waits for without a bound may never come; a timeout is a step that is always
  possible. The client's methods are functions of what they read, probe and are answered, and the
  properties say at which states of the supervisor that was.

  The depth-first search of the validator has fuel \<open>dfs_fuel\<close>, the number of nodes plus one, which
  bounds the length of a path without repetition; \<open>JSON.parse\<close> has the length of its text as fuel,
  since every recursive call consumes a character. Both are proved to be enough.

  \<^bold>\<open>What is shown\<close>

  The properties are the theorems whose text starts with C and a number. In short: histories are
  numbered without gaps, can be cut and resumed, and end for good; nodes follow the lifecycle
  machine, attempts are numbered, single and timed out faithfully; validation reports exactly the
  invalid workflows and real cycles, normalization is a round trip, a task compiles to an agent and an
  independent verifier, a scoped load reads nothing outside its root, the scheduler never stalls;
  a superseded owner never writes, takeover needs expiry and observed absence, commits are
  idempotent, controls are acknowledged by the history; what is stored reads back, and SQLite
  refines memory; a coordinator starts nothing that is not stored as authorized, launches nothing
  after recovery before the old execution is known to be gone, returns stored states, keeps budgets
  and returns; a supervisor launches nothing without the stored authority, an execution that its client
  reports absent or terminated has no live worker, polls miss no required observation, and the result
  that the worker wrote is the one that is collected.

  Absence without a terminal record needs one condition: \<open>inspect\<close> reads the manifest before it probes
  the supervisor, and \<open>stale_inspection\<close> is a run in which a supervisor that launches its worker and
  dies in between is reported absent.

  Where a property of coordinators allows for a replayed commit: the session does not look at
  whether the store appended its events or took the commit for the replay of an older one with the
  same operation id. Operation ids are random UUIDs, so that this does not happen; the model lets
  them be anything and keeps the exception visible.

  \<^bold>\<open>Not modelled\<close>

  \<^item> Lock contention of SQLite (\<open>busy\<close>), transactions on disk and migrations: the model has the
    result of a transaction that committed or failed as a whole.
  \<^item> A call that is abandoned because the heartbeat failed takes effect before its guard throws; the
    code lets it finish in the background.
  \<^item> Of the execution host the sockets and their queue, the durations of timeouts, signals and the
    spawning of processes, the inspection of processes on macOS, and the private directories; the
    coordinator meets the host as an injected interface, so that its properties hold for any host.
    The leader's process group stands for the worker; a command has a group of its own besides.
  \<^item> The runtime adapters, git workspaces, the artifact files and the ownership of private directories,
    which are input and output. A load sees one state of the file system: a file exchanged between the
    check of its path and its reading is outside the model.
  \<^item> The in-process engine of the first milestone, the command line and the scripts.
\<close>

end
